(* ===== verification/Prelude.thy ===== *)
theory Prelude
  imports Main "HOL-Library.Word" "HOL-Library.Product_Lexorder" "HOL-Library.Sublist"
begin

text \<open>
  Shared vocabulary of the development: identities, timestamps and bytes as the Rust code
  has them, the result type (\<open>'e + 'a\<close>, \<open>Inl\<close> is \<open>Err\<close>, \<open>Inr\<close> is \<open>Ok\<close>) with the sequencing
  and traversal the \<open>?\<close> operator and the \<open>for\<close> loops of the code perform, the big-endian byte
  views of machine words, and the generic lemmas the component theories use.
\<close>

section \<open>Identities, time and bytes\<close>

text \<open>
  A \<open>Uuid\<close> is 128 bits and is ordered as its big-endian bytes are, that is as an unsigned
  number. An \<open>OffsetDateTime\<close> is an instant; it is represented by its distance from the Unix
  epoch in nanoseconds, which is what the comparison of two such values compares.
\<close>

type_synonym byte = "8 word"
type_synonym uuid = "128 word"
type_synonym instant = int

section \<open>Theorem collections\<close>

named_theorems result_simps \<open>equations of the result combinators\<close>
named_theorems code_roundtrip \<open>parsing a stable product code gives back the value it names\<close>
named_theorems store_intros \<open>introduction rules for store invariants\<close>

section \<open>Results\<close>

definition rbind :: "'e + 'a \<Rightarrow> ('a \<Rightarrow> 'e + 'b) \<Rightarrow> 'e + 'b" where
  "rbind m f = (case m of Inl e \<Rightarrow> Inl e | Inr x \<Rightarrow> f x)"

definition map_err :: "('e \<Rightarrow> 'f) \<Rightarrow> 'e + 'a \<Rightarrow> 'f + 'a" where
  "map_err h m = (case m of Inl e \<Rightarrow> Inl (h e) | Inr x \<Rightarrow> Inr x)"

definition ok_or :: "'e \<Rightarrow> 'a option \<Rightarrow> 'e + 'a" where
  "ok_or e m = (case m of None \<Rightarrow> Inl e | Some x \<Rightarrow> Inr x)"

definition ensure :: "bool \<Rightarrow> 'e \<Rightarrow> 'e + unit" where
  "ensure b e = (if b then Inr () else Inl e)"

fun traverse :: "('a \<Rightarrow> 'e + 'b) \<Rightarrow> 'a list \<Rightarrow> 'e + 'b list" where
  "traverse f [] = Inr []"
| "traverse f (x # xs) = rbind (f x) (\<lambda>y. rbind (traverse f xs) (\<lambda>ys. Inr (y # ys)))"

text \<open>A loop over a list that threads a state and stops at the first error.\<close>

fun fold_res :: "('a \<Rightarrow> 's \<Rightarrow> 'e + 's) \<Rightarrow> 'a list \<Rightarrow> 's \<Rightarrow> 'e + 's" where
  "fold_res f [] s = Inr s"
| "fold_res f (x # xs) s = rbind (f x s) (fold_res f xs)"

text \<open>Sequencing two steps that thread a state, the second only after the first succeeded.\<close>

definition then_do :: "('e + 'a) \<times> 'w \<Rightarrow> ('a \<Rightarrow> 'w \<Rightarrow> ('e + 'b) \<times> 'w) \<Rightarrow> ('e + 'b) \<times> 'w" where
  "then_do m f = (case m of (Inl e, w) \<Rightarrow> (Inl e, w) | (Inr a, w) \<Rightarrow> f a w)"

definition is_ok :: "'e + 'a \<Rightarrow> bool" where
  "is_ok m = (case m of Inl _ \<Rightarrow> False | Inr _ \<Rightarrow> True)"

section \<open>Big-endian byte views\<close>

text \<open>\<open>to_be_bytes\<close> of an \<open>n\<close>-byte unsigned integer, and \<open>from_be_bytes\<close>.\<close>

definition byte_of :: "nat \<Rightarrow> byte" where
  "byte_of n = word_of_nat n"

fun be_bytes :: "nat \<Rightarrow> nat \<Rightarrow> byte list" where
  "be_bytes 0 v = []"
| "be_bytes (Suc n) v = be_bytes n (v div 256) @ [byte_of v]"

definition be_value :: "byte list \<Rightarrow> nat" where
  "be_value bs = foldl (\<lambda>acc b. acc * 256 + unat b) 0 bs"

section \<open>Result lemmas\<close>

lemma rbind_Inl [simp]: "rbind (Inl e) f = Inl e"
  by (simp add: rbind_def)

lemma rbind_Inr [simp]: "rbind (Inr x) f = f x"
  by (simp add: rbind_def)

lemma rbind_eq_Inr [result_simps]: "rbind m f = Inr y \<longleftrightarrow> (\<exists>x. m = Inr x \<and> f x = Inr y)"
  by (cases m) auto

lemma rbind_eq_Inl [result_simps]:
  "rbind m f = Inl e \<longleftrightarrow> m = Inl e \<or> (\<exists>x. m = Inr x \<and> f x = Inl e)"
  by (cases m) auto

lemma then_do_simps [simp]:
  "then_do (Inl e, w) f = (Inl e, w)"
  "then_do (Inr a, w) f = f a w"
  by (simp_all add: then_do_def)

lemma then_do_cases:
  assumes "then_do m f = (r, w')"
  obtains (failed) e where "m = (Inl e, w')" "r = Inl e"
    | (continued) a w where "m = (Inr a, w)" "f a w = (r, w')"
  using assms by (cases m) (auto simp: then_do_def split: sum.splits)

lemma map_err_Inl [simp]: "map_err h (Inl e) = Inl (h e)"
  by (simp add: map_err_def)

lemma map_err_Inr [simp]: "map_err h (Inr x) = Inr x"
  by (simp add: map_err_def)

lemma map_err_eq_Inr [simp]: "map_err h m = Inr x \<longleftrightarrow> m = Inr x"
  by (cases m) auto

lemma map_err_eq_Inl [result_simps]: "map_err h m = Inl f \<longleftrightarrow> (\<exists>e. m = Inl e \<and> f = h e)"
  by (cases m) auto

lemma ok_or_None [simp]: "ok_or e None = Inl e"
  by (simp add: ok_or_def)

lemma ok_or_Some [simp]: "ok_or e (Some x) = Inr x"
  by (simp add: ok_or_def)

lemma ok_or_eq_Inr [simp]: "ok_or e m = Inr x \<longleftrightarrow> m = Some x"
  by (cases m) auto

lemma ok_or_eq_Inl [result_simps]: "ok_or e m = Inl f \<longleftrightarrow> m = None \<and> f = e"
  by (cases m) auto

lemma ensure_True [simp]: "ensure True e = Inr ()"
  by (simp add: ensure_def)

lemma ensure_False [simp]: "ensure False e = Inl e"
  by (simp add: ensure_def)

lemma ensure_eq_Inr [simp]: "ensure b e = Inr u \<longleftrightarrow> b"
  by (simp add: ensure_def)

lemma ensure_eq_Inl [result_simps]: "ensure b e = Inl f \<longleftrightarrow> \<not> b \<and> f = e"
  by (auto simp: ensure_def)

lemma is_ok_iff [simp]: "is_ok m \<longleftrightarrow> (\<exists>x. m = Inr x)"
  by (cases m) (auto simp: is_ok_def)

lemma not_Inr_iff_Inl: "(\<forall>x. m \<noteq> Inr x) \<longleftrightarrow> (\<exists>e. m = Inl e)"
  by (cases m) auto

subsection \<open>Traversal\<close>

lemma traverse_eq_Inr_iff:
  "traverse f xs = Inr ys \<longleftrightarrow> list_all2 (\<lambda>x y. f x = Inr y) xs ys"
  by (induction xs arbitrary: ys) (auto simp: result_simps list_all2_Cons1)

lemma traverse_Inr_length: "traverse f xs = Inr ys \<Longrightarrow> length ys = length xs"
  by (simp add: traverse_eq_Inr_iff list_all2_lengthD)

lemma traverse_Inr_set:
  "traverse f xs = Inr ys \<Longrightarrow> set ys = {y. \<exists>x \<in> set xs. f x = Inr y}"
proof (induction xs arbitrary: ys)
  case Nil
  then show ?case by simp
next
  case (Cons x xs)
  then obtain y ys' where "f x = Inr y" "traverse f xs = Inr ys'" "ys = y # ys'"
    by (auto simp: result_simps)
  with Cons.IH [of ys'] show ?case by auto
qed

lemma traverse_Inr_map:
  "traverse f xs = Inr ys \<Longrightarrow> (\<And>x y. x \<in> set xs \<Longrightarrow> f x = Inr y \<Longrightarrow> g y = h x) \<Longrightarrow> map g ys = map h xs"
  by (induction xs arbitrary: ys) (auto simp: result_simps)

lemma traverse_all_Inr:
  "(\<And>x. x \<in> set xs \<Longrightarrow> f x = Inr (g x)) \<Longrightarrow> traverse f xs = Inr (map g xs)"
  by (induction xs) auto

lemma traverse_Inr_subset:
  assumes "traverse f xs = Inr ys" and "set zs \<subseteq> set xs"
  shows "\<exists>us. traverse f zs = Inr us"
proof -
  have "\<forall>z \<in> set zs. \<exists>u. f z = Inr u"
    using assms by (auto simp: traverse_eq_Inr_iff list_all2_conv_all_nth set_conv_nth)
  then show ?thesis by (induction zs) auto
qed

lemma traverse_Inl_witness:
  "traverse f xs = Inl e \<Longrightarrow> \<exists>x \<in> set xs. f x = Inl e"
  by (induction xs) (auto simp: result_simps)

lemma traverse_has_error:
  "x \<in> set xs \<Longrightarrow> f x = Inl e \<Longrightarrow> \<exists>e'. traverse f xs = Inl e'"
  by (induction xs) (auto simp: rbind_def split: sum.splits)

subsection \<open>State-threading loops\<close>

lemma fold_res_append:
  "fold_res f (xs @ ys) s = rbind (fold_res f xs s) (fold_res f ys)"
  by (induction xs arbitrary: s) (auto simp: rbind_def split: sum.splits)

lemma fold_res_invariant:
  assumes "fold_res f xs s = Inr s'" and "P s"
    and "\<And>x s s'. x \<in> set xs \<Longrightarrow> P s \<Longrightarrow> f x s = Inr s' \<Longrightarrow> P s'"
  shows "P s'"
  using assms by (induction xs arbitrary: s) (auto simp: result_simps)

section \<open>Sorting with a total key\<close>

lemma sorted_key_unique:
  fixes k :: "'a \<Rightarrow> 'k::linorder"
  assumes "sorted (map k xs)" "sorted (map k ys)"
    and "distinct (map k xs)" "distinct (map k ys)"
    and "set xs = set ys"
  shows "xs = ys"
proof -
  have "map k xs = map k ys"
    using assms by (intro sorted_distinct_set_unique) auto
  moreover have "inj_on k (set xs \<union> set ys)"
    using assms(3,5) by (simp add: distinct_map)
  ultimately show ?thesis
    by (metis map_inj_on)
qed

lemma sorted_map_filter_key: "sorted (map k xs) \<Longrightarrow> sorted (map k (filter P xs))"
  by (induction xs) auto

lemma distinct_map_filter_key: "distinct (map k xs) \<Longrightarrow> distinct (map k (filter P xs))"
  by (induction xs) auto

lemma distinct_map_concat:
  assumes "distinct xs" and "\<And>x. distinct (map k (f x))"
    and "\<And>x y. x \<noteq> y \<Longrightarrow> k ` set (f x) \<inter> k ` set (f y) = {}"
  shows "distinct (map k (concat (map f xs)))"
  using assms(1)
proof (induction xs)
  case Nil
  then show ?case by simp
next
  case (Cons x xs)
  have "k ` set (f x) \<inter> k ` set (f y) = {}" if "y \<in> set xs" for y
    using assms(3) [of x y] that Cons.prems by auto
  then have "k ` set (f x) \<inter> set (map k (concat (map f xs))) = {}" by fastforce
  with Cons assms(2) [of x] show ?case by auto
qed

lemma find_Some_in_set: "List.find P xs = Some x \<Longrightarrow> x \<in> set xs \<and> P x"
  by (auto simp: find_Some_iff)

lemma find_append:
  "List.find P (xs @ ys) = (case List.find P xs of None \<Rightarrow> List.find P ys | Some x \<Rightarrow> Some x)"
  by (induction xs) auto

lemma find_distinct_key:
  assumes "distinct (map k xs)" "x \<in> set xs"
  shows "List.find (\<lambda>y. k y = k x) xs = Some x"
  using assms by (induction xs) (auto simp: image_iff)

lemma find_key_None: "List.find (\<lambda>y. k y = i) xs = None \<longleftrightarrow> i \<notin> k ` set xs"
  by (auto simp: find_None_iff)

section \<open>Big-endian lemmas\<close>

lemma length_be_bytes [simp]: "length (be_bytes n v) = n"
  by (induction n arbitrary: v) auto

lemma be_value_append: "be_value (xs @ [b]) = be_value xs * 256 + unat b"
  by (simp add: be_value_def)

lemma be_value_Nil [simp]: "be_value [] = 0"
  by (simp add: be_value_def)

lemma unat_byte_of: "unat (byte_of v) = v mod 256"
  by (simp add: byte_of_def unat_of_nat)

lemma unat_byte_of_small [simp]: "v < 256 \<Longrightarrow> unat (byte_of v) = v"
  by (simp add: unat_byte_of)

lemma byte_of_unat [simp]: "byte_of (unat b) = b"
  by (simp add: byte_of_def)

lemma be_value_be_bytes: "v < 256 ^ n \<Longrightarrow> be_value (be_bytes n v) = v"
proof (induction n arbitrary: v)
  case 0
  then show ?case by simp
next
  case (Suc n)
  have "v div 256 < 256 ^ n"
    using Suc.prems by (simp add: less_mult_imp_div_less mult.commute)
  from Suc.IH [OF this] show ?case
    by (simp add: be_value_append unat_byte_of)
qed

lemma be_value_bound: "be_value bs < 256 ^ length bs"
proof (induction bs rule: rev_induct)
  case Nil
  then show ?case by simp
next
  case (snoc b bs)
  have "unat b < 256"
    using unsigned_less [of b] by simp
  moreover have "be_value bs + 1 \<le> 256 ^ length bs"
    using snoc.IH by simp
  then have "(be_value bs + 1) * 256 \<le> 256 ^ length bs * 256"
    by (rule mult_le_mono1)
  ultimately show ?case
    by (simp add: be_value_append)
qed

lemma be_bytes_be_value: "be_bytes (length bs) (be_value bs) = bs"
proof (induction bs rule: rev_induct)
  case Nil
  then show ?case by simp
next
  case (snoc b bs)
  have b: "unat b < 256"
    using unsigned_less [of b] by simp
  have "(be_value bs * 256 + unat b) div 256 = be_value bs"
    using b by simp
  moreover have "byte_of (be_value bs * 256 + unat b) = b"
    unfolding word_unat_eq_iff unat_byte_of using b by simp
  ultimately show ?case
    using snoc.IH by (simp add: be_value_append)
qed

end
