(* ===== verification/Stable_Code.thy ===== *)
theory Stable_Code
  imports Prelude
begin

text \<open>
  The contract every persisted enum of the product shares: \<open>as_str\<close> prints a stable code and
  \<open>FromStr\<close> accepts exactly the printed codes. The database filters, the wire and the
  rehydration of rows rest on it. Each enum of the model interprets the locale with its own
  printing and parsing functions.
\<close>

locale stable_code =
  fixes as_str :: "'a \<Rightarrow> string"
    and from_str :: "string \<Rightarrow> 'e + 'a"
  assumes parse_print: "from_str (as_str x) = Inr x"
    and print_parse: "from_str s = Inr x \<Longrightarrow> as_str x = s"
begin

lemma as_str_inject: "as_str x = as_str y \<longleftrightarrow> x = y"
  by (metis parse_print sum.inject(2))

lemma from_str_Inr_iff: "from_str s = Inr x \<longleftrightarrow> s = as_str x"
  using parse_print print_parse by metis

lemma from_str_refuses_iff: "(\<exists>e. from_str s = Inl e) \<longleftrightarrow> s \<notin> range as_str"
proof -
  have "(\<exists>e. from_str s = Inl e) \<longleftrightarrow> (\<forall>x. from_str s \<noteq> Inr x)"
    by (simp add: not_Inr_iff_Inl)
  then show ?thesis
    by (auto simp: from_str_Inr_iff)
qed

end

text \<open>A \<open>FromStr\<close> whose match lists the printed code of every value once interprets the locale.\<close>

lemma code_of_table:
  assumes "table = map (\<lambda>x. (as_str x, x)) xs" "\<And>x. x \<in> set xs" "distinct (map as_str xs)"
  shows "stable_code as_str (\<lambda>s. ok_or e (map_of table s))"
proof
  have dist: "distinct (map fst table)" using assms(1,3) by (simp add: comp_def)
  show "ok_or e (map_of table (as_str x)) = Inr x" for x
    using assms(1,2) map_of_is_SomeI [OF dist, of "as_str x" x] by auto
  show "as_str x = s" if "ok_or e (map_of table s) = Inr x" for s x
    using that assms(1) by (auto simp: result_simps dest: map_of_SomeD)
qed

end
