(* ===== verification/Operation.thy ===== *)
theory Operation
  imports Stable_Code
begin

text \<open>
  The persisted operation model, \<open>domain/src/operation.rs\<close>: the nine lifecycle phases, the
  nine events that drive them, the transition matrix, the operation record with its targets
  and its two constructors, and \<open>Operation::apply\<close>. The command an operation carries is a
  type parameter: nothing in this component looks inside it.
\<close>

type_synonym operation_id = uuid
type_synonym target_id = uuid
type_synonym endpoint_id = uuid

section \<open>Phases\<close>

datatype operation_state =
    Queued | Validating | Running | WaitingRemote | Verifying
  | Succeeded | Failed | Unknown | Cancelled

datatype operation_state_parse_error = OperationStateParseError

fun operation_state_as_str :: "operation_state \<Rightarrow> string" where
  "operation_state_as_str Queued = ''queued''"
| "operation_state_as_str Validating = ''validating''"
| "operation_state_as_str Running = ''running''"
| "operation_state_as_str WaitingRemote = ''waiting-remote''"
| "operation_state_as_str Verifying = ''verifying''"
| "operation_state_as_str Succeeded = ''succeeded''"
| "operation_state_as_str Failed = ''failed''"
| "operation_state_as_str Unknown = ''unknown''"
| "operation_state_as_str Cancelled = ''cancelled''"

definition operation_state_from_str :: "string \<Rightarrow> operation_state_parse_error + operation_state" where
  "operation_state_from_str value =
     (if value = ''queued'' then Inr Queued
      else if value = ''validating'' then Inr Validating
      else if value = ''running'' then Inr Running
      else if value = ''waiting-remote'' then Inr WaitingRemote
      else if value = ''verifying'' then Inr Verifying
      else if value = ''succeeded'' then Inr Succeeded
      else if value = ''failed'' then Inr Failed
      else if value = ''unknown'' then Inr Unknown
      else if value = ''cancelled'' then Inr Cancelled
      else Inl OperationStateParseError)"

definition is_terminal :: "operation_state \<Rightarrow> bool" where
  "is_terminal st = (case st of
       Succeeded \<Rightarrow> True | Failed \<Rightarrow> True | Unknown \<Rightarrow> True | Cancelled \<Rightarrow> True | _ \<Rightarrow> False)"

definition is_active :: "operation_state \<Rightarrow> bool" where
  "is_active st = (case st of
       Queued \<Rightarrow> True | Validating \<Rightarrow> True | Running \<Rightarrow> True
     | WaitingRemote \<Rightarrow> True | Verifying \<Rightarrow> True | _ \<Rightarrow> False)"

section \<open>Events\<close>

datatype operation_event =
    ValidationStarted | ValidationPassed | ExecutionAccepted | RemoteTaskStarted
  | RemoteTaskCompleted | VerificationPassed | EventFailed | CancellationRequested
  | OutcomeUnknown

fun operation_event_as_str :: "operation_event \<Rightarrow> string" where
  "operation_event_as_str ValidationStarted = ''validation-started''"
| "operation_event_as_str ValidationPassed = ''validation-passed''"
| "operation_event_as_str ExecutionAccepted = ''execution-accepted''"
| "operation_event_as_str RemoteTaskStarted = ''remote-task-started''"
| "operation_event_as_str RemoteTaskCompleted = ''remote-task-completed''"
| "operation_event_as_str VerificationPassed = ''verification-passed''"
| "operation_event_as_str EventFailed = ''failed''"
| "operation_event_as_str CancellationRequested = ''cancellation-requested''"
| "operation_event_as_str OutcomeUnknown = ''outcome-unknown''"

section \<open>The transition matrix\<close>

record invalid_transition =
  it_from :: operation_state
  it_event :: operation_event

definition mk_invalid_transition :: "operation_state \<Rightarrow> operation_event \<Rightarrow> invalid_transition" where
  "mk_invalid_transition current event = \<lparr>it_from = current, it_event = event\<rparr>"

definition transition ::
  "operation_state \<Rightarrow> operation_event \<Rightarrow> invalid_transition + operation_state" where
  "transition current event =
     (case current of
        Queued \<Rightarrow> (case event of
            ValidationStarted \<Rightarrow> Inr Validating
          | EventFailed \<Rightarrow> Inr Failed
          | CancellationRequested \<Rightarrow> Inr Cancelled
          | _ \<Rightarrow> Inl (mk_invalid_transition current event))
      | Validating \<Rightarrow> (case event of
            ValidationPassed \<Rightarrow> Inr Running
          | EventFailed \<Rightarrow> Inr Failed
          | CancellationRequested \<Rightarrow> Inr Cancelled
          | _ \<Rightarrow> Inl (mk_invalid_transition current event))
      | Running \<Rightarrow> (case event of
            ExecutionAccepted \<Rightarrow> Inr Verifying
          | RemoteTaskStarted \<Rightarrow> Inr WaitingRemote
          | EventFailed \<Rightarrow> Inr Failed
          | CancellationRequested \<Rightarrow> Inr Cancelled
          | OutcomeUnknown \<Rightarrow> Inr Unknown
          | _ \<Rightarrow> Inl (mk_invalid_transition current event))
      | WaitingRemote \<Rightarrow> (case event of
            RemoteTaskCompleted \<Rightarrow> Inr Verifying
          | EventFailed \<Rightarrow> Inr Failed
          | CancellationRequested \<Rightarrow> Inr Cancelled
          | OutcomeUnknown \<Rightarrow> Inr Unknown
          | _ \<Rightarrow> Inl (mk_invalid_transition current event))
      | Verifying \<Rightarrow> (case event of
            VerificationPassed \<Rightarrow> Inr Succeeded
          | EventFailed \<Rightarrow> Inr Failed
          | OutcomeUnknown \<Rightarrow> Inr Unknown
          | _ \<Rightarrow> Inl (mk_invalid_transition current event))
      | Succeeded \<Rightarrow> Inl (mk_invalid_transition current event)
      | Failed \<Rightarrow> Inl (mk_invalid_transition current event)
      | Unknown \<Rightarrow> Inl (mk_invalid_transition current event)
      | Cancelled \<Rightarrow> Inl (mk_invalid_transition current event))"

section \<open>Sources and targets\<close>

datatype operation_source = Standalone | Site | Center

datatype operation_source_parse_error = OperationSourceParseError

fun operation_source_as_str :: "operation_source \<Rightarrow> string" where
  "operation_source_as_str Standalone = ''standalone''"
| "operation_source_as_str Site = ''site''"
| "operation_source_as_str Center = ''center''"

definition operation_source_from_str ::
  "string \<Rightarrow> operation_source_parse_error + operation_source" where
  "operation_source_from_str value =
     (if value = ''standalone'' then Inr Standalone
      else if value = ''site'' then Inr Site
      else if value = ''center'' then Inr Center
      else Inl OperationSourceParseError)"

record operation_target =
  tg_target_id :: target_id
  tg_endpoint_id :: endpoint_id

definition operation_target_new :: "target_id \<Rightarrow> endpoint_id \<Rightarrow> operation_target" where
  "operation_target_new target_id endpoint_id =
     \<lparr>tg_target_id = target_id, tg_endpoint_id = endpoint_id\<rparr>"

section \<open>The operation record\<close>

record 'c operation =
  op_id :: operation_id
  op_source :: operation_source
  op_targets :: "operation_target list"
  op_command :: 'c
  op_state :: operation_state
  op_created_at :: instant
  op_updated_at :: instant

datatype operation_timeline_error = OperationTimelineError

definition operation_new ::
  "operation_id \<Rightarrow> operation_source \<Rightarrow> operation_target list \<Rightarrow> 'c \<Rightarrow> instant \<Rightarrow> 'c operation" where
  "operation_new oid source targets command created_at =
     \<lparr>op_id = oid, op_source = source, op_targets = targets, op_command = command,
      op_state = Queued, op_created_at = created_at, op_updated_at = created_at\<rparr>"

definition operation_try_from_parts ::
  "operation_id \<Rightarrow> operation_source \<Rightarrow> operation_target list \<Rightarrow> 'c \<Rightarrow> operation_state
     \<Rightarrow> instant \<Rightarrow> instant \<Rightarrow> operation_timeline_error + 'c operation" where
  "operation_try_from_parts oid source targets command st created_at updated_at =
     (if updated_at < created_at then Inl OperationTimelineError
      else Inr \<lparr>op_id = oid, op_source = source, op_targets = targets, op_command = command,
                op_state = st, op_created_at = created_at, op_updated_at = updated_at\<rparr>)"

text \<open>
  \<open>Operation::apply\<close> mutates the receiver: the second component is the operation after the
  call, which the \<open>?\<close> on \<open>transition\<close> leaves untouched when it returns early.
\<close>

definition operation_apply ::
  "operation_event \<Rightarrow> instant \<Rightarrow> 'c operation \<Rightarrow> (invalid_transition + unit) \<times> 'c operation" where
  "operation_apply event now op =
     (case transition (op_state op) event of
        Inl e \<Rightarrow> (Inl e, op)
      | Inr st \<Rightarrow> (Inr (), op\<lparr>op_state := st, op_updated_at := now\<rparr>))"

definition operation_is_terminal :: "'c operation \<Rightarrow> bool" where
  "operation_is_terminal op = is_terminal (op_state op)"

section \<open>Runs of the machine\<close>

text \<open>Applying a list of events, stopping at the first refusal.\<close>

fun run_events :: "operation_state \<Rightarrow> operation_event list \<Rightarrow> invalid_transition + operation_state" where
  "run_events st [] = Inr st"
| "run_events st (e # es) = rbind (transition st e) (\<lambda>st'. run_events st' es)"

text \<open>How many more events an operation in a phase can still accept.\<close>

fun phases_left :: "operation_state \<Rightarrow> nat" where
  "phases_left Queued = 5"
| "phases_left Validating = 4"
| "phases_left Running = 3"
| "phases_left WaitingRemote = 2"
| "phases_left Verifying = 1"
| "phases_left _ = 0"

section \<open>Stable codes\<close>

interpretation state_code: stable_code operation_state_as_str operation_state_from_str
proof unfold_locales
  fix x show "operation_state_from_str (operation_state_as_str x) = Inr x"
    by (cases x) (simp_all add: operation_state_from_str_def)
next
  fix s x assume "operation_state_from_str s = Inr x"
  then show "operation_state_as_str x = s"
    by (auto simp: operation_state_from_str_def split: if_splits)
qed

interpretation source_code: stable_code operation_source_as_str operation_source_from_str
proof unfold_locales
  fix x show "operation_source_from_str (operation_source_as_str x) = Inr x"
    by (cases x) (simp_all add: operation_source_from_str_def)
next
  fix s x assume "operation_source_from_str s = Inr x"
  then show "operation_source_as_str x = s"
    by (auto simp: operation_source_from_str_def split: if_splits)
qed

declare state_code.parse_print [simp] source_code.parse_print [simp]
declare state_code.parse_print [code_roundtrip] source_code.parse_print [code_roundtrip]

section \<open>Facts about single steps\<close>

lemmas transition_simps = transition_def mk_invalid_transition_def

lemma is_terminal_simps [simp]:
  "is_terminal Succeeded" "is_terminal Failed" "is_terminal Unknown" "is_terminal Cancelled"
  "\<not> is_terminal Queued" "\<not> is_terminal Validating" "\<not> is_terminal Running"
  "\<not> is_terminal WaitingRemote" "\<not> is_terminal Verifying"
  by (simp_all add: is_terminal_def)

lemma legal_steps [simp]:
  "transition Queued ValidationStarted = Inr Validating"
  "transition Validating ValidationPassed = Inr Running"
  "transition Running ExecutionAccepted = Inr Verifying"
  "transition Running RemoteTaskStarted = Inr WaitingRemote"
  "transition WaitingRemote RemoteTaskCompleted = Inr Verifying"
  "transition Verifying VerificationPassed = Inr Succeeded"
  by (simp_all add: transition_def)

lemma is_active_not_terminal: "is_active st \<longleftrightarrow> \<not> is_terminal st"
  by (cases st) (simp_all add: is_active_def)

lemma transition_error_names_step:
  "transition st e = Inl err \<Longrightarrow> it_from err = st \<and> it_event err = e"
  by (auto simp: transition_simps split: operation_state.splits operation_event.splits)

lemma transition_decreases: "transition st e = Inr st' \<Longrightarrow> phases_left st' < phases_left st"
  by (auto simp: transition_simps split: operation_state.splits operation_event.splits)

lemma transition_from_terminal: "is_terminal st \<Longrightarrow> transition st e = Inl (mk_invalid_transition st e)"
  by (cases st) (simp_all add: transition_simps)

lemma transition_not_terminal: "transition st e = Inr st' \<Longrightarrow> \<not> is_terminal st"
  using transition_from_terminal by fastforce

lemma phases_left_zero: "phases_left st = 0 \<longleftrightarrow> is_terminal st"
  by (cases st) simp_all

lemma transition_into_Verifying:
  "transition st e = Inr Verifying \<longleftrightarrow>
     st = Running \<and> e = ExecutionAccepted \<or> st = WaitingRemote \<and> e = RemoteTaskCompleted"
  by (auto simp: transition_simps split: operation_state.splits operation_event.splits)

lemma transition_into_Running:
  "transition st e = Inr Running \<longleftrightarrow> st = Validating \<and> e = ValidationPassed"
  by (auto simp: transition_simps split: operation_state.splits operation_event.splits)

lemma transition_into_Validating:
  "transition st e = Inr Validating \<longleftrightarrow> st = Queued \<and> e = ValidationStarted"
  by (auto simp: transition_simps split: operation_state.splits operation_event.splits)

lemma transition_into_WaitingRemote:
  "transition st e = Inr WaitingRemote \<longleftrightarrow> st = Running \<and> e = RemoteTaskStarted"
  by (auto simp: transition_simps split: operation_state.splits operation_event.splits)

lemma transition_into_Succeeded:
  "transition st e = Inr Succeeded \<longleftrightarrow> st = Verifying \<and> e = VerificationPassed"
  by (auto simp: transition_simps split: operation_state.splits operation_event.splits)

lemma transition_into_Unknown:
  "transition st e = Inr Unknown \<longleftrightarrow>
     e = OutcomeUnknown \<and> (st = Running \<or> st = WaitingRemote \<or> st = Verifying)"
  by (auto simp: transition_simps split: operation_state.splits operation_event.splits)

lemma transition_into_Cancelled:
  "transition st e = Inr Cancelled \<longleftrightarrow>
     e = CancellationRequested \<and> (st = Queued \<or> st = Validating \<or> st = Running \<or> st = WaitingRemote)"
  by (auto simp: transition_simps split: operation_state.splits operation_event.splits)

lemma transition_never_Queued: "transition st e \<noteq> Inr Queued"
  by (auto simp: transition_simps split: operation_state.splits operation_event.splits)

lemmas transition_into =
  transition_into_Validating transition_into_Running transition_into_WaitingRemote
  transition_into_Verifying transition_into_Succeeded transition_into_Unknown
  transition_into_Cancelled transition_never_Queued

section \<open>Facts about runs\<close>

lemma run_events_snoc:
  "run_events st (es @ [e]) = Inr st' \<longleftrightarrow>
     (\<exists>m. run_events st es = Inr m \<and> transition m e = Inr st')"
  by (induction es arbitrary: st) (auto simp: result_simps)

lemma run_events_rev_cases:
  assumes "run_events st es = Inr st'"
  obtains "es = []" "st' = st"
  | es' e m where "es = es' @ [e]" "run_events st es' = Inr m" "transition m e = Inr st'"
  using assms by (cases es rule: rev_cases) (auto simp: run_events_snoc)

lemma run_events_bound: "run_events st es = Inr st' \<Longrightarrow> length es + phases_left st' \<le> phases_left st"
proof (induction es arbitrary: st)
  case Nil
  then show ?case by simp
next
  case (Cons e es)
  then obtain m where m: "transition st e = Inr m" "run_events m es = Inr st'"
    by (auto simp: result_simps)
  with Cons.IH [OF m(2)] transition_decreases [OF m(1)] show ?case by simp
qed

lemma run_to_Queued: "run_events Queued es = Inr Queued \<longleftrightarrow> es = []"
  by (cases es rule: rev_cases) (auto simp: run_events_snoc transition_into)

lemma run_to_Validating: "run_events Queued es = Inr Validating \<longleftrightarrow> es = [ValidationStarted]"
  by (cases es rule: rev_cases) (auto simp: run_events_snoc transition_into run_to_Queued)

lemma run_to_Running:
  "run_events Queued es = Inr Running \<longleftrightarrow> es = [ValidationStarted, ValidationPassed]"
  by (cases es rule: rev_cases) (auto simp: run_events_snoc transition_into run_to_Validating)

lemma run_to_WaitingRemote:
  "run_events Queued es = Inr WaitingRemote \<longleftrightarrow>
     es = [ValidationStarted, ValidationPassed, RemoteTaskStarted]"
  by (cases es rule: rev_cases) (auto simp: run_events_snoc transition_into run_to_Running)

lemma run_to_Verifying:
  "run_events Queued es = Inr Verifying \<longleftrightarrow>
     es = [ValidationStarted, ValidationPassed, ExecutionAccepted]
   \<or> es = [ValidationStarted, ValidationPassed, RemoteTaskStarted, RemoteTaskCompleted]"
  by (cases es rule: rev_cases)
    (auto simp: run_events_snoc transition_into run_to_Running run_to_WaitingRemote)

lemmas run_to = run_to_Queued run_to_Validating run_to_Running run_to_WaitingRemote run_to_Verifying

section \<open>Applying an event to an operation\<close>

lemma operation_apply_Inr:
  "operation_apply e now op = (Inr u, op') \<longleftrightarrow>
     (\<exists>st. transition (op_state op) e = Inr st \<and> op' = op\<lparr>op_state := st, op_updated_at := now\<rparr>)"
  by (auto simp: operation_apply_def split: sum.splits)

lemma operation_apply_Inl:
  "operation_apply e now op = (Inl err, op') \<longleftrightarrow> transition (op_state op) e = Inl err \<and> op' = op"
  by (auto simp: operation_apply_def split: sum.splits)

section \<open>Properties\<close>

text \<open>
  An operation that starts Queued is Succeeded after exactly two sequences of events: the
  synchronous path (validation started, validation passed, execution accepted, verification
  passed) and the asynchronous one, where the accepted remote task is started and completed
  before verification. No shorter or reordered sequence reports success.
\<close>

theorem operation_success_paths:
  "run_events Queued es = Inr Succeeded \<longleftrightarrow>
     es = [ValidationStarted, ValidationPassed, ExecutionAccepted, VerificationPassed]
   \<or> es = [ValidationStarted, ValidationPassed, RemoteTaskStarted, RemoteTaskCompleted,
           VerificationPassed]"
  by (cases es rule: rev_cases) (auto simp: run_events_snoc transition_into run_to)

text \<open>
  C2: The lifecycle always ends: whatever events are accepted from a phase, their number is
  bounded by that phase's remaining depth (five from Queued), and a run that uses the whole
  bound has reached a terminal phase. A phase accepts no event at all exactly when it is
  terminal, so a non-terminal operation can always still be finished.
\<close>

theorem operation_lifecycle_terminates:
  "(run_events st es = Inr st' \<longrightarrow> length es + phases_left st' \<le> phases_left st)
   \<and> phases_left st \<le> 5
   \<and> (is_terminal st \<longleftrightarrow> (\<forall>e. \<exists>err. transition st e = Inl err))
   \<and> (phases_left st = 0 \<longleftrightarrow> is_terminal st)"
proof (intro conjI impI)
  show "is_terminal st \<longleftrightarrow> (\<forall>e. \<exists>err. transition st e = Inl err)"
  proof
    assume "is_terminal st"
    then show "\<forall>e. \<exists>err. transition st e = Inl err"
      by (simp add: transition_from_terminal)
  next
    assume "\<forall>e. \<exists>err. transition st e = Inl err"
    then have "\<exists>err. transition st EventFailed = Inl err" by blast
    then show "is_terminal st"
      by (cases st) (simp_all add: transition_def)
  qed
  show "phases_left st \<le> 5" by (cases st) simp_all
qed (auto simp: phases_left_zero run_events_bound)

theorem operation_lifecycle_terminates_witness:
  "run_events Queued [ValidationStarted, EventFailed] = Inr Failed
   \<and> length [ValidationStarted, EventFailed] + phases_left Failed \<le> phases_left Queued"
proof -
  have run: "run_events Queued [ValidationStarted, EventFailed] = Inr Failed"
    by (simp add: transition_def)
  with operation_lifecycle_terminates [of Queued "[ValidationStarted, EventFailed]" Failed]
  show ?thesis by blast
qed

text \<open>
  What the two ambiguous endings mean. An operation recorded Unknown was really
  dispatched (validation had passed), one recorded Cancelled never got as far as Verifying
  (no run through ExecutionAccepted or RemoteTaskCompleted ends Cancelled).
\<close>

theorem operation_ambiguous_endings:
  "(run_events Queued es = Inr Unknown \<longrightarrow> ValidationPassed \<in> set es)
   \<and> (run_events Queued es = Inr Cancelled \<longrightarrow>
        ExecutionAccepted \<notin> set es \<and> RemoteTaskCompleted \<notin> set es)"
  by (cases es rule: rev_cases) (auto simp: run_events_snoc transition_into run_to)

theorem operation_ambiguous_endings_witness:
  "run_events Queued [ValidationStarted, ValidationPassed, OutcomeUnknown] = Inr Unknown
   \<and> ValidationPassed \<in> set [ValidationStarted, ValidationPassed, OutcomeUnknown]"
proof -
  have run: "run_events Queued [ValidationStarted, ValidationPassed, OutcomeUnknown] = Inr Unknown"
    by (simp add: transition_def)
  with operation_ambiguous_endings [of "[ValidationStarted, ValidationPassed, OutcomeUnknown]"]
  show ?thesis by blast
qed

end
