(* ===== verification/Batch_Operation.thy ===== *)
theory Batch_Operation
  imports Operation
begin

text \<open>
  The batch parent and its reporting, \<open>domain/src/batch_operation.rs\<close>, with the failure
  classification of \<open>domain/src/failure_kind.rs\<close>: the state derived from the children and the
  outcome buckets.
\<close>

type_synonym batch_operation_id = uuid

section \<open>Failure classification\<close>

datatype failure_kind = CapabilityUnsupported

datatype failure_kind_parse_error = FailureKindParseError

fun failure_kind_as_str :: "failure_kind \<Rightarrow> string" where
  "failure_kind_as_str CapabilityUnsupported = ''capability-unsupported''"

definition failure_kind_from_str :: "string \<Rightarrow> failure_kind_parse_error + failure_kind" where
  "failure_kind_from_str value =
     (if value = ''capability-unsupported'' then Inr CapabilityUnsupported
      else Inl FailureKindParseError)"

section \<open>The parent record\<close>

record 'c batch_operation =
  ba_id :: batch_operation_id
  ba_source :: operation_source
  ba_command :: 'c
  ba_created_at :: instant

definition batch_operation_new ::
  "batch_operation_id \<Rightarrow> operation_source \<Rightarrow> 'c \<Rightarrow> instant \<Rightarrow> 'c batch_operation" where
  "batch_operation_new bid source command created_at =
     \<lparr>ba_id = bid, ba_source = source, ba_command = command, ba_created_at = created_at\<rparr>"

definition batch_operation_try_from_parts ::
  "batch_operation_id \<Rightarrow> operation_source \<Rightarrow> 'c \<Rightarrow> instant \<Rightarrow> 'c batch_operation" where
  "batch_operation_try_from_parts bid source command created_at =
     batch_operation_new bid source command created_at"

section \<open>The derived state\<close>

datatype batch_operation_state =
  BatchQueued | BatchRunning | BatchSucceeded | BatchFailed | BatchUnknown | BatchCancelled

fun batch_operation_state_as_str :: "batch_operation_state \<Rightarrow> string" where
  "batch_operation_state_as_str BatchQueued = ''queued''"
| "batch_operation_state_as_str BatchRunning = ''running''"
| "batch_operation_state_as_str BatchSucceeded = ''succeeded''"
| "batch_operation_state_as_str BatchFailed = ''failed''"
| "batch_operation_state_as_str BatchUnknown = ''unknown''"
| "batch_operation_state_as_str BatchCancelled = ''cancelled''"

definition derive_batch_state :: "operation_state list \<Rightarrow> batch_operation_state" where
  "derive_batch_state children =
     (if list_all (\<lambda>st. st = Queued) children then BatchQueued
      else if list_ex (\<lambda>st. \<not> is_terminal st) children then BatchRunning
      else if list_all (\<lambda>st. st = Succeeded) children then BatchSucceeded
      else if list_all (\<lambda>st. st = Cancelled) children then BatchCancelled
      else if Failed \<in> set children then BatchFailed
      else BatchUnknown)"

section \<open>The outcome buckets\<close>

record operation_outcome =
  oo_state :: operation_state
  oo_failure_kind :: "failure_kind option"

definition operation_outcome_new :: "operation_state \<Rightarrow> failure_kind option \<Rightarrow> operation_outcome" where
  "operation_outcome_new st kind = \<lparr>oo_state = st, oo_failure_kind = kind\<rparr>"

record batch_outcome_counts =
  bc_succeeded :: nat
  bc_failed :: nat
  bc_unknown :: nat
  bc_unsupported :: nat
  bc_cancelled :: nat
  bc_total :: nat

definition count_outcome :: "operation_outcome \<Rightarrow> batch_outcome_counts \<Rightarrow> batch_outcome_counts" where
  "count_outcome outcome counts =
     (case oo_state outcome of
        Succeeded \<Rightarrow> counts\<lparr>bc_succeeded := bc_succeeded counts + 1\<rparr>
      | Failed \<Rightarrow>
          (case oo_failure_kind outcome of
             Some CapabilityUnsupported \<Rightarrow> counts\<lparr>bc_unsupported := bc_unsupported counts + 1\<rparr>
           | None \<Rightarrow> counts\<lparr>bc_failed := bc_failed counts + 1\<rparr>)
      | Unknown \<Rightarrow> counts\<lparr>bc_unknown := bc_unknown counts + 1\<rparr>
      | Cancelled \<Rightarrow> counts\<lparr>bc_cancelled := bc_cancelled counts + 1\<rparr>
      | _ \<Rightarrow> counts)"

definition summarize :: "operation_outcome list \<Rightarrow> batch_outcome_counts" where
  "summarize outcomes =
     fold count_outcome outcomes
       \<lparr>bc_succeeded = 0, bc_failed = 0, bc_unknown = 0, bc_unsupported = 0, bc_cancelled = 0,
        bc_total = length outcomes\<rparr>"

section \<open>Stable codes\<close>

interpretation kind_code: stable_code failure_kind_as_str failure_kind_from_str
proof unfold_locales
  fix x show "failure_kind_from_str (failure_kind_as_str x) = Inr x"
    by (cases x) (simp add: failure_kind_from_str_def)
next
  fix s x assume "failure_kind_from_str s = Inr x"
  then show "failure_kind_as_str x = s"
    by (cases x) (auto simp: failure_kind_from_str_def split: if_splits)
qed

declare kind_code.parse_print [simp] kind_code.parse_print [code_roundtrip]

section \<open>The buckets as counts\<close>

text \<open>The number of outcomes that satisfy a predicate, the reference for each bucket.\<close>

definition tally :: "(operation_outcome \<Rightarrow> bool) \<Rightarrow> operation_outcome list \<Rightarrow> nat" where
  "tally P outcomes = length (filter P outcomes)"

lemma fold_count_outcome:
  "fold count_outcome outcomes c =
     c\<lparr>bc_succeeded := bc_succeeded c + tally (\<lambda>x. oo_state x = Succeeded) outcomes,
       bc_failed := bc_failed c + tally (\<lambda>x. oo_state x = Failed \<and> oo_failure_kind x = None) outcomes,
       bc_unknown := bc_unknown c + tally (\<lambda>x. oo_state x = Unknown) outcomes,
       bc_unsupported := bc_unsupported c
         + tally (\<lambda>x. oo_state x = Failed \<and> oo_failure_kind x = Some CapabilityUnsupported) outcomes,
       bc_cancelled := bc_cancelled c + tally (\<lambda>x. oo_state x = Cancelled) outcomes\<rparr>"
proof (induction outcomes arbitrary: c)
  case Nil
  then show ?case by (simp add: tally_def)
next
  case (Cons x outcomes)
  show ?case
    by (simp only: fold_simps Cons.IH)
      (simp add: tally_def count_outcome_def split: operation_state.splits option.splits failure_kind.splits)
qed

lemma tally_append_disjoint:
  "(\<And>x. \<not> (P x \<and> Q x)) \<Longrightarrow> tally (\<lambda>x. P x \<or> Q x) xs = tally P xs + tally Q xs"
  unfolding tally_def by (induction xs) auto

lemma tally_le_length: "tally P xs \<le> length xs"
  by (simp add: tally_def)

lemma tally_eq_length: "tally P xs = length xs \<longleftrightarrow> list_all P xs"
proof
  assume "tally P xs = length xs"
  then show "list_all P xs"
    using length_filter_less [of _ xs P] by (fastforce simp: tally_def list_all_iff)
next
  assume "list_all P xs"
  then show "tally P xs = length xs" by (simp add: tally_def list_all_iff)
qed

lemma tally_cong: "(\<And>x. P x \<longleftrightarrow> Q x) \<Longrightarrow> tally P xs = tally Q xs"
  by (simp add: tally_def cong: filter_cong)

lemma summarize_buckets:
  "summarize outcomes =
     \<lparr>bc_succeeded = tally (\<lambda>x. oo_state x = Succeeded) outcomes,
      bc_failed = tally (\<lambda>x. oo_state x = Failed \<and> oo_failure_kind x = None) outcomes,
      bc_unknown = tally (\<lambda>x. oo_state x = Unknown) outcomes,
      bc_unsupported =
        tally (\<lambda>x. oo_state x = Failed \<and> oo_failure_kind x = Some CapabilityUnsupported) outcomes,
      bc_cancelled = tally (\<lambda>x. oo_state x = Cancelled) outcomes,
      bc_total = length outcomes\<rparr>"
  by (simp add: summarize_def fold_count_outcome)

text \<open>Each terminal child falls into exactly one bucket, a child in flight into none.\<close>

definition bucket_sum :: "batch_outcome_counts \<Rightarrow> nat" where
  "bucket_sum c = bc_succeeded c + bc_failed c + bc_unknown c + bc_unsupported c + bc_cancelled c"

lemma failure_kind_cases: "oo_failure_kind x = None \<or> oo_failure_kind x = Some CapabilityUnsupported"
  by (cases "oo_failure_kind x") (auto intro: failure_kind.exhaust)

lemma bucket_sum_summarize:
  "bucket_sum (summarize outcomes) = tally (\<lambda>x. is_terminal (oo_state x)) outcomes"
proof (induction outcomes)
  case Nil
  then show ?case by (simp add: summarize_buckets bucket_sum_def tally_def)
next
  case (Cons x outcomes)
  then show ?case
    using failure_kind_cases [of x]
    by (cases "oo_state x") (auto simp: summarize_buckets bucket_sum_def tally_def)
qed

lemma tally_pos: "0 < tally P xs \<longleftrightarrow> list_ex P xs"
  by (auto simp: tally_def list_ex_iff filter_empty_conv)

lemma failed_children:
  "0 < bc_failed (summarize outcomes) + bc_unsupported (summarize outcomes) \<longleftrightarrow>
     Failed \<in> set (map oo_state outcomes)"
proof -
  have "0 < bc_failed (summarize outcomes) + bc_unsupported (summarize outcomes) \<longleftrightarrow>
      list_ex (\<lambda>x. oo_state x = Failed \<and> oo_failure_kind x = None) outcomes
    \<or> list_ex (\<lambda>x. oo_state x = Failed \<and> oo_failure_kind x = Some CapabilityUnsupported) outcomes"
    by (simp add: summarize_buckets tally_pos [symmetric])
  also have "\<dots> \<longleftrightarrow> (\<exists>x \<in> set outcomes. oo_state x = Failed)"
    using failure_kind_cases by (auto simp: list_ex_iff)
  finally show ?thesis by force
qed

section \<open>Properties\<close>

text \<open>
  A partial failure never becomes an overall success. A batch is derived Succeeded exactly
  when it has children and all of them succeeded; it is Failed exactly when every child is
  finished and at least one failed provably; it is Running exactly when some child is still in
  flight and not all are still queued; it is Cancelled exactly when it has children and all
  were cancelled.
\<close>

theorem derive_batch_state_verdicts:
  "(derive_batch_state cs = BatchSucceeded \<longleftrightarrow> cs \<noteq> [] \<and> list_all (\<lambda>st. st = Succeeded) cs)
   \<and> (derive_batch_state cs = BatchFailed \<longleftrightarrow> list_all is_terminal cs \<and> Failed \<in> set cs)
   \<and> (derive_batch_state cs = BatchRunning \<longleftrightarrow>
        list_ex (\<lambda>st. \<not> is_terminal st) cs \<and> list_ex (\<lambda>st. st \<noteq> Queued) cs)
   \<and> (derive_batch_state cs = BatchCancelled \<longleftrightarrow> cs \<noteq> [] \<and> list_all (\<lambda>st. st = Cancelled) cs)"
proof (intro conjI)
  show "derive_batch_state cs = BatchSucceeded \<longleftrightarrow> cs \<noteq> [] \<and> list_all (\<lambda>st. st = Succeeded) cs"
    by (cases cs) (auto simp: derive_batch_state_def list_all_iff list_ex_iff)
  show "derive_batch_state cs = BatchCancelled \<longleftrightarrow> cs \<noteq> [] \<and> list_all (\<lambda>st. st = Cancelled) cs"
    by (cases cs) (auto simp: derive_batch_state_def list_all_iff list_ex_iff)
  show "derive_batch_state cs = BatchFailed \<longleftrightarrow> list_all is_terminal cs \<and> Failed \<in> set cs"
    by (auto simp: derive_batch_state_def list_all_iff list_ex_iff)
  show "derive_batch_state cs = BatchRunning \<longleftrightarrow>
      list_ex (\<lambda>st. \<not> is_terminal st) cs \<and> list_ex (\<lambda>st. st \<noteq> Queued) cs"
    by (auto simp: derive_batch_state_def list_all_iff list_ex_iff)
qed

text \<open>
  The two reports of one batch agree. The buckets of \<open>summarize\<close> add up to the number of
  finished children, so they reach the total exactly when no child is in flight; the derived
  state is Succeeded exactly when a non-empty batch has every child in the succeeded bucket,
  and Failed exactly when the buckets reach the total and the failed and unsupported buckets
  are not both empty.
\<close>

theorem summarize_agrees_with_derived_state:
  "let c = summarize outcomes; st = derive_batch_state (map oo_state outcomes) in
     bc_total c = length outcomes
   \<and> (bucket_sum c = bc_total c \<longleftrightarrow> list_all (\<lambda>x. is_terminal (oo_state x)) outcomes)
   \<and> (st = BatchSucceeded \<longleftrightarrow> 0 < bc_total c \<and> bc_succeeded c = bc_total c)
   \<and> (st = BatchFailed \<longleftrightarrow> bucket_sum c = bc_total c \<and> 0 < bc_failed c + bc_unsupported c)"
proof -
  let ?c = "summarize outcomes" and ?cs = "map oo_state outcomes"
  have total: "bc_total ?c = length outcomes" by (simp add: summarize_buckets)
  have full: "bucket_sum ?c = bc_total ?c \<longleftrightarrow> list_all (\<lambda>x. is_terminal (oo_state x)) outcomes"
    by (simp add: bucket_sum_summarize total tally_eq_length)
  have "derive_batch_state ?cs = BatchSucceeded \<longleftrightarrow> outcomes \<noteq> [] \<and> list_all (\<lambda>x. oo_state x = Succeeded) outcomes"
    by (cases outcomes) (auto simp: derive_batch_state_def list_all_iff list_ex_iff)
  then have succ: "derive_batch_state ?cs = BatchSucceeded \<longleftrightarrow> 0 < bc_total ?c \<and> bc_succeeded ?c = bc_total ?c"
    by (simp add: summarize_buckets tally_eq_length)
  have "derive_batch_state ?cs = BatchFailed \<longleftrightarrow> list_all is_terminal ?cs \<and> Failed \<in> set ?cs"
    by (auto simp: derive_batch_state_def list_all_iff list_ex_iff)
  then have fail: "derive_batch_state ?cs = BatchFailed \<longleftrightarrow>
      bucket_sum ?c = bc_total ?c \<and> 0 < bc_failed ?c + bc_unsupported ?c"
    by (simp only: full failed_children list.pred_map comp_def)
  from total full succ fail show ?thesis by (simp only: Let_def simp_thms)
qed

end
