(* ===== verification/Operation_Store.thy ===== *)
theory Operation_Store
  imports Batch_Operation
begin

text \<open>
  The persistence boundary of the operation engine,
  \<open>operation-engine/src/operation_store.rs\<close>. The trait is the record \<open>operation_store\<close> of its
  methods over a store state \<open>'s\<close>, a command type \<open>'c\<close> and an error type \<open>'e\<close>; the default
  method is a definition of its own. What the trait's documentation demands of an
  implementation is the locale \<open>operation_store_contract\<close>, extended by
  \<open>batch_store_contract\<close> for the batch methods. The engine's lemmas are proved inside the
  locales; the SQLite repository interprets them.
\<close>

section \<open>The trait\<close>

record ('s, 'c, 'e) operation_store =
  st_create_operation :: "'c operation \<Rightarrow> 's \<Rightarrow> ('e + unit) \<times> 's"
  st_find_operation :: "operation_id \<Rightarrow> 's \<Rightarrow> 'e + 'c operation option"
  st_apply_transition ::
    "operation_id \<Rightarrow> operation_state \<Rightarrow> instant \<Rightarrow> 's \<Rightarrow> ('e + unit) \<times> 's"
  st_apply_transition_if_current ::
    "operation_id \<Rightarrow> operation_state \<Rightarrow> operation_state \<Rightarrow> instant \<Rightarrow> 's \<Rightarrow> ('e + unit) \<times> 's"
  st_record_failure_kind :: "operation_id \<Rightarrow> failure_kind \<Rightarrow> 's \<Rightarrow> ('e + unit) \<times> 's"
  st_find_failure_kind :: "operation_id \<Rightarrow> 's \<Rightarrow> 'e + failure_kind option"
  st_list_operations :: "operation_state option \<Rightarrow> 's \<Rightarrow> 'e + 'c operation list"
  st_list_operations_for_endpoint ::
    "operation_state option \<Rightarrow> endpoint_id \<Rightarrow> 's \<Rightarrow> 'e + 'c operation list"
  st_create_batch :: "'c batch_operation \<Rightarrow> 'c operation list \<Rightarrow> 's \<Rightarrow> ('e + unit) \<times> 's"
  st_find_batch :: "batch_operation_id \<Rightarrow> 's \<Rightarrow> 'e + 'c batch_operation option"
  st_list_batches :: "'s \<Rightarrow> 'e + 'c batch_operation list"
  st_list_batch_children ::
    "batch_operation_id \<Rightarrow> 's \<Rightarrow> 'e + ('c operation \<times> failure_kind option) list"

text \<open>The default \<open>list_operations_for_endpoint\<close>: the plain listing, filtered by first target.\<close>

definition first_target_is :: "endpoint_id \<Rightarrow> 'c operation \<Rightarrow> bool" where
  "first_target_is endpoint_id op =
     (case op_targets op of [] \<Rightarrow> False | t # _ \<Rightarrow> tg_endpoint_id t = endpoint_id)"

definition default_list_operations_for_endpoint ::
  "(operation_state option \<Rightarrow> 's \<Rightarrow> 'e + 'c operation list) \<Rightarrow> operation_state option
     \<Rightarrow> endpoint_id \<Rightarrow> 's \<Rightarrow> 'e + 'c operation list" where
  "default_list_operations_for_endpoint list_ops state endpoint_id s =
     rbind (list_ops state s) (\<lambda>rows. Inr (filter (first_target_is endpoint_id) rows))"

section \<open>The contract\<close>

text \<open>The order of every listing: creation time, then identity.\<close>

definition acceptance_key :: "'c operation \<Rightarrow> instant \<times> operation_id" where
  "acceptance_key op = (op_created_at op, op_id op)"

definition matches_state :: "operation_state option \<Rightarrow> 'c operation \<Rightarrow> bool" where
  "matches_state f op = (case f of None \<Rightarrow> True | Some st \<Rightarrow> op_state op = st)"

definition same_but_targets :: "'c operation \<Rightarrow> 'c operation \<Rightarrow> bool" where
  "same_but_targets a b \<longleftrightarrow>
     op_id a = op_id b \<and> op_source a = op_source b \<and> op_command a = op_command b
   \<and> op_state a = op_state b \<and> op_created_at a = op_created_at b
   \<and> op_updated_at a = op_updated_at b \<and> set (op_targets a) = set (op_targets b)"

locale operation_store_contract =
  fixes ops :: "('s, 'c, 'e) operation_store"
    and inv :: "'s \<Rightarrow> bool"
    and view :: "'s \<Rightarrow> operation_id \<Rightarrow> 'c operation option"
    and stored :: "'c operation \<Rightarrow> 'c operation"
  assumes stored_same: "same_but_targets (stored op) op"
    and view_id: "inv s \<Longrightarrow> view s i = Some op \<Longrightarrow> op_id op = i"
    and find_reads_view: "inv s \<Longrightarrow> st_find_operation ops i s = Inr r \<Longrightarrow> r = view s i"
    and create_error: "st_create_operation ops op s = (Inl e, s') \<Longrightarrow> s' = s"
    and create_ok: "inv s \<Longrightarrow> st_create_operation ops op s = (Inr u, s') \<Longrightarrow>
      inv s' \<and> view s' = (if view s (op_id op) = None then (view s)(op_id op \<mapsto> stored op) else view s)"
    and step_error: "st_apply_transition ops i st t s = (Inl e, s') \<Longrightarrow> s' = s"
    and step_ok: "inv s \<Longrightarrow> st_apply_transition ops i st t s = (Inr u, s') \<Longrightarrow>
      inv s' \<and> (\<exists>op. view s i = Some op \<and> \<not> is_terminal (op_state op)
        \<and> view s' = (view s)(i \<mapsto> op\<lparr>op_state := st, op_updated_at := t\<rparr>))"
    and cas_error: "st_apply_transition_if_current ops i ex st t s = (Inl e, s') \<Longrightarrow> s' = s"
    and cas_ok: "inv s \<Longrightarrow> st_apply_transition_if_current ops i ex st t s = (Inr u, s') \<Longrightarrow>
      inv s' \<and> (\<exists>op. view s i = Some op \<and> op_state op = ex \<and> \<not> is_terminal ex
        \<and> view s' = (view s)(i \<mapsto> op\<lparr>op_state := st, op_updated_at := t\<rparr>))"
    and list_ok: "inv s \<Longrightarrow> st_list_operations ops f s = Inr xs \<Longrightarrow>
      set xs = {op. view s (op_id op) = Some op \<and> matches_state f op}
      \<and> sorted (map acceptance_key xs) \<and> distinct (map op_id xs)"
    and list_filter_total: "inv s \<Longrightarrow> st_list_operations ops None s = Inr xs \<Longrightarrow>
      \<exists>ys. st_list_operations ops (Some st) s = Inr ys"

locale batch_store_contract = operation_store_contract ops inv view stored
  for ops :: "('s, 'c, 'e) operation_store" and inv view stored +
  fixes batch_view :: "'s \<Rightarrow> batch_operation_id \<Rightarrow> 'c batch_operation option"
  assumes batch_error: "st_create_batch ops b cs s = (Inl e, s') \<Longrightarrow> s' = s"
    and batch_redelivered: "inv s \<Longrightarrow> st_create_batch ops b cs s = (Inr u, s') \<Longrightarrow>
      batch_view s (ba_id b) \<noteq> None \<Longrightarrow> s' = s"
    and batch_ok: "inv s \<Longrightarrow> st_create_batch ops b cs s = (Inr u, s') \<Longrightarrow>
      batch_view s (ba_id b) = None \<Longrightarrow>
      inv s' \<and> batch_view s' = (batch_view s)(ba_id b \<mapsto> b)
      \<and> (\<forall>i. view s' i = (case view s i of
            Some op \<Rightarrow> Some op
          | None \<Rightarrow> map_option stored (List.find (\<lambda>c. op_id c = i) cs)))"
    and find_batch_reads_view: "inv s \<Longrightarrow> st_find_batch ops i s = Inr r \<Longrightarrow> r = batch_view s i"

end
