(* ===== verification/Rust_Text.thy ===== *)
theory Rust_Text
  imports Prelude
begin

text \<open>
  Rust strings as the product's validators read them: a \<open>str\<close> is a list of Unicode scalar
  values (\<open>chars()\<close>), \<open>len()\<close> is the length of its UTF-8 encoding, \<open>trim()\<close> removes Unicode
  white space at both ends, \<open>char::is_control\<close> is the general category Cc. The ASCII literals
  of the code enter through \<open>ascii\<close>.
\<close>

type_synonym ustring = "nat list"

definition ascii :: "string \<Rightarrow> ustring" where
  "ascii s = map of_char s"

definition scalar_value :: "nat \<Rightarrow> bool" where
  "scalar_value c \<longleftrightarrow> c < 0xD800 \<or> (0xE000 \<le> c \<and> c \<le> 0x10FFFF)"

definition valid_str :: "ustring \<Rightarrow> bool" where
  "valid_str s \<longleftrightarrow> list_all scalar_value s"

definition is_control :: "nat \<Rightarrow> bool" where
  "is_control c \<longleftrightarrow> c \<le> 0x1F \<or> (0x7F \<le> c \<and> c \<le> 0x9F)"

definition is_whitespace :: "nat \<Rightarrow> bool" where
  "is_whitespace c \<longleftrightarrow>
     (9 \<le> c \<and> c \<le> 13) \<or> c = 32 \<or> c = 0x85 \<or> c = 0xA0 \<or> c = 0x1680
   \<or> (0x2000 \<le> c \<and> c \<le> 0x200A) \<or> c = 0x2028 \<or> c = 0x2029 \<or> c = 0x202F
   \<or> c = 0x205F \<or> c = 0x3000"

definition trim_start :: "ustring \<Rightarrow> ustring" where
  "trim_start s = dropWhile is_whitespace s"

definition trim_end :: "ustring \<Rightarrow> ustring" where
  "trim_end s = rev (dropWhile is_whitespace (rev s))"

definition trim :: "ustring \<Rightarrow> ustring" where
  "trim s = trim_end (trim_start s)"

section \<open>UTF-8\<close>

definition utf8_char :: "nat \<Rightarrow> byte list" where
  "utf8_char c =
     (if c < 0x80 then [byte_of c]
      else if c < 0x800 then [byte_of (0xC0 + c div 64), byte_of (0x80 + c mod 64)]
      else if c < 0x10000 then
        [byte_of (0xE0 + c div 4096), byte_of (0x80 + c div 64 mod 64),
         byte_of (0x80 + c mod 64)]
      else
        [byte_of (0xF0 + c div 262144), byte_of (0x80 + c div 4096 mod 64),
         byte_of (0x80 + c div 64 mod 64), byte_of (0x80 + c mod 64)])"

definition utf8_encode :: "ustring \<Rightarrow> byte list" where
  "utf8_encode s = concat (map utf8_char s)"

definition str_len :: "ustring \<Rightarrow> nat" where
  "str_len s = length (utf8_encode s)"

definition continuation :: "byte \<Rightarrow> bool" where
  "continuation b \<longleftrightarrow> 0x80 \<le> unat b \<and> unat b < 0xC0"

definition accept :: "nat \<Rightarrow> nat \<Rightarrow> bool" where
  "accept least v \<longleftrightarrow> least \<le> v \<and> scalar_value v"

text \<open>\<open>std::str::from_utf8\<close>: shortest forms only, no surrogates, nothing above \<open>10FFFF\<close>.\<close>

fun utf8_decode :: "byte list \<Rightarrow> ustring option" where
  "utf8_decode [] = Some []"
| "utf8_decode (b # bs) =
     (let n = unat b in
      if n < 0x80 then map_option ((#) n) (utf8_decode bs)
      else if 0xC0 \<le> n \<and> n < 0xE0 then
        (case bs of
           c1 # r \<Rightarrow>
             (let v = (n - 0xC0) * 64 + (unat c1 - 0x80) in
              if continuation c1 \<and> accept 0x80 v then map_option ((#) v) (utf8_decode r) else None)
         | _ \<Rightarrow> None)
      else if 0xE0 \<le> n \<and> n < 0xF0 then
        (case bs of
           c1 # c2 # r \<Rightarrow>
             (let v = (n - 0xE0) * 4096 + (unat c1 - 0x80) * 64 + (unat c2 - 0x80) in
              if continuation c1 \<and> continuation c2 \<and> accept 0x800 v
              then map_option ((#) v) (utf8_decode r) else None)
         | _ \<Rightarrow> None)
      else if 0xF0 \<le> n \<and> n < 0xF8 then
        (case bs of
           c1 # c2 # c3 # r \<Rightarrow>
             (let v = (n - 0xF0) * 262144 + (unat c1 - 0x80) * 4096 + (unat c2 - 0x80) * 64
                      + (unat c3 - 0x80) in
              if continuation c1 \<and> continuation c2 \<and> continuation c3 \<and> accept 0x10000 v
              then map_option ((#) v) (utf8_decode r) else None)
         | _ \<Rightarrow> None)
      else None)"

section \<open>Round trip\<close>

lemma utf8_encode_Cons: "utf8_encode (c # s) = utf8_char c @ utf8_encode s"
  by (simp add: utf8_encode_def)

lemma utf8_encode_Nil [simp]: "utf8_encode [] = []"
  by (simp add: utf8_encode_def)

lemma digits64_2: "(c::nat) div 64 * 64 + c mod 64 = c"
  by simp

lemma digits64_3: "(c::nat) div 4096 * 4096 + c div 64 mod 64 * 64 + c mod 64 = c"
proof -
  have "c div 64 div 64 = c div 4096" by (simp add: div_mult2_eq [symmetric])
  then have "c div 64 = c div 4096 * 64 + c div 64 mod 64"
    by (metis div_mult_mod_eq)
  then show ?thesis using div_mult_mod_eq [of c 64] by linarith
qed

lemma digits64_4:
  "(c::nat) div 262144 * 262144 + c div 4096 mod 64 * 4096 + c div 64 mod 64 * 64 + c mod 64 = c"
proof -
  have "c div 4096 div 64 = c div 262144" by (simp add: div_mult2_eq [symmetric])
  then have "c div 4096 = c div 262144 * 64 + c div 4096 mod 64"
    by (metis div_mult_mod_eq)
  then show ?thesis using digits64_3 [of c] by linarith
qed

lemma scalar_value_bound: "scalar_value c \<Longrightarrow> c < 0x110000"
  by (auto simp: scalar_value_def)

lemma utf8_decode_char:
  assumes "scalar_value c"
  shows "utf8_decode (utf8_char c @ bs) = map_option ((#) c) (utf8_decode bs)"
proof -
  consider (one) "c < 0x80" | (two) "0x80 \<le> c" "c < 0x800" | (three) "0x800 \<le> c" "c < 0x10000"
    | (four) "0x10000 \<le> c" "c < 0x110000"
    using scalar_value_bound [OF assms] by linarith
  then show ?thesis
  proof cases
    case one
    then show ?thesis by (simp add: utf8_char_def)
  next
    case two
    then have "c div 64 < 32" by (simp add: less_mult_imp_div_less)
    with two assms show ?thesis
      by (simp add: utf8_char_def continuation_def accept_def digits64_2)
  next
    case three
    then have "c div 4096 < 16" by (simp add: less_mult_imp_div_less)
    with three assms show ?thesis
      by (simp add: utf8_char_def continuation_def accept_def digits64_3)
  next
    case four
    then have "c div 262144 < 8" by (simp add: less_mult_imp_div_less)
    with four assms show ?thesis
      by (simp add: utf8_char_def continuation_def accept_def digits64_4)
  qed
qed

lemma utf8_decode_encode [simp]: "valid_str s \<Longrightarrow> utf8_decode (utf8_encode s) = Some s"
  by (induction s) (simp_all add: valid_str_def utf8_encode_Cons utf8_decode_char del: utf8_decode.simps(2))

section \<open>Text facts\<close>

lemma ascii_append: "ascii (s @ t) = ascii s @ ascii t"
  by (simp add: ascii_def)

lemma length_ascii [simp]: "length (ascii s) = length s"
  by (simp add: ascii_def)

lemma ascii_Nil [simp]: "ascii [] = []"
  by (simp add: ascii_def)

lemma trim_start_append: "\<exists>p. s = p @ trim_start s \<and> list_all is_whitespace p"
  unfolding trim_start_def
  by (metis Ball_set set_takeWhileD takeWhile_dropWhile_id)

lemma utf8_char_nonempty: "0 < length (utf8_char c)"
  by (simp add: utf8_char_def)

lemma length_le_str_len: "length s \<le> str_len s"
  unfolding str_len_def
proof (induction s)
  case Nil
  then show ?case by simp
next
  case (Cons c s)
  then show ?case
    using utf8_char_nonempty [of c] by (simp only: utf8_encode_Cons length_append list.size)
qed

lemma utf8_char_le4: "length (utf8_char c) \<le> 4"
  by (simp add: utf8_char_def)

end
