(* ===== verification/Remote_Task.thy ===== *)
theory Remote_Task
  imports Operation_Store Rust_Text
begin

text \<open>
  The persisted observation of an asynchronous BMC task, \<open>operation-engine/src/remote_task.rs\<close>,
  and the store trait of \<open>operation-engine/src/remote_task_store.rs\<close>. The states of the Redfish
  \<open>Task_v1\<close> enumeration carry the prefix \<open>Task_\<close>, because operations have states of the same
  names. What the trait's documentation promises, together with how saving an observation
  relates to the operations of the same store, is the locale \<open>monitored_store\<close>.
\<close>

section \<open>States\<close>

datatype remote_task_state =
    Task_New | Task_Starting | Task_Running | Task_Suspended | Task_Interrupted | Task_Pending
  | Task_Stopping | Task_Completed | Task_Killed | Task_Exception | Task_Service | Task_Cancelling
  | Task_Cancelled

datatype remote_task_state_parse_error = RemoteTaskStateParseError

fun remote_task_state_as_str :: "remote_task_state \<Rightarrow> string" where
  "remote_task_state_as_str Task_New = ''new''"
| "remote_task_state_as_str Task_Starting = ''starting''"
| "remote_task_state_as_str Task_Running = ''running''"
| "remote_task_state_as_str Task_Suspended = ''suspended''"
| "remote_task_state_as_str Task_Interrupted = ''interrupted''"
| "remote_task_state_as_str Task_Pending = ''pending''"
| "remote_task_state_as_str Task_Stopping = ''stopping''"
| "remote_task_state_as_str Task_Completed = ''completed''"
| "remote_task_state_as_str Task_Killed = ''killed''"
| "remote_task_state_as_str Task_Exception = ''exception''"
| "remote_task_state_as_str Task_Service = ''service''"
| "remote_task_state_as_str Task_Cancelling = ''cancelling''"
| "remote_task_state_as_str Task_Cancelled = ''cancelled''"

definition task_is_terminal :: "remote_task_state \<Rightarrow> bool" where
  "task_is_terminal st \<longleftrightarrow> st \<in> {Task_Completed, Task_Exception, Task_Killed, Task_Cancelled}"

definition remote_task_state_codes :: "(string \<times> remote_task_state) list" where
  "remote_task_state_codes =
    [(''new'', Task_New), (''starting'', Task_Starting), (''running'', Task_Running),
     (''suspended'', Task_Suspended), (''interrupted'', Task_Interrupted), (''pending'', Task_Pending),
     (''stopping'', Task_Stopping), (''completed'', Task_Completed), (''killed'', Task_Killed),
     (''exception'', Task_Exception), (''service'', Task_Service), (''cancelling'', Task_Cancelling),
     (''cancelled'', Task_Cancelled)]"

definition remote_task_state_from_str :: "string \<Rightarrow> remote_task_state_parse_error + remote_task_state" where
  "remote_task_state_from_str value =
     ok_or RemoteTaskStateParseError (map_of remote_task_state_codes value)"

section \<open>Task URIs\<close>

type_synonym task_uri = ustring

datatype task_uri_error =
    Uri_Empty | Uri_SurroundingWhitespace | Uri_ControlCharacter | Uri_TooLong nat nat

definition MAX_TASK_URI_BYTES :: nat where
  "MAX_TASK_URI_BYTES = 4 * 1024"

definition validate_uri_text :: "ustring \<Rightarrow> nat \<Rightarrow> task_uri_error + unit" where
  "validate_uri_text value maximum =
     (if value = [] then Inl Uri_Empty
      else if trim value \<noteq> value then Inl Uri_SurroundingWhitespace
      else if list_ex is_control value then Inl Uri_ControlCharacter
      else if str_len value > maximum then Inl (Uri_TooLong (str_len value) maximum)
      else Inr ())"

definition task_uri_parse :: "ustring \<Rightarrow> task_uri_error + task_uri" where
  "task_uri_parse value = rbind (validate_uri_text value MAX_TASK_URI_BYTES) (\<lambda>_. Inr value)"

section \<open>The record\<close>

record remote_task =
  rt_operation_id :: operation_id
  rt_endpoint_id :: endpoint_id
  rt_task_uri :: task_uri
  rt_task_monitor_uri :: "task_uri option"
  rt_last_state :: remote_task_state
  rt_last_message :: "ustring option"
  rt_percent_complete :: "64 word option"
  rt_last_checked_at :: instant

datatype remote_task_error = PercentOutOfRange "64 word"

definition remote_task_new ::
  "operation_id \<Rightarrow> endpoint_id \<Rightarrow> task_uri \<Rightarrow> task_uri option \<Rightarrow> instant \<Rightarrow> remote_task" where
  "remote_task_new operation_id endpoint_id uri monitor_uri last_checked_at =
     \<lparr>rt_operation_id = operation_id, rt_endpoint_id = endpoint_id, rt_task_uri = uri,
      rt_task_monitor_uri = monitor_uri, rt_last_state = Task_New, rt_last_message = None,
      rt_percent_complete = None, rt_last_checked_at = last_checked_at\<rparr>"

definition remote_task_try_from_parts ::
  "operation_id \<Rightarrow> endpoint_id \<Rightarrow> task_uri \<Rightarrow> task_uri option \<Rightarrow> remote_task_state \<Rightarrow> ustring option
     \<Rightarrow> 64 word option \<Rightarrow> instant \<Rightarrow> remote_task_error + remote_task" where
  "remote_task_try_from_parts operation_id endpoint_id uri monitor_uri last_state last_message
       percent_complete last_checked_at =
     rbind (case percent_complete of
              Some p \<Rightarrow> if p > 100 then Inl (PercentOutOfRange p) else Inr ()
            | None \<Rightarrow> Inr ()) (\<lambda>_.
     Inr \<lparr>rt_operation_id = operation_id, rt_endpoint_id = endpoint_id, rt_task_uri = uri,
       rt_task_monitor_uri = monitor_uri, rt_last_state = last_state,
       rt_last_message = last_message, rt_percent_complete = percent_complete,
       rt_last_checked_at = last_checked_at\<rparr>)"

definition remote_task_is_terminal :: "remote_task \<Rightarrow> bool" where
  "remote_task_is_terminal task = task_is_terminal (rt_last_state task)"

section \<open>The store trait\<close>

record ('s, 'e) remote_task_store =
  rs_save_remote_task :: "remote_task \<Rightarrow> 's \<Rightarrow> ('e + unit) \<times> 's"
  rs_find_remote_task :: "operation_id \<Rightarrow> 's \<Rightarrow> 'e + remote_task option"
  rs_list_remote_tasks_by_state :: "remote_task_state \<Rightarrow> 's \<Rightarrow> 'e + remote_task list"

section \<open>Well-formed records\<close>

text \<open>What the private fields of the Rust types guarantee of every record.\<close>

definition remote_task_ok :: "remote_task \<Rightarrow> bool" where
  "remote_task_ok task \<longleftrightarrow>
     task_uri_parse (rt_task_uri task) = Inr (rt_task_uri task)
   \<and> (case rt_task_monitor_uri task of None \<Rightarrow> True | Some u \<Rightarrow> task_uri_parse u = Inr u)
   \<and> (case rt_percent_complete task of None \<Rightarrow> True | Some p \<Rightarrow> p \<le> 100)"

lemma task_uri_parse_Inr:
  "task_uri_parse v = Inr u \<longleftrightarrow>
     u = v \<and> v \<noteq> [] \<and> trim v = v \<and> \<not> list_ex is_control v \<and> str_len v \<le> MAX_TASK_URI_BYTES"
  by (auto simp: task_uri_parse_def validate_uri_text_def split: if_splits)

lemma task_uri_parse_idem: "task_uri_parse v = Inr u \<Longrightarrow> task_uri_parse u = Inr u"
  by (auto simp: task_uri_parse_def result_simps)

lemma remote_task_new_ok:
  "task_uri_parse u = Inr u \<Longrightarrow> (\<And>m. monitor_uri = Some m \<Longrightarrow> task_uri_parse m = Inr m) \<Longrightarrow>
     remote_task_ok (remote_task_new i e u monitor_uri t)"
  by (auto simp: remote_task_ok_def remote_task_new_def split: option.splits)

lemma remote_task_try_from_parts_Inr:
  "remote_task_try_from_parts i e u m st msg p t = Inr task \<longleftrightarrow>
     (case p of None \<Rightarrow> True | Some q \<Rightarrow> q \<le> 100)
   \<and> task = \<lparr>rt_operation_id = i, rt_endpoint_id = e, rt_task_uri = u, rt_task_monitor_uri = m,
       rt_last_state = st, rt_last_message = msg, rt_percent_complete = p, rt_last_checked_at = t\<rparr>"
  by (auto simp: remote_task_try_from_parts_def not_less split: option.splits)

lemma remote_task_state_codes_table:
  "remote_task_state_codes = map (\<lambda>x. (remote_task_state_as_str x, x)) (map snd remote_task_state_codes)"
  by (simp add: remote_task_state_codes_def)

lemma remote_task_state_listed: "x \<in> set (map snd remote_task_state_codes)"
  by (cases x) (simp_all add: remote_task_state_codes_def)

lemma distinct_remote_task_state_codes:
  "distinct (map remote_task_state_as_str (map snd remote_task_state_codes))"
  by (simp add: remote_task_state_codes_def)

interpretation task_state_code: stable_code remote_task_state_as_str remote_task_state_from_str
  unfolding remote_task_state_from_str_def
  by (rule code_of_table [OF remote_task_state_codes_table remote_task_state_listed
        distinct_remote_task_state_codes])

section \<open>A store of operations and their tasks\<close>

locale monitored_store = operation_store_contract ops inv view stored
  for ops :: "('s, 'c, 'e) operation_store" and inv view stored +
  fixes tasks :: "('s, 'r) remote_task_store"
    and task_view :: "'s \<Rightarrow> operation_id \<Rightarrow> remote_task option"
  assumes save_error: "rs_save_remote_task tasks task s = (Inl e, s') \<Longrightarrow> s' = s"
    and save_ok: "inv s \<Longrightarrow> remote_task_ok task \<Longrightarrow> rs_save_remote_task tasks task s = (Inr u, s') \<Longrightarrow>
      inv s' \<and> task_view s' = (task_view s)(rt_operation_id task \<mapsto> task) \<and> view s' = view s"
    and find_task: "inv s \<Longrightarrow> rs_find_remote_task tasks i s = Inr r \<Longrightarrow> r = task_view s i"
    and task_view_ok: "inv s \<Longrightarrow> task_view s i = Some task \<Longrightarrow> rt_operation_id task = i \<and> remote_task_ok task"
    and step_keeps_tasks: "st_apply_transition ops i st t s = (Inr u, s') \<Longrightarrow> task_view s' = task_view s"

end
