(* ===== verification/Command_Cipher.thy ===== *)
theory Command_Cipher
  imports Rust_Text
begin

text \<open>
  Protection of persisted command payloads, \<open>security/src/command_cipher.rs\<close>: the
  \<open>RUTC1:\<close> envelope around base64 of nonce and authenticated ciphertext. The AEAD
  (\<open>chacha20poly1305\<close>) and base64 crates are the fields of \<open>cipher_lib\<close>; \<open>cipher_lib_ok\<close> states
  what their documentation promises. The nonce the operating system fills in
  (\<open>getrandom::fill\<close>) is an argument, \<open>None\<close> when it cannot.
\<close>

record cipher_lib =
  aead_encrypt :: "byte list \<Rightarrow> byte list \<Rightarrow> byte list \<Rightarrow> byte list \<Rightarrow> byte list option"
  aead_decrypt :: "byte list \<Rightarrow> byte list \<Rightarrow> byte list \<Rightarrow> byte list \<Rightarrow> byte list option"
  base64_encode :: "byte list \<Rightarrow> ustring"
  base64_decode :: "ustring \<Rightarrow> byte list option"

datatype command_protection_error =
    RandomnessUnavailable | EncryptionFailed | InvalidMasterKeyLength
  | MalformedEnvelope | AuthenticationFailed | InvalidPlaintextEncoding

definition COMMAND_NONCE_LENGTH :: nat where
  "COMMAND_NONCE_LENGTH = 24"

definition AUTHENTICATION_TAG_LENGTH :: nat where
  "AUTHENTICATION_TAG_LENGTH = 16"

definition COMMAND_CIPHER_ENVELOPE_PREFIX :: ustring where
  "COMMAND_CIPHER_ENVELOPE_PREFIX = ascii ''RUTC1:''"

text \<open>\<open>XChaCha20Poly1305::new_from_slice\<close> accepts a 32-byte key and nothing else.\<close>

definition cipher_key :: "byte list \<Rightarrow> command_protection_error + byte list" where
  "cipher_key master_key = (if length master_key = 32 then Inr master_key else Inl InvalidMasterKeyLength)"

definition encrypt_command ::
  "cipher_lib \<Rightarrow> byte list option \<Rightarrow> byte list \<Rightarrow> byte list \<Rightarrow> ustring
     \<Rightarrow> command_protection_error + ustring" where
  "encrypt_command lib getrandom master_key identity plaintext =
     rbind (ok_or RandomnessUnavailable getrandom) (\<lambda>nonce.
     rbind (cipher_key master_key) (\<lambda>key.
     rbind (ok_or EncryptionFailed (aead_encrypt lib key nonce identity (utf8_encode plaintext)))
       (\<lambda>ciphertext. Inr (COMMAND_CIPHER_ENVELOPE_PREFIX @ base64_encode lib (nonce @ ciphertext)))))"

definition strip_prefix :: "ustring \<Rightarrow> ustring \<Rightarrow> ustring option" where
  "strip_prefix p s = (if prefix p s then Some (drop (length p) s) else None)"

definition decrypt_command ::
  "cipher_lib \<Rightarrow> byte list \<Rightarrow> byte list \<Rightarrow> ustring \<Rightarrow> command_protection_error + ustring" where
  "decrypt_command lib master_key identity envelope =
     rbind (ok_or MalformedEnvelope (strip_prefix COMMAND_CIPHER_ENVELOPE_PREFIX envelope)) (\<lambda>payload.
     rbind (ok_or MalformedEnvelope (base64_decode lib payload)) (\<lambda>decoded.
     if length decoded < COMMAND_NONCE_LENGTH then Inl MalformedEnvelope
     else let nonce = take COMMAND_NONCE_LENGTH decoded;
              ciphertext = drop COMMAND_NONCE_LENGTH decoded in
       if length ciphertext < AUTHENTICATION_TAG_LENGTH then Inl MalformedEnvelope
       else rbind (cipher_key master_key) (\<lambda>key.
            rbind (ok_or AuthenticationFailed (aead_decrypt lib key nonce identity ciphertext)) (\<lambda>plain.
            ok_or InvalidPlaintextEncoding (utf8_decode plain)))))"

section \<open>What the crates promise\<close>

text \<open>
  Decryption under the same key, nonce and associated data inverts encryption; an
  XChaCha20-Poly1305 ciphertext carries a 16-byte tag; standard base64 decodes what it
  encoded.
\<close>

definition cipher_lib_ok :: "cipher_lib \<Rightarrow> bool" where
  "cipher_lib_ok lib \<longleftrightarrow>
     (\<forall>key nonce aad msg c. aead_encrypt lib key nonce aad msg = Some c \<longrightarrow>
        aead_decrypt lib key nonce aad c = Some msg \<and> 16 \<le> length c)
   \<and> (\<forall>bs. base64_decode lib (base64_encode lib bs) = Some bs)"

section \<open>Lemmas\<close>

lemma strip_prefix_append [simp]: "strip_prefix p (p @ s) = Some s"
  by (simp add: strip_prefix_def)

lemma strip_prefix_Some: "strip_prefix p s = Some r \<longleftrightarrow> s = p @ r"
  by (auto simp: strip_prefix_def prefix_def)

lemma encrypt_command_prefix:
  "encrypt_command lib rnd key identity p = Inr env \<Longrightarrow> prefix COMMAND_CIPHER_ENVELOPE_PREFIX env"
  by (auto simp: encrypt_command_def result_simps)

lemma decrypt_encrypt:
  assumes lib: "cipher_lib_ok lib"
    and nonce: "\<And>n. rnd = Some n \<Longrightarrow> length n = COMMAND_NONCE_LENGTH"
    and valid: "valid_str plaintext"
    and enc: "encrypt_command lib rnd key identity plaintext = Inr env"
  shows "decrypt_command lib key identity env = Inr plaintext"
proof -
  from enc obtain n c where n: "rnd = Some n" and key: "length key = 32"
    and c: "aead_encrypt lib key n identity (utf8_encode plaintext) = Some c"
    and env: "env = COMMAND_CIPHER_ENVELOPE_PREFIX @ base64_encode lib (n @ c)"
    by (auto simp: encrypt_command_def result_simps cipher_key_def split: if_splits)
  have "length n = 24" using nonce [OF n] by (simp add: COMMAND_NONCE_LENGTH_def)
  moreover have "aead_decrypt lib key n identity c = Some (utf8_encode plaintext)" "16 \<le> length c"
    using lib c by (auto simp: cipher_lib_ok_def)
  moreover have "base64_decode lib (base64_encode lib (n @ c)) = Some (n @ c)"
    using lib by (simp add: cipher_lib_ok_def)
  ultimately show ?thesis
    using valid key unfolding decrypt_command_def env
    by (simp add: COMMAND_NONCE_LENGTH_def AUTHENTICATION_TAG_LENGTH_def cipher_key_def)
qed

section \<open>Properties\<close>

text \<open>
  C6: A protected command comes back unchanged: whatever nonce was drawn, decrypting the
  envelope under the same master key and row identity returns the plaintext that was
  encrypted, and the envelope always carries the marker that tells it from a legacy
  plaintext row.
\<close>

theorem command_envelope_roundtrip:
  assumes "cipher_lib_ok lib"
    and "length n = COMMAND_NONCE_LENGTH"
    and "valid_str plaintext"
    and "encrypt_command lib (Some n) key identity plaintext = Inr env"
  shows "decrypt_command lib key identity env = Inr plaintext
         \<and> prefix COMMAND_CIPHER_ENVELOPE_PREFIX env"
  using assms by (auto intro: decrypt_encrypt encrypt_command_prefix)

text \<open>
  A concrete library for the witness: identity base64 over code points and an AEAD that
  appends a 16-byte tag made of the associated data.
\<close>

definition demo_lib :: cipher_lib where
  "demo_lib =
     \<lparr>aead_encrypt = (\<lambda>key nonce aad msg. Some (msg @ replicate 16 (byte_of (length aad)))),
      aead_decrypt = (\<lambda>key nonce aad c.
        if 16 \<le> length c \<and> drop (length c - 16) c = replicate 16 (byte_of (length aad))
        then Some (take (length c - 16) c) else None),
      base64_encode = map unat, base64_decode = (\<lambda>s. Some (map byte_of s))\<rparr>"

lemma demo_lib_ok: "cipher_lib_ok demo_lib"
  by (simp add: cipher_lib_ok_def demo_lib_def comp_def)

theorem command_envelope_roundtrip_witness:
  "\<exists>env. encrypt_command demo_lib (Some (replicate 24 7)) (replicate 32 1) (replicate 16 0) [123, 125]
           = Inr env
       \<and> decrypt_command demo_lib (replicate 32 1) (replicate 16 0) env = Inr [123, 125]"
proof -
  have valid: "valid_str [123, 125]" by (simp add: valid_str_def scalar_value_def)
  have len: "length (replicate 24 7 :: byte list) = COMMAND_NONCE_LENGTH"
    by (simp add: COMMAND_NONCE_LENGTH_def)
  obtain env where env: "encrypt_command demo_lib (Some (replicate 24 7)) (replicate 32 1)
      (replicate 16 0) [123, 125] = Inr env"
    by (simp add: encrypt_command_def cipher_key_def demo_lib_def)
  from command_envelope_roundtrip [OF demo_lib_ok len valid env] env show ?thesis by blast
qed

text \<open>
  No plaintext is released without authentication: a successful decryption means the
  stored value is the version-one marker followed by base64 of a 24-byte nonce and a
  ciphertext of at least tag length, and that the AEAD itself accepted exactly that
  ciphertext under the given key, nonce and row identity, with the released text its UTF-8
  reading.
\<close>

theorem decrypt_command_released_only_authenticated:
  "decrypt_command lib key identity env = Inr p \<longleftrightarrow>
     (\<exists>payload nonce ct plain.
        env = COMMAND_CIPHER_ENVELOPE_PREFIX @ payload
      \<and> base64_decode lib payload = Some (nonce @ ct)
      \<and> length nonce = COMMAND_NONCE_LENGTH \<and> AUTHENTICATION_TAG_LENGTH \<le> length ct
      \<and> length key = 32
      \<and> aead_decrypt lib key nonce identity ct = Some plain
      \<and> utf8_decode plain = Some p)"
proof
  assume "decrypt_command lib key identity env = Inr p"
  then obtain payload decoded plain where d: "env = COMMAND_CIPHER_ENVELOPE_PREFIX @ payload"
    "base64_decode lib payload = Some decoded" "COMMAND_NONCE_LENGTH \<le> length decoded"
    "AUTHENTICATION_TAG_LENGTH \<le> length (drop COMMAND_NONCE_LENGTH decoded)" "length key = 32"
    "aead_decrypt lib key (take COMMAND_NONCE_LENGTH decoded) identity
       (drop COMMAND_NONCE_LENGTH decoded) = Some plain"
    "utf8_decode plain = Some p"
    by (auto simp: decrypt_command_def result_simps cipher_key_def strip_prefix_Some Let_def not_less
        split: if_splits)
  show "\<exists>payload nonce ct plain. env = COMMAND_CIPHER_ENVELOPE_PREFIX @ payload
      \<and> base64_decode lib payload = Some (nonce @ ct)
      \<and> length nonce = COMMAND_NONCE_LENGTH \<and> AUTHENTICATION_TAG_LENGTH \<le> length ct
      \<and> length key = 32 \<and> aead_decrypt lib key nonce identity ct = Some plain
      \<and> utf8_decode plain = Some p"
    using d by (intro exI [of _ payload] exI [of _ "take COMMAND_NONCE_LENGTH decoded"]
        exI [of _ "drop COMMAND_NONCE_LENGTH decoded"] exI [of _ plain]) simp
qed (auto simp: decrypt_command_def cipher_key_def strip_prefix_Some)

end
