(* ===== verification/Operation_Repository.thy ===== *)
theory Operation_Repository
  imports Operation_Store Command_Cipher
begin

text \<open>
  The SQLite implementation of the operation store,
  \<open>persistence/src/operation_repository.rs\<close>. A store is its command key, the tables
  (\<open>operations\<close>, \<open>operation_targets\<close>, \<open>batch_operations\<close> and \<open>remote_tasks\<close>, with the columns of
  the entity models) and the outside world its methods meet: the cipher crates, \<open>serde_json\<close> on the
  command type, the random nonces drawn for each row, and which database calls fail. A write
  method runs inside a write permit and one transaction: an early error return drops the
  transaction, so nothing is stored. The tables carry the primary keys of the migrations; a
  duplicate target of one operation violates one and surfaces as a database error.
\<close>

section \<open>Tables\<close>

record op_row =
  or_id :: uuid
  or_source :: string
  or_state :: string
  or_command :: ustring
  or_batch_id :: "uuid option"
  or_failure_kind :: "string option"
  or_created_at :: instant
  or_updated_at :: instant

record target_row =
  tr_operation_id :: uuid
  tr_target_id :: uuid
  tr_endpoint_id :: uuid

record batch_row =
  br_id :: uuid
  br_source :: string
  br_command :: ustring
  br_created_at :: instant

record remote_task_row =
  rr_operation_id :: uuid
  rr_endpoint_id :: uuid
  rr_task_uri :: ustring
  rr_task_monitor_uri :: "ustring option"
  rr_last_state :: string
  rr_last_message :: "ustring option"
  rr_percent_complete :: "32 word option"
  rr_last_checked_at :: instant

record db =
  db_operations :: "op_row list"
  db_targets :: "target_row list"
  db_batches :: "batch_row list"
  db_remote_tasks :: "remote_task_row list"

text \<open>The calls that can fail for reasons outside the product.\<close>

datatype db_call =
    AcquirePermit | BeginTransaction | CommitTransaction | QueryOperation | QueryTargets
  | QueryBatch | InsertOperation | InsertTarget | InsertBatch | UpdateOperation
  | QueryRemoteTask | InsertRemoteTask | UpdateRemoteTask

record 'c sqlite_store =
  ss_command_key :: "byte list option"
  ss_database :: db
  ss_cipher :: cipher_lib
  ss_to_json :: "'c \<Rightarrow> ustring option"
  ss_from_json :: "ustring \<Rightarrow> 'c option"
  ss_getrandom :: "uuid \<Rightarrow> byte list option"
  ss_fault :: "db_call \<Rightarrow> bool"

section \<open>Errors\<close>

datatype stored_operation_error =
    InvalidState operation_state_parse_error
  | InvalidSource operation_source_parse_error
  | InvalidCommand
  | InvalidCommandCiphertext command_protection_error
  | InvalidTimeline operation_timeline_error
  | InvalidFailureKind failure_kind_parse_error

datatype stored_batch_error =
    BatchInvalidSource operation_source_parse_error
  | BatchInvalidCommand
  | BatchInvalidCommandCiphertext command_protection_error

datatype stored_command_error =
  KeyMissing | Protection command_protection_error | InvalidJson

datatype operation_repository_error =
    Coordinate
  | RowNotFound operation_id
  | TerminalConflict operation_id operation_state
  | StateConflict operation_id operation_state operation_state
  | Corrupt operation_id stored_operation_error
  | BatchCorrupt batch_operation_id stored_batch_error
  | Database
  | CommandEncode
  | CommandKeyMissing
  | CommandProtection command_protection_error

section \<open>Transactions\<close>

definition db_guard :: "'c sqlite_store \<Rightarrow> db_call \<Rightarrow> operation_repository_error + unit" where
  "db_guard store call = ensure (\<not> ss_fault store call) Database"

definition read_tx ::
  "'c sqlite_store \<Rightarrow> (db \<Rightarrow> operation_repository_error + 'a) \<Rightarrow> operation_repository_error + 'a" where
  "read_tx store body =
     rbind (db_guard store BeginTransaction) (\<lambda>_.
     rbind (body (ss_database store)) (\<lambda>a.
     rbind (db_guard store CommitTransaction) (\<lambda>_. Inr a)))"

definition write_tx ::
  "(db \<Rightarrow> operation_repository_error + db) \<Rightarrow> 'c sqlite_store
     \<Rightarrow> (operation_repository_error + unit) \<times> 'c sqlite_store" where
  "write_tx body store =
     (case rbind (ensure (\<not> ss_fault store AcquirePermit) Coordinate) (\<lambda>_.
           read_tx store body) of
        Inl e \<Rightarrow> (Inl e, store)
      | Inr db' \<Rightarrow> (Inr (), store\<lparr>ss_database := db'\<rparr>))"

section \<open>Command columns\<close>

definition identity_bytes :: "uuid \<Rightarrow> byte list" where
  "identity_bytes i = be_bytes 16 (unat i)"

definition command_key :: "'c sqlite_store \<Rightarrow> operation_repository_error + byte list" where
  "command_key store = ok_or CommandKeyMissing (ss_command_key store)"

definition serialize_command ::
  "'c sqlite_store \<Rightarrow> 'c \<Rightarrow> uuid \<Rightarrow> operation_repository_error + ustring" where
  "serialize_command store command identity =
     rbind (command_key store) (\<lambda>master_key.
     rbind (ok_or CommandEncode (ss_to_json store command)) (\<lambda>plaintext.
     map_err CommandProtection
       (encrypt_command (ss_cipher store) (ss_getrandom store identity) master_key
          (identity_bytes identity) plaintext)))"

definition deserialize_command ::
  "'c sqlite_store \<Rightarrow> ustring \<Rightarrow> uuid \<Rightarrow> stored_command_error + 'c" where
  "deserialize_command store column identity =
     rbind (if prefix COMMAND_CIPHER_ENVELOPE_PREFIX column
            then rbind (ok_or KeyMissing (ss_command_key store)) (\<lambda>master_key.
                 map_err Protection
                   (decrypt_command (ss_cipher store) master_key (identity_bytes identity) column))
            else Inr column)
       (\<lambda>plaintext. ok_or InvalidJson (ss_from_json store plaintext))"

section \<open>Rehydration\<close>

fun operation_command_error :: "operation_id \<Rightarrow> stored_command_error \<Rightarrow> operation_repository_error" where
  "operation_command_error i KeyMissing = CommandKeyMissing"
| "operation_command_error i (Protection e) = Corrupt i (InvalidCommandCiphertext e)"
| "operation_command_error i InvalidJson = Corrupt i InvalidCommand"

fun batch_command_error :: "batch_operation_id \<Rightarrow> stored_command_error \<Rightarrow> operation_repository_error" where
  "batch_command_error i KeyMissing = CommandKeyMissing"
| "batch_command_error i (Protection e) = BatchCorrupt i (BatchInvalidCommandCiphertext e)"
| "batch_command_error i InvalidJson = BatchCorrupt i BatchInvalidCommand"

definition map_stored_batch ::
  "'c sqlite_store \<Rightarrow> batch_row \<Rightarrow> operation_repository_error + 'c batch_operation" where
  "map_stored_batch store model =
     rbind (map_err (\<lambda>e. BatchCorrupt (br_id model) (BatchInvalidSource e))
              (operation_source_from_str (br_source model))) (\<lambda>source.
     rbind (map_err (batch_command_error (br_id model))
              (deserialize_command store (br_command model) (br_id model))) (\<lambda>command.
     Inr (batch_operation_try_from_parts (br_id model) source command (br_created_at model))))"

definition select_targets :: "db \<Rightarrow> operation_id \<Rightarrow> operation_target list" where
  "select_targets database i =
     map (\<lambda>t. operation_target_new (tr_target_id t) (tr_endpoint_id t))
       (sort_key tr_target_id (filter (\<lambda>t. tr_operation_id t = i) (db_targets database)))"

definition map_stored_operation ::
  "'c sqlite_store \<Rightarrow> db \<Rightarrow> op_row \<Rightarrow> operation_repository_error + 'c operation" where
  "map_stored_operation store database model =
     rbind (map_err (\<lambda>e. Corrupt (or_id model) (InvalidSource e))
              (operation_source_from_str (or_source model))) (\<lambda>source.
     rbind (map_err (\<lambda>e. Corrupt (or_id model) (InvalidState e))
              (operation_state_from_str (or_state model))) (\<lambda>st.
     rbind (map_err (operation_command_error (or_id model))
              (deserialize_command store (or_command model) (or_id model))) (\<lambda>command.
     rbind (db_guard store QueryTargets) (\<lambda>_.
     map_err (\<lambda>e. Corrupt (or_id model) (InvalidTimeline e))
       (operation_try_from_parts (or_id model) source (select_targets database (or_id model))
          command st (or_created_at model) (or_updated_at model))))))"

definition map_failure_kind ::
  "operation_id \<Rightarrow> string option \<Rightarrow> operation_repository_error + failure_kind option" where
  "map_failure_kind i column =
     (case column of
        None \<Rightarrow> Inr None
      | Some code \<Rightarrow>
          rbind (map_err (\<lambda>e. Corrupt i (InvalidFailureKind e)) (failure_kind_from_str code))
            (\<lambda>kind. Inr (Some kind)))"

section \<open>Creating\<close>

definition find_row :: "db \<Rightarrow> operation_id \<Rightarrow> op_row option" where
  "find_row database i = List.find (\<lambda>r. or_id r = i) (db_operations database)"

definition insert_target ::
  "'c sqlite_store \<Rightarrow> operation_id \<Rightarrow> operation_target \<Rightarrow> db \<Rightarrow> operation_repository_error + db" where
  "insert_target store i target database =
     rbind (db_guard store InsertTarget) (\<lambda>_.
     if list_ex (\<lambda>t. tr_operation_id t = i \<and> tr_target_id t = tg_target_id target) (db_targets database)
     then Inl Database
     else Inr (database\<lparr>db_targets := db_targets database @
            [\<lparr>tr_operation_id = i, tr_target_id = tg_target_id target,
              tr_endpoint_id = tg_endpoint_id target\<rparr>]\<rparr>))"

definition operation_row ::
  "'c operation \<Rightarrow> ustring \<Rightarrow> uuid option \<Rightarrow> op_row" where
  "operation_row domain column batch_id =
     \<lparr>or_id = op_id domain, or_source = operation_source_as_str (op_source domain),
      or_state = operation_state_as_str (op_state domain), or_command = column,
      or_batch_id = batch_id, or_failure_kind = None,
      or_created_at = op_created_at domain, or_updated_at = op_updated_at domain\<rparr>"

definition insert_operation_aggregate ::
  "'c sqlite_store \<Rightarrow> uuid option \<Rightarrow> 'c operation \<Rightarrow> db \<Rightarrow> operation_repository_error + db" where
  "insert_operation_aggregate store batch_id domain database =
     rbind (db_guard store QueryOperation) (\<lambda>_.
     case find_row database (op_id domain) of
       Some _ \<Rightarrow> Inr database
     | None \<Rightarrow>
         rbind (serialize_command store (op_command domain) (op_id domain)) (\<lambda>column.
         rbind (db_guard store InsertOperation) (\<lambda>_.
         fold_res (insert_target store (op_id domain)) (op_targets domain)
           (database\<lparr>db_operations := db_operations database @ [operation_row domain column batch_id]\<rparr>))))"

definition create_operation ::
  "'c operation \<Rightarrow> 'c sqlite_store \<Rightarrow> (operation_repository_error + unit) \<times> 'c sqlite_store" where
  "create_operation domain store =
     (case command_key store of
        Inl e \<Rightarrow> (Inl e, store)
      | Inr _ \<Rightarrow> write_tx (insert_operation_aggregate store None domain) store)"

definition find_batch_row :: "db \<Rightarrow> batch_operation_id \<Rightarrow> batch_row option" where
  "find_batch_row database i = List.find (\<lambda>r. br_id r = i) (db_batches database)"

definition create_batch ::
  "'c batch_operation \<Rightarrow> 'c operation list \<Rightarrow> 'c sqlite_store
     \<Rightarrow> (operation_repository_error + unit) \<times> 'c sqlite_store" where
  "create_batch batch children store =
     (case command_key store of
        Inl e \<Rightarrow> (Inl e, store)
      | Inr _ \<Rightarrow> write_tx (\<lambda>database.
          rbind (db_guard store QueryBatch) (\<lambda>_.
          case find_batch_row database (ba_id batch) of
            Some _ \<Rightarrow> Inr database
          | None \<Rightarrow>
              rbind (serialize_command store (ba_command batch) (ba_id batch)) (\<lambda>column.
              rbind (db_guard store InsertBatch) (\<lambda>_.
              fold_res (insert_operation_aggregate store (Some (ba_id batch))) children
                (database\<lparr>db_batches := db_batches database @
                   [\<lparr>br_id = ba_id batch, br_source = operation_source_as_str (ba_source batch),
                     br_command = column, br_created_at = ba_created_at batch\<rparr>]\<rparr>))))) store)"

section \<open>Reading\<close>

definition find_operation ::
  "operation_id \<Rightarrow> 'c sqlite_store \<Rightarrow> operation_repository_error + 'c operation option" where
  "find_operation i store = read_tx store (\<lambda>database.
     rbind (db_guard store QueryOperation) (\<lambda>_.
     case find_row database i of
       None \<Rightarrow> Inr None
     | Some model \<Rightarrow> rbind (map_stored_operation store database model) (\<lambda>op. Inr (Some op))))"

definition find_batch ::
  "batch_operation_id \<Rightarrow> 'c sqlite_store \<Rightarrow> operation_repository_error + 'c batch_operation option" where
  "find_batch i store = read_tx store (\<lambda>database.
     rbind (db_guard store QueryBatch) (\<lambda>_.
     case find_batch_row database i of
       None \<Rightarrow> Inr None
     | Some model \<Rightarrow> rbind (map_stored_batch store model) (\<lambda>b. Inr (Some b))))"

definition list_batches ::
  "'c sqlite_store \<Rightarrow> operation_repository_error + 'c batch_operation list" where
  "list_batches store = read_tx store (\<lambda>database.
     rbind (db_guard store QueryBatch) (\<lambda>_.
     traverse (map_stored_batch store)
       (sort_key (\<lambda>r. (br_created_at r, br_id r)) (db_batches database))))"

definition map_classified ::
  "'c sqlite_store \<Rightarrow> db \<Rightarrow> op_row \<Rightarrow> operation_repository_error + 'c operation \<times> failure_kind option" where
  "map_classified store database model =
     rbind (map_failure_kind (or_id model) (or_failure_kind model)) (\<lambda>kind.
     rbind (map_stored_operation store database model) (\<lambda>op. Inr (op, kind)))"

text \<open>Rust orders \<open>None\<close> before \<open>Some\<close>; the key pairs the presence with the value.\<close>

definition first_target_key :: "'c operation \<times> failure_kind option \<Rightarrow> nat \<times> target_id" where
  "first_target_key child =
     (case op_targets (fst child) of [] \<Rightarrow> (0, 0) | t # _ \<Rightarrow> (1, tg_target_id t))"

definition list_batch_children ::
  "batch_operation_id \<Rightarrow> 'c sqlite_store
     \<Rightarrow> operation_repository_error + ('c operation \<times> failure_kind option) list" where
  "list_batch_children i store = read_tx store (\<lambda>database.
     rbind (db_guard store QueryOperation) (\<lambda>_.
     rbind (traverse (map_classified store database)
              (filter (\<lambda>r. or_batch_id r = Some i) (db_operations database))) (\<lambda>children.
     Inr (sort_key first_target_key children))))"

definition row_matches :: "operation_state option \<Rightarrow> op_row \<Rightarrow> bool" where
  "row_matches state r =
     (case state of None \<Rightarrow> True | Some st \<Rightarrow> or_state r = operation_state_as_str st)"

definition row_key :: "op_row \<Rightarrow> instant \<times> uuid" where
  "row_key r = (or_created_at r, or_id r)"

definition list_operations ::
  "operation_state option \<Rightarrow> 'c sqlite_store \<Rightarrow> operation_repository_error + 'c operation list" where
  "list_operations state store = read_tx store (\<lambda>database.
     rbind (db_guard store QueryOperation) (\<lambda>_.
     traverse (map_stored_operation store database)
       (sort_key row_key (filter (row_matches state) (db_operations database)))))"

definition list_operations_classified ::
  "operation_state option \<Rightarrow> 'c sqlite_store
     \<Rightarrow> operation_repository_error + ('c operation \<times> failure_kind option) list" where
  "list_operations_classified state store = read_tx store (\<lambda>database.
     rbind (db_guard store QueryOperation) (\<lambda>_.
     traverse (map_classified store database)
       (sort_key row_key (filter (row_matches state) (db_operations database)))))"

subsection \<open>The endpoint-scoped listing\<close>

definition IN_PARAMETER_CHUNK :: nat where
  "IN_PARAMETER_CHUNK = 999"

function chunks :: "nat \<Rightarrow> 'a list \<Rightarrow> 'a list list" where
  "chunks n xs = (if n = 0 \<or> xs = [] then [] else take n xs # chunks n (drop n xs))"
  by pat_completeness auto
termination
  by (relation "measure (\<lambda>(n, xs). length xs)") auto

declare chunks.simps [simp del]

definition endpoint_operation_ids ::
  "db \<Rightarrow> operation_state option \<Rightarrow> endpoint_id \<Rightarrow> uuid list" where
  "endpoint_operation_ids database state endpoint_id =
     map tr_operation_id (filter (\<lambda>t. tr_endpoint_id t = endpoint_id \<and>
       (case state of
          None \<Rightarrow> True
        | Some st \<Rightarrow> list_ex (\<lambda>r. or_id r = tr_operation_id t \<and> or_state r = operation_state_as_str st)
                     (db_operations database)))
       (db_targets database))"

definition list_operations_for_endpoint ::
  "operation_state option \<Rightarrow> endpoint_id \<Rightarrow> 'c sqlite_store
     \<Rightarrow> operation_repository_error + 'c operation list" where
  "list_operations_for_endpoint state endpoint_id store = read_tx store (\<lambda>database.
     rbind (db_guard store QueryTargets) (\<lambda>_.
     let ids = remdups_adj (sort (endpoint_operation_ids database state endpoint_id)) in
     if ids = [] then Inr []
     else rbind (db_guard store QueryOperation) (\<lambda>_.
       let models = concat (map (\<lambda>chunk.
             sort_key row_key (filter (\<lambda>r. or_id r \<in> set chunk \<and> row_matches state r)
               (db_operations database)))
             (chunks IN_PARAMETER_CHUNK ids)) in
       traverse (map_stored_operation store database) (sort_key row_key models))))"

section \<open>Advancing\<close>

definition update_rows :: "operation_id \<Rightarrow> (op_row \<Rightarrow> op_row) \<Rightarrow> db \<Rightarrow> db" where
  "update_rows i f database =
     database\<lparr>db_operations := map (\<lambda>r. if or_id r = i then f r else r) (db_operations database)\<rparr>"

definition set_state :: "operation_state \<Rightarrow> instant \<Rightarrow> op_row \<Rightarrow> op_row" where
  "set_state st t r = r\<lparr>or_state := operation_state_as_str st, or_updated_at := t\<rparr>"

definition apply_transition ::
  "operation_id \<Rightarrow> operation_state \<Rightarrow> instant \<Rightarrow> 'c sqlite_store
     \<Rightarrow> (operation_repository_error + unit) \<times> 'c sqlite_store" where
  "apply_transition i new_state occurred_at store = write_tx (\<lambda>database.
     rbind (db_guard store QueryOperation) (\<lambda>_.
     rbind (ok_or (RowNotFound i) (find_row database i)) (\<lambda>model.
     rbind (map_err (\<lambda>e. Corrupt i (InvalidState e)) (operation_state_from_str (or_state model)))
       (\<lambda>current_state.
     if is_terminal current_state then Inl (TerminalConflict i current_state)
     else rbind (db_guard store UpdateOperation) (\<lambda>_.
       Inr (update_rows i (set_state new_state occurred_at) database)))))) store"

definition apply_transition_if_current ::
  "operation_id \<Rightarrow> operation_state \<Rightarrow> operation_state \<Rightarrow> instant \<Rightarrow> 'c sqlite_store
     \<Rightarrow> (operation_repository_error + unit) \<times> 'c sqlite_store" where
  "apply_transition_if_current i expected_state new_state occurred_at store = write_tx (\<lambda>database.
     rbind (db_guard store QueryOperation) (\<lambda>_.
     rbind (ok_or (RowNotFound i) (find_row database i)) (\<lambda>model.
     rbind (map_err (\<lambda>e. Corrupt i (InvalidState e)) (operation_state_from_str (or_state model)))
       (\<lambda>current_state.
     if current_state \<noteq> expected_state
     then Inl (StateConflict i expected_state current_state)
     else if is_terminal current_state then Inl (TerminalConflict i current_state)
     else rbind (db_guard store UpdateOperation) (\<lambda>_.
       Inr (update_rows i (set_state new_state occurred_at) database)))))) store"

definition record_failure_kind ::
  "operation_id \<Rightarrow> failure_kind \<Rightarrow> 'c sqlite_store
     \<Rightarrow> (operation_repository_error + unit) \<times> 'c sqlite_store" where
  "record_failure_kind i kind store = write_tx (\<lambda>database.
     rbind (db_guard store QueryOperation) (\<lambda>_.
     rbind (ok_or (RowNotFound i) (find_row database i)) (\<lambda>model.
     rbind (db_guard store UpdateOperation) (\<lambda>_.
       Inr (update_rows i (\<lambda>r. r\<lparr>or_failure_kind := Some (failure_kind_as_str kind)\<rparr>) database))))) store"

definition find_failure_kind ::
  "operation_id \<Rightarrow> 'c sqlite_store \<Rightarrow> operation_repository_error + failure_kind option" where
  "find_failure_kind i store =
     rbind (read_tx store (\<lambda>database.
       rbind (db_guard store QueryOperation) (\<lambda>_. Inr (find_row database i)))) (\<lambda>model.
     case model of None \<Rightarrow> Inr None | Some r \<Rightarrow> map_failure_kind i (or_failure_kind r))"

section \<open>The store as an implementation of the trait\<close>

definition sqlite_operation_store ::
  "('c sqlite_store, 'c, operation_repository_error) operation_store" where
  "sqlite_operation_store =
     \<lparr>st_create_operation = create_operation,
      st_find_operation = find_operation,
      st_apply_transition = apply_transition,
      st_apply_transition_if_current = apply_transition_if_current,
      st_record_failure_kind = record_failure_kind,
      st_find_failure_kind = find_failure_kind,
      st_list_operations = list_operations,
      st_list_operations_for_endpoint = list_operations_for_endpoint,
      st_create_batch = create_batch,
      st_find_batch = find_batch,
      st_list_batches = list_batches,
      st_list_batch_children = list_batch_children\<rparr>"

end
