(* ===== verification/Operation_Engine.thy ===== *)
theory Operation_Engine
  imports Operation_Store
begin

text \<open>
  The operation engine, \<open>operation-engine/src/operation_engine.rs\<close>, generic in its store as the
  Rust type is: every method takes the store's method table \<open>ops\<close> and the store state. Fresh
  identities (\<open>OperationId::generate\<close>) are arguments. The concurrent use of the engine, several
  drivers reading and then writing against one store, is the step relation \<open>driver_step\<close>.
\<close>

section \<open>Errors and constants\<close>

datatype 'e engine_error =
    EngineNotFound operation_id
  | EmptyTargets
  | TooManyTargets nat
  | EngineInvalidTransition operation_id invalid_transition
  | StateChanged operation_id operation_state operation_state
  | StoreError 'e

definition RECOVERABLE_STATES :: "operation_state list" where
  "RECOVERABLE_STATES = [Validating, Running, WaitingRemote, Verifying]"

definition MAX_BATCH_TARGETS :: nat where
  "MAX_BATCH_TARGETS = 128"

section \<open>The methods\<close>

definition engine_create ::
  "('s, 'c, 'e) operation_store \<Rightarrow> operation_id \<Rightarrow> operation_source \<Rightarrow> operation_target list \<Rightarrow> 'c
     \<Rightarrow> instant \<Rightarrow> 's \<Rightarrow> ('e engine_error + 'c operation) \<times> 's" where
  "engine_create ops new_id source targets command now s =
     (if targets = [] then (Inl EmptyTargets, s)
      else let operation = operation_new new_id source targets command now in
        (case st_create_operation ops operation s of
           (Inl e, s') \<Rightarrow> (Inl (StoreError e), s')
         | (Inr _, s') \<Rightarrow> (Inr operation, s')))"

text \<open>The read half of a step: the current aggregate, or why there is none.\<close>

definition engine_read ::
  "('s, 'c, 'e) operation_store \<Rightarrow> operation_id \<Rightarrow> 's \<Rightarrow> 'e engine_error + 'c operation" where
  "engine_read ops i s =
     rbind (map_err StoreError (st_find_operation ops i s)) (ok_or (EngineNotFound i))"

text \<open>The domain's decision on the aggregate that was read.\<close>

definition engine_decide ::
  "operation_id \<Rightarrow> operation_event \<Rightarrow> instant \<Rightarrow> 'c operation \<Rightarrow> 'e engine_error + 'c operation" where
  "engine_decide i event now current =
     (case operation_apply event now current of
        (Inl err, _) \<Rightarrow> Inl (EngineInvalidTransition i err)
      | (Inr _, advanced) \<Rightarrow> Inr advanced)"

definition engine_apply ::
  "('s, 'c, 'e) operation_store \<Rightarrow> operation_id \<Rightarrow> operation_event \<Rightarrow> instant \<Rightarrow> 's
     \<Rightarrow> ('e engine_error + 'c operation) \<times> 's" where
  "engine_apply ops i event now s =
     (case rbind (engine_read ops i s) (engine_decide i event now) of
        Inl e \<Rightarrow> (Inl e, s)
      | Inr current \<Rightarrow>
          (case st_apply_transition ops i (op_state current) now s of
             (Inl e, s') \<Rightarrow> (Inl (StoreError e), s')
           | (Inr _, s') \<Rightarrow> (Inr current, s')))"

text \<open>After a refused conditional write the row is re-read to tell a race from a store failure.\<close>

definition classify_cas_failure ::
  "('s, 'c, 'e) operation_store \<Rightarrow> operation_id \<Rightarrow> operation_state \<Rightarrow> 'e \<Rightarrow> 's \<Rightarrow> 'e engine_error" where
  "classify_cas_failure ops i expected source s =
     (case st_find_operation ops i s of
        Inl e \<Rightarrow> StoreError e
      | Inr (Some row) \<Rightarrow>
          if op_state row \<noteq> expected then StateChanged i expected (op_state row) else StoreError source
      | Inr None \<Rightarrow> StoreError source)"

definition check_expected ::
  "operation_id \<Rightarrow> operation_state \<Rightarrow> 'c operation \<Rightarrow> 'e engine_error + 'c operation" where
  "check_expected i expected current =
     (if op_state current \<noteq> expected then Inl (StateChanged i expected (op_state current))
      else Inr current)"

text \<open>
  The three awaits of \<open>apply_if_current\<close>: the read, the conditional write and, when it was refused, the
  re-read. Other drivers act on the store in between: \<open>before_write\<close> and \<open>before_reread\<close> are what they do to it.
\<close>

definition engine_cas_interleaved ::
  "('s, 'c, 'e) operation_store \<Rightarrow> ('s \<Rightarrow> 's) \<Rightarrow> ('s \<Rightarrow> 's) \<Rightarrow> operation_id \<Rightarrow> operation_state \<Rightarrow> operation_event
     \<Rightarrow> instant \<Rightarrow> 's \<Rightarrow> ('e engine_error + 'c operation) \<times> 's" where
  "engine_cas_interleaved ops before_write before_reread i expected event now s =
     (case rbind (engine_read ops i s) (\<lambda>current.
           rbind (check_expected i expected current) (engine_decide i event now)) of
        Inl e \<Rightarrow> (Inl e, s)
      | Inr current \<Rightarrow>
          (case st_apply_transition_if_current ops i expected (op_state current) now (before_write s) of
             (Inl e, s') \<Rightarrow> (Inl (classify_cas_failure ops i expected e (before_reread s')), before_reread s')
           | (Inr _, s') \<Rightarrow> (Inr current, s')))"

text \<open>A driver that nobody disturbs.\<close>

definition engine_apply_if_current ::
  "('s, 'c, 'e) operation_store \<Rightarrow> operation_id \<Rightarrow> operation_state \<Rightarrow> operation_event \<Rightarrow> instant \<Rightarrow> 's
     \<Rightarrow> ('e engine_error + 'c operation) \<times> 's" where
  "engine_apply_if_current ops i expected event now s =
     engine_cas_interleaved ops (\<lambda>s. s) (\<lambda>s. s) i expected event now s"

lemma engine_apply_if_current_alone:
  "engine_apply_if_current ops i expected event now s =
     (case rbind (engine_read ops i s) (\<lambda>current.
           rbind (check_expected i expected current) (engine_decide i event now)) of
        Inl e \<Rightarrow> (Inl e, s)
      | Inr current \<Rightarrow>
          (case st_apply_transition_if_current ops i expected (op_state current) now s of
             (Inl e, s') \<Rightarrow> (Inl (classify_cas_failure ops i expected e s'), s')
           | (Inr _, s') \<Rightarrow> (Inr current, s')))"
  unfolding engine_apply_if_current_def engine_cas_interleaved_def by (rule refl)

definition engine_list ::
  "('s, 'c, 'e) operation_store \<Rightarrow> operation_state option \<Rightarrow> 's \<Rightarrow> 'e engine_error + 'c operation list" where
  "engine_list ops state s = map_err StoreError (st_list_operations ops state s)"

text \<open>The i-th fresh identity a batch draws: the parent's first, then one per child in order.\<close>

definition batch_children ::
  "(nat \<Rightarrow> uuid) \<Rightarrow> operation_source \<Rightarrow> operation_target list \<Rightarrow> 'c \<Rightarrow> instant \<Rightarrow> 'c operation list" where
  "batch_children fresh source targets command now =
     map (\<lambda>(k, target). operation_new (fresh (Suc k)) source [target] command now)
       (zip [0..<length targets] targets)"

definition engine_create_batch ::
  "('s, 'c, 'e) operation_store \<Rightarrow> (nat \<Rightarrow> uuid) \<Rightarrow> operation_source \<Rightarrow> operation_target list \<Rightarrow> 'c
     \<Rightarrow> instant \<Rightarrow> 's \<Rightarrow> ('e engine_error + 'c batch_operation \<times> 'c operation list) \<times> 's" where
  "engine_create_batch ops fresh source targets command now s =
     (if targets = [] then (Inl EmptyTargets, s)
      else if length targets > MAX_BATCH_TARGETS then (Inl (TooManyTargets MAX_BATCH_TARGETS), s)
      else let batch = batch_operation_new (fresh 0) source command now;
               children = batch_children fresh source targets (ba_command batch) now in
        (case st_create_batch ops batch children s of
           (Inl e, s') \<Rightarrow> (Inl (StoreError e), s')
         | (Inr _, s') \<Rightarrow> (Inr (batch, children), s')))"

definition engine_recover_pending ::
  "('s, 'c, 'e) operation_store \<Rightarrow> 's \<Rightarrow> 'e engine_error + 'c operation list" where
  "engine_recover_pending ops s =
     rbind (traverse (\<lambda>st. map_err StoreError (st_list_operations ops (Some st) s)) RECOVERABLE_STATES)
       (\<lambda>listings. Inr (sort_key acceptance_key (concat listings)))"

section \<open>Concurrent drivers\<close>

text \<open>
  A driver first reads and decides, then writes; other drivers may act in between. A pending
  write remembers the state the driver observed, the event it decided on, the state it will
  write, and whether it writes unconditionally (\<open>apply\<close>) or by compare-and-set
  (\<open>apply_if_current\<close>); \<open>plain\<close> says whether unconditional writers take part. Submissions create an
  operation, fail, or deliver a stored identity again, with any record. The environment
  step changes what surrounds the store (failures, randomness). The history records, per operation, the states that were persisted.
\<close>

record pending_write =
  pw_id :: operation_id
  pw_observed :: operation_state
  pw_event :: operation_event
  pw_new_state :: operation_state
  pw_now :: instant
  pw_cas :: bool

record 's driven =
  dr_store :: 's
  dr_pending :: "pending_write list"
  dr_history :: "operation_id \<Rightarrow> operation_state list"

definition record_state ::
  "operation_id \<Rightarrow> operation_state \<Rightarrow> (operation_id \<Rightarrow> operation_state list)
     \<Rightarrow> (operation_id \<Rightarrow> operation_state list)" where
  "record_state i st h = h(i := h i @ [st])"

definition write_pending ::
  "('s, 'c, 'e) operation_store \<Rightarrow> pending_write \<Rightarrow> 's \<Rightarrow> ('e + unit) \<times> 's" where
  "write_pending ops w s =
     (if pw_cas w
      then st_apply_transition_if_current ops (pw_id w) (pw_observed w) (pw_new_state w) (pw_now w) s
      else st_apply_transition ops (pw_id w) (pw_new_state w) (pw_now w) s)"

inductive driver_step ::
  "('s, 'c, 'e) operation_store \<Rightarrow> ('s \<Rightarrow> 's \<Rightarrow> bool) \<Rightarrow> bool \<Rightarrow> 's driven \<Rightarrow> 's driven \<Rightarrow> bool"
  for ops :: "('s, 'c, 'e) operation_store" and env :: "'s \<Rightarrow> 's \<Rightarrow> bool" and plain :: bool where
  step_environment:
    "env (dr_store d) s' \<Longrightarrow> driver_step ops env plain d (d\<lparr>dr_store := s'\<rparr>)"
| step_submit:
    "engine_read ops new_id (dr_store d) = Inl (EngineNotFound new_id) \<Longrightarrow>
     engine_create ops new_id source targets command now (dr_store d) = (Inr op, s') \<Longrightarrow>
     driver_step ops env plain d
       (d\<lparr>dr_store := s', dr_history := (dr_history d)(new_id := [op_state op])\<rparr>)"
| step_submit_failed:
    "engine_create ops new_id source targets command now (dr_store d) = (Inl e, s') \<Longrightarrow>
     driver_step ops env plain d (d\<lparr>dr_store := s'\<rparr>)"
| step_redeliver:
    "engine_read ops (op_id op) (dr_store d) = (Inr present :: 'e engine_error + 'c operation) \<Longrightarrow>
     st_create_operation ops op (dr_store d) = (r, s') \<Longrightarrow>
     driver_step ops env plain d (d\<lparr>dr_store := s'\<rparr>)"
| step_observe:
    "cas \<or> plain \<Longrightarrow> engine_read ops i (dr_store d) = Inr current \<Longrightarrow>
     engine_decide i event now current = (Inr advanced :: 'e engine_error + 'c operation) \<Longrightarrow>
     driver_step ops env plain d
       (d\<lparr>dr_pending := \<lparr>pw_id = i, pw_observed = op_state current, pw_event = event,
            pw_new_state = op_state advanced, pw_now = now, pw_cas = cas\<rparr> # dr_pending d\<rparr>)"
| step_write:
    "w \<in> set (dr_pending d) \<Longrightarrow> write_pending ops w (dr_store d) = (Inr u, s') \<Longrightarrow>
     driver_step ops env plain d
       (d\<lparr>dr_store := s', dr_pending := remove1 w (dr_pending d),
          dr_history := record_state (pw_id w) (pw_new_state w) (dr_history d)\<rparr>)"
| step_refused:
    "w \<in> set (dr_pending d) \<Longrightarrow> write_pending ops w (dr_store d) = (Inl e, s') \<Longrightarrow>
     driver_step ops env plain d (d\<lparr>dr_store := s', dr_pending := remove1 w (dr_pending d)\<rparr>)"

inductive driven_run ::
  "('s, 'c, 'e) operation_store \<Rightarrow> ('s \<Rightarrow> 's \<Rightarrow> bool) \<Rightarrow> bool \<Rightarrow> 's driven \<Rightarrow> 's driven \<Rightarrow> bool"
  for ops :: "('s, 'c, 'e) operation_store" and env :: "'s \<Rightarrow> 's \<Rightarrow> bool" and plain :: bool where
  run_start: "driven_run ops env plain d d"
| run_step: "driven_run ops env plain d0 d \<Longrightarrow> driver_step ops env plain d d' \<Longrightarrow> driven_run ops env plain d0 d'"

text \<open>Successive persisted states are related by a legal transition.\<close>

fun legal_path :: "operation_state \<Rightarrow> operation_state list \<Rightarrow> bool" where
  "legal_path st [] = True"
| "legal_path st (st' # sts) = ((\<exists>e. transition st e = Inr st') \<and> legal_path st' sts)"

definition legal_history :: "operation_state list \<Rightarrow> bool" where
  "legal_history h = (case h of [] \<Rightarrow> True | st # sts \<Rightarrow> legal_path st sts)"

text \<open>What holds of a driven store in every interleaving, and what compare-and-set drivers add.\<close>

definition history_tracks :: "('s \<Rightarrow> operation_id \<Rightarrow> 'c operation option) \<Rightarrow> 's driven \<Rightarrow> bool" where
  "history_tracks view d \<longleftrightarrow>
     (\<forall>i. view (dr_store d) i = None \<longrightarrow> dr_history d i = [])
   \<and> (\<forall>i op. view (dr_store d) i = Some op \<longrightarrow>
        dr_history d i \<noteq> [] \<and> last (dr_history d i) = op_state op)"

definition pending_decided :: "'s driven \<Rightarrow> bool" where
  "pending_decided d \<longleftrightarrow>
     (\<forall>w \<in> set (dr_pending d). transition (pw_observed w) (pw_event w) = Inr (pw_new_state w))"

definition driven_inv ::
  "('s \<Rightarrow> bool) \<Rightarrow> ('s \<Rightarrow> operation_id \<Rightarrow> 'c operation option) \<Rightarrow> 's driven \<Rightarrow> bool" where
  "driven_inv store_ok view d \<longleftrightarrow> store_ok (dr_store d) \<and> history_tracks view d \<and> pending_decided d"

definition cas_discipline :: "'s driven \<Rightarrow> bool" where
  "cas_discipline d \<longleftrightarrow>
     (\<forall>w \<in> set (dr_pending d). pw_cas w) \<and> (\<forall>i. legal_history (dr_history d i))"

text \<open>A driven store before any driver has acted.\<close>

definition start_driven ::
  "('s \<Rightarrow> operation_id \<Rightarrow> 'c operation option) \<Rightarrow> 's \<Rightarrow> 's driven" where
  "start_driven view s =
     \<lparr>dr_store = s, dr_pending = [],
      dr_history = (\<lambda>i. case view s i of None \<Rightarrow> [] | Some op \<Rightarrow> [op_state op])\<rparr>"

section \<open>Engine facts from the store contract\<close>

lemma engine_decide_Inr:
  "engine_decide i event now current = Inr advanced \<longleftrightarrow>
     (\<exists>st. transition (op_state current) event = Inr st
         \<and> advanced = current\<lparr>op_state := st, op_updated_at := now\<rparr>)"
  by (auto simp: engine_decide_def operation_apply_def split: sum.splits)

lemma engine_decide_Inl:
  "engine_decide i event now current = Inl e \<Longrightarrow> \<exists>err. e = EngineInvalidTransition i err"
  by (auto simp: engine_decide_def split: sum.splits prod.splits)

lemma legal_path_snoc:
  "legal_path st (sts @ [st']) \<longleftrightarrow>
     legal_path st sts \<and> (\<exists>e. transition (last (st # sts)) e = Inr st')"
  by (induction sts arbitrary: st) auto

lemma legal_history_snoc:
  "h \<noteq> [] \<Longrightarrow> legal_history (h @ [st']) \<longleftrightarrow> legal_history h \<and> (\<exists>e. transition (last h) e = Inr st')"
  by (cases h) (auto simp: legal_history_def legal_path_snoc)

lemma recoverable_iff: "st \<in> set RECOVERABLE_STATES \<longleftrightarrow> \<not> is_terminal st \<and> st \<noteq> Queued"
  by (cases st) (simp_all add: RECOVERABLE_STATES_def)

context operation_store_contract
begin

lemma engine_read_Inr:
  "inv s \<Longrightarrow> engine_read ops i s = Inr op \<Longrightarrow> view s i = Some op"
  by (auto simp: engine_read_def result_simps dest: find_reads_view)

lemma engine_read_not_found:
  "inv s \<Longrightarrow> engine_read ops i s = Inl (EngineNotFound i) \<Longrightarrow> view s i = None"
  by (auto simp: engine_read_def result_simps dest: find_reads_view)

lemma engine_error_writes_nothing:
  "engine_apply ops i event now s = (Inl e, s') \<Longrightarrow> s' = s"
  "engine_apply_if_current ops i expected event now s = (Inl e, s') \<Longrightarrow> s' = s"
  "engine_create ops new_id source targets command now s = (Inl e, s') \<Longrightarrow> s' = s"
  by (auto simp: engine_apply_def engine_apply_if_current_alone engine_create_def Let_def
      split: sum.splits prod.splits if_splits dest: step_error cas_error create_error)

lemma engine_apply_ok:
  assumes "inv s" "engine_apply ops i event now s = (Inr op', s')"
  shows "inv s' \<and> (\<exists>op. view s i = Some op \<and> transition (op_state op) event = Inr (op_state op')
    \<and> op' = op\<lparr>op_state := op_state op', op_updated_at := now\<rparr> \<and> view s' = (view s)(i \<mapsto> op'))"
proof -
  from assms(2) obtain op u where r: "engine_read ops i s = Inr op"
    and d: "engine_decide i event now op = (Inr op' :: 'e engine_error + 'c operation)"
    and w: "st_apply_transition ops i (op_state op') now s = (Inr u, s')"
    by (auto simp: engine_apply_def result_simps split: sum.splits prod.splits)
  have v: "view s i = Some op" using engine_read_Inr [OF assms(1) r] .
  from d obtain st where st: "transition (op_state op) event = Inr st"
    "op' = op\<lparr>op_state := st, op_updated_at := now\<rparr>" by (auto simp: engine_decide_Inr)
  from step_ok [OF assms(1) w] v st show ?thesis by auto
qed

lemma engine_apply_if_current_ok:
  assumes "inv s" "engine_apply_if_current ops i expected event now s = (Inr op', s')"
  shows "inv s' \<and> (\<exists>op. view s i = Some op \<and> op_state op = expected
    \<and> transition expected event = Inr (op_state op')
    \<and> op' = op\<lparr>op_state := op_state op', op_updated_at := now\<rparr> \<and> view s' = (view s)(i \<mapsto> op'))"
proof -
  from assms(2) obtain op u where r: "engine_read ops i s = Inr op"
    and c: "op_state op = expected"
    and d: "engine_decide i event now op = (Inr op' :: 'e engine_error + 'c operation)"
    and w: "st_apply_transition_if_current ops i expected (op_state op') now s = (Inr u, s')"
    by (auto simp: engine_apply_if_current_alone check_expected_def result_simps
        split: sum.splits prod.splits if_splits)
  have v: "view s i = Some op" using engine_read_Inr [OF assms(1) r] .
  from d obtain st where st: "transition (op_state op) event = Inr st"
    "op' = op\<lparr>op_state := st, op_updated_at := now\<rparr>" by (auto simp: engine_decide_Inr)
  from cas_ok [OF assms(1) w] v st c show ?thesis by auto
qed

lemma engine_step_store_error:
  assumes "inv s" "view s i = Some op" "transition (op_state op) event = Inr st"
  shows "engine_apply ops i event now s = (Inl x, s') \<Longrightarrow> \<exists>y. x = StoreError y"
    and "op_state op = expected \<Longrightarrow> engine_apply_if_current ops i expected event now s = (Inl x, s') \<Longrightarrow> \<exists>y. x = StoreError y"
proof -
  have decide: "engine_decide i event now op = (Inr (op\<lparr>op_state := st, op_updated_at := now\<rparr>) :: 'e engine_error + 'c operation)" for now
    using assms(3) by (simp add: engine_decide_def operation_apply_def)
  have read: "engine_read ops i s = Inr op \<or> (\<exists>y. engine_read ops i s = Inl (StoreError y))"
    using assms(2) find_reads_view [OF assms(1), of i]
    by (cases "st_find_operation ops i s") (auto simp: engine_read_def result_simps)
  show "\<exists>y. x = StoreError y" if "engine_apply ops i event now s = (Inl x, s')"
    using that read decide by (auto simp: engine_apply_def split: prod.splits sum.splits)
  have classify: "\<exists>y. classify_cas_failure ops i (op_state op) e s = StoreError y" for e
    using assms(2) find_reads_view [OF assms(1), of i]
    by (cases "st_find_operation ops i s") (auto simp: classify_cas_failure_def split: option.splits)
  show "\<exists>y. x = StoreError y" if "op_state op = expected" "engine_apply_if_current ops i expected event now s = (Inl x, s')"
    using that read decide classify
    by (auto simp: engine_apply_if_current_alone check_expected_def split: prod.splits sum.splits dest: cas_error)
qed

lemma classify_cas_failure_truthful:
  assumes "inv s"
  shows "case classify_cas_failure ops i expected source s of
      StateChanged j ex ob \<Rightarrow> j = i \<and> ex = expected \<and> ob \<noteq> expected \<and> (\<exists>op. view s i = Some op \<and> op_state op = ob)
    | StoreError e \<Rightarrow> (\<forall>op. st_find_operation ops i s = Inr (Some op) \<longrightarrow> op_state op = expected)
    | _ \<Rightarrow> False"
  using find_reads_view [OF assms]
  by (cases "st_find_operation ops i s") (fastforce simp: classify_cas_failure_def split: option.split)+

lemma engine_cas_interleaved_outcome:
  assumes "inv s" "\<And>t. inv t \<Longrightarrow> inv (before_write t)" "\<And>t. inv t \<Longrightarrow> inv (before_reread t)"
    and "engine_cas_interleaved ops before_write before_reread i expected event now s = (r, s')"
  shows "case r of
      Inr op' \<Rightarrow> inv s' \<and> (\<exists>op. view (before_write s) i = Some op \<and> op_state op = expected
        \<and> transition expected event = Inr (op_state op')
        \<and> view s' = (view (before_write s))(i \<mapsto> op\<lparr>op_state := op_state op', op_updated_at := now\<rparr>))
    | Inl e \<Rightarrow> (s' = s \<or> s' = before_reread (before_write s)) \<and> (case e of
        StateChanged j ex ob \<Rightarrow> j = i \<and> ex = expected \<and> ob \<noteq> expected \<and> (\<exists>op. view s' i = Some op \<and> op_state op = ob)
      | StoreError _ \<Rightarrow> \<forall>op. st_find_operation ops i s' = Inr (Some op) \<longrightarrow> op_state op = expected
      | EngineNotFound j \<Rightarrow> j = i \<and> s' = s \<and> view s i = None
      | EngineInvalidTransition j _ \<Rightarrow> j = i \<and> s' = s \<and> (\<exists>err. transition expected event = Inl err)
      | _ \<Rightarrow> False)"
proof (cases "rbind (engine_read ops i s) (\<lambda>current. rbind (check_expected i expected current) (engine_decide i event now))")
  case (Inl e)
  then have r: "r = Inl e" "s' = s" using assms(4) by (simp_all add: engine_cas_interleaved_def)
  show ?thesis
  proof (cases "st_find_operation ops i s")
    case (Inl x)
    with r \<open>rbind _ _ = Inl e\<close> show ?thesis by (auto simp: engine_read_def)
  next
    case (Inr found)
    have v: "view s i = found" using find_reads_view [OF assms(1) Inr] by simp
    show ?thesis
    proof (cases found)
      case None
      with v Inr r \<open>rbind _ _ = Inl e\<close> show ?thesis by (auto simp: engine_read_def)
    next
      case (Some op)
      with Inr have "engine_read ops i s = Inr op" by (simp add: engine_read_def)
      then have "rbind (check_expected i expected op) (engine_decide i event now) = Inl e"
        using \<open>rbind _ _ = Inl e\<close> by simp
      then consider "op_state op \<noteq> expected" "e = StateChanged i expected (op_state op)"
        | err where "op_state op = expected" "transition expected event = Inl err" "e = EngineInvalidTransition i err"
        by (cases "transition (op_state op) event")
          (auto simp: check_expected_def engine_decide_def operation_apply_def split: if_splits)
      then show ?thesis using v Some r by cases auto
    qed
  qed
next
  case (Inr advanced)
  then obtain op where op: "engine_read ops i s = Inr op" "op_state op = expected"
    "(engine_decide i event now op :: 'e engine_error + 'c operation) = Inr advanced"
    by (auto simp: result_simps check_expected_def split: if_splits)
  obtain x t where w: "st_apply_transition_if_current ops i expected (op_state advanced) now (before_write s) = (x, t)"
    by fastforce
  note before = assms(2) [OF assms(1)]
  show ?thesis
  proof (cases x)
    case (Inl e)
    with w have t: "t = before_write s" using cas_error by blast
    have "(r, s') = (Inl (classify_cas_failure ops i expected e (before_reread t)), before_reread t)"
      unfolding assms(4) [symmetric] using Inr w Inl by (simp add: engine_cas_interleaved_def)
    with classify_cas_failure_truthful [OF assms(3) [OF before], of i expected e] t show ?thesis
      by (auto split: engine_error.splits)
  next
    case written: (Inr u)
    have "(r, s') = (Inr advanced, t)"
      unfolding assms(4) [symmetric] using Inr w written by (simp add: engine_cas_interleaved_def)
    moreover have "transition expected event = Inr (op_state advanced)"
      using op(2,3) by (auto simp: engine_decide_Inr)
    ultimately show ?thesis using cas_ok [OF before w [unfolded written]] by auto
  qed
qed

lemma recover_pending_listing:
  assumes inv: "inv s" and all: "st_list_operations ops None s = Inr xs"
  shows "engine_recover_pending ops s =
    Inr (filter (\<lambda>op. op_state op \<in> set RECOVERABLE_STATES) xs)"
proof -
  define ys where "ys st = (SOME ys. st_list_operations ops (Some st) s = Inr ys)" for st
  have ys: "st_list_operations ops (Some st) s = Inr (ys st)" for st
    unfolding ys_def using list_filter_total [OF inv all] by (rule someI_ex)
  note full = list_ok [OF inv all]
  note part = list_ok [OF inv ys]
  let ?R = RECOVERABLE_STATES and ?F = "filter (\<lambda>op. op_state op \<in> set RECOVERABLE_STATES) xs"
  have t: "traverse (\<lambda>st. map_err StoreError (st_list_operations ops (Some st) s)) ?R = Inr (map ys ?R)"
    by (rule traverse_all_Inr) (simp add: ys)
  have sets: "set (concat (map ys ?R)) = set ?F"
    using part full by (auto simp: matches_state_def)
  have dist1: "distinct (map op_id (concat (map ys ?R)))"
  proof (rule distinct_map_concat)
    show "distinct ?R" by (simp add: RECOVERABLE_STATES_def)
    show "distinct (map op_id (ys st))" for st using part by blast
    show "op_id ` set (ys a) \<inter> op_id ` set (ys b) = {}" if "a \<noteq> b" for a b
    proof -
      have el: "view s (op_id op) = Some op \<and> op_state op = st" if "op \<in> set (ys st)" for op st
        using part [of st] that by (simp add: matches_state_def)
      have False if "x \<in> set (ys a)" "y \<in> set (ys b)" "op_id x = op_id y" for x y
      proof -
        have "Some x = Some y" using el [OF that(1)] el [OF that(2)] unfolding that(3) by metis
        with el [OF that(1)] el [OF that(2)] \<open>a \<noteq> b\<close> show False by blast
      qed
      then show ?thesis by blast
    qed
  qed
  have key: "distinct (map op_id zs) \<Longrightarrow> distinct (map acceptance_key zs)" for zs :: "'c operation list"
    by (auto simp: distinct_map inj_on_def acceptance_key_def)
  have "sort_key acceptance_key (concat (map ys ?R)) = ?F"
  proof (rule sorted_key_unique [of acceptance_key])
    show "sorted (map acceptance_key (sort_key acceptance_key (concat (map ys ?R))))" by simp
    show "sorted (map acceptance_key ?F)" using full by (simp add: sorted_map_filter_key)
    show "distinct (map acceptance_key (sort_key acceptance_key (concat (map ys ?R))))"
      using key [OF dist1] by (simp add: distinct_map)
    show "distinct (map acceptance_key ?F)"
      using full by (intro key distinct_map_filter_key) simp
    show "set (sort_key acceptance_key (concat (map ys ?R))) = set ?F" using sets by simp
  qed
  with t show ?thesis by (simp add: engine_recover_pending_def)
qed

end

section \<open>Any interleaving of drivers\<close>

text \<open>A store whose surroundings may change between steps without touching what is persisted.\<close>

locale driven_store = operation_store_contract ops inv view stored
  for ops :: "('s, 'c, 'e) operation_store" and inv view stored +
  fixes env :: "'s \<Rightarrow> 's \<Rightarrow> bool"
  assumes env_ok: "inv s \<Longrightarrow> env s s' \<Longrightarrow> inv s' \<and> view s' = view s"
begin

lemma engine_create_fresh:
  assumes "inv s" "view s i = None"
    and "engine_create ops i source targets command now s = (Inr op, s')"
  shows "inv s' \<and> op_state op = Queued \<and> view s' = (view s)(i \<mapsto> stored op) \<and> op_state (stored op) = Queued"
proof -
  from assms(3) obtain u where op: "op = operation_new i source targets command now"
    and c: "st_create_operation ops op s = (Inr u, s')"
    by (auto simp: engine_create_def Let_def split: if_splits sum.splits prod.splits)
  have id: "op_id op = i" "op_state op = Queued" by (simp_all add: op operation_new_def)
  from create_ok [OF assms(1) c] assms(2) id stored_same [of op] show ?thesis
    by (simp add: same_but_targets_def)
qed

lemma redelivered_same:
  assumes "inv s" "engine_read ops (op_id op) s = Inr present" "st_create_operation ops op s = (r, s')"
  shows "inv s' \<and> view s' = view s"
  using assms(3) create_error create_ok [OF assms(1)] engine_read_Inr [OF assms(1,2)] assms(1)
  by (cases r) auto

lemma write_pending_ok:
  assumes "inv s" "write_pending ops w s = (Inr u, s')"
  shows "inv s' \<and> (\<exists>op. view s (pw_id w) = Some op \<and> \<not> is_terminal (op_state op)
    \<and> (pw_cas w \<longrightarrow> op_state op = pw_observed w)
    \<and> view s' = (view s)(pw_id w \<mapsto> op\<lparr>op_state := pw_new_state w, op_updated_at := pw_now w\<rparr>))"
  using assms(2) step_ok [OF assms(1)] cas_ok [OF assms(1)]
  by (fastforce simp: write_pending_def split: if_splits)

lemma write_pending_error: "write_pending ops w s = (Inl e, s') \<Longrightarrow> s' = s"
  by (auto simp: write_pending_def split: if_splits dest: step_error cas_error)

lemma driver_step_inv:
  assumes "driver_step ops env plain d d'" "driven_inv inv view d"
  shows "driven_inv inv view d'"
  using assms
proof (cases rule: driver_step.cases)
  case (step_environment s')
  with assms(2) env_ok show ?thesis
    by (auto simp: driven_inv_def history_tracks_def pending_decided_def)
next
  case (step_submit new_id source targets command now op s')
  have none: "view (dr_store d) new_id = None"
    using engine_read_not_found step_submit(2) assms(2) by (auto simp: driven_inv_def)
  from engine_create_fresh [OF _ none step_submit(3)] assms(2) step_submit(1) show ?thesis
    by (auto simp: driven_inv_def history_tracks_def pending_decided_def split: option.splits)
next
  case (step_submit_failed new_id source targets command now e s')
  with assms(2) engine_error_writes_nothing(3) [OF step_submit_failed(2)] show ?thesis
    by (auto simp: driven_inv_def history_tracks_def pending_decided_def)
next
  case (step_redeliver op present r s')
  with assms(2) redelivered_same [OF _ step_redeliver(2,3)] show ?thesis
    by (auto simp: driven_inv_def history_tracks_def pending_decided_def)
next
  case (step_observe cas i current event now advanced)
  from step_observe(4) have "transition (op_state current) event = Inr (op_state advanced)"
    by (auto simp: engine_decide_Inr)
  with assms(2) step_observe(1) show ?thesis
    by (auto simp: driven_inv_def history_tracks_def pending_decided_def)
next
  case (step_write w u s')
  from write_pending_ok [OF _ step_write(3)] assms(2) step_write(1) show ?thesis
    by (auto simp: driven_inv_def history_tracks_def pending_decided_def record_state_def
        dest: set_remove1_subset [THEN subsetD] split: option.splits)
next
  case (step_refused w e s')
  with assms(2) write_pending_error [OF step_refused(3)] show ?thesis
    by (auto simp: driven_inv_def history_tracks_def pending_decided_def
        dest: set_remove1_subset [THEN subsetD])
qed

lemma driven_run_inv: "driven_run ops env plain d0 d \<Longrightarrow> driven_inv inv view d0 \<Longrightarrow> driven_inv inv view d"
  by (induction rule: driven_run.induct) (auto intro: driver_step_inv)

lemma driver_step_terminal:
  assumes "driver_step ops env plain d d'" "driven_inv inv view d"
    and t: "view (dr_store d) i = Some op" "is_terminal (op_state op)"
  shows "view (dr_store d') i = Some op"
  using assms(1)
proof (cases rule: driver_step.cases)
  case (step_environment s')
  with assms(2) env_ok t show ?thesis by (auto simp: driven_inv_def)
next
  case (step_submit new_id source targets command now op' s')
  have none: "view (dr_store d) new_id = None"
    using engine_read_not_found step_submit(2) assms(2) by (auto simp: driven_inv_def)
  from engine_create_fresh [OF _ none step_submit(3)] assms(2) step_submit(1) none t show ?thesis
    by (auto simp: driven_inv_def)
next
  case (step_submit_failed new_id source targets command now e s')
  with t engine_error_writes_nothing(3) [OF step_submit_failed(2)] show ?thesis by simp
next
  case (step_redeliver op' present r s')
  with assms(2) redelivered_same [OF _ step_redeliver(2,3)] t show ?thesis by (auto simp: driven_inv_def)
next
  case (step_observe cas j current event now advanced)
  with t show ?thesis by simp
next
  case (step_write w u s')
  from write_pending_ok [OF _ step_write(3)] assms(2) step_write(1) t show ?thesis
    by (auto simp: driven_inv_def)
next
  case (step_refused w e s')
  with t write_pending_error [OF step_refused(3)] show ?thesis by simp
qed

lemma driven_run_terminal:
  assumes "driven_run ops env plain d0 d" "driven_inv inv view d0"
    and "view (dr_store d0) i = Some op" "is_terminal (op_state op)"
  shows "view (dr_store d) i = Some op"
  using assms by (induction rule: driven_run.induct) (auto intro: driver_step_terminal driven_run_inv)

lemma driver_step_cas:
  assumes "driver_step ops env False d d'" "driven_inv inv view d" "cas_discipline d"
  shows "cas_discipline d'"
  using assms(1)
proof (cases rule: driver_step.cases)
  case (step_environment s')
  with assms(3) show ?thesis by (simp add: cas_discipline_def)
next
  case (step_submit new_id source targets command now op s')
  have none: "view (dr_store d) new_id = None"
    using engine_read_not_found step_submit(2) assms(2) by (auto simp: driven_inv_def)
  from engine_create_fresh [OF _ none step_submit(3)] assms(2,3) step_submit(1) show ?thesis
    by (auto simp: driven_inv_def cas_discipline_def legal_history_def)
next
  case (step_submit_failed new_id source targets command now e s')
  with assms(3) show ?thesis by (simp add: cas_discipline_def)
next
  case (step_redeliver op present r s')
  with assms(3) show ?thesis by (simp add: cas_discipline_def)
next
  case (step_observe cas i current event now advanced)
  with assms(3) show ?thesis by (simp add: cas_discipline_def)
next
  case (step_write w u s')
  have w: "pw_cas w" "transition (pw_observed w) (pw_event w) = Inr (pw_new_state w)"
    using assms(2,3) step_write(2) by (auto simp: cas_discipline_def driven_inv_def pending_decided_def)
  obtain op where op: "view (dr_store d) (pw_id w) = Some op" "op_state op = pw_observed w"
    using write_pending_ok [OF _ step_write(3)] assms(2) w(1) by (auto simp: driven_inv_def)
  then have "dr_history d (pw_id w) \<noteq> []" "last (dr_history d (pw_id w)) = pw_observed w"
    using assms(2) by (auto simp: driven_inv_def history_tracks_def dest: spec [of _ "pw_id w"])
  then have "legal_history (dr_history d (pw_id w) @ [pw_new_state w])"
    using assms(3) w(2) by (auto simp: legal_history_snoc cas_discipline_def)
  with assms(3) step_write(1) show ?thesis
    by (auto simp: cas_discipline_def record_state_def dest: set_remove1_subset [THEN subsetD])
next
  case (step_refused w e s')
  with assms(3) show ?thesis
    by (auto simp: cas_discipline_def dest: set_remove1_subset [THEN subsetD])
qed

lemma driven_run_cas:
  assumes "driven_run ops env plain d0 d" "\<not> plain" "driven_inv inv view d0" "cas_discipline d0"
  shows "cas_discipline d"
  using assms
proof (induction rule: driven_run.induct)
  case (run_step d0 d d')
  then show ?case using driven_run_inv [of plain d0 d] driver_step_cas [of d d'] by simp
qed

lemma start_driven_inv: "inv s \<Longrightarrow> driven_inv inv view (start_driven view s) \<and> cas_discipline (start_driven view s)"
  by (auto simp: driven_inv_def history_tracks_def pending_decided_def cas_discipline_def
      start_driven_def legal_history_def split: option.splits)

lemma driver_step_born_queued:
  assumes "driver_step ops env plain d d'" "driven_inv inv view d"
    and h: "dr_history d i \<noteq> [] \<longrightarrow> hd (dr_history d i) = Queued"
  shows "dr_history d' i \<noteq> [] \<longrightarrow> hd (dr_history d' i) = Queued"
  using assms(1)
proof (cases rule: driver_step.cases)
  case (step_submit new_id source targets command now op s')
  have none: "view (dr_store d) new_id = None"
    using engine_read_not_found step_submit(2) assms(2) by (auto simp: driven_inv_def)
  from engine_create_fresh [OF _ none step_submit(3)] assms(2) step_submit(1) h show ?thesis
    by (auto simp: driven_inv_def)
next
  case (step_write w u s')
  obtain op where "view (dr_store d) (pw_id w) = Some op"
    using write_pending_ok [OF _ step_write(3)] assms(2) by (auto simp: driven_inv_def)
  then have "dr_history d (pw_id w) \<noteq> []"
    using assms(2) by (auto simp: driven_inv_def history_tracks_def)
  with step_write(1) h show ?thesis by (auto simp: record_state_def)
qed (use h in simp_all)

lemma driven_run_born_queued:
  assumes "driven_run ops env plain d0 d" "driven_inv inv view d0" "dr_history d0 i = []"
  shows "dr_history d i \<noteq> [] \<longrightarrow> hd (dr_history d i) = Queued"
  using assms
proof (induction rule: driven_run.induct)
  case (run_step d0 d d')
  then show ?case
    using driver_step_born_queued [of plain d d' i] driven_run_inv [of plain d0 d] by blast
qed simp

end

end
