(* ===== verification/Operation_Repository_Laws.thy ===== *)
theory Operation_Repository_Laws
  imports Operation_Repository Operation_Engine
begin

text \<open>
  The repository of \<open>Operation_Repository\<close> keeps the contract of the store trait. The invariant
  \<open>sqlite_inv\<close> is what the migrations' keys and CHECK constraints and the repository's own
  writes maintain; the view \<open>sqlite_view\<close> reads a row back without the timeline test, so that it
  also covers rows the rehydration refuses. Both locales of \<open>Operation_Store\<close> are interpreted
  on the repository's methods at the end.
\<close>

section \<open>Invariant and view\<close>

definition codec_ok :: "'c sqlite_store \<Rightarrow> bool" where
  "codec_ok store \<longleftrightarrow>
     cipher_lib_ok (ss_cipher store)
   \<and> (\<forall>c j. ss_to_json store c = Some j \<longrightarrow> valid_str j \<and> ss_from_json store j = Some c)
   \<and> (\<forall>i n. ss_getrandom store i = Some n \<longrightarrow> length n = COMMAND_NONCE_LENGTH)"

definition row_ok :: "'c sqlite_store \<Rightarrow> op_row \<Rightarrow> bool" where
  "row_ok store r \<longleftrightarrow>
     is_ok (operation_source_from_str (or_source r))
   \<and> is_ok (operation_state_from_str (or_state r))
   \<and> is_ok (deserialize_command store (or_command r) (or_id r))
   \<and> is_ok (map_failure_kind (or_id r) (or_failure_kind r))"

definition batch_row_ok :: "'c sqlite_store \<Rightarrow> batch_row \<Rightarrow> bool" where
  "batch_row_ok store r \<longleftrightarrow>
     is_ok (operation_source_from_str (br_source r))
   \<and> is_ok (deserialize_command store (br_command r) (br_id r))"

definition target_key :: "target_row \<Rightarrow> uuid \<times> uuid" where
  "target_key t = (tr_operation_id t, tr_target_id t)"

definition db_ok :: "'c sqlite_store \<Rightarrow> db \<Rightarrow> bool" where
  "db_ok store database \<longleftrightarrow>
     distinct (map or_id (db_operations database))
   \<and> distinct (map target_key (db_targets database))
   \<and> distinct (map br_id (db_batches database))
   \<and> tr_operation_id ` set (db_targets database) \<subseteq> or_id ` set (db_operations database)
   \<and> (\<forall>r \<in> set (db_operations database). row_ok store r)
   \<and> (\<forall>r \<in> set (db_batches database). batch_row_ok store r)"

definition sqlite_inv :: "'c sqlite_store \<Rightarrow> bool" where
  "sqlite_inv store \<longleftrightarrow> codec_ok store \<and> db_ok store (ss_database store)"

definition row_operation :: "'c sqlite_store \<Rightarrow> db \<Rightarrow> op_row \<Rightarrow> 'c operation option" where
  "row_operation store database r =
     (case (operation_source_from_str (or_source r), operation_state_from_str (or_state r),
            deserialize_command store (or_command r) (or_id r)) of
        (Inr source, Inr st, Inr command) \<Rightarrow>
          Some \<lparr>op_id = or_id r, op_source = source,
                op_targets = select_targets database (or_id r), op_command = command,
                op_state = st, op_created_at = or_created_at r, op_updated_at = or_updated_at r\<rparr>
      | _ \<Rightarrow> None)"

definition row_batch :: "'c sqlite_store \<Rightarrow> batch_row \<Rightarrow> 'c batch_operation option" where
  "row_batch store r =
     (case map_stored_batch store r of Inl _ \<Rightarrow> None | Inr b \<Rightarrow> Some b)"

definition sqlite_view :: "'c sqlite_store \<Rightarrow> operation_id \<Rightarrow> 'c operation option" where
  "sqlite_view store i =
     Option.bind (find_row (ss_database store) i) (row_operation store (ss_database store))"

definition sqlite_batch_view :: "'c sqlite_store \<Rightarrow> batch_operation_id \<Rightarrow> 'c batch_operation option" where
  "sqlite_batch_view store i =
     Option.bind (find_batch_row (ss_database store) i) (row_batch store)"

text \<open>Targets come back in target-identity order.\<close>

definition stored_form :: "'c operation \<Rightarrow> 'c operation" where
  "stored_form op = op\<lparr>op_targets := sort_key tg_target_id (op_targets op)\<rparr>"

section \<open>Transactions\<close>

lemma db_guard_Inr [simp]: "db_guard store call = Inr u \<longleftrightarrow> \<not> ss_fault store call"
  by (simp add: db_guard_def)

lemma read_tx_Inr:
  "read_tx store body = Inr a \<Longrightarrow> body (ss_database store) = Inr a"
  by (auto simp: read_tx_def result_simps)

lemma read_tx_Inr_iff:
  "read_tx store body = Inr a \<longleftrightarrow>
     \<not> ss_fault store BeginTransaction \<and> body (ss_database store) = Inr a
   \<and> \<not> ss_fault store CommitTransaction"
  by (auto simp: read_tx_def result_simps)

lemma write_tx_Inl: "write_tx body store = (Inl e, store') \<Longrightarrow> store' = store"
  by (auto simp: write_tx_def split: sum.splits)

lemma write_tx_Inr:
  assumes "write_tx body store = (Inr u, store')"
  obtains db' where "body (ss_database store) = Inr db'" "store' = store\<lparr>ss_database := db'\<rparr>"
  using assms by (auto simp: write_tx_def result_simps split: sum.splits dest: read_tx_Inr)

section \<open>What does not depend on the tables\<close>

lemma command_key_upd [simp]: "command_key (store\<lparr>ss_database := d\<rparr>) = command_key store"
  by (simp add: command_key_def)

lemma deserialize_command_upd [simp]:
  "deserialize_command (store\<lparr>ss_database := d\<rparr>) column i = deserialize_command store column i"
  by (simp add: deserialize_command_def)

lemma codec_ok_upd [simp]: "codec_ok (store\<lparr>ss_database := d\<rparr>) = codec_ok store"
  by (simp add: codec_ok_def)

lemma row_ok_upd [simp]: "row_ok (store\<lparr>ss_database := d\<rparr>) r = row_ok store r"
  by (simp add: row_ok_def)

lemma batch_row_ok_upd [simp]: "batch_row_ok (store\<lparr>ss_database := d\<rparr>) r = batch_row_ok store r"
  by (simp add: batch_row_ok_def)

lemma db_ok_upd [simp]: "db_ok (store\<lparr>ss_database := d\<rparr>) db' = db_ok store db'"
  by (simp add: db_ok_def)

lemma row_operation_upd [simp]:
  "row_operation (store\<lparr>ss_database := d\<rparr>) = row_operation store"
  by (intro ext) (simp add: row_operation_def)

lemma row_batch_upd [simp]: "row_batch (store\<lparr>ss_database := d\<rparr>) = row_batch store"
  by (intro ext) (simp add: row_batch_def map_stored_batch_def)

lemma sqlite_inv_upd: "sqlite_inv (store\<lparr>ss_database := d\<rparr>) \<longleftrightarrow> codec_ok store \<and> db_ok store d"
  by (simp add: sqlite_inv_def)

section \<open>Rehydration\<close>

lemma map_stored_operation_row:
  "map_stored_operation store database r = Inr op \<Longrightarrow> row_operation store database r = Some op"
  by (auto simp: map_stored_operation_def row_operation_def result_simps operation_try_from_parts_def
      split: if_splits)

lemma row_operation_fields:
  assumes "row_operation store database r = Some op"
  shows "op_id op = or_id r" "op_created_at op = or_created_at r" "op_updated_at op = or_updated_at r"
    "operation_state_from_str (or_state r) = Inr (op_state op)"
    "or_state r = operation_state_as_str (op_state op)"
proof -
  show st: "operation_state_from_str (or_state r) = Inr (op_state op)"
    using assms by (auto simp: row_operation_def split: sum.splits)
  show "op_id op = or_id r" "op_created_at op = or_created_at r" "op_updated_at op = or_updated_at r"
    using assms by (auto simp: row_operation_def split: sum.splits)
  show "or_state r = operation_state_as_str (op_state op)"
    using st by (simp add: state_code.from_str_Inr_iff)
qed

lemma row_ok_row_operation: "row_ok store r \<Longrightarrow> \<exists>op. row_operation store database r = Some op"
  by (auto simp: row_ok_def row_operation_def)

lemma batch_row_ok_row_batch: "batch_row_ok store r \<Longrightarrow> \<exists>b. row_batch store r = Some b"
  by (auto simp: batch_row_ok_def row_batch_def map_stored_batch_def)

lemma serialize_deserialize:
  assumes "codec_ok store" "serialize_command store c i = Inr column"
  shows "deserialize_command store column i = Inr c"
proof -
  from assms(2) obtain key j where key: "ss_command_key store = Some key"
    and j: "ss_to_json store c = Some j"
    and enc: "encrypt_command (ss_cipher store) (ss_getrandom store i) key (identity_bytes i) j
       = Inr column"
    by (auto simp: serialize_command_def command_key_def result_simps)
  have valid: "valid_str j" "ss_from_json store j = Some c"
    using assms(1) j by (auto simp: codec_ok_def)
  have "decrypt_command (ss_cipher store) key (identity_bytes i) column = Inr j"
    using assms(1) valid(1) enc by (intro decrypt_encrypt) (auto simp: codec_ok_def)
  with encrypt_command_prefix [OF enc] key valid(2) show ?thesis
    by (simp add: deserialize_command_def)
qed

section \<open>Inserting an aggregate\<close>

definition target_row_of :: "operation_id \<Rightarrow> operation_target \<Rightarrow> target_row" where
  "target_row_of i t =
     \<lparr>tr_operation_id = i, tr_target_id = tg_target_id t, tr_endpoint_id = tg_endpoint_id t\<rparr>"

lemma target_row_of_sel [simp]:
  "tr_operation_id (target_row_of i t) = i" "tr_target_id (target_row_of i t) = tg_target_id t"
  "tr_endpoint_id (target_row_of i t) = tg_endpoint_id t"
  "target_key (target_row_of i t) = (i, tg_target_id t)"
  by (simp_all add: target_row_of_def target_key_def)

lemma operation_target_new_sel [simp]: "operation_target_new (tg_target_id t) (tg_endpoint_id t) = t"
  by (simp add: operation_target_new_def)

lemma insert_target_Inr:
  "insert_target store i t database = Inr db' \<longleftrightarrow>
     \<not> ss_fault store InsertTarget
   \<and> (i, tg_target_id t) \<notin> target_key ` set (db_targets database)
   \<and> db' = database\<lparr>db_targets := db_targets database @ [target_row_of i t]\<rparr>"
  by (auto simp: insert_target_def result_simps target_row_of_def target_key_def list_ex_iff image_iff
      split: if_splits)

lemma fold_insert_target:
  "fold_res (insert_target store i) ts database = Inr db' \<Longrightarrow>
     db' = database\<lparr>db_targets := db_targets database @ map (target_row_of i) ts\<rparr>"
  by (induction ts arbitrary: database) (fastforce simp: result_simps insert_target_Inr)+

lemma fold_insert_target_distinct:
  assumes "fold_res (insert_target store i) ts database = Inr db'"
    and "distinct (map target_key (db_targets database))"
  shows "distinct (map target_key (db_targets db'))"
  using assms by (rule fold_res_invariant) (auto simp: insert_target_Inr)

lemma insert_operation_aggregate_cases:
  assumes ins: "insert_operation_aggregate store bid domain database = Inr db'"
    and ok: "distinct (map target_key (db_targets database))"
  obtains (exists) r where "find_row database (op_id domain) = Some r" "db' = database"
  | (fresh) column where "find_row database (op_id domain) = None"
      "serialize_command store (op_command domain) (op_id domain) = Inr column"
      "db_operations db' = db_operations database @ [operation_row domain column bid]"
      "db_targets db' = db_targets database @ map (target_row_of (op_id domain)) (op_targets domain)"
      "db_batches db' = db_batches database"
      "distinct (map target_key (db_targets db'))"
proof (cases "find_row database (op_id domain)")
  case (Some r)
  with ins show thesis by (intro exists) (auto simp: insert_operation_aggregate_def result_simps)
next
  case None
  with ins obtain column where col: "serialize_command store (op_command domain) (op_id domain) = Inr column"
    and f: "fold_res (insert_target store (op_id domain)) (op_targets domain)
       (database\<lparr>db_operations := db_operations database @ [operation_row domain column bid]\<rparr>) = Inr db'"
    by (auto simp: insert_operation_aggregate_def result_simps)
  have eq: "db' = database\<lparr>db_operations := db_operations database @ [operation_row domain column bid],
      db_targets := db_targets database @ map (target_row_of (op_id domain)) (op_targets domain)\<rparr>"
    and d: "distinct (map target_key (db_targets db'))"
    using fold_insert_target [OF f] fold_insert_target_distinct [OF f] ok by simp_all
  show thesis by (rule fresh [OF None col _ _ _ d]) (simp_all add: eq)
qed

section \<open>Sorting targets\<close>

lemma map_insort_key: "map f (insort_key (\<lambda>x. k (f x)) x xs) = insort_key k (f x) (map f xs)"
  by (induction xs) auto

lemma map_sort_key: "map f (sort_key (\<lambda>x. k (f x)) xs) = sort_key k (map f xs)"
  by (induction xs) (simp_all add: map_insort_key)

lemma sort_key_cong: "(\<And>x. k x = k' x) \<Longrightarrow> sort_key k xs = sort_key k' xs"
  by (metis ext)

lemma select_targets_fresh:
  assumes "i \<notin> tr_operation_id ` set (db_targets database)"
    and "db_targets db' = db_targets database @ map (target_row_of i) ts"
  shows "select_targets db' i = sort_key tg_target_id ts"
proof -
  let ?f = "\<lambda>t. operation_target_new (tr_target_id t) (tr_endpoint_id t)"
  have old: "filter (\<lambda>t. tr_operation_id t = i) (db_targets database) = []"
    using assms(1) by (auto simp: filter_empty_conv)
  have "select_targets db' i = map ?f (sort_key (\<lambda>t. tg_target_id (?f t)) (map (target_row_of i) ts))"
    by (simp add: select_targets_def assms(2) old filter_map comp_def operation_target_new_def)
  also have "\<dots> = sort_key tg_target_id (map ?f (map (target_row_of i) ts))"
    by (rule map_sort_key)
  also have "\<dots> = sort_key tg_target_id ts"
    by (simp add: comp_def)
  finally show ?thesis .
qed

lemma select_targets_other:
  assumes "db_targets db' = db_targets database @ map (target_row_of i) ts" and "j \<noteq> i"
  shows "select_targets db' j = select_targets database j"
  using assms by (simp add: select_targets_def filter_map comp_def)

section \<open>Inserting keeps the invariant and extends the view\<close>

lemma find_row_append:
  "db_operations db' = db_operations database @ [r] \<Longrightarrow> find_row database (or_id r) = None \<Longrightarrow>
     find_row db' j = (if j = or_id r then Some r else find_row database j)"
  by (auto simp: find_row_def find_append split: option.splits)

lemma find_row_mem: "find_row database i = Some r \<Longrightarrow> r \<in> set (db_operations database) \<and> or_id r = i"
  unfolding find_row_def by (drule find_Some_in_set) simp

lemma find_row_None: "find_row database i = None \<longleftrightarrow> i \<notin> or_id ` set (db_operations database)"
  by (simp add: find_row_def find_key_None)

lemma find_row_of_mem:
  "distinct (map or_id (db_operations database)) \<Longrightarrow> r \<in> set (db_operations database) \<Longrightarrow>
     find_row database (or_id r) = Some r"
  unfolding find_row_def by (rule find_distinct_key)

lemma row_ok_operation_row:
  assumes "codec_ok store" "serialize_command store (op_command domain) (op_id domain) = Inr column"
  shows "row_ok store (operation_row domain column bid)"
  using serialize_deserialize [OF assms]
  by (simp add: row_ok_def operation_row_def map_failure_kind_def)

lemma row_operation_fresh:
  assumes "codec_ok store" "serialize_command store (op_command domain) (op_id domain) = Inr column"
    and "select_targets db' (op_id domain) = sort_key tg_target_id (op_targets domain)"
  shows "row_operation store db' (operation_row domain column bid) = Some (stored_form domain)"
  using serialize_deserialize [OF assms(1,2)] assms(3)
  by (simp add: row_operation_def operation_row_def stored_form_def)

definition db_view :: "'c sqlite_store \<Rightarrow> db \<Rightarrow> operation_id \<Rightarrow> 'c operation option" where
  "db_view store database i = Option.bind (find_row database i) (row_operation store database)"

lemma sqlite_view_db: "sqlite_view store = db_view store (ss_database store)"
  by (intro ext) (simp add: sqlite_view_def db_view_def)

lemma db_view_upd [simp]: "db_view (store\<lparr>ss_database := d\<rparr>) = db_view store"
  by (intro ext) (simp add: db_view_def)

lemma row_operation_targets_only:
  "select_targets db' (or_id r) = select_targets database (or_id r) \<Longrightarrow>
     row_operation store db' r = row_operation store database r"
  by (simp add: row_operation_def split: sum.splits)

lemma insert_aggregate_ok:
  assumes codec: "codec_ok store" and ok: "db_ok store database"
    and ins: "insert_operation_aggregate store bid domain database = Inr db'"
  shows "db_ok store db' \<and> db_batches db' = db_batches database
    \<and> db_view store db' =
        (if find_row database (op_id domain) = None
         then (db_view store database)(op_id domain \<mapsto> stored_form domain)
         else db_view store database)"
proof -
  have dist: "distinct (map target_key (db_targets database))"
    using ok by (simp add: db_ok_def)
  show ?thesis
  proof (cases rule: insert_operation_aggregate_cases [OF ins dist])
    case (1 r)
    with ok show ?thesis by simp
  next
    case (2 column)
    let ?i = "op_id domain" and ?r = "operation_row domain column bid"
    have rid: "or_id ?r = ?i" by (simp add: operation_row_def)
    have fresh: "?i \<notin> or_id ` set (db_operations database)"
      using 2(1) by (simp add: find_row_None)
    have db: "db_ok store db'"
      using ok 2 fresh row_ok_operation_row [OF codec 2(2), of bid]
      by (auto simp: db_ok_def rid)
    have "?i \<notin> tr_operation_id ` set (db_targets database)"
      using fresh ok by (auto simp: db_ok_def)
    then have new: "row_operation store db' ?r = Some (stored_form domain)"
      using select_targets_fresh 2(4) row_operation_fresh [OF codec 2(2)] by blast
    have find: "find_row db' j = (if j = ?i then Some ?r else find_row database j)" for j
      using find_row_append [OF 2(3)] 2(1) rid by simp
    have "db_view store db' j = ((db_view store database)(?i \<mapsto> stored_form domain)) j" for j
    proof (cases "j = ?i")
      case True
      then show ?thesis by (simp add: db_view_def find new)
    next
      case False
      have "row_operation store db' r = row_operation store database r" if "find_row database j = Some r" for r
        using False find_row_mem [OF that] select_targets_other [OF 2(4)]
        by (intro row_operation_targets_only) simp
      with False show ?thesis
        by (cases "find_row database j") (simp_all add: db_view_def find)
    qed
    with db 2 show ?thesis by (auto intro!: ext)
  qed
qed

section \<open>Updating a row\<close>

lemma find_row_update:
  assumes "\<And>r. or_id (f r) = or_id r"
  shows "find_row (update_rows i f database) j =
    (if j = i then map_option f (find_row database i) else find_row database j)"
proof -
  have "List.find (\<lambda>r. or_id r = j) (map (\<lambda>r. if or_id r = i then f r else r) rs) =
      (if j = i then map_option f (List.find (\<lambda>r. or_id r = i) rs) else List.find (\<lambda>r. or_id r = j) rs)" for rs
    by (induction rs) (auto simp: assms)
  then show ?thesis by (simp add: find_row_def update_rows_def)
qed

lemma select_targets_update [simp]: "select_targets (update_rows i f database) = select_targets database"
  by (intro ext) (simp add: select_targets_def update_rows_def)

lemma row_operation_update [simp]:
  "row_operation store (update_rows i f database) = row_operation store database"
  by (intro ext) (simp add: row_operation_def split: sum.splits)

lemma db_ok_update:
  assumes "db_ok store database" and "\<And>r. or_id (f r) = or_id r"
    and "\<And>r. row_ok store r \<Longrightarrow> row_ok store (f r)"
  shows "db_ok store (update_rows i f database)"
proof -
  have ids: "map or_id (db_operations (update_rows i f database)) = map or_id (db_operations database)"
    by (simp add: update_rows_def assms(2))
  then have "or_id ` set (db_operations (update_rows i f database)) = or_id ` set (db_operations database)"
    by (metis set_map)
  moreover have "\<forall>r \<in> set (db_operations (update_rows i f database)). row_ok store r"
    using assms by (auto simp: db_ok_def update_rows_def)
  ultimately show ?thesis
    using assms(1) ids by (simp add: db_ok_def) (simp add: update_rows_def)
qed

lemma set_state_id [simp]: "or_id (set_state st t r) = or_id r"
  by (simp add: set_state_def)

lemma set_state_ok: "row_ok store r \<Longrightarrow> row_ok store (set_state st t r)"
  by (simp add: row_ok_def set_state_def)

lemma row_operation_set_state:
  "row_operation store database r = Some op \<Longrightarrow>
     row_operation store database (set_state st t r) = Some (op\<lparr>op_state := st, op_updated_at := t\<rparr>)"
  by (auto simp: row_operation_def set_state_def split: sum.splits)

lemma db_view_set_state:
  assumes "find_row database i = Some r" "row_operation store database r = Some op"
  shows "db_view store (update_rows i (set_state st t) database) =
    (db_view store database)(i \<mapsto> op\<lparr>op_state := st, op_updated_at := t\<rparr>)"
proof
  fix j
  show "db_view store (update_rows i (set_state st t) database) j =
      ((db_view store database)(i \<mapsto> op\<lparr>op_state := st, op_updated_at := t\<rparr>)) j"
    using assms by (simp add: db_view_def find_row_update row_operation_set_state)
qed

section \<open>The methods keep the contract\<close>

lemma create_operation_error: "create_operation op s = (Inl e, s') \<Longrightarrow> s' = s"
  by (auto simp: create_operation_def dest: write_tx_Inl split: sum.splits)

lemma find_row_view:
  assumes "db_ok store database"
  shows "find_row database i = None \<longleftrightarrow> db_view store database i = None"
proof (cases "find_row database i")
  case None
  then show ?thesis by (simp add: db_view_def)
next
  case (Some r)
  with assms have "row_ok store r" by (auto simp: db_ok_def dest: find_row_mem)
  with row_ok_row_operation [of store r database] Some show ?thesis
    by (auto simp: db_view_def)
qed

lemma create_operation_ok:
  assumes "sqlite_inv s" "create_operation op s = (Inr u, s')"
  shows "sqlite_inv s' \<and> sqlite_view s' =
    (if sqlite_view s (op_id op) = None then (sqlite_view s)(op_id op \<mapsto> stored_form op) else sqlite_view s)"
proof -
  from assms(2) have "write_tx (insert_operation_aggregate s None op) s = (Inr u, s')"
    by (auto simp: create_operation_def split: sum.splits)
  then obtain db' where ins: "insert_operation_aggregate s None op (ss_database s) = Inr db'"
    and s': "s' = s\<lparr>ss_database := db'\<rparr>" by (rule write_tx_Inr)
  have ok: "codec_ok s" "db_ok s (ss_database s)" using assms(1) by (simp_all add: sqlite_inv_def)
  from insert_aggregate_ok [OF ok ins] ok find_row_view [OF ok(2)] show ?thesis
    by (simp add: s' sqlite_inv_upd sqlite_view_db)
qed

lemma find_operation_reads_view:
  assumes "find_operation i s = Inr r"
  shows "r = sqlite_view s i"
  using read_tx_Inr [OF assms [unfolded find_operation_def]]
  by (auto simp: sqlite_view_def result_simps map_stored_operation_row split: option.splits)

lemma apply_transition_error: "apply_transition i st t s = (Inl e, s') \<Longrightarrow> s' = s"
  by (auto simp: apply_transition_def dest: write_tx_Inl)

lemma apply_transition_if_current_error: "apply_transition_if_current i ex st t s = (Inl e, s') \<Longrightarrow> s' = s"
  by (auto simp: apply_transition_if_current_def dest: write_tx_Inl)

lemma update_state_ok:
  assumes inv: "sqlite_inv s" and row: "find_row (ss_database s) i = Some r"
    and cur: "operation_state_from_str (or_state r) = Inr cur"
    and s': "s' = s\<lparr>ss_database := update_rows i (set_state st t) (ss_database s)\<rparr>"
  shows "sqlite_inv s' \<and> (\<exists>op. sqlite_view s i = Some op \<and> op_state op = cur
    \<and> sqlite_view s' = (sqlite_view s)(i \<mapsto> op\<lparr>op_state := st, op_updated_at := t\<rparr>))"
proof -
  have ok: "codec_ok s" "db_ok s (ss_database s)" using inv by (simp_all add: sqlite_inv_def)
  from ok(2) row have "row_ok s r" by (auto simp: db_ok_def dest: find_row_mem)
  then obtain op where op: "row_operation s (ss_database s) r = Some op"
    using row_ok_row_operation by blast
  have "op_state op = cur" using row_operation_fields(4) [OF op] cur by simp
  moreover have "sqlite_view s i = Some op" using row op by (simp add: sqlite_view_def)
  moreover have "sqlite_view s' = (sqlite_view s)(i \<mapsto> op\<lparr>op_state := st, op_updated_at := t\<rparr>)"
    using db_view_set_state [OF row op] by (simp add: s' sqlite_view_db)
  moreover have "sqlite_inv s'"
    using ok db_ok_update [OF ok(2), of "set_state st t" i] set_state_ok by (auto simp: s' sqlite_inv_upd)
  ultimately show ?thesis by blast
qed

lemma apply_transition_ok:
  assumes "sqlite_inv s" "apply_transition i st t s = (Inr u, s')"
  shows "sqlite_inv s' \<and> (\<exists>op. sqlite_view s i = Some op \<and> \<not> is_terminal (op_state op)
    \<and> sqlite_view s' = (sqlite_view s)(i \<mapsto> op\<lparr>op_state := st, op_updated_at := t\<rparr>))"
proof -
  from assms(2) obtain db' where b: "s' = s\<lparr>ss_database := db'\<rparr>"
    and r: "rbind (db_guard s QueryOperation) (\<lambda>_.
     rbind (ok_or (RowNotFound i) (find_row (ss_database s) i)) (\<lambda>model.
     rbind (map_err (\<lambda>e. Corrupt i (InvalidState e)) (operation_state_from_str (or_state model)))
       (\<lambda>current_state.
     if is_terminal current_state then Inl (TerminalConflict i current_state)
     else rbind (db_guard s UpdateOperation) (\<lambda>_.
       Inr (update_rows i (set_state st t) (ss_database s)))))) = Inr db'"
    unfolding apply_transition_def by (auto elim: write_tx_Inr)
  then obtain r cur where "find_row (ss_database s) i = Some r"
    "operation_state_from_str (or_state r) = Inr cur" "\<not> is_terminal cur"
    "db' = update_rows i (set_state st t) (ss_database s)"
    by (auto simp: result_simps split: if_splits)
  with update_state_ok [OF assms(1)] b show ?thesis by blast
qed

lemma apply_transition_if_current_ok:
  assumes "sqlite_inv s" "apply_transition_if_current i ex st t s = (Inr u, s')"
  shows "sqlite_inv s' \<and> (\<exists>op. sqlite_view s i = Some op \<and> op_state op = ex \<and> \<not> is_terminal ex
    \<and> sqlite_view s' = (sqlite_view s)(i \<mapsto> op\<lparr>op_state := st, op_updated_at := t\<rparr>))"
proof -
  from assms(2) obtain db' where b: "s' = s\<lparr>ss_database := db'\<rparr>"
    and r: "rbind (db_guard s QueryOperation) (\<lambda>_.
     rbind (ok_or (RowNotFound i) (find_row (ss_database s) i)) (\<lambda>model.
     rbind (map_err (\<lambda>e. Corrupt i (InvalidState e)) (operation_state_from_str (or_state model)))
       (\<lambda>current_state.
     if current_state \<noteq> ex then Inl (StateConflict i ex current_state)
     else if is_terminal current_state then Inl (TerminalConflict i current_state)
     else rbind (db_guard s UpdateOperation) (\<lambda>_.
       Inr (update_rows i (set_state st t) (ss_database s)))))) = Inr db'"
    unfolding apply_transition_if_current_def by (auto elim: write_tx_Inr)
  then obtain r where "find_row (ss_database s) i = Some r"
    "operation_state_from_str (or_state r) = Inr ex" "\<not> is_terminal ex"
    "db' = update_rows i (set_state st t) (ss_database s)"
    by (auto simp: result_simps split: if_splits)
  with update_state_ok [OF assms(1)] b show ?thesis by blast
qed

subsection \<open>Listings\<close>

definition listed_rows :: "operation_state option \<Rightarrow> db \<Rightarrow> op_row list" where
  "listed_rows f database = sort_key row_key (filter (row_matches f) (db_operations database))"

lemma list_operations_Inr:
  "list_operations f s = Inr xs \<longleftrightarrow>
     \<not> ss_fault s BeginTransaction \<and> \<not> ss_fault s QueryOperation \<and> \<not> ss_fault s CommitTransaction
   \<and> traverse (map_stored_operation s (ss_database s)) (listed_rows f (ss_database s)) = Inr xs"
  by (auto simp: list_operations_def read_tx_Inr_iff result_simps listed_rows_def)

lemma row_matches_operation:
  "row_operation s database r = Some op \<Longrightarrow> row_matches f r \<longleftrightarrow> matches_state f op"
  by (auto simp: row_matches_def matches_state_def row_operation_fields(5) state_code.as_str_inject
      split: option.splits)

lemma traverse_rows:
  assumes ok: "db_ok s database" and rows: "set rows \<subseteq> set (db_operations database)"
    and t: "traverse (map_stored_operation s database) rows = Inr xs"
  shows "set xs = {op. db_view s database (op_id op) = Some op \<and> op_id op \<in> or_id ` set rows}"
    and "map acceptance_key xs = map row_key rows" and "map op_id xs = map or_id rows"
proof -
  have dist: "distinct (map or_id (db_operations database))" using ok by (simp add: db_ok_def)
  have fields: "acceptance_key op = row_key r" "op_id op = or_id r"
    if "map_stored_operation s database r = Inr op" for r op
    using row_operation_fields [OF map_stored_operation_row [OF that]]
    by (simp_all add: acceptance_key_def row_key_def)
  show "map acceptance_key xs = map row_key rows" "map op_id xs = map or_id rows"
    using t fields by (auto intro!: traverse_Inr_map)
  have all: "\<exists>op. map_stored_operation s database r = Inr op" if "r \<in> set rows" for r
    using t that by (cases "map_stored_operation s database r") (auto dest: traverse_has_error)
  have view: "db_view s database (or_id r) = row_operation s database r" if "r \<in> set rows" for r
    using find_row_of_mem [OF dist] that rows by (auto simp: db_view_def)
  have conv: "map_stored_operation s database r = Inr op \<longleftrightarrow> row_operation s database r = Some op"
    if "r \<in> set rows" for r op
    using all [OF that] map_stored_operation_row by fastforce
  have "set xs = {op. \<exists>r \<in> set rows. row_operation s database r = Some op}"
    using traverse_Inr_set [OF t] conv by auto
  also have "\<dots> = {op. db_view s database (op_id op) = Some op \<and> op_id op \<in> or_id ` set rows}"
    using view row_operation_fields(1) by (fastforce simp: image_iff)
  finally show "set xs = {op. db_view s database (op_id op) = Some op \<and> op_id op \<in> or_id ` set rows}" .
qed

lemma list_operations_ok:
  assumes inv: "sqlite_inv s" and l: "list_operations f s = Inr xs"
  shows "set xs = {op. sqlite_view s (op_id op) = Some op \<and> matches_state f op}
    \<and> sorted (map acceptance_key xs) \<and> distinct (map op_id xs)"
proof -
  let ?db = "ss_database s"
  have ok: "db_ok s ?db" using inv by (simp add: sqlite_inv_def)
  then have dist: "distinct (map or_id (db_operations ?db))" by (simp add: db_ok_def)
  have t: "traverse (map_stored_operation s ?db) (listed_rows f ?db) = Inr xs"
    using l by (simp add: list_operations_Inr)
  have sub: "set (listed_rows f ?db) \<subseteq> set (db_operations ?db)" by (auto simp: listed_rows_def)
  note rows = traverse_rows [OF ok sub t]
  have mem: "op_id op \<in> or_id ` set (listed_rows f ?db) \<longleftrightarrow> matches_state f op"
    if v: "db_view s ?db (op_id op) = Some op" for op
  proof -
    from v obtain r where r: "find_row ?db (op_id op) = Some r" "row_operation s ?db r = Some op"
      by (auto simp: db_view_def bind_eq_Some_conv)
    note m = find_row_mem [OF r(1)]
    have "op_id op \<in> or_id ` set (listed_rows f ?db) \<longleftrightarrow> r \<in> set (listed_rows f ?db)"
      using m sub dist inj_on_image_mem_iff [of or_id "set (db_operations ?db)" r "set (listed_rows f ?db)"]
      by (simp add: distinct_map)
    also have "\<dots> \<longleftrightarrow> row_matches f r" using m by (simp add: listed_rows_def)
    finally show ?thesis using row_matches_operation [OF r(2)] by simp
  qed
  have "sorted (map acceptance_key xs)" unfolding rows(2) by (simp add: listed_rows_def)
  moreover have "distinct (map op_id xs)"
    unfolding rows(3) using dist by (auto simp: listed_rows_def distinct_map inj_on_def)
  ultimately show ?thesis using rows(1) mem by (auto simp: sqlite_view_db)
qed

lemma list_operations_filter_total:
  assumes "list_operations None s = Inr xs"
  shows "\<exists>ys. list_operations (Some st) s = Inr ys"
proof -
  have t: "traverse (map_stored_operation s (ss_database s)) (listed_rows None (ss_database s)) = Inr xs"
    using assms by (simp add: list_operations_Inr)
  have "set (listed_rows (Some st) (ss_database s)) \<subseteq> set (listed_rows None (ss_database s))"
    by (auto simp: listed_rows_def row_matches_def)
  from traverse_Inr_subset [OF t this] assms show ?thesis by (auto simp: list_operations_Inr)
qed

subsection \<open>Batches\<close>

lemma create_batch_error: "create_batch b cs s = (Inl e, s') \<Longrightarrow> s' = s"
  by (auto simp: create_batch_def dest: write_tx_Inl split: sum.splits)

lemma find_batch_reads_view:
  assumes "find_batch i s = Inr r"
  shows "r = sqlite_batch_view s i"
  using read_tx_Inr [OF assms [unfolded find_batch_def]]
  by (auto simp: sqlite_batch_view_def row_batch_def result_simps split: option.splits)

lemma fold_insert_aggregate_ok:
  assumes "codec_ok s" "db_ok s database"
    and "fold_res (insert_operation_aggregate s bid) cs database = Inr db'"
  shows "db_ok s db' \<and> db_batches db' = db_batches database
    \<and> (\<forall>i. db_view s db' i = (case db_view s database i of
           Some op \<Rightarrow> Some op | None \<Rightarrow> map_option stored_form (List.find (\<lambda>c. op_id c = i) cs)))"
  using assms(2,3)
proof (induction cs arbitrary: database)
  case Nil
  then show ?case by (auto split: option.splits)
next
  case (Cons c cs)
  then obtain db1 where one: "insert_operation_aggregate s bid c database = Inr db1"
    and rest: "fold_res (insert_operation_aggregate s bid) cs db1 = Inr db'"
    by (auto simp: result_simps)
  note step = insert_aggregate_ok [OF assms(1) Cons.prems(1) one]
  then have "db_ok s db1" by blast
  from Cons.IH [OF this rest] step find_row_view [OF Cons.prems(1)] show ?case
    by (auto split: option.splits if_splits)
qed

definition batch_row_of :: "'c batch_operation \<Rightarrow> ustring \<Rightarrow> batch_row" where
  "batch_row_of b column =
     \<lparr>br_id = ba_id b, br_source = operation_source_as_str (ba_source b),
      br_command = column, br_created_at = ba_created_at b\<rparr>"

lemma create_batch_Inr:
  assumes "create_batch b cs s = (Inr u, s')"
  obtains (exists) r where "find_batch_row (ss_database s) (ba_id b) = Some r" "s' = s"
  | (fresh) column db' where "find_batch_row (ss_database s) (ba_id b) = None"
      "serialize_command s (ba_command b) (ba_id b) = Inr column"
      "fold_res (insert_operation_aggregate s (Some (ba_id b))) cs
         ((ss_database s)\<lparr>db_batches := db_batches (ss_database s) @ [batch_row_of b column]\<rparr>) = Inr db'"
      "s' = s\<lparr>ss_database := db'\<rparr>"
proof -
  let ?body = "\<lambda>database. rbind (db_guard s QueryBatch) (\<lambda>_.
          case find_batch_row database (ba_id b) of
            Some _ \<Rightarrow> Inr database
          | None \<Rightarrow>
              rbind (serialize_command s (ba_command b) (ba_id b)) (\<lambda>column.
              rbind (db_guard s InsertBatch) (\<lambda>_.
              fold_res (insert_operation_aggregate s (Some (ba_id b))) cs
                (database\<lparr>db_batches := db_batches database @ [batch_row_of b column]\<rparr>))))"
  have "write_tx ?body s = (Inr u, s')"
    using assms unfolding create_batch_def batch_row_of_def by (auto split: sum.splits)
  then obtain db' where db': "?body (ss_database s) = Inr db'" "s' = s\<lparr>ss_database := db'\<rparr>"
    by (rule write_tx_Inr)
  show thesis
  proof (cases "find_batch_row (ss_database s) (ba_id b)")
    case None
    with db' show thesis by (auto simp: result_simps intro: fresh)
  next
    case (Some r)
    with db' show thesis by (intro exists [of r]) (auto simp: result_simps)
  qed
qed

lemma batch_row_of_ok:
  assumes "codec_ok s" "serialize_command s (ba_command b) (ba_id b) = Inr column"
  shows "batch_row_ok s (batch_row_of b column)" "row_batch s (batch_row_of b column) = Some b"
  using serialize_deserialize [OF assms]
  by (simp_all add: batch_row_ok_def batch_row_of_def row_batch_def map_stored_batch_def
      batch_operation_try_from_parts_def batch_operation_new_def)

lemma find_batch_row_view:
  assumes "db_ok s (ss_database s)"
  shows "find_batch_row (ss_database s) i = None \<longleftrightarrow> sqlite_batch_view s i = None"
proof (cases "find_batch_row (ss_database s) i")
  case None
  then show ?thesis by (simp add: sqlite_batch_view_def)
next
  case (Some r)
  then have "r \<in> set (db_batches (ss_database s))"
    unfolding find_batch_row_def by (auto dest: find_Some_in_set)
  with assms have "batch_row_ok s r" by (simp add: db_ok_def)
  with batch_row_ok_row_batch [of s r] Some show ?thesis by (auto simp: sqlite_batch_view_def)
qed

lemma row_operation_batches [simp]:
  "row_operation s (database\<lparr>db_batches := bs\<rparr>) = row_operation s database"
  by (intro ext row_operation_targets_only) (simp add: select_targets_def)

lemma db_view_batches [simp]: "db_view s (database\<lparr>db_batches := bs\<rparr>) = db_view s database"
  by (intro ext) (simp add: db_view_def find_row_def)

lemma create_batch_redelivered:
  assumes "sqlite_inv s" "create_batch b cs s = (Inr u, s')" "sqlite_batch_view s (ba_id b) \<noteq> None"
  shows "s' = s"
  using assms(2)
proof (cases rule: create_batch_Inr)
  case (fresh column db')
  with assms find_batch_row_view [of s "ba_id b"] show ?thesis by (simp add: sqlite_inv_def)
qed

lemma create_batch_ok:
  assumes inv: "sqlite_inv s" and create: "create_batch b cs s = (Inr u, s')"
    and new: "sqlite_batch_view s (ba_id b) = None"
  shows "sqlite_inv s' \<and> sqlite_batch_view s' = (sqlite_batch_view s)(ba_id b \<mapsto> b)
    \<and> (\<forall>i. sqlite_view s' i = (case sqlite_view s i of
           Some op \<Rightarrow> Some op | None \<Rightarrow> map_option stored_form (List.find (\<lambda>c. op_id c = i) cs)))"
  using create
proof (cases rule: create_batch_Inr)
  case (exists r)
  with new find_batch_row_view [of s "ba_id b"] inv show ?thesis by (simp add: sqlite_inv_def)
next
  case (fresh column db')
  let ?db = "ss_database s" and ?r = "batch_row_of b column"
  let ?db1 = "?db\<lparr>db_batches := db_batches ?db @ [?r]\<rparr>"
  have ok: "codec_ok s" "db_ok s ?db" using inv by (simp_all add: sqlite_inv_def)
  have rid: "br_id ?r = ba_id b" by (simp add: batch_row_of_def)
  have "ba_id b \<notin> br_id ` set (db_batches ?db)"
    using fresh(1) by (simp add: find_batch_row_def find_key_None)
  then have ok1: "db_ok s ?db1"
    using ok batch_row_of_ok(1) [OF ok(1) fresh(2)] by (auto simp: db_ok_def rid)
  note fold = fold_insert_aggregate_ok [OF ok(1) ok1 fresh(3)]
  have "find_batch_row db' j = (if j = ba_id b then Some ?r else find_batch_row ?db j)" for j
    using fold fresh(1) rid by (auto simp: find_batch_row_def find_append split: option.splits)
  then have "sqlite_batch_view s' = (sqlite_batch_view s)(ba_id b \<mapsto> b)"
    using batch_row_of_ok(2) [OF ok(1) fresh(2)]
    by (intro ext) (simp add: fresh(4) sqlite_batch_view_def)
  with fold ok fresh(4) show ?thesis by (simp add: sqlite_inv_upd sqlite_view_db)
qed

section \<open>The store interprets the contract\<close>

lemma sqlite_operation_store_sel [simp]:
  "st_create_operation sqlite_operation_store = create_operation"
  "st_find_operation sqlite_operation_store = find_operation"
  "st_apply_transition sqlite_operation_store = apply_transition"
  "st_apply_transition_if_current sqlite_operation_store = apply_transition_if_current"
  "st_list_operations sqlite_operation_store = list_operations"
  "st_create_batch sqlite_operation_store = create_batch"
  "st_find_batch sqlite_operation_store = find_batch"
  by (simp_all add: sqlite_operation_store_def)

lemma stored_form_same: "same_but_targets (stored_form op) op"
  by (simp add: same_but_targets_def stored_form_def)

lemma sqlite_view_id: "sqlite_view s i = Some op \<Longrightarrow> op_id op = i"
  by (auto simp: sqlite_view_def bind_eq_Some_conv row_operation_fields(1) dest: find_row_mem)

interpretation sqlite: batch_store_contract sqlite_operation_store sqlite_inv sqlite_view stored_form
  sqlite_batch_view
proof (unfold_locales, unfold sqlite_operation_store_sel, goal_cases)
  case 1 show ?case by (rule stored_form_same)
next
  case 2 from 2(2) show ?case by (rule sqlite_view_id)
next
  case 3 from 3(2) show ?case by (rule find_operation_reads_view)
next
  case 4 then show ?case by (rule create_operation_error)
next
  case 5 then show ?case by (rule create_operation_ok)
next
  case 6 then show ?case by (rule apply_transition_error)
next
  case 7 then show ?case by (rule apply_transition_ok)
next
  case 8 then show ?case by (rule apply_transition_if_current_error)
next
  case 9 then show ?case by (rule apply_transition_if_current_ok)
next
  case 10 then show ?case by (rule list_operations_ok)
next
  case 11 from 11(2) show ?case by (rule list_operations_filter_total)
next
  case 12 then show ?case by (rule create_batch_error)
next
  case 13 then show ?case by (rule create_batch_redelivered)
next
  case 14 then show ?case by (rule create_batch_ok)
next
  case 15 from 15(2) show ?case by (rule find_batch_reads_view)
qed

end
