(* ===== verification/Engine_On_Sqlite.thy ===== *)
theory Engine_On_Sqlite
  imports Operation_Repository_Laws
begin

text \<open>
  The engine running on the SQLite repository: the interpretation of the concurrent-driver
  locale on the repository's methods and the properties of the composed system. A demonstration
  store holding one operation serves the witnesses.
\<close>

section \<open>The environment of a store\<close>

text \<open>Between two steps only the failing calls and the randomness change.\<close>

definition sqlite_env :: "'c sqlite_store \<Rightarrow> 'c sqlite_store \<Rightarrow> bool" where
  "sqlite_env s s' \<longleftrightarrow>
     (\<exists>faults rnd. s' = s\<lparr>ss_fault := faults, ss_getrandom := rnd\<rparr>
        \<and> (\<forall>i n. rnd i = Some n \<longrightarrow> length n = COMMAND_NONCE_LENGTH))"

lemma deserialize_command_env [simp]:
  "deserialize_command (s\<lparr>ss_fault := f, ss_getrandom := g\<rparr>) column i = deserialize_command s column i"
  by (simp add: deserialize_command_def)

lemma row_ok_env [simp]: "row_ok (s\<lparr>ss_fault := f, ss_getrandom := g\<rparr>) r = row_ok s r"
  by (simp add: row_ok_def)

lemma batch_row_ok_env [simp]: "batch_row_ok (s\<lparr>ss_fault := f, ss_getrandom := g\<rparr>) r = batch_row_ok s r"
  by (simp add: batch_row_ok_def)

lemma db_ok_env [simp]: "db_ok (s\<lparr>ss_fault := f, ss_getrandom := g\<rparr>) d = db_ok s d"
  by (simp add: db_ok_def)

lemma row_operation_env [simp]:
  "row_operation (s\<lparr>ss_fault := f, ss_getrandom := g\<rparr>) = row_operation s"
  by (intro ext) (simp add: row_operation_def)

lemma sqlite_env_ok: "sqlite_inv s \<Longrightarrow> sqlite_env s s' \<Longrightarrow> sqlite_inv s' \<and> sqlite_view s' = sqlite_view s"
  by (auto simp: sqlite_env_def sqlite_inv_def codec_ok_def sqlite_view_def fun_eq_iff)

interpretation sqlite_driven: driven_store sqlite_operation_store sqlite_inv sqlite_view stored_form sqlite_env
  by unfold_locales (rule sqlite_env_ok)

section \<open>A demonstration store\<close>

definition demo_row :: "operation_state \<Rightarrow> op_row" where
  "demo_row st =
     \<lparr>or_id = 1, or_source = ''center'', or_state = operation_state_as_str st, or_command = [123],
      or_batch_id = None, or_failure_kind = None, or_created_at = 0, or_updated_at = 0\<rparr>"

definition demo_store :: "operation_state \<Rightarrow> bool sqlite_store" where
  "demo_store st =
     \<lparr>ss_command_key = Some (replicate 32 1),
      ss_database = \<lparr>db_operations = [demo_row st],
        db_targets = [\<lparr>tr_operation_id = 1, tr_target_id = 5, tr_endpoint_id = 9\<rparr>], db_batches = [], db_remote_tasks = []\<rparr>,
      ss_cipher = demo_lib,
      ss_to_json = (\<lambda>b. Some (if b then [123] else [125])),
      ss_from_json = (\<lambda>j. if j = [123] then Some True else if j = [125] then Some False else None),
      ss_getrandom = (\<lambda>_. Some (replicate 24 7)), ss_fault = (\<lambda>_. False)\<rparr>"

definition demo_operation :: "operation_state \<Rightarrow> bool operation" where
  "demo_operation st =
     \<lparr>op_id = 1, op_source = Center, op_targets = [operation_target_new 5 9], op_command = True,
      op_state = st, op_created_at = 0, op_updated_at = 0\<rparr>"

lemma demo_no_prefix: "\<not> prefix COMMAND_CIPHER_ENVELOPE_PREFIX [123]"
  by (simp add: COMMAND_CIPHER_ENVELOPE_PREFIX_def ascii_def)

lemma demo_source: "operation_source_from_str ''center'' = Inr Center"
  by (simp add: operation_source_from_str_def)

lemma demo_deserialize: "deserialize_command (demo_store st) [123] i = Inr True"
  by (simp add: deserialize_command_def demo_no_prefix) (simp add: demo_store_def)

lemma demo_codec: "codec_ok (demo_store st)"
  using demo_lib_ok
  by (auto simp: codec_ok_def demo_store_def valid_str_def scalar_value_def COMMAND_NONCE_LENGTH_def)

lemma demo_inv: "sqlite_inv (demo_store st)"
  using demo_codec [of st] demo_deserialize [of st]
  by (auto simp: sqlite_inv_def db_ok_def row_ok_def map_failure_kind_def demo_source)
    (auto simp: demo_store_def demo_row_def demo_source)

lemma demo_find_row: "find_row (ss_database (demo_store st)) i = (if i = 1 then Some (demo_row st) else None)"
  by (simp add: find_row_def demo_store_def demo_row_def)

lemma demo_view: "sqlite_view (demo_store st) i = (if i = 1 then Some (demo_operation st) else None)"
proof -
  have "select_targets (ss_database (demo_store st)) 1 = [operation_target_new 5 9]"
    by (simp add: select_targets_def demo_store_def)
  moreover have "or_id (demo_row st) = 1" "or_source (demo_row st) = ''center''"
    "or_state (demo_row st) = operation_state_as_str st" "or_command (demo_row st) = [123]"
    "or_created_at (demo_row st) = 0" "or_updated_at (demo_row st) = 0"
    by (simp_all add: demo_row_def)
  ultimately show ?thesis
    by (simp add: sqlite_view_def demo_find_row row_operation_def demo_deserialize demo_source demo_operation_def)
qed

lemma demo_fault [simp]: "ss_fault (demo_store st) c = False"
  by (simp add: demo_store_def)

lemma demo_find: "find_operation 1 (demo_store st) = Inr (Some (demo_operation st))"
proof -
  obtain op where op: "row_operation (demo_store st) (ss_database (demo_store st)) (demo_row st) = Some op"
    "op = demo_operation st"
    using demo_view [of st 1] by (simp add: sqlite_view_def demo_find_row)
  have "map_stored_operation (demo_store st) (ss_database (demo_store st)) (demo_row st) = Inr op"
    using op(1) by (auto simp: map_stored_operation_def row_operation_def operation_try_from_parts_def
        db_guard_def demo_row_def split: sum.splits)
  with op(2) show ?thesis
    by (simp add: find_operation_def read_tx_def db_guard_def demo_find_row)
qed

definition demo_stepped :: "operation_state \<Rightarrow> operation_state \<Rightarrow> instant \<Rightarrow> bool sqlite_store" where
  "demo_stepped st st' t =
     (demo_store st)\<lparr>ss_database := update_rows 1 (set_state st' t) (ss_database (demo_store st))\<rparr>"

lemma demo_row_state: "operation_state_from_str (or_state (demo_row st)) = Inr st"
  by (simp add: demo_row_def)

lemma demo_cas:
  "\<not> is_terminal st \<Longrightarrow> apply_transition_if_current 1 st st' t (demo_store st) = (Inr (), demo_stepped st st' t)"
  by (simp add: apply_transition_if_current_def write_tx_def read_tx_def db_guard_def demo_find_row
      demo_row_state demo_stepped_def)

lemma demo_apply:
  "\<not> is_terminal st \<Longrightarrow> apply_transition 1 st' t (demo_store st) = (Inr (), demo_stepped st st' t)"
  by (simp add: apply_transition_def write_tx_def read_tx_def db_guard_def demo_find_row
      demo_row_state demo_stepped_def)

lemma demo_engine_read: "engine_read sqlite_operation_store 1 (demo_store st) = Inr (demo_operation st)"
  by (simp add: engine_read_def demo_find)

lemma demo_engine_apply:
  "transition st e = Inr st' \<Longrightarrow>
     engine_apply sqlite_operation_store 1 e now (demo_store st)
       = (Inr ((demo_operation st)\<lparr>op_state := st', op_updated_at := now\<rparr>), demo_stepped st st' now)"
  using transition_not_terminal [of st e st']
  by (simp add: engine_apply_def demo_engine_read engine_decide_def operation_apply_def demo_apply demo_operation_def)

text \<open>One driver of the demonstration store observes it Queued and starts validation.\<close>

lemma demo_driven_run:
  "driven_run sqlite_operation_store sqlite_env plain (start_driven sqlite_view (demo_store Queued))
     \<lparr>dr_store = demo_stepped Queued Validating 7, dr_pending = [],
      dr_history = (\<lambda>i. if i = 1 then [Queued, Validating] else [])\<rparr>"
proof -
  let ?w = "\<lparr>pw_id = 1, pw_observed = Queued, pw_event = ValidationStarted, pw_new_state = Validating,
    pw_now = 7, pw_cas = True\<rparr>"
  let ?d0 = "start_driven sqlite_view (demo_store Queued)"
  let ?d1 = "?d0\<lparr>dr_pending := [?w]\<rparr>"
  have "driver_step sqlite_operation_store sqlite_env plain ?d0 (?d0\<lparr>dr_pending :=
      \<lparr>pw_id = 1, pw_observed = op_state (demo_operation Queued), pw_event = ValidationStarted,
       pw_new_state = op_state ((demo_operation Queued)\<lparr>op_state := Validating, op_updated_at := 7\<rparr>),
       pw_now = 7, pw_cas = True\<rparr> # dr_pending ?d0\<rparr>)"
    by (rule step_observe) (simp_all add: start_driven_def demo_engine_read engine_decide_Inr demo_operation_def)
  then have s1: "driver_step sqlite_operation_store sqlite_env plain ?d0 ?d1"
    by (simp add: demo_operation_def start_driven_def)
  have "driver_step sqlite_operation_store sqlite_env plain ?d1
      (?d1\<lparr>dr_store := demo_stepped Queued Validating 7, dr_pending := remove1 ?w (dr_pending ?d1),
        dr_history := record_state (pw_id ?w) (pw_new_state ?w) (dr_history ?d1)\<rparr>)"
    by (rule step_write [where u = "()"]) (simp_all add: start_driven_def write_pending_def demo_cas)
  then have s2: "driver_step sqlite_operation_store sqlite_env plain ?d1
      \<lparr>dr_store = demo_stepped Queued Validating 7, dr_pending = [],
       dr_history = record_state 1 Validating (dr_history ?d1)\<rparr>"
    by (simp add: start_driven_def)
  have h: "record_state 1 Validating (dr_history ?d1) = (\<lambda>i. if i = 1 then [Queued, Validating] else [])"
    by (auto simp: record_state_def start_driven_def demo_view demo_operation_def)
  show ?thesis
    using run_step [OF run_step [OF run_start s1] s2] unfolding h .
qed

section \<open>What a step writes\<close>

lemma apply_transition_tables:
  assumes "apply_transition i st t s = (Inr u, s')"
  shows "s' = s\<lparr>ss_database := update_rows i (set_state st t) (ss_database s)\<rparr>"
  using assms unfolding apply_transition_def
  by (auto elim!: write_tx_Inr simp: result_simps split: if_splits)

lemma engine_apply_tables:
  assumes "engine_apply sqlite_operation_store i event now s = (Inr op', s')"
  shows "s' = s\<lparr>ss_database := (ss_database s)\<lparr>db_operations := map (\<lambda>r. if or_id r = i
         then r\<lparr>or_state := operation_state_as_str (op_state op'), or_updated_at := now\<rparr> else r)
         (db_operations (ss_database s))\<rparr>\<rparr>"
proof -
  from assms obtain u where "apply_transition i (op_state op') now s = (Inr u, s')"
    by (auto simp: engine_apply_def split: sum.splits prod.splits)
  from apply_transition_tables [OF this] show ?thesis by (simp add: update_rows_def set_state_def cong: if_cong)
qed

section \<open>Properties\<close>

text \<open>
  C8: A finished operation can never be resurrected. Whatever drivers run against the store,
  with unconditional or compare-and-set writes, in whatever interleaving of their reads and
  writes, with whatever database failures and re-submissions in between: an operation persisted
  in a terminal state keeps exactly that record.
\<close>

theorem terminal_operation_never_resurrected:
  assumes "sqlite_inv s"
    and "driven_run sqlite_operation_store sqlite_env plain (start_driven sqlite_view s) d"
    and "sqlite_view s i = Some op" and "is_terminal (op_state op)"
  shows "sqlite_view (dr_store d) i = Some op"
  using sqlite_driven.driven_run_terminal [OF assms(2)] sqlite_driven.start_driven_inv [OF assms(1)] assms(3,4)
  by (simp add: start_driven_def)

theorem terminal_operation_never_resurrected_witness:
  "driven_run sqlite_operation_store sqlite_env True (start_driven sqlite_view (demo_store Failed))
     ((start_driven sqlite_view (demo_store Failed))
        \<lparr>dr_store := (demo_store Failed)\<lparr>ss_fault := (\<lambda>c. c = CommitTransaction), ss_getrandom := (\<lambda>_. None)\<rparr>\<rparr>)
   \<and> sqlite_view ((demo_store Failed)\<lparr>ss_fault := (\<lambda>c. c = CommitTransaction), ss_getrandom := (\<lambda>_. None)\<rparr>) 1
       = Some (demo_operation Failed)"
proof -
  let ?s = "(demo_store Failed)\<lparr>ss_fault := (\<lambda>c. c = CommitTransaction), ss_getrandom := (\<lambda>_. None)\<rparr>"
  have "sqlite_env (demo_store Failed) ?s" by (auto simp: sqlite_env_def)
  then have run: "driven_run sqlite_operation_store sqlite_env True (start_driven sqlite_view (demo_store Failed))
      ((start_driven sqlite_view (demo_store Failed))\<lparr>dr_store := ?s\<rparr>)"
    by (intro run_step [OF run_start] step_environment) (simp add: start_driven_def)
  have v: "sqlite_view (demo_store Failed) 1 = Some (demo_operation Failed)" by (simp add: demo_view)
  have t: "is_terminal (op_state (demo_operation Failed))" by (simp add: demo_operation_def)
  from terminal_operation_never_resurrected [OF demo_inv run v t] run show ?thesis by simp
qed

text \<open>
  C9: Compare-and-set drivers cannot corrupt the lifecycle. When every driver writes through
  \<open>apply_if_current\<close>, then in every interleaving the sequence of states persisted for each
  operation follows the transition matrix step by step, it ends in the state the store holds,
  and an operation submitted during the run starts it at Queued.
\<close>

theorem cas_drivers_persist_legal_histories:
  assumes "sqlite_inv s"
    and "driven_run sqlite_operation_store sqlite_env False (start_driven sqlite_view s) d"
  shows "legal_history (dr_history d i)
    \<and> (\<forall>op. sqlite_view (dr_store d) i = Some op \<longrightarrow>
         dr_history d i \<noteq> [] \<and> last (dr_history d i) = op_state op)
    \<and> (sqlite_view s i = None \<and> dr_history d i \<noteq> [] \<longrightarrow> hd (dr_history d i) = Queued)"
proof -
  note start = sqlite_driven.start_driven_inv [OF assms(1)]
  have "cas_discipline d" "driven_inv sqlite_inv sqlite_view d"
    using sqlite_driven.driven_run_cas [OF assms(2)] sqlite_driven.driven_run_inv [OF assms(2)] start
    by simp_all
  moreover have "dr_history d i \<noteq> [] \<longrightarrow> hd (dr_history d i) = Queued" if "sqlite_view s i = None"
    using sqlite_driven.driven_run_born_queued [OF assms(2)] start that by (simp add: start_driven_def)
  ultimately show ?thesis
    by (auto simp: cas_discipline_def driven_inv_def history_tracks_def)
qed

theorem cas_drivers_persist_legal_histories_witness:
  "legal_history [Queued, Validating]
   \<and> driven_run sqlite_operation_store sqlite_env False (start_driven sqlite_view (demo_store Queued))
       \<lparr>dr_store = demo_stepped Queued Validating 7, dr_pending = [],
        dr_history = (\<lambda>i. if i = 1 then [Queued, Validating] else [])\<rparr>"
  using cas_drivers_persist_legal_histories [OF demo_inv demo_driven_run, of 1] demo_driven_run [of False]
  by simp

text \<open>
  C10: A step of the engine is legal and is exactly what gets persisted: when \<open>apply\<close> returns an
  operation, the transition matrix allows the event in the state that was stored, the returned
  record is the stored one with the new state and update time, and the store now holds it. In the
  tables only the state and update columns of the rows of that identity are written: every other
  column and row, the targets, the batches, the remote tasks and the failure kinds are as they were.
\<close>

theorem engine_apply_persists_legal_step:
  assumes "sqlite_inv s" and "engine_apply sqlite_operation_store i event now s = (Inr op', s')"
  shows "sqlite_inv s' \<and> (\<exists>op. sqlite_view s i = Some op
     \<and> transition (op_state op) event = Inr (op_state op')
     \<and> op' = op\<lparr>op_state := op_state op', op_updated_at := now\<rparr>
     \<and> sqlite_view s' = (sqlite_view s)(i \<mapsto> op'))
   \<and> s' = s\<lparr>ss_database := (ss_database s)\<lparr>db_operations := map (\<lambda>r. if or_id r = i
         then r\<lparr>or_state := operation_state_as_str (op_state op'), or_updated_at := now\<rparr> else r)
         (db_operations (ss_database s))\<rparr>\<rparr>"
  using sqlite.engine_apply_ok [OF assms] engine_apply_tables [OF assms(2)] by blast

theorem engine_apply_persists_legal_step_witness:
  "engine_apply sqlite_operation_store 1 ValidationStarted 7 (demo_store Queued)
     = (Inr ((demo_operation Queued)\<lparr>op_state := Validating, op_updated_at := 7\<rparr>), demo_stepped Queued Validating 7)
   \<and> sqlite_inv (demo_stepped Queued Validating 7)"
proof -
  have a: "engine_apply sqlite_operation_store 1 ValidationStarted 7 (demo_store Queued)
     = (Inr ((demo_operation Queued)\<lparr>op_state := Validating, op_updated_at := 7\<rparr>), demo_stepped Queued Validating 7)"
    by (rule demo_engine_apply) simp
  from engine_apply_persists_legal_step [OF demo_inv a] a show ?thesis by blast
qed

text \<open>
  C11: \<open>apply_if_current\<close> tells its caller the truth, whatever other drivers do to the store between its
  read, its conditional write and its re-read. \<open>StateChanged\<close> reports a state different from the
  expected one that the persisted operation is in when it is reported; a store error is never a lost
  race: the row that was read again still holds the expected state, or could not be read; an unknown
  identity and a refused event are what the first read found. An error leaves what the others made of
  the store. A success moved the operation from the expected state, and nothing else of the view.
\<close>

theorem engine_state_changed_is_truthful:
  assumes "sqlite_inv s" and "\<And>t. sqlite_inv t \<Longrightarrow> sqlite_inv (before_write t)"
    and "\<And>t. sqlite_inv t \<Longrightarrow> sqlite_inv (before_reread t)"
    and "engine_cas_interleaved sqlite_operation_store before_write before_reread i expected event now s = (r, s')"
  shows "case r of
      Inr op' \<Rightarrow> sqlite_inv s' \<and> (\<exists>op. sqlite_view (before_write s) i = Some op \<and> op_state op = expected
        \<and> transition expected event = Inr (op_state op')
        \<and> sqlite_view s' = (sqlite_view (before_write s))(i \<mapsto> op\<lparr>op_state := op_state op', op_updated_at := now\<rparr>))
    | Inl e \<Rightarrow> (s' = s \<or> s' = before_reread (before_write s)) \<and> (case e of
        StateChanged j ex ob \<Rightarrow> j = i \<and> ex = expected \<and> ob \<noteq> expected
          \<and> (\<exists>op. sqlite_view s' i = Some op \<and> op_state op = ob)
      | StoreError _ \<Rightarrow> \<forall>op. find_operation i s' = Inr (Some op) \<longrightarrow> op_state op = expected
      | EngineNotFound j \<Rightarrow> j = i \<and> s' = s \<and> sqlite_view s i = None
      | EngineInvalidTransition j _ \<Rightarrow> j = i \<and> s' = s \<and> (\<exists>err. transition expected event = Inl err)
      | _ \<Rightarrow> False)"
  using sqlite.engine_cas_interleaved_outcome [of s before_write before_reread i expected event now r s', OF assms]
  by (auto split: sum.splits engine_error.splits)

text \<open>Another driver ends the operation between the read and the write: the race is reported.\<close>

definition demo_rival :: "bool sqlite_store \<Rightarrow> bool sqlite_store" where
  "demo_rival s = snd (engine_apply sqlite_operation_store 1 VerificationPassed 6 s)"

lemma demo_rival_inv: "sqlite_inv s \<Longrightarrow> sqlite_inv (demo_rival s)"
  unfolding demo_rival_def
  using sqlite.engine_apply_ok [of s 1 VerificationPassed 6] sqlite.engine_error_writes_nothing(1) [of 1 VerificationPassed 6 s]
  by (cases "engine_apply sqlite_operation_store 1 VerificationPassed 6 s") (metis obj_sumE snd_conv)

lemma demo_rival_ends: "demo_rival (demo_store Verifying) = demo_stepped Verifying Succeeded 6"
  unfolding demo_rival_def by (subst demo_engine_apply [where st' = Succeeded]) simp_all

lemma demo_stepped_fault: "ss_fault (demo_stepped st st' t) c = False"
  by (simp add: demo_stepped_def)

lemma demo_stepped_view:
  "sqlite_view (demo_stepped Verifying Succeeded 6) 1 = Some ((demo_operation Verifying)\<lparr>op_state := Succeeded, op_updated_at := 6\<rparr>)"
proof -
  have "engine_apply sqlite_operation_store 1 VerificationPassed 6 (demo_store Verifying)
      = (Inr ((demo_operation Verifying)\<lparr>op_state := Succeeded, op_updated_at := 6\<rparr>), demo_stepped Verifying Succeeded 6)"
    by (rule demo_engine_apply) simp
  from sqlite.engine_apply_ok [OF demo_inv this] show ?thesis by auto
qed

lemma demo_stepped_find:
  "find_operation 1 (demo_stepped Verifying Succeeded 6)
     = Inr (Some ((demo_operation Verifying)\<lparr>op_state := Succeeded, op_updated_at := 6\<rparr>))"
proof -
  let ?s = "demo_stepped Verifying Succeeded 6" and ?op = "(demo_operation Verifying)\<lparr>op_state := Succeeded, op_updated_at := 6\<rparr>"
  obtain r where r: "find_row (ss_database ?s) 1 = Some r" "row_operation ?s (ss_database ?s) r = Some ?op"
    using demo_stepped_view by (auto simp: sqlite_view_def bind_eq_Some_conv)
  have faults: "\<not> ss_fault ?s c" for c by (simp add: demo_stepped_def)
  have "map_stored_operation ?s (ss_database ?s) r = Inr ?op"
    using r(2) faults by (auto simp: map_stored_operation_def row_operation_def operation_try_from_parts_def
        db_guard_def demo_operation_def split: sum.splits)
  with r(1) faults show ?thesis by (simp add: find_operation_def read_tx_def db_guard_def)
qed

lemma demo_lost_race:
  "\<exists>j ex ob. engine_cas_interleaved sqlite_operation_store demo_rival (\<lambda>s. s) 1 Verifying OutcomeUnknown 7 (demo_store Verifying)
     = (Inl (StateChanged j ex ob), demo_stepped Verifying Succeeded 6)"
proof -
  have row: "find_row (ss_database (demo_stepped Verifying Succeeded 6)) 1 = Some (set_state Succeeded 6 (demo_row Verifying))"
    by (simp add: demo_stepped_def find_row_update demo_find_row set_state_def demo_row_def)
  have "apply_transition_if_current 1 Verifying Unknown 7 (demo_stepped Verifying Succeeded 6)
      = (Inl (StateConflict 1 Verifying Succeeded), demo_stepped Verifying Succeeded 6)"
    using row by (simp add: apply_transition_if_current_def write_tx_def read_tx_def db_guard_def set_state_def demo_stepped_fault
        operation_state_from_str_def)
  moreover have "find_operation 1 (demo_stepped Verifying Succeeded 6)
      = Inr (Some ((demo_operation Verifying)\<lparr>op_state := Succeeded, op_updated_at := 6\<rparr>))"
    by (rule demo_stepped_find)
  ultimately show ?thesis
    by (simp add: engine_cas_interleaved_def demo_engine_read check_expected_def engine_decide_def operation_apply_def
        demo_operation_def demo_rival_ends classify_cas_failure_def transition_def)
qed

theorem engine_state_changed_is_truthful_witness:
  "engine_cas_interleaved sqlite_operation_store demo_rival (\<lambda>s. s) 1 Verifying OutcomeUnknown 7 (demo_store Verifying)
     = (Inl (StateChanged 1 Verifying Succeeded), demo_stepped Verifying Succeeded 6)"
proof -
  obtain j ex ob where race: "engine_cas_interleaved sqlite_operation_store demo_rival (\<lambda>s. s) 1 Verifying OutcomeUnknown 7
      (demo_store Verifying) = (Inl (StateChanged j ex ob), demo_stepped Verifying Succeeded 6)"
    using demo_lost_race by blast
  have "sqlite_view (demo_stepped Verifying Succeeded 6) 1 = Some ((demo_operation Verifying)\<lparr>op_state := Succeeded, op_updated_at := 6\<rparr>)"
    by (rule demo_stepped_view)
  with engine_state_changed_is_truthful [of "demo_store Verifying" demo_rival "\<lambda>s. s", OF demo_inv demo_rival_inv _ race] race
  show ?thesis by simp
qed

text \<open>
  C12: The four per-state queries of \<open>recover_pending\<close> return what one full listing filtered by
  the recoverable states would, in the same acceptance order: every operation that has started
  and is not finished, each exactly once, and neither queued nor finished ones.
\<close>

theorem recover_pending_equals_filtered_listing:
  assumes "sqlite_inv s" and "list_operations None s = Inr xs"
  shows "engine_recover_pending sqlite_operation_store s
     = Inr (filter (\<lambda>op. \<not> is_terminal (op_state op) \<and> op_state op \<noteq> Queued) xs)"
proof -
  have "st_list_operations sqlite_operation_store None s = Inr xs" using assms(2) by simp
  from sqlite.recover_pending_listing [OF assms(1) this] show ?thesis
    by (simp add: recoverable_iff)
qed

lemma demo_list: "list_operations None (demo_store st) = Inr [demo_operation st]"
proof -
  have "map_stored_operation (demo_store st) (ss_database (demo_store st)) (demo_row st) = Inr (demo_operation st)"
    using demo_find [of st] by (simp add: find_operation_def read_tx_def db_guard_def demo_find_row result_simps)
  moreover have "listed_rows None (ss_database (demo_store st)) = [demo_row st]"
    by (simp add: listed_rows_def row_matches_def demo_store_def)
  ultimately show ?thesis by (simp add: list_operations_Inr)
qed

theorem recover_pending_equals_filtered_listing_witness:
  "engine_recover_pending sqlite_operation_store (demo_store Running) = Inr [demo_operation Running]"
  using recover_pending_equals_filtered_listing [OF demo_inv demo_list, of Running]
  by (simp add: demo_operation_def)

end
