(* ===== verification/Remote_Task_Repository.thy ===== *)
theory Remote_Task_Repository
  imports Remote_Task Engine_On_Sqlite
begin

text \<open>
  The SQLite implementation of the remote-task store, \<open>persistence/src/remote_task_repository.rs\<close>,
  on the same store as the operations: the table \<open>remote_tasks\<close> has the operation as primary key
  and a foreign key to it. The locale \<open>monitored_store\<close> is interpreted on both repositories.
\<close>

section \<open>Errors and transactions\<close>

datatype stored_remote_task_error =
    InvalidTaskState remote_task_state_parse_error
  | InvalidTaskUri task_uri_error
  | InvalidPercentComplete "32 word"
  | InvalidTask remote_task_error

datatype remote_task_repository_error =
    TaskCoordinate
  | TaskCorrupt operation_id stored_remote_task_error
  | PercentCompleteOutOfRange "64 word"
  | TaskDatabase

definition task_guard :: "'c sqlite_store \<Rightarrow> db_call \<Rightarrow> remote_task_repository_error + unit" where
  "task_guard store call = ensure (\<not> ss_fault store call) TaskDatabase"

definition task_read_tx ::
  "'c sqlite_store \<Rightarrow> (db \<Rightarrow> remote_task_repository_error + 'a) \<Rightarrow> remote_task_repository_error + 'a" where
  "task_read_tx store body =
     rbind (task_guard store BeginTransaction) (\<lambda>_.
     rbind (body (ss_database store)) (\<lambda>a.
     rbind (task_guard store CommitTransaction) (\<lambda>_. Inr a)))"

section \<open>Rows\<close>

text \<open>\<open>i32::try_from\<close> of an unsigned 64-bit value, and \<open>u64::try_from\<close> of a signed 32-bit one.\<close>

definition percent_complete_i32 :: "64 word \<Rightarrow> remote_task_repository_error + 32 word" where
  "percent_complete_i32 p =
     (if unat p < 2 ^ 31 then Inr (ucast p) else Inl (PercentCompleteOutOfRange p))"

definition percent_complete_u64 :: "operation_id \<Rightarrow> 32 word \<Rightarrow> remote_task_repository_error + 64 word" where
  "percent_complete_u64 i p =
     (if 0 \<le> sint p then Inr (ucast p) else Inl (TaskCorrupt i (InvalidPercentComplete p)))"

text \<open>\<open>Option::map\<close> followed by \<open>transpose\<close>.\<close>

definition map_transpose :: "('a \<Rightarrow> 'e + 'b) \<Rightarrow> 'a option \<Rightarrow> 'e + 'b option" where
  "map_transpose f m = (case m of None \<Rightarrow> Inr None | Some x \<Rightarrow> rbind (f x) (\<lambda>y. Inr (Some y)))"

definition remote_task_row_of :: "remote_task \<Rightarrow> 32 word option \<Rightarrow> remote_task_row" where
  "remote_task_row_of task percent =
     \<lparr>rr_operation_id = rt_operation_id task, rr_endpoint_id = rt_endpoint_id task,
      rr_task_uri = rt_task_uri task, rr_task_monitor_uri = rt_task_monitor_uri task,
      rr_last_state = remote_task_state_as_str (rt_last_state task),
      rr_last_message = rt_last_message task, rr_percent_complete = percent,
      rr_last_checked_at = rt_last_checked_at task\<rparr>"

definition map_stored_remote_task ::
  "operation_id \<Rightarrow> remote_task_row \<Rightarrow> remote_task_repository_error + remote_task" where
  "map_stored_remote_task i model =
     rbind (map_err (\<lambda>e. TaskCorrupt i (InvalidTaskState e))
              (remote_task_state_from_str (rr_last_state model))) (\<lambda>st.
     rbind (map_err (\<lambda>e. TaskCorrupt i (InvalidTaskUri e)) (task_uri_parse (rr_task_uri model))) (\<lambda>uri.
     rbind (map_err (\<lambda>e. TaskCorrupt i (InvalidTaskUri e))
              (map_transpose task_uri_parse (rr_task_monitor_uri model))) (\<lambda>monitor_uri.
     rbind (map_transpose (percent_complete_u64 i) (rr_percent_complete model)) (\<lambda>percent.
     map_err (\<lambda>e. TaskCorrupt i (InvalidTask e))
       (remote_task_try_from_parts i (rr_endpoint_id model) uri monitor_uri st
          (rr_last_message model) percent (rr_last_checked_at model))))))"

section \<open>Methods\<close>

definition find_task_row :: "db \<Rightarrow> operation_id \<Rightarrow> remote_task_row option" where
  "find_task_row database i = List.find (\<lambda>r. rr_operation_id r = i) (db_remote_tasks database)"

definition write_task_row :: "'c sqlite_store \<Rightarrow> bool \<Rightarrow> remote_task_row \<Rightarrow> db \<Rightarrow> remote_task_repository_error + db" where
  "write_task_row store exists_already row database =
     (if exists_already
      then rbind (task_guard store UpdateRemoteTask) (\<lambda>_.
        Inr (database\<lparr>db_remote_tasks :=
          map (\<lambda>r. if rr_operation_id r = rr_operation_id row then row else r) (db_remote_tasks database)\<rparr>))
      else rbind (task_guard store InsertRemoteTask) (\<lambda>_.
        if list_ex (\<lambda>r. or_id r = rr_operation_id row) (db_operations database)
        then Inr (database\<lparr>db_remote_tasks := db_remote_tasks database @ [row]\<rparr>)
        else Inl TaskDatabase))"

definition save_remote_task ::
  "remote_task \<Rightarrow> 'c sqlite_store \<Rightarrow> (remote_task_repository_error + unit) \<times> 'c sqlite_store" where
  "save_remote_task task store =
     (case rbind (ensure (\<not> ss_fault store AcquirePermit) TaskCoordinate) (\<lambda>_.
        task_read_tx store (\<lambda>database.
          rbind (task_guard store QueryRemoteTask) (\<lambda>_.
          rbind (map_transpose percent_complete_i32 (rt_percent_complete task)) (\<lambda>percent.
          write_task_row store (find_task_row database (rt_operation_id task) \<noteq> None)
            (remote_task_row_of task percent) database)))) of
        Inl e \<Rightarrow> (Inl e, store)
      | Inr db' \<Rightarrow> (Inr (), store\<lparr>ss_database := db'\<rparr>))"

definition find_remote_task ::
  "operation_id \<Rightarrow> 'c sqlite_store \<Rightarrow> remote_task_repository_error + remote_task option" where
  "find_remote_task i store = task_read_tx store (\<lambda>database.
     rbind (task_guard store QueryRemoteTask) (\<lambda>_.
     case find_task_row database i of
       None \<Rightarrow> Inr None
     | Some model \<Rightarrow> rbind (map_stored_remote_task i model) (\<lambda>task. Inr (Some task))))"

definition list_remote_tasks_by_state ::
  "remote_task_state \<Rightarrow> 'c sqlite_store \<Rightarrow> remote_task_repository_error + remote_task list" where
  "list_remote_tasks_by_state state store = task_read_tx store (\<lambda>database.
     rbind (task_guard store QueryRemoteTask) (\<lambda>_.
     traverse (\<lambda>model. map_stored_remote_task (rr_operation_id model) model)
       (sort_key (\<lambda>r. (rr_last_checked_at r, rr_operation_id r))
          (filter (\<lambda>r. rr_last_state r = remote_task_state_as_str state) (db_remote_tasks database)))))"

definition sqlite_remote_task_store ::
  "('c sqlite_store, remote_task_repository_error) remote_task_store" where
  "sqlite_remote_task_store =
     \<lparr>rs_save_remote_task = save_remote_task, rs_find_remote_task = find_remote_task,
      rs_list_remote_tasks_by_state = list_remote_tasks_by_state\<rparr>"

section \<open>Invariant and view\<close>

definition tasks_ok :: "db \<Rightarrow> bool" where
  "tasks_ok database \<longleftrightarrow>
     distinct (map rr_operation_id (db_remote_tasks database))
   \<and> (\<forall>r \<in> set (db_remote_tasks database). is_ok (map_stored_remote_task (rr_operation_id r) r))"

definition sqlite_task_inv :: "'c sqlite_store \<Rightarrow> bool" where
  "sqlite_task_inv store \<longleftrightarrow> sqlite_inv store \<and> tasks_ok (ss_database store)"

definition row_task :: "remote_task_row \<Rightarrow> remote_task option" where
  "row_task r = (case map_stored_remote_task (rr_operation_id r) r of Inl _ \<Rightarrow> None | Inr t \<Rightarrow> Some t)"

definition sqlite_task_view :: "'c sqlite_store \<Rightarrow> operation_id \<Rightarrow> remote_task option" where
  "sqlite_task_view store i = Option.bind (find_task_row (ss_database store) i) row_task"

section \<open>Laws\<close>

lemma map_transpose_Inr:
  "map_transpose f m = Inr r \<longleftrightarrow> (case m of None \<Rightarrow> r = None | Some x \<Rightarrow> \<exists>y. f x = Inr y \<and> r = Some y)"
  by (auto simp: map_transpose_def result_simps split: option.splits)

lemma task_guard_Inr [simp]: "task_guard store call = Inr u \<longleftrightarrow> \<not> ss_fault store call"
  by (simp add: task_guard_def)

lemma task_read_tx_Inr: "task_read_tx store body = Inr a \<Longrightarrow> body (ss_database store) = Inr a"
  by (auto simp: task_read_tx_def result_simps)

lemma sint_small: "unat (q :: 32 word) \<le> 100 \<Longrightarrow> sint q = uint q"
proof -
  assume "unat q \<le> 100"
  then have "int (unat q) \<le> 100" by linarith
  then have l: "uint q \<le> 100" by simp
  show ?thesis unfolding sint_uint
    by (rule signed_take_bit_int_eq_self) (use l in \<open>auto intro: order_trans [OF _ uint_ge_0]\<close>)
qed

lemma ucast_back:
  fixes p :: "64 word" and q :: "32 word"
  assumes "unat q = unat p" "unat p \<le> 100"
  shows "ucast q = p"
proof -
  have "unat (ucast q :: 64 word) = take_bit 64 (unat q)" by (simp only: unsigned_ucast_eq) simp
  also have "\<dots> = unat p" unfolding assms(1) by (rule take_bit_nat_eq_self) (use assms(2) in simp)
  finally show ?thesis by (simp only: word_unat_eq_iff)
qed

lemma percent_roundtrip:
  assumes "p \<le> 100"
  shows "\<exists>q. percent_complete_i32 p = Inr q \<and> percent_complete_u64 i q = Inr p"
proof -
  have u: "unat p \<le> 100" using assms by (simp add: word_le_nat_alt)
  let ?q = "ucast p :: 32 word"
  have q: "unat ?q = unat p" using u by (simp add: unsigned_ucast_eq take_bit_nat_eq_self)
  have "0 \<le> sint ?q" using sint_small [of ?q] q u by simp
  with ucast_back [OF q u] u show ?thesis by (simp add: percent_complete_i32_def percent_complete_u64_def)
qed

lemma stored_task_roundtrip:
  assumes "remote_task_ok task" "map_transpose percent_complete_i32 (rt_percent_complete task) = Inr percent"
  shows "map_stored_remote_task (rt_operation_id task) (remote_task_row_of task percent) = Inr task"
proof -
  have p: "map_transpose (percent_complete_u64 (rt_operation_id task)) percent = Inr (rt_percent_complete task)"
  proof (cases "rt_percent_complete task")
    case None
    with assms(2) show ?thesis by (simp add: map_transpose_Inr)
  next
    case (Some q)
    with assms(1) have "q \<le> 100" by (simp add: remote_task_ok_def)
    from percent_roundtrip [OF this, of "rt_operation_id task"] Some assms(2) show ?thesis
      by (auto simp: map_transpose_Inr)
  qed
  have m: "map_transpose task_uri_parse (rt_task_monitor_uri task) = Inr (rt_task_monitor_uri task)"
    using assms(1) by (auto simp: map_transpose_Inr remote_task_ok_def split: option.splits)
  have c: "case rt_percent_complete task of None \<Rightarrow> True | Some q \<Rightarrow> q \<le> 100"
    using assms(1) by (simp add: remote_task_ok_def)
  show ?thesis
    using assms(1) p m c
    by (simp add: map_stored_remote_task_def remote_task_row_of_def task_state_code.parse_print
        remote_task_ok_def remote_task_try_from_parts_Inr)
qed

lemma stored_task_ok:
  assumes "map_stored_remote_task i r = Inr task"
  shows "rt_operation_id task = i \<and> remote_task_ok task"
proof -
  obtain uri monitor_uri st percent where
    u: "task_uri_parse (rr_task_uri r) = Inr uri"
    and m: "map_transpose task_uri_parse (rr_task_monitor_uri r) = Inr monitor_uri"
    and c: "case percent of None \<Rightarrow> True | Some q \<Rightarrow> q \<le> (100 :: 64 word)"
    and task: "task = \<lparr>rt_operation_id = i, rt_endpoint_id = rr_endpoint_id r, rt_task_uri = uri,
      rt_task_monitor_uri = monitor_uri, rt_last_state = st, rt_last_message = rr_last_message r,
      rt_percent_complete = percent, rt_last_checked_at = rr_last_checked_at r\<rparr>"
    using assms by (auto simp: map_stored_remote_task_def result_simps remote_task_try_from_parts_Inr)
  have "case monitor_uri of None \<Rightarrow> True | Some v \<Rightarrow> task_uri_parse v = Inr v"
    using m by (auto simp: map_transpose_Inr split: option.splits dest: task_uri_parse_idem)
  with task_uri_parse_idem [OF u] c show ?thesis by (simp add: task remote_task_ok_def)
qed

lemma find_task_row_mem: "find_task_row d i = Some r \<Longrightarrow> r \<in> set (db_remote_tasks d) \<and> rr_operation_id r = i"
  by (auto simp: find_task_row_def dest: find_Some_in_set)

lemma sqlite_task_view_upd:
  "db_remote_tasks d = db_remote_tasks (ss_database s) \<Longrightarrow>
     sqlite_task_view (s\<lparr>ss_database := d\<rparr>) = sqlite_task_view s"
  by (intro ext) (simp add: sqlite_task_view_def find_task_row_def)

lemma find_task_row_write:
  assumes "write_task_row store (find_task_row d (rr_operation_id row) \<noteq> None) row d = Inr d'"
  shows "find_task_row d' i = (if i = rr_operation_id row then Some row else find_task_row d i)"
proof (cases "find_task_row d (rr_operation_id row)")
  case None
  with assms have "db_remote_tasks d' = db_remote_tasks d @ [row]"
    by (auto simp: write_task_row_def result_simps split: if_splits)
  with None show ?thesis by (auto simp: find_task_row_def find_append split: option.splits)
next
  case (Some r)
  let ?f = "\<lambda>r. if rr_operation_id r = rr_operation_id row then row else r"
  from Some assms have d': "db_remote_tasks d' = map ?f (db_remote_tasks d)"
    by (auto simp: write_task_row_def result_simps split: if_splits)
  have "List.find (\<lambda>r. rr_operation_id r = i) (map ?f xs)
      = (if i = rr_operation_id row then map_option (\<lambda>_. row) (List.find (\<lambda>r. rr_operation_id r = i) xs)
         else List.find (\<lambda>r. rr_operation_id r = i) xs)" for xs
    by (induction xs) auto
  with Some d' show ?thesis by (auto simp: find_task_row_def)
qed

lemma write_task_row_keeps:
  assumes "write_task_row store (find_task_row d (rr_operation_id row) \<noteq> None) row d = Inr d'"
  shows "db_operations d' = db_operations d" "db_targets d' = db_targets d" "db_batches d' = db_batches d"
    and "set (db_remote_tasks d') \<subseteq> insert row (set (db_remote_tasks d))"
    and "distinct (map rr_operation_id (db_remote_tasks d)) \<Longrightarrow> distinct (map rr_operation_id (db_remote_tasks d'))"
proof -
  have keep: "map (rr_operation_id \<circ> (\<lambda>r. if rr_operation_id r = rr_operation_id row then row else r)) xs
      = map rr_operation_id xs" for xs
    by (induction xs) auto
  show "db_operations d' = db_operations d" "db_targets d' = db_targets d" "db_batches d' = db_batches d"
    "set (db_remote_tasks d') \<subseteq> insert row (set (db_remote_tasks d))"
    using assms by (auto simp: write_task_row_def result_simps split: if_splits)
  show "distinct (map rr_operation_id (db_remote_tasks d'))"
    if "distinct (map rr_operation_id (db_remote_tasks d))"
  proof (cases "find_task_row d (rr_operation_id row)")
    case None
    with assms have "db_remote_tasks d' = db_remote_tasks d @ [row]"
      by (auto simp: write_task_row_def result_simps split: if_splits)
    with None that show ?thesis by (simp add: find_task_row_def find_key_None)
  next
    case (Some r)
    with assms have "db_remote_tasks d' =
        map (\<lambda>r. if rr_operation_id r = rr_operation_id row then row else r) (db_remote_tasks d)"
      by (auto simp: write_task_row_def result_simps split: if_splits)
    with that show ?thesis by (simp only: map_map keep)
  qed
qed

lemma save_remote_task_error: "save_remote_task task s = (Inl e, s') \<Longrightarrow> s' = s"
  by (auto simp: save_remote_task_def split: sum.splits)

lemma db_ok_tables:
  "db_operations d = db_operations e \<Longrightarrow> db_targets d = db_targets e \<Longrightarrow> db_batches d = db_batches e \<Longrightarrow>
     db_ok s d = db_ok s e"
  by (simp add: db_ok_def)

lemma sqlite_view_tables:
  "db_operations d = db_operations (ss_database s) \<Longrightarrow> db_targets d = db_targets (ss_database s) \<Longrightarrow>
     sqlite_view (s\<lparr>ss_database := d\<rparr>) = sqlite_view s"
proof (intro ext)
  fix i
  assume same: "db_operations d = db_operations (ss_database s)" "db_targets d = db_targets (ss_database s)"
  then have "select_targets d = select_targets (ss_database s)"
    by (intro ext) (simp add: select_targets_def)
  then have "row_operation s d = row_operation s (ss_database s)"
    by (intro ext) (simp only: row_operation_def)
  with same show "sqlite_view (s\<lparr>ss_database := d\<rparr>) i = sqlite_view s i"
    by (simp add: sqlite_view_def find_row_def)
qed

lemma save_remote_task_ok:
  assumes inv: "sqlite_task_inv s" and ok: "remote_task_ok task"
    and save: "save_remote_task task s = (Inr u, s')"
  shows "sqlite_task_inv s' \<and> sqlite_task_view s' = (sqlite_task_view s)(rt_operation_id task \<mapsto> task)
    \<and> sqlite_view s' = sqlite_view s"
proof -
  let ?d = "ss_database s"
  obtain percent d' where p: "map_transpose percent_complete_i32 (rt_percent_complete task) = Inr percent"
    and w: "write_task_row s (find_task_row ?d (rt_operation_id task) \<noteq> None) (remote_task_row_of task percent) ?d = Inr d'"
    and s': "s' = s\<lparr>ss_database := d'\<rparr>"
    using save by (auto simp: save_remote_task_def result_simps split: sum.splits dest!: task_read_tx_Inr)
  let ?row = "remote_task_row_of task percent"
  have rid: "rr_operation_id ?row = rt_operation_id task" by (simp add: remote_task_row_of_def)
  note stored = stored_task_roundtrip [OF ok p]
  note keep = write_task_row_keeps [OF w [folded rid]]
  have "tasks_ok d'"
    using inv keep(4,5) stored rid by (auto simp: sqlite_task_inv_def tasks_ok_def)
  moreover have "sqlite_inv s'"
    using inv db_ok_tables [OF keep(1-3), of s] by (simp add: s' sqlite_inv_upd sqlite_task_inv_def sqlite_inv_def)
  moreover have "sqlite_task_view s' = (sqlite_task_view s)(rt_operation_id task \<mapsto> task)"
    using find_task_row_write [OF w [folded rid]] stored rid
    by (intro ext) (auto simp: s' sqlite_task_view_def row_task_def)
  moreover have "sqlite_view s' = sqlite_view s"
    unfolding s' using keep(1,2) by (rule sqlite_view_tables)
  ultimately show ?thesis by (simp add: sqlite_task_inv_def s')
qed

lemma find_remote_task_view:
  assumes "find_remote_task i s = Inr r"
  shows "r = sqlite_task_view s i"
  using task_read_tx_Inr [OF assms [unfolded find_remote_task_def]]
  by (auto simp: result_simps sqlite_task_view_def row_task_def dest: find_task_row_mem split: option.splits)

lemma row_task_Some: "row_task r = Some task \<longleftrightarrow> map_stored_remote_task (rr_operation_id r) r = Inr task"
  by (simp add: row_task_def split: sum.splits)

lemma sqlite_task_view_ok:
  assumes "sqlite_task_view s i = Some task"
  shows "rt_operation_id task = i \<and> remote_task_ok task"
proof -
  obtain r where "find_task_row (ss_database s) i = Some r" "map_stored_remote_task (rr_operation_id r) r = Inr task"
    using assms by (auto simp: sqlite_task_view_def row_task_Some bind_eq_Some_conv)
  with find_task_row_mem stored_task_ok show ?thesis by blast
qed

section \<open>The operation repository leaves the tasks alone\<close>

lemma fold_insert_target_tasks:
  "fold_res (insert_target store i) ts d = Inr d' \<Longrightarrow> db_remote_tasks d' = db_remote_tasks d"
proof (induction ts arbitrary: d)
  case (Cons t ts)
  then obtain d1 where d1: "insert_target store i t d = Inr d1" "fold_res (insert_target store i) ts d1 = Inr d'"
    by (auto simp: result_simps)
  then have "db_remote_tasks d1 = db_remote_tasks d"
    by (auto simp: insert_target_def result_simps split: if_splits)
  with Cons.IH [OF d1(2)] show ?case by simp
qed simp

lemma insert_aggregate_tasks:
  "insert_operation_aggregate store bid op d = Inr d' \<Longrightarrow> db_remote_tasks d' = db_remote_tasks d"
  by (auto simp: insert_operation_aggregate_def result_simps dest!: fold_insert_target_tasks split: option.splits)

lemma create_operation_tasks:
  assumes "create_operation op s = (r, s')"
  shows "db_remote_tasks (ss_database s') = db_remote_tasks (ss_database s)"
proof (cases r)
  case (Inl e)
  with assms create_operation_error show ?thesis by auto
next
  case (Inr u)
  with assms have "write_tx (insert_operation_aggregate s None op) s = (Inr u, s')"
    by (auto simp: create_operation_def split: sum.splits)
  then show ?thesis by (rule write_tx_Inr) (auto dest: insert_aggregate_tasks)
qed

lemma apply_transition_tasks:
  assumes "apply_transition i st t s = (Inr u, s')"
  shows "db_remote_tasks (ss_database s') = db_remote_tasks (ss_database s)"
  using assms unfolding apply_transition_def
  by (rule write_tx_Inr) (auto simp: result_simps update_rows_def split: if_splits)

lemma apply_transition_if_current_tasks:
  assumes "apply_transition_if_current i ex st t s = (Inr u, s')"
  shows "db_remote_tasks (ss_database s') = db_remote_tasks (ss_database s)"
  using assms unfolding apply_transition_if_current_def
  by (rule write_tx_Inr) (auto simp: result_simps update_rows_def split: if_splits)

lemma tasks_ok_keep: "db_remote_tasks d' = db_remote_tasks d \<Longrightarrow> tasks_ok d' = tasks_ok d"
  by (simp add: tasks_ok_def)

lemma sqlite_task_view_keep:
  "db_remote_tasks (ss_database s') = db_remote_tasks (ss_database s) \<Longrightarrow> sqlite_task_view s' = sqlite_task_view s"
  by (intro ext) (simp add: sqlite_task_view_def find_task_row_def)

section \<open>The store interprets the contract\<close>

lemma sqlite_remote_task_store_sel [simp]:
  "rs_save_remote_task sqlite_remote_task_store = save_remote_task"
  "rs_find_remote_task sqlite_remote_task_store = find_remote_task"
  "rs_list_remote_tasks_by_state sqlite_remote_task_store = list_remote_tasks_by_state"
  by (simp_all add: sqlite_remote_task_store_def)

interpretation sqlite_monitored: monitored_store sqlite_operation_store sqlite_task_inv sqlite_view stored_form
  sqlite_remote_task_store sqlite_task_view
proof (unfold_locales, unfold sqlite_operation_store_sel sqlite_remote_task_store_sel sqlite_task_inv_def, goal_cases)
  case 1 show ?case by (rule stored_form_same)
next
  case 2 from 2(2) show ?case by (rule sqlite_view_id)
next
  case 3 from 3(2) show ?case by (rule find_operation_reads_view)
next
  case 4 then show ?case by (rule create_operation_error)
next
  case 5 with create_operation_ok [of _ _ _] tasks_ok_keep [OF create_operation_tasks [OF 5(2)]] show ?case by blast
next
  case 6 then show ?case by (rule apply_transition_error)
next
  case 7 with apply_transition_ok tasks_ok_keep [OF apply_transition_tasks [OF 7(2)]] show ?case by blast
next
  case 8 then show ?case by (rule apply_transition_if_current_error)
next
  case 9 with apply_transition_if_current_ok tasks_ok_keep [OF apply_transition_if_current_tasks [OF 9(2)]]
  show ?case by blast
next
  case 10 from 10(1) show ?case using list_operations_ok [OF _ 10(2)] by blast
next
  case 11 from 11(2) show ?case by (rule list_operations_filter_total)
next
  case 12 then show ?case by (rule save_remote_task_error)
next
  case 13 then show ?case using save_remote_task_ok [unfolded sqlite_task_inv_def] by blast
next
  case 14 from 14(2) show ?case by (rule find_remote_task_view)
next
  case 15 from 15(2) show ?case by (rule sqlite_task_view_ok)
next
  case 16 then show ?case by (intro sqlite_task_view_keep apply_transition_tasks)
qed

end
