(* ===== verification/Audit_Event.thy ===== *)
theory Audit_Event
  imports Stable_Code Operation
begin

text \<open>
  The audit vocabulary and the audit aggregate, \<open>domain/src/audit.rs\<close>, with the deployment
  posture of \<open>domain/src/lib.rs\<close>. Each vocabulary of the \<open>stable_audit_codes!\<close> macro is a
  datatype with its printing function and the table its \<open>FromStr\<close> searches; constructors carry a
  prefix per vocabulary because several vocabularies share a variant name. The endpoint address
  of an enrollment target is a type parameter. Fresh identities are arguments.
\<close>

section \<open>Postures\<close>

datatype runtime_role = Role_Edge | Role_Center

datatype deployment_posture = Posture_Standalone | Posture_Site | Posture_Center

datatype deployment_posture_parse_error = DeploymentPostureParseError

fun deployment_posture_as_str :: "deployment_posture \<Rightarrow> string" where
  "deployment_posture_as_str Posture_Standalone = ''standalone''"
| "deployment_posture_as_str Posture_Site = ''site''"
| "deployment_posture_as_str Posture_Center = ''center''"

fun posture_role :: "deployment_posture \<Rightarrow> runtime_role" where
  "posture_role Posture_Standalone = Role_Edge"
| "posture_role Posture_Site = Role_Edge"
| "posture_role Posture_Center = Role_Center"

definition manages_bmc_endpoints :: "deployment_posture \<Rightarrow> bool" where
  "manages_bmc_endpoints posture \<longleftrightarrow> posture_role posture = Role_Edge"

definition deployment_posture_codes :: "(string \<times> deployment_posture) list" where
  "deployment_posture_codes =
    [(''standalone'', Posture_Standalone), (''site'', Posture_Site), (''center'', Posture_Center)]"

definition deployment_posture_from_str ::
  "string \<Rightarrow> deployment_posture_parse_error + deployment_posture" where
  "deployment_posture_from_str value =
     ok_or DeploymentPostureParseError (map_of deployment_posture_codes value)"

section \<open>Vocabularies\<close>

datatype audit_code_parse_error = AuditCodeParseError string

datatype audit_actor =
    Actor_System | Actor_LocalOperator | Actor_User

fun audit_actor_as_str :: "audit_actor \<Rightarrow> string" where
  "audit_actor_as_str Actor_System = ''system''"
| "audit_actor_as_str Actor_LocalOperator = ''local-operator''"
| "audit_actor_as_str Actor_User = ''user''"

definition audit_actor_codes :: "(string \<times> audit_actor) list" where
  "audit_actor_codes =
    [(''system'', Actor_System), (''local-operator'', Actor_LocalOperator),
     (''user'', Actor_User)]"

definition audit_actor_from_str :: "string \<Rightarrow> audit_code_parse_error + audit_actor" where
  "audit_actor_from_str value = ok_or (AuditCodeParseError ''actor'') (map_of audit_actor_codes value)"

datatype product_permission =
    Perm_ManageEndpoints | Perm_RefreshEndpoints | Perm_ExecuteOperations
  | Perm_ManageCredentials | Perm_ManageUsers | Perm_ManageBackups | Perm_ManageSiteSettings
  | Perm_ManageCenterBindings | Perm_DispatchCenterOperations | Perm_Authenticate

fun product_permission_as_str :: "product_permission \<Rightarrow> string" where
  "product_permission_as_str Perm_ManageEndpoints = ''manage-endpoints''"
| "product_permission_as_str Perm_RefreshEndpoints = ''refresh-endpoints''"
| "product_permission_as_str Perm_ExecuteOperations = ''execute-operations''"
| "product_permission_as_str Perm_ManageCredentials = ''manage-credentials''"
| "product_permission_as_str Perm_ManageUsers = ''manage-users''"
| "product_permission_as_str Perm_ManageBackups = ''manage-backups''"
| "product_permission_as_str Perm_ManageSiteSettings = ''manage-site-settings''"
| "product_permission_as_str Perm_ManageCenterBindings = ''manage-center-bindings''"
| "product_permission_as_str Perm_DispatchCenterOperations = ''dispatch-center-operations''"
| "product_permission_as_str Perm_Authenticate = ''authenticate''"

definition product_permission_codes :: "(string \<times> product_permission) list" where
  "product_permission_codes =
    [(''manage-endpoints'', Perm_ManageEndpoints),
     (''refresh-endpoints'', Perm_RefreshEndpoints),
     (''execute-operations'', Perm_ExecuteOperations),
     (''manage-credentials'', Perm_ManageCredentials), (''manage-users'', Perm_ManageUsers),
     (''manage-backups'', Perm_ManageBackups),
     (''manage-site-settings'', Perm_ManageSiteSettings),
     (''manage-center-bindings'', Perm_ManageCenterBindings),
     (''dispatch-center-operations'', Perm_DispatchCenterOperations),
     (''authenticate'', Perm_Authenticate)]"

definition product_permission_from_str :: "string \<Rightarrow> audit_code_parse_error + product_permission" where
  "product_permission_from_str value = ok_or (AuditCodeParseError ''product permission'') (map_of product_permission_codes value)"

datatype audit_action =
    Action_EnrollEndpoint | Action_RefreshEndpoint | Action_ImportEndpoints
  | Action_ExecuteOperation | Action_Login | Action_Logout | Action_ChangePassword
  | Action_ManageUsers | Action_ManageSessions | Action_ManageTotp | Action_ManageBackups
  | Action_ManageSettings | Action_RegisterSiteBinding | Action_RevokeSiteBinding
  | Action_DispatchCenterOperation

fun audit_action_as_str :: "audit_action \<Rightarrow> string" where
  "audit_action_as_str Action_EnrollEndpoint = ''enroll-endpoint''"
| "audit_action_as_str Action_RefreshEndpoint = ''refresh-endpoint''"
| "audit_action_as_str Action_ImportEndpoints = ''import-endpoints''"
| "audit_action_as_str Action_ExecuteOperation = ''execute-operation''"
| "audit_action_as_str Action_Login = ''login''"
| "audit_action_as_str Action_Logout = ''logout''"
| "audit_action_as_str Action_ChangePassword = ''change-password''"
| "audit_action_as_str Action_ManageUsers = ''manage-users''"
| "audit_action_as_str Action_ManageSessions = ''manage-sessions''"
| "audit_action_as_str Action_ManageTotp = ''manage-totp''"
| "audit_action_as_str Action_ManageBackups = ''manage-backups''"
| "audit_action_as_str Action_ManageSettings = ''manage-settings''"
| "audit_action_as_str Action_RegisterSiteBinding = ''register-site-binding''"
| "audit_action_as_str Action_RevokeSiteBinding = ''revoke-site-binding''"
| "audit_action_as_str Action_DispatchCenterOperation = ''dispatch-center-operation''"

definition audit_action_codes :: "(string \<times> audit_action) list" where
  "audit_action_codes =
    [(''enroll-endpoint'', Action_EnrollEndpoint),
     (''refresh-endpoint'', Action_RefreshEndpoint),
     (''import-endpoints'', Action_ImportEndpoints),
     (''execute-operation'', Action_ExecuteOperation), (''login'', Action_Login),
     (''logout'', Action_Logout), (''change-password'', Action_ChangePassword),
     (''manage-users'', Action_ManageUsers), (''manage-sessions'', Action_ManageSessions),
     (''manage-totp'', Action_ManageTotp), (''manage-backups'', Action_ManageBackups),
     (''manage-settings'', Action_ManageSettings),
     (''register-site-binding'', Action_RegisterSiteBinding),
     (''revoke-site-binding'', Action_RevokeSiteBinding),
     (''dispatch-center-operation'', Action_DispatchCenterOperation)]"

definition audit_action_from_str :: "string \<Rightarrow> audit_code_parse_error + audit_action" where
  "audit_action_from_str value = ok_or (AuditCodeParseError ''action'') (map_of audit_action_codes value)"

datatype audit_redfish_operation =
    Rf_None | Rf_ProbeCoreCapabilities | Rf_ReadCoreResources | Rf_CreateAccount
  | Rf_UpdateAccount | Rf_UpdateAccountPassword | Rf_UpdateAccountUserName | Rf_DeleteAccount
  | Rf_ResetSystem | Rf_ResetManager | Rf_ManagerResetToDefaults | Rf_ResetChassis
  | Rf_PowerSupplyReset | Rf_SetBootSourceOverride | Rf_SecureBootEnable | Rf_SecureBootDisable
  | Rf_SecureBootResetKeys | Rf_CreateEventSubscription | Rf_DeleteEventSubscription
  | Rf_LogClear | Rf_ControlUpdate | Rf_SetTelemetryEnabled | Rf_CreateMetricDefinition
  | Rf_UpdateMetricDefinition | Rf_DeleteMetricDefinition | Rf_CreateMetricReportDefinition
  | Rf_UpdateMetricReportDefinition | Rf_DeleteMetricReportDefinition | Rf_UpdateFirmware
  | Rf_UpdateServicePatch | Rf_OemSystemConfigProfile | Rf_OemDebugToken | Rf_OemPowerSmoothing
  | Rf_PollRemoteTask

fun audit_redfish_operation_as_str :: "audit_redfish_operation \<Rightarrow> string" where
  "audit_redfish_operation_as_str Rf_None = ''none''"
| "audit_redfish_operation_as_str Rf_ProbeCoreCapabilities = ''probe-core-capabilities''"
| "audit_redfish_operation_as_str Rf_ReadCoreResources = ''read-core-resources''"
| "audit_redfish_operation_as_str Rf_CreateAccount = ''create-account''"
| "audit_redfish_operation_as_str Rf_UpdateAccount = ''update-account''"
| "audit_redfish_operation_as_str Rf_UpdateAccountPassword = ''update-account-password''"
| "audit_redfish_operation_as_str Rf_UpdateAccountUserName = ''update-account-user-name''"
| "audit_redfish_operation_as_str Rf_DeleteAccount = ''delete-account''"
| "audit_redfish_operation_as_str Rf_ResetSystem = ''reset-system''"
| "audit_redfish_operation_as_str Rf_ResetManager = ''reset-manager''"
| "audit_redfish_operation_as_str Rf_ManagerResetToDefaults = ''manager-reset-to-defaults''"
| "audit_redfish_operation_as_str Rf_ResetChassis = ''reset-chassis''"
| "audit_redfish_operation_as_str Rf_PowerSupplyReset = ''power-supply-reset''"
| "audit_redfish_operation_as_str Rf_SetBootSourceOverride = ''set-boot-source-override''"
| "audit_redfish_operation_as_str Rf_SecureBootEnable = ''secure-boot-enable''"
| "audit_redfish_operation_as_str Rf_SecureBootDisable = ''secure-boot-disable''"
| "audit_redfish_operation_as_str Rf_SecureBootResetKeys = ''secure-boot-reset-keys''"
| "audit_redfish_operation_as_str Rf_CreateEventSubscription = ''create-event-subscription''"
| "audit_redfish_operation_as_str Rf_DeleteEventSubscription = ''delete-event-subscription''"
| "audit_redfish_operation_as_str Rf_LogClear = ''log-clear''"
| "audit_redfish_operation_as_str Rf_ControlUpdate = ''control-update''"
| "audit_redfish_operation_as_str Rf_SetTelemetryEnabled = ''set-telemetry-enabled''"
| "audit_redfish_operation_as_str Rf_CreateMetricDefinition = ''create-metric-definition''"
| "audit_redfish_operation_as_str Rf_UpdateMetricDefinition = ''update-metric-definition''"
| "audit_redfish_operation_as_str Rf_DeleteMetricDefinition = ''delete-metric-definition''"
| "audit_redfish_operation_as_str Rf_CreateMetricReportDefinition = ''create-metric-report-definition''"
| "audit_redfish_operation_as_str Rf_UpdateMetricReportDefinition = ''update-metric-report-definition''"
| "audit_redfish_operation_as_str Rf_DeleteMetricReportDefinition = ''delete-metric-report-definition''"
| "audit_redfish_operation_as_str Rf_UpdateFirmware = ''update-firmware''"
| "audit_redfish_operation_as_str Rf_UpdateServicePatch = ''update-service-patch''"
| "audit_redfish_operation_as_str Rf_OemSystemConfigProfile = ''oem-system-config-profile''"
| "audit_redfish_operation_as_str Rf_OemDebugToken = ''oem-debug-token''"
| "audit_redfish_operation_as_str Rf_OemPowerSmoothing = ''oem-power-smoothing''"
| "audit_redfish_operation_as_str Rf_PollRemoteTask = ''poll-remote-task''"

definition audit_redfish_operation_codes :: "(string \<times> audit_redfish_operation) list" where
  "audit_redfish_operation_codes =
    [(''none'', Rf_None), (''probe-core-capabilities'', Rf_ProbeCoreCapabilities),
     (''read-core-resources'', Rf_ReadCoreResources), (''create-account'', Rf_CreateAccount),
     (''update-account'', Rf_UpdateAccount),
     (''update-account-password'', Rf_UpdateAccountPassword),
     (''update-account-user-name'', Rf_UpdateAccountUserName),
     (''delete-account'', Rf_DeleteAccount), (''reset-system'', Rf_ResetSystem),
     (''reset-manager'', Rf_ResetManager),
     (''manager-reset-to-defaults'', Rf_ManagerResetToDefaults),
     (''reset-chassis'', Rf_ResetChassis), (''power-supply-reset'', Rf_PowerSupplyReset),
     (''set-boot-source-override'', Rf_SetBootSourceOverride),
     (''secure-boot-enable'', Rf_SecureBootEnable),
     (''secure-boot-disable'', Rf_SecureBootDisable),
     (''secure-boot-reset-keys'', Rf_SecureBootResetKeys),
     (''create-event-subscription'', Rf_CreateEventSubscription),
     (''delete-event-subscription'', Rf_DeleteEventSubscription), (''log-clear'', Rf_LogClear),
     (''control-update'', Rf_ControlUpdate), (''set-telemetry-enabled'', Rf_SetTelemetryEnabled),
     (''create-metric-definition'', Rf_CreateMetricDefinition),
     (''update-metric-definition'', Rf_UpdateMetricDefinition),
     (''delete-metric-definition'', Rf_DeleteMetricDefinition),
     (''create-metric-report-definition'', Rf_CreateMetricReportDefinition),
     (''update-metric-report-definition'', Rf_UpdateMetricReportDefinition),
     (''delete-metric-report-definition'', Rf_DeleteMetricReportDefinition),
     (''update-firmware'', Rf_UpdateFirmware), (''update-service-patch'', Rf_UpdateServicePatch),
     (''oem-system-config-profile'', Rf_OemSystemConfigProfile),
     (''oem-debug-token'', Rf_OemDebugToken), (''oem-power-smoothing'', Rf_OemPowerSmoothing),
     (''poll-remote-task'', Rf_PollRemoteTask)]"

definition audit_redfish_operation_from_str :: "string \<Rightarrow> audit_code_parse_error + audit_redfish_operation" where
  "audit_redfish_operation_from_str value = ok_or (AuditCodeParseError ''Redfish operation'') (map_of audit_redfish_operation_codes value)"

datatype audit_progress =
    Progress_EndpointCreated | Progress_RowValidated

fun audit_progress_as_str :: "audit_progress \<Rightarrow> string" where
  "audit_progress_as_str Progress_EndpointCreated = ''endpoint-created''"
| "audit_progress_as_str Progress_RowValidated = ''row-validated''"

definition audit_progress_codes :: "(string \<times> audit_progress) list" where
  "audit_progress_codes =
    [(''endpoint-created'', Progress_EndpointCreated),
     (''row-validated'', Progress_RowValidated)]"

definition audit_progress_from_str :: "string \<Rightarrow> audit_code_parse_error + audit_progress" where
  "audit_progress_from_str value = ok_or (AuditCodeParseError ''progress'') (map_of audit_progress_codes value)"

datatype audit_verification =
    Verified_Confirmed | Verified_Rejected | Verified_Inconclusive

fun audit_verification_as_str :: "audit_verification \<Rightarrow> string" where
  "audit_verification_as_str Verified_Confirmed = ''confirmed''"
| "audit_verification_as_str Verified_Rejected = ''rejected''"
| "audit_verification_as_str Verified_Inconclusive = ''inconclusive''"

definition audit_verification_codes :: "(string \<times> audit_verification) list" where
  "audit_verification_codes =
    [(''confirmed'', Verified_Confirmed), (''rejected'', Verified_Rejected),
     (''inconclusive'', Verified_Inconclusive)]"

definition audit_verification_from_str :: "string \<Rightarrow> audit_code_parse_error + audit_verification" where
  "audit_verification_from_str value = ok_or (AuditCodeParseError ''verification'') (map_of audit_verification_codes value)"

datatype audit_failure_verification =
    FailureVerified_Rejected | FailureVerified_Inconclusive

fun audit_failure_verification_as_str :: "audit_failure_verification \<Rightarrow> string" where
  "audit_failure_verification_as_str FailureVerified_Rejected = ''rejected''"
| "audit_failure_verification_as_str FailureVerified_Inconclusive = ''inconclusive''"

definition audit_failure_verification_codes :: "(string \<times> audit_failure_verification) list" where
  "audit_failure_verification_codes =
    [(''rejected'', FailureVerified_Rejected), (''inconclusive'', FailureVerified_Inconclusive)]"

definition audit_failure_verification_from_str :: "string \<Rightarrow> audit_code_parse_error + audit_failure_verification" where
  "audit_failure_verification_from_str value = ok_or (AuditCodeParseError ''failure verification'') (map_of audit_failure_verification_codes value)"

datatype audit_outcome_kind =
    Kind_Started | Kind_Progress | Kind_Succeeded | Kind_Failed

fun audit_outcome_kind_as_str :: "audit_outcome_kind \<Rightarrow> string" where
  "audit_outcome_kind_as_str Kind_Started = ''started''"
| "audit_outcome_kind_as_str Kind_Progress = ''progress''"
| "audit_outcome_kind_as_str Kind_Succeeded = ''succeeded''"
| "audit_outcome_kind_as_str Kind_Failed = ''failed''"

definition audit_outcome_kind_codes :: "(string \<times> audit_outcome_kind) list" where
  "audit_outcome_kind_codes =
    [(''started'', Kind_Started), (''progress'', Kind_Progress), (''succeeded'', Kind_Succeeded),
     (''failed'', Kind_Failed)]"

definition audit_outcome_kind_from_str :: "string \<Rightarrow> audit_code_parse_error + audit_outcome_kind" where
  "audit_outcome_kind_from_str value = ok_or (AuditCodeParseError ''outcome'') (map_of audit_outcome_kind_codes value)"

datatype audit_failure =
    Fail_CredentialUnavailable | Fail_TlsTrustFailed | Fail_RedfishDiscoveryFailed
  | Fail_EndpointPersistenceFailed | Fail_CoreResourceReadFailed
  | Fail_SnapshotPersistenceFailed | Fail_CsvInvalid | Fail_EndpointImportRowFailed
  | Fail_CenterStoreFailed | Fail_CenterRequestRefused | Fail_AuthenticationFailed
  | Fail_SessionRevocationFailed | Fail_CapabilityUnsupported

fun audit_failure_as_str :: "audit_failure \<Rightarrow> string" where
  "audit_failure_as_str Fail_CredentialUnavailable = ''credential-unavailable''"
| "audit_failure_as_str Fail_TlsTrustFailed = ''tls-trust-failed''"
| "audit_failure_as_str Fail_RedfishDiscoveryFailed = ''redfish-discovery-failed''"
| "audit_failure_as_str Fail_EndpointPersistenceFailed = ''endpoint-persistence-failed''"
| "audit_failure_as_str Fail_CoreResourceReadFailed = ''core-resource-read-failed''"
| "audit_failure_as_str Fail_SnapshotPersistenceFailed = ''snapshot-persistence-failed''"
| "audit_failure_as_str Fail_CsvInvalid = ''csv-invalid''"
| "audit_failure_as_str Fail_EndpointImportRowFailed = ''endpoint-import-row-failed''"
| "audit_failure_as_str Fail_CenterStoreFailed = ''center-store-failed''"
| "audit_failure_as_str Fail_CenterRequestRefused = ''center-request-refused''"
| "audit_failure_as_str Fail_AuthenticationFailed = ''authentication-failed''"
| "audit_failure_as_str Fail_SessionRevocationFailed = ''session-revocation-failed''"
| "audit_failure_as_str Fail_CapabilityUnsupported = ''capability-unsupported''"

definition audit_failure_codes :: "(string \<times> audit_failure) list" where
  "audit_failure_codes =
    [(''credential-unavailable'', Fail_CredentialUnavailable),
     (''tls-trust-failed'', Fail_TlsTrustFailed),
     (''redfish-discovery-failed'', Fail_RedfishDiscoveryFailed),
     (''endpoint-persistence-failed'', Fail_EndpointPersistenceFailed),
     (''core-resource-read-failed'', Fail_CoreResourceReadFailed),
     (''snapshot-persistence-failed'', Fail_SnapshotPersistenceFailed),
     (''csv-invalid'', Fail_CsvInvalid),
     (''endpoint-import-row-failed'', Fail_EndpointImportRowFailed),
     (''center-store-failed'', Fail_CenterStoreFailed),
     (''center-request-refused'', Fail_CenterRequestRefused),
     (''authentication-failed'', Fail_AuthenticationFailed),
     (''session-revocation-failed'', Fail_SessionRevocationFailed),
     (''capability-unsupported'', Fail_CapabilityUnsupported)]"

definition audit_failure_from_str :: "string \<Rightarrow> audit_code_parse_error + audit_failure" where
  "audit_failure_from_str value = ok_or (AuditCodeParseError ''failure'') (map_of audit_failure_codes value)"

fun failure_verification :: "audit_failure_verification \<Rightarrow> audit_verification" where
  "failure_verification FailureVerified_Rejected = Verified_Rejected"
| "failure_verification FailureVerified_Inconclusive = Verified_Inconclusive"

definition names_distinct_target_principal :: "audit_action \<Rightarrow> bool" where
  "names_distinct_target_principal action \<longleftrightarrow> action = Action_ChangePassword"

section \<open>Attribution\<close>

fun execution_attribution ::
  "audit_actor \<Rightarrow> deployment_posture \<Rightarrow> operation_source \<Rightarrow> audit_actor \<times> deployment_posture" where
  "execution_attribution base_actor Posture_Site Center = (Actor_System, Posture_Site)"
| "execution_attribution base_actor base_origin source = (base_actor, base_origin)"

section \<open>Contexts\<close>

datatype 'addr audit_target = Target_Product | Target_EndpointAddress 'addr | Target_Endpoint endpoint_id

datatype audit_tls_trust = Trust_SystemCa | Trust_PinnedCertificate

fun audit_tls_trust_as_str :: "audit_tls_trust \<Rightarrow> string" where
  "audit_tls_trust_as_str Trust_SystemCa = ''system-ca''"
| "audit_tls_trust_as_str Trust_PinnedCertificate = ''pinned-certificate''"

definition audit_tls_trust_codes :: "(string \<times> audit_tls_trust) list" where
  "audit_tls_trust_codes =
    [(''system-ca'', Trust_SystemCa), (''pinned-certificate'', Trust_PinnedCertificate)]"

definition audit_tls_trust_from_str :: "string \<Rightarrow> audit_code_parse_error + audit_tls_trust" where
  "audit_tls_trust_from_str value = ok_or (AuditCodeParseError ''TLS trust'') (map_of audit_tls_trust_codes value)"

datatype audit_parameter_summary =
    Summary_EndpointEnrollment uuid audit_tls_trust
  | Summary_EndpointRefresh
  | Summary_CsvEndpointImport "32 word"

datatype audit_parameter_summary_error = AuditParameterSummaryError

definition csv_endpoint_import ::
  "32 word \<Rightarrow> audit_parameter_summary_error + audit_parameter_summary" where
  "csv_endpoint_import row_count =
     (if row_count = 0 then Inl AuditParameterSummaryError else Inr (Summary_CsvEndpointImport row_count))"

record 'addr audit_context =
  ac_operation_id :: uuid
  ac_actor :: audit_actor
  ac_origin :: deployment_posture
  ac_target :: "'addr audit_target"
  ac_parameters :: audit_parameter_summary
  ac_permission :: product_permission
  ac_action :: audit_action
  ac_redfish_operation :: audit_redfish_operation
  ac_actor_principal_id :: "uuid option"
  ac_target_principal_id :: "uuid option"

datatype audit_operation_context_error = AuditOperationContextError

fun is_endpoint_target :: "'addr audit_target \<Rightarrow> bool" where
  "is_endpoint_target (Target_Endpoint _) = True"
| "is_endpoint_target _ = False"

fun is_endpoint_address_target :: "'addr audit_target \<Rightarrow> bool" where
  "is_endpoint_address_target (Target_EndpointAddress _) = True"
| "is_endpoint_address_target _ = False"

fun is_enrollment_summary :: "audit_parameter_summary \<Rightarrow> bool" where
  "is_enrollment_summary (Summary_EndpointEnrollment _ _) = True"
| "is_enrollment_summary _ = False"

fun is_csv_summary :: "audit_parameter_summary \<Rightarrow> bool" where
  "is_csv_summary (Summary_CsvEndpointImport _) = True"
| "is_csv_summary _ = False"

text \<open>
  The consistency matrix. The rows of \<open>Rf_None\<close> are the alternatives of the source's match in its
  order; the last row stands for the 31 write families and the task polling, which share one arm.
\<close>

definition context_consistent ::
  "'addr audit_target \<Rightarrow> audit_parameter_summary \<Rightarrow> product_permission \<Rightarrow> audit_action
     \<Rightarrow> audit_redfish_operation \<Rightarrow> bool" where
  "context_consistent target parameters permission action redfish_operation =
     (case redfish_operation of
        Rf_ProbeCoreCapabilities \<Rightarrow>
          is_endpoint_address_target target \<and> is_enrollment_summary parameters
          \<and> permission = Perm_ManageEndpoints \<and> action = Action_EnrollEndpoint
      | Rf_ReadCoreResources \<Rightarrow>
          is_endpoint_target target \<and> parameters = Summary_EndpointRefresh
          \<and> permission = Perm_RefreshEndpoints \<and> action = Action_RefreshEndpoint
      | Rf_None \<Rightarrow>
          target = Target_Product \<and> is_csv_summary parameters
            \<and> permission = Perm_ManageEndpoints \<and> action = Action_ImportEndpoints
        \<or> target = Target_Product \<and> parameters = Summary_EndpointRefresh
            \<and> permission = Perm_Authenticate
            \<and> action \<in> {Action_Login, Action_Logout, Action_ChangePassword}
        \<or> target = Target_Product \<and> parameters = Summary_EndpointRefresh
            \<and> permission = Perm_ManageUsers
            \<and> action \<in> {Action_ManageUsers, Action_ManageSessions, Action_ManageTotp}
        \<or> target = Target_Product \<and> parameters = Summary_EndpointRefresh
            \<and> permission = Perm_ManageBackups \<and> action = Action_ManageBackups
        \<or> target = Target_Product \<and> parameters = Summary_EndpointRefresh
            \<and> permission = Perm_ManageSiteSettings \<and> action = Action_ManageSettings
        \<or> target = Target_Product \<and> parameters = Summary_EndpointRefresh
            \<and> permission = Perm_ManageCenterBindings
            \<and> action \<in> {Action_RegisterSiteBinding, Action_RevokeSiteBinding}
        \<or> is_endpoint_target target \<and> parameters = Summary_EndpointRefresh
            \<and> permission = Perm_DispatchCenterOperations \<and> action = Action_DispatchCenterOperation
      | _ \<Rightarrow>
          is_endpoint_target target \<and> parameters = Summary_EndpointRefresh
          \<and> permission = Perm_ExecuteOperations \<and> action = Action_ExecuteOperation)"

definition context_try_new_with_actor_principal ::
  "uuid \<Rightarrow> audit_actor \<Rightarrow> deployment_posture \<Rightarrow> 'addr audit_target \<Rightarrow> audit_parameter_summary
     \<Rightarrow> product_permission \<Rightarrow> audit_action \<Rightarrow> audit_redfish_operation \<Rightarrow> uuid option
     \<Rightarrow> audit_operation_context_error + 'addr audit_context" where
  "context_try_new_with_actor_principal operation_id actor origin target parameters permission action
       redfish_operation actor_principal_id =
     (if (actor = Actor_User) \<noteq> (actor_principal_id \<noteq> None) then Inl AuditOperationContextError
      else if \<not> context_consistent target parameters permission action redfish_operation
      then Inl AuditOperationContextError
      else Inr \<lparr>ac_operation_id = operation_id, ac_actor = actor, ac_origin = origin,
        ac_target = target, ac_parameters = parameters, ac_permission = permission,
        ac_action = action, ac_redfish_operation = redfish_operation,
        ac_actor_principal_id = actor_principal_id, ac_target_principal_id = None\<rparr>)"

definition context_try_new ::
  "uuid \<Rightarrow> audit_actor \<Rightarrow> deployment_posture \<Rightarrow> 'addr audit_target \<Rightarrow> audit_parameter_summary
     \<Rightarrow> product_permission \<Rightarrow> audit_action \<Rightarrow> audit_redfish_operation
     \<Rightarrow> audit_operation_context_error + 'addr audit_context" where
  "context_try_new operation_id actor origin target parameters permission action redfish_operation =
     context_try_new_with_actor_principal operation_id actor origin target parameters permission
       action redfish_operation None"

definition with_target_principal :: "uuid \<Rightarrow> 'addr audit_context \<Rightarrow> 'addr audit_context" where
  "with_target_principal target_principal_id context =
     context\<lparr>ac_target_principal_id := Some target_principal_id\<rparr>"

section \<open>Events\<close>

datatype audit_outcome =
    Outcome_Started
  | Outcome_Progress audit_progress
  | Outcome_Succeeded
  | Outcome_Failed audit_failure audit_failure_verification

type_synonym audit_sequence = "32 word"

datatype audit_sequence_error = Zero | Exhausted

definition SEQUENCE_FIRST :: audit_sequence where
  "SEQUENCE_FIRST = 1"

definition sequence_try_new :: "32 word \<Rightarrow> audit_sequence_error + audit_sequence" where
  "sequence_try_new value = (if value = 0 then Inl Zero else Inr value)"

definition sequence_next :: "audit_sequence \<Rightarrow> audit_sequence_error + audit_sequence" where
  "sequence_next sequence = (if sequence = - 1 then Inl Exhausted else Inr (sequence + 1))"

fun outcome_kind :: "audit_outcome \<Rightarrow> audit_outcome_kind" where
  "outcome_kind Outcome_Started = Kind_Started"
| "outcome_kind (Outcome_Progress _) = Kind_Progress"
| "outcome_kind Outcome_Succeeded = Kind_Succeeded"
| "outcome_kind (Outcome_Failed _ _) = Kind_Failed"

fun outcome_progress :: "audit_outcome \<Rightarrow> audit_progress option" where
  "outcome_progress (Outcome_Progress p) = Some p"
| "outcome_progress _ = None"

fun outcome_failure :: "audit_outcome \<Rightarrow> audit_failure option" where
  "outcome_failure (Outcome_Failed f _) = Some f"
| "outcome_failure _ = None"

fun outcome_verification :: "audit_outcome \<Rightarrow> audit_verification option" where
  "outcome_verification Outcome_Succeeded = Some Verified_Confirmed"
| "outcome_verification (Outcome_Failed _ v) = Some (failure_verification v)"
| "outcome_verification Outcome_Started = None"
| "outcome_verification (Outcome_Progress _) = None"

fun outcome_is_terminal :: "audit_outcome \<Rightarrow> bool" where
  "outcome_is_terminal Outcome_Succeeded = True"
| "outcome_is_terminal (Outcome_Failed _ _) = True"
| "outcome_is_terminal _ = False"

record 'addr audit_event =
  ae_id :: uuid
  ae_context :: "'addr audit_context"
  ae_sequence :: audit_sequence
  ae_outcome :: audit_outcome
  ae_occurred_at :: instant

datatype audit_event_error = InvalidSequence | InvalidProgress

definition event_new ::
  "uuid \<Rightarrow> 'addr audit_context \<Rightarrow> audit_sequence \<Rightarrow> audit_outcome \<Rightarrow> instant \<Rightarrow> 'addr audit_event" where
  "event_new i context sequence outcome occurred_at =
     \<lparr>ae_id = i, ae_context = context, ae_sequence = sequence, ae_outcome = outcome,
      ae_occurred_at = occurred_at\<rparr>"

definition event_try_from_parts ::
  "uuid \<Rightarrow> 'addr audit_context \<Rightarrow> audit_sequence \<Rightarrow> audit_outcome \<Rightarrow> instant
     \<Rightarrow> audit_event_error + 'addr audit_event" where
  "event_try_from_parts i context sequence outcome occurred_at =
     (let sequence_matches_outcome =
        (case outcome of Outcome_Started \<Rightarrow> sequence = SEQUENCE_FIRST | _ \<Rightarrow> sequence > SEQUENCE_FIRST) in
      if \<not> sequence_matches_outcome then Inl InvalidSequence
      else if (case outcome of
             Outcome_Progress p \<Rightarrow> (ac_action context, p) \<notin> {(Action_EnrollEndpoint, Progress_EndpointCreated),
               (Action_ImportEndpoints, Progress_RowValidated)}
           | _ \<Rightarrow> False)
      then Inl InvalidProgress
      else Inr (event_new i context sequence outcome occurred_at))"

definition event_started :: "uuid \<Rightarrow> 'addr audit_context \<Rightarrow> instant \<Rightarrow> 'addr audit_event" where
  "event_started i context occurred_at = event_new i context SEQUENCE_FIRST Outcome_Started occurred_at"

definition event_progress ::
  "uuid \<Rightarrow> 'addr audit_context \<Rightarrow> audit_sequence \<Rightarrow> audit_progress \<Rightarrow> instant
     \<Rightarrow> audit_event_error + 'addr audit_event" where
  "event_progress i context sequence progress occurred_at =
     event_try_from_parts i context sequence (Outcome_Progress progress) occurred_at"

definition event_succeeded ::
  "uuid \<Rightarrow> 'addr audit_context \<Rightarrow> audit_sequence \<Rightarrow> instant \<Rightarrow> audit_event_error + 'addr audit_event" where
  "event_succeeded i context sequence occurred_at =
     event_try_from_parts i context sequence Outcome_Succeeded occurred_at"

definition event_failed ::
  "uuid \<Rightarrow> 'addr audit_context \<Rightarrow> audit_sequence \<Rightarrow> audit_failure \<Rightarrow> audit_failure_verification
     \<Rightarrow> instant \<Rightarrow> audit_event_error + 'addr audit_event" where
  "event_failed i context sequence failure verification occurred_at =
     event_try_from_parts i context sequence (Outcome_Failed failure verification) occurred_at"

section \<open>The vocabularies are stable codes\<close>

lemma deployment_posture_codes_table:
  "deployment_posture_codes = map (\<lambda>x. (deployment_posture_as_str x, x)) (map snd deployment_posture_codes)"
  by (simp add: deployment_posture_codes_def)

lemma deployment_posture_listed: "x \<in> set (map snd deployment_posture_codes)"
  by (cases x) (simp_all add: deployment_posture_codes_def)

lemma distinct_deployment_posture_codes:
  "distinct (map deployment_posture_as_str (map snd deployment_posture_codes))"
  by (simp add: deployment_posture_codes_def)

interpretation posture_code: stable_code deployment_posture_as_str deployment_posture_from_str
  unfolding deployment_posture_from_str_def
  by (rule code_of_table [OF deployment_posture_codes_table deployment_posture_listed
        distinct_deployment_posture_codes])

lemma audit_actor_codes_table:
  "audit_actor_codes = map (\<lambda>x. (audit_actor_as_str x, x)) (map snd audit_actor_codes)"
  by (simp add: audit_actor_codes_def)

lemma audit_actor_listed: "x \<in> set (map snd audit_actor_codes)"
  by (cases x) (simp_all add: audit_actor_codes_def)

lemma distinct_audit_actor_codes: "distinct (map audit_actor_as_str (map snd audit_actor_codes))"
  by (simp add: audit_actor_codes_def)

interpretation actor_code: stable_code audit_actor_as_str audit_actor_from_str
  unfolding audit_actor_from_str_def
  by (rule code_of_table [OF audit_actor_codes_table audit_actor_listed distinct_audit_actor_codes])

lemma product_permission_codes_table:
  "product_permission_codes = map (\<lambda>x. (product_permission_as_str x, x)) (map snd product_permission_codes)"
  by (simp add: product_permission_codes_def)

lemma product_permission_listed: "x \<in> set (map snd product_permission_codes)"
  by (cases x) (simp_all add: product_permission_codes_def)

lemma distinct_product_permission_codes: "distinct (map product_permission_as_str (map snd product_permission_codes))"
  by (simp add: product_permission_codes_def)

interpretation permission_code: stable_code product_permission_as_str product_permission_from_str
  unfolding product_permission_from_str_def
  by (rule code_of_table [OF product_permission_codes_table product_permission_listed distinct_product_permission_codes])

lemma audit_action_codes_table:
  "audit_action_codes = map (\<lambda>x. (audit_action_as_str x, x)) (map snd audit_action_codes)"
  by (simp add: audit_action_codes_def)

lemma audit_action_listed: "x \<in> set (map snd audit_action_codes)"
  by (cases x) (simp_all add: audit_action_codes_def)

lemma distinct_audit_action_codes: "distinct (map audit_action_as_str (map snd audit_action_codes))"
  by (simp add: audit_action_codes_def)

interpretation action_code: stable_code audit_action_as_str audit_action_from_str
  unfolding audit_action_from_str_def
  by (rule code_of_table [OF audit_action_codes_table audit_action_listed distinct_audit_action_codes])

lemma audit_redfish_operation_codes_table:
  "audit_redfish_operation_codes = map (\<lambda>x. (audit_redfish_operation_as_str x, x)) (map snd audit_redfish_operation_codes)"
  by (simp add: audit_redfish_operation_codes_def)

lemma audit_redfish_operation_listed: "x \<in> set (map snd audit_redfish_operation_codes)"
  by (cases x) (simp_all add: audit_redfish_operation_codes_def)

lemma distinct_audit_redfish_operation_codes: "distinct (map audit_redfish_operation_as_str (map snd audit_redfish_operation_codes))"
  by (simp add: audit_redfish_operation_codes_def)

interpretation redfish_operation_code: stable_code audit_redfish_operation_as_str audit_redfish_operation_from_str
  unfolding audit_redfish_operation_from_str_def
  by (rule code_of_table [OF audit_redfish_operation_codes_table audit_redfish_operation_listed distinct_audit_redfish_operation_codes])

lemma audit_progress_codes_table:
  "audit_progress_codes = map (\<lambda>x. (audit_progress_as_str x, x)) (map snd audit_progress_codes)"
  by (simp add: audit_progress_codes_def)

lemma audit_progress_listed: "x \<in> set (map snd audit_progress_codes)"
  by (cases x) (simp_all add: audit_progress_codes_def)

lemma distinct_audit_progress_codes: "distinct (map audit_progress_as_str (map snd audit_progress_codes))"
  by (simp add: audit_progress_codes_def)

interpretation progress_code: stable_code audit_progress_as_str audit_progress_from_str
  unfolding audit_progress_from_str_def
  by (rule code_of_table [OF audit_progress_codes_table audit_progress_listed distinct_audit_progress_codes])

lemma audit_verification_codes_table:
  "audit_verification_codes = map (\<lambda>x. (audit_verification_as_str x, x)) (map snd audit_verification_codes)"
  by (simp add: audit_verification_codes_def)

lemma audit_verification_listed: "x \<in> set (map snd audit_verification_codes)"
  by (cases x) (simp_all add: audit_verification_codes_def)

lemma distinct_audit_verification_codes: "distinct (map audit_verification_as_str (map snd audit_verification_codes))"
  by (simp add: audit_verification_codes_def)

interpretation verification_code: stable_code audit_verification_as_str audit_verification_from_str
  unfolding audit_verification_from_str_def
  by (rule code_of_table [OF audit_verification_codes_table audit_verification_listed distinct_audit_verification_codes])

lemma audit_failure_verification_codes_table:
  "audit_failure_verification_codes = map (\<lambda>x. (audit_failure_verification_as_str x, x)) (map snd audit_failure_verification_codes)"
  by (simp add: audit_failure_verification_codes_def)

lemma audit_failure_verification_listed: "x \<in> set (map snd audit_failure_verification_codes)"
  by (cases x) (simp_all add: audit_failure_verification_codes_def)

lemma distinct_audit_failure_verification_codes: "distinct (map audit_failure_verification_as_str (map snd audit_failure_verification_codes))"
  by (simp add: audit_failure_verification_codes_def)

interpretation failure_verification_code: stable_code audit_failure_verification_as_str audit_failure_verification_from_str
  unfolding audit_failure_verification_from_str_def
  by (rule code_of_table [OF audit_failure_verification_codes_table audit_failure_verification_listed distinct_audit_failure_verification_codes])

lemma audit_outcome_kind_codes_table:
  "audit_outcome_kind_codes = map (\<lambda>x. (audit_outcome_kind_as_str x, x)) (map snd audit_outcome_kind_codes)"
  by (simp add: audit_outcome_kind_codes_def)

lemma audit_outcome_kind_listed: "x \<in> set (map snd audit_outcome_kind_codes)"
  by (cases x) (simp_all add: audit_outcome_kind_codes_def)

lemma distinct_audit_outcome_kind_codes: "distinct (map audit_outcome_kind_as_str (map snd audit_outcome_kind_codes))"
  by (simp add: audit_outcome_kind_codes_def)

interpretation outcome_kind_code: stable_code audit_outcome_kind_as_str audit_outcome_kind_from_str
  unfolding audit_outcome_kind_from_str_def
  by (rule code_of_table [OF audit_outcome_kind_codes_table audit_outcome_kind_listed distinct_audit_outcome_kind_codes])

lemma audit_failure_codes_table:
  "audit_failure_codes = map (\<lambda>x. (audit_failure_as_str x, x)) (map snd audit_failure_codes)"
  by (simp add: audit_failure_codes_def)

lemma audit_failure_listed: "x \<in> set (map snd audit_failure_codes)"
  by (cases x) (simp_all add: audit_failure_codes_def)

lemma distinct_audit_failure_codes: "distinct (map audit_failure_as_str (map snd audit_failure_codes))"
  by (simp add: audit_failure_codes_def)

interpretation failure_code: stable_code audit_failure_as_str audit_failure_from_str
  unfolding audit_failure_from_str_def
  by (rule code_of_table [OF audit_failure_codes_table audit_failure_listed distinct_audit_failure_codes])

lemma audit_tls_trust_codes_table:
  "audit_tls_trust_codes = map (\<lambda>x. (audit_tls_trust_as_str x, x)) (map snd audit_tls_trust_codes)"
  by (simp add: audit_tls_trust_codes_def)

lemma audit_tls_trust_listed: "x \<in> set (map snd audit_tls_trust_codes)"
  by (cases x) (simp_all add: audit_tls_trust_codes_def)

lemma distinct_audit_tls_trust_codes: "distinct (map audit_tls_trust_as_str (map snd audit_tls_trust_codes))"
  by (simp add: audit_tls_trust_codes_def)

interpretation tls_trust_code: stable_code audit_tls_trust_as_str audit_tls_trust_from_str
  unfolding audit_tls_trust_from_str_def
  by (rule code_of_table [OF audit_tls_trust_codes_table audit_tls_trust_listed
        distinct_audit_tls_trust_codes])

lemmas audit_codes [simp] =
  actor_code.parse_print permission_code.parse_print action_code.parse_print
  redfish_operation_code.parse_print progress_code.parse_print verification_code.parse_print
  failure_verification_code.parse_print outcome_kind_code.parse_print failure_code.parse_print
  posture_code.parse_print tls_trust_code.parse_print

section \<open>Lemmas\<close>

text \<open>The write families: everything but the two discovery reads and the absence of a request.\<close>

definition is_execution_operation :: "audit_redfish_operation \<Rightarrow> bool" where
  "is_execution_operation rf \<longleftrightarrow> rf \<notin> {Rf_None, Rf_ProbeCoreCapabilities, Rf_ReadCoreResources}"

lemma context_consistent_execution:
  "is_execution_operation rf \<Longrightarrow>
     context_consistent target parameters permission action rf \<longleftrightarrow>
       is_endpoint_target target \<and> parameters = Summary_EndpointRefresh
     \<and> permission = Perm_ExecuteOperations \<and> action = Action_ExecuteOperation"
  by (cases rf) (simp_all add: is_execution_operation_def context_consistent_def)

text \<open>The permission an action is authorized by.\<close>

fun action_permission :: "audit_action \<Rightarrow> product_permission" where
  "action_permission Action_EnrollEndpoint = Perm_ManageEndpoints"
| "action_permission Action_RefreshEndpoint = Perm_RefreshEndpoints"
| "action_permission Action_ImportEndpoints = Perm_ManageEndpoints"
| "action_permission Action_ExecuteOperation = Perm_ExecuteOperations"
| "action_permission Action_Login = Perm_Authenticate"
| "action_permission Action_Logout = Perm_Authenticate"
| "action_permission Action_ChangePassword = Perm_Authenticate"
| "action_permission Action_ManageUsers = Perm_ManageUsers"
| "action_permission Action_ManageSessions = Perm_ManageUsers"
| "action_permission Action_ManageTotp = Perm_ManageUsers"
| "action_permission Action_ManageBackups = Perm_ManageBackups"
| "action_permission Action_ManageSettings = Perm_ManageSiteSettings"
| "action_permission Action_RegisterSiteBinding = Perm_ManageCenterBindings"
| "action_permission Action_RevokeSiteBinding = Perm_ManageCenterBindings"
| "action_permission Action_DispatchCenterOperation = Perm_DispatchCenterOperations"

lemma sequence_first_next [simp]: "sequence_next SEQUENCE_FIRST = Inr 2"
  by (simp add: sequence_next_def SEQUENCE_FIRST_def)

lemma terminal_events [simp]:
  "event_succeeded i context 2 t = Inr (event_new i context 2 Outcome_Succeeded t)"
  "event_failed i context 2 failure v t = Inr (event_new i context 2 (Outcome_Failed failure v) t)"
  by (simp_all add: event_succeeded_def event_failed_def event_try_from_parts_def SEQUENCE_FIRST_def)

section \<open>Properties\<close>

text \<open>
  The attribution rules read from the action instead of the Redfish operation: which operations an action
  comes with, what it is done to and how it is summarized.
\<close>

fun action_operation :: "audit_action \<Rightarrow> audit_redfish_operation \<Rightarrow> bool" where
  "action_operation Action_EnrollEndpoint rf = (rf = Rf_ProbeCoreCapabilities)"
| "action_operation Action_RefreshEndpoint rf = (rf = Rf_ReadCoreResources)"
| "action_operation Action_ExecuteOperation rf = is_execution_operation rf"
| "action_operation _ rf = (rf = Rf_None)"

fun action_target :: "audit_action \<Rightarrow> 'addr audit_target \<Rightarrow> bool" where
  "action_target Action_EnrollEndpoint target = is_endpoint_address_target target"
| "action_target Action_RefreshEndpoint target = is_endpoint_target target"
| "action_target Action_ExecuteOperation target = is_endpoint_target target"
| "action_target Action_DispatchCenterOperation target = is_endpoint_target target"
| "action_target _ target = (target = Target_Product)"

fun action_summary :: "audit_action \<Rightarrow> audit_parameter_summary \<Rightarrow> bool" where
  "action_summary Action_EnrollEndpoint parameters = is_enrollment_summary parameters"
| "action_summary Action_ImportEndpoints parameters = is_csv_summary parameters"
| "action_summary _ parameters = (parameters = Summary_EndpointRefresh)"

lemma context_consistent_iff:
  "context_consistent target parameters permission action rf \<longleftrightarrow>
     permission = action_permission action \<and> action_operation action rf
   \<and> action_target action target \<and> action_summary action parameters"
proof (cases "is_execution_operation rf")
  case True
  then have "rf \<notin> {Rf_None, Rf_ProbeCoreCapabilities, Rf_ReadCoreResources}" by (simp add: is_execution_operation_def)
  then show ?thesis using True by (cases action) (auto simp: context_consistent_execution)
next
  case False
  then consider "rf = Rf_None" | "rf = Rf_ProbeCoreCapabilities" | "rf = Rf_ReadCoreResources"
    by (auto simp: is_execution_operation_def)
  then show ?thesis
    by cases (cases action; auto simp: context_consistent_def is_execution_operation_def)+
qed

text \<open>
  C24: An audit context cannot misattribute what was done. A context is accepted exactly when it names a
  principal iff a user acted and its action fixes the rest: the one permission that authorizes the
  action, the Redfish operations it comes with (the capability probe with an enrollment, the core read
  with a refresh, the writes and task polls with an execution and nothing else, none with the actions
  of the product), what it is done to and how it is summarized; then it carries what it was given.
\<close>

theorem audit_context_is_consistent:
  "context_try_new_with_actor_principal oid actor origin target parameters permission action rf pid =
     (if (actor = Actor_User \<longleftrightarrow> pid \<noteq> None) \<and> permission = action_permission action \<and> action_operation action rf
         \<and> action_target action target \<and> action_summary action parameters
      then Inr \<lparr>ac_operation_id = oid, ac_actor = actor, ac_origin = origin, ac_target = target,
        ac_parameters = parameters, ac_permission = permission, ac_action = action, ac_redfish_operation = rf,
        ac_actor_principal_id = pid, ac_target_principal_id = None\<rparr>
      else Inl AuditOperationContextError)"
  by (cases pid) (simp_all add: context_try_new_with_actor_principal_def context_consistent_iff)

end
