(* ===== verification/Endpoint_Address.thy ===== *)
theory Endpoint_Address
  imports Rust_Text
begin

text \<open>
  The validated HTTPS entry point of a Redfish service, \<open>domain/src/endpoint_address.rs\<close>. URLs
  are parsed, printed and taken apart by the \<open>url\<close> crate, the record \<open>url_lib\<close> of the functions
  the source calls; an address is a URL of that library.
\<close>

record ('u, 'pe) url_lib =
  url_parse :: "ustring \<Rightarrow> 'pe + 'u"
  url_scheme :: "'u \<Rightarrow> ustring"
  url_host_str :: "'u \<Rightarrow> ustring option"
  url_username :: "'u \<Rightarrow> ustring"
  url_password :: "'u \<Rightarrow> ustring option"
  url_query :: "'u \<Rightarrow> ustring option"
  url_fragment :: "'u \<Rightarrow> ustring option"
  url_to_string :: "'u \<Rightarrow> ustring"

datatype 'pe endpoint_address_error =
    InvalidUrl 'pe | HttpsRequired | HostRequired | EmbeddedCredentials | QueryNotAllowed
  | FragmentNotAllowed

definition endpoint_address_parse ::
  "('u, 'pe) url_lib \<Rightarrow> ustring \<Rightarrow> 'pe endpoint_address_error + 'u" where
  "endpoint_address_parse lib value =
     rbind (map_err InvalidUrl (url_parse lib value)) (\<lambda>url.
     if url_scheme lib url \<noteq> ascii ''https'' then Inl HttpsRequired
     else if url_host_str lib url = None then Inl HostRequired
     else if url_username lib url \<noteq> [] \<or> url_password lib url \<noteq> None then Inl EmbeddedCredentials
     else if url_query lib url \<noteq> None then Inl QueryNotAllowed
     else if url_fragment lib url \<noteq> None then Inl FragmentNotAllowed
     else Inr url)"

text \<open>What the constructor guarantees of an address.\<close>

definition address_ok :: "('u, 'pe) url_lib \<Rightarrow> 'u \<Rightarrow> bool" where
  "address_ok lib url \<longleftrightarrow>
     url_scheme lib url = ascii ''https'' \<and> url_host_str lib url \<noteq> None
   \<and> url_username lib url = [] \<and> url_password lib url = None
   \<and> url_query lib url = None \<and> url_fragment lib url = None"

text \<open>The serialization of a URL parses to that URL again.\<close>

definition url_lib_ok :: "('u, 'pe) url_lib \<Rightarrow> bool" where
  "url_lib_ok lib \<longleftrightarrow> (\<forall>u. url_parse lib (url_to_string lib u) = Inr u)"

lemma endpoint_address_parse_Inr:
  "endpoint_address_parse lib v = Inr a \<longleftrightarrow> url_parse lib v = Inr a \<and> address_ok lib a"
proof (cases "url_parse lib v")
  case (Inl e)
  then show ?thesis by (simp add: endpoint_address_parse_def)
next
  case (Inr u)
  have "endpoint_address_parse lib v = (if address_ok lib u then Inr u else endpoint_address_parse lib v)"
    using Inr by (simp add: endpoint_address_parse_def address_ok_def)
  moreover have "\<exists>e. endpoint_address_parse lib v = Inl e" if "\<not> address_ok lib u"
    using Inr that unfolding endpoint_address_parse_def address_ok_def by simp (metis option.distinct(1))
  ultimately show ?thesis using Inr by (cases "address_ok lib u") auto
qed

lemma endpoint_address_roundtrip:
  "url_lib_ok lib \<Longrightarrow> address_ok lib a \<Longrightarrow> endpoint_address_parse lib (url_to_string lib a) = Inr a"
  by (simp add: endpoint_address_parse_Inr url_lib_ok_def)

end
