(* ===== verification/Audit_Repository.thy ===== *)
theory Audit_Repository
  imports Audit_Event Endpoint_Address
begin

text \<open>
  The append-only audit log, \<open>persistence/src/audit_repository.rs\<close>: the projection of an event
  onto a row of \<open>audit_events\<close> and back, the validation of an append against the trail stored for
  its operation, and the methods. The table has the event identity as primary key and a unique
  index on operation and sequence; any other refusal of SQLite is a fault of the store. Codes are
  strings, the address column is text, and the signed 64-bit columns are integers.
\<close>

section \<open>Rows and errors\<close>

record audit_row =
  ar_id :: uuid
  ar_operation_id :: uuid
  ar_event_sequence :: int
  ar_actor :: string
  ar_actor_principal_id :: "uuid option"
  ar_target_principal_id :: "uuid option"
  ar_origin :: string
  ar_target_kind :: string
  ar_target_endpoint_id :: "uuid option"
  ar_target_endpoint_address :: "ustring option"
  ar_parameter_kind :: string
  ar_credential_id :: "uuid option"
  ar_trust_mode :: "string option"
  ar_row_count :: "int option"
  ar_permission :: string
  ar_action :: string
  ar_redfish_operation :: string
  ar_outcome :: string
  ar_progress :: "string option"
  ar_failure :: "string option"
  ar_verification :: "string option"
  ar_occurred_at :: instant

datatype 'pe stored_audit_event_error =
    UnknownActor audit_code_parse_error
  | UnknownOrigin deployment_posture_parse_error
  | UnknownTargetKind
  | InvalidTargetShape
  | InvalidEndpointAddress "'pe endpoint_address_error"
  | UnknownParameterKind
  | InvalidParameterShape
  | UnknownTrustMode audit_code_parse_error
  | InvalidRowCount
  | InvalidParameterSummary audit_parameter_summary_error
  | UnknownPermission audit_code_parse_error
  | UnknownAction audit_code_parse_error
  | UnknownRedfishOperation audit_code_parse_error
  | InvalidContext audit_operation_context_error
  | InvalidTargetPrincipalShape
  | InvalidSequenceValue
  | InvalidStoredSequence audit_sequence_error
  | UnknownOutcome audit_code_parse_error
  | UnknownProgress audit_code_parse_error
  | UnknownFailure audit_code_parse_error
  | UnknownVerification audit_code_parse_error
  | UnknownFailureVerification audit_code_parse_error
  | InvalidOutcomeShape
  | InvalidEvent audit_event_error
  | StoredMissingStart
  | StoredNonContiguous audit_sequence audit_sequence
  | StoredContextChanged audit_sequence
  | StoredEventPredatesPrevious audit_sequence
  | EventAfterTerminal audit_sequence

datatype 'pe audit_repository_error =
    AuditCoordinate
  | MissingStart uuid audit_sequence
  | NonContiguous uuid audit_sequence audit_sequence
  | SequenceExhausted uuid audit_sequence_error
  | ContextChanged uuid audit_sequence
  | EventPredatesPrevious uuid audit_sequence
  | OperationTerminal uuid audit_sequence
  | AuditCorrupt uuid "'pe stored_audit_event_error"
  | AuditDatabase

datatype audit_call = AuditPermit | AuditBegin | AuditQuery | AuditInsert | AuditCommit

record ('u, 'pe) audit_store =
  as_rows :: "audit_row list"
  as_url :: "('u, 'pe) url_lib"
  as_fault :: "audit_call \<Rightarrow> bool"

section \<open>Projection\<close>

definition target_kind :: "'u audit_target \<Rightarrow> string" where
  "target_kind target = (case target of
      Target_Product \<Rightarrow> ''product'' | Target_EndpointAddress _ \<Rightarrow> ''endpoint-address''
    | Target_Endpoint _ \<Rightarrow> ''endpoint'')"

definition parameter_kind :: "audit_parameter_summary \<Rightarrow> string" where
  "parameter_kind parameters = (case parameters of
      Summary_EndpointEnrollment _ _ \<Rightarrow> ''endpoint-enrollment''
    | Summary_EndpointRefresh \<Rightarrow> ''endpoint-refresh''
    | Summary_CsvEndpointImport _ \<Rightarrow> ''csv-endpoint-import'')"

definition project_event :: "('u, 'pe) url_lib \<Rightarrow> 'u audit_event \<Rightarrow> audit_row" where
  "project_event lib event =
     (let context = ae_context event; outcome = ae_outcome event in
      \<lparr>ar_id = ae_id event, ar_operation_id = ac_operation_id context,
       ar_event_sequence = uint (ae_sequence event),
       ar_actor = audit_actor_as_str (ac_actor context),
       ar_actor_principal_id = ac_actor_principal_id context,
       ar_target_principal_id = ac_target_principal_id context,
       ar_origin = deployment_posture_as_str (ac_origin context),
       ar_target_kind = target_kind (ac_target context),
       ar_target_endpoint_id = (case ac_target context of Target_Endpoint e \<Rightarrow> Some e | _ \<Rightarrow> None),
       ar_target_endpoint_address =
         (case ac_target context of Target_EndpointAddress a \<Rightarrow> Some (url_to_string lib a) | _ \<Rightarrow> None),
       ar_parameter_kind = parameter_kind (ac_parameters context),
       ar_credential_id =
         (case ac_parameters context of Summary_EndpointEnrollment c _ \<Rightarrow> Some c | _ \<Rightarrow> None),
       ar_trust_mode =
         (case ac_parameters context of
            Summary_EndpointEnrollment _ t \<Rightarrow> Some (audit_tls_trust_as_str t) | _ \<Rightarrow> None),
       ar_row_count =
         (case ac_parameters context of Summary_CsvEndpointImport n \<Rightarrow> Some (uint n) | _ \<Rightarrow> None),
       ar_permission = product_permission_as_str (ac_permission context),
       ar_action = audit_action_as_str (ac_action context),
       ar_redfish_operation = audit_redfish_operation_as_str (ac_redfish_operation context),
       ar_outcome = audit_outcome_kind_as_str (outcome_kind outcome),
       ar_progress = map_option audit_progress_as_str (outcome_progress outcome),
       ar_failure = map_option audit_failure_as_str (outcome_failure outcome),
       ar_verification = map_option audit_verification_as_str (outcome_verification outcome),
       ar_occurred_at = ae_occurred_at event\<rparr>)"

section \<open>Rehydration\<close>

text \<open>\<open>u32::try_from\<close> of a signed 64-bit value.\<close>

definition u32_try_from :: "'e \<Rightarrow> int \<Rightarrow> 'e + 32 word" where
  "u32_try_from e v = (if 0 \<le> v \<and> v < 2 ^ 32 then Inr (word_of_int v) else Inl e)"

definition map_target ::
  "('u, 'pe) url_lib \<Rightarrow> audit_row \<Rightarrow> 'pe stored_audit_event_error + 'u audit_target" where
  "map_target lib model =
     (let kind = ar_target_kind model; columns = (ar_target_endpoint_id model, ar_target_endpoint_address model) in
      if kind = ''product'' \<and> columns = (None, None) then Inr Target_Product
      else if kind = ''endpoint-address'' \<and> fst columns = None \<and> snd columns \<noteq> None
      then map_err InvalidEndpointAddress
             (rbind (endpoint_address_parse lib (the (snd columns))) (\<lambda>a. Inr (Target_EndpointAddress a)))
      else if kind = ''endpoint'' \<and> fst columns \<noteq> None \<and> snd columns = None
      then Inr (Target_Endpoint (the (fst columns)))
      else if kind \<in> {''product'', ''endpoint-address'', ''endpoint''} then Inl InvalidTargetShape
      else Inl UnknownTargetKind)"

definition map_parameters :: "audit_row \<Rightarrow> 'pe stored_audit_event_error + audit_parameter_summary" where
  "map_parameters model =
     (let kind = ar_parameter_kind model in
      if kind = ''endpoint-enrollment'' \<and> ar_credential_id model \<noteq> None
           \<and> ar_trust_mode model \<noteq> None \<and> ar_row_count model = None
      then rbind (map_err UnknownTrustMode (audit_tls_trust_from_str (the (ar_trust_mode model)))) (\<lambda>trust.
             Inr (Summary_EndpointEnrollment (the (ar_credential_id model)) trust))
      else if kind = ''endpoint-refresh'' \<and> ar_credential_id model = None
           \<and> ar_trust_mode model = None \<and> ar_row_count model = None
      then Inr Summary_EndpointRefresh
      else if kind = ''csv-endpoint-import'' \<and> ar_credential_id model = None
           \<and> ar_trust_mode model = None \<and> ar_row_count model \<noteq> None
      then rbind (u32_try_from InvalidRowCount (the (ar_row_count model))) (\<lambda>row_count.
             map_err InvalidParameterSummary (csv_endpoint_import row_count))
      else if kind \<in> {''endpoint-enrollment'', ''endpoint-refresh'', ''csv-endpoint-import''}
      then Inl InvalidParameterShape
      else Inl UnknownParameterKind)"

definition map_outcome :: "audit_row \<Rightarrow> 'pe stored_audit_event_error + audit_outcome" where
  "map_outcome model =
     rbind (map_err UnknownOutcome (audit_outcome_kind_from_str (ar_outcome model))) (\<lambda>kind.
     case (kind, ar_progress model, ar_failure model, ar_verification model) of
       (Kind_Started, None, None, None) \<Rightarrow> Inr Outcome_Started
     | (Kind_Progress, Some progress, None, None) \<Rightarrow>
         rbind (map_err UnknownProgress (audit_progress_from_str progress)) (\<lambda>p. Inr (Outcome_Progress p))
     | (Kind_Succeeded, None, None, Some verification) \<Rightarrow>
         rbind (map_err UnknownVerification (audit_verification_from_str verification)) (\<lambda>v.
         if v = Verified_Confirmed then Inr Outcome_Succeeded else Inl InvalidOutcomeShape)
     | (Kind_Failed, None, Some failure, Some verification) \<Rightarrow>
         rbind (map_err UnknownFailure (audit_failure_from_str failure)) (\<lambda>f.
         rbind (map_err UnknownFailureVerification (audit_failure_verification_from_str verification)) (\<lambda>v.
         Inr (Outcome_Failed f v)))
     | _ \<Rightarrow> Inl InvalidOutcomeShape)"

definition map_context ::
  "('u, 'pe) url_lib \<Rightarrow> audit_row \<Rightarrow> 'pe stored_audit_event_error + 'u audit_context" where
  "map_context lib model =
     rbind (map_err UnknownActor (audit_actor_from_str (ar_actor model))) (\<lambda>actor.
     rbind (map_err UnknownOrigin (deployment_posture_from_str (ar_origin model))) (\<lambda>origin.
     rbind (map_target lib model) (\<lambda>target.
     rbind (map_parameters model) (\<lambda>parameters.
     rbind (map_err UnknownPermission (product_permission_from_str (ar_permission model))) (\<lambda>permission.
     rbind (map_err UnknownAction (audit_action_from_str (ar_action model))) (\<lambda>action.
     rbind (map_err UnknownRedfishOperation
              (audit_redfish_operation_from_str (ar_redfish_operation model))) (\<lambda>redfish_operation.
     rbind (map_err InvalidContext
              (context_try_new_with_actor_principal (ar_operation_id model) actor origin target
                 parameters permission action redfish_operation (ar_actor_principal_id model))) (\<lambda>context.
     case ar_target_principal_id model of
       Some target_principal_id \<Rightarrow>
         if \<not> names_distinct_target_principal action then Inl InvalidTargetPrincipalShape
         else Inr (with_target_principal target_principal_id context)
     | None \<Rightarrow> Inr context))))))))"

definition map_stored_event ::
  "('u, 'pe) url_lib \<Rightarrow> audit_row \<Rightarrow> 'pe stored_audit_event_error + 'u audit_event" where
  "map_stored_event lib model =
     rbind (map_context lib model) (\<lambda>context.
     rbind (u32_try_from InvalidSequenceValue (ar_event_sequence model)) (\<lambda>sequence_value.
     rbind (map_err InvalidStoredSequence (sequence_try_new sequence_value)) (\<lambda>sequence.
     rbind (map_outcome model) (\<lambda>outcome.
     map_err InvalidEvent
       (event_try_from_parts (ar_id model) context sequence outcome (ar_occurred_at model))))))"

section \<open>Trails\<close>

definition validate_append ::
  "uuid \<Rightarrow> 'u audit_event option \<Rightarrow> 'u audit_event \<Rightarrow> 'pe audit_repository_error + unit" where
  "validate_append operation_id previous event =
     (case previous of
        None \<Rightarrow>
          if ae_sequence event = SEQUENCE_FIRST \<and> outcome_kind (ae_outcome event) = Kind_Started
          then Inr () else Inl (MissingStart operation_id (ae_sequence event))
      | Some prev \<Rightarrow>
          if outcome_is_terminal (ae_outcome prev) then Inl (OperationTerminal operation_id (ae_sequence prev))
          else rbind (map_err (SequenceExhausted operation_id) (sequence_next (ae_sequence prev))) (\<lambda>expected.
            if ae_sequence event \<noteq> expected
            then Inl (NonContiguous operation_id expected (ae_sequence event))
            else if ae_context event \<noteq> ae_context prev
            then Inl (ContextChanged operation_id (ae_sequence event))
            else if ae_occurred_at event < ae_occurred_at prev
            then Inl (EventPredatesPrevious operation_id (ae_sequence event))
            else Inr ()))"

fun validate_following ::
  "'u audit_event \<Rightarrow> 'u audit_event list \<Rightarrow> 'pe stored_audit_event_error + unit" where
  "validate_following prev [] = Inr ()"
| "validate_following prev (event # events) =
     (if outcome_is_terminal (ae_outcome prev) then Inl (EventAfterTerminal (ae_sequence event))
      else rbind (map_err InvalidStoredSequence (sequence_next (ae_sequence prev))) (\<lambda>expected.
        if ae_sequence event \<noteq> expected then Inl (StoredNonContiguous expected (ae_sequence event))
        else if ae_context event \<noteq> ae_context prev then Inl (StoredContextChanged (ae_sequence event))
        else if ae_occurred_at event < ae_occurred_at prev
        then Inl (StoredEventPredatesPrevious (ae_sequence event))
        else validate_following event events))"

definition validate_stored_trail :: "'u audit_event list \<Rightarrow> 'pe stored_audit_event_error + unit" where
  "validate_stored_trail events =
     (case events of
        [] \<Rightarrow> Inr ()
      | first # rest \<Rightarrow>
          if ae_sequence first \<noteq> SEQUENCE_FIRST \<or> outcome_kind (ae_outcome first) \<noteq> Kind_Started
          then Inl StoredMissingStart
          else validate_following first rest)"

section \<open>Methods\<close>

definition audit_guard :: "('u, 'pe) audit_store \<Rightarrow> audit_call \<Rightarrow> 'pe audit_repository_error + unit" where
  "audit_guard store call = ensure (\<not> as_fault store call) AuditDatabase"

definition load_trail ::
  "('u, 'pe) audit_store \<Rightarrow> uuid \<Rightarrow> 'pe audit_repository_error + 'u audit_event list" where
  "load_trail store operation_id =
     rbind (audit_guard store AuditQuery) (\<lambda>_.
     rbind (map_err (AuditCorrupt operation_id)
              (traverse (map_stored_event (as_url store))
                 (sort_key ar_event_sequence
                    (filter (\<lambda>r. ar_operation_id r = operation_id) (as_rows store))))) (\<lambda>events.
     rbind (map_err (AuditCorrupt operation_id) (validate_stored_trail events)) (\<lambda>_. Inr events)))"

definition insert_audit_row ::
  "('u, 'pe) audit_store \<Rightarrow> audit_row \<Rightarrow> 'pe audit_repository_error + audit_row list" where
  "insert_audit_row store row =
     rbind (audit_guard store AuditInsert) (\<lambda>_.
     if list_ex (\<lambda>r. ar_id r = ar_id row
          \<or> ar_operation_id r = ar_operation_id row \<and> ar_event_sequence r = ar_event_sequence row)
        (as_rows store)
     then Inl AuditDatabase
     else Inr (as_rows store @ [row]))"

definition append_audit_event ::
  "'u audit_event \<Rightarrow> ('u, 'pe) audit_store \<Rightarrow> ('pe audit_repository_error + unit) \<times> ('u, 'pe) audit_store" where
  "append_audit_event event store =
     (let operation_id = ac_operation_id (ae_context event) in
      case rbind (ensure (\<not> as_fault store AuditPermit) AuditCoordinate) (\<lambda>_.
           rbind (audit_guard store AuditBegin) (\<lambda>_. load_trail store operation_id)) of
        Inl e \<Rightarrow> (Inl e, store)
      | Inr existing \<Rightarrow>
          if existing \<noteq> [] \<and> ae_id (last existing) = ae_id event then (Inr (), store)
          else (case rbind (validate_append operation_id
                        (if existing = [] then None else Some (last existing)) event) (\<lambda>_.
                     rbind (insert_audit_row store (project_event (as_url store) event)) (\<lambda>rows.
                     rbind (audit_guard store AuditCommit) (\<lambda>_. Inr rows))) of
                  Inl e \<Rightarrow> (Inl e, store)
                | Inr rows \<Rightarrow> (Inr (), store\<lparr>as_rows := rows\<rparr>)))"

definition find_audit_operation ::
  "uuid \<Rightarrow> ('u, 'pe) audit_store \<Rightarrow> 'pe audit_repository_error + 'u audit_event list" where
  "find_audit_operation operation_id store = load_trail store operation_id"

text \<open>Descending by time, sequence and identity: the reverse of the ascending order.\<close>

definition list_recent_audit_events ::
  "nat \<Rightarrow> nat \<Rightarrow> ('u, 'pe) audit_store \<Rightarrow> 'pe audit_repository_error + 'u audit_event list" where
  "list_recent_audit_events limit offset store =
     rbind (audit_guard store AuditQuery) (\<lambda>_.
     traverse (\<lambda>model. map_err (AuditCorrupt (ar_operation_id model)) (map_stored_event (as_url store) model))
       (take limit (drop offset
          (rev (sort_key (\<lambda>r. (ar_occurred_at r, ar_event_sequence r, ar_id r)) (as_rows store))))))"

definition audit_event_exists :: "uuid \<Rightarrow> ('u, 'pe) audit_store \<Rightarrow> 'pe audit_repository_error + bool" where
  "audit_event_exists event_id store =
     rbind (audit_guard store AuditQuery) (\<lambda>_. Inr (list_ex (\<lambda>r. ar_id r = event_id) (as_rows store)))"

end
