(* ===== verification/Audit_Trail.thy ===== *)
theory Audit_Trail
  imports Audit_Repository
begin

text \<open>
  What the audit repository guarantees: an event survives its row, the log only grows, and the
  trail of every audited operation stays a valid lifecycle. The log of a store is the list of
  events its rows stand for; \<open>audit_inv\<close> is the invariant every append keeps.
\<close>

section \<open>Well-formed events\<close>

definition context_ok :: "('u, 'pe) url_lib \<Rightarrow> 'u audit_context \<Rightarrow> bool" where
  "context_ok lib ctx \<longleftrightarrow>
     (ac_actor ctx = Actor_User) = (ac_actor_principal_id ctx \<noteq> None)
   \<and> context_consistent (ac_target ctx) (ac_parameters ctx) (ac_permission ctx) (ac_action ctx)
       (ac_redfish_operation ctx)
   \<and> (case ac_target ctx of Target_EndpointAddress a \<Rightarrow> address_ok lib a | _ \<Rightarrow> True)
   \<and> ac_parameters ctx \<noteq> Summary_CsvEndpointImport 0
   \<and> (ac_target_principal_id ctx \<noteq> None \<longrightarrow> names_distinct_target_principal (ac_action ctx))"

definition event_ok :: "('u, 'pe) url_lib \<Rightarrow> 'u audit_event \<Rightarrow> bool" where
  "event_ok lib e \<longleftrightarrow>
     context_ok lib (ae_context e)
   \<and> event_try_from_parts (ae_id e) (ae_context e) (ae_sequence e) (ae_outcome e) (ae_occurred_at e) = Inr e"

section \<open>Rows and events\<close>

lemma u32_try_from_uint [simp]: "u32_try_from e (uint (w :: 32 word)) = Inr w"
  using uint_lt2p [of w] by (simp add: u32_try_from_def)

lemma map_target_project:
  assumes "url_lib_ok lib" "context_ok lib (ae_context e)"
  shows "map_target lib (project_event lib e) = Inr (ac_target (ae_context e))"
proof (cases "ac_target (ae_context e)")
  case (Target_EndpointAddress a)
  with assms(2) have "address_ok lib a" by (simp add: context_ok_def)
  with Target_EndpointAddress show ?thesis
    by (simp add: map_target_def project_event_def Let_def target_kind_def endpoint_address_roundtrip [OF assms(1)])
qed (simp_all add: map_target_def project_event_def Let_def target_kind_def)

lemma map_parameters_project:
  assumes "context_ok lib (ae_context e)"
  shows "map_parameters (project_event lib e) = Inr (ac_parameters (ae_context e))"
proof (cases "ac_parameters (ae_context e)")
  case (Summary_CsvEndpointImport n)
  with assms have "n \<noteq> 0" by (auto simp: context_ok_def)
  with Summary_CsvEndpointImport show ?thesis
    by (simp add: map_parameters_def project_event_def Let_def parameter_kind_def csv_endpoint_import_def)
qed (simp_all add: map_parameters_def project_event_def Let_def parameter_kind_def)

lemma failure_verification_code [simp]:
  "audit_failure_verification_from_str (audit_verification_as_str (failure_verification v)) = Inr v"
  by (cases v) (simp_all add: audit_failure_verification_from_str_def audit_failure_verification_codes_def)

lemma map_outcome_project: "map_outcome (project_event lib e) = Inr (ae_outcome e)"
proof -
  let ?r = "project_event lib e" and ?o = "ae_outcome e"
  have cols: "ar_outcome ?r = audit_outcome_kind_as_str (outcome_kind ?o)"
    "ar_progress ?r = map_option audit_progress_as_str (outcome_progress ?o)"
    "ar_failure ?r = map_option audit_failure_as_str (outcome_failure ?o)"
    "ar_verification ?r = map_option audit_verification_as_str (outcome_verification ?o)"
    by (simp_all add: project_event_def Let_def)
  have confirmed: "audit_verification_from_str (audit_verification_as_str Verified_Confirmed) = Inr Verified_Confirmed"
    by (rule verification_code.parse_print)
  show ?thesis
    unfolding map_outcome_def cols outcome_kind_code.parse_print
    using confirmed by (cases ?o) simp_all
qed

lemma map_context_project:
  assumes "url_lib_ok lib" "context_ok lib (ae_context e)"
  shows "map_context lib (project_event lib e) = Inr (ae_context e)"
proof -
  let ?c = "ae_context e" and ?r = "project_event lib e"
  have cols: "ar_actor ?r = audit_actor_as_str (ac_actor ?c)" "ar_origin ?r = deployment_posture_as_str (ac_origin ?c)"
    "ar_permission ?r = product_permission_as_str (ac_permission ?c)" "ar_action ?r = audit_action_as_str (ac_action ?c)"
    "ar_redfish_operation ?r = audit_redfish_operation_as_str (ac_redfish_operation ?c)"
    "ar_operation_id ?r = ac_operation_id ?c" "ar_actor_principal_id ?r = ac_actor_principal_id ?c"
    "ar_target_principal_id ?r = ac_target_principal_id ?c"
    by (simp_all add: project_event_def Let_def)
  let ?base = "?c\<lparr>ac_target_principal_id := None\<rparr>"
  have "context_try_new_with_actor_principal (ac_operation_id ?c) (ac_actor ?c) (ac_origin ?c) (ac_target ?c)
      (ac_parameters ?c) (ac_permission ?c) (ac_action ?c) (ac_redfish_operation ?c) (ac_actor_principal_id ?c)
      = Inr ?base"
    using assms(2) unfolding context_try_new_with_actor_principal_def context_ok_def by simp
  then show ?thesis
    unfolding map_context_def cols map_target_project [OF assms] map_parameters_project [OF assms(2)]
    using assms(2)
    by (cases "ac_target_principal_id ?c") (simp_all add: context_ok_def with_target_principal_def)
qed

lemma event_sequence_positive: "event_ok lib e \<Longrightarrow> ae_sequence e \<noteq> 0"
  by (auto simp: event_ok_def event_try_from_parts_def Let_def SEQUENCE_FIRST_def split: if_splits audit_outcome.splits)

lemma stored_event_roundtrip:
  assumes "url_lib_ok lib" "event_ok lib e"
  shows "map_stored_event lib (project_event lib e) = Inr e"
proof -
  have cols: "ar_event_sequence (project_event lib e) = uint (ae_sequence e)" "ar_id (project_event lib e) = ae_id e"
    "ar_occurred_at (project_event lib e) = ae_occurred_at e"
    by (simp_all add: project_event_def Let_def)
  show ?thesis
    unfolding map_stored_event_def cols
    using assms event_sequence_positive [OF assms(2)] map_context_project [OF assms(1)]
    by (simp add: map_outcome_project sequence_try_new_def event_ok_def)
qed

section \<open>Trails\<close>

text \<open>A valid lifecycle, read off the list.\<close>

definition trail_ok :: "'u audit_event list \<Rightarrow> bool" where
  "trail_ok trail \<longleftrightarrow>
     (\<forall>k < length trail. unat (ae_sequence (trail ! k)) = Suc k)
   \<and> (\<forall>k < length trail. ae_context (trail ! k) = ae_context (trail ! 0))
   \<and> (trail \<noteq> [] \<longrightarrow> ae_outcome (trail ! 0) = Outcome_Started)
   \<and> sorted (map ae_occurred_at trail)
   \<and> (\<forall>k. Suc k < length trail \<longrightarrow> \<not> outcome_is_terminal (ae_outcome (trail ! k)))"

lemma sequence_next_Inr: "sequence_next q = Inr r \<longleftrightarrow> r = q + 1 \<and> q \<noteq> - 1"
  by (auto simp: sequence_next_def)

lemma unat_next: "(q :: 32 word) \<noteq> - 1 \<Longrightarrow> unat (q + 1) = Suc (unat q)"
  by (metis Suc_eq_plus1 add.commute add_diff_cancel_right' diff_0 unatSuc)

lemma validate_following_snoc:
  "validate_following prev (es @ [e]) = (Inr () :: 'pe stored_audit_event_error + unit) \<longleftrightarrow>
     validate_following prev es = (Inr () :: 'pe stored_audit_event_error + unit)
   \<and> \<not> outcome_is_terminal (ae_outcome (last (prev # es)))
   \<and> sequence_next (ae_sequence (last (prev # es))) = Inr (ae_sequence e)
   \<and> ae_context e = ae_context (last (prev # es))
   \<and> ae_occurred_at (last (prev # es)) \<le> ae_occurred_at e"
proof (induction es arbitrary: prev)
  case Nil
  show ?case by (auto simp: sequence_next_Inr result_simps not_less split: if_splits)
next
  case (Cons x es)
  show ?case
    by (auto simp: sequence_next_Inr result_simps not_less Cons.IH split: if_splits)
qed

lemma trail_ok_snoc:
  assumes "trail_ok es" "es \<noteq> []"
    and "\<not> outcome_is_terminal (ae_outcome (last es))" "sequence_next (ae_sequence (last es)) = Inr (ae_sequence e)"
    and "ae_context e = ae_context (last es)" "ae_occurred_at (last es) \<le> ae_occurred_at e"
  shows "trail_ok (es @ [e])"
proof -
  have l: "last es = es ! (length es - 1)" using assms(2) by (rule last_conv_nth)
  have n: "length es - 1 < length es" using assms(2) by (cases es) auto
  have "unat (ae_sequence e) = Suc (unat (ae_sequence (last es)))"
    using assms(4) unat_next by (auto simp: sequence_next_Inr)
  then have "unat (ae_sequence e) = Suc (length es)"
    using assms(1) n by (simp add: trail_ok_def l)
  moreover have "ae_context e = ae_context (es ! 0)"
    using assms(1,5) n by (simp add: trail_ok_def l)
  moreover have "\<forall>t \<in> set (map ae_occurred_at es). t \<le> ae_occurred_at e"
  proof
    fix t assume "t \<in> set (map ae_occurred_at es)"
    then obtain k where k: "k < length es" "t = map ae_occurred_at es ! k" by (auto simp: in_set_conv_nth)
    have "map ae_occurred_at es ! k \<le> map ae_occurred_at es ! (length es - 1)"
      using assms(1) k(1) by (intro sorted_nth_mono) (auto simp: trail_ok_def)
    with k n l assms(6) show "t \<le> ae_occurred_at e" by simp
  qed
  moreover have "\<not> outcome_is_terminal (ae_outcome ((es @ [e]) ! k))" if "Suc k < length (es @ [e])" for k
  proof (cases "Suc k < length es")
    case True
    with assms(1) show ?thesis by (simp add: trail_ok_def nth_append)
  next
    case False
    with that have "k = length es - 1" by simp
    with n l assms(3) show ?thesis by (simp add: nth_append)
  qed
  ultimately have new: "unat (ae_sequence e) = Suc (length es)" "ae_context e = ae_context (es ! 0)"
    "\<forall>t \<in> set (map ae_occurred_at es). t \<le> ae_occurred_at e"
    "\<And>k. Suc k < length (es @ [e]) \<Longrightarrow> \<not> outcome_is_terminal (ae_outcome ((es @ [e]) ! k))" by blast+
  have first: "(es @ [e]) ! 0 = es ! 0" using assms(2) by (simp add: nth_append)
  have old: "(es @ [e]) ! k = es ! k" if "k < length es" for k using that by (simp add: nth_append)
  show ?thesis
    unfolding trail_ok_def first
  proof (intro conjI allI impI)
    fix k assume k: "k < length (es @ [e])"
    then have cases: "k < length es \<or> k = length es" by fastforce
    then show "unat (ae_sequence ((es @ [e]) ! k)) = Suc k"
      using assms(1) new(1) by (auto simp: old trail_ok_def)
    from cases show "ae_context ((es @ [e]) ! k) = ae_context (es ! 0)"
      using assms(1) new(2) by (auto simp: old trail_ok_def)
  qed (use assms(1,2) new(3,4) in \<open>auto simp: trail_ok_def sorted_append\<close>)
qed

lemma trail_ok_nth:
  assumes "trail_ok es" "k < length es"
  shows "unat (ae_sequence (es ! k)) = Suc k" "ae_context (es ! k) = ae_context (es ! 0)"
    "ae_outcome (es ! 0) = Outcome_Started" "Suc k < length es \<Longrightarrow> \<not> outcome_is_terminal (ae_outcome (es ! k))"
proof -
  have "es \<noteq> []" using assms(2) by auto
  then show "unat (ae_sequence (es ! k)) = Suc k" "ae_context (es ! k) = ae_context (es ! 0)"
    "ae_outcome (es ! 0) = Outcome_Started" "Suc k < length es \<Longrightarrow> \<not> outcome_is_terminal (ae_outcome (es ! k))"
    using assms unfolding trail_ok_def by blast+
qed

lemma trail_ok_butlast:
  assumes "trail_ok (es @ [e])"
  shows "trail_ok es"
proof -
  have old: "es ! k = (es @ [e]) ! k" if "k < length es" for k using that by (simp add: nth_append)
  show ?thesis
    unfolding trail_ok_def
  proof (intro conjI allI impI)
    fix k assume k: "k < length es"
    then have k': "k < length (es @ [e])" by simp
    show "unat (ae_sequence (es ! k)) = Suc k" unfolding old [OF k] by (rule trail_ok_nth(1) [OF assms k'])
    have z: "0 < length es" using k by linarith
    show "ae_context (es ! k) = ae_context (es ! 0)"
      unfolding old [OF k] old [OF z] by (rule trail_ok_nth(2) [OF assms k'])
  next
    assume "es \<noteq> []"
    then have z: "0 < length es" by simp
    show "ae_outcome (es ! 0) = Outcome_Started"
      unfolding old [OF z] by (rule trail_ok_nth(3) [OF assms, of 0]) simp
  next
    show "sorted (map ae_occurred_at es)" using assms by (simp add: trail_ok_def sorted_append)
  next
    fix k assume "Suc k < length es"
    then have k: "k < length es" "k < length (es @ [e])" "Suc k < length (es @ [e])" by simp_all
    show "\<not> outcome_is_terminal (ae_outcome (es ! k))"
      unfolding old [OF k(1)] by (rule trail_ok_nth(4) [OF assms k(2,3)])
  qed
qed

lemma trail_ok_last_step:
  assumes "trail_ok (es @ [e])" "es \<noteq> []"
  shows "\<not> outcome_is_terminal (ae_outcome (last es))"
    and "sequence_next (ae_sequence (last es)) = Inr (ae_sequence e)"
    and "ae_context e = ae_context (last es)" "ae_occurred_at (last es) \<le> ae_occurred_at e"
proof -
  let ?n = "length es - 1"
  have n: "?n < length es" "Suc ?n = length es" using assms(2) by (cases es; simp)+
  have l: "last es = (es @ [e]) ! ?n" using assms(2) n by (simp add: last_conv_nth nth_append)
  have e: "e = (es @ [e]) ! length es" by simp
  show "\<not> outcome_is_terminal (ae_outcome (last es))" unfolding l
    by (rule trail_ok_nth(4) [OF assms(1)]) (use n in simp_all)
  have seq: "unat (ae_sequence (last es)) = length es" "unat (ae_sequence e) = Suc (length es)"
    using trail_ok_nth(1) [OF assms(1), of ?n] trail_ok_nth(1) [OF assms(1), of "length es"] n l by simp_all
  have "ae_sequence (last es) \<noteq> - 1"
  proof
    assume "ae_sequence (last es) = - 1"
    then have "length es = 2 ^ 32 - 1" using seq(1) by (simp add: unsigned_minus_1_eq_mask mask_eq_exp_minus_1)
    then have "unat (ae_sequence e) = 2 ^ 32" using seq(2) by simp
    with unsigned_less [of "ae_sequence e", where 'a = nat] show False by simp
  qed
  moreover from this have "ae_sequence e = ae_sequence (last es) + 1"
    using unat_next [of "ae_sequence (last es)"] seq by (simp add: word_unat_eq_iff)
  ultimately show "sequence_next (ae_sequence (last es)) = Inr (ae_sequence e)" by (simp add: sequence_next_Inr)
  note ctx = trail_ok_nth(2) [OF assms(1)]
  show "ae_context e = ae_context (last es)"
    using ctx [of "length es"] ctx [of ?n] n unfolding l by simp
  have "sorted (map ae_occurred_at es @ [ae_occurred_at e])" using assms(1) by (simp add: trail_ok_def)
  then show "ae_occurred_at (last es) \<le> ae_occurred_at e" using assms(2) by (simp add: sorted_append)
qed

lemma trail_ok_validates:
  "trail_ok es \<Longrightarrow> validate_stored_trail es = (Inr () :: 'pe stored_audit_event_error + unit)"
proof (induction es rule: rev_induct)
  case Nil
  then show ?case by (simp add: validate_stored_trail_def)
next
  case (snoc e es)
  show ?case
  proof (cases es)
    case Nil
    with snoc.prems have "unat (ae_sequence e) = 1" "ae_outcome e = Outcome_Started"
      by (auto simp: trail_ok_def)
    then show ?thesis
      by (simp add: Nil validate_stored_trail_def SEQUENCE_FIRST_def word_unat_eq_iff)
  next
    case (Cons f rest)
    have ok: "validate_stored_trail es = (Inr () :: 'pe stored_audit_event_error + unit)" by (rule snoc.IH [OF trail_ok_butlast [OF snoc.prems]])
    have ne: "es \<noteq> []" by (simp add: Cons)
    note step = trail_ok_last_step [OF snoc.prems ne]
    from ok step show ?thesis
      unfolding Cons by (simp add: validate_stored_trail_def validate_following_snoc split: if_splits)
  qed
qed

section \<open>The log of a store\<close>

definition trail_of :: "'u audit_event list \<Rightarrow> uuid \<Rightarrow> 'u audit_event list" where
  "trail_of events i = filter (\<lambda>e. ac_operation_id (ae_context e) = i) events"

definition audit_log :: "('u, 'pe) audit_store \<Rightarrow> 'u audit_event list" where
  "audit_log store = map (\<lambda>r. projr (map_stored_event (as_url store) r)) (as_rows store)"

definition audit_inv :: "('u, 'pe) audit_store \<Rightarrow> bool" where
  "audit_inv store \<longleftrightarrow>
     url_lib_ok (as_url store)
   \<and> as_rows store = map (project_event (as_url store)) (audit_log store)
   \<and> (\<forall>e \<in> set (audit_log store). event_ok (as_url store) e)
   \<and> (\<forall>i. trail_ok (trail_of (audit_log store) i))"

lemma project_event_cols [simp]:
  "ar_operation_id (project_event lib e) = ac_operation_id (ae_context e)"
  "ar_event_sequence (project_event lib e) = uint (ae_sequence e)"
  "ar_id (project_event lib e) = ae_id e"
  by (simp_all add: project_event_def Let_def)

lemma trail_sequences_sorted:
  assumes "trail_ok es"
  shows "sorted (map (\<lambda>e. uint (ae_sequence e)) es)"
proof (rule sorted_iff_nth_mono_less [THEN iffD2], intro allI impI)
  fix i j assume ij: "i < j" "j < length (map (\<lambda>e. uint (ae_sequence e)) es)"
  then have "unat (ae_sequence (es ! i)) \<le> unat (ae_sequence (es ! j))"
    using trail_ok_nth(1) [OF assms, of i] trail_ok_nth(1) [OF assms, of j] by simp
  then show "map (\<lambda>e. uint (ae_sequence e)) es ! i \<le> map (\<lambda>e. uint (ae_sequence e)) es ! j"
    using ij by (simp add: word_le_nat_alt [symmetric] word_le_def)
qed

lemma load_trail_inv:
  assumes "audit_inv s" "\<not> as_fault s AuditQuery"
  shows "load_trail s i = Inr (trail_of (audit_log s) i)"
proof -
  let ?lib = "as_url s" and ?t = "trail_of (audit_log s) i"
  have rows: "filter (\<lambda>r. ar_operation_id r = i) (as_rows s) = map (project_event ?lib) ?t"
    using assms(1) by (auto simp: audit_inv_def trail_of_def filter_map comp_def)
  have ok: "trail_ok ?t" using assms(1) by (simp add: audit_inv_def)
  have sorted: "sort_key ar_event_sequence (map (project_event ?lib) ?t) = map (project_event ?lib) ?t"
    using trail_sequences_sorted [OF ok] by (intro sort_key_id_if_sorted) (simp add: comp_def)
  have "traverse (map_stored_event ?lib) (map (project_event ?lib) es) = Inr es"
    if "\<forall>e \<in> set es. event_ok ?lib e" for es
    using that assms(1) by (induction es) (auto simp: stored_event_roundtrip audit_inv_def)
  moreover have "\<forall>e \<in> set ?t. event_ok ?lib e" using assms(1) by (auto simp: audit_inv_def trail_of_def)
  ultimately show ?thesis
    using assms(2) by (simp add: load_trail_def audit_guard_def rows sorted trail_ok_validates [OF ok])
qed

lemma append_audit_event_error: "append_audit_event e s = (Inl x, s') \<Longrightarrow> s' = s"
  by (auto simp: append_audit_event_def Let_def split: sum.splits if_splits)

lemma validate_append_first:
  assumes "event_ok lib e" "validate_append i None e = (Inr () :: 'pe audit_repository_error + unit)"
  shows "trail_ok [e]"
proof -
  have "ae_sequence e = 1" "outcome_kind (ae_outcome e) = Kind_Started"
    using assms(2) by (auto simp: validate_append_def SEQUENCE_FIRST_def split: if_splits)
  then show ?thesis by (cases "ae_outcome e") (simp_all add: trail_ok_def)
qed

lemma validate_append_Some:
  "validate_append i (Some p) e = Inr () \<longleftrightarrow>
     \<not> outcome_is_terminal (ae_outcome p) \<and> sequence_next (ae_sequence p) = Inr (ae_sequence e)
   \<and> ae_context e = ae_context p \<and> ae_occurred_at p \<le> ae_occurred_at e"
  by (auto simp: validate_append_def result_simps sequence_next_Inr not_less split: if_splits)

lemma append_audit_event_cases:
  fixes s :: "('u, 'pe) audit_store"
  assumes "audit_inv s" "append_audit_event e s = (Inr u, s')"
  obtains (redelivered) "s' = s" "trail_of (audit_log s) (ac_operation_id (ae_context e)) \<noteq> []"
      "ae_id (last (trail_of (audit_log s) (ac_operation_id (ae_context e)))) = ae_id e"
    | (appended) "s' = s\<lparr>as_rows := as_rows s @ [project_event (as_url s) e]\<rparr>"
      "validate_append (ac_operation_id (ae_context e))
         (let t = trail_of (audit_log s) (ac_operation_id (ae_context e)) in if t = [] then None else Some (last t)) e
       = (Inr () :: 'pe audit_repository_error + unit)"
      "ae_id e \<notin> ae_id ` set (audit_log s)"
proof -
  let ?i = "ac_operation_id (ae_context e)"
  let ?t = "trail_of (audit_log s) ?i"
  have faults: "\<not> as_fault s AuditQuery"
    using assms(2) by (auto simp: append_audit_event_def Let_def load_trail_def audit_guard_def result_simps
        split: sum.splits if_splits)
  note load = load_trail_inv [OF assms(1) faults, of ?i]
  have ids: "ar_id ` set (as_rows s) = ae_id ` set (audit_log s)"
  proof -
    have "as_rows s = map (project_event (as_url s)) (audit_log s)" using assms(1) by (simp add: audit_inv_def)
    then have "set (as_rows s) = project_event (as_url s) ` set (audit_log s)" by (metis set_map)
    then show ?thesis by (simp add: image_image)
  qed
  show ?thesis
  proof (cases "?t \<noteq> [] \<and> ae_id (last ?t) = ae_id e")
    case True
    with assms(2) load have "s' = s"
      by (auto simp: append_audit_event_def Let_def result_simps split: sum.splits)
    with True show ?thesis by (intro redelivered) simp_all
  next
    case False
    with assms(2) load
    have v: "validate_append ?i (if ?t = [] then None else Some (last ?t)) e = (Inr () :: 'pe audit_repository_error + unit)"
      and s': "s' = s\<lparr>as_rows := as_rows s @ [project_event (as_url s) e]\<rparr>"
      and fresh: "\<not> list_ex (\<lambda>r. ar_id r = ae_id e) (as_rows s)"
      by (auto simp: append_audit_event_def Let_def result_simps insert_audit_row_def list_ex_iff split: sum.splits if_splits)
    from fresh ids have "ae_id e \<notin> ae_id ` set (audit_log s)" by (force simp: list_ex_iff)
    with v s' show ?thesis by (intro appended) (simp_all add: Let_def)
  qed
qed

lemma append_audit_event_ok:
  assumes "audit_inv s" "event_ok (as_url s) e" "append_audit_event e s = (Inr u, s')"
  shows "audit_inv s' \<and> as_url s' = as_url s
    \<and> (audit_log s' = audit_log s @ [e] \<or> s' = s \<and> ae_id e \<in> ae_id ` set (audit_log s))"
  using assms(1,3)
proof (cases rule: append_audit_event_cases)
  case redelivered
  have "last (trail_of (audit_log s) (ac_operation_id (ae_context e))) \<in> set (audit_log s)"
    using last_in_set [OF redelivered(2)] by (simp add: trail_of_def)
  with redelivered assms(1) show ?thesis by (metis imageI)
next
  case appended
  let ?i = "ac_operation_id (ae_context e)"
  let ?t = "trail_of (audit_log s) ?i"
  have lib: "url_lib_ok (as_url s)" using assms(1) by (simp add: audit_inv_def)
  have log: "audit_log s' = audit_log s @ [e]"
    using appended(1) stored_event_roundtrip [OF lib assms(2)] by (simp add: audit_log_def)
  have "trail_ok (?t @ [e])"
  proof (cases "?t = []")
    case True
    with appended(2) validate_append_first [OF assms(2), of ?i] show ?thesis by simp
  next
    case False
    have "trail_ok ?t" using assms(1) by (simp add: audit_inv_def)
    from trail_ok_snoc [OF this False] appended(2) False show ?thesis by (simp add: validate_append_Some)
  qed
  then have "trail_ok (trail_of (audit_log s') j)" for j
    using assms(1) by (cases "j = ?i") (simp_all add: log trail_of_def audit_inv_def)
  with assms(1,2) log appended(1) show ?thesis by (auto simp: audit_inv_def)
qed

section \<open>Histories of appends\<close>

text \<open>A sequence of append attempts, each meeting its own failures of the store.\<close>

fun append_all ::
  "('u audit_event \<times> (audit_call \<Rightarrow> bool)) list \<Rightarrow> ('u, 'pe) audit_store \<Rightarrow> ('u, 'pe) audit_store" where
  "append_all [] s = s"
| "append_all ((e, faults) # rest) s = append_all rest (snd (append_audit_event e (s\<lparr>as_fault := faults\<rparr>)))"

lemma audit_log_fault [simp]: "audit_log (s\<lparr>as_fault := f\<rparr>) = audit_log s"
  by (simp add: audit_log_def)

lemma audit_inv_fault [simp]: "audit_inv (s\<lparr>as_fault := f\<rparr>) = audit_inv s"
  by (simp add: audit_inv_def)

lemma append_step_ok:
  assumes "audit_inv s" "event_ok (as_url s) e"
  shows "audit_inv (snd (append_audit_event e s)) \<and> as_url (snd (append_audit_event e s)) = as_url s
    \<and> prefix (audit_log s) (audit_log (snd (append_audit_event e s)))"
proof -
  obtain r s' where a: "append_audit_event e s = (r, s')" by fastforce
  show ?thesis
  proof (cases r)
    case (Inl x)
    with a append_audit_event_error assms show ?thesis by auto
  next
    case (Inr u)
    with a append_audit_event_ok [OF assms, of u s'] show ?thesis by auto
  qed
qed

lemma append_all_ok:
  "audit_inv s \<Longrightarrow> \<forall>(e, f) \<in> set attempts. event_ok (as_url s) e \<Longrightarrow>
     audit_inv (append_all attempts s) \<and> as_url (append_all attempts s) = as_url s
   \<and> prefix (audit_log s) (audit_log (append_all attempts s))"
proof (induction attempts s rule: append_all.induct)
  case (1 s)
  then show ?case by simp
next
  case (2 e faults rest s)
  let ?s = "s\<lparr>as_fault := faults\<rparr>"
  have step: "audit_inv (snd (append_audit_event e ?s))" "as_url (snd (append_audit_event e ?s)) = as_url s"
    "prefix (audit_log s) (audit_log (snd (append_audit_event e ?s)))"
    using append_step_ok [of ?s e] 2(2,3) by auto
  with 2(1) 2(3) show ?case by (auto intro: prefix_order.trans)
qed

section \<open>Properties\<close>

text \<open>
  C25: An audit event survives its row: whatever target, parameters, principals and outcome an
  accepted event has, the row it is stored as reads back as exactly that event.
\<close>

theorem audit_event_survives_its_row:
  assumes "url_lib_ok lib" and "event_ok lib e"
  shows "map_stored_event lib (project_event lib e) = Inr e"
  using assms by (rule stored_event_roundtrip)

text \<open>A URL library for the witnesses: a URL is its text, always an absolute HTTPS one.\<close>

definition demo_url :: "(ustring, unit) url_lib" where
  "demo_url = \<lparr>url_parse = Inr, url_scheme = (\<lambda>_. ascii ''https''), url_host_str = Some,
     url_username = (\<lambda>_. []), url_password = (\<lambda>_. None), url_query = (\<lambda>_. None),
     url_fragment = (\<lambda>_. None), url_to_string = (\<lambda>u. u)\<rparr>"

definition demo_context :: "uuid \<Rightarrow> ustring audit_context" where
  "demo_context i = \<lparr>ac_operation_id = i, ac_actor = Actor_System, ac_origin = Posture_Site,
     ac_target = Target_EndpointAddress (ascii ''https://bmc''),
     ac_parameters = Summary_EndpointEnrollment 3 Trust_PinnedCertificate,
     ac_permission = Perm_ManageEndpoints, ac_action = Action_EnrollEndpoint,
     ac_redfish_operation = Rf_ProbeCoreCapabilities, ac_actor_principal_id = None,
     ac_target_principal_id = None\<rparr>"

lemma demo_url_ok: "url_lib_ok demo_url"
  by (simp add: url_lib_ok_def demo_url_def)

lemma demo_started_ok: "event_ok demo_url (event_started i (demo_context j) t)"
  by (simp add: event_ok_def context_ok_def demo_context_def demo_url_def address_ok_def
      context_consistent_def event_started_def event_new_def event_try_from_parts_def)

theorem audit_event_survives_its_row_witness:
  "map_stored_event demo_url (project_event demo_url (event_started 1 (demo_context 2) 5))
     = Inr (event_started 1 (demo_context 2) 5)"
  by (rule audit_event_survives_its_row [OF demo_url_ok demo_started_ok])

text \<open>
  C26: Whatever appends are attempted, in whatever order and with whatever failures of the store,
  the log only ever grows, and the trail of every operation is a valid lifecycle: it begins with
  the start fact, its sequence numbers are 1, 2, 3 and so on, its context never changes, time
  never runs backwards, and nothing follows a terminal fact. The lifecycle is also what the
  per-operation query returns.
\<close>

theorem audit_trails_stay_valid:
  assumes "audit_inv s" and "\<forall>(e, faults) \<in> set attempts. event_ok (as_url s) e"
    and "s' = append_all attempts s"
  shows "prefix (audit_log s) (audit_log s') \<and> trail_ok (trail_of (audit_log s') i)
    \<and> (\<not> as_fault s' AuditQuery \<longrightarrow> find_audit_operation i s' = Inr (trail_of (audit_log s') i))"
proof -
  have ok: "audit_inv s'" "prefix (audit_log s) (audit_log s')"
    unfolding assms(3) using append_all_ok [OF assms(1,2)] by simp_all
  with load_trail_inv [OF ok(1), of i] show ?thesis by (simp add: audit_inv_def find_audit_operation_def)
qed

definition demo_audit :: "(ustring, unit) audit_store" where
  "demo_audit = \<lparr>as_rows = [], as_url = demo_url, as_fault = (\<lambda>_. False)\<rparr>"

lemma demo_audit_inv: "audit_inv demo_audit"
  by (simp add: audit_inv_def demo_audit_def demo_url_ok audit_log_def trail_of_def trail_ok_def)

theorem audit_trails_stay_valid_witness:
  "trail_ok (trail_of (audit_log (append_all [(event_started 1 (demo_context 2) 5, \<lambda>_. False)] demo_audit)) 2)"
proof -
  have "\<forall>(e, faults) \<in> set [(event_started 1 (demo_context 2) 5, \<lambda>_ :: audit_call. False)].
      event_ok (as_url demo_audit) e"
    using demo_started_ok by (simp add: demo_audit_def)
  from audit_trails_stay_valid [OF demo_audit_inv this refl] show ?thesis by blast
qed

text \<open>
  C27: Delivering an audit fact at least once records it once: after a successful append, a
  second append of the same event on a working store succeeds and leaves the store as it is.
\<close>

theorem audit_append_is_idempotent:
  assumes "audit_inv s" and "event_ok (as_url s) e" and "append_audit_event e s = (Inr u, s1)"
    and "\<forall>c. \<not> as_fault s c"
  shows "append_audit_event e s1 = (Inr (), s1)"
proof -
  let ?i = "ac_operation_id (ae_context e)"
  have inv1: "audit_inv s1" using append_audit_event_ok [OF assms(1-3)] by simp
  have last: "trail_of (audit_log s1) ?i \<noteq> [] \<and> ae_id (last (trail_of (audit_log s1) ?i)) = ae_id e
      \<and> as_fault s1 = as_fault s"
    using assms(1,3)
  proof (cases rule: append_audit_event_cases)
    case redelivered
    then show ?thesis by simp
  next
    case appended
    have "url_lib_ok (as_url s)" using assms(1) by (simp add: audit_inv_def)
    from stored_event_roundtrip [OF this assms(2)] show ?thesis
      using appended(1) by (simp add: audit_log_def trail_of_def)
  qed
  with load_trail_inv [OF inv1, of ?i] assms(4) show ?thesis
    by (simp add: append_audit_event_def Let_def audit_guard_def)
qed

theorem audit_append_is_idempotent_witness:
  "\<exists>s1. append_audit_event (event_started 1 (demo_context 2) 5) demo_audit = (Inr (), s1)
      \<and> append_audit_event (event_started 1 (demo_context 2) 5) s1 = (Inr (), s1)"
proof -
  have f: "\<forall>c. \<not> as_fault demo_audit c" by (simp add: demo_audit_def)
  have ok: "event_ok (as_url demo_audit) (event_started 1 (demo_context 2) 5)"
    using demo_started_ok by (simp add: demo_audit_def)
  have l: "load_trail demo_audit 2 = Inr (trail_of (audit_log demo_audit) 2)"
    using load_trail_inv [OF demo_audit_inv] f by blast
  have e: "audit_log demo_audit = []" by (simp add: audit_log_def demo_audit_def)
  obtain s1 where s1: "append_audit_event (event_started 1 (demo_context 2) 5) demo_audit = (Inr (), s1)"
    using l f by (simp add: append_audit_event_def e trail_of_def audit_guard_def insert_audit_row_def
        event_started_def event_new_def demo_context_def validate_append_def) (simp add: demo_audit_def)
  from audit_append_is_idempotent [OF demo_audit_inv ok s1 f] s1 show ?thesis by blast
qed

end
