(* ===== verification/Task_Monitor.thy ===== *)
theory Task_Monitor
  imports Remote_Task_Repository Audit_Trail
begin

text \<open>
  The asynchronous task monitor, \<open>application/src/task_monitor.rs\<close>. A poll threads the store and
  the audit log; the boundaries it is generic in are the two store traits, the record \<open>monitor\<close>
  of the Redfish reader and verifier (what the BMC answers during this poll), the audit writer
  and the injected actor and origin. A poll writes at most one audit fact, so one fresh audit
  operation id and one fresh event id suffice.
\<close>

section \<open>Types\<close>

datatype verification_verdict = Confirmed | Mismatched

record task_observation =
  to_state :: "remote_task_state option"
  to_message :: "ustring option"
  to_percent_complete :: "64 word option"
  to_task_monitor_uri :: "task_uri option"

datatype 'c task_poll = StillRunning "'c operation" | Deferred "'c operation" | PollTerminal "'c operation"

datatype 'x audit_record_error =
    RecordParameters audit_parameter_summary_error
  | RecordContext audit_operation_context_error
  | RecordSequence audit_sequence_error
  | RecordEvent audit_event_error
  | RecordWrite 'x

datatype monitor_audit_stage = Stage_Terminal

datatype ('e, 'r, 'v, 'x) task_monitor_error =
    OperationNotFound operation_id
  | NotWaitingRemote operation_id operation_state
  | MonitorEmptyTargets operation_id
  | MonitorStore 'e
  | MonitorTaskStore 'r
  | RemoteTaskObservation operation_id remote_task_error
  | MonitorVerifier 'v
  | MonitorAudit monitor_audit_stage "'x audit_record_error"

record ('c, 'rd, 'v, 'addr, 'x, 'l) monitor =
  tm_read_task :: "endpoint_id \<Rightarrow> task_uri \<Rightarrow> 'rd + task_observation option"
  tm_verify :: "endpoint_id \<Rightarrow> 'c \<Rightarrow> 'v + verification_verdict"
  tm_append :: "'addr audit_event \<Rightarrow> 'l \<Rightarrow> ('x + unit) \<times> 'l"
  tm_actor :: audit_actor
  tm_origin :: deployment_posture
  tm_fresh_operation_id :: uuid
  tm_fresh_event_id :: uuid

record ('s, 'l) monitor_world =
  mw_store :: 's
  mw_audit :: 'l

section \<open>Audit facts\<close>

definition operation_audit_context ::
  "uuid \<Rightarrow> endpoint_id \<Rightarrow> audit_redfish_operation \<Rightarrow> audit_actor \<Rightarrow> deployment_posture
     \<Rightarrow> audit_operation_context_error + 'addr audit_context" where
  "operation_audit_context fresh endpoint_id redfish_operation actor origin =
     context_try_new fresh actor origin (Target_Endpoint endpoint_id) Summary_EndpointRefresh
       Perm_ExecuteOperations Action_ExecuteOperation redfish_operation"

definition monitor_audit_context ::
  "('c, 'rd, 'v, 'addr, 'x, 'l) monitor \<Rightarrow> endpoint_id \<Rightarrow> operation_source
     \<Rightarrow> ('e, 'r, 'v, 'x) task_monitor_error + 'addr audit_context" where
  "monitor_audit_context m endpoint_id source =
     (case execution_attribution (tm_actor m) (tm_origin m) source of
        (actor, origin) \<Rightarrow>
          map_err (\<lambda>e. MonitorAudit Stage_Terminal (RecordContext e))
            (operation_audit_context (tm_fresh_operation_id m) endpoint_id Rf_PollRemoteTask actor origin))"

definition terminal_sequence :: "('e, 'r, 'v, 'x) task_monitor_error + audit_sequence" where
  "terminal_sequence =
     map_err (\<lambda>e. MonitorAudit Stage_Terminal (RecordSequence e)) (sequence_next SEQUENCE_FIRST)"

definition append_fact ::
  "('c, 'rd, 'v, 'addr, 'x, 'l) monitor \<Rightarrow> ('e, 'r, 'v, 'x) task_monitor_error + 'addr audit_event
     \<Rightarrow> ('s, 'l) monitor_world \<Rightarrow> (('e, 'r, 'v, 'x) task_monitor_error + unit) \<times> ('s, 'l) monitor_world" where
  "append_fact m entry w =
     (case entry of
        Inl e \<Rightarrow> (Inl e, w)
      | Inr event \<Rightarrow>
          (case tm_append m event (mw_audit w) of
             (r, l') \<Rightarrow> (map_err (\<lambda>e. MonitorAudit Stage_Terminal (RecordWrite e)) r, w\<lparr>mw_audit := l'\<rparr>)))"

definition record_failure ::
  "('c, 'rd, 'v, 'addr, 'x, 'l) monitor \<Rightarrow> endpoint_id \<Rightarrow> operation_source \<Rightarrow> audit_failure
     \<Rightarrow> audit_failure_verification \<Rightarrow> instant \<Rightarrow> ('s, 'l) monitor_world
     \<Rightarrow> (('e, 'r, 'v, 'x) task_monitor_error + unit) \<times> ('s, 'l) monitor_world" where
  "record_failure m endpoint_id source failure verification occurred_at =
     append_fact m
       (rbind (monitor_audit_context m endpoint_id source) (\<lambda>context.
        rbind terminal_sequence (\<lambda>sequence.
        map_err (\<lambda>e. MonitorAudit Stage_Terminal (RecordEvent e))
          (event_failed (tm_fresh_event_id m) context sequence failure verification occurred_at))))"

definition record_success ::
  "('c, 'rd, 'v, 'addr, 'x, 'l) monitor \<Rightarrow> endpoint_id \<Rightarrow> operation_source \<Rightarrow> instant
     \<Rightarrow> ('s, 'l) monitor_world \<Rightarrow> (('e, 'r, 'v, 'x) task_monitor_error + unit) \<times> ('s, 'l) monitor_world" where
  "record_success m endpoint_id source occurred_at =
     append_fact m
       (rbind (monitor_audit_context m endpoint_id source) (\<lambda>context.
        rbind terminal_sequence (\<lambda>sequence.
        map_err (\<lambda>e. MonitorAudit Stage_Terminal (RecordEvent e))
          (event_succeeded (tm_fresh_event_id m) context sequence occurred_at))))"

section \<open>Steps\<close>

fun map_engine_error :: "operation_id \<Rightarrow> 'e engine_error \<Rightarrow> ('e, 'r, 'v, 'x) task_monitor_error" where
  "map_engine_error i (EngineNotFound _) = OperationNotFound i"
| "map_engine_error i (EngineInvalidTransition j source) = NotWaitingRemote j (it_from source)"
| "map_engine_error i (StateChanged j expected observed) = NotWaitingRemote j observed"
| "map_engine_error i (StoreError e) = MonitorStore e"
| "map_engine_error i EmptyTargets = MonitorEmptyTargets i"
| "map_engine_error i (TooManyTargets _) = MonitorEmptyTargets i"

definition apply_step ::
  "('s, 'c, 'e) operation_store \<Rightarrow> operation_id \<Rightarrow> operation_event \<Rightarrow> instant \<Rightarrow> ('s, 'l) monitor_world
     \<Rightarrow> (('e, 'r, 'v, 'x) task_monitor_error + 'c operation) \<times> ('s, 'l) monitor_world" where
  "apply_step ops i event now w =
     (case engine_apply ops i event now (mw_store w) of
        (r, s') \<Rightarrow> (map_err (map_engine_error i) r, w\<lparr>mw_store := s'\<rparr>))"

definition resolve_unknown ::
  "('s, 'c, 'e) operation_store \<Rightarrow> ('c, 'rd, 'v, 'addr, 'x, 'l) monitor \<Rightarrow> operation_id \<Rightarrow> endpoint_id
     \<Rightarrow> operation_source \<Rightarrow> instant \<Rightarrow> ('s, 'l) monitor_world
     \<Rightarrow> (('e, 'r, 'v, 'x) task_monitor_error + 'c task_poll) \<times> ('s, 'l) monitor_world" where
  "resolve_unknown ops m i endpoint_id source now w =
     then_do (apply_step ops i OutcomeUnknown now w) (\<lambda>final_operation w.
     then_do (record_failure m endpoint_id source Fail_RedfishDiscoveryFailed
                FailureVerified_Inconclusive now w) (\<lambda>_ w.
     (Inr (PollTerminal final_operation), w)))"

definition verify_target ::
  "('s, 'c, 'e) operation_store \<Rightarrow> ('c, 'rd, 'v, 'addr, 'x, 'l) monitor \<Rightarrow> operation_id \<Rightarrow> endpoint_id
     \<Rightarrow> 'c \<Rightarrow> operation_source \<Rightarrow> instant \<Rightarrow> ('s, 'l) monitor_world
     \<Rightarrow> (('e, 'r, 'v, 'x) task_monitor_error + 'c task_poll) \<times> ('s, 'l) monitor_world" where
  "verify_target ops m i endpoint_id command source now w =
     (case tm_verify m endpoint_id command of
        Inr Confirmed \<Rightarrow>
          then_do (apply_step ops i VerificationPassed now w) (\<lambda>final_operation w.
          then_do (record_success m endpoint_id source now w) (\<lambda>_ w.
          (Inr (PollTerminal final_operation), w)))
      | Inr Mismatched \<Rightarrow>
          then_do (apply_step ops i EventFailed now w) (\<lambda>final_operation w.
          then_do (record_failure m endpoint_id source Fail_CoreResourceReadFailed
                     FailureVerified_Rejected now w) (\<lambda>_ w.
          (Inr (PollTerminal final_operation), w)))
      | Inl verifier_error \<Rightarrow>
          then_do (apply_step ops i OutcomeUnknown now w) (\<lambda>_ w.
          then_do (record_failure m endpoint_id source Fail_CoreResourceReadFailed
                     FailureVerified_Inconclusive now w) (\<lambda>_ w.
          (Inl (MonitorVerifier verifier_error), w))))"

definition updated_row ::
  "remote_task \<Rightarrow> task_observation \<Rightarrow> remote_task_state \<Rightarrow> instant \<Rightarrow> remote_task_error + remote_task" where
  "updated_row task observation state now =
     remote_task_try_from_parts (rt_operation_id task) (rt_endpoint_id task) (rt_task_uri task)
       (case to_task_monitor_uri observation of None \<Rightarrow> rt_task_monitor_uri task | Some u \<Rightarrow> Some u)
       state (to_message observation)
       (case to_percent_complete observation of None \<Rightarrow> None | Some p \<Rightarrow> if p \<le> 100 then Some p else None)
       now"

definition save_observation ::
  "('s, 'r) remote_task_store \<Rightarrow> remote_task \<Rightarrow> ('s, 'l) monitor_world
     \<Rightarrow> (('e, 'r, 'v, 'x) task_monitor_error + unit) \<times> ('s, 'l) monitor_world" where
  "save_observation tasks row w =
     (case rs_save_remote_task tasks row (mw_store w) of
        (r, s') \<Rightarrow> (map_err MonitorTaskStore r, w\<lparr>mw_store := s'\<rparr>))"

definition observe ::
  "('s, 'c, 'e) operation_store \<Rightarrow> ('s, 'r) remote_task_store \<Rightarrow> ('c, 'rd, 'v, 'addr, 'x, 'l) monitor
     \<Rightarrow> 'c operation \<Rightarrow> remote_task \<Rightarrow> task_observation \<Rightarrow> instant \<Rightarrow> ('s, 'l) monitor_world
     \<Rightarrow> (('e, 'r, 'v, 'x) task_monitor_error + 'c task_poll) \<times> ('s, 'l) monitor_world" where
  "observe ops tasks m operation task observation now w =
     (case to_state observation of
        None \<Rightarrow> resolve_unknown ops m (op_id operation) (rt_endpoint_id task) (op_source operation) now w
      | Some state \<Rightarrow>
          (case updated_row task observation state now of
             Inl e \<Rightarrow> (Inl (RemoteTaskObservation (rt_operation_id task) e), w)
           | Inr updated \<Rightarrow>
               then_do (save_observation tasks updated w) (\<lambda>_ w.
               if \<not> task_is_terminal state then (Inr (StillRunning operation), w)
               else if state = Task_Completed
               then then_do (apply_step ops (op_id operation) RemoteTaskCompleted now w) (\<lambda>_ w.
                 verify_target ops m (op_id operation) (rt_endpoint_id task) (op_command operation)
                   (op_source operation) now w)
               else then_do (apply_step ops (op_id operation) EventFailed now w) (\<lambda>final_operation w.
                 then_do (record_failure m (rt_endpoint_id task) (op_source operation)
                            Fail_RedfishDiscoveryFailed FailureVerified_Rejected now w) (\<lambda>_ w.
                 (Inr (PollTerminal final_operation), w))))))"

definition poll ::
  "('s, 'c, 'e) operation_store \<Rightarrow> ('s, 'r) remote_task_store \<Rightarrow> ('c, 'rd, 'v, 'addr, 'x, 'l) monitor
     \<Rightarrow> operation_id \<Rightarrow> instant \<Rightarrow> ('s, 'l) monitor_world
     \<Rightarrow> (('e, 'r, 'v, 'x) task_monitor_error + 'c task_poll) \<times> ('s, 'l) monitor_world" where
  "poll ops tasks m i now w =
     (case st_find_operation ops i (mw_store w) of
        Inl e \<Rightarrow> (Inl (MonitorStore e), w)
      | Inr None \<Rightarrow> (Inl (OperationNotFound i), w)
      | Inr (Some operation) \<Rightarrow>
          if op_state operation \<noteq> WaitingRemote then (Inl (NotWaitingRemote i (op_state operation)), w)
          else (case op_targets operation of
             [] \<Rightarrow> (Inl (MonitorEmptyTargets i), w)
           | target # _ \<Rightarrow>
               (case rs_find_remote_task tasks i (mw_store w) of
                  Inl e \<Rightarrow> (Inl (MonitorTaskStore e), w)
                | Inr None \<Rightarrow> resolve_unknown ops m i (tg_endpoint_id target) (op_source operation) now w
                | Inr (Some task) \<Rightarrow>
                    (case tm_read_task m (tg_endpoint_id target) (rt_task_uri task) of
                       Inl _ \<Rightarrow> (Inr (Deferred operation), w)
                     | Inr None \<Rightarrow> resolve_unknown ops m i (tg_endpoint_id target) (op_source operation) now w
                     | Inr (Some observation) \<Rightarrow> observe ops tasks m operation task observation now w))))"

definition recover_tasks ::
  "('s, 'c, 'e) operation_store \<Rightarrow> 's \<Rightarrow> ('e, 'r, 'v, 'x) task_monitor_error + 'c operation list" where
  "recover_tasks ops s = map_err MonitorStore (st_list_operations ops (Some WaitingRemote) s)"

section \<open>The specification of a poll\<close>

text \<open>
  What a poll decides, as a function of what it reads: the stored row, the task document and the
  re-read of the target. \<open>WaitingRemote\<close> means that nothing is decided yet.
\<close>

definition monitor_verdict ::
  "('c, 'rd, 'v, 'addr, 'x, 'l) monitor \<Rightarrow> 'c operation \<Rightarrow> remote_task option \<Rightarrow> operation_state" where
  "monitor_verdict m op row =
     (case row of
        None \<Rightarrow> Unknown
      | Some task \<Rightarrow>
          (case tm_read_task m (tg_endpoint_id (hd (op_targets op))) (rt_task_uri task) of
             Inl _ \<Rightarrow> WaitingRemote
           | Inr None \<Rightarrow> Unknown
           | Inr (Some obs) \<Rightarrow>
               (case to_state obs of
                  None \<Rightarrow> Unknown
                | Some st \<Rightarrow>
                    if \<not> task_is_terminal st then WaitingRemote
                    else if st = Task_Completed
                    then (case tm_verify m (rt_endpoint_id task) (op_command op) of
                            Inr Confirmed \<Rightarrow> Succeeded | Inr Mismatched \<Rightarrow> Failed | Inl _ \<Rightarrow> Unknown)
                    else Failed)))"

fun is_store_error :: "('e, 'r, 'v, 'x) task_monitor_error \<Rightarrow> bool" where
  "is_store_error (MonitorStore _) = True"
| "is_store_error (MonitorTaskStore _) = True"
| "is_store_error _ = False"

fun is_store_failure :: "('e, 'r, 'v, 'x) task_monitor_error + 'a \<Rightarrow> bool" where
  "is_store_failure (Inl e) = is_store_error e"
| "is_store_failure (Inr _) = False"

text \<open>
  How a poll leaves the store, for a result \<open>r\<close>: one operation may move, to the verdict, or to one
  of the states \<open>between\<close> when a store failed on the way; a terminal result is the stored record.
\<close>

definition settles ::
  "('s \<Rightarrow> bool) \<Rightarrow> ('s \<Rightarrow> operation_id \<Rightarrow> 'c operation option) \<Rightarrow> operation_id \<Rightarrow> operation_state set
     \<Rightarrow> operation_state \<Rightarrow> ('e, 'r, 'v, 'x) task_monitor_error + 'c task_poll \<Rightarrow> 's \<Rightarrow> 's \<Rightarrow> bool" where
  "settles invariant view i between verdict r s s' \<longleftrightarrow>
     invariant s' \<and> (\<forall>j. j \<noteq> i \<longrightarrow> view s' j = view s j)
   \<and> (\<exists>op'. view s' i = Some op' \<and> op_state op' \<in> (if is_store_failure r then between else {verdict})
        \<and> (\<forall>f. r = Inr (PollTerminal f) \<longrightarrow> f = op'))"

text \<open>The private field of \<open>TaskUri\<close>: an observed monitor URI has passed its parser.\<close>

definition reader_ok :: "('c, 'rd, 'v, 'addr, 'x, 'l) monitor \<Rightarrow> bool" where
  "reader_ok m \<longleftrightarrow>
     (\<forall>e u obs v. tm_read_task m e u = Inr (Some obs) \<longrightarrow> to_task_monitor_uri obs = Some v \<longrightarrow>
        task_uri_parse v = Inr v)"

section \<open>Lemmas on the parts\<close>

lemma append_fact_store:
  assumes "append_fact m entry w = (r, w')"
  shows "mw_store w' = mw_store w"
  using assms by (auto simp: append_fact_def split: sum.splits prod.splits)

lemma monitor_audit_context_error:
  "monitor_audit_context m e src = Inl x \<Longrightarrow> \<exists>y. x = MonitorAudit Stage_Terminal y"
  by (auto simp: monitor_audit_context_def result_simps split: prod.splits)

lemma record_failure_result:
  assumes "record_failure m e src f v t w = (r, w')"
  shows "mw_store w' = mw_store w" "\<not> is_store_failure r"
proof -
  show "mw_store w' = mw_store w" using assms unfolding record_failure_def by (rule append_fact_store)
  show "\<not> is_store_failure r"
    using assms monitor_audit_context_error
    by (cases r) (auto simp: record_failure_def append_fact_def result_simps terminal_sequence_def
        split: sum.splits prod.splits dest!: monitor_audit_context_error)
qed

lemma record_success_result:
  assumes "record_success m e src t w = (r, w')"
  shows "mw_store w' = mw_store w" "\<not> is_store_failure r"
proof -
  show "mw_store w' = mw_store w" using assms unfolding record_success_def by (rule append_fact_store)
  show "\<not> is_store_failure r"
    using assms
    by (cases r) (auto simp: record_success_def append_fact_def result_simps terminal_sequence_def
        split: sum.splits prod.splits dest!: monitor_audit_context_error)
qed

lemma updated_row_ok:
  "\<exists>row. updated_row task obs st now = Inr row \<and> rt_operation_id row = rt_operation_id task
     \<and> rt_endpoint_id row = rt_endpoint_id task \<and> rt_last_state row = st \<and> rt_last_checked_at row = now"
  by (auto simp: updated_row_def remote_task_try_from_parts_def not_less split: option.splits)

lemma updated_row_well_formed:
  assumes "remote_task_ok task" "\<And>u. to_task_monitor_uri obs = Some u \<Longrightarrow> task_uri_parse u = Inr u"
    and "updated_row task obs st now = Inr row"
  shows "remote_task_ok row"
  using assms by (auto simp: updated_row_def remote_task_try_from_parts_Inr remote_task_ok_def split: option.splits if_splits)

context monitored_store
begin

lemma apply_step_result:
  assumes "inv (mw_store w)" "view (mw_store w) i = Some op" "transition (op_state op) event = Inr st"
    and "apply_step ops i event now w = (r, w')"
  shows "case r of
      Inl e \<Rightarrow> w' = w \<and> is_store_error (e :: ('e, 'r, 'v, 'x) task_monitor_error)
    | Inr op' \<Rightarrow> op' = op\<lparr>op_state := st, op_updated_at := now\<rparr> \<and> inv (mw_store w')
        \<and> view (mw_store w') = (view (mw_store w))(i \<mapsto> op') \<and> task_view (mw_store w') = task_view (mw_store w)
        \<and> mw_audit w' = mw_audit w"
proof -
  obtain q s' where e: "engine_apply ops i event now (mw_store w) = (q, s')" by fastforce
  with assms(4) have r: "r = map_err (map_engine_error i) q" "w' = w\<lparr>mw_store := s'\<rparr>"
    by (auto simp: apply_step_def)
  show ?thesis
  proof (cases q)
    case (Inl x)
    have "s' = mw_store w" using engine_error_writes_nothing(1) [of i event now] e Inl by simp
    moreover have "\<exists>y. x = StoreError y"
      using engine_step_store_error(1) [OF assms(1-3) e [unfolded Inl]] .
    ultimately show ?thesis using r Inl by auto
  next
    case (Inr op')
    from e Inr obtain u where step: "st_apply_transition ops i (op_state op') now (mw_store w) = (Inr u, s')"
      by (auto simp: engine_apply_def split: sum.splits prod.splits)
    from engine_apply_ok [OF assms(1)] e Inr obtain op2 where
      "view (mw_store w) i = Some op2" "transition (op_state op2) event = Inr (op_state op')"
      "op' = op2\<lparr>op_state := op_state op', op_updated_at := now\<rparr>" "inv s'"
      "view s' = (view (mw_store w))(i \<mapsto> op')" by blast
    with assms(2,3) r Inr step_keeps_tasks [OF step] show ?thesis by auto
  qed
qed

lemma step_then_record:
  fixes r :: "('e, 'r, 'v, 'x) task_monitor_error + 'c task_poll"
  assumes "inv (mw_store w)" "view (mw_store w) i = Some op" "transition (op_state op) event = Inr st"
    and run: "then_do (apply_step ops i event now w) (\<lambda>f w. then_do (record w) (\<lambda>_ w. (k f, w))) = (r, w')"
    and rec: "\<And>w1 q w2. record w1 = (q, w2) \<Longrightarrow> mw_store w2 = mw_store w1 \<and> \<not> is_store_failure q"
    and k: "\<And>f. \<not> is_store_failure (k f) \<and> (\<forall>g. k f = Inr (PollTerminal g) \<longrightarrow> g = f)"
  shows "settles inv view i {op_state op} st r (mw_store w) (mw_store w')"
  using run
proof (cases rule: then_do_cases)
  case (failed e)
  from apply_step_result [OF assms(1-3) failed(1)] failed(2) assms(1,2) show ?thesis
    by (cases e) (auto simp: settles_def)
next
  case (continued f w1)
  have step: "f = op\<lparr>op_state := st, op_updated_at := now\<rparr>" "inv (mw_store w1)"
    "view (mw_store w1) = (view (mw_store w))(i \<mapsto> f)"
    using apply_step_result [OF assms(1-3) continued(1)] by simp_all
  from continued(2) show ?thesis
  proof (cases rule: then_do_cases)
    case (failed e)
    with rec [OF failed(1)] step show ?thesis by (auto simp: settles_def)
  next
    case inner: (continued a w2)
    from rec [OF inner(1)] inner(2) step k [of f] show ?thesis by (auto simp: settles_def)
  qed
qed

lemma resolve_unknown_settles:
  fixes r :: "('e, 'r, 'v, 'x) task_monitor_error + 'c task_poll"
  assumes "inv (mw_store w)" "view (mw_store w) i = Some op" "op_state op = WaitingRemote"
    and "resolve_unknown ops m i e src now w = (r, w')"
  shows "settles inv view i {WaitingRemote} Unknown r (mw_store w) (mw_store w')"
proof -
  have tr: "transition (op_state op) OutcomeUnknown = Inr Unknown" using assms(3) by (simp add: transition_def)
  show ?thesis
    using step_then_record [OF assms(1,2) tr assms(4) [unfolded resolve_unknown_def]] assms(3)
    by (simp add: record_failure_result)
qed

lemma verify_target_settles:
  fixes r :: "('e, 'r, 'v, 'x) task_monitor_error + 'c task_poll"
  assumes "inv (mw_store w)" "view (mw_store w) i = Some op" "op_state op = Verifying"
    and run: "verify_target ops m i e command src now w = (r, w')"
  shows "settles inv view i {Verifying}
    (case tm_verify m e command of Inr Confirmed \<Rightarrow> Succeeded | Inr Mismatched \<Rightarrow> Failed | Inl _ \<Rightarrow> Unknown)
    r (mw_store w) (mw_store w')"
proof (cases "tm_verify m e command")
  case (Inl x)
  have tr: "transition (op_state op) OutcomeUnknown = Inr Unknown" using assms(3) by (simp add: transition_def)
  show ?thesis
    using step_then_record [OF assms(1,2) tr run [unfolded verify_target_def Inl sum.case]] assms(3) Inl
    by (simp add: record_failure_result)
next
  case (Inr verdict)
  show ?thesis
  proof (cases verdict)
    case Confirmed
    have tr: "transition (op_state op) VerificationPassed = Inr Succeeded" using assms(3) by simp
    show ?thesis
      using step_then_record [OF assms(1,2) tr
          run [unfolded verify_target_def Inr Confirmed sum.case verification_verdict.case]] assms(3) Inr Confirmed
      by (simp add: record_success_result)
  next
    case Mismatched
    have tr: "transition (op_state op) EventFailed = Inr Failed" using assms(3) by (simp add: transition_def)
    show ?thesis
      using step_then_record [OF assms(1,2) tr
          run [unfolded verify_target_def Inr Mismatched sum.case verification_verdict.case]] assms(3) Inr Mismatched
      by (simp add: record_failure_result)
  qed
qed

end

end
