(* ===== verification/Repository_Properties.thy ===== *)
theory Repository_Properties
  imports Engine_On_Sqlite
begin

text \<open>
  Properties of the SQLite repository's own methods: what a created operation reads back as,
  redelivery, errors leaving the tables alone, batches, the endpoint-scoped listing, and what a
  clock that moves backwards does to a stored operation.
\<close>

section \<open>When a create succeeds\<close>

lemma fold_insert_target_succeeds:
  assumes "\<not> ss_fault store InsertTarget"
    and "distinct (map tg_target_id ts)"
    and "\<forall>t \<in> set ts. (i, tg_target_id t) \<notin> target_key ` set (db_targets database)"
  shows "\<exists>db'. fold_res (insert_target store i) ts database = Inr db'"
  using assms(2,3)
proof (induction ts arbitrary: database)
  case Nil
  then show ?case by simp
next
  case (Cons t ts)
  let ?db1 = "database\<lparr>db_targets := db_targets database @ [target_row_of i t]\<rparr>"
  have one: "insert_target store i t database = Inr ?db1"
    using assms(1) Cons.prems by (simp add: insert_target_Inr)
  have "\<forall>u \<in> set ts. (i, tg_target_id u) \<notin> target_key ` set (db_targets ?db1)"
    using Cons.prems by (auto simp: image_iff)
  with Cons.IH [of ?db1] Cons.prems(1) one show ?case by simp
qed

text \<open>What a store needs so that writing a command cannot fail.\<close>

definition can_encrypt :: "'c sqlite_store \<Rightarrow> 'c \<Rightarrow> uuid \<Rightarrow> bool" where
  "can_encrypt store command identity \<longleftrightarrow>
     (\<forall>c. \<not> ss_fault store c) \<and> is_ok (serialize_command store command identity)"

lemma can_encrypt_key: "can_encrypt store c i \<Longrightarrow> \<exists>k. command_key store = Inr k"
  by (auto simp: can_encrypt_def serialize_command_def result_simps)

lemma insert_aggregate_succeeds:
  assumes "db_ok s (ss_database s)" "can_encrypt s (op_command op) (op_id op)"
    and "distinct (map tg_target_id (op_targets op))"
  shows "\<exists>db'. insert_operation_aggregate s bid op (ss_database s) = Inr db'"
proof (cases "find_row (ss_database s) (op_id op)")
  case None
  obtain column where col: "serialize_command s (op_command op) (op_id op) = Inr column"
    using assms(2) by (auto simp: can_encrypt_def)
  let ?db1 = "(ss_database s)\<lparr>db_operations := db_operations (ss_database s) @ [operation_row op column bid]\<rparr>"
  have "op_id op \<notin> tr_operation_id ` set (db_targets (ss_database s))"
    using None assms(1) by (auto simp: find_row_None db_ok_def)
  then have "\<forall>t \<in> set (op_targets op). (op_id op, tg_target_id t) \<notin> target_key ` set (db_targets ?db1)"
    by (auto simp: target_key_def)
  from fold_insert_target_succeeds [OF _ assms(3) this, of s] None col assms(2) show ?thesis
    by (auto simp: insert_operation_aggregate_def db_guard_def can_encrypt_def)
next
  case (Some r)
  with assms(2) show ?thesis by (simp add: insert_operation_aggregate_def db_guard_def can_encrypt_def)
qed

lemma find_operation_succeeds:
  assumes inv: "sqlite_inv s" and faults: "\<forall>c. \<not> ss_fault s c"
    and v: "sqlite_view s i = Some op" and t: "op_created_at op \<le> op_updated_at op"
  shows "find_operation i s = Inr (Some op)"
proof -
  from v obtain r where r: "find_row (ss_database s) i = Some r" "row_operation s (ss_database s) r = Some op"
    by (auto simp: sqlite_view_def bind_eq_Some_conv)
  have "map_stored_operation s (ss_database s) r = Inr op"
    using r(2) t faults by (auto simp: map_stored_operation_def row_operation_def operation_try_from_parts_def
        db_guard_def split: sum.splits)
  with r(1) faults show ?thesis by (simp add: find_operation_def read_tx_def db_guard_def)
qed

lemma find_operation_corrupt:
  assumes inv: "sqlite_inv s" and faults: "\<forall>c. \<not> ss_fault s c"
    and v: "sqlite_view s i = Some op" and t: "op_updated_at op < op_created_at op"
  shows "find_operation i s = Inl (Corrupt i (InvalidTimeline OperationTimelineError))"
    and "matches_state f op \<Longrightarrow> \<exists>e. list_operations f s = Inl e"
proof -
  from v obtain r where r: "find_row (ss_database s) i = Some r" "row_operation s (ss_database s) r = Some op"
    by (auto simp: sqlite_view_def bind_eq_Some_conv)
  have bad: "map_stored_operation s (ss_database s) r = Inl (Corrupt i (InvalidTimeline OperationTimelineError))"
    using r find_row_mem [OF r(1)] t faults
    by (auto simp: map_stored_operation_def row_operation_def operation_try_from_parts_def
        db_guard_def split: sum.splits)
  with r(1) faults show "find_operation i s = Inl (Corrupt i (InvalidTimeline OperationTimelineError))"
    by (simp add: find_operation_def read_tx_def db_guard_def)
  assume "matches_state f op"
  then have "r \<in> set (listed_rows f (ss_database s))"
    using row_matches_operation [OF r(2)] find_row_mem [OF r(1)] by (simp add: listed_rows_def)
  from traverse_has_error [of r _ "map_stored_operation s (ss_database s)", OF this bad] show "\<exists>e. list_operations f s = Inl e"
    by (cases "list_operations f s") (auto simp: list_operations_Inr)
qed

section \<open>Redelivery\<close>

definition answers_lookup :: "db_call \<Rightarrow> 'c sqlite_store \<Rightarrow> bool" where
  "answers_lookup query s \<longleftrightarrow>
     (\<forall>call \<in> {AcquirePermit, BeginTransaction, query, CommitTransaction}. \<not> ss_fault s call)"

lemma redelivered_operation:
  assumes "find_row (ss_database s) (op_id op) = Some r"
  shows "snd (create_operation op s) = s
    \<and> (fst (create_operation op s) = Inr () \<longleftrightarrow> ss_command_key s \<noteq> None \<and> answers_lookup QueryOperation s)"
  using assms
  by (simp add: create_operation_def command_key_def write_tx_def read_tx_def db_guard_def insert_operation_aggregate_def
      answers_lookup_def ok_or_def ensure_def rbind_def split: option.split)

lemma redelivered_batch:
  assumes "find_batch_row (ss_database s) (ba_id b) = Some r"
  shows "snd (create_batch b cs s) = s
    \<and> (fst (create_batch b cs s) = Inr () \<longleftrightarrow> ss_command_key s \<noteq> None \<and> answers_lookup QueryBatch s)"
  using assms
  by (simp add: create_batch_def command_key_def write_tx_def read_tx_def db_guard_def
      answers_lookup_def ok_or_def ensure_def rbind_def split: option.split)

section \<open>The endpoint-scoped listing\<close>

lemma concat_chunks: "0 < n \<Longrightarrow> concat (chunks n xs) = xs"
proof (induction n xs rule: chunks.induct)
  case (1 n xs)
  then show ?case by (subst chunks.simps) auto
qed

lemma chunk_length: "c \<in> set (chunks n xs) \<Longrightarrow> length c \<le> n"
proof (induction n xs rule: chunks.induct)
  case (1 n xs)
  then show ?case by (auto simp: chunks.simps [of n xs] split: if_splits)
qed

lemma distinct_remdups_adj_sorted: "sorted xs \<Longrightarrow> distinct (remdups_adj xs)"
proof (induction xs rule: remdups_adj.induct)
  case (3 x y xs)
  then show ?case by (auto split: if_splits)
qed simp_all

lemma distinct_chunk_rows:
  assumes "distinct (map or_id rows)" "distinct (concat css)"
  shows "distinct (map or_id (concat (map (\<lambda>c. sort_key k (filter (\<lambda>r. or_id r \<in> set c \<and> P r) rows)) css)))"
  using assms(2)
proof (induction css)
  case Nil
  then show ?case by simp
next
  case (Cons c css)
  have one: "distinct (map or_id (sort_key k (filter (\<lambda>r. or_id r \<in> set c \<and> P r) rows)))"
    using assms(1) by (auto simp: distinct_map inj_on_def)
  have disj: "set c \<inter> set (concat css) = {}" using Cons.prems by simp
  have "distinct (map or_id (concat (map (\<lambda>c. sort_key k (filter (\<lambda>r. or_id r \<in> set c \<and> P r) rows)) css)))"
    using Cons by simp
  with one disj show ?case by (auto simp: distinct_map)
qed

definition names_endpoint :: "endpoint_id \<Rightarrow> 'c operation \<Rightarrow> bool" where
  "names_endpoint e op \<longleftrightarrow> list_ex (\<lambda>t. tg_endpoint_id t = e) (op_targets op)"

lemma select_targets_endpoint:
  "list_ex (\<lambda>t. tg_endpoint_id t = e) (select_targets database i) \<longleftrightarrow>
     (\<exists>t \<in> set (db_targets database). tr_operation_id t = i \<and> tr_endpoint_id t = e)"
  by (auto simp: select_targets_def list_ex_iff operation_target_new_def)

lemma row_operation_targets:
  "row_operation s database r = Some op \<Longrightarrow> op_targets op = select_targets database (or_id r)"
  by (auto simp: row_operation_def split: sum.splits)

lemma endpoint_operation_ids_mem:
  "r \<in> set (db_operations database) \<Longrightarrow> row_matches f r \<Longrightarrow>
     or_id r \<in> set (endpoint_operation_ids database f e) \<longleftrightarrow>
     (\<exists>t \<in> set (db_targets database). tr_operation_id t = or_id r \<and> tr_endpoint_id t = e)"
  by (cases f) (force simp: endpoint_operation_ids_def row_matches_def list_ex_iff)+

lemma endpoint_models:
  fixes s :: "'c sqlite_store"
  assumes inv: "sqlite_inv s"
    and models: "models = concat (map (\<lambda>chunk. sort_key row_key
        (filter (\<lambda>r. or_id r \<in> set chunk \<and> row_matches f r) (db_operations (ss_database s))))
        (chunks IN_PARAMETER_CHUNK (remdups_adj (sort (endpoint_operation_ids (ss_database s) f e)))))"
  shows "distinct (map or_id models)"
    and "set models = {r \<in> set (db_operations (ss_database s)). row_matches f r
           \<and> (\<exists>t \<in> set (db_targets (ss_database s)). tr_operation_id t = or_id r \<and> tr_endpoint_id t = e)}"
proof -
  let ?ids = "remdups_adj (sort (endpoint_operation_ids (ss_database s) f e))"
  have dist: "distinct (map or_id (db_operations (ss_database s)))"
    using inv by (simp add: sqlite_inv_def db_ok_def)
  have cat: "concat (chunks IN_PARAMETER_CHUNK ?ids) = ?ids"
    by (rule concat_chunks) (simp add: IN_PARAMETER_CHUNK_def)
  show "distinct (map or_id models)"
    unfolding models by (rule distinct_chunk_rows [OF dist]) (simp add: cat distinct_remdups_adj_sorted)
  have "set models = {r \<in> set (db_operations (ss_database s)).
      or_id r \<in> set (concat (chunks IN_PARAMETER_CHUNK ?ids)) \<and> row_matches f r}"
    unfolding models by auto
  also have "\<dots> = {r \<in> set (db_operations (ss_database s)). or_id r \<in> set (endpoint_operation_ids (ss_database s) f e)
      \<and> row_matches f r}"
    unfolding cat by simp
  also have "\<dots> = {r \<in> set (db_operations (ss_database s)). row_matches f r
      \<and> (\<exists>t \<in> set (db_targets (ss_database s)). tr_operation_id t = or_id r \<and> tr_endpoint_id t = e)}"
    using endpoint_operation_ids_mem by blast
  finally show "set models = {r \<in> set (db_operations (ss_database s)). row_matches f r
      \<and> (\<exists>t \<in> set (db_targets (ss_database s)). tr_operation_id t = or_id r \<and> tr_endpoint_id t = e)}" .
qed

lemma list_for_endpoint_Inr:
  assumes "list_operations_for_endpoint f e s = Inr xs"
  shows "\<exists>models. models = concat (map (\<lambda>chunk. sort_key row_key
        (filter (\<lambda>r. or_id r \<in> set chunk \<and> row_matches f r) (db_operations (ss_database s))))
        (chunks IN_PARAMETER_CHUNK (remdups_adj (sort (endpoint_operation_ids (ss_database s) f e)))))
    \<and> traverse (map_stored_operation s (ss_database s)) (sort_key row_key models) = Inr xs"
  using read_tx_Inr [OF assms [unfolded list_operations_for_endpoint_def]]
  by (auto simp: result_simps Let_def chunks.simps [of _ "[]"] split: if_splits)

section \<open>Batches and clocks\<close>

lemma batch_children_nth:
  "k < length targets \<Longrightarrow>
     batch_children fresh source targets command now ! k = operation_new (fresh (Suc k)) source [targets ! k] command now"
  by (simp add: batch_children_def)

lemma length_batch_children [simp]: "length (batch_children fresh source targets command now) = length targets"
  by (simp add: batch_children_def)

lemma find_batch_child:
  assumes "inj_on fresh {..length targets}" "k < length targets"
  shows "List.find (\<lambda>c. op_id c = fresh (Suc k)) (batch_children fresh source targets command now)
    = Some (batch_children fresh source targets command now ! k)"
proof (rule find_Some_iff [THEN iffD2])
  show "\<exists>i<length (batch_children fresh source targets command now).
      op_id (batch_children fresh source targets command now ! i) = fresh (Suc k)
    \<and> batch_children fresh source targets command now ! k = batch_children fresh source targets command now ! i
    \<and> (\<forall>j<i. op_id (batch_children fresh source targets command now ! j) \<noteq> fresh (Suc k))"
    using assms by (intro exI [of _ k]) (auto simp: batch_children_nth operation_new_def dest: inj_onD)
qed

lemma stored_form_single: "op_targets op = [t] \<Longrightarrow> stored_form op = op"
  by (simp add: stored_form_def)

lemma apply_transition_keeps_faults:
  "apply_transition i st t s = (r, s') \<Longrightarrow> ss_fault s' = ss_fault s"
  by (auto simp: apply_transition_def write_tx_def split: sum.splits)

lemma engine_apply_keeps_faults:
  "engine_apply sqlite_operation_store i event now s = (r, s') \<Longrightarrow> ss_fault s' = ss_fault s"
  by (auto simp: engine_apply_def dest: apply_transition_keeps_faults split: sum.splits prod.splits)

section \<open>Facts about the demonstration store\<close>

lemma demo_can_encrypt: "can_encrypt (demo_store st) b i"
  by (simp add: can_encrypt_def serialize_command_def command_key_def encrypt_command_def cipher_key_def)
    (simp add: demo_store_def demo_lib_def)

lemma demo_list_for_endpoint: "list_operations_for_endpoint None 9 (demo_store st) = Inr [demo_operation st]"
proof -
  have m: "map_stored_operation (demo_store st) (ss_database (demo_store st)) (demo_row st) = Inr (demo_operation st)"
    using demo_find [of st] by (simp add: find_operation_def read_tx_def db_guard_def demo_find_row result_simps)
  have ids: "endpoint_operation_ids (ss_database (demo_store st)) None 9 = [1]"
    by (simp add: endpoint_operation_ids_def demo_store_def)
  have rows: "db_operations (ss_database (demo_store st)) = [demo_row st]" and rid: "or_id (demo_row st) = 1"
    by (simp_all add: demo_store_def demo_row_def)
  show ?thesis
    by (simp add: list_operations_for_endpoint_def read_tx_def db_guard_def ids rows rid m row_matches_def
        IN_PARAMETER_CHUNK_def chunks.simps)
qed

lemma demo_create_batch:
  "fst (engine_create_batch sqlite_operation_store (\<lambda>k. word_of_nat (k + 2)) Standalone
       [operation_target_new 5 9, operation_target_new 6 8] True 3 (demo_store Queued))
     = Inr (batch_operation_new 2 Standalone True 3,
            batch_children (\<lambda>k. word_of_nat (k + 2)) Standalone
              [operation_target_new 5 9, operation_target_new 6 8] True 3)"
proof -
  have column: "serialize_command (demo_store Queued) True i = Inr (projr (serialize_command (demo_store Queued) True i))" for i
    using demo_can_encrypt [of Queued True i] by (auto simp: can_encrypt_def)
  define column where "column i = projr (serialize_command (demo_store Queued) True i)" for i
  note column = column [folded column_def]
  have key: "command_key (demo_store Queued) = Inr (replicate 32 1)"
    by (simp add: command_key_def demo_store_def)
  have tables: "ss_database (demo_store Queued) = \<lparr>db_operations = [demo_row Queued],
      db_targets = [\<lparr>tr_operation_id = 1, tr_target_id = 5, tr_endpoint_id = 9\<rparr>], db_batches = [], db_remote_tasks = []\<rparr>"
    by (simp add: demo_store_def)
  have rid: "or_id (demo_row Queued) = 1" by (simp add: demo_row_def)
  show ?thesis
    by (simp add: engine_create_batch_def create_batch_def key write_tx_def read_tx_def db_guard_def
        MAX_BATCH_TARGETS_def batch_operation_new_def find_batch_row_def tables column
        batch_children_def insert_operation_aggregate_def find_row_def rid operation_new_def
        operation_row_def insert_target_def)
qed

section \<open>Properties\<close>

text \<open>
  C13: What is created is read back: on a store without failing calls whose cipher accepts the
  command, creating a fresh operation with distinct targets succeeds, and looking it up then
  returns that operation with its targets in target-identity order, whatever the encryption did
  to the column.
\<close>

theorem create_then_find_returns_operation:
  assumes "sqlite_inv s" and "can_encrypt s (op_command op) (op_id op)"
    and "distinct (map tg_target_id (op_targets op))"
    and "sqlite_view s (op_id op) = None" and "op_created_at op \<le> op_updated_at op"
  shows "\<exists>s'. create_operation op s = (Inr (), s')
    \<and> find_operation (op_id op) s' = Inr (Some (op\<lparr>op_targets := sort_key tg_target_id (op_targets op)\<rparr>))"
proof -
  have faults: "\<forall>c. \<not> ss_fault s c" using assms(2) by (simp add: can_encrypt_def)
  obtain db' where db': "insert_operation_aggregate s None op (ss_database s) = Inr db'"
    using insert_aggregate_succeeds [of s op None] assms(1,2,3) by (auto simp: sqlite_inv_def)
  then have c: "create_operation op s = (Inr (), s\<lparr>ss_database := db'\<rparr>)"
    using faults can_encrypt_key [OF assms(2)]
    by (auto simp: create_operation_def write_tx_def read_tx_def db_guard_def)
  from create_operation_ok [OF assms(1) c] assms(4)
  have "sqlite_inv (s\<lparr>ss_database := db'\<rparr>)"
    "sqlite_view (s\<lparr>ss_database := db'\<rparr>) (op_id op) = Some (stored_form op)" by simp_all
  from find_operation_succeeds [OF this(1) _ this(2)] faults assms(5) c show ?thesis
    by (simp add: stored_form_def)
qed

theorem create_then_find_returns_operation_witness:
  "\<exists>s'. create_operation ((demo_operation Queued)\<lparr>op_id := 2\<rparr>) (demo_store Queued) = (Inr (), s')
     \<and> find_operation 2 s' = Inr (Some ((demo_operation Queued)\<lparr>op_id := 2\<rparr>))"
  using create_then_find_returns_operation
    [OF demo_inv demo_can_encrypt, of "(demo_operation Queued)\<lparr>op_id := 2\<rparr>" Queued]
  by (simp add: demo_view demo_operation_def)

text \<open>
  C14: At-least-once delivery has a single effect: creating an operation id, or a batch id, that
  is already stored succeeds, whatever the redelivered record says, exactly when the store has a
  command key and the calls it needs answer (the permit, the transaction and the lookup; nothing is
  inserted or encrypted, so no insert, no source of randomness and no cipher can refuse it), and it
  changes nothing at all in the store.
\<close>

theorem redelivery_changes_nothing:
  assumes "sqlite_inv s"
  shows "(sqlite_view s (op_id op) \<noteq> None \<longrightarrow> snd (create_operation op s) = s
      \<and> (fst (create_operation op s) = Inr () \<longleftrightarrow> ss_command_key s \<noteq> None \<and> answers_lookup QueryOperation s))
    \<and> (sqlite_batch_view s (ba_id b) \<noteq> None \<longrightarrow> snd (create_batch b cs s) = s
      \<and> (fst (create_batch b cs s) = Inr () \<longleftrightarrow> ss_command_key s \<noteq> None \<and> answers_lookup QueryBatch s))"
proof (intro conjI impI)
  assume "sqlite_view s (op_id op) \<noteq> None"
  then obtain r where "find_row (ss_database s) (op_id op) = Some r"
    by (auto simp: sqlite_view_def bind_eq_Some_conv)
  from redelivered_operation [OF this] show "snd (create_operation op s) = s"
    "fst (create_operation op s) = Inr () \<longleftrightarrow> ss_command_key s \<noteq> None \<and> answers_lookup QueryOperation s" by simp_all
next
  assume "sqlite_batch_view s (ba_id b) \<noteq> None"
  then obtain r where "find_batch_row (ss_database s) (ba_id b) = Some r"
    by (auto simp: sqlite_batch_view_def bind_eq_Some_conv)
  from redelivered_batch [OF this] show "snd (create_batch b cs s) = s"
    "fst (create_batch b cs s) = Inr () \<longleftrightarrow> ss_command_key s \<noteq> None \<and> answers_lookup QueryBatch s" by simp_all
qed

theorem redelivery_changes_nothing_witness:
  "create_operation ((demo_operation Succeeded)\<lparr>op_command := False\<rparr>) (demo_store Running) = (Inr (), demo_store Running)"
proof -
  have "ss_command_key (demo_store Running) \<noteq> None" by (simp add: demo_store_def)
  with redelivery_changes_nothing [OF demo_inv, of Running "(demo_operation Succeeded)\<lparr>op_command := False\<rparr>"]
  show ?thesis by (auto simp: demo_view demo_operation_def answers_lookup_def prod_eq_iff)
qed

text \<open>
  C16: The endpoint-scoped listing answers its question exactly: joining by endpoint, cutting the
  ids into chunks and sorting the pieces again returns the same operations in the same order as
  filtering the full listing by whether any target names the endpoint.
\<close>

theorem endpoint_listing_equals_filtered_listing:
  assumes "sqlite_inv s" and "list_operations f s = Inr ys"
    and "list_operations_for_endpoint f e s = Inr xs"
  shows "xs = filter (names_endpoint e) ys"
proof -
  let ?db = "ss_database s"
  have ok: "db_ok s ?db" using assms(1) by (simp add: sqlite_inv_def)
  obtain models where m: "models = concat (map (\<lambda>chunk. sort_key row_key
        (filter (\<lambda>r. or_id r \<in> set chunk \<and> row_matches f r) (db_operations ?db)))
        (chunks IN_PARAMETER_CHUNK (remdups_adj (sort (endpoint_operation_ids ?db f e)))))"
    and t: "traverse (map_stored_operation s ?db) (sort_key row_key models) = Inr xs"
    using list_for_endpoint_Inr [OF assms(3)] by blast
  note md = endpoint_models [OF assms(1) m]
  have sub: "set (sort_key row_key models) \<subseteq> set (db_operations ?db)" using md(2) by auto
  note rows = traverse_rows [OF ok sub t]
  note full = list_operations_ok [OF assms(1,2)]
  have named: "op_id op \<in> or_id ` set models \<longleftrightarrow> matches_state f op \<and> names_endpoint e op"
    if v: "sqlite_view s (op_id op) = Some op" for op
  proof -
    from v obtain r where r: "find_row ?db (op_id op) = Some r" "row_operation s ?db r = Some op"
      by (auto simp: sqlite_view_def bind_eq_Some_conv)
    note mem = find_row_mem [OF r(1)]
    have "inj_on or_id (set (db_operations ?db))" using ok by (simp add: db_ok_def distinct_map)
    then have "or_id r \<in> or_id ` set models \<longleftrightarrow> r \<in> set models"
      using mem sub by (intro inj_on_image_mem_iff) auto
    then show ?thesis
      using mem md(2) row_matches_operation [OF r(2)] select_targets_endpoint [of e ?db "or_id r"]
        row_operation_targets [OF r(2)]
      by (auto simp: names_endpoint_def)
  qed
  show ?thesis
  proof (rule sorted_key_unique [of acceptance_key])
    show "sorted (map acceptance_key xs)" unfolding rows(2) by simp
    show "sorted (map acceptance_key (filter (names_endpoint e) ys))"
      using full by (simp add: sorted_map_filter_key)
    have key: "distinct (map op_id zs) \<Longrightarrow> distinct (map acceptance_key zs)" for zs :: "'a operation list"
      by (auto simp: distinct_map inj_on_def acceptance_key_def)
    have "distinct (map op_id xs)" unfolding rows(3) using md(1) by (auto simp: distinct_map)
    then show "distinct (map acceptance_key xs)" by (rule key)
    show "distinct (map acceptance_key (filter (names_endpoint e) ys))"
      using full by (intro key distinct_map_filter_key) simp
    show "set xs = set (filter (names_endpoint e) ys)"
      unfolding rows(1) using full named by (auto simp: sqlite_view_db)
  qed
qed

theorem endpoint_listing_equals_filtered_listing_witness:
  "list_operations_for_endpoint None 9 (demo_store Running) = Inr (filter (names_endpoint 9) [demo_operation Running])"
  unfolding demo_list_for_endpoint
  by (rule arg_cong [OF endpoint_listing_equals_filtered_listing [OF demo_inv demo_list demo_list_for_endpoint]])

text \<open>
  C17: A batch is accepted whole or not at all. \<open>create_batch\<close> refuses an empty target list and
  more than 128 targets without touching the store; when it returns a batch, the parent and one
  queued single-target child per target, in target order and carrying the batch's command, are
  all stored and everything else is as before; when it returns any error, nothing is.
\<close>

theorem engine_create_batch_all_or_nothing:
  assumes "sqlite_inv s" and "inj_on fresh {..length targets}"
    and "\<forall>k \<le> length targets. sqlite_view s (fresh k) = None" and "sqlite_batch_view s (fresh 0) = None"
    and "engine_create_batch sqlite_operation_store fresh source targets command now s = (r, s')"
  shows "case r of
      Inl e \<Rightarrow> s' = s
    | Inr (b, cs) \<Rightarrow>
        1 \<le> length targets \<and> length targets \<le> 128 \<and> length cs = length targets
      \<and> sqlite_batch_view s' = (sqlite_batch_view s)(fresh 0 \<mapsto> b)
      \<and> (\<forall>k < length targets. sqlite_view s' (fresh (Suc k))
           = Some (operation_new (fresh (Suc k)) source [targets ! k] command now))
      \<and> (\<forall>i. i \<notin> (\<lambda>k. fresh (Suc k)) ` {..< length targets} \<longrightarrow> sqlite_view s' i = sqlite_view s i)"
proof (cases r)
  case (Inl e)
  with assms(5) create_batch_error show ?thesis
    by (auto simp: engine_create_batch_def Let_def split: if_splits sum.splits prod.splits)
next
  case (Inr bc)
  let ?b = "batch_operation_new (fresh 0) source command now"
  let ?cs = "batch_children fresh source targets command now"
  have r: "bc = (?b, ?cs)" and len: "targets \<noteq> []" "length targets \<le> 128"
    and c: "create_batch ?b ?cs s = (Inr (), s')"
    using assms(5) Inr
    by (auto simp: engine_create_batch_def Let_def MAX_BATCH_TARGETS_def batch_operation_new_def
        split: if_splits sum.splits prod.splits)
  have bid: "ba_id ?b = fresh 0" by (simp add: batch_operation_new_def)
  note ok = create_batch_ok [OF assms(1) c, unfolded bid, OF assms(4)]
  have child: "sqlite_view s' (fresh (Suc k)) = Some (operation_new (fresh (Suc k)) source [targets ! k] command now)"
    if "k < length targets" for k
    using ok assms(3) find_batch_child [OF assms(2) that, of source command now] that
    by (simp add: batch_children_nth operation_new_def stored_form_def)
  have other: "sqlite_view s' i = sqlite_view s i" if "i \<notin> (\<lambda>k. fresh (Suc k)) ` {..< length targets}" for i
  proof -
    have "List.find (\<lambda>c. op_id c = i) ?cs = None"
      using that by (auto simp: find_None_iff in_set_conv_nth batch_children_nth operation_new_def)
    with ok show ?thesis by (simp split: option.splits)
  qed
  from ok len child other r Inr show ?thesis by (auto simp: Suc_le_eq)
qed

theorem engine_create_batch_all_or_nothing_witness:
  "\<exists>b cs s'. engine_create_batch sqlite_operation_store (\<lambda>k. word_of_nat (k + 2))
       Standalone [operation_target_new 5 9, operation_target_new 6 8] True 3 (demo_store Queued) = (Inr (b, cs), s')
    \<and> sqlite_view s' 4 = Some (operation_new 4 Standalone [operation_target_new 6 8] True 3)
    \<and> sqlite_view s' 1 = Some (demo_operation Queued)"
proof -
  let ?fresh = "\<lambda>k. word_of_nat (k + 2) :: uuid" and ?ts = "[operation_target_new 5 9, operation_target_new 6 8]"
  let ?run = "engine_create_batch sqlite_operation_store ?fresh Standalone ?ts True 3 (demo_store Queued)"
  have fresh: "{..length ?ts} = {0, 1, 2}" by auto
  have inj: "inj_on ?fresh {..length ?ts}" unfolding fresh by (simp add: inj_on_def)
  have none: "\<forall>k \<le> length ?ts. sqlite_view (demo_store Queued) (?fresh k) = None"
    using fresh by (auto simp: demo_view atMost_def set_eq_iff)
  have nobatch: "sqlite_batch_view (demo_store Queued) (?fresh 0) = None"
    by (simp add: sqlite_batch_view_def find_batch_row_def demo_store_def)
  have ok: "fst ?run = Inr (batch_operation_new 2 Standalone True 3, batch_children ?fresh Standalone ?ts True 3)"
    by (rule demo_create_batch)
  obtain b cs s' where run: "?run = (Inr (b, cs), s')" using ok by (metis prod.collapse)
  from engine_create_batch_all_or_nothing [OF demo_inv inj none nobatch run]
  have v: "\<forall>k < length ?ts. sqlite_view s' (?fresh (Suc k)) = Some (operation_new (?fresh (Suc k)) Standalone [?ts ! k] True 3)"
    "\<forall>i. i \<notin> (\<lambda>k. ?fresh (Suc k)) ` {..< length ?ts} \<longrightarrow> sqlite_view s' i = sqlite_view (demo_store Queued) i"
    by simp_all
  have "sqlite_view s' 4 = Some (operation_new 4 Standalone [operation_target_new 6 8] True 3)"
    using v(1) [rule_format, of 1] by simp
  moreover have "sqlite_view s' 1 = Some (demo_operation Queued)"
    using v(2) [rule_format, of 1] by (auto simp: demo_view lessThan_Suc)
  ultimately show ?thesis using run by blast
qed

text \<open>
  C18: Why the engine's caller must never move its clock backwards: a step applied at a time
  before the operation's creation is accepted and persisted, and from then on the row cannot be
  read again (\<open>InvalidTimeline\<close>), every further step of that operation fails, and so does the
  listing that would recover it after a restart.
\<close>

theorem backwards_clock_makes_operation_unreadable:
  assumes "sqlite_inv s" and "\<forall>c. \<not> ss_fault s c"
    and "engine_apply sqlite_operation_store i event now s = (Inr op', s')"
    and "now < op_created_at op'"
  shows "find_operation i s' = Inl (Corrupt i (InvalidTimeline OperationTimelineError))
    \<and> engine_apply sqlite_operation_store i event' now' s'
        = (Inl (StoreError (Corrupt i (InvalidTimeline OperationTimelineError))), s')
    \<and> (\<exists>e. list_operations (Some (op_state op')) s' = Inl e)"
proof -
  obtain op where ok: "sqlite_inv s'" "sqlite_view s' = (sqlite_view s)(i \<mapsto> op')"
    and op': "op' = op\<lparr>op_state := op_state op', op_updated_at := now\<rparr>"
    using sqlite.engine_apply_ok [OF assms(1,3)] by blast
  have v: "sqlite_view s' i = Some op'" using ok(2) by simp
  have "op_updated_at op' = now" using arg_cong [OF op', of op_updated_at] by simp
  have faults: "\<forall>c. \<not> ss_fault s' c" using engine_apply_keeps_faults [OF assms(3)] assms(2) by simp
  have before: "op_updated_at op' < op_created_at op'" using assms(4) \<open>op_updated_at op' = now\<close> by simp
  note bad = find_operation_corrupt [OF ok(1) faults v before]
  from bad(1) bad(2) [of "Some (op_state op')"] show ?thesis
    by (simp add: engine_apply_def engine_read_def matches_state_def)
qed

theorem backwards_clock_makes_operation_unreadable_witness:
  "\<exists>s'. engine_apply sqlite_operation_store 1 ValidationStarted (- 1) (demo_store Queued)
      = (Inr ((demo_operation Queued)\<lparr>op_state := Validating, op_updated_at := - 1\<rparr>), s')
    \<and> find_operation 1 s' = Inl (Corrupt 1 (InvalidTimeline OperationTimelineError))"
proof -
  have a: "engine_apply sqlite_operation_store 1 ValidationStarted (- 1) (demo_store Queued)
      = (Inr ((demo_operation Queued)\<lparr>op_state := Validating, op_updated_at := - 1\<rparr>), demo_stepped Queued Validating (- 1))"
    by (rule demo_engine_apply) simp
  have f: "\<forall>c. \<not> ss_fault (demo_store Queued) c" by simp
  from backwards_clock_makes_operation_unreadable [OF demo_inv f a] a show ?thesis
    by (simp add: demo_operation_def)
qed

end
