(* ===== verification/Monitor_Properties.thy ===== *)
theory Monitor_Properties
  imports Task_Monitor Repository_Properties
begin

text \<open>
  What a poll of the task monitor does to the operation it drives and to the audit log: the
  decision is exactly \<open>monitor_verdict\<close>, success is never fabricated, a transient read failure
  changes nothing, and which audit fact is written. The lemmas are proved once for any store that
  keeps the contract \<open>monitored_store\<close>; the properties hold of the SQLite store.
\<close>

section \<open>Settling an operation\<close>

lemma settles_weaken:
  "settles invariant view i B v r s s' \<Longrightarrow> B \<subseteq> B' \<Longrightarrow> settles invariant view i B' v r s s'"
  by (auto simp: settles_def split: if_splits)

lemma settles_from:
  "settles invariant view i B v r s1 s' \<Longrightarrow> (\<And>j. j \<noteq> i \<Longrightarrow> view s1 j = view s j) \<Longrightarrow>
     settles invariant view i B v r s s'"
  by (simp add: settles_def)

lemma settles_unchanged:
  "invariant s \<Longrightarrow> view s i = Some op \<Longrightarrow> op_state op \<in> (if is_store_failure r then B else {v}) \<Longrightarrow>
     (\<And>f. r \<noteq> Inr (PollTerminal f)) \<Longrightarrow> settles invariant view i B v r s s"
  by (auto simp: settles_def)

context monitored_store
begin

lemma completed_settles:
  fixes r :: "('e, 'r, 'v, 'x) task_monitor_error + 'c task_poll"
  assumes "inv (mw_store w)" "view (mw_store w) i = Some op" "op_state op = WaitingRemote"
    and run: "then_do (apply_step ops i RemoteTaskCompleted now w) (\<lambda>_ w.
        verify_target ops m i e (op_command op) src now w) = (r, w')"
  shows "settles inv view i {WaitingRemote, Verifying}
    (case tm_verify m e (op_command op) of Inr Confirmed \<Rightarrow> Succeeded | Inr Mismatched \<Rightarrow> Failed | Inl _ \<Rightarrow> Unknown)
    r (mw_store w) (mw_store w')"
proof -
  have tr: "transition (op_state op) RemoteTaskCompleted = Inr Verifying" using assms(3) by simp
  from run show ?thesis
  proof (cases rule: then_do_cases)
    case (failed x)
    with apply_step_result [OF assms(1,2) tr failed(1)] assms(1,2,3) show ?thesis
      by (intro settles_unchanged [THEN settles_from]) auto
  next
    case (continued f w1)
    have step: "f = op\<lparr>op_state := Verifying, op_updated_at := now\<rparr>" "inv (mw_store w1)"
      "view (mw_store w1) = (view (mw_store w))(i \<mapsto> f)"
      using apply_step_result [OF assms(1,2) tr continued(1)] by simp_all
    have v: "view (mw_store w1) i = Some f" "op_state f = Verifying" using step by simp_all
    from settles_from [OF settles_weaken [OF verify_target_settles [OF step(2) v continued(2)]], of "{WaitingRemote, Verifying}"]
    show ?thesis using step(3) by simp
  qed
qed

lemma observe_settles:
  fixes r :: "('e, 'r, 'v, 'x) task_monitor_error + 'c task_poll"
  assumes inv: "inv (mw_store w)" and op: "view (mw_store w) i = Some op" "op_state op = WaitingRemote"
    and task: "task_view (mw_store w) i = Some task"
    and uri: "\<And>v. to_task_monitor_uri obs = Some v \<Longrightarrow> task_uri_parse v = Inr v"
    and run: "observe ops tasks m op task obs now w = (r, w')"
  shows "settles inv view i {WaitingRemote, Verifying}
    (case to_state obs of
       None \<Rightarrow> Unknown
     | Some st \<Rightarrow>
         if \<not> task_is_terminal st then WaitingRemote
         else if st = Task_Completed
         then (case tm_verify m (rt_endpoint_id task) (op_command op) of
                 Inr Confirmed \<Rightarrow> Succeeded | Inr Mismatched \<Rightarrow> Failed | Inl _ \<Rightarrow> Unknown)
         else Failed) r (mw_store w) (mw_store w')"
proof (cases "to_state obs")
  case None
  have oid: "op_id op = i" by (rule view_id [OF inv op(1)])
  from settles_weaken [OF resolve_unknown_settles [OF inv op run [unfolded observe_def None option.case oid]]] None
  show ?thesis by simp
next
  case (Some st)
  have oid: "op_id op = i" by (rule view_id [OF inv op(1)])
  obtain row where row: "updated_row task obs st now = Inr row" using updated_row_ok by blast
  have ok: "remote_task_ok row"
    using updated_row_well_formed [OF _ uri row] task_view_ok [OF inv task] by simp
  note run = run [unfolded observe_def Some option.case row sum.case oid]
  from run show ?thesis
  proof (cases rule: then_do_cases)
    case (failed x)
    then have "mw_store w' = mw_store w" "is_store_failure r"
      using save_error by (auto simp: save_observation_def result_simps split: prod.splits)
    with inv op Some show ?thesis by (auto intro: settles_unchanged)
  next
    case (continued a w1)
    then obtain s1 where s1: "rs_save_remote_task tasks row (mw_store w) = (Inr a, s1)" "w1 = w\<lparr>mw_store := s1\<rparr>"
      by (auto simp: save_observation_def split: prod.splits)
    have inv1: "inv (mw_store w1)" and v: "view (mw_store w1) = view (mw_store w)"
      using save_ok [OF inv ok s1(1)] s1(2) by simp_all
    have op1: "view (mw_store w1) i = Some op" using v op(1) by simp
    note run1 = continued(2)
    show ?thesis
    proof (cases "task_is_terminal st")
      case False
      with run1 have "r = Inr (StillRunning op)" "w' = w1" by simp_all
      with False Some inv1 op1 op(2) v show ?thesis
        by (auto intro!: settles_from [OF settles_unchanged])
    next
      case True
      show ?thesis
      proof (cases "st = Task_Completed")
        case completed: True
        from run1 True completed have "then_do (apply_step ops i RemoteTaskCompleted now w1) (\<lambda>_ w.
            verify_target ops m i (rt_endpoint_id task) (op_command op) (op_source op) now w) = (r, w')"
          by (simp only: if_True if_False simp_thms)
        from settles_from [OF completed_settles [OF inv1 op1 op(2) this]] True completed Some v
        show ?thesis by simp
      next
        case False
        have tr: "transition (op_state op) EventFailed = Inr Failed" using op(2) by (simp add: transition_def)
        from run1 True False have "then_do (apply_step ops i EventFailed now w1) (\<lambda>f w.
            then_do (record_failure m (rt_endpoint_id task) (op_source op) Fail_RedfishDiscoveryFailed
              FailureVerified_Rejected now w) (\<lambda>_ w. (Inr (PollTerminal f), w))) = (r, w')"
          by (simp only: if_True if_False simp_thms)
        from settles_from [OF settles_weaken [OF step_then_record [OF inv1 op1 tr this], of "{WaitingRemote, Verifying}"]]
        show ?thesis using True False Some v op(2) by (simp add: record_failure_result)
      qed
    qed
  qed
qed

lemma poll_settles:
  fixes r :: "('e, 'r, 'v, 'x) task_monitor_error + 'c task_poll"
  assumes inv: "inv (mw_store w)" and op: "view (mw_store w) i = Some op" "op_state op = WaitingRemote"
    and targets: "op_targets op \<noteq> []" and reader: "reader_ok m"
    and run: "poll ops tasks m i now w = (r, w')"
  shows "settles inv view i {WaitingRemote, Verifying} (monitor_verdict m op (task_view (mw_store w) i)) r
    (mw_store w) (mw_store w')"
proof -
  obtain target rest where ts: "op_targets op = target # rest" using targets by (cases "op_targets op") auto
  have stay: ?thesis if "w' = w" "is_store_failure r"
    using that inv op by (auto intro: settles_unchanged)
  show ?thesis
  proof (cases "st_find_operation ops i (mw_store w)")
    case (Inl e)
    with run show ?thesis by (intro stay) (auto simp: poll_def)
  next
    case (Inr found)
    from find_reads_view [OF inv Inr] op(1) have found: "found = Some op" by simp
    note run = run [unfolded poll_def Inr found sum.case option.case ts list.case]
    show ?thesis
    proof (cases "rs_find_remote_task tasks i (mw_store w)")
      case (Inl e)
      with run op(2) show ?thesis by (intro stay) auto
    next
      case (Inr row)
      have row: "task_view (mw_store w) i = row" using find_task [OF inv Inr] by simp
      show ?thesis
      proof (cases row)
        case None
        with run Inr op(2) have "resolve_unknown ops m i (tg_endpoint_id target) (op_source op) now w = (r, w')" by simp
        from settles_weaken [OF resolve_unknown_settles [OF inv op this], of "{WaitingRemote, Verifying}"]
        show ?thesis by (simp add: row None monitor_verdict_def)
      next
        case (Some task)
        show ?thesis
        proof (cases "tm_read_task m (tg_endpoint_id target) (rt_task_uri task)")
          case read: (Inl e)
          with run Inr Some op(2) have "r = Inr (Deferred op)" "w' = w" by auto
          with inv op read row Some ts show ?thesis
            by (auto simp: monitor_verdict_def intro!: settles_unchanged)
        next
          case read: (Inr answer)
          show ?thesis
          proof (cases answer)
            case none: None
            with run Inr Some op(2) read
            have "resolve_unknown ops m i (tg_endpoint_id target) (op_source op) now w = (r, w')" by simp
            from settles_weaken [OF resolve_unknown_settles [OF inv op this], of "{WaitingRemote, Verifying}"]
            show ?thesis by (simp add: row Some ts read none monitor_verdict_def)
          next
            case obs: (Some obs)
            with run Inr Some op(2) read have o: "observe ops tasks m op task obs now w = (r, w')" by simp
            have u: "\<And>v. to_task_monitor_uri obs = Some v \<Longrightarrow> task_uri_parse v = Inr v"
              using reader read obs by (auto simp: reader_ok_def)
            have t: "task_view (mw_store w) i = Some task" using row Some by simp
            from observe_settles [OF inv op t u o] show ?thesis
              by (simp add: row Some ts read obs monitor_verdict_def)
          qed
        qed
      qed
    qed
  qed
qed

end

lemma monitor_verdict_Succeeded:
  "monitor_verdict m op row = Succeeded \<longleftrightarrow>
     (\<exists>task obs. row = Some task
        \<and> tm_read_task m (tg_endpoint_id (hd (op_targets op))) (rt_task_uri task) = Inr (Some obs)
        \<and> to_state obs = Some Task_Completed
        \<and> tm_verify m (rt_endpoint_id task) (op_command op) = Inr Confirmed)"
  by (auto simp: monitor_verdict_def task_is_terminal_def
      split: option.splits sum.splits verification_verdict.splits if_splits)

section \<open>Audit facts of a poll\<close>

lemma apply_step_event:
  fixes ops :: "('s, 'c, 'e) operation_store"
  assumes "apply_step ops i event now w = (r, w')"
  shows "mw_audit w' = mw_audit w" and "r = Inr f \<Longrightarrow> \<exists>st. transition st event = Inr (op_state f)"
proof -
  show "mw_audit w' = mw_audit w" using assms by (auto simp: apply_step_def split: prod.splits)
  assume "r = Inr f"
  with assms obtain op where "engine_decide i event now op = (Inr f :: 'e engine_error + 'c operation)"
    by (auto simp: apply_step_def engine_apply_def result_simps split: sum.splits prod.splits)
  then show "\<exists>st. transition st event = Inr (op_state f)" by (auto simp: engine_decide_Inr)
qed

text \<open>The one fact a poll may record, after the step that ended the operation.\<close>

definition records_fact ::
  "('c, 'rd, 'v, 'addr, 'x, 'l) monitor \<Rightarrow> operation_event \<Rightarrow> instant \<Rightarrow> ('s, 'l) monitor_world
     \<Rightarrow> (('e, 'r, 'v, 'x) task_monitor_error + unit) \<times> ('s, 'l) monitor_world \<Rightarrow> bool" where
  "records_fact m event now w result \<longleftrightarrow>
     (\<exists>endpoint source.
        event = VerificationPassed \<and> result = record_success m endpoint source now w
      \<or> event = EventFailed \<and> (\<exists>failure. result = record_failure m endpoint source failure FailureVerified_Rejected now w)
      \<or> event = OutcomeUnknown
        \<and> (\<exists>failure. result = record_failure m endpoint source failure FailureVerified_Inconclusive now w))"

definition poll_audits ::
  "('s, 'c, 'e) operation_store \<Rightarrow> ('c, 'rd, 'v, 'addr, 'x, 'l) monitor \<Rightarrow> operation_id \<Rightarrow> instant
     \<Rightarrow> ('s, 'l) monitor_world \<Rightarrow> ('e, 'r, 'v, 'x) task_monitor_error + 'c task_poll
     \<Rightarrow> ('s, 'l) monitor_world \<Rightarrow> bool" where
  "poll_audits ops m i now w r w' \<longleftrightarrow>
     mw_audit w' = mw_audit w \<and> (\<forall>g. r \<noteq> Inr (PollTerminal g))
   \<or> (\<exists>event w0 w1 f q. mw_audit w0 = mw_audit w
        \<and> apply_step ops i event now w0 = ((Inr f :: ('e, 'r, 'v, 'x) task_monitor_error + 'c operation), w1)
        \<and> records_fact m event now w1 (q :: ('e, 'r, 'v, 'x) task_monitor_error + unit, w')
        \<and> (\<forall>g. r = Inr (PollTerminal g) \<longrightarrow> g = f \<and> q = Inr ()))"

lemma step_record_audits:
  assumes "then_do (apply_step ops i event now w) (\<lambda>f w. then_do (record w) (\<lambda>_ w. (k f, w))) = (r, w')"
    and "\<And>w1. records_fact m event now w1 (record w1)"
    and "\<And>f g. k f = Inr (PollTerminal g) \<Longrightarrow> g = f"
  shows "poll_audits ops m i now w r w'"
  using assms(1)
proof (cases rule: then_do_cases)
  case (failed e)
  with apply_step_event(1) [OF failed(1)] show ?thesis by (simp add: poll_audits_def)
next
  case (continued f w1)
  from continued(2) show ?thesis
  proof (cases rule: then_do_cases)
    case (failed e)
    with continued(1) assms(2) [of w1] show ?thesis
      unfolding poll_audits_def by (intro disjI2 exI [of _ event] exI [of _ w] exI [of _ w1] exI [of _ f]
          exI [of _ "Inl e"]) simp
  next
    case inner: (continued a w2)
    with continued(1) assms(2) [of w1] assms(3) [of f] show ?thesis
      unfolding poll_audits_def by (intro disjI2 exI [of _ event] exI [of _ w] exI [of _ w1] exI [of _ f]
          exI [of _ "Inr a"]) auto
  qed
qed

lemma poll_audits_later:
  "poll_audits ops m i now w1 r w' \<Longrightarrow> mw_audit w1 = mw_audit w \<Longrightarrow> poll_audits ops m i now w r w'"
  unfolding poll_audits_def by auto

lemma records_fact_intros:
  "records_fact m VerificationPassed now w (record_success m e src now w)"
  "records_fact m EventFailed now w (record_failure m e src f FailureVerified_Rejected now w)"
  "records_fact m OutcomeUnknown now w (record_failure m e src f FailureVerified_Inconclusive now w)"
  unfolding records_fact_def by blast+

lemma resolve_unknown_audits:
  "resolve_unknown ops m i e src now w = (r, w') \<Longrightarrow> poll_audits ops m i now w r w'"
  unfolding resolve_unknown_def by (erule step_record_audits) (simp_all add: records_fact_intros)

lemma verify_target_audits:
  assumes "verify_target ops m i e command src now w = (r, w')"
  shows "poll_audits ops m i now w r w'"
proof (cases "tm_verify m e command")
  case (Inl x)
  from assms [unfolded verify_target_def Inl sum.case] show ?thesis
    by (rule step_record_audits) (simp_all add: records_fact_intros)
next
  case (Inr verdict)
  show ?thesis
  proof (cases verdict)
    case Confirmed
    from assms [unfolded verify_target_def Inr Confirmed sum.case verification_verdict.case] show ?thesis
      by (rule step_record_audits) (simp_all add: records_fact_intros)
  next
    case Mismatched
    from assms [unfolded verify_target_def Inr Mismatched sum.case verification_verdict.case] show ?thesis
      by (rule step_record_audits) (simp_all add: records_fact_intros)
  qed
qed

lemma save_observation_audit:
  "save_observation tasks row w = (r, w') \<Longrightarrow> mw_audit w' = mw_audit w"
  by (auto simp: save_observation_def split: prod.splits)

lemma observe_audits:
  assumes "observe ops tasks m op task obs now w = (r, w')"
  shows "poll_audits ops m (op_id op) now w r w'"
proof (cases "to_state obs")
  case None
  with assms show ?thesis by (auto simp: observe_def intro: resolve_unknown_audits)
next
  case (Some st)
  obtain row where row: "updated_row task obs st now = Inr row" using updated_row_ok by blast
  note run = assms [unfolded observe_def Some option.case row sum.case]
  from run show ?thesis
  proof (cases rule: then_do_cases)
    case (failed e)
    with save_observation_audit [OF failed(1)] show ?thesis by (simp add: poll_audits_def)
  next
    case (continued a w1)
    note run1 = continued(2)
    have "poll_audits ops m (op_id op) now w1 r w'"
    proof (cases "task_is_terminal st")
      case False
      with run1 show ?thesis by (auto simp: poll_audits_def)
    next
      case True
      show ?thesis
      proof (cases "st = Task_Completed")
        case completed: True
        from run1 True completed have "then_do (apply_step ops (op_id op) RemoteTaskCompleted now w1) (\<lambda>_ w.
            verify_target ops m (op_id op) (rt_endpoint_id task) (op_command op) (op_source op) now w) = (r, w')"
          by (simp only: if_True if_False simp_thms)
        then show ?thesis
        proof (cases rule: then_do_cases)
          case (failed e)
          with apply_step_event(1) [OF failed(1)] show ?thesis by (simp add: poll_audits_def)
        next
          case inner: (continued f w2)
          from poll_audits_later [OF verify_target_audits [OF inner(2)] apply_step_event(1) [OF inner(1)]]
          show ?thesis .
        qed
      next
        case False
        from run1 True False have "then_do (apply_step ops (op_id op) EventFailed now w1) (\<lambda>f w.
            then_do (record_failure m (rt_endpoint_id task) (op_source op) Fail_RedfishDiscoveryFailed
              FailureVerified_Rejected now w) (\<lambda>_ w. (Inr (PollTerminal f), w))) = (r, w')"
          by (simp only: if_True if_False simp_thms)
        then show ?thesis by (rule step_record_audits) (simp_all add: records_fact_intros)
      qed
    qed
    then show ?thesis by (rule poll_audits_later) (rule save_observation_audit [OF continued(1)])
  qed
qed

lemma poll_audits_stay: "(\<And>g. r \<noteq> Inr (PollTerminal g)) \<Longrightarrow> poll_audits ops m i now w r w"
  by (simp add: poll_audits_def)

lemma poll_audit_cases:
  assumes "poll ops tasks m i now w = (r, w')"
    and "\<And>op. st_find_operation ops i (mw_store w) = Inr (Some op) \<Longrightarrow> op_id op = i"
  shows "poll_audits ops m i now w r w'"
  using assms
  by (auto simp: poll_def split: sum.splits option.splits if_splits list.splits
      intro: poll_audits_stay resolve_unknown_audits observe_audits dest: observe_audits)

text \<open>The fact recorded has sequence 2 in the trail of a fresh audit operation.\<close>

definition fact_event ::
  "('c, 'rd, 'v, 'addr, 'x, 'l) monitor \<Rightarrow> audit_verification \<Rightarrow> instant \<Rightarrow> 'addr audit_event \<Rightarrow> bool" where
  "fact_event m verification now ev \<longleftrightarrow>
     ac_operation_id (ae_context ev) = tm_fresh_operation_id m \<and> ae_id ev = tm_fresh_event_id m
   \<and> ae_sequence ev = 2 \<and> ae_occurred_at ev = now
   \<and> ac_action (ae_context ev) = Action_ExecuteOperation
   \<and> outcome_verification (ae_outcome ev) = Some verification"

definition event_verification :: "operation_event \<Rightarrow> audit_verification" where
  "event_verification event =
     (case event of VerificationPassed \<Rightarrow> Verified_Confirmed | EventFailed \<Rightarrow> Verified_Rejected
      | _ \<Rightarrow> Verified_Inconclusive)"

lemma monitor_audit_context_Inr:
  "monitor_audit_context m e s = Inr c \<Longrightarrow>
     ac_operation_id c = tm_fresh_operation_id m \<and> ac_action c = Action_ExecuteOperation"
  by (auto simp: monitor_audit_context_def operation_audit_context_def context_try_new_def
      context_try_new_with_actor_principal_def split: prod.splits if_splits)

lemma append_fact_cases:
  assumes "append_fact m entry w = (q, w')"
    and "\<And>ev. entry = Inr ev \<Longrightarrow> fact_event m v now ev"
  shows "(w' = w \<and> (\<exists>e. q = Inl e))
    \<or> (\<exists>ev x l'. fact_event m v now ev \<and> tm_append m ev (mw_audit w) = (x, l') \<and> w' = w\<lparr>mw_audit := l'\<rparr>
        \<and> q = map_err (\<lambda>e. MonitorAudit Stage_Terminal (RecordWrite e)) x)"
  using assms by (auto simp: append_fact_def split: sum.splits prod.splits)

lemma records_fact_event:
  assumes "records_fact m event now w (q, w')"
  shows "(w' = w \<and> (\<exists>e. q = Inl e))
    \<or> (\<exists>ev x l'. fact_event m (event_verification event) now ev \<and> tm_append m ev (mw_audit w) = (x, l')
        \<and> w' = w\<lparr>mw_audit := l'\<rparr> \<and> q = map_err (\<lambda>e. MonitorAudit Stage_Terminal (RecordWrite e)) x)"
proof -
  have succ: "fact_event m Verified_Confirmed now ev"
    if "rbind (monitor_audit_context m e s) (\<lambda>context. rbind terminal_sequence (\<lambda>sequence.
        map_err f (event_succeeded (tm_fresh_event_id m) context sequence now))) = Inr ev" for e s f ev
    using that by (auto simp: result_simps terminal_sequence_def fact_event_def event_new_def
        dest!: monitor_audit_context_Inr)
  have fail: "fact_event m (failure_verification v) now ev"
    if "rbind (monitor_audit_context m e s) (\<lambda>context. rbind terminal_sequence (\<lambda>sequence.
        map_err f (event_failed (tm_fresh_event_id m) context sequence x v now))) = Inr ev" for e s f x v ev
    using that by (auto simp: result_simps terminal_sequence_def fact_event_def event_new_def
        dest!: monitor_audit_context_Inr)
  from assms consider
      (s) e src where "event = VerificationPassed" "record_success m e src now w = (q, w')"
    | (f) e src x where "event = EventFailed" "record_failure m e src x FailureVerified_Rejected now w = (q, w')"
    | (u) e src x where "event = OutcomeUnknown" "record_failure m e src x FailureVerified_Inconclusive now w = (q, w')"
    unfolding records_fact_def by metis
  then show ?thesis
  proof cases
    case s
    have v: "event_verification event = Verified_Confirmed" by (simp add: s event_verification_def)
    show ?thesis unfolding v by (rule append_fact_cases [OF s(2) [unfolded record_success_def]]) (erule succ)
  next
    case f
    have v: "event_verification event = failure_verification FailureVerified_Rejected" by (simp add: f event_verification_def)
    show ?thesis unfolding v by (rule append_fact_cases [OF f(2) [unfolded record_failure_def]]) (erule fail)
  next
    case u
    have v: "event_verification event = failure_verification FailureVerified_Inconclusive" by (simp add: u event_verification_def)
    show ?thesis unfolding v by (rule append_fact_cases [OF u(2) [unfolded record_failure_def]]) (erule fail)
  qed
qed

lemma sqlite_poll_audits:
  assumes "sqlite_task_inv (mw_store w)"
    and "poll sqlite_operation_store sqlite_remote_task_store m i now w = (r, w')"
  shows "poll_audits sqlite_operation_store m i now w r w'"
  using assms(2)
proof (rule poll_audit_cases)
  fix op assume "st_find_operation sqlite_operation_store i (mw_store w) = Inr (Some op)"
  from sqlite_monitored.find_reads_view [OF assms(1) this] sqlite_monitored.view_id [OF assms(1)]
  show "op_id op = i" by simp
qed

text \<open>A poll's terminal state and the verification of the fact recorded for it.\<close>

lemma recorded_verification:
  assumes "records_fact m event now w (q, w')" "transition st event = Inr st'"
  shows "st' = Succeeded \<and> event_verification event = Verified_Confirmed
    \<or> st' = Failed \<and> event_verification event = Verified_Rejected
    \<or> st' = Unknown \<and> event_verification event = Verified_Inconclusive"
proof -
  from assms(1) have "event \<in> {VerificationPassed, EventFailed, OutcomeUnknown}" by (auto simp: records_fact_def)
  with assms(2) show ?thesis
    by (auto simp: event_verification_def transition_simps split: operation_state.splits)
qed

lemma append_without_start_refused:
  assumes "audit_inv l" "trail_of (audit_log l) (ac_operation_id (ae_context e)) = []" "ae_sequence e \<noteq> 1"
  shows "\<exists>x. append_audit_event e l = (Inl x, l)"
proof -
  obtain r l' where a: "append_audit_event e l = (r, l')" by fastforce
  show ?thesis
  proof (cases r)
    case (Inl x)
    with a append_audit_event_error show ?thesis by blast
  next
    case (Inr u)
    from assms(1) a [unfolded Inr] show ?thesis
    proof (cases rule: append_audit_event_cases)
      case redelivered
      with assms(2) show ?thesis by simp
    next
      case appended
      with assms(2,3) show ?thesis by (simp add: validate_append_def SEQUENCE_FIRST_def split: if_splits)
    qed
  qed
qed

section \<open>A working store makes steps succeed\<close>

lemma apply_transition_succeeds:
  assumes "\<forall>c. \<not> ss_fault s c" "sqlite_view s i = Some op" "\<not> is_terminal (op_state op)"
  shows "\<exists>s'. apply_transition i st t s = (Inr (), s')"
proof -
  from assms(2) obtain row where row: "find_row (ss_database s) i = Some row"
    "row_operation s (ss_database s) row = Some op"
    by (auto simp: sqlite_view_def bind_eq_Some_conv)
  from row_operation_fields(4) [OF row(2)] row(1) assms(1,3) show ?thesis
    by (simp add: apply_transition_def write_tx_def read_tx_def db_guard_def)
qed

lemma apply_step_succeeds:
  assumes "sqlite_task_inv (mw_store w)" "\<forall>c. \<not> ss_fault (mw_store w) c"
    and "sqlite_view (mw_store w) i = Some op" "op_created_at op \<le> op_updated_at op"
    and "transition (op_state op) event = Inr st"
  shows "\<exists>w'. apply_step sqlite_operation_store i event now w = (Inr (op\<lparr>op_state := st, op_updated_at := now\<rparr>), w')
    \<and> ss_fault (mw_store w') = ss_fault (mw_store w)"
proof -
  have inv: "sqlite_inv (mw_store w)" using assms(1) by (simp add: sqlite_task_inv_def)
  have "find_operation i (mw_store w) = Inr (Some op)"
    by (rule find_operation_succeeds [OF inv assms(2,3,4)])
  then have read: "engine_read sqlite_operation_store i (mw_store w) = Inr op" by (simp add: engine_read_def)
  obtain s' where "apply_transition i st now (mw_store w) = (Inr (), s')"
    using apply_transition_succeeds [OF assms(2,3)] transition_not_terminal [OF assms(5)] by blast
  with read assms(5) have e: "engine_apply sqlite_operation_store i event now (mw_store w)
      = (Inr (op\<lparr>op_state := st, op_updated_at := now\<rparr>), s')"
    by (simp add: engine_apply_def engine_decide_def operation_apply_def)
  with engine_apply_keeps_faults [OF e] show ?thesis by (simp add: apply_step_def)
qed

section \<open>A demonstration poll\<close>

definition demo_task :: remote_task where
  "demo_task = remote_task_new 1 9 (ascii ''/t'') None 0"

definition demo_task_store :: "bool sqlite_store" where
  "demo_task_store = (demo_store WaitingRemote)\<lparr>ss_database :=
     (ss_database (demo_store WaitingRemote))\<lparr>db_remote_tasks := [remote_task_row_of demo_task None]\<rparr>\<rparr>"

definition demo_observation :: task_observation where
  "demo_observation = \<lparr>to_state = Some Task_Completed, to_message = None, to_percent_complete = Some 100,
     to_task_monitor_uri = None\<rparr>"

definition demo_monitor ::
  "(ustring audit_event \<Rightarrow> 'l \<Rightarrow> ('x + unit) \<times> 'l) \<Rightarrow> (bool, unit, unit, ustring, 'x, 'l) monitor" where
  "demo_monitor writer = \<lparr>tm_read_task = (\<lambda>_ _. Inr (Some demo_observation)),
     tm_verify = (\<lambda>_ _. Inr Confirmed), tm_append = writer, tm_actor = Actor_System,
     tm_origin = Posture_Site, tm_fresh_operation_id = 7, tm_fresh_event_id = 8\<rparr>"

lemma demo_task_ok: "remote_task_ok demo_task"
  by (simp add: remote_task_ok_def demo_task_def remote_task_new_def task_uri_parse_Inr ascii_def
      trim_def trim_start_def trim_end_def is_whitespace_def is_control_def str_len_def utf8_encode_def
      utf8_char_def MAX_TASK_URI_BYTES_def)

lemma demo_stored_task: "map_stored_remote_task 1 (remote_task_row_of demo_task None) = Inr demo_task"
  using stored_task_roundtrip [OF demo_task_ok, of None]
  by (simp add: map_transpose_def demo_task_def remote_task_new_def)

lemma demo_task_row: "rr_operation_id (remote_task_row_of demo_task None) = 1"
  by (simp add: remote_task_row_of_def demo_task_def remote_task_new_def)

lemma demo_task_store_inv: "sqlite_task_inv demo_task_store"
proof -
  have "sqlite_inv demo_task_store"
    using demo_inv [of WaitingRemote]
      db_ok_tables [of "(ss_database (demo_store WaitingRemote))\<lparr>db_remote_tasks := [remote_task_row_of demo_task None]\<rparr>"
        "ss_database (demo_store WaitingRemote)" "demo_store WaitingRemote"]
    by (simp add: demo_task_store_def sqlite_inv_upd) (simp add: sqlite_inv_def)
  moreover have "tasks_ok (ss_database demo_task_store)"
    by (simp add: tasks_ok_def demo_task_store_def demo_task_row demo_stored_task)
  ultimately show ?thesis by (simp add: sqlite_task_inv_def)
qed

lemma demo_task_store_view: "sqlite_view demo_task_store 1 = Some (demo_operation WaitingRemote)"
  using sqlite_view_tables [of "(ss_database (demo_store WaitingRemote))\<lparr>db_remote_tasks := [remote_task_row_of demo_task None]\<rparr>"
      "demo_store WaitingRemote"] demo_view [of WaitingRemote 1]
  by (simp add: demo_task_store_def)

lemma demo_task_store_row: "find_task_row (ss_database demo_task_store) 1 = Some (remote_task_row_of demo_task None)"
  by (simp add: find_task_row_def demo_task_store_def demo_task_row)

lemma demo_task_store_fault [simp]: "ss_fault demo_task_store c = False"
  by (simp add: demo_task_store_def)

lemma demo_task_store_find: "find_remote_task 1 demo_task_store = Inr (Some demo_task)"
  by (simp add: find_remote_task_def task_read_tx_def task_guard_def demo_task_store_row demo_stored_task)

lemma demo_reader_ok: "reader_ok (demo_monitor writer)"
  by (simp add: reader_ok_def demo_monitor_def demo_observation_def)

lemma demo_save:
  assumes "updated_row demo_task demo_observation Task_Completed 9 = Inr row"
  shows "\<exists>s'. save_remote_task row demo_task_store = (Inr (), s') \<and> ss_fault s' = ss_fault demo_task_store"
proof -
  have row: "rt_operation_id row = 1" "rt_percent_complete row = Some 100"
    using assms by (auto simp: updated_row_def remote_task_try_from_parts_Inr demo_task_def remote_task_new_def
        demo_observation_def)
  obtain q where q: "percent_complete_i32 100 = Inr q" using percent_roundtrip [of 100] by blast
  show ?thesis
    using row q demo_task_store_row
    by (simp add: save_remote_task_def task_read_tx_def task_guard_def map_transpose_def write_task_row_def)
qed

text \<open>The poll reads a completed task, verifies the target and records the success.\<close>

lemma demo_poll:
  "\<exists>f w'. poll sqlite_operation_store sqlite_remote_task_store (demo_monitor (\<lambda>e l. (Inr () :: unit + unit, l @ [e]))) 1 9
       \<lparr>mw_store = demo_task_store, mw_audit = []\<rparr> = (Inr (PollTerminal f), w')
     \<and> op_state f = Succeeded \<and> sqlite_view (mw_store w') 1 = Some f"
proof -
  let ?m = "demo_monitor (\<lambda>e l. (Inr () :: unit + unit, l @ [e]))"
  let ?w = "\<lparr>mw_store = demo_task_store, mw_audit = []\<rparr> :: (bool sqlite_store, ustring audit_event list) monitor_world"
  let ?op = "demo_operation WaitingRemote"
  obtain row where row: "updated_row demo_task demo_observation Task_Completed 9 = Inr row" using updated_row_ok by blast
  obtain s1 where s1: "save_remote_task row demo_task_store = (Inr (), s1)" "ss_fault s1 = ss_fault demo_task_store"
    using demo_save [OF row] by blast
  let ?w1 = "?w\<lparr>mw_store := s1\<rparr>"
  have ok1: "sqlite_task_inv (mw_store ?w1)" "sqlite_view (mw_store ?w1) 1 = Some ?op"
    using save_remote_task_ok [OF demo_task_store_inv _ s1(1)] demo_task_store_view
      updated_row_well_formed [OF demo_task_ok _ row] by (simp_all add: demo_observation_def)
  have f1: "\<forall>c. \<not> ss_fault (mw_store ?w1) c" using s1(2) by simp
  have t1: "transition (op_state ?op) RemoteTaskCompleted = Inr Verifying" by (simp add: demo_operation_def)
  have c1: "op_created_at ?op \<le> op_updated_at ?op" by (simp add: demo_operation_def)
  let ?op2 = "?op\<lparr>op_state := Verifying, op_updated_at := 9\<rparr>"
  have "\<exists>w2. apply_step sqlite_operation_store 1 RemoteTaskCompleted 9 ?w1
      = ((Inr ?op2 :: (operation_repository_error, remote_task_repository_error, unit, unit) task_monitor_error + _), w2)
    \<and> ss_fault (mw_store w2) = ss_fault (mw_store ?w1)"
    by (rule apply_step_succeeds [OF ok1(1) f1 ok1(2) c1 t1])
  then obtain w2 where w2: "apply_step sqlite_operation_store 1 RemoteTaskCompleted 9 ?w1
      = ((Inr ?op2 :: (operation_repository_error, remote_task_repository_error, unit, unit) task_monitor_error + _), w2)"
    "ss_fault (mw_store w2) = ss_fault (mw_store ?w1)" by (elim exE conjE)
  have ok2: "sqlite_task_inv (mw_store w2)" "sqlite_view (mw_store w2) 1 = Some ?op2" "mw_audit w2 = []"
    using sqlite_monitored.apply_step_result [OF ok1 t1 w2(1)] by simp_all
  have f2: "\<forall>c. \<not> ss_fault (mw_store w2) c" using w2(2) f1 by simp
  have t2: "transition (op_state ?op2) VerificationPassed = Inr Succeeded" by simp
  have c2: "op_created_at ?op2 \<le> op_updated_at ?op2" by (simp add: demo_operation_def)
  let ?op3 = "?op2\<lparr>op_state := Succeeded, op_updated_at := 9\<rparr>"
  have "\<exists>w3. apply_step sqlite_operation_store 1 VerificationPassed 9 w2
      = ((Inr ?op3 :: (operation_repository_error, remote_task_repository_error, unit, unit) task_monitor_error + _), w3)
    \<and> ss_fault (mw_store w3) = ss_fault (mw_store w2)"
    by (rule apply_step_succeeds [OF ok2(1) f2 ok2(2) c2 t2])
  then obtain w3 where w3: "apply_step sqlite_operation_store 1 VerificationPassed 9 w2
      = ((Inr ?op3 :: (operation_repository_error, remote_task_repository_error, unit, unit) task_monitor_error + _), w3)" by (elim exE conjE)
  have v3: "sqlite_view (mw_store w3) 1 = Some ?op3"
    using sqlite_monitored.apply_step_result [OF ok2(1,2) t2 w3] by simp
  have rec: "\<exists>w4. record_success ?m 9 Center 9 w3
      = ((Inr () :: (operation_repository_error, remote_task_repository_error, unit, unit) task_monitor_error + unit), w4)
      \<and> mw_store w4 = mw_store w3"
    by (simp add: record_success_def append_fact_def monitor_audit_context_def operation_audit_context_def
        context_try_new_def context_try_new_with_actor_principal_def context_consistent_def demo_monitor_def
        terminal_sequence_def)
  then obtain w4 where w4: "record_success ?m 9 Center 9 w3
      = ((Inr () :: (operation_repository_error, remote_task_repository_error, unit, unit) task_monitor_error + unit), w4)"
    "mw_store w4 = mw_store w3" by blast
  have "find_operation 1 demo_task_store = Inr (Some ?op)"
    using find_operation_succeeds [OF _ _ demo_task_store_view] demo_task_store_inv c1
    by (simp add: sqlite_task_inv_def)
  then have "poll sqlite_operation_store sqlite_remote_task_store ?m 1 9 ?w = (Inr (PollTerminal ?op3), w4)"
    using row s1 w2(1) w3 w4(1) demo_task_store_find
    by (simp add: poll_def observe_def verify_target_def save_observation_def demo_operation_def demo_monitor_def
        demo_observation_def demo_task_def remote_task_new_def task_is_terminal_def operation_target_new_def)
  with v3 w4(2) show ?thesis by auto
qed

section \<open>Properties\<close>

text \<open>
  C28: The monitor implements its decision table. Polling a waiting operation on the SQLite
  store, whatever the BMC answers: if no store call failed, the persisted operation is afterwards
  in the state the table gives (still waiting, or Succeeded, Failed or Unknown); if one failed it
  is still waiting or verifying; a returned terminal operation is the persisted one; and no other
  operation moved.
\<close>

theorem poll_implements_decision_table:
  assumes "sqlite_task_inv (mw_store w)" and "sqlite_view (mw_store w) i = Some op"
    and "op_state op = WaitingRemote" and "op_targets op \<noteq> []" and "reader_ok m"
    and "poll sqlite_operation_store sqlite_remote_task_store m i now w = (r, w')"
  shows "settles sqlite_task_inv sqlite_view i {WaitingRemote, Verifying}
    (monitor_verdict m op (sqlite_task_view (mw_store w) i)) r (mw_store w) (mw_store w')"
  using assms by (rule sqlite_monitored.poll_settles)

theorem poll_implements_decision_table_witness:
  "\<exists>r w'. poll sqlite_operation_store sqlite_remote_task_store (demo_monitor (\<lambda>e l. (Inr () :: unit + unit, l @ [e]))) 1 9 \<lparr>mw_store = demo_task_store, mw_audit = []\<rparr> = (r, w')
     \<and> settles sqlite_task_inv sqlite_view 1 {WaitingRemote, Verifying}
         (monitor_verdict (demo_monitor (\<lambda>e l. (Inr () :: unit + unit, l @ [e]))) (demo_operation WaitingRemote) (sqlite_task_view demo_task_store 1))
         r demo_task_store (mw_store w')"
proof -
  let ?w = "\<lparr>mw_store = demo_task_store, mw_audit = []\<rparr> :: (bool sqlite_store, ustring audit_event list) monitor_world"
  obtain f w' where run: "poll sqlite_operation_store sqlite_remote_task_store (demo_monitor (\<lambda>e l. (Inr () :: unit + unit, l @ [e]))) 1 9 ?w
      = (Inr (PollTerminal f), w')" and f: "op_state f = Succeeded" "sqlite_view (mw_store w') 1 = Some f"
    using demo_poll by blast
  have inv: "sqlite_task_inv (mw_store ?w)" and view: "sqlite_view (mw_store ?w) 1 = Some (demo_operation WaitingRemote)"
    by (simp_all add: demo_task_store_inv demo_task_store_view)
  have waiting: "op_state (demo_operation WaitingRemote) = WaitingRemote" "op_targets (demo_operation WaitingRemote) \<noteq> []"
    by (simp_all add: demo_operation_def)
  from poll_implements_decision_table [OF inv view waiting demo_reader_ok run] run show ?thesis by fastforce
qed

text \<open>
  C29: Success is never fabricated: if a poll leaves a waiting operation Succeeded, then the BMC's
  own task document, read at the stored URI, said Completed, and the re-read of the target
  confirmed the command's expected result.
\<close>

theorem poll_success_is_proven:
  assumes "sqlite_task_inv (mw_store w)" and "sqlite_view (mw_store w) i = Some op"
    and "op_state op = WaitingRemote" and "op_targets op \<noteq> []" and "reader_ok m"
    and "poll sqlite_operation_store sqlite_remote_task_store m i now w = (r, w')"
    and "sqlite_view (mw_store w') i = Some op'" and "op_state op' = Succeeded"
  shows "\<exists>task obs. sqlite_task_view (mw_store w) i = Some task
    \<and> tm_read_task m (tg_endpoint_id (hd (op_targets op))) (rt_task_uri task) = Inr (Some obs)
    \<and> to_state obs = Some Task_Completed
    \<and> tm_verify m (rt_endpoint_id task) (op_command op) = Inr Confirmed"
proof -
  from sqlite_monitored.poll_settles [OF assms(1-6)] assms(7,8)
  have "monitor_verdict m op (sqlite_task_view (mw_store w) i) = Succeeded"
    by (auto simp: settles_def split: if_splits)
  then show ?thesis by (simp only: monitor_verdict_Succeeded)
qed

theorem poll_success_is_proven_witness:
  "\<exists>task. sqlite_task_view demo_task_store 1 = Some task
     \<and> tm_read_task (demo_monitor (\<lambda>e l. (Inr () :: unit + unit, l @ [e]))) 1 (rt_task_uri task) = Inr (Some demo_observation)"
proof -
  let ?w = "\<lparr>mw_store = demo_task_store, mw_audit = []\<rparr> :: (bool sqlite_store, ustring audit_event list) monitor_world"
  obtain f w' where run: "poll sqlite_operation_store sqlite_remote_task_store (demo_monitor (\<lambda>e l. (Inr () :: unit + unit, l @ [e]))) 1 9 ?w
      = (Inr (PollTerminal f), w')" and f: "op_state f = Succeeded" "sqlite_view (mw_store w') 1 = Some f"
    using demo_poll by blast
  have inv: "sqlite_task_inv (mw_store ?w)" and view: "sqlite_view (mw_store ?w) 1 = Some (demo_operation WaitingRemote)"
    by (simp_all add: demo_task_store_inv demo_task_store_view)
  have waiting: "op_state (demo_operation WaitingRemote) = WaitingRemote" "op_targets (demo_operation WaitingRemote) \<noteq> []"
    by (simp_all add: demo_operation_def)
  from poll_success_is_proven [OF inv view waiting demo_reader_ok run f(2,1)] show ?thesis
    by (auto simp: demo_monitor_def)
qed

text \<open>
  C30: The audit fact of a poll is truthful: with a writer that accepts what it is given, a poll
  that ends an operation has appended exactly one fact, and the fact's verification is confirmed
  exactly for Succeeded, rejected exactly for Failed and inconclusive exactly for Unknown.
\<close>

theorem poll_audit_fact_is_truthful:
  assumes "sqlite_task_inv (mw_store w)"
    and "tm_append m = (\<lambda>e events. (Inr (), events @ [e]))"
    and "poll sqlite_operation_store sqlite_remote_task_store m i now w = (Inr (PollTerminal f), w')"
  shows "\<exists>e. mw_audit w' = mw_audit w @ [e]
    \<and> (outcome_verification (ae_outcome e) = Some Verified_Confirmed \<longleftrightarrow> op_state f = Succeeded)
    \<and> (outcome_verification (ae_outcome e) = Some Verified_Rejected \<longleftrightarrow> op_state f = Failed)
    \<and> (outcome_verification (ae_outcome e) = Some Verified_Inconclusive \<longleftrightarrow> op_state f = Unknown)"
  using sqlite_poll_audits [OF assms(1,3)] unfolding poll_audits_def
proof (elim disjE exE conjE)
  fix event w0 w1 g q
  assume w0: "mw_audit w0 = mw_audit w"
    and step: "apply_step sqlite_operation_store i event now w0 = (Inr g, w1)"
    and rec: "records_fact m event now w1 (q, w')"
    and res: "\<forall>h. Inr (PollTerminal f) = Inr (PollTerminal h) \<longrightarrow> h = g \<and> q = Inr ()"
  have q: "q = Inr ()" and fg: "f = g" using res by simp_all
  obtain ev x l' where ev: "fact_event m (event_verification event) now ev"
    "tm_append m ev (mw_audit w1) = (x, l')" "w' = w1\<lparr>mw_audit := l'\<rparr>"
    using records_fact_event [OF rec] q by auto
  have "l' = mw_audit w @ [ev]" using ev(2) apply_step_event(1) [OF step] w0 unfolding assms(2) by simp
  then have "mw_audit w' = mw_audit w @ [ev]" using ev(3) by simp
  moreover obtain st where "transition st event = Inr (op_state f)"
    using apply_step_event(2) [OF step] unfolding fg by blast
  from recorded_verification [OF rec this] ev(1)
  have "(outcome_verification (ae_outcome ev) = Some Verified_Confirmed \<longleftrightarrow> op_state f = Succeeded)
    \<and> (outcome_verification (ae_outcome ev) = Some Verified_Rejected \<longleftrightarrow> op_state f = Failed)
    \<and> (outcome_verification (ae_outcome ev) = Some Verified_Inconclusive \<longleftrightarrow> op_state f = Unknown)"
    by (auto simp: fact_event_def)
  ultimately show ?thesis by blast
qed simp

theorem poll_audit_fact_is_truthful_witness:
  "\<exists>f w' e. poll sqlite_operation_store sqlite_remote_task_store (demo_monitor (\<lambda>e l. (Inr () :: unit + unit, l @ [e]))) 1 9 \<lparr>mw_store = demo_task_store, mw_audit = []\<rparr> = (Inr (PollTerminal f), w')
     \<and> mw_audit w' = [e] \<and> outcome_verification (ae_outcome e) = Some Verified_Confirmed"
proof -
  let ?w = "\<lparr>mw_store = demo_task_store, mw_audit = []\<rparr> :: (bool sqlite_store, ustring audit_event list) monitor_world"
  obtain f w' where run: "poll sqlite_operation_store sqlite_remote_task_store (demo_monitor (\<lambda>e l. (Inr () :: unit + unit, l @ [e]))) 1 9 ?w
      = (Inr (PollTerminal f), w')" and f: "op_state f = Succeeded" "sqlite_view (mw_store w') 1 = Some f"
    using demo_poll by blast
  have "sqlite_task_inv (mw_store ?w)" "tm_append (demo_monitor (\<lambda>e l. (Inr () :: unit + unit, l @ [e]))) = (\<lambda>e events. (Inr (), events @ [e]))"
    by (simp_all add: demo_task_store_inv demo_monitor_def)
  from poll_audit_fact_is_truthful [OF this run] run f(1) show ?thesis by fastforce
qed

text \<open>
  C31: On the production audit store no such fact is ever recorded. The monitor writes its
  terminal fact as number 2 of a fresh audit operation, whose start fact nobody wrote; the
  repository refuses every append that does not begin with a start. So a poll against it leaves
  the audit log untouched, and never reports a terminal operation.
\<close>

theorem poll_terminal_fact_is_never_recorded:
  assumes "sqlite_task_inv (mw_store w)" and "audit_inv (mw_audit w)"
    and "trail_of (audit_log (mw_audit w)) (tm_fresh_operation_id m) = []"
    and "tm_append m = append_audit_event"
    and "poll sqlite_operation_store sqlite_remote_task_store m i now w = (r, w')"
  shows "mw_audit w' = mw_audit w \<and> r \<noteq> Inr (PollTerminal f)"
  using sqlite_poll_audits [OF assms(1,5)] unfolding poll_audits_def
proof (elim disjE exE conjE)
  fix event w0 w1 g q
  assume w0: "mw_audit w0 = mw_audit w"
    and step: "apply_step sqlite_operation_store i event now w0 = (Inr g, w1)"
    and rec: "records_fact m event now w1 (q, w')"
    and res: "\<forall>f. r = Inr (PollTerminal f) \<longrightarrow> f = g \<and> q = Inr ()"
  have same: "mw_audit w1 = mw_audit w" using apply_step_event(1) [OF step] w0 by simp
  have "mw_audit w' = mw_audit w \<and> (\<exists>e. q = Inl e)"
    using records_fact_event [OF rec]
  proof (elim disjE exE conjE)
    fix ev x l'
    assume ev: "fact_event m (event_verification event) now ev"
      and a: "tm_append m ev (mw_audit w1) = (x, l')" and w': "w' = w1\<lparr>mw_audit := l'\<rparr>"
      and q: "q = map_err (\<lambda>e. MonitorAudit Stage_Terminal (RecordWrite e)) x"
    have "\<exists>y. append_audit_event ev (mw_audit w) = (Inl y, mw_audit w)"
      using ev assms(3) by (intro append_without_start_refused [OF assms(2)]) (simp_all add: fact_event_def)
    with a same assms(4) have "l' = mw_audit w" "\<exists>y. x = Inl y" by auto
    with w' q show ?thesis by auto
  qed (use same in auto)
  with res show ?thesis by auto
qed simp

theorem poll_terminal_fact_is_never_recorded_witness:
  "\<exists>r w'. poll sqlite_operation_store sqlite_remote_task_store (demo_monitor append_audit_event) 1 9
         \<lparr>mw_store = demo_task_store, mw_audit = demo_audit\<rparr> = (r, w')
     \<and> mw_audit w' = demo_audit \<and> r \<noteq> Inr (PollTerminal (demo_operation Succeeded))"
proof -
  let ?w = "\<lparr>mw_store = demo_task_store, mw_audit = demo_audit\<rparr>"
  obtain r w' where run: "poll sqlite_operation_store sqlite_remote_task_store (demo_monitor append_audit_event) 1 9 ?w
      = (r, w')" by fastforce
  have "sqlite_task_inv (mw_store ?w)" "audit_inv (mw_audit ?w)"
    "trail_of (audit_log (mw_audit ?w)) (tm_fresh_operation_id (demo_monitor append_audit_event)) = []"
    "tm_append (demo_monitor append_audit_event) = append_audit_event"
    using demo_audit_inv
    by (simp_all add: demo_task_store_inv demo_monitor_def trail_of_def audit_log_def) (simp add: demo_audit_def)
  from poll_terminal_fact_is_never_recorded [OF this run] run show ?thesis by fastforce
qed

end
