(* ===== verification/Capability.thy ===== *)
theory Capability
  imports Stable_Code
begin

text \<open>
  The capability ledger, \<open>domain/src/capability.rs\<close>: the 47 Redfish capabilities with their
  stable product codes, upstream features, classification and page, the pages, and the observed
  state of a capability. The match of a \<open>FromStr\<close> is a table searched from the top.
\<close>

section \<open>Capabilities\<close>

datatype endpoint_capability =
    Accounts | Assembly | Bios | BootOptions | Chassis | Systems | Controls | EnvironmentMetrics
  | EthernetInterfaces | EventService | HostInterfaces | LogServices | ManagerNetworkProtocol
  | Managers | Memory | NetworkAdapters | NetworkDeviceFunctions | PcieDevices | Power
  | PowerEquipment | PowerSupplies | Processors | SecureBoot | Sensors | SessionService
  | Storages | TaskService | TelemetryService | Thermal | UpdateService | Ports | BmcHttp
  | UpdateServiceDeprecated | OemAmi | OemDell | OemDellAttributes | OemDelta | OemHpe
  | OemLenovo | OemLiteOn | OemNvidia | OemNvidiaCper | OemNvidiaFabrics
  | OemNvidiaPowerManagement | OemNvidiaProfiles | OemNvidiaSecurity | OemSupermicro

datatype endpoint_capability_parse_error = EndpointCapabilityParseError

fun endpoint_capability_as_str :: "endpoint_capability \<Rightarrow> string" where
  "endpoint_capability_as_str endpoint_capability.Accounts = ''accounts''"
| "endpoint_capability_as_str endpoint_capability.Assembly = ''assembly''"
| "endpoint_capability_as_str endpoint_capability.Bios = ''bios''"
| "endpoint_capability_as_str endpoint_capability.BootOptions = ''boot-options''"
| "endpoint_capability_as_str endpoint_capability.Chassis = ''chassis''"
| "endpoint_capability_as_str endpoint_capability.Systems = ''systems''"
| "endpoint_capability_as_str endpoint_capability.Controls = ''controls''"
| "endpoint_capability_as_str endpoint_capability.EnvironmentMetrics = ''environment-metrics''"
| "endpoint_capability_as_str endpoint_capability.EthernetInterfaces = ''ethernet-interfaces''"
| "endpoint_capability_as_str endpoint_capability.EventService = ''event-service''"
| "endpoint_capability_as_str endpoint_capability.HostInterfaces = ''host-interfaces''"
| "endpoint_capability_as_str endpoint_capability.LogServices = ''log-services''"
| "endpoint_capability_as_str endpoint_capability.ManagerNetworkProtocol = ''manager-network-protocol''"
| "endpoint_capability_as_str endpoint_capability.Managers = ''managers''"
| "endpoint_capability_as_str endpoint_capability.Memory = ''memory''"
| "endpoint_capability_as_str endpoint_capability.NetworkAdapters = ''network-adapters''"
| "endpoint_capability_as_str endpoint_capability.NetworkDeviceFunctions = ''network-device-functions''"
| "endpoint_capability_as_str endpoint_capability.PcieDevices = ''pcie-devices''"
| "endpoint_capability_as_str endpoint_capability.Power = ''power''"
| "endpoint_capability_as_str endpoint_capability.PowerEquipment = ''power-equipment''"
| "endpoint_capability_as_str endpoint_capability.PowerSupplies = ''power-supplies''"
| "endpoint_capability_as_str endpoint_capability.Processors = ''processors''"
| "endpoint_capability_as_str endpoint_capability.SecureBoot = ''secure-boot''"
| "endpoint_capability_as_str endpoint_capability.Sensors = ''sensors''"
| "endpoint_capability_as_str endpoint_capability.SessionService = ''session-service''"
| "endpoint_capability_as_str endpoint_capability.Storages = ''storages''"
| "endpoint_capability_as_str endpoint_capability.TaskService = ''task-service''"
| "endpoint_capability_as_str endpoint_capability.TelemetryService = ''telemetry-service''"
| "endpoint_capability_as_str endpoint_capability.Thermal = ''thermal''"
| "endpoint_capability_as_str endpoint_capability.UpdateService = ''update-service''"
| "endpoint_capability_as_str endpoint_capability.Ports = ''ports''"
| "endpoint_capability_as_str endpoint_capability.BmcHttp = ''bmc-http''"
| "endpoint_capability_as_str endpoint_capability.UpdateServiceDeprecated = ''update-service-deprecated''"
| "endpoint_capability_as_str endpoint_capability.OemAmi = ''oem-ami''"
| "endpoint_capability_as_str endpoint_capability.OemDell = ''oem-dell''"
| "endpoint_capability_as_str endpoint_capability.OemDellAttributes = ''oem-dell-attributes''"
| "endpoint_capability_as_str endpoint_capability.OemDelta = ''oem-delta''"
| "endpoint_capability_as_str endpoint_capability.OemHpe = ''oem-hpe''"
| "endpoint_capability_as_str endpoint_capability.OemLenovo = ''oem-lenovo''"
| "endpoint_capability_as_str endpoint_capability.OemLiteOn = ''oem-liteon''"
| "endpoint_capability_as_str endpoint_capability.OemNvidia = ''oem-nvidia''"
| "endpoint_capability_as_str endpoint_capability.OemNvidiaCper = ''oem-nvidia-cper''"
| "endpoint_capability_as_str endpoint_capability.OemNvidiaFabrics = ''oem-nvidia-fabrics''"
| "endpoint_capability_as_str endpoint_capability.OemNvidiaPowerManagement = ''oem-nvidia-power-management''"
| "endpoint_capability_as_str endpoint_capability.OemNvidiaProfiles = ''oem-nvidia-profiles''"
| "endpoint_capability_as_str endpoint_capability.OemNvidiaSecurity = ''oem-nvidia-security''"
| "endpoint_capability_as_str endpoint_capability.OemSupermicro = ''oem-supermicro''"

fun upstream_feature :: "endpoint_capability \<Rightarrow> string" where
  "upstream_feature endpoint_capability.Accounts = ''accounts''"
| "upstream_feature endpoint_capability.Assembly = ''assembly''"
| "upstream_feature endpoint_capability.Bios = ''bios''"
| "upstream_feature endpoint_capability.BootOptions = ''boot-options''"
| "upstream_feature endpoint_capability.Chassis = ''chassis''"
| "upstream_feature endpoint_capability.Systems = ''computer-systems''"
| "upstream_feature endpoint_capability.Controls = ''controls''"
| "upstream_feature endpoint_capability.EnvironmentMetrics = ''environment-metrics''"
| "upstream_feature endpoint_capability.EthernetInterfaces = ''ethernet-interfaces''"
| "upstream_feature endpoint_capability.EventService = ''event-service''"
| "upstream_feature endpoint_capability.HostInterfaces = ''host-interfaces''"
| "upstream_feature endpoint_capability.LogServices = ''log-services''"
| "upstream_feature endpoint_capability.ManagerNetworkProtocol = ''manager-network-protocol''"
| "upstream_feature endpoint_capability.Managers = ''managers''"
| "upstream_feature endpoint_capability.Memory = ''memory''"
| "upstream_feature endpoint_capability.NetworkAdapters = ''network-adapters''"
| "upstream_feature endpoint_capability.NetworkDeviceFunctions = ''network-device-functions''"
| "upstream_feature endpoint_capability.PcieDevices = ''pcie-devices''"
| "upstream_feature endpoint_capability.Power = ''power''"
| "upstream_feature endpoint_capability.PowerEquipment = ''power-equipment''"
| "upstream_feature endpoint_capability.PowerSupplies = ''power-supplies''"
| "upstream_feature endpoint_capability.Processors = ''processors''"
| "upstream_feature endpoint_capability.SecureBoot = ''secure-boot''"
| "upstream_feature endpoint_capability.Sensors = ''sensors''"
| "upstream_feature endpoint_capability.SessionService = ''session-service''"
| "upstream_feature endpoint_capability.Storages = ''storages''"
| "upstream_feature endpoint_capability.TaskService = ''task-service''"
| "upstream_feature endpoint_capability.TelemetryService = ''telemetry-service''"
| "upstream_feature endpoint_capability.Thermal = ''thermal''"
| "upstream_feature endpoint_capability.UpdateService = ''update-service''"
| "upstream_feature endpoint_capability.Ports = ''ports''"
| "upstream_feature endpoint_capability.BmcHttp = ''bmc-http''"
| "upstream_feature endpoint_capability.UpdateServiceDeprecated = ''update-service-deprecated''"
| "upstream_feature endpoint_capability.OemAmi = ''oem-ami''"
| "upstream_feature endpoint_capability.OemDell = ''oem-dell''"
| "upstream_feature endpoint_capability.OemDellAttributes = ''oem-dell-attributes''"
| "upstream_feature endpoint_capability.OemDelta = ''oem-delta''"
| "upstream_feature endpoint_capability.OemHpe = ''oem-hpe''"
| "upstream_feature endpoint_capability.OemLenovo = ''oem-lenovo''"
| "upstream_feature endpoint_capability.OemLiteOn = ''oem-liteon''"
| "upstream_feature endpoint_capability.OemNvidia = ''oem-nvidia''"
| "upstream_feature endpoint_capability.OemNvidiaCper = ''oem-nvidia-cper''"
| "upstream_feature endpoint_capability.OemNvidiaFabrics = ''oem-nvidia-fabrics''"
| "upstream_feature endpoint_capability.OemNvidiaPowerManagement = ''oem-nvidia-power-management''"
| "upstream_feature endpoint_capability.OemNvidiaProfiles = ''oem-nvidia-profiles''"
| "upstream_feature endpoint_capability.OemNvidiaSecurity = ''oem-nvidia-security''"
| "upstream_feature endpoint_capability.OemSupermicro = ''oem-supermicro''"

datatype capability_classification = UserFacing | Infrastructure | LegacyCompatibility | Internal

fun classification :: "endpoint_capability \<Rightarrow> capability_classification" where
  "classification endpoint_capability.SessionService = capability_classification.Infrastructure"
| "classification endpoint_capability.TaskService = capability_classification.Infrastructure"
| "classification endpoint_capability.BmcHttp = capability_classification.Infrastructure"
| "classification endpoint_capability.UpdateServiceDeprecated = capability_classification.LegacyCompatibility"
| "classification endpoint_capability.Accounts = capability_classification.UserFacing"
| "classification endpoint_capability.Assembly = capability_classification.UserFacing"
| "classification endpoint_capability.Bios = capability_classification.UserFacing"
| "classification endpoint_capability.BootOptions = capability_classification.UserFacing"
| "classification endpoint_capability.Chassis = capability_classification.UserFacing"
| "classification endpoint_capability.Systems = capability_classification.UserFacing"
| "classification endpoint_capability.Controls = capability_classification.UserFacing"
| "classification endpoint_capability.EnvironmentMetrics = capability_classification.UserFacing"
| "classification endpoint_capability.EthernetInterfaces = capability_classification.UserFacing"
| "classification endpoint_capability.EventService = capability_classification.UserFacing"
| "classification endpoint_capability.HostInterfaces = capability_classification.UserFacing"
| "classification endpoint_capability.LogServices = capability_classification.UserFacing"
| "classification endpoint_capability.ManagerNetworkProtocol = capability_classification.UserFacing"
| "classification endpoint_capability.Managers = capability_classification.UserFacing"
| "classification endpoint_capability.Memory = capability_classification.UserFacing"
| "classification endpoint_capability.NetworkAdapters = capability_classification.UserFacing"
| "classification endpoint_capability.NetworkDeviceFunctions = capability_classification.UserFacing"
| "classification endpoint_capability.PcieDevices = capability_classification.UserFacing"
| "classification endpoint_capability.Power = capability_classification.UserFacing"
| "classification endpoint_capability.PowerEquipment = capability_classification.UserFacing"
| "classification endpoint_capability.PowerSupplies = capability_classification.UserFacing"
| "classification endpoint_capability.Processors = capability_classification.UserFacing"
| "classification endpoint_capability.SecureBoot = capability_classification.UserFacing"
| "classification endpoint_capability.Sensors = capability_classification.UserFacing"
| "classification endpoint_capability.Storages = capability_classification.UserFacing"
| "classification endpoint_capability.TelemetryService = capability_classification.UserFacing"
| "classification endpoint_capability.Thermal = capability_classification.UserFacing"
| "classification endpoint_capability.UpdateService = capability_classification.UserFacing"
| "classification endpoint_capability.Ports = capability_classification.UserFacing"
| "classification endpoint_capability.OemAmi = capability_classification.UserFacing"
| "classification endpoint_capability.OemDell = capability_classification.UserFacing"
| "classification endpoint_capability.OemDellAttributes = capability_classification.UserFacing"
| "classification endpoint_capability.OemDelta = capability_classification.UserFacing"
| "classification endpoint_capability.OemHpe = capability_classification.UserFacing"
| "classification endpoint_capability.OemLenovo = capability_classification.UserFacing"
| "classification endpoint_capability.OemLiteOn = capability_classification.UserFacing"
| "classification endpoint_capability.OemNvidia = capability_classification.UserFacing"
| "classification endpoint_capability.OemNvidiaCper = capability_classification.UserFacing"
| "classification endpoint_capability.OemNvidiaFabrics = capability_classification.UserFacing"
| "classification endpoint_capability.OemNvidiaPowerManagement = capability_classification.UserFacing"
| "classification endpoint_capability.OemNvidiaProfiles = capability_classification.UserFacing"
| "classification endpoint_capability.OemNvidiaSecurity = capability_classification.UserFacing"
| "classification endpoint_capability.OemSupermicro = capability_classification.UserFacing"

section \<open>Pages\<close>

datatype ui_location =
    Overview | Systems | Chassis | Managers | Assembly | Processors | Memory | Pcie | Network
  | Power | Thermal | Sensors | Bios | Boot | SecureBoot | Storage | Accounts | Logs | Events
  | Telemetry | Update | Tasks | Oem | Diagnostics | Infrastructure

datatype ui_location_parse_error = UiLocationParseError

fun ui_location_as_str :: "ui_location \<Rightarrow> string" where
  "ui_location_as_str ui_location.Overview = ''overview''"
| "ui_location_as_str ui_location.Systems = ''systems''"
| "ui_location_as_str ui_location.Chassis = ''chassis''"
| "ui_location_as_str ui_location.Managers = ''managers''"
| "ui_location_as_str ui_location.Assembly = ''assembly''"
| "ui_location_as_str ui_location.Processors = ''processors''"
| "ui_location_as_str ui_location.Memory = ''memory''"
| "ui_location_as_str ui_location.Pcie = ''pcie''"
| "ui_location_as_str ui_location.Network = ''network''"
| "ui_location_as_str ui_location.Power = ''power''"
| "ui_location_as_str ui_location.Thermal = ''thermal''"
| "ui_location_as_str ui_location.Sensors = ''sensors''"
| "ui_location_as_str ui_location.Bios = ''bios''"
| "ui_location_as_str ui_location.Boot = ''boot''"
| "ui_location_as_str ui_location.SecureBoot = ''secure-boot''"
| "ui_location_as_str ui_location.Storage = ''storage''"
| "ui_location_as_str ui_location.Accounts = ''accounts''"
| "ui_location_as_str ui_location.Logs = ''logs''"
| "ui_location_as_str ui_location.Events = ''events''"
| "ui_location_as_str ui_location.Telemetry = ''telemetry''"
| "ui_location_as_str ui_location.Update = ''update''"
| "ui_location_as_str ui_location.Tasks = ''tasks''"
| "ui_location_as_str ui_location.Oem = ''oem''"
| "ui_location_as_str ui_location.Diagnostics = ''diagnostics''"
| "ui_location_as_str ui_location.Infrastructure = ''infrastructure''"

definition ui_location_codes :: "(string \<times> ui_location) list" where
  "ui_location_codes =
    [(''overview'', ui_location.Overview), (''systems'', ui_location.Systems),
     (''chassis'', ui_location.Chassis), (''managers'', ui_location.Managers),
     (''assembly'', ui_location.Assembly), (''processors'', ui_location.Processors),
     (''memory'', ui_location.Memory), (''pcie'', ui_location.Pcie),
     (''network'', ui_location.Network), (''power'', ui_location.Power),
     (''thermal'', ui_location.Thermal), (''sensors'', ui_location.Sensors),
     (''bios'', ui_location.Bios), (''boot'', ui_location.Boot),
     (''secure-boot'', ui_location.SecureBoot), (''storage'', ui_location.Storage),
     (''accounts'', ui_location.Accounts), (''logs'', ui_location.Logs),
     (''events'', ui_location.Events), (''telemetry'', ui_location.Telemetry),
     (''update'', ui_location.Update), (''tasks'', ui_location.Tasks),
     (''oem'', ui_location.Oem), (''diagnostics'', ui_location.Diagnostics),
     (''infrastructure'', ui_location.Infrastructure)]"

definition ui_location_from_str :: "string \<Rightarrow> ui_location_parse_error + ui_location" where
  "ui_location_from_str value = ok_or UiLocationParseError (map_of ui_location_codes value)"

fun capability_ui_location :: "endpoint_capability \<Rightarrow> ui_location" where
  "capability_ui_location endpoint_capability.Accounts = ui_location.Accounts"
| "capability_ui_location endpoint_capability.Assembly = ui_location.Assembly"
| "capability_ui_location endpoint_capability.Bios = ui_location.Bios"
| "capability_ui_location endpoint_capability.BootOptions = ui_location.Boot"
| "capability_ui_location endpoint_capability.Chassis = ui_location.Chassis"
| "capability_ui_location endpoint_capability.Controls = ui_location.Power"
| "capability_ui_location endpoint_capability.Power = ui_location.Power"
| "capability_ui_location endpoint_capability.PowerEquipment = ui_location.Power"
| "capability_ui_location endpoint_capability.PowerSupplies = ui_location.Power"
| "capability_ui_location endpoint_capability.EnvironmentMetrics = ui_location.Sensors"
| "capability_ui_location endpoint_capability.Sensors = ui_location.Sensors"
| "capability_ui_location endpoint_capability.EthernetInterfaces = ui_location.Network"
| "capability_ui_location endpoint_capability.HostInterfaces = ui_location.Network"
| "capability_ui_location endpoint_capability.NetworkAdapters = ui_location.Network"
| "capability_ui_location endpoint_capability.NetworkDeviceFunctions = ui_location.Network"
| "capability_ui_location endpoint_capability.Ports = ui_location.Network"
| "capability_ui_location endpoint_capability.EventService = ui_location.Events"
| "capability_ui_location endpoint_capability.LogServices = ui_location.Logs"
| "capability_ui_location endpoint_capability.ManagerNetworkProtocol = ui_location.Managers"
| "capability_ui_location endpoint_capability.Managers = ui_location.Managers"
| "capability_ui_location endpoint_capability.Memory = ui_location.Memory"
| "capability_ui_location endpoint_capability.PcieDevices = ui_location.Pcie"
| "capability_ui_location endpoint_capability.Processors = ui_location.Processors"
| "capability_ui_location endpoint_capability.SecureBoot = ui_location.SecureBoot"
| "capability_ui_location endpoint_capability.SessionService = ui_location.Infrastructure"
| "capability_ui_location endpoint_capability.BmcHttp = ui_location.Infrastructure"
| "capability_ui_location endpoint_capability.Storages = ui_location.Storage"
| "capability_ui_location endpoint_capability.TaskService = ui_location.Tasks"
| "capability_ui_location endpoint_capability.TelemetryService = ui_location.Telemetry"
| "capability_ui_location endpoint_capability.Thermal = ui_location.Thermal"
| "capability_ui_location endpoint_capability.UpdateService = ui_location.Update"
| "capability_ui_location endpoint_capability.UpdateServiceDeprecated = ui_location.Update"
| "capability_ui_location endpoint_capability.Systems = ui_location.Systems"
| "capability_ui_location endpoint_capability.OemAmi = ui_location.Oem"
| "capability_ui_location endpoint_capability.OemDell = ui_location.Oem"
| "capability_ui_location endpoint_capability.OemDellAttributes = ui_location.Oem"
| "capability_ui_location endpoint_capability.OemDelta = ui_location.Oem"
| "capability_ui_location endpoint_capability.OemHpe = ui_location.Oem"
| "capability_ui_location endpoint_capability.OemLenovo = ui_location.Oem"
| "capability_ui_location endpoint_capability.OemLiteOn = ui_location.Oem"
| "capability_ui_location endpoint_capability.OemNvidia = ui_location.Oem"
| "capability_ui_location endpoint_capability.OemNvidiaCper = ui_location.Oem"
| "capability_ui_location endpoint_capability.OemNvidiaFabrics = ui_location.Oem"
| "capability_ui_location endpoint_capability.OemNvidiaPowerManagement = ui_location.Oem"
| "capability_ui_location endpoint_capability.OemNvidiaProfiles = ui_location.Oem"
| "capability_ui_location endpoint_capability.OemNvidiaSecurity = ui_location.Oem"
| "capability_ui_location endpoint_capability.OemSupermicro = ui_location.Oem"

section \<open>The ledger\<close>

definition CAPABILITY_LEDGER_ORDER :: "endpoint_capability list" where
  "CAPABILITY_LEDGER_ORDER =
    [endpoint_capability.Accounts, endpoint_capability.Assembly, endpoint_capability.Bios,
     endpoint_capability.BootOptions, endpoint_capability.Chassis, endpoint_capability.Systems,
     endpoint_capability.Controls, endpoint_capability.EnvironmentMetrics,
     endpoint_capability.EthernetInterfaces, endpoint_capability.EventService,
     endpoint_capability.HostInterfaces, endpoint_capability.LogServices,
     endpoint_capability.ManagerNetworkProtocol, endpoint_capability.Managers,
     endpoint_capability.Memory, endpoint_capability.NetworkAdapters,
     endpoint_capability.NetworkDeviceFunctions, endpoint_capability.PcieDevices,
     endpoint_capability.Power, endpoint_capability.PowerEquipment,
     endpoint_capability.PowerSupplies, endpoint_capability.Processors,
     endpoint_capability.SecureBoot, endpoint_capability.Sensors,
     endpoint_capability.SessionService, endpoint_capability.Storages,
     endpoint_capability.TaskService, endpoint_capability.TelemetryService,
     endpoint_capability.Thermal, endpoint_capability.UpdateService, endpoint_capability.Ports,
     endpoint_capability.BmcHttp, endpoint_capability.UpdateServiceDeprecated,
     endpoint_capability.OemAmi, endpoint_capability.OemDell,
     endpoint_capability.OemDellAttributes, endpoint_capability.OemDelta,
     endpoint_capability.OemHpe, endpoint_capability.OemLenovo, endpoint_capability.OemLiteOn,
     endpoint_capability.OemNvidia, endpoint_capability.OemNvidiaCper,
     endpoint_capability.OemNvidiaFabrics, endpoint_capability.OemNvidiaPowerManagement,
     endpoint_capability.OemNvidiaProfiles, endpoint_capability.OemNvidiaSecurity,
     endpoint_capability.OemSupermicro]"

definition OEM_CAPABILITY_LEDGER_ORDER :: "endpoint_capability list" where
  "OEM_CAPABILITY_LEDGER_ORDER =
    [endpoint_capability.OemAmi, endpoint_capability.OemDell,
     endpoint_capability.OemDellAttributes, endpoint_capability.OemDelta,
     endpoint_capability.OemHpe, endpoint_capability.OemLenovo, endpoint_capability.OemLiteOn,
     endpoint_capability.OemNvidia, endpoint_capability.OemNvidiaCper,
     endpoint_capability.OemNvidiaFabrics, endpoint_capability.OemNvidiaPowerManagement,
     endpoint_capability.OemNvidiaProfiles, endpoint_capability.OemNvidiaSecurity,
     endpoint_capability.OemSupermicro]"

definition endpoint_capability_codes :: "(string \<times> endpoint_capability) list" where
  "endpoint_capability_codes =
    [(''accounts'', endpoint_capability.Accounts), (''assembly'', endpoint_capability.Assembly),
     (''bios'', endpoint_capability.Bios), (''boot-options'', endpoint_capability.BootOptions),
     (''chassis'', endpoint_capability.Chassis), (''systems'', endpoint_capability.Systems),
     (''controls'', endpoint_capability.Controls),
     (''environment-metrics'', endpoint_capability.EnvironmentMetrics),
     (''ethernet-interfaces'', endpoint_capability.EthernetInterfaces),
     (''event-service'', endpoint_capability.EventService),
     (''host-interfaces'', endpoint_capability.HostInterfaces),
     (''log-services'', endpoint_capability.LogServices),
     (''manager-network-protocol'', endpoint_capability.ManagerNetworkProtocol),
     (''managers'', endpoint_capability.Managers), (''memory'', endpoint_capability.Memory),
     (''network-adapters'', endpoint_capability.NetworkAdapters),
     (''network-device-functions'', endpoint_capability.NetworkDeviceFunctions),
     (''pcie-devices'', endpoint_capability.PcieDevices), (''power'', endpoint_capability.Power),
     (''power-equipment'', endpoint_capability.PowerEquipment),
     (''power-supplies'', endpoint_capability.PowerSupplies),
     (''processors'', endpoint_capability.Processors),
     (''secure-boot'', endpoint_capability.SecureBoot),
     (''sensors'', endpoint_capability.Sensors),
     (''session-service'', endpoint_capability.SessionService),
     (''storages'', endpoint_capability.Storages),
     (''task-service'', endpoint_capability.TaskService),
     (''telemetry-service'', endpoint_capability.TelemetryService),
     (''thermal'', endpoint_capability.Thermal),
     (''update-service'', endpoint_capability.UpdateService),
     (''ports'', endpoint_capability.Ports), (''bmc-http'', endpoint_capability.BmcHttp),
     (''update-service-deprecated'', endpoint_capability.UpdateServiceDeprecated),
     (''oem-ami'', endpoint_capability.OemAmi), (''oem-dell'', endpoint_capability.OemDell),
     (''oem-dell-attributes'', endpoint_capability.OemDellAttributes),
     (''oem-delta'', endpoint_capability.OemDelta), (''oem-hpe'', endpoint_capability.OemHpe),
     (''oem-lenovo'', endpoint_capability.OemLenovo),
     (''oem-liteon'', endpoint_capability.OemLiteOn),
     (''oem-nvidia'', endpoint_capability.OemNvidia),
     (''oem-nvidia-cper'', endpoint_capability.OemNvidiaCper),
     (''oem-nvidia-fabrics'', endpoint_capability.OemNvidiaFabrics),
     (''oem-nvidia-power-management'', endpoint_capability.OemNvidiaPowerManagement),
     (''oem-nvidia-profiles'', endpoint_capability.OemNvidiaProfiles),
     (''oem-nvidia-security'', endpoint_capability.OemNvidiaSecurity),
     (''oem-supermicro'', endpoint_capability.OemSupermicro)]"

definition endpoint_capability_from_str ::
  "string \<Rightarrow> endpoint_capability_parse_error + endpoint_capability" where
  "endpoint_capability_from_str value =
     ok_or EndpointCapabilityParseError (map_of endpoint_capability_codes value)"

section \<open>Observed states\<close>

datatype capability_state =
    Supported | ReadOnly | Unauthorized | TemporarilyUnavailable | SchemaIncompatible
  | NotAdvertised | NotCompiled

datatype capability_state_parse_error = CapabilityStateParseError

fun capability_state_as_str :: "capability_state \<Rightarrow> string" where
  "capability_state_as_str capability_state.Supported = ''supported''"
| "capability_state_as_str capability_state.ReadOnly = ''read-only''"
| "capability_state_as_str capability_state.Unauthorized = ''unauthorized''"
| "capability_state_as_str capability_state.TemporarilyUnavailable = ''temporarily-unavailable''"
| "capability_state_as_str capability_state.SchemaIncompatible = ''schema-incompatible''"
| "capability_state_as_str capability_state.NotAdvertised = ''not-advertised''"
| "capability_state_as_str capability_state.NotCompiled = ''not-compiled''"

definition capability_state_codes :: "(string \<times> capability_state) list" where
  "capability_state_codes =
    [(''supported'', Supported), (''read-only'', ReadOnly), (''unauthorized'', Unauthorized),
     (''temporarily-unavailable'', TemporarilyUnavailable),
     (''schema-incompatible'', SchemaIncompatible), (''not-advertised'', NotAdvertised),
     (''not-compiled'', NotCompiled)]"

definition capability_state_from_str :: "string \<Rightarrow> capability_state_parse_error + capability_state" where
  "capability_state_from_str value = ok_or CapabilityStateParseError (map_of capability_state_codes value)"

definition is_compiled :: "capability_state \<Rightarrow> bool" where
  "is_compiled st \<longleftrightarrow> \<not> st \<in> {NotCompiled}"

definition is_advertised :: "capability_state \<Rightarrow> bool" where
  "is_advertised st \<longleftrightarrow> \<not> st \<in> {NotCompiled, NotAdvertised}"

definition is_usable :: "capability_state \<Rightarrow> bool" where
  "is_usable st \<longleftrightarrow> st \<in> {Supported, ReadOnly}"

record endpoint_capability_observation =
  ob_capability :: endpoint_capability
  ob_state :: capability_state

definition endpoint_capability_observation_new ::
  "endpoint_capability \<Rightarrow> capability_state \<Rightarrow> endpoint_capability_observation" where
  "endpoint_capability_observation_new capability st = \<lparr>ob_capability = capability, ob_state = st\<rparr>"

section \<open>The codes are stable codes\<close>

lemma endpoint_capability_codes_table:
  "endpoint_capability_codes = map (\<lambda>c. (endpoint_capability_as_str c, c)) CAPABILITY_LEDGER_ORDER"
  by (simp add: endpoint_capability_codes_def CAPABILITY_LEDGER_ORDER_def)

lemma capability_in_ledger: "c \<in> set CAPABILITY_LEDGER_ORDER"
  by (cases c) (simp_all add: CAPABILITY_LEDGER_ORDER_def)

lemma distinct_capability_codes: "distinct (map endpoint_capability_as_str CAPABILITY_LEDGER_ORDER)"
  by (simp add: CAPABILITY_LEDGER_ORDER_def)

interpretation capability_code: stable_code endpoint_capability_as_str endpoint_capability_from_str
  unfolding endpoint_capability_from_str_def
  by (rule code_of_table [OF endpoint_capability_codes_table capability_in_ledger distinct_capability_codes])

lemma ui_location_codes_table:
  "ui_location_codes = map (\<lambda>l. (ui_location_as_str l, l)) (map snd ui_location_codes)"
  by (simp add: ui_location_codes_def)

lemma ui_location_listed: "l \<in> set (map snd ui_location_codes)"
  by (cases l) (simp_all add: ui_location_codes_def)

lemma distinct_ui_location_codes: "distinct (map ui_location_as_str (map snd ui_location_codes))"
  by (simp add: ui_location_codes_def)

interpretation location_code: stable_code ui_location_as_str ui_location_from_str
  unfolding ui_location_from_str_def
  by (rule code_of_table [OF ui_location_codes_table ui_location_listed distinct_ui_location_codes])

lemma capability_state_codes_table:
  "capability_state_codes = map (\<lambda>l. (capability_state_as_str l, l)) (map snd capability_state_codes)"
  by (simp add: capability_state_codes_def)

lemma capability_state_listed: "l \<in> set (map snd capability_state_codes)"
  by (cases l) (simp_all add: capability_state_codes_def)

lemma distinct_capability_state_codes: "distinct (map capability_state_as_str (map snd capability_state_codes))"
  by (simp add: capability_state_codes_def)

interpretation capability_state_code: stable_code capability_state_as_str capability_state_from_str
  unfolding capability_state_from_str_def
  by (rule code_of_table [OF capability_state_codes_table capability_state_listed distinct_capability_state_codes])

section \<open>The ledger's structure\<close>

lemma ledger_split:
  "CAPABILITY_LEDGER_ORDER = take 33 CAPABILITY_LEDGER_ORDER @ OEM_CAPABILITY_LEDGER_ORDER"
  by (simp add: CAPABILITY_LEDGER_ORDER_def OEM_CAPABILITY_LEDGER_ORDER_def)

lemma oem_page_iff:
  "capability_ui_location c = ui_location.Oem \<longleftrightarrow> c \<in> set OEM_CAPABILITY_LEDGER_ORDER"
  by (cases c) (simp_all add: OEM_CAPABILITY_LEDGER_ORDER_def)

lemma upstream_feature_is_code:
  "c \<noteq> endpoint_capability.Systems \<Longrightarrow> upstream_feature c = endpoint_capability_as_str c"
  by (cases c) simp_all

lemma upstream_feature_inject: "upstream_feature c = upstream_feature d \<longleftrightarrow> c = d"
proof -
  have sys: "upstream_feature x = ''computer-systems'' \<longleftrightarrow> x = endpoint_capability.Systems" for x
    by (cases x) simp_all
  show ?thesis
  proof (cases "c = endpoint_capability.Systems \<or> d = endpoint_capability.Systems")
    case True
    then show ?thesis using sys [of c] sys [of d] by auto
  next
    case False
    then show ?thesis by (simp add: upstream_feature_is_code capability_code.as_str_inject)
  qed
qed

lemma classification_cases:
  "classification c = LegacyCompatibility \<longleftrightarrow> c = UpdateServiceDeprecated"
  "classification c = capability_classification.Infrastructure \<longleftrightarrow> c \<in> {SessionService, TaskService, BmcHttp}"
  "classification c \<noteq> Internal"
  by (cases c; simp)+

lemma capability_state_layers:
  "is_usable st \<Longrightarrow> is_advertised st" "is_advertised st \<Longrightarrow> is_compiled st"
  by (cases st; simp add: is_usable_def is_advertised_def is_compiled_def)+

section \<open>Properties\<close>

text \<open>
  The capability ledger is a faithful inventory: it lists every capability exactly once, 47
  in all, ending with the 14 OEM capabilities; a code parses to at most one capability and every
  capability parses back from its code; no two capabilities compile from the same upstream
  feature; and the OEM page presents exactly the OEM part of the ledger.
\<close>

theorem capability_ledger_is_faithful:
  "length CAPABILITY_LEDGER_ORDER = 47 \<and> distinct CAPABILITY_LEDGER_ORDER \<and> set CAPABILITY_LEDGER_ORDER = UNIV
   \<and> drop 33 CAPABILITY_LEDGER_ORDER = OEM_CAPABILITY_LEDGER_ORDER
   \<and> (endpoint_capability_from_str s = Inr c \<longleftrightarrow> s = endpoint_capability_as_str c)
   \<and> inj upstream_feature
   \<and> {c. capability_ui_location c = ui_location.Oem} = set OEM_CAPABILITY_LEDGER_ORDER"
proof (intro conjI)
  show "length CAPABILITY_LEDGER_ORDER = 47" by (simp add: CAPABILITY_LEDGER_ORDER_def)
  show "distinct CAPABILITY_LEDGER_ORDER" using distinct_capability_codes by (simp add: distinct_map)
  show "set CAPABILITY_LEDGER_ORDER = UNIV" using capability_in_ledger by blast
  show "drop 33 CAPABILITY_LEDGER_ORDER = OEM_CAPABILITY_LEDGER_ORDER"
    by (simp add: CAPABILITY_LEDGER_ORDER_def OEM_CAPABILITY_LEDGER_ORDER_def)
  show "endpoint_capability_from_str s = Inr c \<longleftrightarrow> s = endpoint_capability_as_str c"
    by (rule capability_code.from_str_Inr_iff)
  show "inj upstream_feature" by (simp add: inj_def upstream_feature_inject)
  show "{c. capability_ui_location c = ui_location.Oem} = set OEM_CAPABILITY_LEDGER_ORDER"
    by (simp add: oem_page_iff)
qed

end
