(* ===== verification/Center_Protocol.thy ===== *)
theory Center_Protocol
  imports Capability Rust_Text
begin

text \<open>
  The site-to-center wire of \<open>center-protocol/src\<close>: the frame codec (\<open>framing.rs\<close>) and the
  version negotiation (\<open>negotiation.rs\<close>). The protobuf envelope type and its codec are generated
  by \<open>prost\<close>, so they are the record \<open>prost_message\<close> of the three functions the codec calls; the
  SHA-256 digest is an argument. A \<open>usize\<close> is a natural number (64-bit targets).
\<close>

section \<open>Constants\<close>

definition CENTER_PROTOCOL_VERSION :: "32 word" where
  "CENTER_PROTOCOL_VERSION = 1"

definition MAX_FRAME_BYTES :: nat where
  "MAX_FRAME_BYTES = 8 * 1024 * 1024"

definition FRAME_HEADER_BYTES :: nat where
  "FRAME_HEADER_BYTES = 4"

definition NV_REDFISH_BASELINE :: ustring where
  "NV_REDFISH_BASELINE = ascii ''0.13.0''"

section \<open>Framing\<close>

record ('e, 'x) prost_message =
  encoded_len :: "'e \<Rightarrow> nat"
  encode_raw :: "'e \<Rightarrow> 'x + byte list"
  decode_raw :: "byte list \<Rightarrow> 'x + 'e"

datatype 'x frame_error =
    TooShort (frame_bytes: nat) (header_bytes: nat)
  | HeaderTooLarge (declared_bytes: nat) (max_bytes: nat)
  | Truncated (declared_bytes: nat) (present_bytes: nat)
  | TrailingBytes (declared_bytes: nat) (extra_bytes: nat)
  | EncodeLimit (payload_bytes: nat) (max_bytes: nat)
  | FrameDecode 'x
  | FrameEncode 'x

definition encode_frame :: "('e, 'x) prost_message \<Rightarrow> 'e \<Rightarrow> 'x frame_error + byte list" where
  "encode_frame codec envelope =
     (let payload_bytes = encoded_len codec envelope in
      if payload_bytes > MAX_FRAME_BYTES then Inl (EncodeLimit payload_bytes MAX_FRAME_BYTES)
      else if payload_bytes \<ge> 2 ^ 32 then Inl (EncodeLimit payload_bytes MAX_FRAME_BYTES)
      else rbind (map_err FrameEncode (encode_raw codec envelope)) (\<lambda>payload.
        Inr (be_bytes FRAME_HEADER_BYTES payload_bytes @ payload)))"

definition decode_frame :: "('e, 'x) prost_message \<Rightarrow> byte list \<Rightarrow> 'x frame_error + 'e" where
  "decode_frame codec frame =
     (if length frame < FRAME_HEADER_BYTES then Inl (TooShort (length frame) FRAME_HEADER_BYTES)
      else let payload = drop FRAME_HEADER_BYTES frame;
               declared = be_value (take FRAME_HEADER_BYTES frame) in
        if declared > MAX_FRAME_BYTES then Inl (HeaderTooLarge declared MAX_FRAME_BYTES)
        else if length payload < declared then Inl (Truncated declared (length payload))
        else if length payload > declared then Inl (TrailingBytes declared (length payload - declared))
        else map_err FrameDecode (decode_raw codec payload))"

text \<open>What \<open>prost\<close> documents: the encoding has the announced length and decodes to the message.\<close>

definition prost_ok :: "('e, 'x) prost_message \<Rightarrow> bool" where
  "prost_ok codec \<longleftrightarrow>
     (\<forall>e bs. encode_raw codec e = Inr bs \<longrightarrow>
        length bs = encoded_len codec e \<and> decode_raw codec bs = Inr e)"

section \<open>Negotiation\<close>

record hello =
  product_version :: ustring
  center_protocol_version :: "32 word"
  nv_redfish_baseline :: ustring
  hello_ledger_hash :: "byte list"
  instance_id :: ustring
  site_name :: ustring

datatype negotiation_reason =
  ProtocolMismatch | BaselineMismatch | LedgerMismatch | NotBound | IdentityMismatch

datatype negotiation_decision = Compatible | Rejected negotiation_reason

datatype negotiation_reason_parse_error = NegotiationReasonParseError

fun negotiation_reason_as_str :: "negotiation_reason \<Rightarrow> string" where
  "negotiation_reason_as_str ProtocolMismatch = ''protocol-mismatch''"
| "negotiation_reason_as_str BaselineMismatch = ''baseline-mismatch''"
| "negotiation_reason_as_str LedgerMismatch = ''ledger-mismatch''"
| "negotiation_reason_as_str NotBound = ''not-bound''"
| "negotiation_reason_as_str IdentityMismatch = ''identity-mismatch''"

definition negotiation_reason_codes :: "(string \<times> negotiation_reason) list" where
  "negotiation_reason_codes =
    [(''protocol-mismatch'', ProtocolMismatch), (''baseline-mismatch'', BaselineMismatch),
     (''ledger-mismatch'', LedgerMismatch), (''not-bound'', NotBound),
     (''identity-mismatch'', IdentityMismatch)]"

definition negotiation_reason_from_str ::
  "string \<Rightarrow> negotiation_reason_parse_error + negotiation_reason" where
  "negotiation_reason_from_str value =
     ok_or NegotiationReasonParseError (map_of negotiation_reason_codes value)"

text \<open>The bytes fed to the digest: the codes one after the other, with no separator.\<close>

definition ledger_bytes :: "string list \<Rightarrow> byte list" where
  "ledger_bytes codes = concat (map (\<lambda>code. utf8_encode (ascii code)) codes)"

definition capability_ledger_hash :: "(byte list \<Rightarrow> byte list) \<Rightarrow> byte list" where
  "capability_ledger_hash sha256 =
     sha256 (ledger_bytes (map endpoint_capability_as_str CAPABILITY_LEDGER_ORDER))"

definition negotiate :: "(byte list \<Rightarrow> byte list) \<Rightarrow> hello \<Rightarrow> negotiation_decision" where
  "negotiate sha256 h =
     (if center_protocol_version h \<noteq> CENTER_PROTOCOL_VERSION then Rejected ProtocolMismatch
      else if nv_redfish_baseline h \<noteq> NV_REDFISH_BASELINE then Rejected BaselineMismatch
      else if hello_ledger_hash h \<noteq> capability_ledger_hash sha256 then Rejected LedgerMismatch
      else Compatible)"

section \<open>Lemmas\<close>

lemma negotiation_reason_codes_table:
  "negotiation_reason_codes = map (\<lambda>r. (negotiation_reason_as_str r, r)) (map snd negotiation_reason_codes)"
  by (simp add: negotiation_reason_codes_def)

lemma negotiation_reason_listed: "r \<in> set (map snd negotiation_reason_codes)"
  by (cases r) (simp_all add: negotiation_reason_codes_def)

lemma distinct_negotiation_reason_codes:
  "distinct (map negotiation_reason_as_str (map snd negotiation_reason_codes))"
  by (simp add: negotiation_reason_codes_def)

interpretation reason_code: stable_code negotiation_reason_as_str negotiation_reason_from_str
  unfolding negotiation_reason_from_str_def
  by (rule code_of_table [OF negotiation_reason_codes_table negotiation_reason_listed
        distinct_negotiation_reason_codes])

lemma frame_length_fits: "n \<le> MAX_FRAME_BYTES \<Longrightarrow> be_value (be_bytes FRAME_HEADER_BYTES n) = n"
  by (rule be_value_be_bytes) (simp add: MAX_FRAME_BYTES_def FRAME_HEADER_BYTES_def)

lemma encode_frame_Inr:
  "encode_frame codec e = Inr f \<longleftrightarrow>
     (\<exists>payload. encode_raw codec e = Inr payload \<and> encoded_len codec e \<le> MAX_FRAME_BYTES
        \<and> f = be_bytes FRAME_HEADER_BYTES (encoded_len codec e) @ payload)"
  by (auto simp: encode_frame_def Let_def result_simps MAX_FRAME_BYTES_def)

lemma decode_frame_Inr:
  "decode_frame codec f = Inr e \<longleftrightarrow>
     (\<exists>payload. f = be_bytes FRAME_HEADER_BYTES (length payload) @ payload
        \<and> length payload \<le> MAX_FRAME_BYTES \<and> decode_raw codec payload = Inr e)"
proof
  assume dec: "decode_frame codec f = Inr e"
  let ?h = "take FRAME_HEADER_BYTES f" and ?p = "drop FRAME_HEADER_BYTES f"
  have len: "length ?h = FRAME_HEADER_BYTES" and n: "length ?p = be_value ?h" "length ?p \<le> MAX_FRAME_BYTES"
    and p: "decode_raw codec ?p = Inr e"
    using dec by (auto simp: decode_frame_def Let_def result_simps split: if_splits)
  have "be_bytes FRAME_HEADER_BYTES (length ?p) = ?h"
    using be_bytes_be_value [of ?h] unfolding len n(1) .
  then show "\<exists>payload. f = be_bytes FRAME_HEADER_BYTES (length payload) @ payload
        \<and> length payload \<le> MAX_FRAME_BYTES \<and> decode_raw codec payload = Inr e"
    using n(2) p by (intro exI [of _ ?p]) simp
qed (auto simp: decode_frame_def frame_length_fits)

lemma frame_prefix_rejected:
  assumes "length payload \<le> MAX_FRAME_BYTES" "be_bytes FRAME_HEADER_BYTES (length payload) @ payload = p @ q" "q \<noteq> []"
  shows "decode_frame codec p \<in> {Inl (TooShort (length p) FRAME_HEADER_BYTES),
           Inl (Truncated (length payload) (length p - FRAME_HEADER_BYTES))}"
proof (cases "length p < FRAME_HEADER_BYTES")
  case True
  then show ?thesis by (simp add: decode_frame_def)
next
  case False
  have "take FRAME_HEADER_BYTES (p @ q) = be_bytes FRAME_HEADER_BYTES (length payload)"
    unfolding assms(2) [symmetric] by simp
  with False have h: "take FRAME_HEADER_BYTES p = be_bytes FRAME_HEADER_BYTES (length payload)" by simp
  have "FRAME_HEADER_BYTES + length payload = length p + length q"
    using arg_cong [OF assms(2), of length] by simp
  with assms(3) have "length p - FRAME_HEADER_BYTES < length payload" using False by (cases q) auto
  with False h assms(1) show ?thesis by (simp add: decode_frame_def frame_length_fits)
qed

lemma frame_extension_rejected:
  assumes "length payload \<le> MAX_FRAME_BYTES" "q \<noteq> []"
  shows "decode_frame codec ((be_bytes FRAME_HEADER_BYTES (length payload) @ payload) @ q)
    = Inl (TrailingBytes (length payload) (length q))"
  using assms by (simp add: decode_frame_def frame_length_fits)

text \<open>
  The digest input does not mark where a code ends: a ledger whose codes are cut differently
  feeds the digest the same bytes.
\<close>

lemma ledger_bytes_ignores_boundaries:
  "ledger_bytes (''accountsa'' # ''ssembly'' # drop 2 (map endpoint_capability_as_str CAPABILITY_LEDGER_ORDER))
     = ledger_bytes (map endpoint_capability_as_str CAPABILITY_LEDGER_ORDER)"
  by (simp add: ledger_bytes_def CAPABILITY_LEDGER_ORDER_def ascii_def utf8_encode_def)

section \<open>Properties\<close>

text \<open>
  C20: Every envelope the protobuf codec can serialize either travels or is refused for its size:
  up to 8 MiB it becomes a frame of exactly four more bytes that the other side decodes to the
  same envelope, above that \<open>EncodeLimit\<close> reports its size and the limit.
\<close>

theorem frame_roundtrip:
  assumes "prost_ok codec" and "encode_raw codec envelope = Inr payload"
  shows "if length payload \<le> MAX_FRAME_BYTES
    then \<exists>frame. encode_frame codec envelope = Inr frame \<and> length frame = 4 + length payload
           \<and> decode_frame codec frame = Inr envelope
    else encode_frame codec envelope = Inl (EncodeLimit (length payload) MAX_FRAME_BYTES)"
proof -
  have p: "length payload = encoded_len codec envelope" "decode_raw codec payload = Inr envelope"
    using assms by (auto simp: prost_ok_def)
  show ?thesis
  proof (cases "length payload \<le> MAX_FRAME_BYTES")
    case True
    let ?f = "be_bytes FRAME_HEADER_BYTES (length payload) @ payload"
    have "encode_frame codec envelope = Inr ?f" using assms(2) p True by (simp add: encode_frame_Inr)
    moreover have "decode_frame codec ?f = Inr envelope" using p True by (auto simp: decode_frame_Inr)
    ultimately show ?thesis using True by (simp add: FRAME_HEADER_BYTES_def)
  next
    case False
    then show ?thesis using p by (simp add: encode_frame_def)
  qed
qed

text \<open>A codec for the witnesses: an envelope is its own list of bytes.\<close>

definition demo_prost :: "(byte list, unit) prost_message" where
  "demo_prost = \<lparr>encoded_len = length, encode_raw = Inr, decode_raw = Inr\<rparr>"

lemma demo_prost_ok: "prost_ok demo_prost"
  by (simp add: prost_ok_def demo_prost_def)

theorem frame_roundtrip_witness:
  "\<exists>frame. encode_frame demo_prost [7, 8] = Inr frame \<and> length frame = 6 \<and> decode_frame demo_prost frame = Inr [7, 8]"
  using frame_roundtrip [OF demo_prost_ok, of "[7, 8]" "[7, 8]"]
  by (simp add: demo_prost_def MAX_FRAME_BYTES_def)

text \<open>
  A frame delimits itself. A frame built by the encoder decodes; if two streams of bytes
  agree and each starts with such a frame, the frames and the rests agree; a stream cut inside
  the frame is refused as \<open>TooShort\<close> or \<open>Truncated\<close>, and any byte after it is refused as
  \<open>TrailingBytes\<close>.
\<close>

theorem frame_self_delimiting:
  assumes "prost_ok codec" and "encode_frame codec a = Inr f" and "encode_frame codec b = Inr g"
  shows "(f @ x = g @ y \<longrightarrow> a = b \<and> f = g \<and> x = y)
    \<and> (f = p @ q \<and> q \<noteq> [] \<longrightarrow> (\<exists>m n. decode_frame codec p = Inl (TooShort m n) \<or> decode_frame codec p = Inl (Truncated m n)))
    \<and> (q \<noteq> [] \<longrightarrow> (\<exists>m. decode_frame codec (f @ q) = Inl (TrailingBytes m (length q))))"
proof -
  obtain pa where pa: "decode_raw codec pa = Inr a" "length pa \<le> MAX_FRAME_BYTES"
    "f = be_bytes FRAME_HEADER_BYTES (length pa) @ pa"
    using assms(1,2) by (auto simp: encode_frame_Inr prost_ok_def)
  obtain pb where pb: "decode_raw codec pb = Inr b" "length pb \<le> MAX_FRAME_BYTES"
    "g = be_bytes FRAME_HEADER_BYTES (length pb) @ pb"
    using assms(1,3) by (auto simp: encode_frame_Inr prost_ok_def)
  have agree: "a = b \<and> f = g \<and> x = y" if same: "f @ x = g @ y"
  proof -
    from same pa(3) pb(3) have h: "be_bytes FRAME_HEADER_BYTES (length pa) = be_bytes FRAME_HEADER_BYTES (length pb)"
      and rest: "pa @ x = pb @ y" by simp_all
    have "length pa = length pb"
      using frame_length_fits [OF pa(2)] frame_length_fits [OF pb(2)] unfolding h by simp
    with rest have "pa = pb" "x = y" by simp_all
    with pa pb show ?thesis by simp
  qed
  have cut: "\<exists>m n. decode_frame codec p = Inl (TooShort m n) \<or> decode_frame codec p = Inl (Truncated m n)"
    if "f = p @ q \<and> q \<noteq> []"
    using frame_prefix_rejected [of pa p q codec] pa that by auto
  have longer: "\<exists>m. decode_frame codec (f @ q) = Inl (TrailingBytes m (length q))" if "q \<noteq> []"
    using frame_extension_rejected [OF pa(2) that, of codec] unfolding pa(3) [symmetric] by blast
  from agree cut longer show ?thesis by blast
qed

theorem frame_self_delimiting_witness:
  "\<exists>m n. decode_frame demo_prost [0, 0, 0, 2, 7] = Inl (TooShort m n)
       \<or> decode_frame demo_prost [0, 0, 0, 2, 7] = Inl (Truncated m n)"
proof -
  have four: "4 = Suc (Suc (Suc (Suc 0)))" by simp
  have "be_bytes 4 (Suc (Suc 0)) = [0, 0, 0, 2]" unfolding four be_bytes.simps by (simp add: byte_of_def)
  then have e: "encode_frame demo_prost [7, 8] = Inr [0, 0, 0, 2, 7, 8]"
    by (simp add: encode_frame_def demo_prost_def MAX_FRAME_BYTES_def FRAME_HEADER_BYTES_def)
  from frame_self_delimiting [OF demo_prost_ok e e, of _ _ "[0, 0, 0, 2, 7]" "[8]"] show ?thesis by simp
qed

text \<open>
  What reaches the application is exactly one bounded envelope: \<open>decode_frame\<close> succeeds on
  exactly the byte strings that are the four-byte big-endian length of a payload of at most 8
  MiB followed by that payload, and returns what the protobuf codec reads from it.
\<close>

theorem decode_frame_accepts_exactly_one_envelope:
  "decode_frame codec frame = Inr envelope \<longleftrightarrow>
     (\<exists>payload. frame = be_bytes 4 (length payload) @ payload
        \<and> length payload \<le> 8388608 \<and> decode_raw codec payload = Inr envelope)"
  unfolding decode_frame_Inr by (simp add: FRAME_HEADER_BYTES_def MAX_FRAME_BYTES_def)

text \<open>
  A site joins exactly when its protocol version, baseline and ledger hash are the center's
  own; a rejection names the first check that fails in that order, never an admission reason,
  and neither the product version, the instance nor the site name has any influence.
\<close>

theorem negotiate_verdict:
  "(negotiate sha256 h = Compatible \<longleftrightarrow>
     center_protocol_version h = 1 \<and> nv_redfish_baseline h = ascii ''0.13.0''
   \<and> hello_ledger_hash h = capability_ledger_hash sha256)
 \<and> (negotiate sha256 h = Rejected r \<longleftrightarrow>
     r = ProtocolMismatch \<and> center_protocol_version h \<noteq> 1
   \<or> r = BaselineMismatch \<and> center_protocol_version h = 1 \<and> nv_redfish_baseline h \<noteq> ascii ''0.13.0''
   \<or> r = LedgerMismatch \<and> center_protocol_version h = 1 \<and> nv_redfish_baseline h = ascii ''0.13.0''
       \<and> hello_ledger_hash h \<noteq> capability_ledger_hash sha256)"
  by (auto simp: negotiate_def CENTER_PROTOCOL_VERSION_def NV_REDFISH_BASELINE_def)

end
