(* ===== verification/Histories.thy ===== *)
theory Histories
  imports Prelude
begin

text \<open>
  Histories of a component: a step maps an operation and a state to a reply and the next state, and a
  history runs a list of operations. The locale \<open>leveled\<close> is the counting argument of the at-most-once
  results: a state has a level that no admissible operation lowers, and a reply that lifts it over a bound is given at
  most once, whatever the history.
\<close>

fun trace :: "('op \<Rightarrow> 's \<Rightarrow> 'r \<times> 's) \<Rightarrow> 'op list \<Rightarrow> 's \<Rightarrow> ('op \<times> 'r) list" where
  "trace step [] s = []"
| "trace step (op # ops) s = (op, fst (step op s)) # trace step ops (snd (step op s))"

fun run :: "('op \<Rightarrow> 's \<Rightarrow> 'r \<times> 's) \<Rightarrow> 'op list \<Rightarrow> 's \<Rightarrow> 's" where
  "run step [] s = s"
| "run step (op # ops) s = run step ops (snd (step op s))"

locale leveled =
  fixes step :: "'op \<Rightarrow> 's \<Rightarrow> 'r \<times> 's"
    and inv :: "'s \<Rightarrow> bool"
    and level :: "'s \<Rightarrow> nat"
    and ok :: "'op \<Rightarrow> bool"
  assumes step_inv: "ok op \<Longrightarrow> inv s \<Longrightarrow> inv (snd (step op s))"
    and step_level: "ok op \<Longrightarrow> inv s \<Longrightarrow> level s \<le> level (snd (step op s))"
begin

lemma run_inv: "list_all ok ops \<Longrightarrow> inv s \<Longrightarrow> inv (run step ops s)"
  by (induction ops arbitrary: s) (simp_all add: step_inv)

lemma run_level: "list_all ok ops \<Longrightarrow> inv s \<Longrightarrow> level s \<le> level (run step ops s)"
  by (induction ops arbitrary: s) (auto intro: order_trans step_level step_inv)

lemma lifted_at_most_once:
  assumes "\<And>op s. ok op \<Longrightarrow> inv s \<Longrightarrow> lifts (op, fst (step op s)) \<Longrightarrow>
      level s \<le> bound \<and> bound < level (snd (step op s))"
    and "inv s" "list_all ok ops"
  shows "length (filter lifts (trace step ops s)) \<le> (if level s \<le> bound then 1 else 0)"
  using assms(2,3)
proof (induction ops arbitrary: s)
  case (Cons op ops)
  let ?s = "snd (step op s)"
  from Cons.prems(2) have ok: "ok op" "list_all ok ops" by simp_all
  have IH: "length (filter lifts (trace step ops ?s)) \<le> (if level ?s \<le> bound then 1 else 0)"
    using step_inv [OF ok(1) Cons.prems(1)] ok(2) by (rule Cons.IH)
  show ?case
    using IH assms(1) [OF ok(1) Cons.prems(1)] step_level [OF ok(1) Cons.prems(1)] by (auto split: if_splits)
qed simp

end

end
