(* ===== verification/Managed_Endpoint.thy ===== *)
theory Managed_Endpoint
  imports Endpoint_Address
begin

text \<open>
  The managed endpoint aggregate, \<open>domain/src/endpoint.rs\<close>: display names, certificate
  fingerprints with their colon-separated text, leaf certificates, the trust decision and the
  endpoint's timeline. SHA-256 is the argument \<open>sha256\<close>; a fingerprint is its 32 bytes.
\<close>

unbundle bit_operations_syntax

section \<open>Display names\<close>

definition MAX_DISPLAY_NAME_CHARS :: nat where
  "MAX_DISPLAY_NAME_CHARS = 128"

datatype endpoint_display_name_error =
  DisplayName_Empty | DisplayName_ControlCharacter | DisplayName_TooLong nat nat

definition display_name_parse :: "ustring \<Rightarrow> endpoint_display_name_error + ustring" where
  "display_name_parse value =
     (let normalized = trim value in
      if normalized = [] then Inl DisplayName_Empty
      else if list_ex is_control normalized then Inl DisplayName_ControlCharacter
      else if length normalized > MAX_DISPLAY_NAME_CHARS
      then Inl (DisplayName_TooLong (length normalized) MAX_DISPLAY_NAME_CHARS)
      else Inr normalized)"

section \<open>Fingerprints\<close>

type_synonym fingerprint = "byte list"

definition FINGERPRINT_LENGTH :: nat where
  "FINGERPRINT_LENGTH = 32"

definition FINGERPRINT_TEXT_LENGTH :: nat where
  "FINGERPRINT_TEXT_LENGTH = FINGERPRINT_LENGTH * 3 - 1"

datatype fingerprint_parse_error = Fingerprint_InvalidLength nat nat | Fingerprint_InvalidEncoding

text \<open>One upper-case hexadecimal digit of \<open>{byte:02X}\<close>, as a code point.\<close>

definition hex_digit :: "nat \<Rightarrow> nat" where
  "hex_digit n = (if n < 10 then 48 + n else 55 + n)"

definition fingerprint_to_string :: "fingerprint \<Rightarrow> ustring" where
  "fingerprint_to_string fp =
     concat (map (\<lambda>(index, b). (if index > 0 then [58] else [])
                   @ [hex_digit (unat b div 16), hex_digit (unat b mod 16)]) (enumerate 0 fp))"

definition decode_hex :: "byte \<Rightarrow> byte option" where
  "decode_hex value =
     (if 48 \<le> value \<and> value \<le> 57 then Some (value - 48)
      else if 97 \<le> value \<and> value \<le> 102 then Some (value - 97 + 10)
      else if 65 \<le> value \<and> value \<le> 70 then Some (value - 65 + 10)
      else None)"

definition fingerprint_byte :: "byte list \<Rightarrow> nat \<Rightarrow> fingerprint_parse_error + byte" where
  "fingerprint_byte encoded index =
     (let offset = index * 3 in
      if index > 0 \<and> encoded ! (offset - 1) \<noteq> 58 then Inl Fingerprint_InvalidEncoding
      else rbind (ok_or Fingerprint_InvalidEncoding (decode_hex (encoded ! offset))) (\<lambda>high.
           rbind (ok_or Fingerprint_InvalidEncoding (decode_hex (encoded ! (offset + 1)))) (\<lambda>low.
           Inr (push_bit 4 high OR low))))"

definition fingerprint_from_str :: "ustring \<Rightarrow> fingerprint_parse_error + fingerprint" where
  "fingerprint_from_str value =
     (let encoded = utf8_encode value in
      if length encoded \<noteq> FINGERPRINT_TEXT_LENGTH
      then Inl (Fingerprint_InvalidLength (length encoded) FINGERPRINT_TEXT_LENGTH)
      else traverse (fingerprint_byte encoded) [0..<FINGERPRINT_LENGTH])"

section \<open>Certificates and trust\<close>

definition MAX_CERTIFICATE_DER_BYTES :: nat where
  "MAX_CERTIFICATE_DER_BYTES = 1024 * 1024"

datatype tls_certificate_error = Certificate_Empty | Certificate_TooLarge nat nat | FingerprintMismatch

record tls_certificate =
  tc_fingerprint :: fingerprint
  tc_certificate_der :: "byte list"

definition validate_certificate_length :: "byte list \<Rightarrow> tls_certificate_error + unit" where
  "validate_certificate_length der =
     (if der = [] then Inl Certificate_Empty
      else if length der > MAX_CERTIFICATE_DER_BYTES
      then Inl (Certificate_TooLarge (length der) MAX_CERTIFICATE_DER_BYTES)
      else Inr ())"

definition certificate_from_der ::
  "(byte list \<Rightarrow> byte list) \<Rightarrow> byte list \<Rightarrow> tls_certificate_error + tls_certificate" where
  "certificate_from_der sha256 der =
     rbind (validate_certificate_length der) (\<lambda>_.
     Inr \<lparr>tc_fingerprint = sha256 der, tc_certificate_der = der\<rparr>)"

definition certificate_from_parts ::
  "(byte list \<Rightarrow> byte list) \<Rightarrow> fingerprint \<Rightarrow> byte list \<Rightarrow> tls_certificate_error + tls_certificate" where
  "certificate_from_parts sha256 fp der =
     rbind (validate_certificate_length der) (\<lambda>_.
     if fp \<noteq> sha256 der then Inl FingerprintMismatch
     else Inr \<lparr>tc_fingerprint = fp, tc_certificate_der = der\<rparr>)"

datatype tls_trust = SystemCa tls_certificate instant | PinnedCertificate tls_certificate instant

fun established_at :: "tls_trust \<Rightarrow> instant" where
  "established_at (SystemCa _ verified_at) = verified_at"
| "established_at (PinnedCertificate _ trusted_at) = trusted_at"

fun trust_certificate :: "tls_trust \<Rightarrow> tls_certificate" where
  "trust_certificate (SystemCa c _) = c"
| "trust_certificate (PinnedCertificate c _) = c"

record tls_identity_changed =
  tic_expected :: fingerprint
  tic_observed :: fingerprint

definition verify_fingerprint :: "tls_trust \<Rightarrow> fingerprint \<Rightarrow> tls_identity_changed + unit" where
  "verify_fingerprint trust observed =
     (let expected = tc_fingerprint (trust_certificate trust) in
      if expected \<noteq> observed then Inl \<lparr>tic_expected = expected, tic_observed = observed\<rparr> else Inr ())"

definition verify_identity :: "tls_trust \<Rightarrow> tls_certificate \<Rightarrow> tls_identity_changed + unit" where
  "verify_identity trust observed = verify_fingerprint trust (tc_fingerprint observed)"

section \<open>The aggregate\<close>

record 'u endpoint =
  ep_id :: uuid
  ep_display_name :: ustring
  ep_address :: 'u
  ep_trust :: tls_trust
  ep_credential_id :: uuid
  ep_created_at :: instant
  ep_updated_at :: instant

datatype endpoint_timeline_error = EndpointTimelineError

definition endpoint_try_new ::
  "uuid \<Rightarrow> ustring \<Rightarrow> 'u \<Rightarrow> tls_trust \<Rightarrow> uuid \<Rightarrow> instant \<Rightarrow> instant \<Rightarrow> endpoint_timeline_error + 'u endpoint" where
  "endpoint_try_new i name address trust credential created updated =
     (if updated < created \<or> established_at trust < created \<or> established_at trust > updated
      then Inl EndpointTimelineError
      else Inr \<lparr>ep_id = i, ep_display_name = name, ep_address = address, ep_trust = trust,
                ep_credential_id = credential, ep_created_at = created, ep_updated_at = updated\<rparr>)"

section \<open>The text of a fingerprint\<close>

text \<open>The text is the digits of every byte behind a colon, without the first colon.\<close>

definition colon_digits :: "fingerprint \<Rightarrow> ustring" where
  "colon_digits fp = concat (map (\<lambda>b. [58, hex_digit (unat b div 16), hex_digit (unat b mod 16)]) fp)"

lemma colon_digits_Cons [simp]:
  "colon_digits (b # fp) = [58, hex_digit (unat b div 16), hex_digit (unat b mod 16)] @ colon_digits fp"
  by (simp add: colon_digits_def)

lemma length_colon_digits [simp]: "length (colon_digits fp) = 3 * length fp"
  by (induction fp) (simp_all add: colon_digits_def)

lemma enumerate_digits:
  "0 < n \<Longrightarrow> concat (map (\<lambda>(index, b). (if index > 0 then [58] else [])
      @ [hex_digit (unat b div 16), hex_digit (unat b mod 16)]) (enumerate n fp)) = colon_digits fp"
  by (induction fp arbitrary: n) (simp_all add: colon_digits_def)

lemma fingerprint_to_string_Cons:
  "fingerprint_to_string (b # fp) = tl (colon_digits (b # fp))"
  by (simp add: fingerprint_to_string_def enumerate_digits)

lemma nth_colon_digits:
  "i < length fp \<Longrightarrow> colon_digits fp ! (3 * i) = 58
     \<and> colon_digits fp ! (3 * i + 1) = hex_digit (unat (fp ! i) div 16)
     \<and> colon_digits fp ! (3 * i + 2) = hex_digit (unat (fp ! i) mod 16)"
proof (induction fp arbitrary: i)
  case (Cons b fp)
  show ?case
  proof (cases i)
    case (Suc j)
    with Cons.prems have "j < length fp" by simp
    then show ?thesis using Cons.IH [of j] unfolding Suc by (simp add: nth_append)
  qed simp
qed simp

lemma nth_fingerprint_text:
  assumes "i < length fp"
  shows "0 < i \<Longrightarrow> fingerprint_to_string fp ! (i * 3 - 1) = 58"
    and "fingerprint_to_string fp ! (i * 3) = hex_digit (unat (fp ! i) div 16)"
    and "fingerprint_to_string fp ! (i * 3 + 1) = hex_digit (unat (fp ! i) mod 16)"
proof -
  obtain b rest where fp: "fp = b # rest" using assms by (cases fp) auto
  have shift: "fingerprint_to_string fp ! k = colon_digits fp ! Suc k" if "Suc k < 3 * length fp" for k
    using that unfolding fp fingerprint_to_string_Cons by (simp only: nth_tl length_tl length_colon_digits)
  show "0 < i \<Longrightarrow> fingerprint_to_string fp ! (i * 3 - 1) = 58"
    using shift [of "i * 3 - 1"] nth_colon_digits [OF assms] assms by (simp add: mult.commute)
  show "fingerprint_to_string fp ! (i * 3) = hex_digit (unat (fp ! i) div 16)"
    using shift [of "i * 3"] nth_colon_digits [OF assms] assms by (simp add: mult.commute)
  show "fingerprint_to_string fp ! (i * 3 + 1) = hex_digit (unat (fp ! i) mod 16)"
    using shift [of "i * 3 + 1"] nth_colon_digits [OF assms] assms by (simp add: mult.commute)
qed

lemma length_fingerprint_text: "fp \<noteq> [] \<Longrightarrow> length (fingerprint_to_string fp) = 3 * length fp - 1"
  by (cases fp) (simp_all add: fingerprint_to_string_Cons)

lemma unat_byte: "unat (b :: byte) < 256"
proof -
  have "unat b < 2 ^ LENGTH(8)" by (rule unsigned_less)
  then show ?thesis by simp
qed

lemma hex_digit_ascii: "n < 16 \<Longrightarrow> hex_digit n < 128"
  by (simp add: hex_digit_def)

lemma fingerprint_text_ascii: "c \<in> set (fingerprint_to_string fp) \<Longrightarrow> c < 128"
proof -
  have digits: "hex_digit (unat (b :: byte) div 16) < 128" "hex_digit (unat b mod 16) < 128" for b
    using unat_byte [of b] by (auto intro!: hex_digit_ascii simp: less_mult_imp_div_less)
  have "c < 128" if "c \<in> set (colon_digits fp)" for c fp
    using that digits by (induction fp) (auto simp: colon_digits_def [of "[]"])
  moreover have "c \<in> set (colon_digits fp)" if "c \<in> set (fingerprint_to_string fp)"
    using that by (cases fp) (auto simp: fingerprint_to_string_Cons fingerprint_to_string_def [of "[]"])
  ultimately show "c \<in> set (fingerprint_to_string fp) \<Longrightarrow> c < 128" by blast
qed

lemma decode_hex_digit:
  assumes "n < 16"
  shows "decode_hex (byte_of (hex_digit n)) = Some (byte_of n)"
proof (cases "n < 10")
  case True
  then have "48 \<le> byte_of (48 + n)" "byte_of (48 + n) \<le> 57" by (simp_all add: word_le_nat_alt)
  moreover have "byte_of (48 + n) - 48 = byte_of n" by (simp add: byte_of_def)
  ultimately show ?thesis using True by (simp add: decode_hex_def hex_digit_def)
next
  case False
  with assms have "\<not> byte_of (55 + n) \<le> 57" "65 \<le> byte_of (55 + n)" "byte_of (55 + n) \<le> 70" "\<not> 97 \<le> byte_of (55 + n)"
    by (simp_all add: word_le_nat_alt)
  moreover have "byte_of (55 + n) - 65 + 10 = byte_of n" by (simp add: byte_of_def)
  ultimately show ?thesis using False by (simp add: decode_hex_def hex_digit_def)
qed

lemma byte_of_digits: "push_bit 4 (byte_of (unat b div 16)) OR byte_of (unat b mod 16) = b" for b :: byte
proof -
  have "unat b div 16 = drop_bit 4 (unat b)" "unat b mod 16 = take_bit 4 (unat b)"
    by (simp_all add: drop_bit_eq_div take_bit_eq_mod)
  then show ?thesis
    by (intro bit_eqI) (auto simp: byte_of_def bit_simps)
qed

lemma utf8_encode_ascii_map: "(\<And>c. c \<in> set s \<Longrightarrow> c < 128) \<Longrightarrow> utf8_encode s = map byte_of s"
  by (induction s) (simp_all add: utf8_encode_Cons utf8_char_def)

lemma fingerprint_text_roundtrip:
  assumes "length fp = FINGERPRINT_LENGTH"
  shows "fingerprint_from_str (fingerprint_to_string fp) = Inr fp"
proof -
  let ?t = "fingerprint_to_string fp"
  have enc: "utf8_encode ?t = map byte_of ?t"
    by (rule utf8_encode_ascii_map) (rule fingerprint_text_ascii)
  have len: "length ?t = FINGERPRINT_TEXT_LENGTH"
    using assms length_fingerprint_text [of fp] by (cases "fp = []") (simp_all add: FINGERPRINT_LENGTH_def FINGERPRINT_TEXT_LENGTH_def)
  have "fingerprint_byte (map byte_of ?t) i = Inr (fp ! i)" if i: "i < FINGERPRINT_LENGTH" for i
  proof -
    have bounds: "i * 3 + 1 < length ?t" "i < length fp" "i * 3 < length ?t" "i * 3 - 1 < length ?t"
      using i assms len by (simp_all add: FINGERPRINT_LENGTH_def FINGERPRINT_TEXT_LENGTH_def)
    have "unat (fp ! i) div 16 < 16" "unat (fp ! i) mod 16 < 16"
      using unat_byte [of "fp ! i"] by (simp_all add: less_mult_imp_div_less)
    moreover have "byte_of 58 = 58" by (simp add: byte_of_def)
    ultimately show ?thesis
      using nth_fingerprint_text [OF bounds(2)] bounds
      by (cases "i = 0") (simp_all add: fingerprint_byte_def Let_def nth_map decode_hex_digit byte_of_digits del: length_greater_0_conv)
  qed
  then have "traverse (fingerprint_byte (map byte_of ?t)) [0..<FINGERPRINT_LENGTH]
      = Inr (map (\<lambda>i. fp ! i) [0..<FINGERPRINT_LENGTH])"
    by (intro traverse_all_Inr) simp
  then show ?thesis
    using map_nth [of fp] len assms by (simp add: fingerprint_from_str_def enc)
qed

lemma fingerprint_from_str_length: "fingerprint_from_str s = Inr fp \<Longrightarrow> length fp = FINGERPRINT_LENGTH"
  using traverse_Inr_length [of "fingerprint_byte (utf8_encode s)" "[0..<FINGERPRINT_LENGTH]" fp]
  by (simp add: fingerprint_from_str_def Let_def split: if_splits)

lemma fingerprint_text_inject:
  assumes "length fp = FINGERPRINT_LENGTH" "length fq = FINGERPRINT_LENGTH"
  shows "fingerprint_to_string fp = fingerprint_to_string fq \<longleftrightarrow> fp = fq"
proof
  assume "fingerprint_to_string fp = fingerprint_to_string fq"
  with fingerprint_text_roundtrip [OF assms(1)] fingerprint_text_roundtrip [OF assms(2)] show "fp = fq"
    by (metis sum.inject(2))
qed simp

lemma certificate_rehydrates:
  "certificate_from_der sha256 der = Inr c \<Longrightarrow>
     certificate_from_parts sha256 (tc_fingerprint c) (tc_certificate_der c) = Inr c"
  by (auto simp: certificate_from_der_def certificate_from_parts_def result_simps)

lemma trusted_identity_iff:
  "verify_identity trust observed = Inr () \<longleftrightarrow> tc_fingerprint observed = tc_fingerprint (trust_certificate trust)"
  by (auto simp: verify_identity_def verify_fingerprint_def Let_def)

lemma display_name_parse_idem:
  assumes "display_name_parse v = Inr n" "trim n = n"
  shows "display_name_parse n = Inr n"
  using assms by (auto simp: display_name_parse_def Let_def split: if_splits)

end
