(* ===== verification/Center_Domain.thy ===== *)
theory Center_Domain
  imports Stable_Code Operation Managed_Endpoint
begin

text \<open>
  The vocabulary of the site-to-center shape, \<open>domain/src/center.rs\<close>: one-time binding codes,
  the binding aggregate with its state machine, the envelopes queued for the center and received
  from it with theirs, the idempotency decision, and the cursors of the sync streams. SHA-256 is
  the argument \<open>sha256\<close>. A signed 64-bit column is an integer; where a computation could leave the
  range, the operation that performs it tests the bound.
\<close>

type_synonym instance_id = uuid

section \<open>Binding codes\<close>

text \<open>\<open>Duration::minutes(15)\<close> in the nanoseconds an instant counts.\<close>

definition BINDING_CODE_TTL :: int where
  "BINDING_CODE_TTL = 15 * 60 * 1000000000"

definition BINDING_CODE_CHARACTERS :: nat where
  "BINDING_CODE_CHARACTERS = 20"

definition CODE_ALPHABET :: "byte list" where
  "CODE_ALPHABET = map byte_of (ascii ''23456789ABCDEFGHJKLMNPQRSTUVWXYZ'')"

type_synonym binding_code = ustring

datatype binding_code_parse_error = BindingCodeParseError

definition to_ascii_uppercase :: "ustring \<Rightarrow> ustring" where
  "to_ascii_uppercase s = map (\<lambda>c. if 97 \<le> c \<and> c \<le> 122 then c - 32 else c) s"

definition binding_code_from_str :: "ustring \<Rightarrow> binding_code_parse_error + binding_code" where
  "binding_code_from_str value =
     (let normalized = to_ascii_uppercase (trim value) in
      if str_len normalized \<noteq> BINDING_CODE_CHARACTERS
         \<or> \<not> list_all (\<lambda>b. b \<in> set CODE_ALPHABET) (utf8_encode normalized)
      then Inl BindingCodeParseError else Inr normalized)"

definition binding_code_hash :: "(byte list \<Rightarrow> byte list) \<Rightarrow> binding_code \<Rightarrow> byte list" where
  "binding_code_hash sha256 code = sha256 (utf8_encode code)"

text \<open>The comparison runs over all byte pairs and accumulates their differences.\<close>

definition constant_time_eq :: "byte list \<Rightarrow> byte list \<Rightarrow> bool" where
  "constant_time_eq left right = (foldl (\<lambda>d (l, r). d OR (l XOR r)) 0 (zip left right) = 0)"

definition verify_hash :: "(byte list \<Rightarrow> byte list) \<Rightarrow> binding_code \<Rightarrow> byte list \<Rightarrow> bool" where
  "verify_hash sha256 code stored = constant_time_eq (binding_code_hash sha256 code) stored"

section \<open>Registered instances\<close>

datatype instance_kind = Kind_Site | Kind_Center

datatype instance_kind_parse_error = InstanceKindParseError

fun instance_kind_as_str :: "instance_kind \<Rightarrow> string" where
  "instance_kind_as_str Kind_Site = ''site''"
| "instance_kind_as_str Kind_Center = ''center''"

definition instance_kind_codes :: "(string \<times> instance_kind) list" where
  "instance_kind_codes = [(''site'', Kind_Site), (''center'', Kind_Center)]"

definition instance_kind_from_str :: "string \<Rightarrow> instance_kind_parse_error + instance_kind" where
  "instance_kind_from_str s = ok_or InstanceKindParseError (map_of instance_kind_codes s)"

record site_instance =
  si_id :: instance_id
  si_display_name :: ustring
  si_kind :: instance_kind
  si_created_at :: instant

section \<open>Bindings\<close>

datatype center_binding_state = BindingPending | BindingBound | BindingRevoked

datatype center_binding_state_parse_error = CenterBindingStateParseError

fun center_binding_state_as_str :: "center_binding_state \<Rightarrow> string" where
  "center_binding_state_as_str BindingPending = ''pending''"
| "center_binding_state_as_str BindingBound = ''bound''"
| "center_binding_state_as_str BindingRevoked = ''revoked''"

definition center_binding_state_codes :: "(string \<times> center_binding_state) list" where
  "center_binding_state_codes =
     [(''pending'', BindingPending), (''bound'', BindingBound), (''revoked'', BindingRevoked)]"

definition center_binding_state_from_str ::
  "string \<Rightarrow> center_binding_state_parse_error + center_binding_state" where
  "center_binding_state_from_str s = ok_or CenterBindingStateParseError (map_of center_binding_state_codes s)"

datatype center_binding_event = CodeAccepted | BindingRevocation

record invalid_center_binding_transition =
  icb_from :: center_binding_state
  icb_event :: center_binding_event

definition center_binding_transition ::
  "center_binding_state \<Rightarrow> center_binding_event \<Rightarrow> invalid_center_binding_transition + center_binding_state" where
  "center_binding_transition current event =
     (case current of
        BindingPending \<Rightarrow> (case event of
            CodeAccepted \<Rightarrow> Inr BindingBound
          | BindingRevocation \<Rightarrow> Inr BindingRevoked)
      | BindingBound \<Rightarrow> (case event of
            CodeAccepted \<Rightarrow> Inl \<lparr>icb_from = current, icb_event = event\<rparr>
          | BindingRevocation \<Rightarrow> Inr BindingRevoked)
      | BindingRevoked \<Rightarrow> Inl \<lparr>icb_from = current, icb_event = event\<rparr>)"

datatype binding_code_verification_error = NotPending | Expired | CodeMismatch

datatype center_binding_error =
  InvalidCodeHash | InvalidStateShape | BoundBeforeCreation | ExpiryBeforeCreation

record center_binding =
  cb_id :: uuid
  cb_center_url :: ustring
  cb_site_instance_id :: instance_id
  cb_state :: center_binding_state
  cb_binding_code_hash :: "byte list option"
  cb_site_cert_fingerprint :: "fingerprint option"
  cb_bound_at :: "instant option"
  cb_expires_at :: "instant option"
  cb_created_at :: instant

definition binding_new_pending ::
  "(byte list \<Rightarrow> byte list) \<Rightarrow> uuid \<Rightarrow> ustring \<Rightarrow> instance_id \<Rightarrow> binding_code \<Rightarrow> instant \<Rightarrow> instant
     \<Rightarrow> center_binding" where
  "binding_new_pending sha256 i url site code expires created =
     \<lparr>cb_id = i, cb_center_url = url, cb_site_instance_id = site, cb_state = BindingPending,
      cb_binding_code_hash = Some (binding_code_hash sha256 code), cb_site_cert_fingerprint = None,
      cb_bound_at = None, cb_expires_at = Some expires, cb_created_at = created\<rparr>"

fun shape_matches ::
  "center_binding_state \<Rightarrow> byte list option \<Rightarrow> instant option \<Rightarrow> instant option \<Rightarrow> bool" where
  "shape_matches BindingPending hash expires bound = (hash \<noteq> None \<and> expires \<noteq> None \<and> bound = None)"
| "shape_matches BindingBound hash expires bound = (hash = None \<and> expires = None \<and> bound \<noteq> None)"
| "shape_matches BindingRevoked hash expires bound = (hash = None \<and> expires = None)"

text \<open>\<open>Option::is_some_and\<close>.\<close>

definition is_some_and :: "'a option \<Rightarrow> ('a \<Rightarrow> bool) \<Rightarrow> bool" where
  "is_some_and m P = (case m of None \<Rightarrow> False | Some x \<Rightarrow> P x)"

definition binding_try_from_parts ::
  "uuid \<Rightarrow> ustring \<Rightarrow> instance_id \<Rightarrow> center_binding_state \<Rightarrow> byte list option \<Rightarrow> fingerprint option
     \<Rightarrow> instant option \<Rightarrow> instant option \<Rightarrow> instant \<Rightarrow> center_binding_error + center_binding" where
  "binding_try_from_parts i url site st hash fp bound expires created =
     (if is_some_and hash (\<lambda>h. length h \<noteq> 32) then Inl InvalidCodeHash
      else if \<not> shape_matches st hash expires bound then Inl InvalidStateShape
      else if is_some_and bound (\<lambda>b. b < created) then Inl BoundBeforeCreation
      else if is_some_and expires (\<lambda>e. e < created) then Inl ExpiryBeforeCreation
      else Inr \<lparr>cb_id = i, cb_center_url = url, cb_site_instance_id = site, cb_state = st,
                cb_binding_code_hash = hash, cb_site_cert_fingerprint = fp, cb_bound_at = bound,
                cb_expires_at = expires, cb_created_at = created\<rparr>)"

definition binding_bind ::
  "fingerprint option \<Rightarrow> instant \<Rightarrow> center_binding \<Rightarrow> invalid_center_binding_transition + center_binding" where
  "binding_bind fp now b =
     rbind (center_binding_transition (cb_state b) CodeAccepted) (\<lambda>next.
     Inr (b\<lparr>cb_state := next, cb_binding_code_hash := None, cb_expires_at := None,
            cb_site_cert_fingerprint := fp, cb_bound_at := Some now\<rparr>))"

definition binding_revoke :: "center_binding \<Rightarrow> invalid_center_binding_transition + center_binding" where
  "binding_revoke b =
     rbind (center_binding_transition (cb_state b) BindingRevocation) (\<lambda>next.
     Inr (b\<lparr>cb_state := next, cb_binding_code_hash := None, cb_expires_at := None\<rparr>))"

definition binding_is_expired :: "center_binding \<Rightarrow> instant \<Rightarrow> bool" where
  "binding_is_expired b now = is_some_and (cb_expires_at b) (\<lambda>e. now > e)"

definition verify_code ::
  "(byte list \<Rightarrow> byte list) \<Rightarrow> center_binding \<Rightarrow> binding_code \<Rightarrow> instant \<Rightarrow> binding_code_verification_error + unit" where
  "verify_code sha256 b presented now =
     (if cb_state b \<noteq> BindingPending then Inl NotPending
      else if binding_is_expired b now then Inl Expired
      else rbind (ok_or CodeMismatch (cb_binding_code_hash b)) (\<lambda>stored.
        if \<not> verify_hash sha256 presented stored then Inl CodeMismatch else Inr ()))"

section \<open>Outbound envelopes\<close>

datatype outbox_entry_state = OutboxPending | OutboxAcked

datatype outbox_entry_state_parse_error = OutboxEntryStateParseError

fun outbox_entry_state_as_str :: "outbox_entry_state \<Rightarrow> string" where
  "outbox_entry_state_as_str OutboxPending = ''pending''"
| "outbox_entry_state_as_str OutboxAcked = ''acked''"

definition outbox_entry_state_codes :: "(string \<times> outbox_entry_state) list" where
  "outbox_entry_state_codes = [(''pending'', OutboxPending), (''acked'', OutboxAcked)]"

definition outbox_entry_state_from_str :: "string \<Rightarrow> outbox_entry_state_parse_error + outbox_entry_state" where
  "outbox_entry_state_from_str s = ok_or OutboxEntryStateParseError (map_of outbox_entry_state_codes s)"

datatype outbox_event = OutboxAcknowledged

record invalid_outbox_transition =
  iot_from :: outbox_entry_state
  iot_event :: outbox_event

definition outbox_transition ::
  "outbox_entry_state \<Rightarrow> outbox_event \<Rightarrow> invalid_outbox_transition + outbox_entry_state" where
  "outbox_transition current event =
     (case current of
        OutboxPending \<Rightarrow> (case event of OutboxAcknowledged \<Rightarrow> Inr OutboxAcked)
      | OutboxAcked \<Rightarrow> (case event of OutboxAcknowledged \<Rightarrow> Inl \<lparr>iot_from = current, iot_event = event\<rparr>))"

datatype outbox_entry_error = NegativeRetryCount | InvalidAckPairing | AckBeforeCreation

record outbox_entry =
  ob_id :: uuid
  ob_instance_id :: instance_id
  ob_sequence :: int
  ob_payload_json :: ustring
  ob_state :: outbox_entry_state
  ob_retry_count :: int
  ob_created_at :: instant
  ob_acked_at :: "instant option"

definition outbox_entry_new :: "uuid \<Rightarrow> instance_id \<Rightarrow> int \<Rightarrow> ustring \<Rightarrow> instant \<Rightarrow> outbox_entry" where
  "outbox_entry_new i inst sequence payload created =
     \<lparr>ob_id = i, ob_instance_id = inst, ob_sequence = sequence, ob_payload_json = payload,
      ob_state = OutboxPending, ob_retry_count = 0, ob_created_at = created, ob_acked_at = None\<rparr>"

definition outbox_entry_try_from_parts ::
  "uuid \<Rightarrow> instance_id \<Rightarrow> int \<Rightarrow> ustring \<Rightarrow> outbox_entry_state \<Rightarrow> int \<Rightarrow> instant \<Rightarrow> instant option
     \<Rightarrow> outbox_entry_error + outbox_entry" where
  "outbox_entry_try_from_parts i inst sequence payload st retries created acked =
     (if retries < 0 then Inl NegativeRetryCount
      else if (case (st, acked) of (OutboxPending, Some _) \<Rightarrow> True | (OutboxAcked, None) \<Rightarrow> True | _ \<Rightarrow> False)
      then Inl InvalidAckPairing
      else if is_some_and acked (\<lambda>a. a < created) then Inl AckBeforeCreation
      else Inr \<lparr>ob_id = i, ob_instance_id = inst, ob_sequence = sequence, ob_payload_json = payload,
                ob_state = st, ob_retry_count = retries, ob_created_at = created, ob_acked_at = acked\<rparr>)"

definition outbox_entry_ack :: "instant \<Rightarrow> outbox_entry \<Rightarrow> invalid_outbox_transition + outbox_entry" where
  "outbox_entry_ack now entry =
     rbind (outbox_transition (ob_state entry) OutboxAcknowledged) (\<lambda>next.
     Inr (entry\<lparr>ob_state := next, ob_acked_at := Some now\<rparr>))"

section \<open>Inbound envelopes\<close>

datatype inbox_entry_state = InboxReceived | InboxAccepted | InboxRejected | InboxCompleted

datatype inbox_entry_state_parse_error = InboxEntryStateParseError

fun inbox_entry_state_as_str :: "inbox_entry_state \<Rightarrow> string" where
  "inbox_entry_state_as_str InboxReceived = ''received''"
| "inbox_entry_state_as_str InboxAccepted = ''accepted''"
| "inbox_entry_state_as_str InboxRejected = ''rejected''"
| "inbox_entry_state_as_str InboxCompleted = ''completed''"

definition inbox_entry_state_codes :: "(string \<times> inbox_entry_state) list" where
  "inbox_entry_state_codes =
     [(''received'', InboxReceived), (''accepted'', InboxAccepted), (''rejected'', InboxRejected),
      (''completed'', InboxCompleted)]"

definition inbox_entry_state_from_str :: "string \<Rightarrow> inbox_entry_state_parse_error + inbox_entry_state" where
  "inbox_entry_state_from_str s = ok_or InboxEntryStateParseError (map_of inbox_entry_state_codes s)"

definition inbox_is_terminal :: "inbox_entry_state \<Rightarrow> bool" where
  "inbox_is_terminal st \<longleftrightarrow> st \<in> {InboxRejected, InboxCompleted}"

datatype inbox_event = OfferAccepted | OfferRejected | OfferCompleted

fun inbox_event_from_state :: "inbox_event \<Rightarrow> inbox_entry_state" where
  "inbox_event_from_state OfferAccepted = InboxReceived"
| "inbox_event_from_state OfferRejected = InboxReceived"
| "inbox_event_from_state OfferCompleted = InboxAccepted"

fun inbox_event_to_state :: "inbox_event \<Rightarrow> inbox_entry_state" where
  "inbox_event_to_state OfferAccepted = InboxAccepted"
| "inbox_event_to_state OfferRejected = InboxRejected"
| "inbox_event_to_state OfferCompleted = InboxCompleted"

record invalid_inbox_transition =
  iit_from :: inbox_entry_state
  iit_event :: inbox_event

definition inbox_transition ::
  "inbox_entry_state \<Rightarrow> inbox_event \<Rightarrow> invalid_inbox_transition + inbox_entry_state" where
  "inbox_transition current event =
     (case current of
        InboxReceived \<Rightarrow> (case event of
            OfferAccepted \<Rightarrow> Inr InboxAccepted
          | OfferRejected \<Rightarrow> Inr InboxRejected
          | OfferCompleted \<Rightarrow> Inl \<lparr>iit_from = current, iit_event = event\<rparr>)
      | InboxAccepted \<Rightarrow> (case event of
            OfferCompleted \<Rightarrow> Inr InboxCompleted
          | _ \<Rightarrow> Inl \<lparr>iit_from = current, iit_event = event\<rparr>)
      | _ \<Rightarrow> Inl \<lparr>iit_from = current, iit_event = event\<rparr>)"

record inbox_entry =
  ib_id :: uuid
  ib_operation_id :: operation_id
  ib_instance_id :: instance_id
  ib_payload_json :: ustring
  ib_state :: inbox_entry_state
  ib_expires_at :: instant
  ib_received_at :: instant

definition inbox_entry_new ::
  "uuid \<Rightarrow> operation_id \<Rightarrow> instance_id \<Rightarrow> ustring \<Rightarrow> instant \<Rightarrow> instant \<Rightarrow> inbox_entry" where
  "inbox_entry_new i op inst payload expires received =
     \<lparr>ib_id = i, ib_operation_id = op, ib_instance_id = inst, ib_payload_json = payload,
      ib_state = InboxReceived, ib_expires_at = expires, ib_received_at = received\<rparr>"

definition inbox_entry_from_parts ::
  "uuid \<Rightarrow> operation_id \<Rightarrow> instance_id \<Rightarrow> ustring \<Rightarrow> inbox_entry_state \<Rightarrow> instant \<Rightarrow> instant \<Rightarrow> inbox_entry" where
  "inbox_entry_from_parts i op inst payload st expires received =
     \<lparr>ib_id = i, ib_operation_id = op, ib_instance_id = inst, ib_payload_json = payload,
      ib_state = st, ib_expires_at = expires, ib_received_at = received\<rparr>"

definition inbox_entry_apply :: "inbox_event \<Rightarrow> inbox_entry \<Rightarrow> invalid_inbox_transition + inbox_entry" where
  "inbox_entry_apply event entry =
     rbind (inbox_transition (ib_state entry) event) (\<lambda>next. Inr (entry\<lparr>ib_state := next\<rparr>))"

definition inbox_entry_is_expired :: "inbox_entry \<Rightarrow> instant \<Rightarrow> bool" where
  "inbox_entry_is_expired entry now \<longleftrightarrow> now > ib_expires_at entry"

datatype idempotency_decision = Proceed | InProgress | AlreadyResolved inbox_entry_state

definition decide_inbox_duplicate :: "inbox_entry_state option \<Rightarrow> idempotency_decision" where
  "decide_inbox_duplicate existing =
     (case existing of
        None \<Rightarrow> Proceed
      | Some st \<Rightarrow> if st = InboxReceived \<or> st = InboxAccepted then InProgress else AlreadyResolved st)"

section \<open>Sync cursors\<close>

datatype sync_stream = Stream_Endpoint | Stream_Health | Stream_Event | Stream_Artifact

datatype sync_stream_parse_error = SyncStreamParseError

fun sync_stream_as_str :: "sync_stream \<Rightarrow> string" where
  "sync_stream_as_str Stream_Endpoint = ''endpoint''"
| "sync_stream_as_str Stream_Health = ''health''"
| "sync_stream_as_str Stream_Event = ''event''"
| "sync_stream_as_str Stream_Artifact = ''artifact''"

definition sync_stream_codes :: "(string \<times> sync_stream) list" where
  "sync_stream_codes =
     [(''endpoint'', Stream_Endpoint), (''health'', Stream_Health), (''event'', Stream_Event),
      (''artifact'', Stream_Artifact)]"

definition sync_stream_from_str :: "string \<Rightarrow> sync_stream_parse_error + sync_stream" where
  "sync_stream_from_str s = ok_or SyncStreamParseError (map_of sync_stream_codes s)"

record sync_cursor =
  sc_id :: uuid
  sc_instance_id :: instance_id
  sc_stream :: sync_stream
  sc_cursor_value :: ustring
  sc_updated_at :: instant

section \<open>The codes are stable\<close>

interpretation instance_kind_code: stable_code instance_kind_as_str instance_kind_from_str
  unfolding instance_kind_from_str_def
proof (rule code_of_table)
  show "instance_kind_codes = map (\<lambda>x. (instance_kind_as_str x, x)) (map snd instance_kind_codes)"
    by (simp add: instance_kind_codes_def)
  show "x \<in> set (map snd instance_kind_codes)" for x
    by (cases x) (simp_all add: instance_kind_codes_def)
  show "distinct (map instance_kind_as_str (map snd instance_kind_codes))"
    by (simp add: instance_kind_codes_def)
qed

lemmas instance_kind_code_roundtrip [simp, code_roundtrip] = instance_kind_code.parse_print

interpretation binding_state_code: stable_code center_binding_state_as_str center_binding_state_from_str
  unfolding center_binding_state_from_str_def
proof (rule code_of_table)
  show "center_binding_state_codes = map (\<lambda>x. (center_binding_state_as_str x, x)) (map snd center_binding_state_codes)"
    by (simp add: center_binding_state_codes_def)
  show "x \<in> set (map snd center_binding_state_codes)" for x
    by (cases x) (simp_all add: center_binding_state_codes_def)
  show "distinct (map center_binding_state_as_str (map snd center_binding_state_codes))"
    by (simp add: center_binding_state_codes_def)
qed

lemmas binding_state_code_roundtrip [simp, code_roundtrip] = binding_state_code.parse_print

interpretation outbox_state_code: stable_code outbox_entry_state_as_str outbox_entry_state_from_str
  unfolding outbox_entry_state_from_str_def
proof (rule code_of_table)
  show "outbox_entry_state_codes = map (\<lambda>x. (outbox_entry_state_as_str x, x)) (map snd outbox_entry_state_codes)"
    by (simp add: outbox_entry_state_codes_def)
  show "x \<in> set (map snd outbox_entry_state_codes)" for x
    by (cases x) (simp_all add: outbox_entry_state_codes_def)
  show "distinct (map outbox_entry_state_as_str (map snd outbox_entry_state_codes))"
    by (simp add: outbox_entry_state_codes_def)
qed

lemmas outbox_state_code_roundtrip [simp, code_roundtrip] = outbox_state_code.parse_print

interpretation inbox_state_code: stable_code inbox_entry_state_as_str inbox_entry_state_from_str
  unfolding inbox_entry_state_from_str_def
proof (rule code_of_table)
  show "inbox_entry_state_codes = map (\<lambda>x. (inbox_entry_state_as_str x, x)) (map snd inbox_entry_state_codes)"
    by (simp add: inbox_entry_state_codes_def)
  show "x \<in> set (map snd inbox_entry_state_codes)" for x
    by (cases x) (simp_all add: inbox_entry_state_codes_def)
  show "distinct (map inbox_entry_state_as_str (map snd inbox_entry_state_codes))"
    by (simp add: inbox_entry_state_codes_def)
qed

lemmas inbox_state_code_roundtrip [simp, code_roundtrip] = inbox_state_code.parse_print

interpretation stream_code: stable_code sync_stream_as_str sync_stream_from_str
  unfolding sync_stream_from_str_def
proof (rule code_of_table)
  show "sync_stream_codes = map (\<lambda>x. (sync_stream_as_str x, x)) (map snd sync_stream_codes)"
    by (simp add: sync_stream_codes_def)
  show "x \<in> set (map snd sync_stream_codes)" for x
    by (cases x) (simp_all add: sync_stream_codes_def)
  show "distinct (map sync_stream_as_str (map snd sync_stream_codes))"
    by (simp add: sync_stream_codes_def)
qed

lemmas stream_code_roundtrip [simp, code_roundtrip] = stream_code.parse_print

section \<open>Binding codes and bindings\<close>

lemma or_byte_eq_0: "a OR b = 0 \<longleftrightarrow> a = 0 \<and> b = 0" for a b :: byte
  by (auto simp: bit_eq_iff bit_simps)

lemma xor_byte_eq_0: "a XOR b = 0 \<longleftrightarrow> a = b" for a b :: byte
  by (auto simp: bit_eq_iff bit_simps)

lemma constant_time_eq_iff: "length left = length right \<Longrightarrow> constant_time_eq left right \<longleftrightarrow> left = right"
proof -
  have "length left = length right \<Longrightarrow>
      foldl (\<lambda>d (l, r). d OR (l XOR r)) d (zip left right) = 0 \<longleftrightarrow> d = 0 \<and> left = right" for d
    by (induction left right arbitrary: d rule: list_induct2) (auto simp: or_byte_eq_0 xor_byte_eq_0)
  then show "length left = length right \<Longrightarrow> ?thesis" by (simp add: constant_time_eq_def)
qed

text \<open>What the constructor and the rehydration guarantee of a binding.\<close>

definition binding_ok :: "center_binding \<Rightarrow> bool" where
  "binding_ok b \<longleftrightarrow>
     (\<forall>h. cb_binding_code_hash b = Some h \<longrightarrow> length h = 32)
   \<and> shape_matches (cb_state b) (cb_binding_code_hash b) (cb_expires_at b) (cb_bound_at b)
   \<and> (\<forall>t. cb_bound_at b = Some t \<longrightarrow> cb_created_at b \<le> t)
   \<and> (\<forall>t. cb_expires_at b = Some t \<longrightarrow> cb_created_at b \<le> t)"

lemma binding_try_from_parts_Inr:
  "binding_try_from_parts i url site st hash fp bound expires created = Inr b \<longleftrightarrow>
     b = \<lparr>cb_id = i, cb_center_url = url, cb_site_instance_id = site, cb_state = st,
          cb_binding_code_hash = hash, cb_site_cert_fingerprint = fp, cb_bound_at = bound,
          cb_expires_at = expires, cb_created_at = created\<rparr> \<and> binding_ok b"
  by (auto simp: binding_try_from_parts_def binding_ok_def is_some_and_def split: option.splits)

lemma binding_new_pending_ok:
  "length (binding_code_hash sha256 code) = 32 \<Longrightarrow> created \<le> expires \<Longrightarrow>
     binding_ok (binding_new_pending sha256 i url site code expires created)"
  by (simp add: binding_ok_def binding_new_pending_def)

lemma binding_bind_ok:
  "binding_bind fp now b = Inr b' \<Longrightarrow> binding_ok b \<Longrightarrow> cb_created_at b \<le> now \<Longrightarrow> binding_ok b'"
  by (auto simp: binding_bind_def binding_ok_def center_binding_transition_def result_simps
      split: center_binding_state.splits)

lemma binding_revoke_ok: "binding_revoke b = Inr b' \<Longrightarrow> binding_ok b \<Longrightarrow> binding_ok b'"
  by (auto simp: binding_revoke_def binding_ok_def center_binding_transition_def result_simps
      split: center_binding_state.splits)

lemma verify_code_Inr:
  assumes "binding_ok b" "length (binding_code_hash sha256 code) = 32"
  shows "verify_code sha256 b code now = Inr () \<longleftrightarrow>
     cb_state b = BindingPending \<and> (\<exists>e. cb_expires_at b = Some e \<and> now \<le> e)
     \<and> cb_binding_code_hash b = Some (binding_code_hash sha256 code)"
proof (cases "cb_binding_code_hash b")
  case None
  with assms(1) show ?thesis by (cases "cb_state b") (auto simp: verify_code_def binding_ok_def result_simps)
next
  case (Some h)
  then have "length h = 32" using assms(1) by (simp add: binding_ok_def)
  then have "verify_hash sha256 code h \<longleftrightarrow> binding_code_hash sha256 code = h"
    using assms(2) by (simp add: verify_hash_def constant_time_eq_iff)
  with Some assms(1) show ?thesis
    by (cases "cb_state b") (auto simp: verify_code_def binding_ok_def binding_is_expired_def is_some_and_def)
qed

lemma binding_codes_canonical:
  "binding_code_from_str v = Inr c \<Longrightarrow>
     str_len c = BINDING_CODE_CHARACTERS \<and> set (utf8_encode c) \<subseteq> set CODE_ALPHABET"
  by (auto simp: binding_code_from_str_def Let_def list_all_iff split: if_splits)

lemma inbox_transition_Inr:
  "inbox_transition st event = Inr st' \<longleftrightarrow> st = inbox_event_from_state event \<and> st' = inbox_event_to_state event"
  by (cases st; cases event) (auto simp: inbox_transition_def)

lemma outbox_entry_try_from_parts_Inr:
  "outbox_entry_try_from_parts i inst sequence payload st retries created acked = Inr e \<longleftrightarrow>
     e = \<lparr>ob_id = i, ob_instance_id = inst, ob_sequence = sequence, ob_payload_json = payload,
          ob_state = st, ob_retry_count = retries, ob_created_at = created, ob_acked_at = acked\<rparr>
   \<and> 0 \<le> retries \<and> (st = OutboxAcked \<longleftrightarrow> acked \<noteq> None) \<and> (\<forall>a. acked = Some a \<longrightarrow> created \<le> a)"
  by (cases st; cases acked) (auto simp: outbox_entry_try_from_parts_def is_some_and_def)

end
