(* ===== verification/Center_Store.thy ===== *)
theory Center_Store
  imports Center_Domain Command_Cipher
begin

text \<open>
  The SQLite store as the center repositories of \<open>persistence/src\<close> see it: the tables
  \<open>center_bindings\<close>, \<open>center_outbox\<close>, \<open>center_inbox\<close> and \<open>sync_cursors\<close> with the columns of the
  entity models, the command key, and the world outside: SHA-256, the cipher crates, the \<open>uuid\<close>
  crate's text form, \<open>serde_json\<close> on the protocol's envelopes, the generated message type, the random
  nonces, and which database calls fail. \<open>transact\<close> is what every write method does around its
  body: the write permit, one transaction, and a rollback when the body or the commit fails.
\<close>

section \<open>Tables\<close>

record binding_row =
  bd_id :: uuid
  bd_center_url :: ustring
  bd_binding_code_hash :: "byte list option"
  bd_site_instance_id :: instance_id
  bd_site_cert_fingerprint :: "ustring option"
  bd_state :: string
  bd_bound_at :: "instant option"
  bd_expires_at :: "instant option"
  bd_created_at :: instant

record outbox_row =
  our_id :: uuid
  our_sequence :: int
  our_instance_id :: instance_id
  our_payload_json :: ustring
  our_state :: string
  our_retry_count :: int
  our_created_at :: instant
  our_acked_at :: "instant option"
  our_operation_id :: "uuid option"

record inbox_row =
  inr_id :: uuid
  inr_operation_id :: ustring
  inr_instance_id :: instance_id
  inr_payload_json :: ustring
  inr_state :: string
  inr_expires_at :: instant
  inr_received_at :: instant

record cursor_row =
  cur_id :: uuid
  cur_instance_id :: instance_id
  cur_stream :: string
  cur_cursor_value :: ustring
  cur_updated_at :: instant

text \<open>The protocol envelope, \<open>center.proto\<close>; its message is a generated type.\<close>

record 'm envelope =
  env_sequence :: "64 word"
  env_acked_sequence :: "64 word"
  env_message :: "'m option"

datatype center_call =
    CenterPermit | CenterBegin | CenterCommit | CenterRollback | CenterQuery | CenterCompeting
  | CenterReread | CenterNullQuery | CenterScan | CenterKeeper | CenterInsert | CenterUpdate | CenterDelete

record 'm center_store =
  cs_command_key :: "byte list option"
  cs_instances :: "instance_id list"
  cs_bindings :: "binding_row list"
  cs_outbox :: "outbox_row list"
  cs_inbox :: "inbox_row list"
  cs_cursors :: "cursor_row list"
  cs_sha256 :: "byte list \<Rightarrow> byte list"
  cs_cipher :: cipher_lib
  cs_uuid_to_string :: "uuid \<Rightarrow> ustring"
  cs_uuid_parse :: "ustring \<Rightarrow> uuid option"
  cs_to_json :: "'m envelope \<Rightarrow> ustring option"
  cs_from_json :: "ustring \<Rightarrow> 'm envelope option"
  cs_offer_operation_id :: "'m \<Rightarrow> ustring option"
  cs_getrandom :: "uuid \<Rightarrow> byte list option"
  cs_fault :: "center_call \<Rightarrow> bool"

section \<open>Transactions\<close>

definition transact ::
  "'e \<Rightarrow> 'e \<Rightarrow> (center_call \<Rightarrow> bool) \<Rightarrow> ('t \<Rightarrow> 'e + 'a \<times> 't) \<Rightarrow> 't \<Rightarrow> ('e + 'a) \<times> 't" where
  "transact coordinate database fault body t =
     (if fault CenterPermit then (Inl coordinate, t)
      else if fault CenterBegin then (Inl database, t)
      else (case body t of
          Inl e \<Rightarrow> (Inl e, t)
        | Inr (a, t') \<Rightarrow> if fault CenterCommit then (Inl database, t) else (Inr a, t')))"

text \<open>A call of the database, refused when it fails.\<close>

definition call :: "'e \<Rightarrow> (center_call \<Rightarrow> bool) \<Rightarrow> center_call \<Rightarrow> 'e + unit" where
  "call database fault c = ensure (\<not> fault c) database"

text \<open>An explicit rollback before an error return; when it fails, its failure is returned.\<close>

definition rolled_back :: "'e \<Rightarrow> (center_call \<Rightarrow> bool) \<Rightarrow> 'e \<Rightarrow> 'e + 'a" where
  "rolled_back database fault e = (if fault CenterRollback then Inl database else Inl e)"

lemma call_Inr [simp]: "call e f c = Inr u \<longleftrightarrow> \<not> f c"
  by (simp add: call_def)

lemma call_Inl [result_simps]: "call e f c = Inl x \<longleftrightarrow> f c \<and> x = e"
  by (auto simp: call_def result_simps)

lemma rolled_back_not_Inr [simp]: "rolled_back d f e \<noteq> Inr x" "Inr x \<noteq> rolled_back d f e"
  by (simp_all add: rolled_back_def)

lemma transact_Inl: "transact c d f body t = (Inl e, t') \<Longrightarrow> t' = t"
  by (auto simp: transact_def split: if_splits sum.splits prod.splits)

lemma transact_Inr: "transact c d f body t = (Inr a, t') \<Longrightarrow> body t = Inr (a, t')"
  by (auto simp: transact_def split: if_splits sum.splits prod.splits)

lemma transact_cases:
  assumes "transact c d f body t = (r, t')"
  obtains (failed) e where "r = Inl e" "t' = t" | (committed) a where "r = Inr a" "body t = Inr (a, t')"
  using assms by (cases r) (auto dest: transact_Inl transact_Inr)

text \<open>The newest of a list of rows: \<open>ORDER BY key DESC\<close> and \<open>one()\<close>.\<close>

definition newest :: "('r \<Rightarrow> 'k :: linorder) \<Rightarrow> 'r list \<Rightarrow> 'r option" where
  "newest key rows = (case rev (sort_key key rows) of [] \<Rightarrow> None | r # _ \<Rightarrow> Some r)"

lemma newest_None [simp]: "newest key rows = None \<longleftrightarrow> rows = []"
proof -
  have "rev (sort_key key rows) = [] \<longleftrightarrow> rows = []" by (metis length_0_conv length_rev length_sort)
  then show ?thesis by (auto simp: newest_def split: list.splits)
qed

lemma newest_Some:
  assumes "newest key rows = Some r"
  shows "r \<in> set rows" "\<And>x. x \<in> set rows \<Longrightarrow> key x \<le> key r"
proof -
  obtain rest where rev: "rev (sort_key key rows) = r # rest"
    using assms by (auto simp: newest_def split: list.splits)
  then have split: "sort_key key rows = rev rest @ [r]" by (metis rev.simps(2) rev_rev_ident)
  then show "r \<in> set rows" by (metis in_set_conv_decomp set_sort)
  fix x
  assume "x \<in> set rows"
  then have x: "x \<in> set (rev rest @ [r])" using split by (metis set_sort)
  have "sorted (map key (rev rest @ [r]))" using sorted_sort_key [of key rows] split by simp
  with x show "key x \<le> key r" by (auto simp: sorted_append)
qed

end
