(* ===== verification/Center_Outbox.thy ===== *)
theory Center_Outbox
  imports Center_Store
begin

text \<open>
  The queue of envelopes for the center, \<open>persistence/src/center_outbox_repository.rs\<close>. The table
  has the entry identity as primary key, a unique index on instance and sequence, a foreign key to the
  registered instances, and CHECK constraints on the state, the retry count and the pairing of state
  and acknowledgement time. The payload column holds the protected JSON of the envelope; a row without
  the marker of the cipher envelope is legacy plaintext. Sequences are signed 64-bit integers.
\<close>

section \<open>Errors\<close>

datatype stored_outbox_payload_error = OutboxKeyMissing | OutboxProtection command_protection_error

datatype stored_center_outbox_error =
    InvalidOutboxState outbox_entry_state_parse_error
  | InvalidPayloadCiphertext command_protection_error
  | InvalidOutboxEntry outbox_entry_error

datatype center_outbox_repository_error =
    OutboxCoordinate
  | SequenceOverflow int
  | OutboxCommandKeyMissing
  | OutboxPayload
  | OutboxPayloadProtection command_protection_error
  | OutboxNotFound uuid
  | OutboxCorrupt uuid stored_center_outbox_error
  | OutboxDatabase

datatype ack_outcome = Acknowledged | AlreadyAcknowledged

section \<open>Payloads\<close>

definition I64_MAX :: int where
  "I64_MAX = 2 ^ 63 - 1"

definition outbox_command_key :: "'m center_store \<Rightarrow> center_outbox_repository_error + byte list" where
  "outbox_command_key store = ok_or OutboxCommandKeyMissing (cs_command_key store)"

definition id_bytes :: "uuid \<Rightarrow> byte list" where
  "id_bytes i = be_bytes 16 (unat i)"

definition protect_outbox_payload ::
  "'m center_store \<Rightarrow> uuid \<Rightarrow> ustring \<Rightarrow> center_outbox_repository_error + ustring" where
  "protect_outbox_payload store entry_id plaintext =
     rbind (outbox_command_key store) (\<lambda>master_key.
     map_err OutboxPayloadProtection
       (encrypt_command (cs_cipher store) (cs_getrandom store entry_id) master_key (id_bytes entry_id) plaintext))"

definition recover_outbox_payload ::
  "'m center_store \<Rightarrow> uuid \<Rightarrow> ustring \<Rightarrow> stored_outbox_payload_error + ustring" where
  "recover_outbox_payload store entry_id stored =
     (if prefix COMMAND_CIPHER_ENVELOPE_PREFIX stored
      then rbind (ok_or OutboxKeyMissing (cs_command_key store)) (\<lambda>master_key.
           map_err OutboxProtection (decrypt_command (cs_cipher store) master_key (id_bytes entry_id) stored))
      else Inr stored)"

definition payload_operation_id :: "'m center_store \<Rightarrow> ustring \<Rightarrow> operation_id option" where
  "payload_operation_id store payload_json =
     (case cs_from_json store payload_json of
        None \<Rightarrow> None
      | Some envelope \<Rightarrow>
          (case env_message envelope of
             None \<Rightarrow> None
           | Some message \<Rightarrow>
               (case cs_offer_operation_id store message of
                  None \<Rightarrow> None
                | Some text \<Rightarrow> cs_uuid_parse store text)))"

fun outbox_payload_error :: "uuid \<Rightarrow> stored_outbox_payload_error \<Rightarrow> center_outbox_repository_error" where
  "outbox_payload_error i OutboxKeyMissing = OutboxCommandKeyMissing"
| "outbox_payload_error i (OutboxProtection e) = OutboxCorrupt i (InvalidPayloadCiphertext e)"

definition map_stored_outbox_entry ::
  "'m center_store \<Rightarrow> uuid \<Rightarrow> outbox_row \<Rightarrow> center_outbox_repository_error + outbox_entry" where
  "map_stored_outbox_entry store entry_id model =
     rbind (map_err (outbox_payload_error entry_id)
              (recover_outbox_payload store entry_id (our_payload_json model))) (\<lambda>payload.
     rbind (map_err (\<lambda>e. OutboxCorrupt entry_id (InvalidOutboxState e))
              (outbox_entry_state_from_str (our_state model))) (\<lambda>st.
     map_err (\<lambda>e. OutboxCorrupt entry_id (InvalidOutboxEntry e))
       (outbox_entry_try_from_parts entry_id (our_instance_id model) (our_sequence model) payload st
          (our_retry_count model) (our_created_at model) (our_acked_at model))))"

section \<open>Rows\<close>

definition outbox_row_of :: "outbox_entry \<Rightarrow> ustring \<Rightarrow> operation_id option \<Rightarrow> outbox_row" where
  "outbox_row_of entry payload_json operation =
     \<lparr>our_id = ob_id entry, our_sequence = ob_sequence entry, our_instance_id = ob_instance_id entry,
      our_payload_json = payload_json, our_state = outbox_entry_state_as_str (ob_state entry),
      our_retry_count = ob_retry_count entry, our_created_at = ob_created_at entry,
      our_acked_at = ob_acked_at entry, our_operation_id = operation\<rparr>"

definition outbox_row_check :: "outbox_row \<Rightarrow> bool" where
  "outbox_row_check r \<longleftrightarrow>
     0 \<le> our_retry_count r
   \<and> (our_state r = ''pending'' \<and> our_acked_at r = None \<or> our_state r = ''acked'' \<and> our_acked_at r \<noteq> None)"

definition outbox_key :: "outbox_row \<Rightarrow> instance_id \<times> int" where
  "outbox_key r = (our_instance_id r, our_sequence r)"

definition insert_outbox_entry ::
  "'m center_store \<Rightarrow> outbox_entry \<Rightarrow> ustring \<Rightarrow> operation_id option \<Rightarrow> outbox_row list
     \<Rightarrow> center_outbox_repository_error + outbox_row list" where
  "insert_outbox_entry store entry payload_json operation rows =
     (let row = outbox_row_of entry payload_json operation in
      rbind (call OutboxDatabase (cs_fault store) CenterInsert) (\<lambda>_.
      if list_ex (\<lambda>r. our_id r = our_id row \<or> outbox_key r = outbox_key row) rows
         \<or> our_instance_id row \<notin> set (cs_instances store) \<or> \<not> outbox_row_check row
      then Inl OutboxDatabase
      else Inr (rows @ [row])))"

definition max_sequence :: "instance_id \<Rightarrow> outbox_row list \<Rightarrow> int" where
  "max_sequence inst rows =
     (case map our_sequence (filter (\<lambda>r. our_instance_id r = inst) rows) of
        [] \<Rightarrow> 0
      | n # ns \<Rightarrow> foldl max n ns)"

section \<open>Methods that queue\<close>

definition with_outbox :: "'m center_store \<Rightarrow> ('e + 'a) \<times> outbox_row list \<Rightarrow> ('e + 'a) \<times> 'm center_store" where
  "with_outbox store q = (case q of (r, rows) \<Rightarrow> (r, store\<lparr>cs_outbox := rows\<rparr>))"

definition enqueue_outbox_entry ::
  "uuid \<Rightarrow> instance_id \<Rightarrow> 'm \<Rightarrow> instant \<Rightarrow> 'm center_store
     \<Rightarrow> (center_outbox_repository_error + outbox_entry) \<times> 'm center_store" where
  "enqueue_outbox_entry entry_id inst message created_at store =
     (case outbox_command_key store of
        Inl e \<Rightarrow> (Inl e, store)
      | Inr _ \<Rightarrow>
          with_outbox store (transact OutboxCoordinate OutboxDatabase (cs_fault store) (\<lambda>rows.
            rbind (call OutboxDatabase (cs_fault store) CenterQuery) (\<lambda>_.
            let maximum = max_sequence inst rows; sequence = maximum + 1 in
            if sequence > I64_MAX then Inl (SequenceOverflow maximum)
            else if sequence < 0 then Inl (SequenceOverflow sequence)
            else let envelope = \<lparr>env_sequence = word_of_int sequence, env_acked_sequence = 0,
                                 env_message = Some message\<rparr> in
              rbind (ok_or OutboxPayload (cs_to_json store envelope)) (\<lambda>payload_json.
              rbind (protect_outbox_payload store entry_id payload_json) (\<lambda>protected.
              let entry = outbox_entry_new entry_id inst sequence payload_json created_at in
              rbind (insert_outbox_entry store entry protected (payload_operation_id store payload_json) rows) (\<lambda>rows'.
              Inr (entry, rows')))))) (cs_outbox store)))"

text \<open>Inserts outside a transaction: a refused insert changes nothing.\<close>

definition create_outbox_entry ::
  "outbox_entry \<Rightarrow> 'm center_store \<Rightarrow> (center_outbox_repository_error + unit) \<times> 'm center_store" where
  "create_outbox_entry entry store =
     (case rbind (outbox_command_key store) (\<lambda>_.
           rbind (ensure (\<not> cs_fault store CenterPermit) OutboxCoordinate) (\<lambda>_.
           rbind (protect_outbox_payload store (ob_id entry) (ob_payload_json entry)) (\<lambda>protected.
           insert_outbox_entry store entry protected (payload_operation_id store (ob_payload_json entry))
             (cs_outbox store)))) of
        Inl e \<Rightarrow> (Inl e, store)
      | Inr rows \<Rightarrow> (Inr (), store\<lparr>cs_outbox := rows\<rparr>))"

text \<open>The sum of the unguarded addition wraps, as in a release build.\<close>

definition next_outbox_sequence ::
  "instance_id \<Rightarrow> 'm center_store \<Rightarrow> center_outbox_repository_error + int" where
  "next_outbox_sequence inst store =
     fst (transact OutboxCoordinate OutboxDatabase (cs_fault store) (\<lambda>rows.
       rbind (call OutboxDatabase (cs_fault store) CenterQuery) (\<lambda>_.
       Inr (sint (word_of_int (max_sequence inst rows + 1) :: 64 word), rows))) (cs_outbox store))"

section \<open>Methods that read\<close>

definition find_outbox_row :: "outbox_row list \<Rightarrow> uuid \<Rightarrow> outbox_row option" where
  "find_outbox_row rows i = List.find (\<lambda>r. our_id r = i) rows"

definition map_row :: "'m center_store \<Rightarrow> outbox_row \<Rightarrow> center_outbox_repository_error + outbox_entry" where
  "map_row store model = map_stored_outbox_entry store (our_id model) model"

definition find_outbox_entry ::
  "uuid \<Rightarrow> 'm center_store \<Rightarrow> center_outbox_repository_error + outbox_entry option" where
  "find_outbox_entry i store =
     rbind (call OutboxDatabase (cs_fault store) CenterQuery) (\<lambda>_.
     case find_outbox_row (cs_outbox store) i of
       None \<Rightarrow> Inr None
     | Some model \<Rightarrow> rbind (map_row store model) (\<lambda>entry. Inr (Some entry)))"

text \<open>\<open>ORDER BY sequence, id\<close>.\<close>

definition queue_key :: "outbox_row \<Rightarrow> int \<times> uuid" where
  "queue_key r = (our_sequence r, our_id r)"

definition list_pending_outbox ::
  "instance_id \<Rightarrow> 64 word \<Rightarrow> 'm center_store \<Rightarrow> center_outbox_repository_error + outbox_entry list" where
  "list_pending_outbox inst limit store =
     rbind (call OutboxDatabase (cs_fault store) CenterQuery) (\<lambda>_.
     traverse (map_row store)
       (take (unat limit) (sort_key queue_key
          (filter (\<lambda>r. our_instance_id r = inst \<and> our_state r = ''pending'') (cs_outbox store)))))"

definition list_outbox_entries ::
  "instance_id \<Rightarrow> 'm center_store \<Rightarrow> center_outbox_repository_error + outbox_entry list" where
  "list_outbox_entries inst store =
     rbind (call OutboxDatabase (cs_fault store) CenterQuery) (\<lambda>_.
     traverse (map_row store)
       (sort_key queue_key (filter (\<lambda>r. our_instance_id r = inst) (cs_outbox store))))"

definition list_outbox_entries_bounded ::
  "instance_id \<Rightarrow> 64 word \<Rightarrow> 'm center_store \<Rightarrow> center_outbox_repository_error + outbox_entry list" where
  "list_outbox_entries_bounded inst limit store =
     rbind (call OutboxDatabase (cs_fault store) CenterQuery) (\<lambda>_.
     traverse (map_row store)
       (take (unat limit) (rev (sort_key queue_key (filter (\<lambda>r. our_instance_id r = inst) (cs_outbox store))))))"

section \<open>Acknowledgement\<close>

definition is_pending_row :: "uuid \<Rightarrow> outbox_row \<Rightarrow> bool" where
  "is_pending_row i r \<longleftrightarrow> our_id r = i \<and> our_state r = ''pending''"

definition mark_acked :: "instant \<Rightarrow> outbox_row \<Rightarrow> outbox_row" where
  "mark_acked acked_at r = r\<lparr>our_state := ''acked'', our_acked_at := Some acked_at\<rparr>"

definition acked_history :: "instance_id \<Rightarrow> operation_id \<Rightarrow> outbox_row \<Rightarrow> bool" where
  "acked_history inst operation r \<longleftrightarrow>
     our_instance_id r = inst \<and> our_operation_id r = Some operation \<and> our_state r = ''acked''"

definition prune_acked_operation_history ::
  "'m center_store \<Rightarrow> instance_id \<Rightarrow> operation_id \<Rightarrow> outbox_row list
     \<Rightarrow> center_outbox_repository_error + outbox_row list" where
  "prune_acked_operation_history store inst operation rows =
     rbind (call OutboxDatabase (cs_fault store) CenterKeeper) (\<lambda>_.
     case newest queue_key (filter (acked_history inst operation) rows) of
       None \<Rightarrow> Inr rows
     | Some keeper \<Rightarrow>
         rbind (call OutboxDatabase (cs_fault store) CenterDelete) (\<lambda>_.
         Inr (filter (\<lambda>r. \<not> (acked_history inst operation r \<and> our_id r \<noteq> our_id keeper)) rows)))"

definition ack_outbox_entry ::
  "uuid \<Rightarrow> instant \<Rightarrow> 'm center_store \<Rightarrow> (center_outbox_repository_error + ack_outcome) \<times> 'm center_store" where
  "ack_outbox_entry entry_id acked_at store =
     with_outbox store (transact OutboxCoordinate OutboxDatabase (cs_fault store) (\<lambda>rows.
       rbind (call OutboxDatabase (cs_fault store) CenterUpdate) (\<lambda>_.
       let rows1 = map (\<lambda>r. if is_pending_row entry_id r then mark_acked acked_at r else r) rows in
       rbind (if length (filter (is_pending_row entry_id) rows) = 1 then Inr Acknowledged
              else rbind (call OutboxDatabase (cs_fault store) CenterQuery) (\<lambda>_.
                   rbind (ok_or (OutboxNotFound entry_id) (find_outbox_row rows1 entry_id)) (\<lambda>model.
                   rbind (map_stored_outbox_entry store entry_id model) (\<lambda>_.
                   Inr AlreadyAcknowledged)))) (\<lambda>outcome.
       rbind (call OutboxDatabase (cs_fault store) CenterReread) (\<lambda>_.
       rbind (case find_outbox_row rows1 entry_id of
                None \<Rightarrow> Inr rows1
              | Some model \<Rightarrow>
                  (case our_operation_id model of
                     None \<Rightarrow> Inr rows1
                   | Some operation \<Rightarrow>
                       prune_acked_operation_history store (our_instance_id model) operation rows1)) (\<lambda>rows2.
       Inr (outcome, rows2)))))) (cs_outbox store))"

section \<open>The lookups by operation\<close>

text \<open>
  The scan of the rows written before the column existed: the first whose payload is the offer is
  returned, and its column is filled in under the write permit.
\<close>

fun backfill_scan ::
  "operation_id \<Rightarrow> outbox_row list \<Rightarrow> 'm center_store
     \<Rightarrow> (center_outbox_repository_error + outbox_entry option) \<times> 'm center_store" where
  "backfill_scan operation [] store = (Inr None, store)"
| "backfill_scan operation (model # rest) store =
     (case map_row store model of
        Inl e \<Rightarrow> (Inl e, store)
      | Inr entry \<Rightarrow>
          if payload_operation_id store (ob_payload_json entry) \<noteq> Some operation
          then backfill_scan operation rest store
          else if cs_fault store CenterPermit then (Inl OutboxCoordinate, store)
          else if cs_fault store CenterUpdate then (Inl OutboxDatabase, store)
          else (Inr (Some entry), store\<lparr>cs_outbox :=
                 map (\<lambda>r. if our_id r = our_id model then r\<lparr>our_operation_id := Some operation\<rparr> else r)
                   (cs_outbox store)\<rparr>))"

text \<open>The lookup both methods perform: over the rows they may see, in their order.\<close>

definition lookup_offer ::
  "(outbox_row \<Rightarrow> bool) \<Rightarrow> (outbox_row \<Rightarrow> int \<times> uuid) \<Rightarrow> operation_id \<Rightarrow> 'm center_store
     \<Rightarrow> (center_outbox_repository_error + outbox_entry option) \<times> 'm center_store" where
  "lookup_offer visible key operation store =
     (if cs_fault store CenterQuery then (Inl OutboxDatabase, store)
      else (case newest key (filter (\<lambda>r. visible r \<and> our_operation_id r = Some operation) (cs_outbox store)) of
          Some model \<Rightarrow> (rbind (map_row store model) (\<lambda>entry. Inr (Some entry)), store)
        | None \<Rightarrow>
            if cs_fault store CenterNullQuery then (Inl OutboxDatabase, store)
            else if \<not> list_ex (\<lambda>r. visible r \<and> our_operation_id r = None) (cs_outbox store) then (Inr None, store)
            else if cs_fault store CenterScan then (Inl OutboxDatabase, store)
            else backfill_scan operation
                   (rev (sort_key key (filter (\<lambda>r. visible r \<and> our_operation_id r = None) (cs_outbox store)))) store))"

definition find_outbox_entry_by_operation ::
  "instance_id \<Rightarrow> operation_id \<Rightarrow> 'm center_store
     \<Rightarrow> (center_outbox_repository_error + outbox_entry option) \<times> 'm center_store" where
  "find_outbox_entry_by_operation inst operation store =
     lookup_offer (\<lambda>r. our_instance_id r = inst) queue_key operation store"

definition find_offer_by_operation_across_instances ::
  "operation_id \<Rightarrow> 'm center_store \<Rightarrow> (center_outbox_repository_error + outbox_entry option) \<times> 'm center_store" where
  "find_offer_by_operation_across_instances operation store =
     lookup_offer (\<lambda>_. True) (\<lambda>r. (our_created_at r, our_id r)) operation store"

end
