(* ===== verification/Center_Inbox.thy ===== *)
theory Center_Inbox
  imports Center_Outbox
begin

text \<open>
  The envelopes received from the center, \<open>persistence/src/center_inbox_repository.rs\<close>, and the
  cursors of the outgoing streams, \<open>persistence/src/sync_cursor_repository.rs\<close>. The operation
  identity is the idempotency key of the inbox: its column holds the text form, under a unique index.
  The payload is protected like a command, bound to the operation identity.
\<close>

section \<open>Errors and outcomes\<close>

datatype stored_inbox_payload_error = InboxKeyMissing | InboxProtection command_protection_error

datatype stored_center_inbox_error =
    InvalidInboxOperationId
  | InvalidInboxState inbox_entry_state_parse_error
  | InvalidInboxPayloadCiphertext command_protection_error

datatype center_inbox_repository_error =
    InboxCoordinate
  | InboxCommandKeyMissing
  | InboxPayloadProtection command_protection_error
  | InboxNotFound operation_id
  | StateConflict operation_id inbox_event inbox_entry_state
  | InboxCorrupt uuid stored_center_inbox_error
  | InboxDatabase

datatype create_inbox_outcome = InboxCreated | DuplicateInProgress | DuplicateResolved inbox_entry_state

datatype inbox_advance_outcome = Advanced inbox_entry_state | AlreadyInState

section \<open>Payloads and rows\<close>

definition inbox_command_key :: "'m center_store \<Rightarrow> center_inbox_repository_error + byte list" where
  "inbox_command_key store = ok_or InboxCommandKeyMissing (cs_command_key store)"

definition protect_inbox_payload ::
  "'m center_store \<Rightarrow> operation_id \<Rightarrow> ustring \<Rightarrow> center_inbox_repository_error + ustring" where
  "protect_inbox_payload store operation plaintext =
     rbind (inbox_command_key store) (\<lambda>master_key.
     map_err InboxPayloadProtection
       (encrypt_command (cs_cipher store) (cs_getrandom store operation) master_key (id_bytes operation) plaintext))"

definition recover_inbox_payload ::
  "'m center_store \<Rightarrow> operation_id \<Rightarrow> ustring \<Rightarrow> stored_inbox_payload_error + ustring" where
  "recover_inbox_payload store operation stored =
     (if prefix COMMAND_CIPHER_ENVELOPE_PREFIX stored
      then rbind (ok_or InboxKeyMissing (cs_command_key store)) (\<lambda>master_key.
           map_err InboxProtection (decrypt_command (cs_cipher store) master_key (id_bytes operation) stored))
      else Inr stored)"

fun inbox_payload_error :: "uuid \<Rightarrow> stored_inbox_payload_error \<Rightarrow> center_inbox_repository_error" where
  "inbox_payload_error i InboxKeyMissing = InboxCommandKeyMissing"
| "inbox_payload_error i (InboxProtection e) = InboxCorrupt i (InvalidInboxPayloadCiphertext e)"

definition map_stored_inbox_entry ::
  "'m center_store \<Rightarrow> uuid \<Rightarrow> inbox_row \<Rightarrow> center_inbox_repository_error + inbox_entry" where
  "map_stored_inbox_entry store entry_id model =
     rbind (ok_or (InboxCorrupt entry_id InvalidInboxOperationId)
              (cs_uuid_parse store (inr_operation_id model))) (\<lambda>operation.
     rbind (map_err (inbox_payload_error entry_id)
              (recover_inbox_payload store operation (inr_payload_json model))) (\<lambda>payload.
     rbind (map_err (\<lambda>e. InboxCorrupt entry_id (InvalidInboxState e))
              (inbox_entry_state_from_str (inr_state model))) (\<lambda>st.
     Inr (inbox_entry_from_parts entry_id operation (inr_instance_id model) payload st
            (inr_expires_at model) (inr_received_at model)))))"

definition inbox_row_of :: "'m center_store \<Rightarrow> inbox_entry \<Rightarrow> ustring \<Rightarrow> inbox_row" where
  "inbox_row_of store entry payload_json =
     \<lparr>inr_id = ib_id entry, inr_operation_id = cs_uuid_to_string store (ib_operation_id entry),
      inr_instance_id = ib_instance_id entry, inr_payload_json = payload_json,
      inr_state = inbox_entry_state_as_str (ib_state entry), inr_expires_at = ib_expires_at entry,
      inr_received_at = ib_received_at entry\<rparr>"

definition insert_inbox_entry ::
  "'m center_store \<Rightarrow> inbox_entry \<Rightarrow> ustring \<Rightarrow> inbox_row list \<Rightarrow> center_inbox_repository_error + inbox_row list" where
  "insert_inbox_entry store entry payload_json rows =
     (let row = inbox_row_of store entry payload_json in
      rbind (call InboxDatabase (cs_fault store) CenterInsert) (\<lambda>_.
      if list_ex (\<lambda>r. inr_id r = inr_id row \<or> inr_operation_id r = inr_operation_id row) rows
         \<or> inr_instance_id row \<notin> set (cs_instances store)
         \<or> inr_state row \<notin> {''received'', ''accepted'', ''rejected'', ''completed''}
      then Inl InboxDatabase
      else Inr (rows @ [row])))"

section \<open>The repository\<close>

definition with_inbox :: "'m center_store \<Rightarrow> ('e + 'a) \<times> inbox_row list \<Rightarrow> ('e + 'a) \<times> 'm center_store" where
  "with_inbox store q = (case q of (r, rows) \<Rightarrow> (r, store\<lparr>cs_inbox := rows\<rparr>))"

definition of_operation :: "'m center_store \<Rightarrow> operation_id \<Rightarrow> inbox_row \<Rightarrow> bool" where
  "of_operation store operation r \<longleftrightarrow> inr_operation_id r = cs_uuid_to_string store operation"

definition create_inbox_entry ::
  "inbox_entry \<Rightarrow> 'm center_store \<Rightarrow> (center_inbox_repository_error + create_inbox_outcome) \<times> 'm center_store" where
  "create_inbox_entry entry store =
     (case inbox_command_key store of
        Inl e \<Rightarrow> (Inl e, store)
      | Inr _ \<Rightarrow>
          with_inbox store (transact InboxCoordinate InboxDatabase (cs_fault store) (\<lambda>rows.
            rbind (call InboxDatabase (cs_fault store) CenterQuery) (\<lambda>_.
            case List.find (of_operation store (ib_operation_id entry)) rows of
              Some model \<Rightarrow>
                rbind (map_stored_inbox_entry store (inr_id model) model) (\<lambda>stored.
                Inr (case decide_inbox_duplicate (Some (ib_state stored)) of
                       Proceed \<Rightarrow> InboxCreated
                     | InProgress \<Rightarrow> DuplicateInProgress
                     | AlreadyResolved st \<Rightarrow> DuplicateResolved st, rows))
            | None \<Rightarrow>
                rbind (protect_inbox_payload store (ib_operation_id entry) (ib_payload_json entry)) (\<lambda>payload_json.
                rbind (insert_inbox_entry store entry payload_json rows) (\<lambda>rows'.
                Inr (InboxCreated, rows'))))) (cs_inbox store)))"

definition find_inbox_entry_by_operation ::
  "operation_id \<Rightarrow> 'm center_store \<Rightarrow> center_inbox_repository_error + inbox_entry option" where
  "find_inbox_entry_by_operation operation store =
     rbind (call InboxDatabase (cs_fault store) CenterQuery) (\<lambda>_.
     case List.find (of_operation store operation) (cs_inbox store) of
       None \<Rightarrow> Inr None
     | Some model \<Rightarrow> rbind (map_stored_inbox_entry store (inr_id model) model) (\<lambda>entry. Inr (Some entry)))"

text \<open>The filters of the conditional update, and the update.\<close>

definition in_from_state :: "'m center_store \<Rightarrow> operation_id \<Rightarrow> inbox_event \<Rightarrow> inbox_row \<Rightarrow> bool" where
  "in_from_state store operation event r \<longleftrightarrow>
     of_operation store operation r \<and> inr_state r = inbox_entry_state_as_str (inbox_event_from_state event)"

definition to_state :: "inbox_event \<Rightarrow> inbox_row \<Rightarrow> inbox_row" where
  "to_state event r = r\<lparr>inr_state := inbox_entry_state_as_str (inbox_event_to_state event)\<rparr>"

definition advance_inbox_entry ::
  "operation_id \<Rightarrow> inbox_event \<Rightarrow> 'm center_store
     \<Rightarrow> (center_inbox_repository_error + inbox_advance_outcome) \<times> 'm center_store" where
  "advance_inbox_entry operation event store =
     with_inbox store (transact InboxCoordinate InboxDatabase (cs_fault store) (\<lambda>rows.
       rbind (call InboxDatabase (cs_fault store) CenterUpdate) (\<lambda>_.
       let rows1 = map (\<lambda>r. if in_from_state store operation event r then to_state event r else r) rows in
       if length (filter (in_from_state store operation event) rows) = 1
       then Inr (Advanced (inbox_event_to_state event), rows1)
       else rbind (call InboxDatabase (cs_fault store) CenterQuery) (\<lambda>_.
            rbind (ok_or (InboxNotFound operation) (List.find (of_operation store operation) rows1)) (\<lambda>model.
            rbind (map_stored_inbox_entry store (inr_id model) model) (\<lambda>stored.
            if ib_state stored = inbox_event_to_state event then Inr (AlreadyInState, rows1)
            else Inl (StateConflict operation event (ib_state stored))))))) (cs_inbox store))"

section \<open>Sync cursors\<close>

datatype sync_cursor_repository_error =
    CursorCoordinate
  | CursorCorrupt uuid sync_stream_parse_error
  | CursorDatabase

definition map_stored_cursor :: "uuid \<Rightarrow> cursor_row \<Rightarrow> sync_cursor_repository_error + sync_cursor" where
  "map_stored_cursor cursor_id model =
     rbind (map_err (CursorCorrupt cursor_id) (sync_stream_from_str (cur_stream model))) (\<lambda>stream.
     Inr \<lparr>sc_id = cursor_id, sc_instance_id = cur_instance_id model, sc_stream = stream,
          sc_cursor_value = cur_cursor_value model, sc_updated_at = cur_updated_at model\<rparr>)"

definition is_cursor :: "instance_id \<Rightarrow> sync_stream \<Rightarrow> cursor_row \<Rightarrow> bool" where
  "is_cursor inst stream r \<longleftrightarrow> cur_instance_id r = inst \<and> cur_stream r = sync_stream_as_str stream"

definition get_sync_cursor ::
  "instance_id \<Rightarrow> sync_stream \<Rightarrow> 'm center_store \<Rightarrow> sync_cursor_repository_error + sync_cursor option" where
  "get_sync_cursor inst stream store =
     rbind (call CursorDatabase (cs_fault store) CenterQuery) (\<lambda>_.
     case List.find (is_cursor inst stream) (cs_cursors store) of
       None \<Rightarrow> Inr None
     | Some model \<Rightarrow> rbind (map_stored_cursor (cur_id model) model) (\<lambda>cursor. Inr (Some cursor)))"

definition cursor_row_of :: "sync_cursor \<Rightarrow> cursor_row" where
  "cursor_row_of cursor =
     \<lparr>cur_id = sc_id cursor, cur_instance_id = sc_instance_id cursor,
      cur_stream = sync_stream_as_str (sc_stream cursor), cur_cursor_value = sc_cursor_value cursor,
      cur_updated_at = sc_updated_at cursor\<rparr>"

text \<open>The update writes the row with the primary key of the model that was read.\<close>

definition replace_cursor :: "uuid \<Rightarrow> sync_cursor \<Rightarrow> cursor_row \<Rightarrow> cursor_row" where
  "replace_cursor i cursor r =
     (if cur_id r = i then r\<lparr>cur_cursor_value := sc_cursor_value cursor, cur_updated_at := sc_updated_at cursor\<rparr> else r)"

text \<open>
  The insert is refused for a known primary key, a second row of the instance and stream, and an
  unregistered instance; the CHECK on the stream holds of every printed stream.
\<close>

definition upsert_cursor ::
  "'m center_store \<Rightarrow> sync_cursor \<Rightarrow> cursor_row list \<Rightarrow> sync_cursor_repository_error + unit \<times> cursor_row list" where
  "upsert_cursor store cursor rows =
     rbind (call CursorDatabase (cs_fault store) CenterQuery) (\<lambda>_.
     case List.find (is_cursor (sc_instance_id cursor) (sc_stream cursor)) rows of
       Some model \<Rightarrow>
         rbind (call CursorDatabase (cs_fault store) CenterUpdate) (\<lambda>_.
         Inr ((), map (replace_cursor (cur_id model) cursor) rows))
     | None \<Rightarrow>
         rbind (call CursorDatabase (cs_fault store) CenterInsert) (\<lambda>_.
         if list_ex (\<lambda>r. cur_id r = sc_id cursor \<or> is_cursor (sc_instance_id cursor) (sc_stream cursor) r) rows
            \<or> sc_instance_id cursor \<notin> set (cs_instances store)
         then Inl CursorDatabase
         else Inr ((), rows @ [cursor_row_of cursor])))"

definition set_sync_cursor ::
  "sync_cursor \<Rightarrow> 'm center_store \<Rightarrow> (sync_cursor_repository_error + unit) \<times> 'm center_store" where
  "set_sync_cursor cursor store =
     (case transact CursorCoordinate CursorDatabase (cs_fault store) (upsert_cursor store cursor) (cs_cursors store) of
        (r, rows) \<Rightarrow> (r, store\<lparr>cs_cursors := rows\<rparr>))"

end
