(* ===== verification/Center_Binding_Repository.thy ===== *)
theory Center_Binding_Repository
  imports Center_Store
begin

text \<open>
  The bindings of sites to their center, \<open>persistence/src/center_binding_repository.rs\<close>. The
  table has the binding identity as primary key, a foreign key to the registered instances, a
  unique index on the site over the active (pending or bound) rows, and CHECK constraints that mirror
  the domain's column shapes. Among rows with one creation time a lookup by newest row may return any;
  the model takes the one stored last. The second half proves what the registration and the session
  admission rest on.
\<close>

section \<open>Errors\<close>

datatype stored_center_binding_error =
    InvalidBindingState center_binding_state_parse_error
  | InvalidFingerprint fingerprint_parse_error
  | InvalidBinding center_binding_error

datatype center_binding_repository_error =
    BindingCoordinate
  | BindingNotFound uuid
  | AlreadyActiveBinding instance_id
  | BindingNotPending uuid
  | CodeExpired
  | BindingCodeMismatch
  | FingerprintAlreadyBound fingerprint
  | BindingCorrupt uuid stored_center_binding_error
  | BindingDatabase

datatype revoke_outcome = Revoked | AlreadyRevoked

section \<open>Rows\<close>

definition map_stored_binding :: "uuid \<Rightarrow> binding_row \<Rightarrow> center_binding_repository_error + center_binding" where
  "map_stored_binding i model =
     rbind (case bd_site_cert_fingerprint model of
              None \<Rightarrow> Inr None
            | Some text \<Rightarrow> rbind (map_err (\<lambda>e. BindingCorrupt i (InvalidFingerprint e)) (fingerprint_from_str text))
                             (\<lambda>fp. Inr (Some fp))) (\<lambda>fp.
     rbind (map_err (\<lambda>e. BindingCorrupt i (InvalidBindingState e)) (center_binding_state_from_str (bd_state model))) (\<lambda>st.
     map_err (\<lambda>e. BindingCorrupt i (InvalidBinding e))
       (binding_try_from_parts i (bd_center_url model) (bd_site_instance_id model) st
          (bd_binding_code_hash model) fp (bd_bound_at model) (bd_expires_at model) (bd_created_at model))))"

definition binding_row_of :: "center_binding \<Rightarrow> binding_row" where
  "binding_row_of b =
     \<lparr>bd_id = cb_id b, bd_center_url = cb_center_url b, bd_binding_code_hash = cb_binding_code_hash b,
      bd_site_instance_id = cb_site_instance_id b,
      bd_site_cert_fingerprint = map_option fingerprint_to_string (cb_site_cert_fingerprint b),
      bd_state = center_binding_state_as_str (cb_state b), bd_bound_at = cb_bound_at b,
      bd_expires_at = cb_expires_at b, bd_created_at = cb_created_at b\<rparr>"

text \<open>\<open>state IN ('pending', 'bound')\<close>, and the two CHECK constraints of the table.\<close>

definition binding_row_active :: "binding_row \<Rightarrow> bool" where
  "binding_row_active r \<longleftrightarrow> bd_state r = ''pending'' \<or> bd_state r = ''bound''"

definition binding_row_check :: "binding_row \<Rightarrow> bool" where
  "binding_row_check r \<longleftrightarrow>
     (bd_state r = ''pending'' \<and> bd_binding_code_hash r \<noteq> None \<and> bd_expires_at r \<noteq> None \<and> bd_bound_at r = None)
   \<or> (bd_state r = ''bound'' \<and> bd_binding_code_hash r = None \<and> bd_expires_at r = None \<and> bd_bound_at r \<noteq> None)
   \<or> (bd_state r = ''revoked'' \<and> bd_binding_code_hash r = None \<and> bd_expires_at r = None)"

definition insert_binding ::
  "'m center_store \<Rightarrow> center_binding \<Rightarrow> binding_row list \<Rightarrow> center_binding_repository_error + binding_row list" where
  "insert_binding store b rows =
     (let row = binding_row_of b in
      rbind (call BindingDatabase (cs_fault store) CenterInsert) (\<lambda>_.
      if list_ex (\<lambda>r. bd_id r = bd_id row) rows
         \<or> bd_site_instance_id row \<notin> set (cs_instances store)
         \<or> (binding_row_active row
              \<and> list_ex (\<lambda>r. bd_site_instance_id r = bd_site_instance_id row \<and> binding_row_active r) rows)
         \<or> \<not> binding_row_check row
      then Inl BindingDatabase
      else Inr (rows @ [row])))"

section \<open>Methods\<close>

definition with_bindings ::
  "'m center_store \<Rightarrow> ('e + 'a) \<times> binding_row list \<Rightarrow> ('e + 'a) \<times> 'm center_store" where
  "with_bindings store q = (case q of (r, rows) \<Rightarrow> (r, store\<lparr>cs_bindings := rows\<rparr>))"

definition create_binding ::
  "center_binding \<Rightarrow> 'm center_store \<Rightarrow> (center_binding_repository_error + unit) \<times> 'm center_store" where
  "create_binding b store =
     with_bindings store (transact BindingCoordinate BindingDatabase (cs_fault store) (\<lambda>rows.
       rbind (call BindingDatabase (cs_fault store) CenterQuery) (\<lambda>_.
       if list_ex (\<lambda>r. bd_site_instance_id r = cb_site_instance_id b \<and> binding_row_active r) rows
       then rolled_back BindingDatabase (cs_fault store) (AlreadyActiveBinding (cb_site_instance_id b))
       else rbind (insert_binding store b rows) (\<lambda>rows'. Inr ((), rows')))) (cs_bindings store))"

definition find_binding_row :: "binding_row list \<Rightarrow> uuid \<Rightarrow> binding_row option" where
  "find_binding_row rows i = List.find (\<lambda>r. bd_id r = i) rows"

definition map_found_binding ::
  "binding_row option \<Rightarrow> center_binding_repository_error + center_binding option" where
  "map_found_binding found =
     (case found of
        None \<Rightarrow> Inr None
      | Some model \<Rightarrow> rbind (map_stored_binding (bd_id model) model) (\<lambda>b. Inr (Some b)))"

definition find_binding :: "uuid \<Rightarrow> 'm center_store \<Rightarrow> center_binding_repository_error + center_binding option" where
  "find_binding i store =
     rbind (call BindingDatabase (cs_fault store) CenterQuery) (\<lambda>_.
     map_found_binding (find_binding_row (cs_bindings store) i))"

definition find_binding_by_site ::
  "instance_id \<Rightarrow> 'm center_store \<Rightarrow> center_binding_repository_error + center_binding option" where
  "find_binding_by_site site store =
     rbind (call BindingDatabase (cs_fault store) CenterQuery) (\<lambda>_.
     map_found_binding (newest bd_created_at
       (filter (\<lambda>r. bd_site_instance_id r = site) (cs_bindings store))))"

definition find_pending_binding_by_code_hash ::
  "byte list \<Rightarrow> 'm center_store \<Rightarrow> center_binding_repository_error + center_binding option" where
  "find_pending_binding_by_code_hash hash store =
     rbind (call BindingDatabase (cs_fault store) CenterQuery) (\<lambda>_.
     map_found_binding (case sort_key bd_created_at
         (filter (\<lambda>r. bd_state r = ''pending'' \<and> bd_binding_code_hash r = Some hash) (cs_bindings store)) of
       [] \<Rightarrow> None | r # _ \<Rightarrow> Some r))"

definition find_binding_by_site_fingerprint ::
  "fingerprint \<Rightarrow> 'm center_store \<Rightarrow> center_binding_repository_error + center_binding option" where
  "find_binding_by_site_fingerprint fp store =
     rbind (call BindingDatabase (cs_fault store) CenterQuery) (\<lambda>_.
     map_found_binding (newest bd_created_at
       (filter (\<lambda>r. bd_site_cert_fingerprint r = Some (fingerprint_to_string fp)) (cs_bindings store))))"

fun verification_error :: "uuid \<Rightarrow> binding_code_verification_error \<Rightarrow> center_binding_repository_error" where
  "verification_error i NotPending = BindingNotPending i"
| "verification_error i Expired = CodeExpired"
| "verification_error i CodeMismatch = BindingCodeMismatch"

definition competing :: "uuid \<Rightarrow> fingerprint \<Rightarrow> binding_row \<Rightarrow> bool" where
  "competing i fp r \<longleftrightarrow>
     bd_site_cert_fingerprint r = Some (fingerprint_to_string fp) \<and> bd_state r = ''bound'' \<and> bd_id r \<noteq> i"

definition mark_bound :: "fingerprint option \<Rightarrow> instant \<Rightarrow> binding_row \<Rightarrow> binding_row" where
  "mark_bound fp now r =
     r\<lparr>bd_state := ''bound'', bd_binding_code_hash := None, bd_expires_at := None,
       bd_site_cert_fingerprint := map_option fingerprint_to_string fp, bd_bound_at := Some now\<rparr>"

definition bind_with_code ::
  "uuid \<Rightarrow> binding_code \<Rightarrow> fingerprint option \<Rightarrow> instant \<Rightarrow> 'm center_store
     \<Rightarrow> (center_binding_repository_error + unit) \<times> 'm center_store" where
  "bind_with_code i code fp now store =
     with_bindings store (transact BindingCoordinate BindingDatabase (cs_fault store) (\<lambda>rows.
       rbind (call BindingDatabase (cs_fault store) CenterQuery) (\<lambda>_.
       rbind (ok_or (BindingNotFound i) (find_binding_row rows i)) (\<lambda>model.
       rbind (map_stored_binding i model) (\<lambda>binding.
       rbind (map_err (verification_error i) (verify_code (cs_sha256 store) binding code now)) (\<lambda>_.
       rbind (case fp of
                None \<Rightarrow> Inr ()
              | Some f \<Rightarrow>
                  rbind (call BindingDatabase (cs_fault store) CenterCompeting) (\<lambda>_.
                  if list_ex (competing i f) rows
                  then rolled_back BindingDatabase (cs_fault store) (FingerprintAlreadyBound f)
                  else Inr ())) (\<lambda>_.
       rbind (call BindingDatabase (cs_fault store) CenterUpdate) (\<lambda>_.
       if length (filter (\<lambda>r. bd_id r = i \<and> bd_state r = ''pending'') rows) \<noteq> 1
       then rolled_back BindingDatabase (cs_fault store) (BindingNotPending i)
       else Inr ((), map (\<lambda>r. if bd_id r = i \<and> bd_state r = ''pending'' then mark_bound fp now r else r) rows))))))))
       (cs_bindings store))"

definition mark_revoked :: "binding_row \<Rightarrow> binding_row" where
  "mark_revoked r = r\<lparr>bd_state := ''revoked'', bd_binding_code_hash := None, bd_expires_at := None\<rparr>"

definition revoke_binding ::
  "uuid \<Rightarrow> 'm center_store \<Rightarrow> (center_binding_repository_error + revoke_outcome) \<times> 'm center_store" where
  "revoke_binding i store =
     with_bindings store (transact BindingCoordinate BindingDatabase (cs_fault store) (\<lambda>rows.
       rbind (call BindingDatabase (cs_fault store) CenterUpdate) (\<lambda>_.
       if length (filter (\<lambda>r. bd_id r = i \<and> bd_state r \<noteq> ''revoked'') rows) = 1
       then Inr (Revoked, map (\<lambda>r. if bd_id r = i \<and> bd_state r \<noteq> ''revoked'' then mark_revoked r else r) rows)
       else rbind (call BindingDatabase (cs_fault store) CenterReread) (\<lambda>_.
         if find_binding_row rows i = None
         then rolled_back BindingDatabase (cs_fault store) (BindingNotFound i)
         else Inr (AlreadyRevoked, rows)))) (cs_bindings store))"

section \<open>Histories\<close>

text \<open>
  What happens to the table: sites register, present codes and are revoked, in any order and with
  any outcome, and the calls that fail change.
\<close>

datatype binding_op =
    Register uuid ustring instance_id binding_code instant instant
  | Present uuid binding_code "fingerprint option" instant
  | Revocation uuid
  | BindingWorld "center_call \<Rightarrow> bool"

fun binding_step :: "binding_op \<Rightarrow> 'm center_store \<Rightarrow> 'm center_store" where
  "binding_step (Register i url site code expires created) s =
     snd (create_binding (binding_new_pending (cs_sha256 s) i url site code expires created) s)"
| "binding_step (Present i code fp now) s = snd (bind_with_code i code fp now s)"
| "binding_step (Revocation i) s = snd (revoke_binding i s)"
| "binding_step (BindingWorld f) s = s\<lparr>cs_fault := f\<rparr>"

definition binding_run :: "binding_op list \<Rightarrow> 'm center_store \<Rightarrow> 'm center_store" where
  "binding_run ops s = foldl (\<lambda>s op. binding_step op s) s ops"

text \<open>
  The invariant: identities are unique, rows have the shape of their state, a site has at most one
  active binding, and a certificate fingerprint belongs to at most one bound registration.
\<close>

definition unique_by :: "(binding_row \<Rightarrow> bool) \<Rightarrow> (binding_row \<Rightarrow> 'k) \<Rightarrow> binding_row list \<Rightarrow> bool" where
  "unique_by P k rows \<longleftrightarrow>
     (\<forall>r \<in> set rows. \<forall>q \<in> set rows. P r \<and> P q \<and> k r = k q \<longrightarrow> bd_id r = bd_id q)"

definition identified :: "binding_row \<Rightarrow> bool" where
  "identified r \<longleftrightarrow> bd_state r = ''bound'' \<and> bd_site_cert_fingerprint r \<noteq> None"

definition binding_inv :: "'m center_store \<Rightarrow> bool" where
  "binding_inv s \<longleftrightarrow>
     distinct (map bd_id (cs_bindings s))
   \<and> (\<forall>r \<in> set (cs_bindings s). binding_row_check r)
   \<and> unique_by binding_row_active bd_site_instance_id (cs_bindings s)
   \<and> unique_by identified bd_site_cert_fingerprint (cs_bindings s)"

lemma unique_by_snoc:
  assumes "unique_by P k rows" "P x \<Longrightarrow> \<forall>r \<in> set rows. \<not> (P r \<and> k r = k x)"
  shows "unique_by P k (rows @ [x])"
  unfolding unique_by_def
proof (intro ballI impI)
  fix a b
  assume "a \<in> set (rows @ [x])" "b \<in> set (rows @ [x])" and eq: "P a \<and> P b \<and> k a = k b"
  then consider "a \<in> set rows" "b \<in> set rows" | "a \<in> set rows" "b = x" | "a = x" "b \<in> set rows" | "a = x" "b = x"
    by auto
  then show "bd_id a = bd_id b"
  proof cases
    case 1
    with assms(1) eq show ?thesis unfolding unique_by_def by blast
  qed (use assms(2) eq in force)+
qed

lemma unique_by_restrict:
  assumes "unique_by P k rows" "\<And>r. bd_id (g r) = bd_id r" "\<And>r. P (g r) \<Longrightarrow> P r \<and> k (g r) = k r"
  shows "unique_by P k (map g rows)"
  unfolding unique_by_def
proof (intro ballI impI)
  fix a b
  assume "a \<in> set (map g rows)" "b \<in> set (map g rows)" and eq: "P a \<and> P b \<and> k a = k b"
  then obtain r q where r: "r \<in> set rows" "a = g r" and q: "q \<in> set rows" "b = g q" by auto
  with eq assms(3) have "P r" "P q" "k r = k q" by metis+
  with r q assms(1,2) show "bd_id a = bd_id b" unfolding unique_by_def by metis
qed

lemma unique_by_map:
  assumes "unique_by P k rows" "\<And>r. bd_id (g r) = bd_id r"
    and "\<And>r. r \<in> set rows \<Longrightarrow> P (g r) \<Longrightarrow> P r \<and> k (g r) = k r \<or> bd_id r = i \<and> k (g r) = v"
    and "\<And>r. r \<in> set rows \<Longrightarrow> P r \<Longrightarrow> k r = v \<Longrightarrow> bd_id r = i"
  shows "unique_by P k (map g rows)"
  unfolding unique_by_def
proof (intro ballI impI)
  fix a b
  assume "a \<in> set (map g rows)" "b \<in> set (map g rows)" and eq: "P a \<and> P b \<and> k a = k b"
  then obtain r q where r: "r \<in> set rows" "a = g r" and q: "q \<in> set rows" "b = g q" by auto
  from assms(3) [OF r(1)] assms(3) [OF q(1)] eq r(2) q(2)
  have "(P r \<and> k a = k r \<or> bd_id r = i \<and> k a = v) \<and> (P q \<and> k b = k q \<or> bd_id q = i \<and> k b = v)" by blast
  with eq assms(1,4) r(1) q(1) have "bd_id r = bd_id q" unfolding unique_by_def by metis
  with r(2) q(2) assms(2) show "bd_id a = bd_id b" by simp
qed

lemma with_bindings_cases:
  assumes "with_bindings s (transact c d f body (cs_bindings s)) = (r, s')"
  obtains (failed) e where "r = Inl e" "s' = s"
    | (committed) a rows where "r = Inr a" "body (cs_bindings s) = Inr (a, rows)" "s' = s\<lparr>cs_bindings := rows\<rparr>"
proof -
  obtain q rows where t: "transact c d f body (cs_bindings s) = (q, rows)" by fastforce
  then have eq: "r = q" "s' = s\<lparr>cs_bindings := rows\<rparr>" using assms by (simp_all add: with_bindings_def)
  from t show thesis
  proof (cases rule: transact_cases)
    case (failed e)
    with eq have "s' = s" by simp
    with failed eq that(1) show thesis by blast
  next
    case (committed a)
    with eq that(2) show thesis by blast
  qed
qed

lemma create_binding_Inr:
  assumes "create_binding b s = (Inr u, s')"
  shows "s' = s\<lparr>cs_bindings := cs_bindings s @ [binding_row_of b]\<rparr>"
    and "\<forall>r \<in> set (cs_bindings s). bd_id r \<noteq> cb_id b
        \<and> \<not> (bd_site_instance_id r = cb_site_instance_id b \<and> binding_row_active r)"
    and "binding_row_check (binding_row_of b)"
  using assms unfolding create_binding_def
  by (cases rule: with_bindings_cases;
      auto simp: result_simps insert_binding_def Let_def list_ex_iff binding_row_of_def split: if_splits)+

lemma bind_with_code_Inr:
  assumes "bind_with_code i code fp now s = (Inr u, s')"
  shows "\<exists>model b. find_binding_row (cs_bindings s) i = Some model \<and> map_stored_binding i model = Inr b
      \<and> verify_code (cs_sha256 s) b code now = Inr ()"
    and "\<And>f r. fp = Some f \<Longrightarrow> r \<in> set (cs_bindings s) \<Longrightarrow> \<not> competing i f r"
    and "s' = s\<lparr>cs_bindings := map (\<lambda>r. if bd_id r = i \<and> bd_state r = ''pending'' then mark_bound fp now r else r)
        (cs_bindings s)\<rparr>"
  using assms unfolding bind_with_code_def
  by (cases rule: with_bindings_cases; auto simp: result_simps list_ex_iff split: if_splits option.splits)+

lemma revoke_binding_Inr:
  assumes "revoke_binding i s = (Inr out, s')"
  shows "s' = s \<or> s' = s\<lparr>cs_bindings := map (\<lambda>r. if bd_id r = i \<and> bd_state r \<noteq> ''revoked'' then mark_revoked r else r)
        (cs_bindings s)\<rparr>"
  using assms unfolding revoke_binding_def
  by (cases rule: with_bindings_cases) (auto simp: result_simps split: if_splits)

lemma binding_errors_write_nothing:
  "create_binding b s = (Inl e, s') \<Longrightarrow> s' = s"
  "bind_with_code i code fp now s = (Inl e, s') \<Longrightarrow> s' = s"
  "revoke_binding i s = (Inl e, s') \<Longrightarrow> s' = s"
  unfolding create_binding_def bind_with_code_def revoke_binding_def
  by (erule with_bindings_cases; simp)+

lemma binding_row_of_fields [simp]:
  "bd_id (binding_row_of b) = cb_id b"
  "bd_site_instance_id (binding_row_of b) = cb_site_instance_id b"
  "bd_state (binding_row_of b) = center_binding_state_as_str (cb_state b)"
  by (simp_all add: binding_row_of_def)

lemma mark_bound_fields [simp]:
  "bd_id (mark_bound fp now r) = bd_id r"
  "bd_site_instance_id (mark_bound fp now r) = bd_site_instance_id r"
  "bd_state (mark_bound fp now r) = ''bound''"
  "bd_site_cert_fingerprint (mark_bound fp now r) = map_option fingerprint_to_string fp"
  by (simp_all add: mark_bound_def)

lemma mark_revoked_fields [simp]:
  "bd_id (mark_revoked r) = bd_id r"
  "bd_site_instance_id (mark_revoked r) = bd_site_instance_id r"
  "bd_state (mark_revoked r) = ''revoked''"
  by (simp_all add: mark_revoked_def)

lemma binding_inv_register:
  assumes "binding_inv s" "create_binding (binding_new_pending sha i url site code ex cr) s = (Inr u, s')"
  shows "binding_inv s'"
proof -
  let ?row = "binding_row_of (binding_new_pending sha i url site code ex cr)"
  have row: "bd_id ?row = i" "bd_site_instance_id ?row = site" "\<not> identified ?row"
    by (simp_all add: binding_new_pending_def identified_def)
  from create_binding_Inr [OF assms(2)] have s': "cs_bindings s' = cs_bindings s @ [?row]"
    and fresh: "\<forall>r \<in> set (cs_bindings s). bd_id r \<noteq> i \<and> \<not> (bd_site_instance_id r = site \<and> binding_row_active r)"
    and check: "binding_row_check ?row" by (simp_all add: binding_new_pending_def)
  have "unique_by binding_row_active bd_site_instance_id (cs_bindings s')"
    "unique_by identified bd_site_cert_fingerprint (cs_bindings s')"
    unfolding s' using assms(1) fresh row by (auto simp: binding_inv_def intro!: unique_by_snoc)
  moreover have "distinct (map bd_id (cs_bindings s'))" "\<forall>r \<in> set (cs_bindings s'). binding_row_check r"
    unfolding s' using assms(1) fresh row check by (auto simp: binding_inv_def)
  ultimately show ?thesis by (simp add: binding_inv_def)
qed

text \<open>An update of one row keeps the invariant.\<close>

lemma binding_inv_update:
  assumes "binding_inv s" "cs_bindings s' = map g (cs_bindings s)"
    and id: "\<And>r. bd_id (g r) = bd_id r"
    and check: "\<And>r. binding_row_check r \<Longrightarrow> binding_row_check (g r)"
    and active: "\<And>r. binding_row_active (g r) \<Longrightarrow> binding_row_active r \<and> bd_site_instance_id (g r) = bd_site_instance_id r"
    and fp: "\<And>r. identified (g r) \<Longrightarrow> identified r \<and> bd_site_cert_fingerprint (g r) = bd_site_cert_fingerprint r
      \<or> bd_id r = i \<and> bd_site_cert_fingerprint (g r) = v"
    and free: "\<And>r. r \<in> set (cs_bindings s) \<Longrightarrow> identified r \<Longrightarrow> bd_site_cert_fingerprint r = v \<Longrightarrow> bd_id r = i"
  shows "binding_inv s'"
proof -
  have "map bd_id (cs_bindings s') = map bd_id (cs_bindings s)" by (simp add: assms(2) id comp_def)
  moreover have "unique_by binding_row_active bd_site_instance_id (cs_bindings s')"
    unfolding assms(2) using assms(1) active id
    by (intro unique_by_restrict) (simp_all add: binding_inv_def)
  moreover have "unique_by identified bd_site_cert_fingerprint (cs_bindings s')"
    unfolding assms(2) using assms(1) id fp free
    by (intro unique_by_map [where i = i and v = v]) (simp_all add: binding_inv_def)
  moreover have "\<forall>r \<in> set (cs_bindings s'). binding_row_check r"
    using assms(1) check unfolding assms(2) by (simp add: binding_inv_def)
  ultimately show ?thesis using assms(1) unfolding binding_inv_def by metis
qed

lemma binding_inv_present:
  assumes "binding_inv s" "bind_with_code i code fp now s = (Inr u, s')"
  shows "binding_inv s'"
proof (rule binding_inv_update [OF assms(1), where i = i and v = "map_option fingerprint_to_string fp"])
  let ?g = "\<lambda>r. if bd_id r = i \<and> bd_state r = ''pending'' then mark_bound fp now r else r"
  show "cs_bindings s' = map ?g (cs_bindings s)" using bind_with_code_Inr(3) [OF assms(2)] by simp
  show "bd_id (?g r) = bd_id r" for r by simp
  show "binding_row_check (?g r)" if "binding_row_check r" for r
    using that by (cases "bd_id r = i \<and> bd_state r = ''pending''") (simp_all add: binding_row_check_def mark_bound_def)
  show "binding_row_active r \<and> bd_site_instance_id (?g r) = bd_site_instance_id r" if "binding_row_active (?g r)" for r
    using that by (cases "bd_id r = i \<and> bd_state r = ''pending''") (simp_all add: binding_row_active_def)
  show "identified r \<and> bd_site_cert_fingerprint (?g r) = bd_site_cert_fingerprint r
      \<or> bd_id r = i \<and> bd_site_cert_fingerprint (?g r) = map_option fingerprint_to_string fp" if "identified (?g r)" for r
    using that by (cases "bd_id r = i \<and> bd_state r = ''pending''") simp_all
  show "bd_id r = i" if "r \<in> set (cs_bindings s)" "identified r"
      "bd_site_cert_fingerprint r = map_option fingerprint_to_string fp" for r
  proof (cases fp)
    case None
    with that show ?thesis by (simp add: identified_def)
  next
    case (Some f)
    from bind_with_code_Inr(2) [OF assms(2) Some that(1)] that(2,3) Some show ?thesis
      by (simp add: competing_def identified_def)
  qed
qed

lemma binding_inv_revocation:
  assumes "binding_inv s" "revoke_binding i s = (Inr out, s')"
  shows "binding_inv s'"
  using revoke_binding_Inr [OF assms(2)]
proof
  let ?g = "\<lambda>r. if bd_id r = i \<and> bd_state r \<noteq> ''revoked'' then mark_revoked r else r"
  assume s': "s' = s\<lparr>cs_bindings := map ?g (cs_bindings s)\<rparr>"
  show ?thesis
  proof (rule binding_inv_update [OF assms(1), where i = i and v = None])
    show "cs_bindings s' = map ?g (cs_bindings s)" by (simp add: s')
    show "bd_id (?g r) = bd_id r" for r by simp
    show "binding_row_check (?g r)" if "binding_row_check r" for r
      using that by (cases "bd_id r = i \<and> bd_state r \<noteq> ''revoked''") (simp_all add: binding_row_check_def mark_revoked_def)
    show "binding_row_active r \<and> bd_site_instance_id (?g r) = bd_site_instance_id r" if "binding_row_active (?g r)" for r
      using that by (cases "bd_id r = i \<and> bd_state r \<noteq> ''revoked''") (simp_all add: binding_row_active_def)
    show "identified r \<and> bd_site_cert_fingerprint (?g r) = bd_site_cert_fingerprint r
        \<or> bd_id r = i \<and> bd_site_cert_fingerprint (?g r) = None" if "identified (?g r)" for r
      using that by (cases "bd_id r = i \<and> bd_state r \<noteq> ''revoked''") (simp_all add: identified_def)
  qed (simp add: identified_def)
qed (use assms(1) in simp)

lemma binding_inv_step: "binding_inv s \<Longrightarrow> binding_inv (binding_step op s)"
proof (cases op)
  case (Register i url site code ex cr)
  assume inv: "binding_inv s"
  obtain r s' where run: "create_binding (binding_new_pending (cs_sha256 s) i url site code ex cr) s = (r, s')" by fastforce
  with inv Register show ?thesis
    by (cases r) (auto dest: binding_errors_write_nothing(1) binding_inv_register [OF inv])
next
  case (Present i code fp now)
  assume inv: "binding_inv s"
  obtain r s' where "bind_with_code i code fp now s = (r, s')" by fastforce
  with inv Present show ?thesis
    by (cases r) (auto dest: binding_errors_write_nothing(2) binding_inv_present [OF inv])
next
  case (Revocation i)
  assume inv: "binding_inv s"
  obtain r s' where "revoke_binding i s = (r, s')" by fastforce
  with inv Revocation show ?thesis
    by (cases r) (auto dest: binding_errors_write_nothing(3) binding_inv_revocation [OF inv])
next
  case (BindingWorld f)
  assume "binding_inv s"
  with BindingWorld show ?thesis by (simp add: binding_inv_def)
qed

lemma binding_inv_run: "binding_inv s \<Longrightarrow> binding_inv (binding_run ops s)"
  unfolding binding_run_def by (induction ops arbitrary: s) (simp_all add: binding_inv_step)

section \<open>A code is consumed\<close>

definition settled :: "uuid \<Rightarrow> 'm center_store \<Rightarrow> bool" where
  "settled i s \<longleftrightarrow> (\<exists>r \<in> set (cs_bindings s). bd_id r = i \<and> bd_state r \<noteq> ''pending'')"

lemma map_stored_binding_Inr:
  "map_stored_binding i model = Inr b \<Longrightarrow>
     binding_ok b \<and> bd_state model = center_binding_state_as_str (cb_state b)"
  by (auto simp: map_stored_binding_def result_simps binding_try_from_parts_Inr
      dest!: binding_state_code.print_parse split: option.splits)

lemma verified_is_pending:
  assumes "map_stored_binding i model = Inr b" "verify_code sha b code now = Inr u"
  shows "bd_state model = ''pending''"
  using map_stored_binding_Inr [OF assms(1)] assms(2) by (auto simp: verify_code_def split: if_splits)

lemma find_binding_row_Some:
  assumes "binding_inv s" "r \<in> set (cs_bindings s)"
  shows "find_binding_row (cs_bindings s) (bd_id r) = Some r"
  using assms find_distinct_key [of bd_id "cs_bindings s" r] by (simp add: find_binding_row_def binding_inv_def)

lemma settled_refuses:
  assumes "binding_inv s" "settled i s"
  shows "\<exists>e. bind_with_code i code fp now s = (Inl e, s)"
proof -
  obtain r s' where run: "bind_with_code i code fp now s = (r, s')" by fastforce
  show ?thesis
  proof (cases r)
    case (Inl e)
    with run binding_errors_write_nothing(2) show ?thesis by fastforce
  next
    case (Inr u)
    from assms(2) obtain q where q: "q \<in> set (cs_bindings s)" "bd_id q = i" "bd_state q \<noteq> ''pending''"
      by (auto simp: settled_def)
    from bind_with_code_Inr(1) [OF run [unfolded Inr]] obtain model b where m:
      "find_binding_row (cs_bindings s) i = Some model" "map_stored_binding i model = Inr b"
      "verify_code (cs_sha256 s) b code now = Inr ()" by blast
    have "model = q" using find_binding_row_Some [OF assms(1) q(1)] q(2) m(1) by simp
    with verified_is_pending [OF m(2,3)] q(3) show ?thesis by simp
  qed
qed

lemma bind_settles:
  assumes "bind_with_code i code fp now s = (Inr u, s')"
  shows "settled i s'"
proof -
  obtain model b where m: "find_binding_row (cs_bindings s) i = Some model" "map_stored_binding i model = Inr b"
    "verify_code (cs_sha256 s) b code now = Inr ()" using bind_with_code_Inr(1) [OF assms] by blast
  have model: "model \<in> set (cs_bindings s)" "bd_id model = i"
    using find_Some_in_set [OF m(1) [unfolded find_binding_row_def]] by simp_all
  have "mark_bound fp now model \<in> set (cs_bindings s')"
    using bind_with_code_Inr(3) [OF assms] model verified_is_pending [OF m(2,3)] by auto
  moreover have "bd_id (mark_bound fp now model) = i" "bd_state (mark_bound fp now model) \<noteq> ''pending''"
    using model(2) by simp_all
  ultimately show ?thesis unfolding settled_def by blast
qed

lemma settled_step: "settled i s \<Longrightarrow> settled i (binding_step op s)"
proof -
  assume s: "settled i s"
  have keep: "settled i s'" if "cs_bindings s' = map g (cs_bindings s)" "\<And>r. bd_id (g r) = bd_id r"
      "\<And>r. bd_state r \<noteq> ''pending'' \<Longrightarrow> bd_state (g r) \<noteq> ''pending''" for s' g
    using s that by (auto simp: settled_def)
  show ?thesis
  proof (cases op)
    case (Register j url site code ex cr)
    obtain r s' where "create_binding (binding_new_pending (cs_sha256 s) j url site code ex cr) s = (r, s')" by fastforce
    with s Register show ?thesis
      by (cases r) (auto simp: settled_def dest!: binding_errors_write_nothing(1) create_binding_Inr(1))
  next
    case (Present j code fp now)
    obtain r s' where run: "bind_with_code j code fp now s = (r, s')" by fastforce
    show ?thesis
    proof (cases r)
      case (Inl e)
      with run s Present show ?thesis by (auto dest: binding_errors_write_nothing(2))
    next
      case (Inr u)
      have "settled i s'"
        by (rule keep [of s' "\<lambda>r. if bd_id r = j \<and> bd_state r = ''pending'' then mark_bound fp now r else r"])
          (simp_all add: bind_with_code_Inr(3) [OF run [unfolded Inr]])
      with run Present show ?thesis by simp
    qed
  next
    case (Revocation j)
    obtain r s' where run: "revoke_binding j s = (r, s')" by fastforce
    show ?thesis
    proof (cases r)
      case (Inl e)
      with run s Revocation show ?thesis by (auto dest: binding_errors_write_nothing(3))
    next
      case (Inr u)
      from revoke_binding_Inr [OF run [unfolded Inr]] have "settled i s'"
      proof
        assume "s' = s\<lparr>cs_bindings := map (\<lambda>r. if bd_id r = j \<and> bd_state r \<noteq> ''revoked'' then mark_revoked r else r)
          (cs_bindings s)\<rparr>"
        then show ?thesis
          by (intro keep [of s' "\<lambda>r. if bd_id r = j \<and> bd_state r \<noteq> ''revoked'' then mark_revoked r else r"]) simp_all
      qed (use s in simp)
      with run Revocation show ?thesis by simp
    qed
  qed (use s in \<open>simp add: settled_def\<close>)
qed

lemma settled_run: "settled i s \<Longrightarrow> settled i (binding_run ops s)"
  unfolding binding_run_def by (induction ops arbitrary: s) (simp_all add: settled_step)

section \<open>A demonstration store\<close>

definition demo_sha :: "byte list \<Rightarrow> byte list" where
  "demo_sha bs = take 32 (bs @ replicate 32 0)"

definition demo_code :: binding_code where
  "demo_code = ascii ''ABCDEFGHJKLMNPQRSTUV''"

definition demo_center :: "bool center_store" where
  "demo_center =
     \<lparr>cs_command_key = Some (replicate 32 7), cs_instances = [1, 2],
      cs_bindings = [binding_row_of (binding_new_pending demo_sha 5 (ascii ''https://c'') 1 demo_code 20 10)],
      cs_outbox = [], cs_inbox = [], cs_cursors = [], cs_sha256 = demo_sha, cs_cipher = demo_lib,
      cs_uuid_to_string = (\<lambda>i. [unat i]), cs_uuid_parse = (\<lambda>s. case s of [n] \<Rightarrow> Some (of_nat n) | _ \<Rightarrow> None),
      cs_to_json = (\<lambda>e. Some [if env_message e = Some True then 1 else 0]),
      cs_from_json = (\<lambda>j. Some \<lparr>env_sequence = 0, env_acked_sequence = 0, env_message = Some (j = [1])\<rparr>),
      cs_offer_operation_id = (\<lambda>m. if m then Some [9] else None),
      cs_getrandom = (\<lambda>i. Some (replicate 24 0)), cs_fault = (\<lambda>_. False)\<rparr>"

lemma length_demo_sha [simp]: "length (demo_sha bs) = 32"
  by (simp add: demo_sha_def)

lemma demo_binding_inv: "binding_inv demo_center"
  by (simp add: binding_inv_def demo_center_def unique_by_def binding_row_check_def binding_row_of_def
      binding_new_pending_def)

lemma demo_bind: "\<exists>s'. bind_with_code 5 demo_code None 15 demo_center = (Inr (), s')"
proof -
  let ?b = "binding_new_pending demo_sha 5 (ascii ''https://c'') 1 demo_code 20 10"
  have ok: "binding_ok ?b" by (intro binding_new_pending_ok) (simp_all add: binding_code_hash_def)
  have row: "find_binding_row (cs_bindings demo_center) 5 = Some (binding_row_of ?b)"
    by (simp add: find_binding_row_def demo_center_def binding_new_pending_def)
  have mapped: "map_stored_binding 5 (binding_row_of ?b) = Inr ?b"
    using ok binding_state_code.parse_print [of BindingPending]
    by (simp add: map_stored_binding_def binding_row_of_def binding_new_pending_def binding_try_from_parts_Inr)
  have "verify_code demo_sha ?b demo_code 15 = Inr ()"
    by (subst verify_code_Inr [OF ok]) (simp_all add: binding_code_hash_def binding_new_pending_def)
  then show ?thesis
    using row mapped
    by (simp add: bind_with_code_def with_bindings_def transact_def call_def demo_center_def find_binding_row_def
        binding_new_pending_def)
qed

section \<open>Properties\<close>

text \<open>
  C32: A binding code binds one site once. When a presented code binds, the stored registration
  was pending, its code had not expired and the code presented is the one whose hash was issued; and
  whatever registrations, presentations, revocations and database failures follow, no code ever binds
  that registration again, and each such attempt changes nothing.
\<close>

theorem binding_code_binds_once:
  assumes "binding_inv s" and "\<And>bs. length (cs_sha256 s bs) = 32"
    and "bind_with_code i code fp now s = (Inr (), s1)"
  shows "(\<exists>model b. find_binding_row (cs_bindings s) i = Some model \<and> map_stored_binding i model = Inr b
      \<and> cb_state b = BindingPending \<and> (\<exists>e. cb_expires_at b = Some e \<and> now \<le> e)
      \<and> cb_binding_code_hash b = Some (binding_code_hash (cs_sha256 s) code))
    \<and> (\<exists>e. bind_with_code i code' fp' now' (binding_run ops s1) = (Inl e, binding_run ops s1))"
proof
  obtain model b where m: "find_binding_row (cs_bindings s) i = Some model" "map_stored_binding i model = Inr b"
    "verify_code (cs_sha256 s) b code now = Inr ()" using bind_with_code_Inr(1) [OF assms(3)] by blast
  have "binding_ok b" using map_stored_binding_Inr [OF m(2)] by blast
  with m assms(2) verify_code_Inr [of b "cs_sha256 s" code now]
  show "\<exists>model b. find_binding_row (cs_bindings s) i = Some model \<and> map_stored_binding i model = Inr b
      \<and> cb_state b = BindingPending \<and> (\<exists>e. cb_expires_at b = Some e \<and> now \<le> e)
      \<and> cb_binding_code_hash b = Some (binding_code_hash (cs_sha256 s) code)"
    by (auto simp: binding_code_hash_def)
  show "\<exists>e. bind_with_code i code' fp' now' (binding_run ops s1) = (Inl e, binding_run ops s1)"
    by (intro settled_refuses binding_inv_run settled_run bind_settles [OF assms(3)]
        binding_inv_present [OF assms(1,3)])
qed

theorem binding_code_binds_once_witness:
  "\<exists>s1. bind_with_code 5 demo_code None 15 demo_center = (Inr (), s1)
     \<and> (\<exists>e. bind_with_code 5 demo_code None 16 (binding_run [Revocation 5] s1)
          = (Inl e, binding_run [Revocation 5] s1))"
proof -
  obtain s1 where run: "bind_with_code 5 demo_code None 15 demo_center = (Inr (), s1)" using demo_bind by blast
  have "length (cs_sha256 demo_center bs) = 32" for bs by (simp add: demo_center_def)
  from binding_code_binds_once [OF demo_binding_inv this run, of demo_code None 16 "[Revocation 5]"] run
  show ?thesis by blast
qed

text \<open>
  C33: Site identities stay one to one. From any consistent table, after any history of
  registrations, presentations, revocations and failures, a site has at most one pending or bound
  binding, and a certificate fingerprint belongs to at most one bound registration, so the
  session admission cannot resolve one certificate to two sites.
\<close>

theorem bindings_stay_one_to_one:
  assumes "binding_inv s"
    and "r \<in> set (cs_bindings (binding_run ops s))" and "q \<in> set (cs_bindings (binding_run ops s))"
  shows "(binding_row_active r \<and> binding_row_active q \<and> bd_site_instance_id r = bd_site_instance_id q \<longrightarrow> r = q)
    \<and> (bd_state r = ''bound'' \<and> bd_state q = ''bound'' \<and> bd_site_cert_fingerprint r = Some f
        \<and> bd_site_cert_fingerprint q = Some f \<longrightarrow> r = q)"
proof -
  have inv: "binding_inv (binding_run ops s)" using assms(1) by (rule binding_inv_run)
  have same: "r = q" if "bd_id r = bd_id q"
    using find_binding_row_Some [OF inv assms(2)] find_binding_row_Some [OF inv assms(3)] that by (metis option.inject)
  have sites: "unique_by binding_row_active bd_site_instance_id (cs_bindings (binding_run ops s))"
    and prints: "unique_by identified bd_site_cert_fingerprint (cs_bindings (binding_run ops s))"
    using inv by (simp_all add: binding_inv_def)
  show ?thesis
  proof (intro conjI impI same)
    assume "binding_row_active r \<and> binding_row_active q \<and> bd_site_instance_id r = bd_site_instance_id q"
    with sites assms(2,3) show "bd_id r = bd_id q" unfolding unique_by_def by blast
  next
    assume "bd_state r = ''bound'' \<and> bd_state q = ''bound'' \<and> bd_site_cert_fingerprint r = Some f
        \<and> bd_site_cert_fingerprint q = Some f"
    then have "identified r" "identified q" "bd_site_cert_fingerprint r = bd_site_cert_fingerprint q"
      unfolding identified_def by simp_all
    with prints assms(2,3) show "bd_id r = bd_id q" unfolding unique_by_def by blast
  qed
qed

theorem bindings_stay_one_to_one_witness:
  "\<exists>r \<in> set (cs_bindings (binding_run [] demo_center)). bd_id r = 5
     \<and> (\<forall>q \<in> set (cs_bindings (binding_run [] demo_center)).
          binding_row_active q \<and> bd_site_instance_id q = bd_site_instance_id r \<longrightarrow> q = r)"
proof -
  let ?r = "binding_row_of (binding_new_pending demo_sha 5 (ascii ''https://c'') 1 demo_code 20 10)"
  have r: "?r \<in> set (cs_bindings (binding_run [] demo_center))" "bd_id ?r = 5" "binding_row_active ?r"
    by (simp_all add: binding_run_def demo_center_def binding_new_pending_def binding_row_active_def)
  have "q = ?r" if "q \<in> set (cs_bindings (binding_run [] demo_center))" "binding_row_active q"
      "bd_site_instance_id q = bd_site_instance_id ?r" for q
    using bindings_stay_one_to_one [OF demo_binding_inv that(1) r(1)] that(2,3) r(3) by blast
  with r(1,2) show ?thesis by blast
qed

end
