(* ===== verification/Outbox_Properties.thy ===== *)
theory Outbox_Properties
  imports Center_Outbox Center_Binding_Repository
begin

text \<open>
  What the queue of \<open>Center_Outbox\<close> guarantees its two clients, the sender that delivers in sequence
  order and the dispatch that looks an offer up before it offers again. Histories interleave queueing,
  acknowledgements, the self-healing lookups and failures of the database.
\<close>

section \<open>The greatest sequence\<close>

lemma foldl_max_start: "(n :: int) \<le> foldl max n ns"
  by (induction ns arbitrary: n) (auto intro: order_trans max.cobounded1)

lemma foldl_max_ge: "x \<in> set ns \<Longrightarrow> x \<le> foldl max (n :: int) ns"
proof (induction ns arbitrary: n)
  case (Cons y ns)
  then show ?case using foldl_max_start [of "max n y" ns] by auto
qed simp

lemma foldl_max_in: "foldl max (n :: int) ns \<in> insert n (set ns)"
proof (induction ns arbitrary: n)
  case (Cons y ns)
  have "foldl max (max n y) ns \<in> insert (max n y) (set ns)" by (rule Cons.IH)
  moreover have "max n y \<in> {n, y}" by (simp add: max_def)
  ultimately show ?case by auto
qed simp

lemma max_sequence_ge: "r \<in> set rows \<Longrightarrow> our_instance_id r = inst \<Longrightarrow> our_sequence r \<le> max_sequence inst rows"
proof -
  assume "r \<in> set rows" "our_instance_id r = inst"
  then have "our_sequence r \<in> set (map our_sequence (filter (\<lambda>r. our_instance_id r = inst) rows))" by simp
  then show ?thesis
    by (cases "map our_sequence (filter (\<lambda>r. our_instance_id r = inst) rows)")
      (auto simp: max_sequence_def foldl_max_ge foldl_max_start)
qed

lemma max_sequence_attained:
  assumes "r \<in> set rows" "our_instance_id r = inst"
  shows "\<exists>q \<in> set rows. our_instance_id q = inst \<and> our_sequence q = max_sequence inst rows"
proof (cases "map our_sequence (filter (\<lambda>r. our_instance_id r = inst) rows)")
  case Nil
  with assms show ?thesis by (auto simp: filter_empty_conv)
next
  case (Cons n ns)
  then have "max_sequence inst rows = foldl max n ns" by (simp add: max_sequence_def)
  with foldl_max_in [of n ns]
  have "max_sequence inst rows \<in> set (map our_sequence (filter (\<lambda>r. our_instance_id r = inst) rows))"
    unfolding Cons by simp
  then show ?thesis by auto
qed

lemma max_sequence_empty: "(\<And>r. r \<in> set rows \<Longrightarrow> our_instance_id r \<noteq> inst) \<Longrightarrow> max_sequence inst rows = 0"
  by (simp add: max_sequence_def filter_False)

section \<open>Invariant and histories\<close>

definition outbox_rows_ok :: "outbox_row list \<Rightarrow> bool" where
  "outbox_rows_ok rows \<longleftrightarrow>
     distinct (map our_id rows) \<and> distinct (map outbox_key rows)
   \<and> (\<forall>r \<in> set rows. 1 \<le> our_sequence r \<and> outbox_row_check r)"

definition outbox_inv :: "'m center_store \<Rightarrow> bool" where
  "outbox_inv s \<longleftrightarrow> outbox_rows_ok (cs_outbox s)"

text \<open>
  A history runs the methods the program calls: \<open>create_outbox_entry\<close>, which stores an entry with a sequence of the
  caller's choice, is called by tests only.
\<close>

datatype 'm outbox_op =
    Enqueue uuid instance_id 'm instant
  | Ack uuid instant
  | LookupOffer instance_id operation_id
  | LookupOfferAnywhere operation_id
  | OutboxWorld "center_call \<Rightarrow> bool" "uuid \<Rightarrow> byte list option"

fun outbox_step :: "'m outbox_op \<Rightarrow> 'm center_store \<Rightarrow> 'm center_store" where
  "outbox_step (Enqueue i inst m t) s = snd (enqueue_outbox_entry i inst m t s)"
| "outbox_step (Ack i t) s = snd (ack_outbox_entry i t s)"
| "outbox_step (LookupOffer inst operation) s = snd (find_outbox_entry_by_operation inst operation s)"
| "outbox_step (LookupOfferAnywhere operation) s = snd (find_offer_by_operation_across_instances operation s)"
| "outbox_step (OutboxWorld f g) s = s\<lparr>cs_fault := f, cs_getrandom := g\<rparr>"

definition outbox_run :: "'m outbox_op list \<Rightarrow> 'm center_store \<Rightarrow> 'm center_store" where
  "outbox_run ops s = foldl (\<lambda>s op. outbox_step op s) s ops"

lemma max_sequence_nonneg: "outbox_inv s \<Longrightarrow> 0 \<le> max_sequence inst (cs_outbox s)"
proof (cases "\<exists>r \<in> set (cs_outbox s). our_instance_id r = inst")
  case True
  assume "outbox_inv s"
  with True max_sequence_ge show ?thesis by (fastforce simp: outbox_inv_def outbox_rows_ok_def)
qed (simp add: max_sequence_empty)

section \<open>The methods\<close>

lemma with_outbox_cases:
  assumes "with_outbox s (transact c d f body (cs_outbox s)) = (r, s')"
  obtains (failed) e where "r = Inl e" "s' = s"
    | (committed) a rows where "r = Inr a" "body (cs_outbox s) = Inr (a, rows)" "s' = s\<lparr>cs_outbox := rows\<rparr>"
proof -
  obtain q rows where t: "transact c d f body (cs_outbox s) = (q, rows)" by fastforce
  then have eq: "r = q" "s' = s\<lparr>cs_outbox := rows\<rparr>" using assms by (simp_all add: with_outbox_def)
  from t show thesis
  proof (cases rule: transact_cases)
    case (failed e)
    with eq have "s' = s" by simp
    with failed eq that(1) show thesis by blast
  next
    case (committed a)
    with eq that(2) show thesis by blast
  qed
qed

lemma insert_outbox_entry_Inr:
  "insert_outbox_entry s entry payload operation rows = Inr rows' \<longleftrightarrow>
     \<not> cs_fault s CenterInsert \<and> rows' = rows @ [outbox_row_of entry payload operation]
   \<and> (\<forall>r \<in> set rows. our_id r \<noteq> ob_id entry \<and> outbox_key r \<noteq> (ob_instance_id entry, ob_sequence entry))
   \<and> ob_instance_id entry \<in> set (cs_instances s) \<and> outbox_row_check (outbox_row_of entry payload operation)"
  by (auto simp: insert_outbox_entry_def Let_def list_ex_iff result_simps outbox_row_of_def outbox_key_def)

lemma enqueue_Inr:
  assumes "enqueue_outbox_entry i inst m t s = (Inr e, s')"
  shows "\<exists>json protected.
      cs_to_json s \<lparr>env_sequence = word_of_int (ob_sequence e), env_acked_sequence = 0, env_message = Some m\<rparr> = Some json
    \<and> protect_outbox_payload s i json = Inr protected
    \<and> e = outbox_entry_new i inst (max_sequence inst (cs_outbox s) + 1) json t
    \<and> insert_outbox_entry s e protected (payload_operation_id s json) (cs_outbox s) = Inr (cs_outbox s')
    \<and> s' = s\<lparr>cs_outbox := cs_outbox s'\<rparr>"
    and "0 \<le> ob_sequence e" "ob_sequence e \<le> I64_MAX"
proof -
  from assms have "\<exists>k. outbox_command_key s = Inr k"
    by (auto simp: enqueue_outbox_entry_def split: sum.splits)
  with assms have run: "with_outbox s (transact OutboxCoordinate OutboxDatabase (cs_fault s) (\<lambda>rows.
            rbind (call OutboxDatabase (cs_fault s) CenterQuery) (\<lambda>_.
            let maximum = max_sequence inst rows; sequence = maximum + 1 in
            if sequence > I64_MAX then Inl (SequenceOverflow maximum)
            else if sequence < 0 then Inl (SequenceOverflow sequence)
            else let envelope = \<lparr>env_sequence = word_of_int sequence, env_acked_sequence = 0,
                                 env_message = Some m\<rparr> in
              rbind (ok_or OutboxPayload (cs_to_json s envelope)) (\<lambda>payload_json.
              rbind (protect_outbox_payload s i payload_json) (\<lambda>protected.
              let entry = outbox_entry_new i inst sequence payload_json t in
              rbind (insert_outbox_entry s entry protected (payload_operation_id s payload_json) rows) (\<lambda>rows'.
              Inr (entry, rows')))))) (cs_outbox s)) = (Inr e, s')"
    by (auto simp: enqueue_outbox_entry_def)
  then show "\<exists>json protected.
      cs_to_json s \<lparr>env_sequence = word_of_int (ob_sequence e), env_acked_sequence = 0, env_message = Some m\<rparr> = Some json
    \<and> protect_outbox_payload s i json = Inr protected
    \<and> e = outbox_entry_new i inst (max_sequence inst (cs_outbox s) + 1) json t
    \<and> insert_outbox_entry s e protected (payload_operation_id s json) (cs_outbox s) = Inr (cs_outbox s')
    \<and> s' = s\<lparr>cs_outbox := cs_outbox s'\<rparr>"
    "0 \<le> ob_sequence e" "ob_sequence e \<le> I64_MAX"
    by (cases rule: with_outbox_cases; auto simp: Let_def result_simps outbox_entry_new_def split: if_splits)+
qed

lemma enqueue_Inl: "enqueue_outbox_entry i inst m t s = (Inl x, s') \<Longrightarrow> s' = s"
  unfolding enqueue_outbox_entry_def by (auto split: sum.splits elim: with_outbox_cases)

text \<open>An acknowledgement marks one row, and may prune the older history of its operation.\<close>

definition pruned :: "instance_id \<Rightarrow> operation_id \<Rightarrow> outbox_row \<Rightarrow> outbox_row list \<Rightarrow> outbox_row list" where
  "pruned inst operation keeper rows =
     filter (\<lambda>r. \<not> (acked_history inst operation r \<and> our_id r \<noteq> our_id keeper)) rows"

definition acked_rows :: "uuid \<Rightarrow> instant \<Rightarrow> outbox_row list \<Rightarrow> outbox_row list" where
  "acked_rows i t rows = map (\<lambda>r. if is_pending_row i r then mark_acked t r else r) rows"

lemma ack_Inr:
  assumes "ack_outbox_entry i t s = (Inr out, s')"
  shows "s' = s\<lparr>cs_outbox := cs_outbox s'\<rparr>"
    and "cs_outbox s' = acked_rows i t (cs_outbox s)
      \<or> (\<exists>inst operation keeper. newest queue_key (filter (acked_history inst operation) (acked_rows i t (cs_outbox s))) = Some keeper
           \<and> cs_outbox s' = pruned inst operation keeper (acked_rows i t (cs_outbox s)))"
    and "out = Acknowledged \<Longrightarrow> \<exists>r \<in> set (cs_outbox s). is_pending_row i r"
proof -
  let ?rows1 = "acked_rows i t (cs_outbox s)"
  from assms obtain rows2 where body: "rbind (case find_outbox_row ?rows1 i of
                None \<Rightarrow> Inr ?rows1
              | Some model \<Rightarrow>
                  (case our_operation_id model of
                     None \<Rightarrow> Inr ?rows1
                   | Some operation \<Rightarrow>
                       prune_acked_operation_history s (our_instance_id model) operation ?rows1)) (\<lambda>rows2.
       Inr (out, rows2)) = Inr (out, rows2)"
    and s': "s' = s\<lparr>cs_outbox := rows2\<rparr>"
    and pending: "out = Acknowledged \<Longrightarrow> length (filter (is_pending_row i) (cs_outbox s)) = 1"
    unfolding ack_outbox_entry_def acked_rows_def [symmetric]
    by (cases rule: with_outbox_cases) (auto simp: Let_def result_simps split: if_splits)
  show "s' = s\<lparr>cs_outbox := cs_outbox s'\<rparr>" by (simp add: s')
  show "\<exists>r \<in> set (cs_outbox s). is_pending_row i r" if "out = Acknowledged"
  proof -
    from pending [OF that] have "filter (is_pending_row i) (cs_outbox s) \<noteq> []" by auto
    then show ?thesis by (auto simp: filter_empty_conv)
  qed
  from body have "cs_outbox s' = ?rows1 \<or> (\<exists>inst operation. prune_acked_operation_history s inst operation ?rows1 = Inr (cs_outbox s'))"
    unfolding s' by (auto simp: result_simps split: option.splits)
  then show "cs_outbox s' = ?rows1
      \<or> (\<exists>inst operation keeper. newest queue_key (filter (acked_history inst operation) ?rows1) = Some keeper
           \<and> cs_outbox s' = pruned inst operation keeper ?rows1)"
  proof (elim disjE exE)
    fix inst operation
    assume "prune_acked_operation_history s inst operation ?rows1 = Inr (cs_outbox s')"
    then have "cs_outbox s' = ?rows1 \<or> (\<exists>keeper. newest queue_key (filter (acked_history inst operation) ?rows1) = Some keeper
         \<and> cs_outbox s' = pruned inst operation keeper ?rows1)"
      unfolding prune_acked_operation_history_def pruned_def
      by (cases "newest queue_key (filter (acked_history inst operation) ?rows1)") (auto simp: result_simps)
    then show ?thesis by blast
  qed simp
qed

lemma ack_Inl: "ack_outbox_entry i t s = (Inl x, s') \<Longrightarrow> s' = s"
  unfolding ack_outbox_entry_def by (auto elim: with_outbox_cases)

text \<open>Updates that keep the identity, the instance and the sequence of every row.\<close>

definition keeps_key :: "(outbox_row \<Rightarrow> outbox_row) \<Rightarrow> bool" where
  "keeps_key g \<longleftrightarrow> (\<forall>r. our_id (g r) = our_id r \<and> our_instance_id (g r) = our_instance_id r \<and> our_sequence (g r) = our_sequence r
     \<and> (outbox_row_check r \<longrightarrow> outbox_row_check (g r)))"

lemma keeps_key_acked: "keeps_key (\<lambda>r. if is_pending_row i r then mark_acked t r else r)"
  by (simp add: keeps_key_def mark_acked_def outbox_row_check_def)

lemma keeps_key_backfill: "keeps_key (\<lambda>r. if our_id r = i then r\<lparr>our_operation_id := q\<rparr> else r)"
  by (simp add: keeps_key_def outbox_row_check_def)

lemma backfill_scan_store:
  "\<exists>g. keeps_key g \<and> snd (backfill_scan operation rows s) = s\<lparr>cs_outbox := map g (cs_outbox s)\<rparr>"
proof (induction rows)
  case Nil
  have "keeps_key (\<lambda>r. r)" by (simp add: keeps_key_def)
  moreover have "map (\<lambda>r. r) (cs_outbox s) = cs_outbox s" by simp
  ultimately show ?case by (intro exI [of _ "\<lambda>r. r"]) simp
next
  case (Cons model rows)
  have id: "\<exists>g. keeps_key g \<and> s = s\<lparr>cs_outbox := map g (cs_outbox s)\<rparr>"
    by (intro exI [of _ "\<lambda>r. r"]) (simp add: keeps_key_def)
  show ?case
    using Cons.IH id keeps_key_backfill [of "our_id model" "Some operation"]
    by (auto split: sum.splits)
qed

lemma lookup_offer_store:
  "\<exists>g. keeps_key g \<and> snd (lookup_offer visible key operation s) = s\<lparr>cs_outbox := map g (cs_outbox s)\<rparr>"
proof -
  have id: "\<exists>g. keeps_key g \<and> s = s\<lparr>cs_outbox := map g (cs_outbox s)\<rparr>"
    by (intro exI [of _ "\<lambda>r. r"]) (simp add: keeps_key_def)
  show ?thesis
    unfolding lookup_offer_def using id backfill_scan_store by (auto split: option.splits)
qed

lemma max_sequence_map: "keeps_key g \<Longrightarrow> max_sequence inst (map g rows) = max_sequence inst rows"
  by (simp add: max_sequence_def keeps_key_def filter_map comp_def)

lemma max_sequence_pruned:
  assumes "newest queue_key (filter (acked_history inst operation) rows) = Some keeper"
  shows "max_sequence j (pruned inst operation keeper rows) = max_sequence j rows"
proof (cases "\<exists>r \<in> set rows. our_instance_id r = j")
  case True
  let ?p = "pruned inst operation keeper rows"
  have keeper: "keeper \<in> set rows" "acked_history inst operation keeper"
    using newest_Some(1) [OF assms] by simp_all
  have kept: "keeper \<in> set ?p" using keeper(1) by (simp add: pruned_def)
  obtain q where q: "q \<in> set rows" "our_instance_id q = j" "our_sequence q = max_sequence j rows"
    using True max_sequence_attained by blast
  have "\<exists>q' \<in> set ?p. our_instance_id q' = j \<and> our_sequence q \<le> our_sequence q'"
  proof (cases "q \<in> set ?p")
    case False
    with q(1) have hist: "acked_history inst operation q" by (simp add: pruned_def)
    then have "queue_key q \<le> queue_key keeper" using newest_Some(2) [OF assms, of q] q(1) by simp
    then have "our_sequence q \<le> our_sequence keeper" by (auto simp: queue_key_def less_eq_prod_def)
    moreover have "our_instance_id keeper = j" using hist keeper(2) q(2) by (simp add: acked_history_def)
    ultimately show ?thesis using kept by blast
  qed (use q in blast)
  then obtain q' where q': "q' \<in> set ?p" "our_instance_id q' = j" "our_sequence q \<le> our_sequence q'" by blast
  obtain p where p: "p \<in> set ?p" "our_instance_id p = j" "our_sequence p = max_sequence j ?p"
    using max_sequence_attained [OF q'(1,2)] by blast
  then have "our_sequence p \<le> max_sequence j rows" using max_sequence_ge [of p rows j] by (simp add: pruned_def)
  with p(3) q(3) q'(3) max_sequence_ge [OF q'(1,2)] show ?thesis by linarith
next
  case False
  then have "max_sequence j rows = 0" "max_sequence j (pruned inst operation keeper rows) = 0"
    by (auto intro!: max_sequence_empty simp: pruned_def)
  then show ?thesis by simp
qed

text \<open>Every step keeps the invariant and never lowers the greatest sequence of an instance.\<close>

lemma outbox_rows_ok_map:
  assumes "outbox_rows_ok rows" "keeps_key g"
  shows "outbox_rows_ok (map g rows)"
proof -
  have "map our_id (map g rows) = map our_id rows" "map outbox_key (map g rows) = map outbox_key rows"
    using assms(2) by (simp_all add: keeps_key_def outbox_key_def)
  moreover have "\<forall>r \<in> set (map g rows). 1 \<le> our_sequence r \<and> outbox_row_check r"
    using assms by (simp add: keeps_key_def outbox_rows_ok_def)
  ultimately show ?thesis using assms(1) unfolding outbox_rows_ok_def by metis
qed

lemma outbox_rows_ok_filter: "outbox_rows_ok rows \<Longrightarrow> outbox_rows_ok (filter P rows)"
  by (auto simp: outbox_rows_ok_def intro: distinct_map_filter_key)

lemma outbox_inv_enqueue:
  assumes "outbox_inv s" "enqueue_outbox_entry i inst m t s = (Inr e, s')"
  shows "outbox_inv s'" "max_sequence j (cs_outbox s) \<le> max_sequence j (cs_outbox s')"
    and "ob_sequence e = max_sequence inst (cs_outbox s) + 1" "ob_sequence e \<le> max_sequence inst (cs_outbox s')"
proof -
  obtain json protected where e: "e = outbox_entry_new i inst (max_sequence inst (cs_outbox s) + 1) json t"
    and ins: "insert_outbox_entry s e protected (payload_operation_id s json) (cs_outbox s) = Inr (cs_outbox s')"
    using enqueue_Inr(1) [OF assms(2)] by blast
  let ?row = "outbox_row_of e protected (payload_operation_id s json)"
  have row: "our_id ?row = i" "our_instance_id ?row = inst" "our_sequence ?row = max_sequence inst (cs_outbox s) + 1"
    unfolding e by (simp_all add: outbox_row_of_def outbox_entry_new_def)
  have rows: "cs_outbox s' = cs_outbox s @ [?row]" and "outbox_row_check ?row"
    and fresh: "\<forall>r \<in> set (cs_outbox s). our_id r \<noteq> our_id ?row \<and> outbox_key r \<noteq> outbox_key ?row"
    using ins unfolding insert_outbox_entry_Inr by (simp_all add: outbox_row_of_def outbox_key_def)
  then show "outbox_inv s'"
    using assms(1) max_sequence_nonneg [OF assms(1), of inst] row(3)
    unfolding outbox_inv_def outbox_rows_ok_def rows by (auto simp: image_iff)
  show "ob_sequence e = max_sequence inst (cs_outbox s) + 1" unfolding e by (simp add: outbox_entry_new_def)
  moreover show "ob_sequence e \<le> max_sequence inst (cs_outbox s')"
    using max_sequence_ge [of ?row "cs_outbox s'" inst] rows row calculation by simp
  show "max_sequence j (cs_outbox s) \<le> max_sequence j (cs_outbox s')"
  proof (cases "\<exists>r \<in> set (cs_outbox s). our_instance_id r = j")
    case True
    then obtain q where "q \<in> set (cs_outbox s)" "our_instance_id q = j" "our_sequence q = max_sequence j (cs_outbox s)"
      using max_sequence_attained by blast
    with max_sequence_ge [of q "cs_outbox s'" j] rows show ?thesis by simp
  next
    case False
    then have "max_sequence j (cs_outbox s) = 0" by (auto intro: max_sequence_empty)
    with max_sequence_nonneg [OF \<open>outbox_inv s'\<close>, of j] show ?thesis by simp
  qed
qed

lemma outbox_inv_ack:
  assumes "outbox_inv s" "ack_outbox_entry i t s = (Inr out, s')"
  shows "outbox_inv s'" "max_sequence j (cs_outbox s') = max_sequence j (cs_outbox s)"
proof -
  let ?rows = "acked_rows i t (cs_outbox s)"
  have marked: "outbox_rows_ok ?rows" "max_sequence j ?rows = max_sequence j (cs_outbox s)"
    using assms(1) outbox_rows_ok_map [OF _ keeps_key_acked] max_sequence_map [OF keeps_key_acked]
    by (simp_all add: outbox_inv_def acked_rows_def)
  from ack_Inr(2) [OF assms(2)]
  have "outbox_inv s' \<and> max_sequence j (cs_outbox s') = max_sequence j (cs_outbox s)"
  proof (elim disjE exE conjE)
    assume "cs_outbox s' = ?rows"
    with marked show ?thesis by (simp add: outbox_inv_def)
  next
    fix inst operation keeper
    assume keeper: "newest queue_key (filter (acked_history inst operation) ?rows) = Some keeper"
      and rows: "cs_outbox s' = pruned inst operation keeper ?rows"
    have "outbox_inv s'"
      using outbox_rows_ok_filter [OF marked(1)] by (simp add: outbox_inv_def rows pruned_def)
    moreover have "max_sequence j (cs_outbox s') = max_sequence j (cs_outbox s)"
      unfolding rows max_sequence_pruned [OF keeper] by (rule marked(2))
    ultimately show ?thesis by blast
  qed
  then show "outbox_inv s'" "max_sequence j (cs_outbox s') = max_sequence j (cs_outbox s)" by blast+
qed

lemma outbox_inv_lookup:
  assumes "outbox_inv s"
  shows "outbox_inv (snd (lookup_offer visible key operation s))"
    and "max_sequence j (cs_outbox (snd (lookup_offer visible key operation s))) = max_sequence j (cs_outbox s)"
proof -
  obtain g where g: "keeps_key g" "snd (lookup_offer visible key operation s) = s\<lparr>cs_outbox := map g (cs_outbox s)\<rparr>"
    using lookup_offer_store by blast
  with assms show "outbox_inv (snd (lookup_offer visible key operation s))"
    by (simp add: outbox_inv_def outbox_rows_ok_map)
  from g show "max_sequence j (cs_outbox (snd (lookup_offer visible key operation s))) = max_sequence j (cs_outbox s)"
    by (simp add: max_sequence_map)
qed

lemma outbox_step_keeps:
  assumes "outbox_inv s"
  shows "outbox_inv (outbox_step op s) \<and> max_sequence j (cs_outbox s) \<le> max_sequence j (cs_outbox (outbox_step op s))"
proof (cases op)
  case (Enqueue i inst m t)
  obtain r s' where "enqueue_outbox_entry i inst m t s = (r, s')" by fastforce
  with assms Enqueue show ?thesis
    by (cases r) (auto dest: enqueue_Inl outbox_inv_enqueue(1,2) [OF assms])
next
  case (Ack i t)
  obtain r s' where "ack_outbox_entry i t s = (r, s')" by fastforce
  with assms Ack show ?thesis
    by (cases r) (auto dest: ack_Inl outbox_inv_ack(1) [OF assms] simp: outbox_inv_ack(2) [OF assms])
next
  case (LookupOffer inst operation)
  then show ?thesis using outbox_inv_lookup [OF assms] by (simp add: find_outbox_entry_by_operation_def)
next
  case (LookupOfferAnywhere operation)
  then show ?thesis using outbox_inv_lookup [OF assms] by (simp add: find_offer_by_operation_across_instances_def)
next
  case (OutboxWorld f g)
  with assms show ?thesis by (simp add: outbox_inv_def)
qed

lemma outbox_run_keeps:
  "outbox_inv s \<Longrightarrow> outbox_inv (outbox_run ops s)
     \<and> max_sequence j (cs_outbox s) \<le> max_sequence j (cs_outbox (outbox_run ops s))"
proof (induction ops arbitrary: s)
  case (Cons op ops)
  have step: "outbox_inv (outbox_step op s)" "max_sequence j (cs_outbox s) \<le> max_sequence j (cs_outbox (outbox_step op s))"
    using outbox_step_keeps [OF Cons.prems] by blast+
  have "outbox_run (op # ops) s = outbox_run ops (outbox_step op s)" by (simp add: outbox_run_def)
  with Cons.IH [OF step(1)] step(2) show ?case by auto
qed (simp add: outbox_run_def)

section \<open>The offer of an operation survives acknowledgements\<close>

lemma newest_eqI:
  assumes "r \<in> set xs" "\<And>x. x \<in> set xs \<Longrightarrow> key x \<le> key r" "inj_on key (set xs)"
  shows "newest key xs = Some r"
proof -
  obtain q where q: "newest key xs = Some q" using assms(1) newest_None [of key xs] by (cases "newest key xs") auto
  from newest_Some [OF q] assms have "key q = key r" by (intro antisym) auto
  with newest_Some(1) [OF q] assms(1,3) q show ?thesis by (auto dest: inj_onD)
qed

definition offer_row :: "instance_id \<Rightarrow> operation_id \<Rightarrow> outbox_row list \<Rightarrow> outbox_row option" where
  "offer_row inst operation rows =
     newest queue_key (filter (\<lambda>r. our_instance_id r = inst \<and> our_operation_id r = Some operation) rows)"

lemma queue_key_inj: "outbox_rows_ok rows \<Longrightarrow> inj_on queue_key (set rows)"
  by (auto simp: outbox_rows_ok_def queue_key_def distinct_map inj_on_def)

lemma offer_row_None: "offer_row inst operation rows = None \<longleftrightarrow>
    (\<forall>r \<in> set rows. \<not> (our_instance_id r = inst \<and> our_operation_id r = Some operation))"
  by (auto simp: offer_row_def filter_empty_conv)

lemma offer_row_Some:
  assumes "outbox_rows_ok rows"
  shows "offer_row inst operation rows = Some r \<longleftrightarrow>
    r \<in> set rows \<and> our_instance_id r = inst \<and> our_operation_id r = Some operation
    \<and> (\<forall>q \<in> set rows. our_instance_id q = inst \<and> our_operation_id q = Some operation \<longrightarrow> queue_key q \<le> queue_key r)"
    (is "_ \<longleftrightarrow> ?R")
proof
  assume "offer_row inst operation rows = Some r"
  from newest_Some [OF this [unfolded offer_row_def]] show ?R by auto
next
  assume ?R
  then show "offer_row inst operation rows = Some r"
    unfolding offer_row_def
    by (intro newest_eqI inj_on_subset [OF queue_key_inj [OF assms]]) auto
qed

lemma offer_row_acked:
  assumes "outbox_rows_ok rows"
  shows "map_option our_id (offer_row inst operation (acked_rows i t rows)) = map_option our_id (offer_row inst operation rows)"
proof (cases "offer_row inst operation rows")
  case None
  then have "offer_row inst operation (acked_rows i t rows) = None"
    by (auto simp: offer_row_None acked_rows_def mark_acked_def)
  with None show ?thesis by simp
next
  case (Some r)
  let ?g = "\<lambda>r. if is_pending_row i r then mark_acked t r else r"
  have ok: "outbox_rows_ok (acked_rows i t rows)"
    unfolding acked_rows_def by (rule outbox_rows_ok_map [OF assms keeps_key_acked])
  have g: "our_instance_id (?g q) = our_instance_id q" "our_operation_id (?g q) = our_operation_id q"
    "queue_key (?g q) = queue_key q" "our_id (?g q) = our_id q" for q
    by (simp_all add: mark_acked_def queue_key_def)
  have "offer_row inst operation (acked_rows i t rows) = Some (?g r)"
    using Some unfolding offer_row_Some [OF assms] offer_row_Some [OF ok]
    unfolding acked_rows_def by (auto simp only: g set_map image_iff)
  with Some show ?thesis by (simp only: option.map g)
qed

lemma offer_row_pruned:
  assumes "outbox_rows_ok rows" "newest queue_key (filter (acked_history j op) rows) = Some keeper"
  shows "offer_row inst operation (pruned j op keeper rows) = offer_row inst operation rows"
proof (cases "offer_row inst operation rows")
  case None
  then have "offer_row inst operation (pruned j op keeper rows) = None"
    unfolding offer_row_None by (simp add: pruned_def)
  with None show ?thesis by simp
next
  case (Some r)
  then have r: "r \<in> set rows" "our_instance_id r = inst" "our_operation_id r = Some operation"
    and top: "\<And>q. q \<in> set rows \<Longrightarrow> our_instance_id q = inst \<Longrightarrow> our_operation_id q = Some operation \<Longrightarrow> queue_key q \<le> queue_key r"
    unfolding offer_row_Some [OF assms(1)] by blast+
  have "our_id r = our_id keeper" if hist: "acked_history j op r"
  proof -
    have k: "keeper \<in> set rows" "acked_history j op keeper" using newest_Some(1) [OF assms(2)] by simp_all
    have "queue_key r \<le> queue_key keeper" using newest_Some(2) [OF assms(2), of r] r(1) hist by simp
    moreover have "queue_key keeper \<le> queue_key r"
      using top [OF k(1)] k(2) hist r by (simp add: acked_history_def)
    ultimately have "queue_key r = queue_key keeper" by (rule antisym)
    with queue_key_inj [OF assms(1)] r(1) k(1) show ?thesis by (auto dest: inj_onD)
  qed
  then have "r \<in> set (pruned j op keeper rows)" using r(1) by (simp add: pruned_def)
  moreover have ok: "outbox_rows_ok (pruned j op keeper rows)"
    unfolding pruned_def by (rule outbox_rows_ok_filter [OF assms(1)])
  ultimately have "offer_row inst operation (pruned j op keeper rows) = Some r"
    unfolding offer_row_Some [OF ok] using r top by (simp add: pruned_def)
  with Some show ?thesis by simp
qed

lemma ack_offer_row:
  assumes "outbox_inv s" "ack_outbox_entry i t s = (Inr out, s')"
  shows "map_option our_id (offer_row inst operation (cs_outbox s')) = map_option our_id (offer_row inst operation (cs_outbox s))"
proof -
  have ok: "outbox_rows_ok (cs_outbox s)" using assms(1) by (simp add: outbox_inv_def)
  have ok1: "outbox_rows_ok (acked_rows i t (cs_outbox s))"
    unfolding acked_rows_def by (rule outbox_rows_ok_map [OF ok keeps_key_acked])
  from ack_Inr(2) [OF assms(2)] show ?thesis
    using offer_row_pruned [OF ok1] offer_row_acked [OF ok, of inst operation i t] by auto
qed

lemma ack_keeps_row:
  assumes "ack_outbox_entry i t s = (Inr out, s')" "r \<in> set (cs_outbox s)" "our_id r \<noteq> i"
    and "our_state r = ''pending'' \<or> our_operation_id r = None"
  shows "r \<in> set (cs_outbox s')"
proof -
  have "r \<in> set (acked_rows i t (cs_outbox s))"
    using assms(2,3) by (force simp: acked_rows_def is_pending_row_def)
  moreover have "\<not> acked_history inst operation r" for inst operation
    using assms(4) by (auto simp: acked_history_def)
  ultimately show ?thesis using ack_Inr(2) [OF assms(1)] by (auto simp: pruned_def)
qed

section \<open>What is queued is delivered\<close>

definition outbox_codec_ok :: "'m center_store \<Rightarrow> bool" where
  "outbox_codec_ok s \<longleftrightarrow>
     cipher_lib_ok (cs_cipher s)
   \<and> (\<forall>e j. cs_to_json s e = Some j \<longrightarrow> valid_str j)
   \<and> (\<forall>i n. cs_getrandom s i = Some n \<longrightarrow> length n = COMMAND_NONCE_LENGTH)"

lemma recover_protected:
  assumes "outbox_codec_ok s" "valid_str json" "protect_outbox_payload s i json = Inr protected"
  shows "recover_outbox_payload s i protected = Inr json"
proof -
  from assms(3) obtain key where key: "cs_command_key s = Some key"
    and enc: "encrypt_command (cs_cipher s) (cs_getrandom s i) key (id_bytes i) json = Inr protected"
    by (auto simp: protect_outbox_payload_def outbox_command_key_def result_simps)
  have "decrypt_command (cs_cipher s) key (id_bytes i) protected = Inr json"
    using assms(1,2) enc by (intro decrypt_encrypt [where rnd = "cs_getrandom s i"]) (auto simp: outbox_codec_ok_def)
  with key encrypt_command_prefix [OF enc] show ?thesis by (simp add: recover_outbox_payload_def)
qed

lemma map_row_upd [simp]: "map_row (s\<lparr>cs_outbox := rows\<rparr>) = map_row s"
  by (simp add: fun_eq_iff map_row_def map_stored_outbox_entry_def recover_outbox_payload_def)

lemma map_row_enqueued:
  assumes "recover_outbox_payload s i protected = Inr json" "e = outbox_entry_new i inst n json t"
  shows "map_row s (outbox_row_of e protected operation) = Inr e"
  using assms(1) outbox_state_code.parse_print [of OutboxPending]
  by (simp add: assms(2) map_row_def map_stored_outbox_entry_def outbox_row_of_def outbox_entry_new_def
      outbox_entry_try_from_parts_Inr)

lemma sort_key_snoc:
  fixes key :: "'a \<Rightarrow> 'k :: linorder"
  assumes "distinct (map key xs)" "\<And>x. x \<in> set xs \<Longrightarrow> key x < key y"
  shows "sort_key key (xs @ [y]) = sort_key key xs @ [y]"
proof (rule sorted_key_unique [of key])
  show "sorted (map key (sort_key key (xs @ [y])))" by simp
  show "sorted (map key (sort_key key xs @ [y]))"
    using assms(2) by (auto simp: sorted_append intro: less_imp_le)
  have "key y \<notin> key ` set xs" using assms(2) by (metis imageE less_irrefl)
  then have d: "distinct (map key (xs @ [y]))" using assms(1) by auto
  then show "distinct (map key (sort_key key (xs @ [y])))" by (auto simp: distinct_map)
  from assms(1) have "distinct (map key (sort_key key xs))" by (simp add: distinct_map)
  with \<open>key y \<notin> key ` set xs\<close> show "distinct (map key (sort_key key xs @ [y]))" by auto
qed auto

lemma traverse_snoc:
  "traverse f xs = Inr ys \<Longrightarrow> f x = Inr y \<Longrightarrow> traverse f (xs @ [x]) = Inr (ys @ [y])"
  by (induction xs arbitrary: ys) (auto simp: result_simps)

lemma enqueue_then_listed:
  assumes "outbox_inv s" "outbox_codec_ok s" "enqueue_outbox_entry i inst m t s = (Inr e, s')"
    and "list_pending_outbox inst limit s = Inr es" "length es < unat limit"
  shows "list_pending_outbox inst limit s' = Inr (es @ [e])"
proof -
  let ?P = "\<lambda>r. our_instance_id r = inst \<and> our_state r = ''pending''"
  let ?xs = "filter ?P (cs_outbox s)"
  obtain json protected where json: "cs_to_json s \<lparr>env_sequence = word_of_int (ob_sequence e), env_acked_sequence = 0, env_message = Some m\<rparr> = Some json"
    and prot: "protect_outbox_payload s i json = Inr protected"
    and e: "e = outbox_entry_new i inst (max_sequence inst (cs_outbox s) + 1) json t"
    and ins: "insert_outbox_entry s e protected (payload_operation_id s json) (cs_outbox s) = Inr (cs_outbox s')"
    and s': "s' = s\<lparr>cs_outbox := cs_outbox s'\<rparr>"
    using enqueue_Inr(1) [OF assms(3)] by blast
  let ?row = "outbox_row_of e protected (payload_operation_id s json)"
  have rows: "cs_outbox s' = cs_outbox s @ [?row]" using ins by (simp add: insert_outbox_entry_Inr)
  have row: "?P ?row" "our_sequence ?row = max_sequence inst (cs_outbox s) + 1"
    by (simp_all add: e outbox_row_of_def outbox_entry_new_def)
  have "valid_str json" using assms(2) json by (auto simp: outbox_codec_ok_def)
  then have mapped: "map_row s ?row = Inr e"
    using map_row_enqueued [OF recover_protected [OF assms(2) _ prot] e] by blast
  have "queue_key x < queue_key ?row" if "x \<in> set ?xs" for x
    using max_sequence_ge [of x "cs_outbox s" inst] that row(2) by (auto simp: queue_key_def less_prod_def)
  moreover have "distinct (map queue_key ?xs)"
    using assms(1) queue_key_inj by (auto simp: outbox_inv_def outbox_rows_ok_def distinct_map intro: inj_on_subset)
  ultimately have "sort_key queue_key (?xs @ [?row]) = sort_key queue_key ?xs @ [?row]"
    by (rule sort_key_snoc [rotated])
  with row(1) have sorted: "sort_key queue_key (filter ?P (cs_outbox s')) = sort_key queue_key ?xs @ [?row]"
    by (simp add: rows)
  have nofault: "\<not> cs_fault s CenterQuery"
    and trav: "traverse (map_row s) (take (unat limit) (sort_key queue_key ?xs)) = Inr es"
    using assms(4) by (auto simp: list_pending_outbox_def result_simps)
  have short: "length (sort_key queue_key ?xs) < unat limit"
    using traverse_Inr_length [OF trav] assms(5) by simp
  then have "traverse (map_row s) (sort_key queue_key ?xs @ [?row]) = Inr (es @ [e])"
    using trav mapped by (intro traverse_snoc) simp_all
  moreover have "list_pending_outbox inst limit s'
      = rbind (call OutboxDatabase (cs_fault s') CenterQuery) (\<lambda>_. traverse (map_row s')
          (take (unat limit) (sort_key queue_key (filter ?P (cs_outbox s')))))"
    by (simp add: list_pending_outbox_def)
  moreover have "map_row s' = map_row s" "cs_fault s' = cs_fault s" by (subst s', simp)+
  ultimately show ?thesis using short nofault by (simp add: sorted call_def)
qed

section \<open>A demonstration\<close>

lemma enqueue_succeeds:
  assumes "cs_command_key s = Some key" "\<And>c. \<not> cs_fault s c" "0 \<le> max_sequence inst (cs_outbox s)"
    and "max_sequence inst (cs_outbox s) < I64_MAX"
    and "cs_to_json s \<lparr>env_sequence = word_of_int (max_sequence inst (cs_outbox s) + 1), env_acked_sequence = 0,
           env_message = Some m\<rparr> = Some json"
    and "protect_outbox_payload s i json = Inr protected"
    and "\<forall>r \<in> set (cs_outbox s). our_id r \<noteq> i" "inst \<in> set (cs_instances s)"
  shows "\<exists>e s'. enqueue_outbox_entry i inst m t s = (Inr e, s')"
proof -
  let ?e = "outbox_entry_new i inst (max_sequence inst (cs_outbox s) + 1) json t"
  have "outbox_key r \<noteq> (inst, max_sequence inst (cs_outbox s) + 1)" if "r \<in> set (cs_outbox s)" for r
    using max_sequence_ge [OF that, of inst] by (auto simp: outbox_key_def)
  then have "insert_outbox_entry s ?e protected (payload_operation_id s json) (cs_outbox s)
      = Inr (cs_outbox s @ [outbox_row_of ?e protected (payload_operation_id s json)])"
    using assms(2,7,8) unfolding insert_outbox_entry_Inr
    by (auto simp: outbox_entry_new_def outbox_row_of_def outbox_row_check_def)
  with assms show ?thesis
    by (simp add: enqueue_outbox_entry_def outbox_command_key_def with_outbox_def transact_def call_def Let_def)
qed

lemma demo_protect: "\<exists>p. protect_outbox_payload demo_center i json = Inr p"
  by (simp add: protect_outbox_payload_def outbox_command_key_def demo_center_def encrypt_command_def
      cipher_key_def demo_lib_def)

lemma demo_outbox_inv: "outbox_inv demo_center"
  by (simp add: outbox_inv_def outbox_rows_ok_def demo_center_def)

lemma demo_outbox_codec: "outbox_codec_ok demo_center"
  using demo_lib_ok
  by (simp add: outbox_codec_ok_def demo_center_def COMMAND_NONCE_LENGTH_def valid_str_def scalar_value_def)

lemma demo_enqueue: "\<exists>e s'. enqueue_outbox_entry 30 1 True 100 demo_center = (Inr e, s')"
proof -
  obtain p where "protect_outbox_payload demo_center 30 [1] = Inr p" using demo_protect by blast
  moreover have "max_sequence 1 (cs_outbox demo_center) = 0" by (simp add: demo_center_def max_sequence_def)
  ultimately show ?thesis
    by (intro enqueue_succeeds [where json = "[1]"]) (simp_all add: demo_center_def I64_MAX_def)
qed

section \<open>Properties\<close>

text \<open>
  C34: A sequence number is never used twice. Every envelope an instance queues gets the number
  after the greatest stored; and although acknowledgements delete history, after any later mix of
  queueing, acknowledgements, lookups and failures a further envelope of the instance gets a
  strictly greater number, within the signed 64-bit range.
\<close>

theorem outbox_sequences_never_reused:
  assumes "outbox_inv s" and "enqueue_outbox_entry i inst m t s = (Inr e, s1)"
    and "enqueue_outbox_entry i' inst m' t' (outbox_run ops s1) = (Inr e', s2)"
  shows "1 \<le> ob_sequence e \<and> ob_sequence e < ob_sequence e' \<and> ob_sequence e' \<le> I64_MAX"
proof -
  note first = outbox_inv_enqueue [OF assms(1,2)]
  have run: "outbox_inv (outbox_run ops s1)"
    "max_sequence inst (cs_outbox s1) \<le> max_sequence inst (cs_outbox (outbox_run ops s1))"
    using outbox_run_keeps [OF first(1)] by blast+
  from outbox_inv_enqueue(3) [OF run(1) assms(3)] first(3,4) run(2) max_sequence_nonneg [OF assms(1), of inst]
    enqueue_Inr(3) [OF assms(3)]
  show ?thesis by linarith
qed

theorem outbox_sequences_never_reused_witness:
  "\<exists>e s1 e' s2. enqueue_outbox_entry 30 1 True 100 demo_center = (Inr e, s1)
     \<and> enqueue_outbox_entry 31 1 True 200 (outbox_run [] s1) = (Inr e', s2) \<and> ob_sequence e < ob_sequence e'"
proof -
  obtain e s1 where q: "enqueue_outbox_entry 30 1 True 100 demo_center = (Inr e, s1)" using demo_enqueue by blast
  obtain json protected where e: "e = outbox_entry_new 30 1 (max_sequence 1 (cs_outbox demo_center) + 1) json 100"
    and ins: "insert_outbox_entry demo_center e protected (payload_operation_id demo_center json) (cs_outbox demo_center) = Inr (cs_outbox s1)"
    and s1: "s1 = demo_center\<lparr>cs_outbox := cs_outbox s1\<rparr>"
    using enqueue_Inr(1) [OF q] by blast
  have rows: "cs_outbox s1 = [outbox_row_of e protected (payload_operation_id demo_center json)]"
    using ins unfolding insert_outbox_entry_Inr by (simp add: demo_center_def)
  have same: "cs_fault s1 = cs_fault demo_center" "cs_command_key s1 = cs_command_key demo_center"
    "cs_to_json s1 = cs_to_json demo_center" "cs_instances s1 = cs_instances demo_center"
    "protect_outbox_payload s1 = protect_outbox_payload demo_center"
    by (subst s1, simp add: protect_outbox_payload_def outbox_command_key_def fun_eq_iff)+
  have "max_sequence 1 (cs_outbox s1) = 1" "\<forall>r \<in> set (cs_outbox s1). our_id r = 30"
    by (simp_all add: rows max_sequence_def outbox_row_of_def e outbox_entry_new_def) (simp add: demo_center_def)
  moreover obtain p where "protect_outbox_payload demo_center 31 [1] = Inr p" using demo_protect by blast
  ultimately have "\<exists>e' s2. enqueue_outbox_entry 31 1 True 200 s1 = (Inr e', s2)"
    by (intro enqueue_succeeds [where json = "[1]"]) (simp_all add: same, simp_all add: demo_center_def I64_MAX_def)
  then obtain e' s2 where q': "enqueue_outbox_entry 31 1 True 200 (outbox_run [] s1) = (Inr e', s2)"
    by (auto simp: outbox_run_def)
  from outbox_sequences_never_reused [OF demo_outbox_inv q q'] q q' show ?thesis by blast
qed

text \<open>
  C35: An acknowledgement never loses the evidence of an offer. Whatever it marks and prunes, the
  newest row of every operation in every instance stays (so the retry's lookup still finds that
  the offer was made), every other envelope awaiting delivery stays as it is, and so does every other
  envelope that is not an offer.
\<close>

theorem ack_keeps_offer_evidence:
  assumes "outbox_inv s" and "ack_outbox_entry i t s = (Inr out, s')"
  shows "map_option our_id (offer_row inst operation (cs_outbox s')) = map_option our_id (offer_row inst operation (cs_outbox s))
    \<and> (r \<in> set (cs_outbox s) \<and> our_id r \<noteq> i \<and> (our_state r = ''pending'' \<or> our_operation_id r = None)
        \<longrightarrow> r \<in> set (cs_outbox s'))"
  using ack_offer_row [OF assms] ack_keeps_row [OF assms(2)] by blast

lemma demo_ack: "\<exists>e s1 out s2. enqueue_outbox_entry 30 1 True 100 demo_center = (Inr e, s1)
    \<and> ack_outbox_entry 30 200 s1 = (Inr out, s2)"
proof -
  obtain e s1 where q: "enqueue_outbox_entry 30 1 True 100 demo_center = (Inr e, s1)" using demo_enqueue by blast
  obtain json protected where e: "e = outbox_entry_new 30 1 (max_sequence 1 (cs_outbox demo_center) + 1) json 100"
    and ins: "insert_outbox_entry demo_center e protected (payload_operation_id demo_center json) (cs_outbox demo_center) = Inr (cs_outbox s1)"
    and s1: "s1 = demo_center\<lparr>cs_outbox := cs_outbox s1\<rparr>"
    using enqueue_Inr(1) [OF q] by blast
  have rows: "cs_outbox s1 = [outbox_row_of e protected (payload_operation_id demo_center json)]"
    using ins unfolding insert_outbox_entry_Inr by (simp add: demo_center_def)
  have pending: "filter (is_pending_row 30) (cs_outbox s1) = cs_outbox s1" "length (cs_outbox s1) = 1"
    unfolding rows by (simp_all add: is_pending_row_def outbox_row_of_def e outbox_entry_new_def)
  have fault: "cs_fault s1 = (\<lambda>_. False)" by (subst s1) (simp add: demo_center_def)
  have "\<exists>out s2. ack_outbox_entry 30 200 s1 = (Inr out, s2)"
    using pending fault
    by (auto simp: ack_outbox_entry_def with_outbox_def transact_def call_def Let_def prune_acked_operation_history_def
        split: option.splits)
  with q show ?thesis by blast
qed

theorem ack_keeps_offer_evidence_witness:
  "\<exists>e s1 out s2. enqueue_outbox_entry 30 1 True 100 demo_center = (Inr e, s1)
     \<and> ack_outbox_entry 30 200 s1 = (Inr out, s2)
     \<and> map_option our_id (offer_row 1 9 (cs_outbox s2)) = map_option our_id (offer_row 1 9 (cs_outbox s1))"
proof -
  obtain e s1 out s2 where q: "enqueue_outbox_entry 30 1 True 100 demo_center = (Inr e, s1)"
    and a: "ack_outbox_entry 30 200 s1 = (Inr out, s2)" using demo_ack by blast
  have "outbox_inv s1" by (rule outbox_inv_enqueue(1) [OF demo_outbox_inv q])
  from ack_keeps_offer_evidence [OF this a, of 1 9] q a show ?thesis by blast
qed

text \<open>
  C36: What is queued is delivered last and intact. When the delivery scan has seen every pending
  envelope of an instance, queueing one more makes the next scan return the same envelopes, in the same
  order, followed by the new one with the payload that was serialized, decrypted from its row.
\<close>

theorem queued_envelope_is_scanned_last:
  assumes "outbox_inv s" and "outbox_codec_ok s"
    and "enqueue_outbox_entry i inst m t s = (Inr e, s')"
    and "list_pending_outbox inst limit s = Inr es" and "length es < unat limit"
  shows "list_pending_outbox inst limit s' = Inr (es @ [e])"
  using assms by (rule enqueue_then_listed)

theorem queued_envelope_is_scanned_last_witness:
  "\<exists>e s1. enqueue_outbox_entry 30 1 True 100 demo_center = (Inr e, s1)
     \<and> list_pending_outbox 1 10 s1 = Inr [e]"
proof -
  obtain e s1 where q: "enqueue_outbox_entry 30 1 True 100 demo_center = (Inr e, s1)" using demo_enqueue by blast
  have "list_pending_outbox 1 10 demo_center = Inr []" by (simp add: list_pending_outbox_def call_def demo_center_def)
  from queued_envelope_is_scanned_last [OF demo_outbox_inv demo_outbox_codec q this] q show ?thesis by simp
qed

end
