(* ===== verification/Inbox_Properties.thy ===== *)
theory Inbox_Properties
  imports Histories Center_Inbox Outbox_Properties
begin

text \<open>
  What the inbox of \<open>Center_Inbox\<close> guarantees the site that executes offers: over any history of
  deliveries, redeliveries, state reports and database failures, an offer is stored once, decided
  once and completed once, and its payload is read back as it was received. The counting argument
  is the locale \<open>leveled\<close> of \<open>Histories\<close>, interpreted with how far an offer has come.
\<close>

section \<open>Histories of the inbox\<close>

datatype inbox_op =
    Receive inbox_entry
  | Advance operation_id inbox_event
  | InboxWorld "center_call \<Rightarrow> bool" "uuid \<Rightarrow> byte list option"

datatype inbox_reply =
    ReceiveReply "center_inbox_repository_error + create_inbox_outcome"
  | AdvanceReply "center_inbox_repository_error + inbox_advance_outcome"
  | NoReply

fun inbox_step :: "inbox_op \<Rightarrow> 'm center_store \<Rightarrow> inbox_reply \<times> 'm center_store" where
  "inbox_step (Receive entry) s = (case create_inbox_entry entry s of (r, s') \<Rightarrow> (ReceiveReply r, s'))"
| "inbox_step (Advance operation event) s =
     (case advance_inbox_entry operation event s of (r, s') \<Rightarrow> (AdvanceReply r, s'))"
| "inbox_step (InboxWorld f g) s = (NoReply, s\<lparr>cs_fault := f, cs_getrandom := g\<rparr>)"

definition inbox_inv :: "'m center_store \<Rightarrow> bool" where
  "inbox_inv s \<longleftrightarrow>
     distinct (map inr_id (cs_inbox s)) \<and> distinct (map inr_operation_id (cs_inbox s))
   \<and> inr_state ` set (cs_inbox s) \<subseteq> range inbox_entry_state_as_str"

definition inbox_row :: "operation_id \<Rightarrow> 'm center_store \<Rightarrow> inbox_row option" where
  "inbox_row operation s = List.find (of_operation s operation) (cs_inbox s)"

text \<open>How far the offer of an operation has come: unknown, received, accepted, resolved.\<close>

fun phase_level :: "inbox_entry_state \<Rightarrow> nat" where
  "phase_level InboxReceived = 1"
| "phase_level InboxAccepted = 2"
| "phase_level InboxRejected = 3"
| "phase_level InboxCompleted = 3"

definition code_level :: "string \<Rightarrow> nat" where
  "code_level c = (case inbox_entry_state_from_str c of Inl _ \<Rightarrow> 0 | Inr st \<Rightarrow> phase_level st)"

definition inbox_level :: "operation_id \<Rightarrow> 'm center_store \<Rightarrow> nat" where
  "inbox_level operation s = (case inbox_row operation s of None \<Rightarrow> 0 | Some r \<Rightarrow> code_level (inr_state r))"

lemma code_level_code [simp]: "code_level (inbox_entry_state_as_str st) = phase_level st"
  by (simp add: code_level_def)

lemma phase_level_pos [simp]: "0 < phase_level st"
  by (cases st) simp_all

lemma event_level: "phase_level (inbox_event_from_state event) < phase_level (inbox_event_to_state event)"
  by (cases event) simp_all

lemma inbox_codes: "{''received'', ''accepted'', ''rejected'', ''completed''} = range inbox_entry_state_as_str"
proof -
  have "range inbox_entry_state_as_str = inbox_entry_state_as_str ` {InboxReceived, InboxAccepted, InboxRejected, InboxCompleted}"
    by (rule arg_cong [where f = "image inbox_entry_state_as_str"]) (use inbox_entry_state.exhaust in blast)
  then show ?thesis by simp
qed

section \<open>The methods\<close>

lemma with_inbox_cases:
  assumes "with_inbox s (transact c d f body (cs_inbox s)) = (r, s')"
  obtains (failed) e where "r = Inl e" "s' = s"
    | (committed) a rows where "r = Inr a" "body (cs_inbox s) = Inr (a, rows)" "s' = s\<lparr>cs_inbox := rows\<rparr>"
proof -
  obtain q rows where t: "transact c d f body (cs_inbox s) = (q, rows)" by fastforce
  then have eq: "r = q" "s' = s\<lparr>cs_inbox := rows\<rparr>" using assms by (simp_all add: with_inbox_def)
  from t show thesis
  proof (cases rule: transact_cases)
    case (failed e)
    with eq have "s' = s" by simp
    with failed eq that(1) show thesis by blast
  next
    case (committed a)
    with eq that(2) show thesis by blast
  qed
qed

lemma insert_inbox_entry_Inr:
  "insert_inbox_entry s entry payload rows = Inr rows' \<longleftrightarrow>
     \<not> cs_fault s CenterInsert \<and> rows' = rows @ [inbox_row_of s entry payload]
   \<and> (\<forall>r \<in> set rows. inr_id r \<noteq> ib_id entry \<and> inr_operation_id r \<noteq> cs_uuid_to_string s (ib_operation_id entry))
   \<and> ib_instance_id entry \<in> set (cs_instances s)"
  unfolding insert_inbox_entry_def inbox_codes
  by (auto simp: Let_def list_ex_iff result_simps inbox_row_of_def)

lemma create_inbox_cases:
  assumes "create_inbox_entry entry s = (r, s')"
  obtains (unchanged) "r \<noteq> Inr InboxCreated" "s' = s"
    | (stored) payload where "r = Inr InboxCreated" "inbox_row (ib_operation_id entry) s = None"
        "protect_inbox_payload s (ib_operation_id entry) (ib_payload_json entry) = Inr payload"
        "insert_inbox_entry s entry payload (cs_inbox s) = Inr (cs_inbox s @ [inbox_row_of s entry payload])"
        "s' = s\<lparr>cs_inbox := cs_inbox s @ [inbox_row_of s entry payload]\<rparr>"
proof (cases "inbox_command_key s")
  case (Inl e)
  with assms have "r \<noteq> Inr InboxCreated \<and> s' = s" by (auto simp: create_inbox_entry_def)
  with that(1) show thesis by blast
next
  case (Inr key)
  show thesis
  proof (cases "inbox_row (ib_operation_id entry) s")
    case None
    from assms have "with_inbox s (transact InboxCoordinate InboxDatabase (cs_fault s) (\<lambda>rows.
            rbind (call InboxDatabase (cs_fault s) CenterQuery) (\<lambda>_.
            case List.find (of_operation s (ib_operation_id entry)) rows of
              Some model \<Rightarrow>
                rbind (map_stored_inbox_entry s (inr_id model) model) (\<lambda>stored.
                Inr (case decide_inbox_duplicate (Some (ib_state stored)) of
                       Proceed \<Rightarrow> InboxCreated
                     | InProgress \<Rightarrow> DuplicateInProgress
                     | AlreadyResolved st \<Rightarrow> DuplicateResolved st, rows))
            | None \<Rightarrow>
                rbind (protect_inbox_payload s (ib_operation_id entry) (ib_payload_json entry)) (\<lambda>payload_json.
                rbind (insert_inbox_entry s entry payload_json rows) (\<lambda>rows'.
                Inr (InboxCreated, rows'))))) (cs_inbox s)) = (r, s')"
      by (simp add: create_inbox_entry_def Inr)
    then show thesis
    proof (cases rule: with_inbox_cases)
      case (failed e)
      with that(1) show thesis by simp
    next
      case (committed a rows)
      with None obtain payload where "a = InboxCreated"
        "protect_inbox_payload s (ib_operation_id entry) (ib_payload_json entry) = Inr payload"
        "insert_inbox_entry s entry payload (cs_inbox s) = Inr rows"
        by (auto simp: inbox_row_def result_simps)
      with committed None that(2) show thesis by (simp add: insert_inbox_entry_Inr)
    qed
  next
    case (Some model)
    have "r \<noteq> Inr InboxCreated \<and> s' = s"
      using assms Some
      unfolding create_inbox_entry_def Inr sum.case
      by (elim with_inbox_cases)
        (auto simp: inbox_row_def result_simps decide_inbox_duplicate_def split: if_splits)
    with that(1) show thesis by blast
  qed
qed

lemma find_map_same:
  assumes "\<And>x. P (g x) = P x"
  shows "List.find P (map g xs) = map_option g (List.find P xs)"
  using assms by (induction xs) auto

lemma advance_inbox_cases:
  assumes "inbox_inv s" "advance_inbox_entry operation event s = (r, s')"
  obtains (unchanged) "\<And>st. r \<noteq> Inr (Advanced st)" "s' = s"
    | (advanced) row where "r = Inr (Advanced (inbox_event_to_state event))"
        "inbox_row operation s = Some row" "inr_state row = inbox_entry_state_as_str (inbox_event_from_state event)"
        "s' = s\<lparr>cs_inbox := map (\<lambda>q. if in_from_state s operation event q then to_state event q else q) (cs_inbox s)\<rparr>"
  using assms(2) unfolding advance_inbox_entry_def
proof (cases rule: with_inbox_cases)
  case (failed e)
  with that(1) show thesis by simp
next
  case (committed a rows)
  let ?hit = "filter (in_from_state s operation event) (cs_inbox s)"
  show thesis
  proof (cases "length ?hit = 1")
    case True
    then obtain row where "row \<in> set ?hit" by (metis length_pos_if_in_set list.set_intros(1) length_0_conv neq_Nil_conv zero_neq_one)
    then have row: "row \<in> set (cs_inbox s)" "inr_operation_id row = cs_uuid_to_string s operation"
      "inr_state row = inbox_entry_state_as_str (inbox_event_from_state event)"
      by (auto simp: in_from_state_def of_operation_def)
    have "inbox_row operation s = Some row"
      using find_distinct_key [of inr_operation_id "cs_inbox s" row] assms(1) row(1,2)
      by (simp add: inbox_row_def of_operation_def [abs_def] inbox_inv_def)
    with row(3) committed True that(2) show thesis by (auto simp: Let_def result_simps)
  next
    case False
    have "?hit = []"
    proof (rule ccontr)
      assume "?hit \<noteq> []"
      with False obtain p q rest where hit: "?hit = p # q # rest"
        by (cases ?hit; cases "tl ?hit") auto
      have "distinct (map inr_operation_id ?hit)"
        using assms(1) by (auto simp: inbox_inv_def intro: distinct_map_filter_key)
      moreover have "in_from_state s operation event p" "in_from_state s operation event q"
        using arg_cong [OF hit, of set] by auto
      ultimately show False unfolding hit by (simp add: in_from_state_def of_operation_def)
    qed
    then have same: "map (\<lambda>q. if in_from_state s operation event q then to_state event q else q) (cs_inbox s) = cs_inbox s"
      by (auto simp: filter_empty_conv intro: map_idI)
    with committed False have "a = AlreadyInState" "rows = cs_inbox s"
      by (auto simp: Let_def result_simps split: if_splits)
    with committed that(1) show thesis by simp
  qed
qed

lemma inbox_row_upd:
  "inbox_row operation (s\<lparr>cs_inbox := rows\<rparr>) = List.find (of_operation s operation) rows"
  by (simp add: inbox_row_def of_operation_def [abs_def])

lemma inbox_row_after_create:
  assumes "create_inbox_entry entry s = (Inr InboxCreated, s')"
  shows "\<exists>payload. protect_inbox_payload s (ib_operation_id entry) (ib_payload_json entry) = Inr payload
    \<and> inbox_row (ib_operation_id entry) s = None
    \<and> inbox_row (ib_operation_id entry) s' = Some (inbox_row_of s entry payload)"
  using assms
proof (cases rule: create_inbox_cases)
  case (stored payload)
  have "of_operation s (ib_operation_id entry) (inbox_row_of s entry payload)"
    by (simp add: of_operation_def inbox_row_of_def)
  with stored(2) have "inbox_row (ib_operation_id entry) s' = Some (inbox_row_of s entry payload)"
    unfolding stored(5) inbox_row_upd find_append by (simp add: inbox_row_def)
  with stored(2,3) show ?thesis by blast
qed simp

lemma inbox_row_create_other:
  assumes "create_inbox_entry entry s = (r, s')" "inbox_row operation s = Some row"
  shows "inbox_row operation s' = Some row"
  using assms(1)
proof (cases rule: create_inbox_cases)
  case (stored payload)
  with assms(2) show ?thesis by (simp add: inbox_row_upd find_append) (simp add: inbox_row_def)
qed (use assms(2) in simp)

text \<open>One step of the stored phase: none, or one event of the state machine.\<close>

definition row_moves :: "inbox_row \<Rightarrow> inbox_row \<Rightarrow> bool" where
  "row_moves row row' \<longleftrightarrow> row' = row
     \<or> (\<exists>event. inr_state row = inbox_entry_state_as_str (inbox_event_from_state event) \<and> row' = to_state event row)"

lemma row_moves_level: "row_moves row row' \<Longrightarrow> code_level (inr_state row) \<le> code_level (inr_state row')"
  by (auto simp: row_moves_def to_state_def intro: less_imp_le [OF event_level])

lemma inbox_row_advance:
  assumes "inbox_inv s" "advance_inbox_entry operation' event s = (r, s')" "inbox_row operation s = Some row"
  shows "\<exists>row'. inbox_row operation s' = Some row' \<and> row_moves row row'"
  using assms(1,2)
proof (cases rule: advance_inbox_cases)
  case (advanced hit)
  have "inbox_row operation s' = map_option (\<lambda>q. if in_from_state s operation' event q then to_state event q else q)
      (inbox_row operation s)"
    unfolding advanced(4) inbox_row_upd
    unfolding inbox_row_def by (intro find_map_same) (simp add: of_operation_def to_state_def)
  with assms(3) show ?thesis by (auto simp: row_moves_def in_from_state_def)
qed (use assms(3) in \<open>simp add: row_moves_def\<close>)

lemma inbox_row_step:
  assumes "inbox_inv s" "inbox_row operation s = Some row"
  shows "\<exists>row'. inbox_row operation (snd (inbox_step op s)) = Some row' \<and> row_moves row row'"
proof (cases op)
  case (Receive entry)
  obtain r s' where c: "create_inbox_entry entry s = (r, s')" by fastforce
  with Receive inbox_row_create_other [OF c assms(2)] show ?thesis by (simp add: row_moves_def)
next
  case (Advance operation' event)
  obtain r s' where a: "advance_inbox_entry operation' event s = (r, s')" by fastforce
  with Advance inbox_row_advance [OF assms(1) a assms(2)] show ?thesis by simp
next
  case (InboxWorld f g)
  have "inbox_row operation (s\<lparr>cs_fault := f, cs_getrandom := g\<rparr>) = inbox_row operation s"
    by (simp add: inbox_row_def of_operation_def [abs_def])
  with InboxWorld assms(2) show ?thesis by (simp add: row_moves_def)
qed

lemma inbox_inv_step:
  assumes "inbox_inv s"
  shows "inbox_inv (snd (inbox_step op s))"
proof (cases op)
  case (Receive entry)
  obtain r s' where c: "create_inbox_entry entry s = (r, s')" by fastforce
  then have "inbox_inv s'"
  proof (cases rule: create_inbox_cases)
    case (stored payload)
    have "inr_state (inbox_row_of s entry payload) \<in> range inbox_entry_state_as_str" by (simp add: inbox_row_of_def)
    moreover have "inr_id (inbox_row_of s entry payload) \<notin> inr_id ` set (cs_inbox s)"
      "inr_operation_id (inbox_row_of s entry payload) \<notin> inr_operation_id ` set (cs_inbox s)"
      using stored(4) unfolding insert_inbox_entry_Inr by (auto simp: inbox_row_of_def)
    ultimately show ?thesis using assms unfolding stored(5) inbox_inv_def by simp
  qed (use assms in simp)
  with Receive c show ?thesis by simp
next
  case (Advance operation event)
  obtain r s' where a: "advance_inbox_entry operation event s = (r, s')" by fastforce
  with assms have "inbox_inv s'"
  proof (cases rule: advance_inbox_cases)
    case (advanced row)
    let ?g = "\<lambda>q. if in_from_state s operation event q then to_state event q else q"
    have "map inr_id (map ?g (cs_inbox s)) = map inr_id (cs_inbox s)"
      "map inr_operation_id (map ?g (cs_inbox s)) = map inr_operation_id (cs_inbox s)"
      by (simp_all add: to_state_def)
    moreover have "inr_state ` set (map ?g (cs_inbox s)) \<subseteq> range inbox_entry_state_as_str"
      using assms by (auto simp: inbox_inv_def to_state_def)
    moreover have "cs_inbox s' = map ?g (cs_inbox s)" by (simp add: advanced(4))
    ultimately show ?thesis using assms unfolding inbox_inv_def by metis
  qed (use assms in simp)
  with Advance a show ?thesis by simp
next
  case (InboxWorld f g)
  with assms show ?thesis by (simp add: inbox_inv_def)
qed

interpretation inbox: leveled inbox_step inbox_inv "inbox_level operation" "\<lambda>_. True" for operation
proof
  fix s :: "'m center_store" and op
  assume "inbox_inv s"
  then show "inbox_inv (snd (inbox_step op s))" by (rule inbox_inv_step)
  show "inbox_level operation s \<le> inbox_level operation (snd (inbox_step op s))"
    using inbox_row_step [OF \<open>inbox_inv s\<close>, of operation _ op]
    by (cases "inbox_row operation s") (auto simp: inbox_level_def dest: row_moves_level)
qed

lemma inbox_lifted_at_most_once:
  fixes s :: "'m center_store"
  assumes "\<And>op (s :: 'm center_store). inbox_inv s \<Longrightarrow> lifts (op, fst (inbox_step op s)) \<Longrightarrow>
      inbox_level operation s \<le> bound \<and> bound < inbox_level operation (snd (inbox_step op s))"
    and "inbox_inv s"
  shows "length (filter lifts (trace inbox_step ops s)) \<le> (if inbox_level operation s \<le> bound then 1 else 0)"
proof (rule inbox.lifted_at_most_once)
  show "inbox_inv s" by fact
  show "list_all (\<lambda>_. True) ops" by (simp add: list_all_iff)
  fix op and s :: "'m center_store"
  assume "inbox_inv s" "lifts (op, fst (inbox_step op s))"
  then show "inbox_level operation s \<le> bound \<and> bound < inbox_level operation (snd (inbox_step op s))" by (rule assms(1))
qed

section \<open>Counting effects\<close>

fun stores :: "operation_id \<Rightarrow> inbox_op \<times> inbox_reply \<Rightarrow> bool" where
  "stores operation (Receive entry, ReceiveReply (Inr InboxCreated)) = (ib_operation_id entry = operation)"
| "stores operation _ = False"

fun decides :: "operation_id \<Rightarrow> inbox_op \<times> inbox_reply \<Rightarrow> bool" where
  "decides operation (Advance operation' event, AdvanceReply (Inr (Advanced _))) =
     (operation' = operation \<and> event \<in> {OfferAccepted, OfferRejected})"
| "decides operation _ = False"

fun completes :: "operation_id \<Rightarrow> inbox_op \<times> inbox_reply \<Rightarrow> bool" where
  "completes operation (Advance operation' event, AdvanceReply (Inr (Advanced _))) =
     (operation' = operation \<and> event = OfferCompleted)"
| "completes operation _ = False"

lemma inbox_level_known: "inbox_inv s \<Longrightarrow> inbox_row operation s \<noteq> None \<Longrightarrow> 0 < inbox_level operation s"
  by (fastforce simp: inbox_level_def inbox_inv_def inbox_row_def dest!: find_Some_in_set)

lemma inbox_level_advanced:
  assumes "inbox_inv s" "advance_inbox_entry operation event s = (Inr (Advanced st), s')"
  shows "inbox_level operation s = phase_level (inbox_event_from_state event)"
    and "inbox_level operation s' = phase_level (inbox_event_to_state event)"
proof -
  have "inbox_level operation s = phase_level (inbox_event_from_state event)
      \<and> inbox_level operation s' = phase_level (inbox_event_to_state event)"
    using assms
  proof (cases rule: advance_inbox_cases)
    case (advanced row)
    have "inbox_row operation s' = map_option (\<lambda>q. if in_from_state s operation event q then to_state event q else q)
        (inbox_row operation s)"
      unfolding advanced(4) inbox_row_upd
      unfolding inbox_row_def by (intro find_map_same) (simp add: of_operation_def to_state_def)
    moreover have "in_from_state s operation event row"
      using advanced(2,3) by (auto simp: inbox_row_def in_from_state_def dest: find_Some_in_set)
    ultimately show ?thesis using advanced(2,3) by (simp add: inbox_level_def to_state_def)
  qed blast
  then show "inbox_level operation s = phase_level (inbox_event_from_state event)"
    "inbox_level operation s' = phase_level (inbox_event_to_state event)" by blast+
qed

lemma stores_lifts:
  assumes "inbox_inv s" "stores operation (op, fst (inbox_step op s))"
  shows "inbox_level operation s \<le> 0 \<and> 0 < inbox_level operation (snd (inbox_step op s))"
proof (cases op)
  case (Receive entry)
  obtain r s' where c: "create_inbox_entry entry s = (r, s')" by fastforce
  with Receive assms(2) have "r = Inr InboxCreated" "ib_operation_id entry = operation"
    by (cases r; cases "projr r"; simp)+
  with inbox_row_after_create [of entry s s'] c Receive show ?thesis
    by (auto simp: inbox_level_def inbox_row_of_def)
qed (use assms(2) in \<open>auto split: prod.splits\<close>)

lemma advance_lifts:
  assumes "inbox_inv s" "inbox_step (Advance operation event) s = (AdvanceReply (Inr (Advanced st)), s')"
  shows "inbox_level operation s = phase_level (inbox_event_from_state event)
    \<and> inbox_level operation s' = phase_level (inbox_event_to_state event)"
  using assms inbox_level_advanced by (auto split: prod.splits)

lemma decides_lifts:
  assumes "inbox_inv s" "decides operation (op, fst (inbox_step op s))"
  shows "inbox_level operation s \<le> 1 \<and> 1 < inbox_level operation (snd (inbox_step op s))"
  using assms(2)
proof (cases rule: decides.elims(2))
  case (1 operation' event st)
  with advance_lifts [OF assms(1), of operation event st "snd (inbox_step op s)"]
  show ?thesis by (auto simp: prod_eq_iff)
qed

lemma completes_lifts:
  assumes "inbox_inv s" "completes operation (op, fst (inbox_step op s))"
  shows "inbox_level operation s \<le> 2 \<and> 2 < inbox_level operation (snd (inbox_step op s))"
  using assms(2)
proof (cases rule: completes.elims(2))
  case (1 operation' event st)
  with advance_lifts [OF assms(1), of operation event st "snd (inbox_step op s)"]
  show ?thesis by (auto simp: prod_eq_iff)
qed

section \<open>Reading an offer back\<close>

definition inbox_codec_ok :: "'m center_store \<Rightarrow> bool" where
  "inbox_codec_ok s \<longleftrightarrow>
     cipher_lib_ok (cs_cipher s)
   \<and> (\<forall>i. cs_uuid_parse s (cs_uuid_to_string s i) = Some i)
   \<and> (\<forall>i n. cs_getrandom s i = Some n \<longrightarrow> length n = COMMAND_NONCE_LENGTH)"

text \<open>What reading a row depends on, which no step changes.\<close>

definition same_codec :: "'m center_store \<Rightarrow> 'm center_store \<Rightarrow> bool" where
  "same_codec s s' \<longleftrightarrow> cs_command_key s' = cs_command_key s \<and> cs_cipher s' = cs_cipher s
     \<and> cs_uuid_parse s' = cs_uuid_parse s \<and> cs_uuid_to_string s' = cs_uuid_to_string s"

lemma same_codec_step: "inbox_inv s \<Longrightarrow> same_codec s (snd (inbox_step op s))"
  by (cases op)
    (auto simp: same_codec_def split: prod.splits elim!: create_inbox_cases elim: advance_inbox_cases)

lemma same_codec_run: "inbox_inv s \<Longrightarrow> same_codec s (run inbox_step ops s)"
proof (induction ops arbitrary: s)
  case (Cons op ops)
  from Cons.IH [OF inbox_inv_step [OF Cons.prems]] same_codec_step [OF Cons.prems, of op]
  show ?case by (simp add: same_codec_def)
qed (simp add: same_codec_def)

lemma map_stored_same_codec: "same_codec s s' \<Longrightarrow> map_stored_inbox_entry s' = map_stored_inbox_entry s"
  by (intro ext) (simp add: same_codec_def map_stored_inbox_entry_def recover_inbox_payload_def cong: if_cong)

lemma map_stored_inserted:
  assumes "inbox_codec_ok s" "valid_str (ib_payload_json entry)"
    and "protect_inbox_payload s (ib_operation_id entry) (ib_payload_json entry) = Inr payload"
  shows "map_stored_inbox_entry s (ib_id entry) ((inbox_row_of s entry payload)\<lparr>inr_state := inbox_entry_state_as_str st\<rparr>)
    = Inr (entry\<lparr>ib_state := st\<rparr>)"
proof -
  from assms(3) obtain key where key: "cs_command_key s = Some key"
    and enc: "encrypt_command (cs_cipher s) (cs_getrandom s (ib_operation_id entry)) key (id_bytes (ib_operation_id entry))
      (ib_payload_json entry) = Inr payload"
    by (auto simp: protect_inbox_payload_def inbox_command_key_def result_simps)
  have "decrypt_command (cs_cipher s) key (id_bytes (ib_operation_id entry)) payload = Inr (ib_payload_json entry)"
    using assms(1,2) enc
    by (intro decrypt_encrypt [where rnd = "cs_getrandom s (ib_operation_id entry)"]) (auto simp: inbox_codec_ok_def)
  with key encrypt_command_prefix [OF enc]
  have "recover_inbox_payload s (ib_operation_id entry) payload = Inr (ib_payload_json entry)"
    by (simp add: recover_inbox_payload_def)
  with assms(1) show ?thesis
    by (cases entry) (simp add: map_stored_inbox_entry_def inbox_row_of_def inbox_codec_ok_def inbox_entry_from_parts_def)
qed

definition inbox_moves :: "inbox_entry_state \<Rightarrow> inbox_entry_state \<Rightarrow> bool" where
  "inbox_moves st st' \<longleftrightarrow> (\<exists>event. inbox_transition st event = Inr st')"

lemma inbox_row_run:
  assumes "inbox_inv s" "inbox_row operation s = Some row" "inr_state row = inbox_entry_state_as_str st"
  shows "\<exists>st'. inbox_moves\<^sup>*\<^sup>* st st'
    \<and> inbox_row operation (run inbox_step ops s) = Some (row\<lparr>inr_state := inbox_entry_state_as_str st'\<rparr>)"
  using assms
proof (induction ops arbitrary: s row st)
  case Nil
  then have "row\<lparr>inr_state := inbox_entry_state_as_str st\<rparr> = row" by (cases row) simp
  with Nil show ?case by (intro exI [of _ st]) simp
next
  case (Cons op ops)
  let ?s = "snd (inbox_step op s)"
  obtain row' where row': "inbox_row operation ?s = Some row'" "row_moves row row'"
    using inbox_row_step [OF Cons.prems(1,2)] by blast
  obtain st1 where st1: "inbox_moves\<^sup>*\<^sup>* st st1" "inr_state row' = inbox_entry_state_as_str st1"
    "row' = row\<lparr>inr_state := inr_state row'\<rparr>"
    using row'(2) unfolding row_moves_def
  proof (elim disjE exE conjE)
    assume "row' = row"
    with Cons.prems(3) that show thesis by (cases row) auto
  next
    fix event
    assume event: "inr_state row = inbox_entry_state_as_str (inbox_event_from_state event)" "row' = to_state event row"
    with Cons.prems(3) have "st = inbox_event_from_state event" by (metis inbox_state_code.as_str_inject)
    then have "inbox_moves st (inbox_event_to_state event)" unfolding inbox_moves_def inbox_transition_Inr by blast
    with event(2) that show thesis by (auto simp: to_state_def)
  qed
  from Cons.IH [OF inbox_inv_step [OF Cons.prems(1)] row'(1) st1(2)]
  obtain st' where st': "inbox_moves\<^sup>*\<^sup>* st1 st'"
    "inbox_row operation (run inbox_step ops ?s) = Some (row'\<lparr>inr_state := inbox_entry_state_as_str st'\<rparr>)" by blast
  moreover have "row'\<lparr>inr_state := c\<rparr> = row\<lparr>inr_state := c\<rparr>" for c by (subst st1(3)) simp
  moreover have "inbox_moves\<^sup>*\<^sup>* st st'" using st1(1) st'(1) by (rule rtranclp_trans)
  ultimately show ?case by auto
qed

lemma create_duplicate:
  assumes "inbox_row (ib_operation_id entry) s = Some row" "cs_command_key s = Some key" "\<And>c. \<not> cs_fault s c"
    and "map_stored_inbox_entry s (inr_id row) row = Inr stored"
  shows "create_inbox_entry entry s =
    (Inr (if inbox_is_terminal (ib_state stored) then DuplicateResolved (ib_state stored) else DuplicateInProgress), s)"
  using assms
  by (cases "ib_state stored")
    (simp_all add: create_inbox_entry_def inbox_command_key_def with_inbox_def transact_def call_def inbox_row_def
      decide_inbox_duplicate_def inbox_is_terminal_def)

section \<open>Sync cursors\<close>

definition cursor_inv :: "'m center_store \<Rightarrow> bool" where
  "cursor_inv s \<longleftrightarrow>
     distinct (map cur_id (cs_cursors s)) \<and> distinct (map (\<lambda>r. (cur_instance_id r, cur_stream r)) (cs_cursors s))"

lemma upsert_cursor_Inr:
  assumes "upsert_cursor s cursor rows = Inr (u, rows')"
  obtains (replaced) model where
      "List.find (is_cursor (sc_instance_id cursor) (sc_stream cursor)) rows = Some model"
      "rows' = map (replace_cursor (cur_id model) cursor) rows"
    | (inserted) "List.find (is_cursor (sc_instance_id cursor) (sc_stream cursor)) rows = None"
      "\<forall>r \<in> set rows. cur_id r \<noteq> sc_id cursor" "rows' = rows @ [cursor_row_of cursor]"
  using assms unfolding upsert_cursor_def
  by (auto simp: result_simps list_ex_iff split: option.splits if_splits)

lemma set_sync_cursor_Inr:
  "set_sync_cursor cursor s = (Inr u, s') \<Longrightarrow> upsert_cursor s cursor (cs_cursors s) = Inr (u, cs_cursors s')
     \<and> cs_fault s' = cs_fault s"
  by (auto simp: set_sync_cursor_def split: prod.splits dest: transact_Inr)

lemma is_cursor_replace [simp]: "is_cursor inst stream (replace_cursor i cursor r) = is_cursor inst stream r"
  by (simp add: is_cursor_def replace_cursor_def)

lemma map_stored_cursor_of [simp]: "map_stored_cursor (sc_id cursor) (cursor_row_of cursor) = Inr cursor"
  by (simp add: map_stored_cursor_def cursor_row_of_def)

text \<open>Reading a cursor after it was set gives the value set; every other cursor is as it was.\<close>

lemma cursor_inv_set:
  assumes "cursor_inv s" "set_sync_cursor cursor s = (Inr (), s')"
  shows "cursor_inv s'"
  using set_sync_cursor_Inr [OF assms(2), THEN conjunct1]
proof (cases rule: upsert_cursor_Inr)
  case (replaced model)
  have "map cur_id (cs_cursors s') = map cur_id (cs_cursors s)"
    "map (\<lambda>r. (cur_instance_id r, cur_stream r)) (cs_cursors s') = map (\<lambda>r. (cur_instance_id r, cur_stream r)) (cs_cursors s)"
    by (simp_all add: replaced(2) replace_cursor_def)
  with assms(1) show ?thesis unfolding cursor_inv_def by simp
next
  case inserted
  then show ?thesis
    using assms(1) by (auto simp: cursor_inv_def cursor_row_of_def find_None_iff is_cursor_def)
qed

lemma get_after_set:
  assumes "set_sync_cursor cursor s = (Inr (), s')" "\<not> cs_fault s CenterQuery"
  shows "\<exists>i. get_sync_cursor (sc_instance_id cursor) (sc_stream cursor) s' = Inr (Some (cursor\<lparr>sc_id := i\<rparr>))"
  using set_sync_cursor_Inr [OF assms(1), THEN conjunct1]
proof (cases rule: upsert_cursor_Inr)
  case (replaced model)
  have "map_stored_cursor (cur_id model) (replace_cursor (cur_id model) cursor model) = Inr (cursor\<lparr>sc_id := cur_id model\<rparr>)"
    using find_Some_in_set [OF replaced(1)]
    by (simp add: map_stored_cursor_def replace_cursor_def is_cursor_def)
  moreover have "cur_id (replace_cursor (cur_id model) cursor model) = cur_id model" by (simp add: replace_cursor_def)
  ultimately show ?thesis
    using replaced assms(2) set_sync_cursor_Inr [OF assms(1)]
    by (auto simp: get_sync_cursor_def find_map_same call_def)
next
  case inserted
  have "is_cursor (sc_instance_id cursor) (sc_stream cursor) (cursor_row_of cursor)" "cur_id (cursor_row_of cursor) = sc_id cursor"
    by (simp_all add: is_cursor_def cursor_row_of_def)
  then show ?thesis
    using inserted assms(2) set_sync_cursor_Inr [OF assms(1)]
    by (auto simp: get_sync_cursor_def find_append call_def intro!: exI [of _ "sc_id cursor"])
qed

lemma get_after_set_other:
  assumes "cursor_inv s" "set_sync_cursor cursor s = (Inr (), s')" "(inst, stream) \<noteq> (sc_instance_id cursor, sc_stream cursor)"
  shows "get_sync_cursor inst stream s' = get_sync_cursor inst stream s"
proof -
  have "List.find (is_cursor inst stream) (cs_cursors s') = List.find (is_cursor inst stream) (cs_cursors s)"
    using set_sync_cursor_Inr [OF assms(2), THEN conjunct1]
  proof (cases rule: upsert_cursor_Inr)
    case (replaced model)
    have "replace_cursor (cur_id model) cursor m = m" if "List.find (is_cursor inst stream) (cs_cursors s) = Some m" for m
    proof -
      have "m \<noteq> model"
        using find_Some_in_set [OF that] find_Some_in_set [OF replaced(1)] assms(3)
        by (auto simp: is_cursor_def stream_code.as_str_inject)
      then have "cur_id m \<noteq> cur_id model"
        using find_Some_in_set [OF that] find_Some_in_set [OF replaced(1)] assms(1)
        by (auto simp: cursor_inv_def distinct_map dest: inj_onD)
      then show ?thesis by (simp add: replace_cursor_def)
    qed
    then show ?thesis
      by (cases "List.find (is_cursor inst stream) (cs_cursors s)") (simp_all add: replaced(2) find_map_same)
  next
    case inserted
    have "\<not> is_cursor inst stream (cursor_row_of cursor)"
      using assms(3) by (auto simp: is_cursor_def cursor_row_of_def stream_code.as_str_inject)
    then show ?thesis by (simp add: inserted(3) find_append split: option.split)
  qed
  with set_sync_cursor_Inr [OF assms(2)] show ?thesis by (simp add: get_sync_cursor_def)
qed

section \<open>Properties\<close>

text \<open>
  C37: The same offer never has two effects. Over any history of deliveries, redeliveries, state
  reports and database failures, an operation identity is stored as a new envelope at most once
  (never when it was known before), accepted or rejected at most once, and completed at most once.
\<close>

theorem offer_takes_effect_once:
  assumes "inbox_inv s"
  shows "length (filter (stores operation) (trace inbox_step ops s)) \<le> (if inbox_row operation s = None then 1 else 0)
    \<and> length (filter (decides operation) (trace inbox_step ops s)) \<le> 1
    \<and> length (filter (completes operation) (trace inbox_step ops s)) \<le> 1"
proof -
  have count: "length (filter (stores operation) (trace inbox_step ops s)) \<le> (if inbox_level operation s \<le> 0 then 1 else 0)"
    "length (filter (decides operation) (trace inbox_step ops s)) \<le> (if inbox_level operation s \<le> 1 then 1 else 0)"
    "length (filter (completes operation) (trace inbox_step ops s)) \<le> (if inbox_level operation s \<le> 2 then 1 else 0)"
    by (rule inbox_lifted_at_most_once [OF _ assms], erule (1) stores_lifts decides_lifts completes_lifts)+
  show ?thesis using count inbox_level_known [OF assms, of operation] by (auto split: if_splits)
qed

definition demo_offer :: inbox_entry where
  "demo_offer = inbox_entry_new 40 9 1 [1] 1000 100"

lemma demo_inbox_inv: "inbox_inv demo_center"
  by (simp add: inbox_inv_def demo_center_def)

theorem offer_takes_effect_once_witness:
  "inbox_inv demo_center
     \<and> length (filter (stores 9) (trace inbox_step [Receive demo_offer, Receive demo_offer] demo_center)) \<le> 1"
  using demo_inbox_inv offer_takes_effect_once [OF demo_inbox_inv, of 9 "[Receive demo_offer, Receive demo_offer]"]
  by (simp add: demo_center_def inbox_row_def split: if_splits)

text \<open>
  C38: A received offer is kept as it came. After it was stored, and after any later history, the
  lookup by operation returns the offer with every field and the decrypted payload as received and
  a state that the domain state machine reaches from the one it was stored with; and a redelivery is
  answered from that state without touching the store.
\<close>

theorem received_offer_is_kept:
  assumes "inbox_inv s" and "inbox_codec_ok s" and "valid_str (ib_payload_json entry)"
    and "create_inbox_entry entry s = (Inr InboxCreated, s1)"
    and "s2 = run inbox_step ops s1" and "\<And>c. \<not> cs_fault s2 c"
  shows "\<exists>st. inbox_moves\<^sup>*\<^sup>* (ib_state entry) st
    \<and> find_inbox_entry_by_operation (ib_operation_id entry) s2 = Inr (Some (entry\<lparr>ib_state := st\<rparr>))
    \<and> (ib_operation_id again = ib_operation_id entry \<longrightarrow>
        create_inbox_entry again s2 = (Inr (if inbox_is_terminal st then DuplicateResolved st else DuplicateInProgress), s2))"
proof -
  let ?op = "ib_operation_id entry"
  obtain payload where prot: "protect_inbox_payload s ?op (ib_payload_json entry) = Inr payload"
    and row: "inbox_row ?op s1 = Some (inbox_row_of s entry payload)"
    using inbox_row_after_create [OF assms(4)] by blast
  have step: "snd (inbox_step (Receive entry) s) = s1" using assms(4) by simp
  have inv1: "inbox_inv s1" using inbox_inv_step [OF assms(1), of "Receive entry"] unfolding step .
  have codec: "same_codec s s1" using same_codec_step [OF assms(1), of "Receive entry"] unfolding step .
  have codec2: "same_codec s s2" "same_codec s1 s2"
    using codec same_codec_run [OF inv1, of ops] by (simp_all add: same_codec_def assms(5))
  have "inr_state (inbox_row_of s entry payload) = inbox_entry_state_as_str (ib_state entry)" by (simp add: inbox_row_of_def)
  from inbox_row_run [OF inv1 row this, of ops] obtain st where moves: "inbox_moves\<^sup>*\<^sup>* (ib_state entry) st"
    and row2: "inbox_row ?op s2 = Some ((inbox_row_of s entry payload)\<lparr>inr_state := inbox_entry_state_as_str st\<rparr>)"
      (is "_ = Some ?row")
    unfolding assms(5) by blast
  have id: "inr_id ?row = ib_id entry" by (simp add: inbox_row_of_def)
  have stored: "map_stored_inbox_entry s2 (inr_id ?row) ?row = Inr (entry\<lparr>ib_state := st\<rparr>)"
    unfolding id map_stored_same_codec [OF codec2(1)] by (rule map_stored_inserted [OF assms(2,3) prot])
  have "find_inbox_entry_by_operation ?op s2 = Inr (Some (entry\<lparr>ib_state := st\<rparr>))"
    using row2 stored assms(6) unfolding find_inbox_entry_by_operation_def inbox_row_def by (simp add: call_def)
  moreover obtain key where "cs_command_key s2 = Some key"
    using prot codec2(1) by (auto simp: protect_inbox_payload_def inbox_command_key_def same_codec_def result_simps)
  then have "create_inbox_entry again s2 = (Inr (if inbox_is_terminal st then DuplicateResolved st else DuplicateInProgress), s2)"
    if "ib_operation_id again = ?op"
    using create_duplicate [of again s2, OF _ _ assms(6) stored] row2 that by simp
  ultimately show ?thesis using moves by blast
qed

lemma demo_inbox_codec: "inbox_codec_ok demo_center"
  using demo_lib_ok by (simp add: inbox_codec_ok_def demo_center_def COMMAND_NONCE_LENGTH_def)

lemma demo_receive: "\<exists>s1. create_inbox_entry demo_offer demo_center = (Inr InboxCreated, s1) \<and> cs_fault s1 = (\<lambda>_. False)"
proof -
  obtain payload where "protect_inbox_payload demo_center 9 [1] = Inr payload"
    using demo_protect [of 9 "[1]"]
    by (auto simp: protect_outbox_payload_def protect_inbox_payload_def outbox_command_key_def inbox_command_key_def result_simps)
  moreover have "insert_inbox_entry demo_center demo_offer payload (cs_inbox demo_center)
      = Inr (cs_inbox demo_center @ [inbox_row_of demo_center demo_offer payload])"
    unfolding insert_inbox_entry_Inr by (simp add: demo_center_def demo_offer_def inbox_entry_new_def)
  moreover have "cs_command_key demo_center = Some (replicate 32 7)" "cs_fault demo_center = (\<lambda>_. False)"
    "cs_inbox demo_center = []" by (simp_all add: demo_center_def)
  ultimately show ?thesis
    by (simp add: create_inbox_entry_def inbox_command_key_def with_inbox_def transact_def call_def)
      (simp add: demo_offer_def inbox_entry_new_def)
qed

theorem received_offer_is_kept_witness:
  "\<exists>s1 st. create_inbox_entry demo_offer demo_center = (Inr InboxCreated, s1)
     \<and> find_inbox_entry_by_operation 9 s1 = Inr (Some (demo_offer\<lparr>ib_state := st\<rparr>))"
proof -
  obtain s1 where s1: "create_inbox_entry demo_offer demo_center = (Inr InboxCreated, s1)" "cs_fault s1 = (\<lambda>_. False)"
    using demo_receive by blast
  have "valid_str (ib_payload_json demo_offer)"
    by (simp add: demo_offer_def inbox_entry_new_def valid_str_def scalar_value_def)
  from received_offer_is_kept [OF demo_inbox_inv demo_inbox_codec this s1(1), of s1 "[]" demo_offer] s1
  show ?thesis by (auto simp: demo_offer_def inbox_entry_new_def)
qed

end
