(* ===== verification/Firmware_Artifact.thy ===== *)
theory Firmware_Artifact
  imports Managed_Endpoint Stable_Code
begin

text \<open>
  The manifest of an uploaded firmware file, \<open>domain/src/artifact.rs\<close>: the normalized SHA-256 text,
  the name, the upload state and the artifact with its three mutating methods. Sizes and progress are
  unsigned 64-bit, and the sum of received bytes is checked.
\<close>

section \<open>Digests\<close>

definition SHA256_DIGEST_LENGTH :: nat where
  "SHA256_DIGEST_LENGTH = 32"

definition SHA256_HEX_LENGTH :: nat where
  "SHA256_HEX_LENGTH = SHA256_DIGEST_LENGTH * 2"

definition HEX_DIGITS :: "byte list" where
  "HEX_DIGITS = [48, 49, 50, 51, 52, 53, 54, 55, 56, 57, 97, 98, 99, 100, 101, 102]"

text \<open>A \<open>Sha256Hex\<close> is its text, which is ASCII: the bytes are the characters.\<close>

type_synonym sha256_hex = "byte list"

datatype sha256_hex_parse_error = Sha256_InvalidLength nat nat | Sha256_InvalidEncoding

definition decode_hex_digit :: "byte \<Rightarrow> byte option" where
  "decode_hex_digit value =
     (if 48 \<le> value \<and> value \<le> 57 then Some (value - 48)
      else if 97 \<le> value \<and> value \<le> 102 then Some (value - 97 + 10)
      else if 65 \<le> value \<and> value \<le> 70 then Some (value - 65 + 10)
      else None)"

definition hex_digit_value :: "byte \<Rightarrow> byte" where
  "hex_digit_value value = (if 48 \<le> value \<and> value \<le> 57 then value - 48 else value - 97 + 10)"

definition sha256_parse :: "ustring \<Rightarrow> sha256_hex_parse_error + sha256_hex" where
  "sha256_parse value =
     (let bytes = utf8_encode value in
      if length bytes \<noteq> SHA256_HEX_LENGTH
      then Inl (Sha256_InvalidLength (length bytes) SHA256_HEX_LENGTH)
      else traverse (\<lambda>b. rbind (ok_or Sha256_InvalidEncoding (decode_hex_digit b)) (\<lambda>digit.
             Inr (HEX_DIGITS ! unat digit))) bytes)"

definition sha256_from_bytes :: "byte list \<Rightarrow> sha256_hex" where
  "sha256_from_bytes digest =
     concat (map (\<lambda>b. [HEX_DIGITS ! unat (drop_bit 4 b), HEX_DIGITS ! unat (b AND 15)]) digest)"

definition sha256_into_bytes :: "sha256_hex \<Rightarrow> byte list" where
  "sha256_into_bytes bytes =
     map (\<lambda>index. push_bit 4 (hex_digit_value (bytes ! (index * 2))) OR hex_digit_value (bytes ! (index * 2 + 1)))
       [0..<SHA256_DIGEST_LENGTH]"

section \<open>Names\<close>

definition MAX_ARTIFACT_NAME_CHARS :: nat where
  "MAX_ARTIFACT_NAME_CHARS = 128"

datatype artifact_name_error = ArtifactName_Empty | ArtifactName_ControlCharacter | ArtifactName_TooLong nat nat

definition artifact_name_parse :: "ustring \<Rightarrow> artifact_name_error + ustring" where
  "artifact_name_parse value =
     (let normalized = trim value in
      if normalized = [] then Inl ArtifactName_Empty
      else if list_ex is_control normalized then Inl ArtifactName_ControlCharacter
      else if length normalized > MAX_ARTIFACT_NAME_CHARS
      then Inl (ArtifactName_TooLong (length normalized) MAX_ARTIFACT_NAME_CHARS)
      else Inr normalized)"

section \<open>States\<close>

datatype artifact_state = Uploading | Artifact_Ready | Artifact_Failed

datatype artifact_state_parse_error = ArtifactStateParseError

fun artifact_state_as_str :: "artifact_state \<Rightarrow> string" where
  "artifact_state_as_str Uploading = ''uploading''"
| "artifact_state_as_str Artifact_Ready = ''ready''"
| "artifact_state_as_str Artifact_Failed = ''failed''"

definition artifact_state_codes :: "(string \<times> artifact_state) list" where
  "artifact_state_codes = [(''uploading'', Uploading), (''ready'', Artifact_Ready), (''failed'', Artifact_Failed)]"

definition artifact_state_from_str :: "string \<Rightarrow> artifact_state_parse_error + artifact_state" where
  "artifact_state_from_str s = ok_or ArtifactStateParseError (map_of artifact_state_codes s)"

definition artifact_state_is_terminal :: "artifact_state \<Rightarrow> bool" where
  "artifact_state_is_terminal st \<longleftrightarrow> st \<in> {Artifact_Ready, Artifact_Failed}"

section \<open>The artifact\<close>

type_synonym artifact_id = uuid

record artifact =
  art_id :: artifact_id
  art_name :: ustring
  art_size_bytes :: "64 word"
  art_sha256 :: sha256_hex
  art_state :: artifact_state
  art_uploaded_bytes :: "64 word"
  art_created_at :: instant
  art_updated_at :: instant

datatype artifact_error =
    ArtifactTerminal artifact_state
  | ProgressExceedsSize "64 word" "64 word" "64 word"
  | IncompleteUpload "64 word" "64 word"

datatype artifact_restore_error =
    InvalidTimeline
  | StoredProgressExceedsSize "64 word" "64 word"
  | ReadyBeforeCompleteUpload "64 word" "64 word"

definition artifact_new :: "artifact_id \<Rightarrow> ustring \<Rightarrow> 64 word \<Rightarrow> sha256_hex \<Rightarrow> instant \<Rightarrow> artifact" where
  "artifact_new i name bytes sha created =
     \<lparr>art_id = i, art_name = name, art_size_bytes = bytes, art_sha256 = sha, art_state = Uploading,
      art_uploaded_bytes = 0, art_created_at = created, art_updated_at = created\<rparr>"

definition artifact_try_from_parts ::
  "artifact_id \<Rightarrow> ustring \<Rightarrow> 64 word \<Rightarrow> sha256_hex \<Rightarrow> artifact_state \<Rightarrow> 64 word \<Rightarrow> instant \<Rightarrow> instant
     \<Rightarrow> artifact_restore_error + artifact" where
  "artifact_try_from_parts i name bytes sha st uploaded created updated =
     (if updated < created then Inl InvalidTimeline
      else if uploaded > bytes then Inl (StoredProgressExceedsSize uploaded bytes)
      else if st = Artifact_Ready \<and> uploaded \<noteq> bytes then Inl (ReadyBeforeCompleteUpload uploaded bytes)
      else Inr \<lparr>art_id = i, art_name = name, art_size_bytes = bytes, art_sha256 = sha, art_state = st,
                art_uploaded_bytes = uploaded, art_created_at = created, art_updated_at = updated\<rparr>)"

definition require_uploading :: "artifact \<Rightarrow> artifact_error + unit" where
  "require_uploading a =
     (if artifact_state_is_terminal (art_state a) then Inl (ArtifactTerminal (art_state a)) else Inr ())"

definition checked_add :: "64 word \<Rightarrow> 64 word \<Rightarrow> 64 word option" where
  "checked_add a b = (if unat a + unat b < 2 ^ 64 then Some (a + b) else None)"

definition record_bytes_received :: "64 word \<Rightarrow> artifact \<Rightarrow> artifact_error + artifact" where
  "record_bytes_received received a =
     rbind (require_uploading a) (\<lambda>_.
     case checked_add (art_uploaded_bytes a) received of
       None \<Rightarrow> Inl (ProgressExceedsSize (art_uploaded_bytes a) received (art_size_bytes a))
     | Some next \<Rightarrow>
         if next > art_size_bytes a
         then Inl (ProgressExceedsSize (art_uploaded_bytes a) received (art_size_bytes a))
         else Inr (a\<lparr>art_uploaded_bytes := next\<rparr>))"

definition mark_ready :: "artifact \<Rightarrow> artifact_error + artifact" where
  "mark_ready a =
     rbind (require_uploading a) (\<lambda>_.
     if art_uploaded_bytes a \<noteq> art_size_bytes a
     then Inl (IncompleteUpload (art_uploaded_bytes a) (art_size_bytes a))
     else Inr (a\<lparr>art_state := Artifact_Ready\<rparr>))"

definition mark_failed :: "artifact \<Rightarrow> artifact_error + artifact" where
  "mark_failed a = rbind (require_uploading a) (\<lambda>_. Inr (a\<lparr>art_state := Artifact_Failed\<rparr>))"

section \<open>Lemmas\<close>

interpretation artifact_state_code: stable_code artifact_state_as_str artifact_state_from_str
  unfolding artifact_state_from_str_def
proof (rule code_of_table)
  show "artifact_state_codes = map (\<lambda>x. (artifact_state_as_str x, x)) (map snd artifact_state_codes)"
    by (simp add: artifact_state_codes_def)
  show "x \<in> set (map snd artifact_state_codes)" for x
    by (cases x) (simp_all add: artifact_state_codes_def)
  show "distinct (map artifact_state_as_str (map snd artifact_state_codes))"
    by (simp add: artifact_state_codes_def)
qed

text \<open>What every artifact built by the constructors and changed by the methods satisfies.\<close>

definition artifact_ok :: "artifact \<Rightarrow> bool" where
  "artifact_ok a \<longleftrightarrow>
     art_created_at a \<le> art_updated_at a \<and> art_uploaded_bytes a \<le> art_size_bytes a
   \<and> (art_state a = Artifact_Ready \<longrightarrow> art_uploaded_bytes a = art_size_bytes a)"

lemma artifact_new_ok: "artifact_ok (artifact_new i name bytes sha created)"
  by (simp add: artifact_ok_def artifact_new_def)

lemma artifact_try_from_parts_Inr:
  "artifact_try_from_parts i name bytes sha st uploaded created updated = Inr a \<longleftrightarrow>
     artifact_ok a \<and> a = \<lparr>art_id = i, art_name = name, art_size_bytes = bytes, art_sha256 = sha, art_state = st,
                art_uploaded_bytes = uploaded, art_created_at = created, art_updated_at = updated\<rparr>"
  by (auto simp: artifact_try_from_parts_def artifact_ok_def not_less)

lemma require_uploading_Inr [simp]: "require_uploading a = Inr u \<longleftrightarrow> art_state a = Uploading"
  by (cases "art_state a") (simp_all add: require_uploading_def artifact_state_is_terminal_def)

lemma record_bytes_received_ok:
  assumes "artifact_ok a" "record_bytes_received received a = Inr b"
  shows "artifact_ok b" "art_state a = Uploading"
    and "unat (art_uploaded_bytes b) = unat (art_uploaded_bytes a) + unat received"
proof -
  from assms(2) have up: "art_state a = Uploading" and fits: "unat (art_uploaded_bytes a) + unat received < 2 ^ 64"
    and b: "b = a\<lparr>art_uploaded_bytes := art_uploaded_bytes a + received\<rparr>"
    and le: "art_uploaded_bytes a + received \<le> art_size_bytes a"
    by (auto simp: record_bytes_received_def checked_add_def result_simps not_less split: if_splits option.splits)
  show "artifact_ok b" using assms(1) up le by (simp add: b artifact_ok_def)
  show "art_state a = Uploading" by (rule up)
  have "unat (art_uploaded_bytes a + received) = unat (art_uploaded_bytes a) + unat received"
    using fits by (subst unat_add_lem [symmetric]) simp
  then show "unat (art_uploaded_bytes b) = unat (art_uploaded_bytes a) + unat received" by (simp add: b)
qed

lemma mark_ready_ok: "artifact_ok a \<Longrightarrow> mark_ready a = Inr b \<Longrightarrow> artifact_ok b \<and> art_uploaded_bytes b = art_size_bytes b"
  by (auto simp: mark_ready_def artifact_ok_def result_simps split: if_splits)

lemma mark_failed_ok: "artifact_ok a \<Longrightarrow> mark_failed a = Inr b \<Longrightarrow> artifact_ok b"
  by (auto simp: mark_failed_def artifact_ok_def result_simps)

lemma terminal_artifact_is_final:
  assumes "artifact_state_is_terminal (art_state a)"
  shows "\<exists>e. record_bytes_received n a = Inl e" "\<exists>e. mark_ready a = Inl e" "\<exists>e. mark_failed a = Inl e"
  using assms by (simp_all add: record_bytes_received_def mark_ready_def mark_failed_def require_uploading_def)

text \<open>A digest survives its text form.\<close>

lemma hex_digit_value_nth: "n < 16 \<Longrightarrow> hex_digit_value (HEX_DIGITS ! n) = word_of_nat n"
proof -
  have "\<forall>n \<in> set [0..<16]. hex_digit_value (HEX_DIGITS ! n) = word_of_nat n"
    by (simp add: hex_digit_value_def HEX_DIGITS_def upt_rec)
  moreover assume "n < 16"
  ultimately show ?thesis by simp
qed

lemma nibbles:
  fixes b :: byte
  shows "unat (drop_bit 4 b) < 16" "unat (b AND 15) < 16" "push_bit 4 (drop_bit 4 b) OR (b AND 15) = b"
proof -
  have "unat (drop_bit 4 b) = drop_bit 4 (unat b)" by (rule unat_drop_bit_eq)
  also have "\<dots> = unat b div 16" by (simp add: drop_bit_eq_div)
  finally have "unat (drop_bit 4 b) = unat b div 16" .
  then show "unat (drop_bit 4 b) < 16" using unat_byte [of b] by (simp add: less_mult_imp_div_less)
  have mask: "b AND 15 = take_bit 4 b" by (simp add: take_bit_eq_mask mask_eq_exp_minus_1)
  have "unat (take_bit 4 b) = take_bit 4 (unat b)" by (rule unsigned_take_bit_eq)
  also have "\<dots> < 16" by (simp add: take_bit_eq_mod)
  finally show "unat (b AND 15) < 16" unfolding mask .
  show "push_bit 4 (drop_bit 4 b) OR (b AND 15) = b"
    unfolding mask by (rule bit_eqI) (auto simp: bit_simps)
qed

lemma length_sha256_from_bytes [simp]: "length (sha256_from_bytes d) = 2 * length d"
  by (induction d) (simp_all add: sha256_from_bytes_def)

lemma nth_sha256_from_bytes:
  "i < length d \<Longrightarrow> sha256_from_bytes d ! (i * 2) = HEX_DIGITS ! unat (drop_bit 4 (d ! i))
     \<and> sha256_from_bytes d ! (i * 2 + 1) = HEX_DIGITS ! unat (d ! i AND 15)"
proof (induction d arbitrary: i)
  case (Cons b d)
  have cons: "sha256_from_bytes (b # d) = [HEX_DIGITS ! unat (drop_bit 4 b), HEX_DIGITS ! unat (b AND 15)] @ sha256_from_bytes d"
    by (simp add: sha256_from_bytes_def)
  show ?case
  proof (cases i)
    case (Suc j)
    with Cons.prems Cons.IH [of j] show ?thesis unfolding cons Suc by simp
  qed (simp add: cons)
qed simp

lemma sha256_bytes_roundtrip:
  assumes "length d = SHA256_DIGEST_LENGTH"
  shows "sha256_into_bytes (sha256_from_bytes d) = d"
proof (rule nth_equalityI)
  show "length (sha256_into_bytes (sha256_from_bytes d)) = length d" by (simp add: sha256_into_bytes_def assms)
  fix i
  assume "i < length (sha256_into_bytes (sha256_from_bytes d))"
  then have i: "i < length d" by (simp add: sha256_into_bytes_def assms)
  with nth_sha256_from_bytes [OF i] nibbles [of "d ! i"]
  show "sha256_into_bytes (sha256_from_bytes d) ! i = d ! i"
    by (simp add: sha256_into_bytes_def assms hex_digit_value_nth)
qed

end
