(* ===== verification/Redfish_Command.thy ===== *)
theory Redfish_Command
  imports Rust_Text Firmware_Artifact
begin

text \<open>
  The typed writes of the product, \<open>domain/src/redfish_command.rs\<close>: the enumerations with their CSDL
  member names, the validated identifiers and texts, the payloads and the twelve command families. A
  set point is the 64 bits of its \<open>f64\<close>: the code compares set points with \<open>total_cmp\<close>, whose equality
  is equality of the bits. The \<open>serde\<close> form of a command is a parameter of the repository.
\<close>

section \<open>Enumerations\<close>

datatype reset_type =
    Reset_On | Reset_ForceOff | Reset_GracefulShutdown | Reset_GracefulRestart | Reset_ForceRestart
  | Reset_Nmi | Reset_ForceOn | Reset_PushPowerButton | Reset_PowerCycle | Reset_Suspend
  | Reset_Pause | Reset_Resume | Reset_FullPowerCycle

fun reset_type_as_str :: "reset_type \<Rightarrow> string" where
  "reset_type_as_str Reset_On = ''On''"
| "reset_type_as_str Reset_ForceOff = ''ForceOff''"
| "reset_type_as_str Reset_GracefulShutdown = ''GracefulShutdown''"
| "reset_type_as_str Reset_GracefulRestart = ''GracefulRestart''"
| "reset_type_as_str Reset_ForceRestart = ''ForceRestart''"
| "reset_type_as_str Reset_Nmi = ''Nmi''"
| "reset_type_as_str Reset_ForceOn = ''ForceOn''"
| "reset_type_as_str Reset_PushPowerButton = ''PushPowerButton''"
| "reset_type_as_str Reset_PowerCycle = ''PowerCycle''"
| "reset_type_as_str Reset_Suspend = ''Suspend''"
| "reset_type_as_str Reset_Pause = ''Pause''"
| "reset_type_as_str Reset_Resume = ''Resume''"
| "reset_type_as_str Reset_FullPowerCycle = ''FullPowerCycle''"

datatype boot_source =
    Boot_None | Boot_Pxe | Boot_Floppy | Boot_Cd | Boot_Usb | Boot_Hdd | Boot_BiosSetup
  | Boot_Utilities | Boot_Diags | Boot_UefiShell | Boot_UefiTarget | Boot_SdCard | Boot_UefiHttp
  | Boot_RemoteDrive | Boot_UefiBootNext | Boot_Recovery

fun boot_source_as_str :: "boot_source \<Rightarrow> string" where
  "boot_source_as_str Boot_None = ''None''"
| "boot_source_as_str Boot_Pxe = ''Pxe''"
| "boot_source_as_str Boot_Floppy = ''Floppy''"
| "boot_source_as_str Boot_Cd = ''Cd''"
| "boot_source_as_str Boot_Usb = ''Usb''"
| "boot_source_as_str Boot_Hdd = ''Hdd''"
| "boot_source_as_str Boot_BiosSetup = ''BiosSetup''"
| "boot_source_as_str Boot_Utilities = ''Utilities''"
| "boot_source_as_str Boot_Diags = ''Diags''"
| "boot_source_as_str Boot_UefiShell = ''UefiShell''"
| "boot_source_as_str Boot_UefiTarget = ''UefiTarget''"
| "boot_source_as_str Boot_SdCard = ''SDCard''"
| "boot_source_as_str Boot_UefiHttp = ''UefiHttp''"
| "boot_source_as_str Boot_RemoteDrive = ''RemoteDrive''"
| "boot_source_as_str Boot_UefiBootNext = ''UefiBootNext''"
| "boot_source_as_str Boot_Recovery = ''Recovery''"

datatype boot_source_override_enabled =
    Override_Disabled | Override_Once | Override_Continuous

fun boot_source_override_enabled_as_str :: "boot_source_override_enabled \<Rightarrow> string" where
  "boot_source_override_enabled_as_str Override_Disabled = ''Disabled''"
| "boot_source_override_enabled_as_str Override_Once = ''Once''"
| "boot_source_override_enabled_as_str Override_Continuous = ''Continuous''"

datatype boot_source_override_mode =
    Mode_Legacy | Mode_Uefi

fun boot_source_override_mode_as_str :: "boot_source_override_mode \<Rightarrow> string" where
  "boot_source_override_mode_as_str Mode_Legacy = ''Legacy''"
| "boot_source_override_mode_as_str Mode_Uefi = ''UEFI''"

datatype reset_keys_type =
    Keys_ResetAllKeysToDefault | Keys_DeleteAllKeys | Keys_DeletePk

fun reset_keys_type_as_str :: "reset_keys_type \<Rightarrow> string" where
  "reset_keys_type_as_str Keys_ResetAllKeysToDefault = ''ResetAllKeysToDefault''"
| "reset_keys_type_as_str Keys_DeleteAllKeys = ''DeleteAllKeys''"
| "reset_keys_type_as_str Keys_DeletePk = ''DeletePK''"

datatype event_destination_protocol =
    Protocol_Redfish | Protocol_Kafka | Protocol_Snmpv1 | Protocol_Snmpv2c | Protocol_Snmpv3
  | Protocol_Smtp | Protocol_SyslogTls | Protocol_SyslogTcp | Protocol_SyslogUdp
  | Protocol_SyslogRelp | Protocol_Oem

fun event_destination_protocol_as_str :: "event_destination_protocol \<Rightarrow> string" where
  "event_destination_protocol_as_str Protocol_Redfish = ''Redfish''"
| "event_destination_protocol_as_str Protocol_Kafka = ''Kafka''"
| "event_destination_protocol_as_str Protocol_Snmpv1 = ''SNMPv1''"
| "event_destination_protocol_as_str Protocol_Snmpv2c = ''SNMPv2c''"
| "event_destination_protocol_as_str Protocol_Snmpv3 = ''SNMPv3''"
| "event_destination_protocol_as_str Protocol_Smtp = ''SMTP''"
| "event_destination_protocol_as_str Protocol_SyslogTls = ''SyslogTLS''"
| "event_destination_protocol_as_str Protocol_SyslogTcp = ''SyslogTCP''"
| "event_destination_protocol_as_str Protocol_SyslogUdp = ''SyslogUDP''"
| "event_destination_protocol_as_str Protocol_SyslogRelp = ''SyslogRELP''"
| "event_destination_protocol_as_str Protocol_Oem = ''OEM''"

datatype event_type =
    Event_StatusChange | Event_ResourceUpdated | Event_ResourceAdded | Event_ResourceRemoved
  | Event_Alert | Event_MetricReport | Event_Other

fun event_type_as_str :: "event_type \<Rightarrow> string" where
  "event_type_as_str Event_StatusChange = ''StatusChange''"
| "event_type_as_str Event_ResourceUpdated = ''ResourceUpdated''"
| "event_type_as_str Event_ResourceAdded = ''ResourceAdded''"
| "event_type_as_str Event_ResourceRemoved = ''ResourceRemoved''"
| "event_type_as_str Event_Alert = ''Alert''"
| "event_type_as_str Event_MetricReport = ''MetricReport''"
| "event_type_as_str Event_Other = ''Other''"

datatype manager_reset_to_defaults_type =
    Defaults_ResetAll | Defaults_PreserveNetworkAndUsers | Defaults_PreserveNetwork

fun manager_reset_to_defaults_type_as_str :: "manager_reset_to_defaults_type \<Rightarrow> string" where
  "manager_reset_to_defaults_type_as_str Defaults_ResetAll = ''ResetAll''"
| "manager_reset_to_defaults_type_as_str Defaults_PreserveNetworkAndUsers = ''PreserveNetworkAndUsers''"
| "manager_reset_to_defaults_type_as_str Defaults_PreserveNetwork = ''PreserveNetwork''"

datatype metric_type =
    Metric_Numeric | Metric_Discrete | Metric_Gauge | Metric_Counter | Metric_Countdown
  | Metric_String

fun metric_type_as_str :: "metric_type \<Rightarrow> string" where
  "metric_type_as_str Metric_Numeric = ''Numeric''"
| "metric_type_as_str Metric_Discrete = ''Discrete''"
| "metric_type_as_str Metric_Gauge = ''Gauge''"
| "metric_type_as_str Metric_Counter = ''Counter''"
| "metric_type_as_str Metric_Countdown = ''Countdown''"
| "metric_type_as_str Metric_String = ''String''"

datatype metric_report_definition_type =
    Report_Periodic | Report_OnChange | Report_OnRequest

fun metric_report_definition_type_as_str :: "metric_report_definition_type \<Rightarrow> string" where
  "metric_report_definition_type_as_str Report_Periodic = ''Periodic''"
| "metric_report_definition_type_as_str Report_OnChange = ''OnChange''"
| "metric_report_definition_type_as_str Report_OnRequest = ''OnRequest''"

datatype token_type =
    Token_Frc | Token_Crcs | Token_Crdt | Token_DebugFirmwareRunning | Token_DebugFirmwareUnlock
  | Token_OtpDumpEnable | Token_JtagUnlock | Token_HardwareUnlock | Token_RuntimeDebugUnlock
  | Token_FeatureUnlock | Token_Mtdt | Token_CcplexArmJtagDebugCont | Token_NvJtagControl
  | Token_DiagnosticBoot | Token_BpmpFirmwareDebugFs | Token_FirmwareDebugKnobs
  | Token_FirewallLifting | Token_Verbosity | Token_SmaDebugCapability | Token_CpldDebugCapability

fun token_type_as_str :: "token_type \<Rightarrow> string" where
  "token_type_as_str Token_Frc = ''FRC''"
| "token_type_as_str Token_Crcs = ''CRCS''"
| "token_type_as_str Token_Crdt = ''CRDT''"
| "token_type_as_str Token_DebugFirmwareRunning = ''DebugFirmwareRunning''"
| "token_type_as_str Token_DebugFirmwareUnlock = ''DebugFirmwareUnlock''"
| "token_type_as_str Token_OtpDumpEnable = ''OTPDumpEnable''"
| "token_type_as_str Token_JtagUnlock = ''JtagUnlock''"
| "token_type_as_str Token_HardwareUnlock = ''HardwareUnlock''"
| "token_type_as_str Token_RuntimeDebugUnlock = ''RuntimeDebugUnlock''"
| "token_type_as_str Token_FeatureUnlock = ''FeatureUnlock''"
| "token_type_as_str Token_Mtdt = ''MTDT''"
| "token_type_as_str Token_CcplexArmJtagDebugCont = ''CcplexArmJtagDebugCont''"
| "token_type_as_str Token_NvJtagControl = ''NVJtagControl''"
| "token_type_as_str Token_DiagnosticBoot = ''DiagnosticBoot''"
| "token_type_as_str Token_BpmpFirmwareDebugFs = ''BpmpFirmwareDebugFS''"
| "token_type_as_str Token_FirmwareDebugKnobs = ''FirmwareDebugKnobs''"
| "token_type_as_str Token_FirewallLifting = ''FirewallLifting''"
| "token_type_as_str Token_Verbosity = ''Verbosity''"
| "token_type_as_str Token_SmaDebugCapability = ''SMADebugCapability''"
| "token_type_as_str Token_CpldDebugCapability = ''CpldDebugCapability''"

datatype erase_type =
    Erase_EraseAll | Erase_EraseAllAndRatchetCounterIncreased | Erase_TokenType

fun erase_type_as_str :: "erase_type \<Rightarrow> string" where
  "erase_type_as_str Erase_EraseAll = ''EraseAll''"
| "erase_type_as_str Erase_EraseAllAndRatchetCounterIncreased = ''EraseAllAndRatchetCounterIncreased''"
| "erase_type_as_str Erase_TokenType = ''TokenType''"

section \<open>Validated identifiers and texts\<close>

text \<open>
  Six newtypes accept a safe URI segment and three a text without control characters; each has an
  error enum of the same shape and a bound of its own.
\<close>

datatype segment_error = Segment_Empty | Segment_UnsafeCharacter | Segment_TooLong nat nat

datatype text_error = Text_Empty | Text_ControlCharacter | Text_TooLong nat nat

definition is_ascii_alphanumeric :: "byte \<Rightarrow> bool" where
  "is_ascii_alphanumeric b \<longleftrightarrow> 48 \<le> b \<and> b \<le> 57 \<or> 65 \<le> b \<and> b \<le> 90 \<or> 97 \<le> b \<and> b \<le> 122"

definition parse_segment :: "nat \<Rightarrow> ustring \<Rightarrow> segment_error + ustring" where
  "parse_segment maximum value =
     (if value = [] then Inl Segment_Empty
      else if \<not> list_all (\<lambda>b. is_ascii_alphanumeric b \<or> b = 45 \<or> b = 95) (utf8_encode value)
      then Inl Segment_UnsafeCharacter
      else if length value > maximum then Inl (Segment_TooLong (length value) maximum)
      else Inr value)"

definition parse_text :: "nat \<Rightarrow> ustring \<Rightarrow> text_error + ustring" where
  "parse_text maximum value =
     (if trim value = [] then Inl Text_Empty
      else if list_ex is_control value then Inl Text_ControlCharacter
      else if length value > maximum then Inl (Text_TooLong (length value) maximum)
      else Inr value)"

definition MAX_ACCOUNT_ID_CHARS :: nat where "MAX_ACCOUNT_ID_CHARS = 128"
definition MAX_ACCOUNT_USER_NAME_CHARS :: nat where "MAX_ACCOUNT_USER_NAME_CHARS = 256"
definition MAX_ACCOUNT_PASSWORD_CHARS :: nat where "MAX_ACCOUNT_PASSWORD_CHARS = 256"
definition MAX_ROLE_ID_CHARS :: nat where "MAX_ROLE_ID_CHARS = 128"
definition MAX_POWER_SUPPLY_ID_CHARS :: nat where "MAX_POWER_SUPPLY_ID_CHARS = 128"
definition MAX_LOG_SERVICE_ID_CHARS :: nat where "MAX_LOG_SERVICE_ID_CHARS = 128"
definition MAX_CONTROL_ID_CHARS :: nat where "MAX_CONTROL_ID_CHARS = 128"
definition MAX_METRIC_DEFINITION_ID_CHARS :: nat where "MAX_METRIC_DEFINITION_ID_CHARS = 128"
definition MAX_METRIC_REPORT_DEFINITION_ID_CHARS :: nat where "MAX_METRIC_REPORT_DEFINITION_ID_CHARS = 128"
definition MAX_METRIC_UNITS_CHARS :: nat where "MAX_METRIC_UNITS_CHARS = 128"

type_synonym account_id = ustring
type_synonym power_supply_id = ustring
type_synonym log_service_id = ustring
type_synonym control_id = ustring
type_synonym metric_definition_id = ustring
type_synonym metric_report_definition_id = ustring
type_synonym account_user_name = ustring
type_synonym role_id = ustring
type_synonym metric_units = ustring
type_synonym account_password = ustring

definition account_id_parse :: "ustring \<Rightarrow> segment_error + account_id" where
  "account_id_parse = parse_segment MAX_ACCOUNT_ID_CHARS"

definition power_supply_id_parse :: "ustring \<Rightarrow> segment_error + power_supply_id" where
  "power_supply_id_parse = parse_segment MAX_POWER_SUPPLY_ID_CHARS"

definition log_service_id_parse :: "ustring \<Rightarrow> segment_error + log_service_id" where
  "log_service_id_parse = parse_segment MAX_LOG_SERVICE_ID_CHARS"

definition control_id_parse :: "ustring \<Rightarrow> segment_error + control_id" where
  "control_id_parse = parse_segment MAX_CONTROL_ID_CHARS"

definition metric_definition_id_parse :: "ustring \<Rightarrow> segment_error + metric_definition_id" where
  "metric_definition_id_parse = parse_segment MAX_METRIC_DEFINITION_ID_CHARS"

definition metric_report_definition_id_parse :: "ustring \<Rightarrow> segment_error + metric_report_definition_id" where
  "metric_report_definition_id_parse = parse_segment MAX_METRIC_REPORT_DEFINITION_ID_CHARS"

definition account_user_name_parse :: "ustring \<Rightarrow> text_error + account_user_name" where
  "account_user_name_parse = parse_text MAX_ACCOUNT_USER_NAME_CHARS"

definition role_id_parse :: "ustring \<Rightarrow> text_error + role_id" where
  "role_id_parse = parse_text MAX_ROLE_ID_CHARS"

definition metric_units_parse :: "ustring \<Rightarrow> text_error + metric_units" where
  "metric_units_parse = parse_text MAX_METRIC_UNITS_CHARS"

datatype account_password_error = Password_Empty | Password_TooLong nat nat

definition account_password_parse :: "ustring \<Rightarrow> account_password_error + account_password" where
  "account_password_parse value =
     (if value = [] then Inl Password_Empty
      else if length value > MAX_ACCOUNT_PASSWORD_CHARS
      then Inl (Password_TooLong (length value) MAX_ACCOUNT_PASSWORD_CHARS)
      else Inr value)"

section \<open>Payloads\<close>

record set_boot_source_override =
  bso_source :: boot_source
  bso_enabled :: boot_source_override_enabled
  bso_mode :: boot_source_override_mode

record create_subscription =
  csub_destination :: ustring
  csub_protocol :: event_destination_protocol
  csub_event_types :: "event_type list"

datatype event_subscription_error = EmptyEventTypes

definition create_subscription_try_new ::
  "ustring \<Rightarrow> event_destination_protocol \<Rightarrow> event_type list \<Rightarrow> event_subscription_error + create_subscription" where
  "create_subscription_try_new destination protocol event_types =
     (if event_types = [] then Inl EmptyEventTypes
      else Inr \<lparr>csub_destination = destination, csub_protocol = protocol, csub_event_types = event_types\<rparr>)"

record delete_subscription =
  dsub_subscription_id :: ustring

record create_account =
  ca_user_name :: account_user_name
  ca_password :: account_password
  ca_role_id :: role_id

record update_account =
  ua_account_id :: account_id
  ua_role_id :: role_id

record update_account_password =
  uap_account_id :: account_id
  uap_password :: account_password

record update_account_user_name =
  uan_account_id :: account_id
  uan_user_name :: account_user_name

record delete_account =
  da_account_id :: account_id

record start_update =
  su_artifact_id :: artifact_id
  su_push_uri :: "ustring option"

record power_supply_reset =
  psr_power_supply_id :: "power_supply_id option"

record clear_log =
  cl_log_service_id :: "log_service_id option"
  cl_etag :: "ustring option"

record update_control =
  uc_control_id :: "control_id option"
  uc_set_point :: "64 word option"

record update_patch =
  up_service_enabled :: "bool option"
  up_targets :: "ustring list option"

record create_metric_definition =
  cmd_metric_type :: metric_type
  cmd_units :: metric_units

record update_metric_definition =
  umd_metric_definition_id :: metric_definition_id
  umd_metric_type :: metric_type
  umd_units :: metric_units

record delete_metric_definition =
  dmd_metric_definition_id :: metric_definition_id

record metric_report_metric =
  mrm_metric_id :: metric_definition_id

record create_metric_report_definition =
  cmr_metric_report_definition_type :: metric_report_definition_type
  cmr_metrics :: "metric_report_metric list"

datatype metric_report_definition_error = EmptyMetrics

definition create_metric_report_definition_try_new ::
  "metric_report_definition_type \<Rightarrow> metric_report_metric list
     \<Rightarrow> metric_report_definition_error + create_metric_report_definition" where
  "create_metric_report_definition_try_new report_type metrics =
     (if metrics = [] then Inl EmptyMetrics
      else Inr \<lparr>cmr_metric_report_definition_type = report_type, cmr_metrics = metrics\<rparr>)"

record update_metric_report_definition =
  umr_metric_report_definition_id :: metric_report_definition_id
  umr_metric_report_definition_type :: metric_report_definition_type
  umr_metrics :: "metric_report_metric list"

record delete_metric_report_definition =
  dmr_metric_report_definition_id :: metric_report_definition_id

record profile_file =
  pf_profile_file :: ustring

record token_data =
  td_token_data :: ustring

record erase_token =
  et_erase_type :: erase_type
  et_token_type :: token_type

record profile_id =
  pi_profile_id :: "64 word"

section \<open>The command families\<close>

datatype system_command = System_Reset reset_type

datatype manager_command = Manager_Reset reset_type | Manager_ResetToDefaults manager_reset_to_defaults_type

datatype chassis_command = Chassis_Reset reset_type | Chassis_PowerSupplyReset power_supply_reset

datatype log_command = ClearLog clear_log

datatype control_command = Control_Update update_control

datatype boot_command = SetBootSourceOverride set_boot_source_override

datatype secure_boot_command = SecureBoot_Enable | SecureBoot_Disable | SecureBoot_ResetKeys reset_keys_type

datatype event_command = CreateSubscription create_subscription | DeleteSubscription delete_subscription

datatype telemetry_command =
    SetEnabled bool
  | CreateMetricDefinition create_metric_definition
  | UpdateMetricDefinition update_metric_definition
  | DeleteMetricDefinition delete_metric_definition
  | CreateMetricReportDefinition create_metric_report_definition
  | UpdateMetricReportDefinition update_metric_report_definition
  | DeleteMetricReportDefinition delete_metric_report_definition

datatype account_command =
    CreateAccount create_account
  | UpdateAccount update_account
  | UpdateAccountPassword update_account_password
  | UpdateAccountUserName update_account_user_name
  | DeleteAccount delete_account

datatype update_command = StartUpdate start_update | Update_Patch update_patch

datatype nvidia_system_config_profile_command = Profile_Update profile_file | FactoryReset | ActivateProfile

datatype nvidia_debug_token_command =
  GenerateToken token_type | InstallToken token_data | DisableToken | EraseToken erase_token

datatype nvidia_power_smoothing_command = ActivatePresetProfile profile_id | ApplyAdminOverrides

datatype oem_command =
    Oem_SystemConfigProfile nvidia_system_config_profile_command
  | Oem_DebugToken nvidia_debug_token_command
  | Oem_PowerSmoothing nvidia_power_smoothing_command

datatype redfish_command =
    Cmd_Account account_command
  | Cmd_System system_command
  | Cmd_Manager manager_command
  | Cmd_Chassis chassis_command
  | Cmd_Boot boot_command
  | Cmd_SecureBoot secure_boot_command
  | Cmd_Event event_command
  | Cmd_Log log_command
  | Cmd_Control control_command
  | Cmd_Telemetry telemetry_command
  | Cmd_Update update_command
  | Cmd_Oem oem_command

fun redfish_command_as_str :: "redfish_command \<Rightarrow> string" where
  "redfish_command_as_str (Cmd_Account _) = ''account''"
| "redfish_command_as_str (Cmd_System _) = ''system''"
| "redfish_command_as_str (Cmd_Manager _) = ''manager''"
| "redfish_command_as_str (Cmd_Chassis _) = ''chassis''"
| "redfish_command_as_str (Cmd_Boot _) = ''boot''"
| "redfish_command_as_str (Cmd_SecureBoot _) = ''secure-boot''"
| "redfish_command_as_str (Cmd_Event _) = ''event''"
| "redfish_command_as_str (Cmd_Log _) = ''log''"
| "redfish_command_as_str (Cmd_Control _) = ''control''"
| "redfish_command_as_str (Cmd_Telemetry _) = ''telemetry''"
| "redfish_command_as_str (Cmd_Update _) = ''update''"
| "redfish_command_as_str (Cmd_Oem _) = ''oem''"

section \<open>Lemmas\<close>

text \<open>An accepted segment is ASCII, so its bound in characters is a bound in bytes.\<close>

lemma parse_segment_Inr:
  "parse_segment maximum value = Inr v \<longleftrightarrow>
     v = value \<and> value \<noteq> [] \<and> length value \<le> maximum
   \<and> list_all (\<lambda>b. is_ascii_alphanumeric b \<or> b = 45 \<or> b = 95) (utf8_encode value)"
  by (auto simp: parse_segment_def)

lemma parse_text_Inr:
  "parse_text maximum value = Inr v \<longleftrightarrow>
     v = value \<and> trim value \<noteq> [] \<and> length value \<le> maximum \<and> \<not> list_ex is_control value"
  by (auto simp: parse_text_def)

lemma safe_byte: "is_ascii_alphanumeric b \<or> b = 45 \<or> b = 95 \<Longrightarrow> b < (128 :: byte)"
  by (auto simp: is_ascii_alphanumeric_def word_le_nat_alt word_less_nat_alt)

lemma multibyte_has_continuation: "128 \<le> c \<Longrightarrow> byte_of (128 + c mod 64) \<in> set (utf8_char c)"
  by (auto simp: utf8_char_def)

lemma parse_segment_bytes:
  assumes "parse_segment maximum u = Inr v"
  shows "str_len v = length v" "str_len v \<le> maximum"
proof -
  have safe: "b < 128" if "b \<in> set (utf8_encode u)" for b
    using assms that unfolding parse_segment_Inr list_all_iff by (intro safe_byte) blast
  have ascii: "c < 128" if "c \<in> set u" for c
  proof (rule ccontr)
    assume "\<not> c < 128"
    then have "byte_of (128 + c mod 64) \<in> set (utf8_encode u)"
      using multibyte_has_continuation [of c] that by (auto simp: utf8_encode_def)
    from safe [OF this] show False by (simp add: word_less_nat_alt)
  qed
  then have "utf8_encode u = map byte_of u"
    by (induction u) (simp_all add: utf8_encode_Cons utf8_char_def)
  then show "str_len v = length v" using assms by (simp add: str_len_def parse_segment_Inr)
  then show "str_len v \<le> maximum" using assms by (simp add: parse_segment_Inr)
qed

end
