(* ===== verification/Capability_Query.thy ===== *)
theory Capability_Query
  imports Capability Prelude
begin

text \<open>
  The capability ledger of one endpoint, \<open>application/src/capability_query.rs\<close>: the stored
  observations merged into the full ledger in its fixed order, with a second observation of a
  capability refused. The repository is the function that finds the observations of an endpoint.
\<close>

section \<open>Types\<close>

record stored_capability =
  sc_observation :: endpoint_capability_observation
  sc_observed_at :: instant

record capability_ledger_entry =
  cle_capability :: endpoint_capability
  cle_state :: "capability_state option"
  cle_observed_at :: "instant option"

datatype 'e endpoint_capability_query_error =
    QueryRepository 'e
  | DuplicateObservation uuid endpoint_capability

type_synonym 'e capability_repository = "uuid \<Rightarrow> 'e + stored_capability list option"

section \<open>The merge\<close>

text \<open>The \<open>BTreeMap\<close> filled by the loop, refusing a key that is already present.\<close>

fun by_capability ::
  "uuid \<Rightarrow> stored_capability list \<Rightarrow> (endpoint_capability \<rightharpoonup> stored_capability)
     \<Rightarrow> 'e endpoint_capability_query_error + (endpoint_capability \<rightharpoonup> stored_capability)" where
  "by_capability endpoint_id [] m = Inr m"
| "by_capability endpoint_id (stored # rest) m =
     (let observed = ob_capability (sc_observation stored) in
      if m observed \<noteq> None then Inl (DuplicateObservation endpoint_id observed)
      else by_capability endpoint_id rest (m(observed \<mapsto> stored)))"

definition ledger_entry :: "(endpoint_capability \<rightharpoonup> stored_capability) \<Rightarrow> endpoint_capability \<Rightarrow> capability_ledger_entry" where
  "ledger_entry m capability =
     (case m capability of
        Some stored \<Rightarrow> \<lparr>cle_capability = capability, cle_state = Some (ob_state (sc_observation stored)),
                        cle_observed_at = Some (sc_observed_at stored)\<rparr>
      | None \<Rightarrow> \<lparr>cle_capability = capability, cle_state = None, cle_observed_at = None\<rparr>)"

definition capability_query ::
  "'e capability_repository \<Rightarrow> uuid \<Rightarrow> 'e endpoint_capability_query_error + capability_ledger_entry list option" where
  "capability_query find_endpoint_capabilities endpoint_id =
     rbind (map_err QueryRepository (find_endpoint_capabilities endpoint_id)) (\<lambda>found.
     case found of
       None \<Rightarrow> Inr None
     | Some stored \<Rightarrow>
         rbind (by_capability endpoint_id stored Map.empty) (\<lambda>m.
         Inr (Some (map (ledger_entry m) CAPABILITY_LEDGER_ORDER))))"

text \<open>The default batch method of the trait: the endpoints one after the other; the map keeps the last.\<close>

fun find_endpoint_capabilities_batch ::
  "'e capability_repository \<Rightarrow> uuid list \<Rightarrow> (uuid \<rightharpoonup> stored_capability list) \<Rightarrow> 'e + (uuid \<rightharpoonup> stored_capability list)" where
  "find_endpoint_capabilities_batch repo [] acc = Inr acc"
| "find_endpoint_capabilities_batch repo (endpoint_id # rest) acc =
     rbind (repo endpoint_id) (\<lambda>found.
     find_endpoint_capabilities_batch repo rest
       (case found of Some observations \<Rightarrow> acc(endpoint_id \<mapsto> observations) | None \<Rightarrow> acc))"

section \<open>What the ledger says\<close>

lemma map_add_upd_fresh: "f c = None \<Longrightarrow> m(c \<mapsto> s) ++ f = m ++ f(c \<mapsto> s)"
  by (auto simp: map_add_def fun_eq_iff split: option.split)

lemma by_capability_Inr:
  assumes "by_capability endpoint_id stored m = (Inr m' :: 'e endpoint_capability_query_error + _)"
  shows "distinct (map (ob_capability \<circ> sc_observation) stored)
    \<and> (\<forall>c \<in> (ob_capability \<circ> sc_observation) ` set stored. m c = None)
    \<and> m' = m ++ map_of (map (\<lambda>s. (ob_capability (sc_observation s), s)) stored)"
  using assms
proof (induction stored arbitrary: m)
  case (Cons s stored)
  let ?c = "ob_capability (sc_observation s)"
  from Cons.prems have fresh: "m ?c = None"
    and rest: "by_capability endpoint_id stored (m(?c \<mapsto> s)) = (Inr m' :: 'e endpoint_capability_query_error + _)"
    by (auto simp: Let_def split: if_splits)
  note IH = Cons.IH [OF rest]
  then have new: "?c \<notin> (ob_capability \<circ> sc_observation) ` set stored" by (auto split: if_splits)
  let ?f = "map_of (map (\<lambda>s. (ob_capability (sc_observation s), s)) stored)"
  have none: "?f ?c = None" using new by (auto simp: map_of_eq_None_iff image_image)
  from map_add_upd_fresh [of ?f ?c m s, OF none] IH
  have "m' = m ++ map_of (map (\<lambda>s. (ob_capability (sc_observation s), s)) (s # stored))"
    unfolding list.map map_of.simps fst_conv snd_conv by (metis (no_types, lifting))
  moreover have "\<forall>c \<in> (ob_capability \<circ> sc_observation) ` set (s # stored). m c = None"
    using IH fresh by (auto split: if_splits)
  moreover have "distinct (map (ob_capability \<circ> sc_observation) (s # stored))" using IH new by (simp add: comp_def)
  ultimately show ?case by (intro conjI)
qed simp

text \<open>The ledger lists every capability once, in the fixed order, with what was observed of it.\<close>

lemma capability_query_Some:
  assumes "capability_query repo endpoint_id = Inr (Some entries)"
  shows "map cle_capability entries = CAPABILITY_LEDGER_ORDER"
    and "\<exists>stored. repo endpoint_id = Inr (Some stored) \<and> distinct (map (ob_capability \<circ> sc_observation) stored)
      \<and> (\<forall>c. Option.bind (List.find (\<lambda>e. cle_capability e = c) entries) cle_state
            = map_option (ob_state \<circ> sc_observation) (map_of (map (\<lambda>s. (ob_capability (sc_observation s), s)) stored) c))"
proof -
  from assms obtain stored m where s: "repo endpoint_id = Inr (Some stored)"
    and m: "by_capability endpoint_id stored Map.empty = (Inr m :: 'a endpoint_capability_query_error + _)"
    and entries: "entries = map (ledger_entry m) CAPABILITY_LEDGER_ORDER"
    by (auto simp: capability_query_def result_simps split: option.splits)
  have cap: "cle_capability (ledger_entry m c) = c" for c by (simp add: ledger_entry_def split: option.splits)
  then show "map cle_capability entries = CAPABILITY_LEDGER_ORDER" by (simp add: entries comp_def)
  have found: "List.find (\<lambda>e. cle_capability e = c) (map (ledger_entry m) cs) = Some (ledger_entry m c)"
    if "c \<in> set cs" for c cs
    using that by (induction cs) (auto simp: cap)
  have "Option.bind (List.find (\<lambda>e. cle_capability e = c) entries) cle_state = map_option (ob_state \<circ> sc_observation) (m c)" for c
    unfolding entries found [OF capability_in_ledger] by (simp add: ledger_entry_def split: option.splits)
  with s by_capability_Inr [OF m]
  show "\<exists>stored. repo endpoint_id = Inr (Some stored) \<and> distinct (map (ob_capability \<circ> sc_observation) stored)
      \<and> (\<forall>c. Option.bind (List.find (\<lambda>e. cle_capability e = c) entries) cle_state
            = map_option (ob_state \<circ> sc_observation) (map_of (map (\<lambda>s. (ob_capability (sc_observation s), s)) stored) c))"
    by (intro exI [of _ stored]) simp
qed

end
