(* ===== verification/Operation_Executor.thy ===== *)
theory Operation_Executor
  imports Task_Monitor Redfish_Command Capability_Query
begin

text \<open>
  The operation executor, \<open>application/src/operation_executor.rs\<close>, with the boundary types of
  \<open>command_executor.rs\<close> and \<open>update_executor.rs\<close>. An attempt threads the store, the audit log, the clock
  and the list of writes handed to the device; the boundaries it is generic in are the two store
  traits and the record \<open>executor\<close> of the lookups, of what the device answers during the attempt and
  of the audit writer. A clock reading is a function of the number of readings before it. An
  attempt writes at most two audit facts of one audit operation.
\<close>

section \<open>Boundary types\<close>

datatype command_outcome = WriteAccepted | AsyncTaskAccepted task_uri | WriteRejected

datatype dispatch_verdict = NotExecuted | DispatchOutcomeUnknown

record update_artifact_payload =
  uap_artifact_id :: artifact_id
  uap_name :: ustring
  uap_bytes :: "byte list"

datatype operation_audit_stage = ExecStage_Start | ExecStage_Terminal

datatype ('e, 're, 'ce, 'r, 'ae, 'ge, 'ue, 'v, 'x) executor_error =
    ExecutorNotFound operation_id
  | NotQueued operation_id operation_state
  | NotRecoverable operation_id operation_state
  | ExecutorEmptyTargets operation_id
  | ExecutorStore 'e
  | EndpointPreflight 're
  | CapabilityPreflight "'ce endpoint_capability_query_error"
  | ExecutorRemoteTask 'r
  | ArtifactPreflight 'ae
  | ExecutorGateway 'ge
  | UpdateGateway 'ue
  | ExecutorVerifier 'v
  | ExecutorAudit operation_audit_stage "'x audit_record_error"

text \<open>
  The writes an attempt hands to the device, in order: typed commands and firmware updates.
\<close>

datatype device_write =
    CommandWrite endpoint_id redfish_command
  | UpdateWrite endpoint_id update_artifact_payload "ustring option"

record ('s, 'l) executor_world =
  xw_store :: 's
  xw_audit :: 'l
  xw_writes :: "device_write list"
  xw_ticks :: nat

record ('s, 're, 'ce, 'ae, 'ge, 'ue, 'v, 'addr, 'x, 'l) executor =
  ex_find_endpoint :: "endpoint_id \<Rightarrow> 's \<Rightarrow> 're + 'addr endpoint option"
  ex_find_endpoint_capabilities :: "'s \<Rightarrow> 'ce capability_repository"
  ex_find_artifact :: "artifact_id \<Rightarrow> 's \<Rightarrow> 'ae + artifact option"
  ex_artifact_bytes :: "artifact_id \<Rightarrow> byte list option"
  ex_execute_command :: "endpoint_id \<Rightarrow> redfish_command \<Rightarrow> 'ge + command_outcome"
  ex_execute_update :: "endpoint_id \<Rightarrow> update_artifact_payload \<Rightarrow> ustring option \<Rightarrow> 'ue + command_outcome"
  ex_gateway_verdict :: "'ge \<Rightarrow> dispatch_verdict"
  ex_update_verdict :: "'ue \<Rightarrow> dispatch_verdict"
  ex_verify :: "endpoint_id \<Rightarrow> redfish_command \<Rightarrow> 'v + verification_verdict"
  ex_append :: "'addr audit_event \<Rightarrow> 'l \<Rightarrow> ('x + unit) \<times> 'l"
  ex_clock :: "nat \<Rightarrow> instant"
  ex_actor :: audit_actor
  ex_origin :: deployment_posture
  ex_fresh_operation_id :: uuid
  ex_fresh_start_id :: uuid
  ex_fresh_terminal_id :: uuid

record 'addr started_audit =
  sa_context :: "'addr audit_context"
  sa_terminal_sequence :: audit_sequence
  sa_started_at :: instant

section \<open>What a command asks for\<close>

fun recovery_judgement_proves_effect :: "redfish_command \<Rightarrow> bool" where
  "recovery_judgement_proves_effect (Cmd_Account (UpdateAccountPassword _)) = False"
| "recovery_judgement_proves_effect (Cmd_System _) = False"
| "recovery_judgement_proves_effect (Cmd_Manager _) = False"
| "recovery_judgement_proves_effect (Cmd_Chassis _) = False"
| "recovery_judgement_proves_effect (Cmd_Boot _) = False"
| "recovery_judgement_proves_effect (Cmd_SecureBoot _) = False"
| "recovery_judgement_proves_effect (Cmd_Log _) = False"
| "recovery_judgement_proves_effect (Cmd_Control _) = False"
| "recovery_judgement_proves_effect (Cmd_Update _) = False"
| "recovery_judgement_proves_effect (Cmd_Oem _) = False"
| "recovery_judgement_proves_effect (Cmd_Account _) = True"
| "recovery_judgement_proves_effect (Cmd_Event _) = True"
| "recovery_judgement_proves_effect (Cmd_Telemetry _) = True"

fun command_audit_operation :: "redfish_command \<Rightarrow> audit_redfish_operation" where
  "command_audit_operation (Cmd_Account (CreateAccount _)) = Rf_CreateAccount"
| "command_audit_operation (Cmd_Account (UpdateAccount _)) = Rf_UpdateAccount"
| "command_audit_operation (Cmd_Account (UpdateAccountPassword _)) = Rf_UpdateAccountPassword"
| "command_audit_operation (Cmd_Account (UpdateAccountUserName _)) = Rf_UpdateAccountUserName"
| "command_audit_operation (Cmd_Account (DeleteAccount _)) = Rf_DeleteAccount"
| "command_audit_operation (Cmd_System (System_Reset _)) = Rf_ResetSystem"
| "command_audit_operation (Cmd_Manager (Manager_Reset _)) = Rf_ResetManager"
| "command_audit_operation (Cmd_Manager (Manager_ResetToDefaults _)) = Rf_ManagerResetToDefaults"
| "command_audit_operation (Cmd_Chassis (Chassis_Reset _)) = Rf_ResetChassis"
| "command_audit_operation (Cmd_Chassis (Chassis_PowerSupplyReset _)) = Rf_PowerSupplyReset"
| "command_audit_operation (Cmd_Boot (SetBootSourceOverride _)) = Rf_SetBootSourceOverride"
| "command_audit_operation (Cmd_SecureBoot SecureBoot_Enable) = Rf_SecureBootEnable"
| "command_audit_operation (Cmd_SecureBoot SecureBoot_Disable) = Rf_SecureBootDisable"
| "command_audit_operation (Cmd_SecureBoot (SecureBoot_ResetKeys _)) = Rf_SecureBootResetKeys"
| "command_audit_operation (Cmd_Event (CreateSubscription _)) = Rf_CreateEventSubscription"
| "command_audit_operation (Cmd_Event (DeleteSubscription _)) = Rf_DeleteEventSubscription"
| "command_audit_operation (Cmd_Log (ClearLog _)) = Rf_LogClear"
| "command_audit_operation (Cmd_Control (Control_Update _)) = Rf_ControlUpdate"
| "command_audit_operation (Cmd_Telemetry (SetEnabled _)) = Rf_SetTelemetryEnabled"
| "command_audit_operation (Cmd_Telemetry (CreateMetricDefinition _)) = Rf_CreateMetricDefinition"
| "command_audit_operation (Cmd_Telemetry (UpdateMetricDefinition _)) = Rf_UpdateMetricDefinition"
| "command_audit_operation (Cmd_Telemetry (DeleteMetricDefinition _)) = Rf_DeleteMetricDefinition"
| "command_audit_operation (Cmd_Telemetry (CreateMetricReportDefinition _)) = Rf_CreateMetricReportDefinition"
| "command_audit_operation (Cmd_Telemetry (UpdateMetricReportDefinition _)) = Rf_UpdateMetricReportDefinition"
| "command_audit_operation (Cmd_Telemetry (DeleteMetricReportDefinition _)) = Rf_DeleteMetricReportDefinition"
| "command_audit_operation (Cmd_Update (StartUpdate _)) = Rf_UpdateFirmware"
| "command_audit_operation (Cmd_Update (Update_Patch _)) = Rf_UpdateServicePatch"
| "command_audit_operation (Cmd_Oem (Oem_SystemConfigProfile _)) = Rf_OemSystemConfigProfile"
| "command_audit_operation (Cmd_Oem (Oem_DebugToken _)) = Rf_OemDebugToken"
| "command_audit_operation (Cmd_Oem (Oem_PowerSmoothing _)) = Rf_OemPowerSmoothing"

fun required_capability :: "redfish_command \<Rightarrow> endpoint_capability" where
  "required_capability (Cmd_Account _) = endpoint_capability.Accounts"
| "required_capability (Cmd_System _) = endpoint_capability.Systems"
| "required_capability (Cmd_Boot _) = endpoint_capability.Systems"
| "required_capability (Cmd_Manager _) = endpoint_capability.Managers"
| "required_capability (Cmd_Chassis _) = endpoint_capability.Chassis"
| "required_capability (Cmd_SecureBoot _) = endpoint_capability.SecureBoot"
| "required_capability (Cmd_Event _) = endpoint_capability.EventService"
| "required_capability (Cmd_Log _) = endpoint_capability.LogServices"
| "required_capability (Cmd_Control _) = endpoint_capability.Controls"
| "required_capability (Cmd_Telemetry _) = endpoint_capability.TelemetryService"
| "required_capability (Cmd_Update _) = endpoint_capability.UpdateService"
| "required_capability (Cmd_Oem (Oem_SystemConfigProfile _)) = endpoint_capability.OemNvidiaProfiles"
| "required_capability (Cmd_Oem (Oem_DebugToken _)) = endpoint_capability.OemNvidiaSecurity"
| "required_capability (Cmd_Oem (Oem_PowerSmoothing _)) = endpoint_capability.OemNvidiaPowerManagement"

definition required_capability_state ::
  "endpoint_capability \<Rightarrow> capability_ledger_entry list \<Rightarrow> capability_state option" where
  "required_capability_state required entries =
     Option.bind (List.find (\<lambda>entry. cle_capability entry = required) entries) cle_state"

definition at_or_after :: "instant \<Rightarrow> instant \<Rightarrow> instant" where
  "at_or_after previous observed = max previous observed"

section \<open>Audit facts\<close>

definition exec_now ::
  "('s, 're, 'ce, 'ae, 'ge, 'ue, 'v, 'addr, 'x, 'l) executor \<Rightarrow> ('s, 'l) executor_world
     \<Rightarrow> instant \<times> ('s, 'l) executor_world" where
  "exec_now ex w = (ex_clock ex (xw_ticks w), w\<lparr>xw_ticks := Suc (xw_ticks w)\<rparr>)"

definition exec_append ::
  "('s, 're, 'ce, 'ae, 'ge, 'ue, 'v, 'addr, 'x, 'l) executor \<Rightarrow> operation_audit_stage \<Rightarrow> 'addr audit_event
     \<Rightarrow> ('s, 'l) executor_world
     \<Rightarrow> (('e, 're, 'ce, 'r, 'ae, 'ge, 'ue, 'v, 'x) executor_error + unit) \<times> ('s, 'l) executor_world" where
  "exec_append ex stage event w =
     (case ex_append ex event (xw_audit w) of
        (r, l') \<Rightarrow> (map_err (\<lambda>e. ExecutorAudit stage (RecordWrite e)) r, w\<lparr>xw_audit := l'\<rparr>))"

definition start_audit ::
  "('s, 're, 'ce, 'ae, 'ge, 'ue, 'v, 'addr, 'x, 'l) executor \<Rightarrow> endpoint_id \<Rightarrow> redfish_command \<Rightarrow> operation_source
     \<Rightarrow> ('s, 'l) executor_world
     \<Rightarrow> (('e, 're, 'ce, 'r, 'ae, 'ge, 'ue, 'v, 'x) executor_error + 'addr started_audit) \<times> ('s, 'l) executor_world" where
  "start_audit ex endpoint_id command source w =
     (case execution_attribution (ex_actor ex) (ex_origin ex) source of
        (actor, origin) \<Rightarrow>
          (case operation_audit_context (ex_fresh_operation_id ex) endpoint_id (command_audit_operation command) actor origin of
             Inl e \<Rightarrow> (Inl (ExecutorAudit ExecStage_Start (RecordContext e)), w)
           | Inr context \<Rightarrow>
               (case sequence_next SEQUENCE_FIRST of
                  Inl e \<Rightarrow> (Inl (ExecutorAudit ExecStage_Start (RecordSequence e)), w)
                | Inr terminal \<Rightarrow>
                    (case exec_now ex w of
                       (started_at, w) \<Rightarrow>
                         then_do (exec_append ex ExecStage_Start (event_started (ex_fresh_start_id ex) context started_at) w) (\<lambda>_ w.
                         (Inr \<lparr>sa_context = context, sa_terminal_sequence = terminal,
                               sa_started_at = started_at\<rparr>, w))))))"

definition exec_record_failure ::
  "('s, 're, 'ce, 'ae, 'ge, 'ue, 'v, 'addr, 'x, 'l) executor \<Rightarrow> 'addr started_audit \<Rightarrow> audit_failure
     \<Rightarrow> audit_failure_verification \<Rightarrow> ('s, 'l) executor_world
     \<Rightarrow> (('e, 're, 'ce, 'r, 'ae, 'ge, 'ue, 'v, 'x) executor_error + unit) \<times> ('s, 'l) executor_world" where
  "exec_record_failure ex started failure verification w =
     (case exec_now ex w of
        (now, w) \<Rightarrow>
          (case event_failed (ex_fresh_terminal_id ex) (sa_context started) (sa_terminal_sequence started) failure
                  verification (at_or_after (sa_started_at started) now) of
             Inl e \<Rightarrow> (Inl (ExecutorAudit ExecStage_Terminal (RecordEvent e)), w)
           | Inr event \<Rightarrow> exec_append ex ExecStage_Terminal event w))"

definition exec_record_success ::
  "('s, 're, 'ce, 'ae, 'ge, 'ue, 'v, 'addr, 'x, 'l) executor \<Rightarrow> 'addr started_audit \<Rightarrow> ('s, 'l) executor_world
     \<Rightarrow> (('e, 're, 'ce, 'r, 'ae, 'ge, 'ue, 'v, 'x) executor_error + unit) \<times> ('s, 'l) executor_world" where
  "exec_record_success ex started w =
     (case exec_now ex w of
        (now, w) \<Rightarrow>
          (case event_succeeded (ex_fresh_terminal_id ex) (sa_context started) (sa_terminal_sequence started)
                  (at_or_after (sa_started_at started) now) of
             Inl e \<Rightarrow> (Inl (ExecutorAudit ExecStage_Terminal (RecordEvent e)), w)
           | Inr event \<Rightarrow> exec_append ex ExecStage_Terminal event w))"

section \<open>Steps\<close>

fun exec_engine_error ::
  "operation_id \<Rightarrow> 'e engine_error \<Rightarrow> ('e, 're, 'ce, 'r, 'ae, 'ge, 'ue, 'v, 'x) executor_error" where
  "exec_engine_error i (EngineNotFound _) = ExecutorNotFound i"
| "exec_engine_error i (EngineInvalidTransition j source) = NotQueued j (it_from source)"
| "exec_engine_error i (StateChanged j expected observed) = NotQueued j observed"
| "exec_engine_error i (StoreError e) = ExecutorStore e"
| "exec_engine_error i EmptyTargets = ExecutorEmptyTargets i"
| "exec_engine_error i (TooManyTargets _) = ExecutorEmptyTargets i"

definition exec_apply_step ::
  "('s, redfish_command, 'e) operation_store \<Rightarrow> ('s, 're, 'ce, 'ae, 'ge, 'ue, 'v, 'addr, 'x, 'l) executor
     \<Rightarrow> operation_id \<Rightarrow> operation_event \<Rightarrow> ('s, 'l) executor_world
     \<Rightarrow> (('e, 're, 'ce, 'r, 'ae, 'ge, 'ue, 'v, 'x) executor_error + redfish_command operation) \<times> ('s, 'l) executor_world" where
  "exec_apply_step ops ex i event w =
     (case exec_now ex w of
        (now, w) \<Rightarrow>
          (case engine_apply ops i event now (xw_store w) of
             (r, s') \<Rightarrow> (map_err (exec_engine_error i) r, w\<lparr>xw_store := s'\<rparr>)))"

definition apply_step_if_current ::
  "('s, redfish_command, 'e) operation_store \<Rightarrow> ('s, 're, 'ce, 'ae, 'ge, 'ue, 'v, 'addr, 'x, 'l) executor
     \<Rightarrow> operation_id \<Rightarrow> operation_state \<Rightarrow> operation_event \<Rightarrow> ('s, 'l) executor_world
     \<Rightarrow> (('e, 're, 'ce, 'r, 'ae, 'ge, 'ue, 'v, 'x) executor_error + redfish_command operation) \<times> ('s, 'l) executor_world" where
  "apply_step_if_current ops ex i expected event w =
     (case exec_now ex w of
        (now, w) \<Rightarrow>
          (case engine_apply_if_current ops i expected event now (xw_store w) of
             (r, s') \<Rightarrow> (map_err (exec_engine_error i) r, w\<lparr>xw_store := s'\<rparr>)))"

fun guard_recovery_race ::
  "('e, 're, 'ce, 'r, 'ae, 'ge, 'ue, 'v, 'x) executor_error \<Rightarrow> ('e, 're, 'ce, 'r, 'ae, 'ge, 'ue, 'v, 'x) executor_error" where
  "guard_recovery_race (NotQueued i st) = NotRecoverable i st"
| "guard_recovery_race e = e"

definition recovery_guarded ::
  "(('e, 're, 'ce, 'r, 'ae, 'ge, 'ue, 'v, 'x) executor_error + 'a) \<times> 'w
     \<Rightarrow> (('e, 're, 'ce, 'r, 'ae, 'ge, 'ue, 'v, 'x) executor_error + 'a) \<times> 'w" where
  "recovery_guarded m = (map_err guard_recovery_race (fst m), snd m)"

definition recover_step where
  "recover_step ops ex i event w = recovery_guarded (exec_apply_step ops ex i event w)"

definition recover_step_if_current where
  "recover_step_if_current ops ex i expected event w =
     recovery_guarded (apply_step_if_current ops ex i expected event w)"

definition refuse ::
  "('s, redfish_command, 'e) operation_store \<Rightarrow> ('s, 're, 'ce, 'ae, 'ge, 'ue, 'v, 'addr, 'x, 'l) executor
     \<Rightarrow> operation_id \<Rightarrow> 'addr started_audit \<Rightarrow> audit_failure \<Rightarrow> ('s, 'l) executor_world
     \<Rightarrow> (('e, 're, 'ce, 'r, 'ae, 'ge, 'ue, 'v, 'x) executor_error + redfish_command operation) \<times> ('s, 'l) executor_world" where
  "refuse ops ex i started failure w =
     then_do (exec_apply_step ops ex i EventFailed w) (\<lambda>final_operation w.
     then_do (exec_record_failure ex started failure FailureVerified_Rejected w) (\<lambda>_ w.
     (Inr final_operation, w)))"

section \<open>Pre-flight\<close>

datatype capability_preflight = Usable | Unsupported | Unconfirmed

fun preflight_of_state :: "capability_state option \<Rightarrow> capability_preflight" where
  "preflight_of_state (Some capability_state.Supported) = Usable"
| "preflight_of_state (Some capability_state.NotCompiled) = Unsupported"
| "preflight_of_state (Some capability_state.NotAdvertised) = Unsupported"
| "preflight_of_state (Some capability_state.SchemaIncompatible) = Unsupported"
| "preflight_of_state (Some capability_state.ReadOnly) = Unsupported"
| "preflight_of_state (Some capability_state.Unauthorized) = Unconfirmed"
| "preflight_of_state (Some capability_state.TemporarilyUnavailable) = Unconfirmed"
| "preflight_of_state None = Unconfirmed"

definition exec_capability_preflight ::
  "('s, 're, 'ce, 'ae, 'ge, 'ue, 'v, 'addr, 'x, 'l) executor \<Rightarrow> redfish_command \<Rightarrow> endpoint_id \<Rightarrow> 's
     \<Rightarrow> ('e, 're, 'ce, 'r, 'ae, 'ge, 'ue, 'v, 'x) executor_error + capability_preflight" where
  "exec_capability_preflight ex command endpoint_id s =
     rbind (map_err CapabilityPreflight (capability_query (ex_find_endpoint_capabilities ex s) endpoint_id)) (\<lambda>entries.
     Inr (preflight_of_state (Option.bind entries (required_capability_state (required_capability command)))))"

definition endpoint_exists ::
  "('s, 're, 'ce, 'ae, 'ge, 'ue, 'v, 'addr, 'x, 'l) executor \<Rightarrow> endpoint_id \<Rightarrow> 's
     \<Rightarrow> ('e, 're, 'ce, 'r, 'ae, 'ge, 'ue, 'v, 'x) executor_error + bool" where
  "endpoint_exists ex endpoint_id s =
     rbind (map_err EndpointPreflight (ex_find_endpoint ex endpoint_id s)) (\<lambda>found. Inr (found \<noteq> None))"

datatype 'ae update_artifact_resolution_error = ArtifactMissing | ArtifactNotReady | ArtifactUnreadable | ArtifactLookup 'ae

definition resolve_update_artifact ::
  "('s, 're, 'ce, 'ae, 'ge, 'ue, 'v, 'addr, 'x, 'l) executor \<Rightarrow> artifact_id \<Rightarrow> 's
     \<Rightarrow> 'ae update_artifact_resolution_error + update_artifact_payload" where
  "resolve_update_artifact ex i s =
     rbind (map_err ArtifactLookup (ex_find_artifact ex i s)) (\<lambda>found.
     rbind (ok_or ArtifactMissing found) (\<lambda>artifact.
     if art_state artifact \<noteq> Artifact_Ready then Inl ArtifactNotReady
     else rbind (ok_or ArtifactUnreadable (ex_artifact_bytes ex (art_id artifact))) (\<lambda>bytes.
          Inr \<lparr>uap_artifact_id = art_id artifact, uap_name = art_name artifact, uap_bytes = bytes\<rparr>)))"

fun update_payload :: "redfish_command \<Rightarrow> start_update option" where
  "update_payload (Cmd_Update (StartUpdate payload)) = Some payload"
| "update_payload _ = None"

section \<open>Verification and dispatch\<close>

definition exec_verify_target ::
  "('s, redfish_command, 'e) operation_store \<Rightarrow> ('s, 're, 'ce, 'ae, 'ge, 'ue, 'v, 'addr, 'x, 'l) executor
     \<Rightarrow> operation_id \<Rightarrow> endpoint_id \<Rightarrow> redfish_command \<Rightarrow> 'addr started_audit \<Rightarrow> ('s, 'l) executor_world
     \<Rightarrow> (('e, 're, 'ce, 'r, 'ae, 'ge, 'ue, 'v, 'x) executor_error + redfish_command operation) \<times> ('s, 'l) executor_world" where
  "exec_verify_target ops ex i endpoint_id command started w =
     (case ex_verify ex endpoint_id command of
        Inr Confirmed \<Rightarrow>
          then_do (exec_apply_step ops ex i VerificationPassed w) (\<lambda>final_operation w.
          then_do (exec_record_success ex started w) (\<lambda>_ w.
          (Inr final_operation, w)))
      | Inr Mismatched \<Rightarrow>
          then_do (exec_apply_step ops ex i EventFailed w) (\<lambda>final_operation w.
          then_do (exec_record_failure ex started Fail_CoreResourceReadFailed FailureVerified_Rejected w) (\<lambda>_ w.
          (Inr final_operation, w)))
      | Inl source \<Rightarrow>
          then_do (exec_apply_step ops ex i OutcomeUnknown w) (\<lambda>_ w.
          then_do (exec_record_failure ex started Fail_CoreResourceReadFailed FailureVerified_Inconclusive w) (\<lambda>_ w.
          (Inl (ExecutorVerifier source), w))))"

definition drive_outcome ::
  "('s, redfish_command, 'e) operation_store \<Rightarrow> ('s, 'r) remote_task_store \<Rightarrow> ('s, 're, 'ce, 'ae, 'ge, 'ue, 'v, 'addr, 'x, 'l) executor
     \<Rightarrow> operation_id \<Rightarrow> endpoint_id \<Rightarrow> redfish_command \<Rightarrow> 'addr started_audit
     \<Rightarrow> 'de + command_outcome \<Rightarrow> ('de \<Rightarrow> dispatch_verdict)
     \<Rightarrow> ('de \<Rightarrow> ('e, 're, 'ce, 'r, 'ae, 'ge, 'ue, 'v, 'x) executor_error) \<Rightarrow> ('s, 'l) executor_world
     \<Rightarrow> (('e, 're, 'ce, 'r, 'ae, 'ge, 'ue, 'v, 'x) executor_error + redfish_command operation) \<times> ('s, 'l) executor_world" where
  "drive_outcome ops tasks ex i endpoint_id command started outcome verdict wrap_error w =
     (case outcome of
        Inr (AsyncTaskAccepted task_location) \<Rightarrow>
          (case exec_now ex w of
             (now, w) \<Rightarrow>
               (case rs_save_remote_task tasks (remote_task_new i endpoint_id task_location None now) (xw_store w) of
                  (Inl source, s') \<Rightarrow>
                    then_do (exec_apply_step ops ex i OutcomeUnknown (w\<lparr>xw_store := s'\<rparr>)) (\<lambda>_ w.
                    then_do (exec_record_failure ex started Fail_RedfishDiscoveryFailed FailureVerified_Inconclusive w) (\<lambda>_ w.
                    (Inl (ExecutorRemoteTask source), w)))
                | (Inr _, s') \<Rightarrow> exec_apply_step ops ex i RemoteTaskStarted (w\<lparr>xw_store := s'\<rparr>)))
      | Inr WriteRejected \<Rightarrow>
          then_do (exec_apply_step ops ex i EventFailed w) (\<lambda>final_operation w.
          then_do (exec_record_failure ex started Fail_RedfishDiscoveryFailed FailureVerified_Rejected w) (\<lambda>_ w.
          (Inr final_operation, w)))
      | Inr WriteAccepted \<Rightarrow>
          then_do (exec_apply_step ops ex i ExecutionAccepted w) (\<lambda>_ w.
          exec_verify_target ops ex i endpoint_id command started w)
      | Inl source \<Rightarrow>
          (case verdict source of
             NotExecuted \<Rightarrow>
               then_do (exec_apply_step ops ex i EventFailed w) (\<lambda>_ w.
               then_do (exec_record_failure ex started Fail_RedfishDiscoveryFailed FailureVerified_Rejected w) (\<lambda>_ w.
               (Inl (wrap_error source), w)))
           | DispatchOutcomeUnknown \<Rightarrow>
               then_do (exec_apply_step ops ex i OutcomeUnknown w) (\<lambda>_ w.
               then_do (exec_record_failure ex started Fail_RedfishDiscoveryFailed FailureVerified_Inconclusive w) (\<lambda>_ w.
               (Inl (wrap_error source), w)))))"

text \<open>Handing a write to the device is recorded in the world before its answer is known.\<close>

definition sent :: "device_write \<Rightarrow> ('s, 'l) executor_world \<Rightarrow> ('s, 'l) executor_world" where
  "sent write w = w\<lparr>xw_writes := xw_writes w @ [write]\<rparr>"

definition dispatch_and_verify ::
  "('s, redfish_command, 'e) operation_store \<Rightarrow> ('s, 'r) remote_task_store \<Rightarrow> ('s, 're, 'ce, 'ae, 'ge, 'ue, 'v, 'addr, 'x, 'l) executor
     \<Rightarrow> operation_id \<Rightarrow> endpoint_id \<Rightarrow> redfish_command \<Rightarrow> 'addr started_audit \<Rightarrow> update_artifact_payload option
     \<Rightarrow> ('s, 'l) executor_world
     \<Rightarrow> (('e, 're, 'ce, 'r, 'ae, 'ge, 'ue, 'v, 'x) executor_error + redfish_command operation) \<times> ('s, 'l) executor_world" where
  "dispatch_and_verify ops tasks ex i endpoint_id command started artifact w =
     (case update_payload command of
        Some payload \<Rightarrow>
          (case artifact of
             None \<Rightarrow> refuse ops ex i started Fail_EndpointPersistenceFailed w
           | Some bytes \<Rightarrow>
               drive_outcome ops tasks ex i endpoint_id command started
                 (ex_execute_update ex endpoint_id bytes (su_push_uri payload)) (ex_update_verdict ex) UpdateGateway
                 (sent (UpdateWrite endpoint_id bytes (su_push_uri payload)) w))
      | None \<Rightarrow>
          drive_outcome ops tasks ex i endpoint_id command started
            (ex_execute_command ex endpoint_id command) (ex_gateway_verdict ex) ExecutorGateway
            (sent (CommandWrite endpoint_id command) w))"

section \<open>Execution\<close>

definition record_unsupported ::
  "('s, redfish_command, 'e) operation_store \<Rightarrow> operation_id \<Rightarrow> ('s, 'l) executor_world
     \<Rightarrow> (('e, 're, 'ce, 'r, 'ae, 'ge, 'ue, 'v, 'x) executor_error + unit) \<times> ('s, 'l) executor_world" where
  "record_unsupported ops i w =
     (case st_record_failure_kind ops i CapabilityUnsupported (xw_store w) of
        (r, s') \<Rightarrow> (map_err ExecutorStore r, w\<lparr>xw_store := s'\<rparr>))"

text \<open>The pre-flight of an update resolves its artifact; \<open>None\<close> for every other command.\<close>

definition preflight_artifact ::
  "('s, 're, 'ce, 'ae, 'ge, 'ue, 'v, 'addr, 'x, 'l) executor \<Rightarrow> redfish_command \<Rightarrow> 's \<Rightarrow> 'ae update_artifact_resolution_error + update_artifact_payload option" where
  "preflight_artifact ex command s =
     (case update_payload command of
        None \<Rightarrow> Inr None
      | Some payload \<Rightarrow>
          rbind (resolve_update_artifact ex (su_artifact_id payload) s) (\<lambda>artifact. Inr (Some artifact)))"

text \<open>From the last persisted validation step to the end of the attempt.\<close>

definition run_validated ::
  "('s, redfish_command, 'e) operation_store \<Rightarrow> ('s, 'r) remote_task_store \<Rightarrow> ('s, 're, 'ce, 'ae, 'ge, 'ue, 'v, 'addr, 'x, 'l) executor
     \<Rightarrow> operation_id \<Rightarrow> operation_state \<Rightarrow> endpoint_id \<Rightarrow> redfish_command \<Rightarrow> 'addr started_audit
     \<Rightarrow> update_artifact_payload option \<Rightarrow> ('s, 'l) executor_world
     \<Rightarrow> (('e, 're, 'ce, 'r, 'ae, 'ge, 'ue, 'v, 'x) executor_error + redfish_command operation) \<times> ('s, 'l) executor_world" where
  "run_validated ops tasks ex i state endpoint_id command started artifact w =
     (if state = Queued
      then then_do (exec_apply_step ops ex i ValidationStarted w) (\<lambda>_ w.
           then_do (exec_apply_step ops ex i ValidationPassed w) (\<lambda>_ w.
           dispatch_and_verify ops tasks ex i endpoint_id command started artifact w))
      else then_do (exec_apply_step ops ex i ValidationPassed w) (\<lambda>_ w.
           dispatch_and_verify ops tasks ex i endpoint_id command started artifact w))"

text \<open>The pre-flight checks, in their order, and then the run.\<close>

definition preflight_and_run ::
  "('s, redfish_command, 'e) operation_store \<Rightarrow> ('s, 'r) remote_task_store \<Rightarrow> ('s, 're, 'ce, 'ae, 'ge, 'ue, 'v, 'addr, 'x, 'l) executor
     \<Rightarrow> operation_id \<Rightarrow> operation_state \<Rightarrow> endpoint_id \<Rightarrow> redfish_command \<Rightarrow> 'addr started_audit
     \<Rightarrow> ('s, 'l) executor_world
     \<Rightarrow> (('e, 're, 'ce, 'r, 'ae, 'ge, 'ue, 'v, 'x) executor_error + redfish_command operation) \<times> ('s, 'l) executor_world" where
  "preflight_and_run ops tasks ex i state endpoint_id command started w =
     (case endpoint_exists ex endpoint_id (xw_store w) of
        Inl e \<Rightarrow> (Inl e, w)
      | Inr False \<Rightarrow> refuse ops ex i started Fail_EndpointPersistenceFailed w
      | Inr True \<Rightarrow>
          (case exec_capability_preflight ex command endpoint_id (xw_store w) of
             Inl e \<Rightarrow> (Inl e, w)
           | Inr Unsupported \<Rightarrow>
               then_do (record_unsupported ops i w) (\<lambda>_ w. refuse ops ex i started Fail_CapabilityUnsupported w)
           | Inr Unconfirmed \<Rightarrow> refuse ops ex i started Fail_RedfishDiscoveryFailed w
           | Inr Usable \<Rightarrow>
               (case preflight_artifact ex command (xw_store w) of
                  Inl (ArtifactLookup e) \<Rightarrow> (Inl (ArtifactPreflight e), w)
                | Inl _ \<Rightarrow> refuse ops ex i started Fail_EndpointPersistenceFailed w
                | Inr artifact \<Rightarrow> run_validated ops tasks ex i state endpoint_id command started artifact w)))"

definition execute_operation ::
  "('s, redfish_command, 'e) operation_store \<Rightarrow> ('s, 'r) remote_task_store \<Rightarrow> ('s, 're, 'ce, 'ae, 'ge, 'ue, 'v, 'addr, 'x, 'l) executor
     \<Rightarrow> operation_id \<Rightarrow> ('s, 'l) executor_world
     \<Rightarrow> (('e, 're, 'ce, 'r, 'ae, 'ge, 'ue, 'v, 'x) executor_error + redfish_command operation) \<times> ('s, 'l) executor_world" where
  "execute_operation ops tasks ex i w =
     (case st_find_operation ops i (xw_store w) of
        Inl e \<Rightarrow> (Inl (ExecutorStore e), w)
      | Inr None \<Rightarrow> (Inl (ExecutorNotFound i), w)
      | Inr (Some operation) \<Rightarrow>
          if op_state operation \<noteq> Queued \<and> op_state operation \<noteq> Validating
          then (Inl (NotQueued i (op_state operation)), w)
          else (case op_targets operation of
             [] \<Rightarrow> (Inl (ExecutorEmptyTargets i), w)
           | target # _ \<Rightarrow>
               then_do (start_audit ex (tg_endpoint_id target) (op_command operation) (op_source operation) w) (\<lambda>started w.
               preflight_and_run ops tasks ex i (op_state operation) (tg_endpoint_id target) (op_command operation) started w)))"

section \<open>Recovery\<close>

definition judge_running ::
  "('s, redfish_command, 'e) operation_store \<Rightarrow> ('s, 're, 'ce, 'ae, 'ge, 'ue, 'v, 'addr, 'x, 'l) executor
     \<Rightarrow> operation_id \<Rightarrow> endpoint_id \<Rightarrow> redfish_command \<Rightarrow> 'addr started_audit \<Rightarrow> ('s, 'l) executor_world
     \<Rightarrow> (('e, 're, 'ce, 'r, 'ae, 'ge, 'ue, 'v, 'x) executor_error + redfish_command operation) \<times> ('s, 'l) executor_world" where
  "judge_running ops ex i endpoint_id command started w =
     (case ex_verify ex endpoint_id command of
        Inr Confirmed \<Rightarrow>
          if recovery_judgement_proves_effect command
          then then_do (recover_step ops ex i ExecutionAccepted w) (\<lambda>_ w.
               then_do (recover_step ops ex i VerificationPassed w) (\<lambda>final_operation w.
               then_do (exec_record_success ex started w) (\<lambda>_ w.
               (Inr final_operation, w))))
          else then_do (recover_step_if_current ops ex i Running OutcomeUnknown w) (\<lambda>final_operation w.
               then_do (exec_record_failure ex started Fail_CoreResourceReadFailed FailureVerified_Inconclusive w) (\<lambda>_ w.
               (Inr final_operation, w)))
      | Inr Mismatched \<Rightarrow>
          then_do (recover_step_if_current ops ex i Running EventFailed w) (\<lambda>final_operation w.
          then_do (exec_record_failure ex started Fail_CoreResourceReadFailed FailureVerified_Inconclusive w) (\<lambda>_ w.
          (Inr final_operation, w)))
      | Inl source \<Rightarrow>
          then_do (recover_step_if_current ops ex i Running OutcomeUnknown w) (\<lambda>_ w.
          then_do (exec_record_failure ex started Fail_CoreResourceReadFailed FailureVerified_Inconclusive w) (\<lambda>_ w.
          (Inl (ExecutorVerifier source), w))))"

definition recover_operation ::
  "('s, redfish_command, 'e) operation_store \<Rightarrow> ('s, 'r) remote_task_store \<Rightarrow> ('s, 're, 'ce, 'ae, 'ge, 'ue, 'v, 'addr, 'x, 'l) executor
     \<Rightarrow> operation_id \<Rightarrow> ('s, 'l) executor_world
     \<Rightarrow> (('e, 're, 'ce, 'r, 'ae, 'ge, 'ue, 'v, 'x) executor_error + redfish_command operation) \<times> ('s, 'l) executor_world" where
  "recover_operation ops tasks ex i w =
     (case st_find_operation ops i (xw_store w) of
        Inl e \<Rightarrow> (Inl (ExecutorStore e), w)
      | Inr None \<Rightarrow> (Inl (ExecutorNotFound i), w)
      | Inr (Some operation) \<Rightarrow>
          if op_state operation \<noteq> Running \<and> op_state operation \<noteq> Verifying
          then (Inl (NotRecoverable i (op_state operation)), w)
          else (case op_targets operation of
             [] \<Rightarrow> (Inl (ExecutorEmptyTargets i), w)
           | target # _ \<Rightarrow>
               if op_state operation = Running
               then (case rs_find_remote_task tasks i (xw_store w) of
                  Inl e \<Rightarrow> (Inl (ExecutorRemoteTask e), w)
                | Inr (Some _) \<Rightarrow> recover_step ops ex i RemoteTaskStarted w
                | Inr None \<Rightarrow>
                    then_do (start_audit ex (tg_endpoint_id target) (op_command operation) (op_source operation) w) (\<lambda>started w.
                    judge_running ops ex i (tg_endpoint_id target) (op_command operation) started w))
               else then_do (start_audit ex (tg_endpoint_id target) (op_command operation) (op_source operation) w) (\<lambda>started w.
                    recovery_guarded
                      (exec_verify_target ops ex i (tg_endpoint_id target) (op_command operation) started w))))"

end
