(* ===== verification/Executor_Laws.thy ===== *)
theory Executor_Laws
  imports Operation_Executor Repository_Properties
begin

text \<open>
  The decision table of the executor and the proof that an attempt follows it. The table says, for what
  an attempt reads, in which state it leaves the operation and which writes it hands to the device. The
  locale \<open>executor_store\<close> adds to the monitor's store contract what the executor relies on, and is
  interpreted with the SQLite repositories at the end.
\<close>

section \<open>The decision table\<close>

text \<open>Errors that report a store failure or a refused start fact: the attempt stopped on its way.\<close>

fun interrupting :: "('e, 're, 'ce, 'r, 'ae, 'ge, 'ue, 'v, 'x) executor_error \<Rightarrow> bool" where
  "interrupting (ExecutorStore _) = True"
| "interrupting (ExecutorRemoteTask _) = True"
| "interrupting (ExecutorAudit stage _) = (stage = ExecStage_Start)"
| "interrupting _ = False"

fun interrupted :: "('e, 're, 'ce, 'r, 'ae, 'ge, 'ue, 'v, 'x) executor_error + 'a \<Rightarrow> bool" where
  "interrupted (Inl e) = interrupting e"
| "interrupted (Inr _) = False"

definition verify_state ::
  "('s, 're, 'ce, 'ae, 'ge, 'ue, 'v, 'addr, 'x, 'l) executor \<Rightarrow> endpoint_id \<Rightarrow> redfish_command \<Rightarrow> operation_state" where
  "verify_state ex e c =
     (case ex_verify ex e c of Inr Confirmed \<Rightarrow> Succeeded | Inr Mismatched \<Rightarrow> Failed | Inl _ \<Rightarrow> Unknown)"

text \<open>An accepted task is followed only if its row could be stored; \<open>tracked\<close> says whether it was.\<close>

definition outcome_state ::
  "('s, 're, 'ce, 'ae, 'ge, 'ue, 'v, 'addr, 'x, 'l) executor \<Rightarrow> endpoint_id \<Rightarrow> redfish_command
     \<Rightarrow> 'de + command_outcome \<Rightarrow> ('de \<Rightarrow> dispatch_verdict) \<Rightarrow> bool \<Rightarrow> operation_state" where
  "outcome_state ex e c outcome verdict tracked =
     (case outcome of
        Inr (AsyncTaskAccepted _) \<Rightarrow> if tracked then WaitingRemote else Unknown
      | Inr WriteRejected \<Rightarrow> Failed
      | Inr WriteAccepted \<Rightarrow> verify_state ex e c
      | Inl source \<Rightarrow> (case verdict source of NotExecuted \<Rightarrow> Failed | DispatchOutcomeUnknown \<Rightarrow> Unknown))"

definition dispatch_plan ::
  "('s, 're, 'ce, 'ae, 'ge, 'ue, 'v, 'addr, 'x, 'l) executor \<Rightarrow> endpoint_id \<Rightarrow> redfish_command
     \<Rightarrow> update_artifact_payload option \<Rightarrow> bool \<Rightarrow> operation_state \<times> device_write list" where
  "dispatch_plan ex e c artifact tracked =
     (case update_payload c of
        None \<Rightarrow> (outcome_state ex e c (ex_execute_command ex e c) (ex_gateway_verdict ex) tracked, [CommandWrite e c])
      | Some payload \<Rightarrow>
          (case artifact of
             None \<Rightarrow> (Failed, [])
           | Some bytes \<Rightarrow>
               (outcome_state ex e c (ex_execute_update ex e bytes (su_push_uri payload)) (ex_update_verdict ex) tracked,
                [UpdateWrite e bytes (su_push_uri payload)])))"

text \<open>An execution attempt on a queued or validating operation.\<close>

definition execute_plan ::
  "('s, 're, 'ce, 'ae, 'ge, 'ue, 'v, 'addr, 'x, 'l) executor \<Rightarrow> redfish_command operation \<Rightarrow> 's
     \<Rightarrow> bool \<Rightarrow> operation_state \<times> device_write list" where
  "execute_plan ex op s tracked =
     (let e = tg_endpoint_id (hd (op_targets op)); c = op_command op in
      case ex_find_endpoint ex e s of
        Inl _ \<Rightarrow> (op_state op, [])
      | Inr None \<Rightarrow> (Failed, [])
      | Inr (Some _) \<Rightarrow>
          (case capability_query (ex_find_endpoint_capabilities ex s) e of
             Inl _ \<Rightarrow> (op_state op, [])
           | Inr entries \<Rightarrow>
               if Option.bind entries (required_capability_state (required_capability c)) \<noteq> Some capability_state.Supported
               then (Failed, [])
               else (case preflight_artifact ex c s of
                  Inl (ArtifactLookup _) \<Rightarrow> (op_state op, [])
                | Inl _ \<Rightarrow> (Failed, [])
                | Inr artifact \<Rightarrow> dispatch_plan ex e c artifact tracked)))"

text \<open>
  A recovery attempt on a running or verifying operation. For a write that leaves no lasting trace in
  what is re-read, a confirming re-read proves nothing.
\<close>

definition judge_state ::
  "('s, 're, 'ce, 'ae, 'ge, 'ue, 'v, 'addr, 'x, 'l) executor \<Rightarrow> endpoint_id \<Rightarrow> redfish_command \<Rightarrow> operation_state" where
  "judge_state ex e c =
     (if verify_state ex e c = Succeeded \<and> \<not> recovery_judgement_proves_effect c then Unknown else verify_state ex e c)"

definition recover_plan ::
  "('s, 're, 'ce, 'ae, 'ge, 'ue, 'v, 'addr, 'x, 'l) executor \<Rightarrow> redfish_command operation \<Rightarrow> remote_task option
     \<Rightarrow> operation_state \<times> device_write list" where
  "recover_plan ex op row =
     (let e = tg_endpoint_id (hd (op_targets op)); c = op_command op in
      if op_state op = Verifying then (verify_state ex e c, [])
      else if row \<noteq> None then (WaitingRemote, [])
      else (judge_state ex e c, []))"

text \<open>
  How an attempt leaves the world: the store stays well formed, no other operation moves, and the
  operation's state and the writes sent are those of the plan, or one of the pairs \<open>between\<close> when the
  attempt was interrupted. Only its state and the time of the last step change. A returned record is the
  stored one.
\<close>

definition stepped :: "(nat \<Rightarrow> instant) \<Rightarrow> 'c operation \<Rightarrow> 'c operation \<Rightarrow> bool" where
  "stepped clock op op' \<longleftrightarrow>
     op_id op' = op_id op \<and> op_source op' = op_source op \<and> op_targets op' = op_targets op
   \<and> op_command op' = op_command op \<and> op_created_at op' = op_created_at op
   \<and> (op_updated_at op' = op_updated_at op \<or> op_updated_at op' \<in> range clock)"

definition attempt_settles ::
  "('s \<Rightarrow> bool) \<Rightarrow> ('s \<Rightarrow> operation_id \<Rightarrow> redfish_command operation option) \<Rightarrow> (nat \<Rightarrow> instant) \<Rightarrow> operation_id
     \<Rightarrow> (operation_state \<times> device_write list) set \<Rightarrow> operation_state \<times> device_write list
     \<Rightarrow> ('e, 're, 'ce, 'r, 'ae, 'ge, 'ue, 'v, 'x) executor_error + redfish_command operation
     \<Rightarrow> ('s, 'l) executor_world \<Rightarrow> ('s, 'l) executor_world \<Rightarrow> bool" where
  "attempt_settles invariant view clock i between plan r w w' \<longleftrightarrow>
     invariant (xw_store w') \<and> (\<forall>j. j \<noteq> i \<longrightarrow> view (xw_store w') j = view (xw_store w) j)
   \<and> (\<exists>op op' ws. view (xw_store w) i = Some op \<and> view (xw_store w') i = Some op' \<and> stepped clock op op'
        \<and> xw_writes w' = xw_writes w @ ws \<and> (op_state op', ws) \<in> (if interrupted r then between else {plan})
        \<and> (\<forall>f. r = Inr f \<longrightarrow> f = op'))"

text \<open>One persisted step: it moved the operation to \<open>st\<close>, or reported a store failure and moved nothing.\<close>

definition advances ::
  "('s \<Rightarrow> bool) \<Rightarrow> ('s \<Rightarrow> operation_id \<Rightarrow> redfish_command operation option) \<Rightarrow> (nat \<Rightarrow> instant) \<Rightarrow> operation_id \<Rightarrow> operation_state
     \<Rightarrow> (('e, 're, 'ce, 'r, 'ae, 'ge, 'ue, 'v, 'x) executor_error + redfish_command operation) \<times> ('s, 'l) executor_world
     \<Rightarrow> ('s, 'l) executor_world \<Rightarrow> bool" where
  "advances invariant view clock i st m w \<longleftrightarrow> xw_writes (snd m) = xw_writes w \<and>
     (case fst m of
        Inl e \<Rightarrow> (\<exists>x. e = ExecutorStore x) \<and> xw_store (snd m) = xw_store w
      | Inr f \<Rightarrow> invariant (xw_store (snd m)) \<and> op_state f = st
          \<and> (\<exists>op. view (xw_store w) i = Some op \<and> stepped clock op f) \<and> view (xw_store (snd m)) = (view (xw_store w))(i \<mapsto> f))"

text \<open>The private field of \<open>TaskUri\<close>: a task location the gateways report has passed its parser.\<close>

definition gateway_ok :: "('s, 're, 'ce, 'ae, 'ge, 'ue, 'v, 'addr, 'x, 'l) executor \<Rightarrow> bool" where
  "gateway_ok ex \<longleftrightarrow>
     (\<forall>e c u. ex_execute_command ex e c = Inr (AsyncTaskAccepted u) \<longrightarrow> task_uri_parse u = Inr u)
   \<and> (\<forall>e a p u. ex_execute_update ex e a p = Inr (AsyncTaskAccepted u) \<longrightarrow> task_uri_parse u = Inr u)"

text \<open>Where an interrupted execution may stop: before the write, or after it and before the verdict.\<close>

definition execute_stages :: "operation_state \<Rightarrow> device_write list \<Rightarrow> (operation_state \<times> device_write list) set" where
  "execute_stages st writes =
     {(st, []), (Validating, [])} \<union> (if writes = [] then {} else {Running, Verifying, Unknown} \<times> {writes})"

section \<open>Audit facts leave the store and the device alone\<close>

lemma exec_append_result:
  assumes "exec_append ex stage ev w = (q, w')"
  shows "xw_store w' = xw_store w" "xw_writes w' = xw_writes w" "stage = ExecStage_Terminal \<Longrightarrow> \<not> interrupted q"
  using assms by (auto simp: exec_append_def map_err_def split: prod.splits sum.splits)

lemma exec_record_result:
  assumes "exec_record_failure ex started f v w = (q, w') \<or> exec_record_success ex started w = (q, w')"
  shows "xw_store w' = xw_store w \<and> xw_writes w' = xw_writes w \<and> \<not> interrupted q"
  using assms
  by (auto simp: exec_record_failure_def exec_record_success_def exec_now_def split: sum.splits
      dest: exec_append_result)

lemma start_audit_result:
  assumes "start_audit ex e c src w = (q, w')"
  shows "xw_store w' = xw_store w \<and> xw_writes w' = xw_writes w \<and> (\<forall>x. q = Inl x \<longrightarrow> interrupted (Inl x))"
  using assms
  by (auto simp: start_audit_def exec_now_def exec_append_def map_err_def then_do_def
      split: sum.splits prod.splits)

lemma sent_sel [simp]:
  "xw_store (sent d w) = xw_store w" "xw_writes (sent d w) = xw_writes w @ [d]"
  "xw_audit (sent d w) = xw_audit w" "xw_ticks (sent d w) = xw_ticks w"
  by (simp_all add: sent_def)

section \<open>Composing the parts of an attempt\<close>

lemma stepped_refl [simp]: "stepped clock op op"
  by (simp add: stepped_def)

lemma stepped_step: "f = op\<lparr>op_state := st, op_updated_at := clock n\<rparr> \<Longrightarrow> stepped clock op f"
  by (simp add: stepped_def)

lemma stepped_trans: "stepped clock a b \<Longrightarrow> stepped clock b c \<Longrightarrow> stepped clock a c"
  by (auto simp: stepped_def)

lemma attempt_settles_weaken:
  "attempt_settles invariant view clock i B p r w w' \<Longrightarrow> B \<subseteq> C \<Longrightarrow> attempt_settles invariant view clock i C p r w w'"
  by (auto simp: attempt_settles_def split: if_splits)

lemma attempt_settles_from:
  "attempt_settles invariant view clock i B p r w w' \<Longrightarrow> xw_writes w = xw_writes v \<Longrightarrow>
   \<forall>j. j \<noteq> i \<longrightarrow> view (xw_store w) j = view (xw_store v) j \<Longrightarrow>
   view (xw_store v) i = Some op \<Longrightarrow> view (xw_store w) i = Some op1 \<Longrightarrow> stepped clock op op1 \<Longrightarrow>
   attempt_settles invariant view clock i B p r v w'"
  by (auto simp: attempt_settles_def dest: stepped_trans)

lemma attempt_settles_same:
  "attempt_settles invariant view clock i B p r w w' \<Longrightarrow> xw_writes w = xw_writes v \<Longrightarrow>
   view (xw_store w) = view (xw_store v) \<Longrightarrow> attempt_settles invariant view clock i B p r v w'"
  by (auto simp: attempt_settles_def)

lemma attempt_settles_stay:
  assumes "invariant (xw_store w)" "view (xw_store w) i = Some op" "xw_store w' = xw_store w" "xw_writes w' = xw_writes w"
    and "\<And>f. r \<noteq> Inr f" "(op_state op, []) \<in> (if interrupted r then B else {p})"
  shows "attempt_settles invariant view clock i B p r w w'"
  using assms by (auto simp: attempt_settles_def)

lemma attempt_settles_sent:
  assumes "attempt_settles invariant view clock i B (st, ws) r (sent d w) w'"
  shows "attempt_settles invariant view clock i ((\<lambda>(st, ws). (st, d # ws)) ` B) (st, d # ws) r w w'"
  using assms by (force simp: attempt_settles_def image_iff)

lemma advances_guarded: "advances invariant view clock i st m w \<Longrightarrow> advances invariant view clock i st (recovery_guarded m) w"
  by (auto simp: advances_def recovery_guarded_def map_err_def split: sum.splits)

lemma attempt_settles_guarded:
  "attempt_settles invariant view clock i B p (map_err guard_recovery_race r) w w' \<longleftrightarrow> attempt_settles invariant view clock i B p r w w'"
proof (cases r)
  case (Inl e)
  then show ?thesis by (cases e) (auto simp: attempt_settles_def)
qed simp

text \<open>A step that may fail, and the rest of the attempt from where it leads.\<close>

lemma step_then:
  assumes "invariant (xw_store w)" "view (xw_store w) i = Some op" and step: "advances invariant view clock i st m w"
    and run: "then_do m k = (r, w')"
    and rest: "\<And>f w1. invariant (xw_store w1) \<Longrightarrow> view (xw_store w1) i = Some f \<Longrightarrow> op_state f = st \<Longrightarrow>
      k f w1 = (r, w') \<Longrightarrow> attempt_settles invariant view clock i B p r w1 w'"
  shows "attempt_settles invariant view clock i (insert (op_state op, []) B) p r w w'"
  using run
proof (cases rule: then_do_cases)
  case (failed e)
  with step assms(1,2) show ?thesis by (auto simp: advances_def intro: attempt_settles_stay)
next
  case (continued f w1)
  with step assms(2) have "invariant (xw_store w1)" "op_state f = st" "xw_writes w1 = xw_writes w"
    "view (xw_store w1) = (view (xw_store w))(i \<mapsto> f)" "stepped clock op f" by (auto simp: advances_def)
  note moved = this
  have "attempt_settles invariant view clock i B p r w1 w'"
    by (rule rest) (use moved continued(2) in simp_all)
  from attempt_settles_from [OF attempt_settles_weaken [OF this subset_insertI]] moved assms(2) show ?thesis by simp
qed

text \<open>The closing fact of an attempt: refused or recorded, the state stands.\<close>

lemma then_record:
  fixes r :: "('e, 're, 'ce, 'r, 'ae, 'ge, 'ue, 'v, 'x) executor_error + redfish_command operation"
  assumes "invariant (xw_store w)" "view (xw_store w) i = Some op" "op_state op = st"
    and run: "then_do (m :: (_ + unit) \<times> _) (\<lambda>_ w. (k, w)) = (r, w')"
    and rec: "\<And>q w1. m = (q, w1) \<Longrightarrow> xw_store w1 = xw_store w \<and> xw_writes w1 = xw_writes w \<and> \<not> interrupted q"
    and k: "interrupted k \<Longrightarrow> (st, []) \<in> B" "\<And>g. k = Inr g \<Longrightarrow> g = op"
  shows "attempt_settles invariant view clock i B (st, []) r w w'"
  using run
proof (cases rule: then_do_cases)
  case (failed e)
  with rec [OF failed(1)] assms(1-3) show ?thesis by (auto intro!: attempt_settles_stay)
next
  case (continued u w1)
  with rec [OF continued(1)] assms(1-3) k show ?thesis by (auto simp: attempt_settles_def)
qed

section \<open>The store the executor relies on\<close>

locale executor_store = monitored_store ops inv view stored tasks task_view
  for ops :: "('s, redfish_command, 'e) operation_store" and inv view stored
    and tasks :: "('s, 'r) remote_task_store" and task_view +
  assumes kind_error: "st_record_failure_kind ops i kind s = (Inl e, s') \<Longrightarrow> s' = s"
    and kind_ok: "inv s \<Longrightarrow> st_record_failure_kind ops i kind s = (Inr u, s') \<Longrightarrow> inv s' \<and> view s' = view s"
begin

lemma exec_step_advances:
  assumes "inv (xw_store w)" "view (xw_store w) i = Some op" "transition (op_state op) event = Inr st"
  shows "advances inv view (ex_clock ex) i st (exec_apply_step ops ex i event w) w"
    and "op_state op = expected \<Longrightarrow> advances inv view (ex_clock ex) i st (apply_step_if_current ops ex i expected event w) w"
proof -
  obtain q s' where e: "engine_apply ops i event (ex_clock ex (xw_ticks w)) (xw_store w) = (q, s')" by fastforce
  show "advances inv view (ex_clock ex) i st (exec_apply_step ops ex i event w) w"
  proof (cases q)
    case (Inl x)
    have "s' = xw_store w" "\<exists>y. x = StoreError y"
      using engine_error_writes_nothing(1) [OF e [unfolded Inl]] engine_step_store_error(1) [OF assms e [unfolded Inl]]
      by blast+
    with e Inl show ?thesis by (auto simp: advances_def exec_apply_step_def exec_now_def)
  next
    case (Inr f)
    from engine_apply_ok [OF assms(1) e [unfolded Inr]] e Inr assms(2,3) show ?thesis
      by (auto simp: advances_def exec_apply_step_def exec_now_def intro: stepped_step)
  qed
  obtain q s' where e: "engine_apply_if_current ops i expected event (ex_clock ex (xw_ticks w)) (xw_store w) = (q, s')" by fastforce
  show "advances inv view (ex_clock ex) i st (apply_step_if_current ops ex i expected event w) w" if ex: "op_state op = expected"
  proof (cases q)
    case (Inl x)
    have "s' = xw_store w" "\<exists>y. x = StoreError y"
      using engine_error_writes_nothing(2) [OF e [unfolded Inl]] engine_step_store_error(2) [OF assms ex e [unfolded Inl]]
      by blast+
    with e Inl show ?thesis by (auto simp: advances_def apply_step_if_current_def exec_now_def)
  next
    case (Inr f)
    from engine_apply_if_current_ok [OF assms(1) e [unfolded Inr]] e Inr assms(2,3) ex show ?thesis
      by (auto simp: advances_def apply_step_if_current_def exec_now_def intro: stepped_step)
  qed
qed

lemmas recover_step_advances =
  advances_guarded [OF exec_step_advances(1), folded recover_step_def]
  advances_guarded [OF exec_step_advances(2), folded recover_step_if_current_def]

lemmas step_record_rules = exec_record_result [OF disjI1] exec_record_result [OF disjI2]

text \<open>A single step with its closing fact.\<close>

lemma step_then_record_settles:
  fixes r :: "('e, 're, 'ce, 'r, 'ae, 'ge, 'ue, 'v, 'x) executor_error + redfish_command operation"
  assumes "inv (xw_store w)" "view (xw_store w) i = Some op" "advances inv view clock i st m w"
    and run: "then_do m (\<lambda>f w. then_do (record w) (\<lambda>_ w. (k f, w))) = (r, w')"
    and rec: "\<And>v q v'. record v = (q :: _ + unit, v') \<Longrightarrow> xw_store v' = xw_store v \<and> xw_writes v' = xw_writes v \<and> \<not> interrupted q"
    and k: "\<And>f. interrupted (k f) \<Longrightarrow> (st, []) \<in> B" "\<And>f g. k f = Inr g \<Longrightarrow> g = f"
  shows "attempt_settles inv view clock i (insert (op_state op, []) B) (st, []) r w w'"
  using assms(1-3) run
proof (rule step_then)
  fix f w1
  assume "inv (xw_store w1)" "view (xw_store w1) i = Some f" "op_state f = st"
    and "then_do (record w1) (\<lambda>_ w. (k f, w)) = (r, w')"
  then show "attempt_settles inv view clock i B (st, []) r w1 w'"
    using rec k by (rule then_record)
qed

lemma refuse_settles:
  fixes r :: "('e, 're, 'ce, 'r, 'ae, 'ge, 'ue, 'v, 'x) executor_error + redfish_command operation"
  assumes "inv (xw_store w)" "view (xw_store w) i = Some op" "transition (op_state op) EventFailed = Inr Failed"
    and run: "refuse ops ex i started failure w = (r, w')"
  shows "attempt_settles inv view (ex_clock ex) i {(op_state op, [])} (Failed, []) r w w'"
  using assms(1,2) exec_step_advances(1) [OF assms(1-3)] run [unfolded refuse_def] step_record_rules(1)
  by (rule step_then_record_settles) auto

lemma exec_verify_settles:
  fixes r :: "('e, 're, 'ce, 'r, 'ae, 'ge, 'ue, 'v, 'x) executor_error + redfish_command operation"
  assumes "inv (xw_store w)" "view (xw_store w) i = Some op" "op_state op = Verifying"
    and run: "exec_verify_target ops ex i e c started w = (r, w')"
  shows "attempt_settles inv view (ex_clock ex) i {(Verifying, [])} (verify_state ex e c, []) r w w'"
proof -
  note adv = exec_step_advances(1) [OF assms(1,2)]
  have tr: "transition (op_state op) VerificationPassed = Inr Succeeded" "transition (op_state op) EventFailed = Inr Failed"
    "transition (op_state op) OutcomeUnknown = Inr Unknown" using assms(3) by (simp_all add: transition_def)
  show ?thesis
  proof (cases "ex_verify ex e c")
    case (Inl x)
    from assms(1,2) adv [OF tr(3)] run [unfolded exec_verify_target_def Inl sum.case] step_record_rules(1)
    show ?thesis unfolding verify_state_def Inl sum.case assms(3) [symmetric]
      by (rule step_then_record_settles) auto
  next
    case (Inr verdict)
    show ?thesis
    proof (cases verdict)
      case Confirmed
      from assms(1,2) adv [OF tr(1)] run [unfolded exec_verify_target_def Inr Confirmed sum.case verification_verdict.case]
        step_record_rules(2)
      show ?thesis unfolding verify_state_def Inr Confirmed sum.case verification_verdict.case assms(3) [symmetric]
        by (rule step_then_record_settles) auto
    next
      case Mismatched
      from assms(1,2) adv [OF tr(2)] run [unfolded exec_verify_target_def Inr Mismatched sum.case verification_verdict.case]
        step_record_rules(1)
      show ?thesis unfolding verify_state_def Inr Mismatched sum.case verification_verdict.case assms(3) [symmetric]
        by (rule step_then_record_settles) auto
    qed
  qed
qed

lemma async_task_settles:
  fixes r :: "('e, 're, 'ce, 'r, 'ae, 'ge, 'ue, 'v, 'x) executor_error + redfish_command operation"
  assumes "inv (xw_store w)" "view (xw_store w) i = Some op" "op_state op = Running" "task_uri_parse u = Inr u"
    and run: "drive_outcome ops tasks ex i e c started (Inr (AsyncTaskAccepted u)) verdict wrap w = (r, w')"
  shows "attempt_settles inv view (ex_clock ex) i {(Running, []), (Unknown, [])} (if isl r then Unknown else WaitingRemote, []) r w w'"
proof -
  let ?now = "ex_clock ex (xw_ticks w)" and ?w = "w\<lparr>xw_ticks := Suc (xw_ticks w)\<rparr>"
  let ?task = "remote_task_new i e u None ?now"
  have tr: "transition (op_state op) OutcomeUnknown = Inr Unknown"
    "transition (op_state op) RemoteTaskStarted = Inr WaitingRemote" using assms(3) by (simp_all add: transition_def)
  obtain q s' where save: "rs_save_remote_task tasks ?task (xw_store w) = (q, s')" by fastforce
  let ?v = "?w\<lparr>xw_store := s'\<rparr>"
  show ?thesis
  proof (cases q)
    case (Inl x)
    have v: "inv (xw_store ?v)" "view (xw_store ?v) i = Some op" "xw_writes ?v = xw_writes w" "xw_store ?v = xw_store w"
      using assms(1,2) save_error [OF save [unfolded Inl]] by simp_all
    from run save Inl have run: "then_do (exec_apply_step ops ex i OutcomeUnknown ?v) (\<lambda>_ w.
        then_do (exec_record_failure ex started Fail_RedfishDiscoveryFailed FailureVerified_Inconclusive w) (\<lambda>_ w.
        (Inl (ExecutorRemoteTask x), w))) = (r, w')"
      by (simp add: drive_outcome_def exec_now_def)
    then have "isl r" by (auto elim!: then_do_cases)
    moreover have "attempt_settles inv view (ex_clock ex) i {(op_state op, []), (Unknown, [])} (Unknown, []) r ?v w'"
      using v(1,2) exec_step_advances(1) [OF v(1,2) tr(1)] run step_record_rules(1)
      by (rule step_then_record_settles) auto
    ultimately show ?thesis using v assms(3) by (auto intro: attempt_settles_same)
  next
    case (Inr y)
    have "remote_task_ok ?task" using assms(4) by (simp add: remote_task_ok_def remote_task_new_def)
    with save_ok [OF assms(1) _ save [unfolded Inr]] assms(2)
    have v: "inv (xw_store ?v)" "view (xw_store ?v) i = Some op" "xw_writes ?v = xw_writes w"
      "view (xw_store ?v) = view (xw_store w)" by simp_all
    from run save Inr have step: "exec_apply_step ops ex i RemoteTaskStarted ?v = (r, w')"
      by (simp add: drive_outcome_def exec_now_def)
    have "advances inv view (ex_clock ex) i WaitingRemote (r, w') ?v"
      unfolding step [symmetric] by (rule exec_step_advances(1) [OF v(1,2) tr(2)])
    with v assms(3) show ?thesis
      by (cases r) (auto simp: advances_def attempt_settles_def)
  qed
qed

lemma drive_outcome_settles:
  fixes r :: "('e, 're, 'ce, 'r, 'ae, 'ge, 'ue, 'v, 'x) executor_error + redfish_command operation"
  assumes "inv (xw_store w)" "view (xw_store w) i = Some op" "op_state op = Running"
    and uri: "\<And>u. outcome = Inr (AsyncTaskAccepted u) \<Longrightarrow> task_uri_parse u = Inr u"
    and wrap: "\<And>x. \<not> interrupting (wrap x)"
    and run: "drive_outcome ops tasks ex i e c started outcome verdict wrap w = (r, w')"
  shows "attempt_settles inv view (ex_clock ex) i ({Running, Verifying, Unknown} \<times> {[]})
    (outcome_state ex e c outcome verdict (\<not> isl r), []) r w w'"
proof -
  note adv = exec_step_advances(1) [OF assms(1,2)]
  have tr: "transition (op_state op) ExecutionAccepted = Inr Verifying" "transition (op_state op) EventFailed = Inr Failed"
    "transition (op_state op) OutcomeUnknown = Inr Unknown" using assms(3) by (simp_all add: transition_def)
  have weaken: ?thesis if "attempt_settles inv view (ex_clock ex) i B p r w w'" "B \<subseteq> {Running, Verifying, Unknown} \<times> {[]}"
    "p = (outcome_state ex e c outcome verdict (\<not> isl r), [])" for B p
    using that attempt_settles_weaken by blast
  show ?thesis
  proof (cases outcome)
    case (Inl x)
    show ?thesis
    proof (cases "verdict x")
      case NotExecuted
      from assms(1,2) adv [OF tr(2)] run [unfolded drive_outcome_def Inl NotExecuted sum.case dispatch_verdict.case]
        step_record_rules(1)
      have "attempt_settles inv view (ex_clock ex) i {(op_state op, [])} (Failed, []) r w w'"
        by (rule step_then_record_settles) (auto simp: wrap)
      then show ?thesis by (rule weaken) (auto simp: assms(3) outcome_state_def Inl NotExecuted)
    next
      case DispatchOutcomeUnknown
      from assms(1,2) adv [OF tr(3)] run [unfolded drive_outcome_def Inl DispatchOutcomeUnknown sum.case dispatch_verdict.case]
        step_record_rules(1)
      have "attempt_settles inv view (ex_clock ex) i {(op_state op, [])} (Unknown, []) r w w'"
        by (rule step_then_record_settles) (auto simp: wrap)
      then show ?thesis by (rule weaken) (auto simp: assms(3) outcome_state_def Inl DispatchOutcomeUnknown)
    qed
  next
    case (Inr answer)
    show ?thesis
    proof (cases answer)
      case WriteAccepted
      have "attempt_settles inv view (ex_clock ex) i (insert (op_state op, []) {(Verifying, [])}) (verify_state ex e c, []) r w w'"
        using assms(1,2) adv [OF tr(1)] run [unfolded drive_outcome_def Inr WriteAccepted sum.case command_outcome.case]
        by (rule step_then) (rule exec_verify_settles)
      then show ?thesis by (rule weaken) (auto simp: assms(3) outcome_state_def Inr WriteAccepted)
    next
      case (AsyncTaskAccepted u)
      with Inr have "outcome = Inr (AsyncTaskAccepted u)" by simp
      from async_task_settles [OF assms(1-3) uri [OF this] run [unfolded this]] show ?thesis
        by (rule weaken) (auto simp: outcome_state_def Inr AsyncTaskAccepted)
    next
      case WriteRejected
      from assms(1,2) adv [OF tr(2)] run [unfolded drive_outcome_def Inr WriteRejected sum.case command_outcome.case]
        step_record_rules(1)
      have "attempt_settles inv view (ex_clock ex) i {(op_state op, [])} (Failed, []) r w w'"
        by (rule step_then_record_settles) auto
      then show ?thesis by (rule weaken) (auto simp: assms(3) outcome_state_def Inr WriteRejected)
    qed
  qed
qed

lemma dispatch_settles:
  fixes r :: "('e, 're, 'ce, 'r, 'ae, 'ge, 'ue, 'v, 'x) executor_error + redfish_command operation"
  assumes "inv (xw_store w)" "view (xw_store w) i = Some op" "op_state op = Running" "gateway_ok ex"
    and artifact: "update_payload c \<noteq> None \<longrightarrow> artifact \<noteq> None"
    and run: "dispatch_and_verify ops tasks ex i e c started artifact w = (r, w')"
  shows "attempt_settles inv view (ex_clock ex) i ({Running, Verifying, Unknown} \<times> {snd (dispatch_plan ex e c artifact True)})
    (dispatch_plan ex e c artifact (\<not> isl r)) r w w'"
proof (cases "update_payload c")
  case None
  let ?d = "CommandWrite e c"
  have w: "inv (xw_store (sent ?d w))" "view (xw_store (sent ?d w)) i = Some op" using assms(1,2) by simp_all
  have "attempt_settles inv view (ex_clock ex) i ({Running, Verifying, Unknown} \<times> {[]})
    (outcome_state ex e c (ex_execute_command ex e c) (ex_gateway_verdict ex) (\<not> isl r), []) r (sent ?d w) w'"
    by (rule drive_outcome_settles [OF w assms(3) _ _ run [unfolded dispatch_and_verify_def None option.case]])
       (use assms(4) in \<open>auto simp: gateway_ok_def\<close>)
  from attempt_settles_sent [OF this] show ?thesis by (auto simp: dispatch_plan_def None image_iff elim: attempt_settles_weaken)
next
  case (Some payload)
  with artifact obtain bytes where bytes: "artifact = Some bytes" by auto
  let ?d = "UpdateWrite e bytes (su_push_uri payload)"
  have w: "inv (xw_store (sent ?d w))" "view (xw_store (sent ?d w)) i = Some op" using assms(1,2) by simp_all
  have "attempt_settles inv view (ex_clock ex) i ({Running, Verifying, Unknown} \<times> {[]})
    (outcome_state ex e c (ex_execute_update ex e bytes (su_push_uri payload)) (ex_update_verdict ex) (\<not> isl r), []) r (sent ?d w) w'"
    by (rule drive_outcome_settles [OF w assms(3) _ _ run [unfolded dispatch_and_verify_def Some bytes option.case]])
       (use assms(4) in \<open>auto simp: gateway_ok_def\<close>)
  from attempt_settles_sent [OF this] show ?thesis
    by (auto simp: dispatch_plan_def Some bytes image_iff elim: attempt_settles_weaken)
qed

lemma run_validated_settles:
  fixes r :: "('e, 're, 'ce, 'r, 'ae, 'ge, 'ue, 'v, 'x) executor_error + redfish_command operation"
  assumes "inv (xw_store w)" "view (xw_store w) i = Some op" "op_state op = Queued \<or> op_state op = Validating" "gateway_ok ex"
    and artifact: "update_payload c \<noteq> None \<longrightarrow> artifact \<noteq> None"
    and run: "run_validated ops tasks ex i (op_state op) e c started artifact w = (r, w')"
  shows "attempt_settles inv view (ex_clock ex) i (execute_stages (op_state op) (snd (dispatch_plan ex e c artifact True)))
    (dispatch_plan ex e c artifact (\<not> isl r)) r w w'"
proof -
  let ?B = "{Running, Verifying, Unknown} \<times> {snd (dispatch_plan ex e c artifact True)}"
  have writes: "snd (dispatch_plan ex e c artifact True) \<noteq> []"
    using artifact by (auto simp: dispatch_plan_def split: option.splits)
  have passed: "attempt_settles inv view (ex_clock ex) i (insert (Validating, []) ?B) (dispatch_plan ex e c artifact (\<not> isl r)) r w1 w'"
    if w1: "inv (xw_store w1)" "view (xw_store w1) i = Some f" "op_state f = Validating"
      and go: "then_do (exec_apply_step ops ex i ValidationPassed w1) (\<lambda>_ w.
          dispatch_and_verify ops tasks ex i e c started artifact w) = (r, w')" for w1 f
  proof -
    have "transition (op_state f) ValidationPassed = Inr Running" using w1(3) by simp
    from w1(1,2) exec_step_advances(1) [OF w1(1,2) this] go show ?thesis
      unfolding w1(3) [symmetric] by (rule step_then) (rule dispatch_settles [OF _ _ _ assms(4) artifact])
  qed
  show ?thesis
  proof (cases "op_state op = Queued")
    case True
    then have tr: "transition (op_state op) ValidationStarted = Inr Validating" by simp
    from assms(1,2) exec_step_advances(1) [OF assms(1,2) tr] run [unfolded run_validated_def if_P [OF True]]
    have "attempt_settles inv view (ex_clock ex) i (insert (op_state op, []) (insert (Validating, []) ?B))
      (dispatch_plan ex e c artifact (\<not> isl r)) r w w'"
      by (rule step_then) (rule passed)
    then show ?thesis by (rule attempt_settles_weaken) (auto simp: execute_stages_def writes)
  next
    case False
    with assms(3) have st: "op_state op = Validating" by simp
    from passed [OF assms(1,2) st] run False show ?thesis
      by (auto simp: run_validated_def execute_stages_def writes st elim: attempt_settles_weaken)
  qed
qed

lemma preflight_usable: "preflight_of_state st = Usable \<longleftrightarrow> st = Some capability_state.Supported"
  by (cases st rule: preflight_of_state.cases) auto

lemma record_unsupported_result:
  assumes "inv (xw_store w)" "record_unsupported ops i w = (q, w1)"
  shows "xw_writes w1 = xw_writes w" "inv (xw_store w1)" "view (xw_store w1) = view (xw_store w)"
    "\<And>x. q = Inl x \<Longrightarrow> interrupting x"
  using assms kind_ok [OF assms(1)]
  by (auto simp: record_unsupported_def map_err_def split: prod.splits sum.splits dest: kind_error)

lemma unsupported_settles:
  fixes r :: "('e, 're, 'ce, 'r, 'ae, 'ge, 'ue, 'v, 'x) executor_error + redfish_command operation"
  assumes "inv (xw_store w)" "view (xw_store w) i = Some op" "transition (op_state op) EventFailed = Inr Failed"
    and run: "then_do (record_unsupported ops i w) (\<lambda>_ w. refuse ops ex i started failure w) = (r, w')"
  shows "attempt_settles inv view (ex_clock ex) i {(op_state op, [])} (Failed, []) r w w'"
  using run
proof (cases rule: then_do_cases)
  case (failed x)
  from record_unsupported_result [OF assms(1) failed(1)] failed(2) assms(2) show ?thesis
    by (auto simp: attempt_settles_def)
next
  case (continued u w1)
  note w1 = record_unsupported_result [OF assms(1) continued(1)]
  from w1(3) assms(2) have "view (xw_store w1) i = Some op" by simp
  from refuse_settles [OF w1(2) this assms(3) continued(2)] w1 show ?thesis by (auto elim: attempt_settles_same)
qed

text \<open>With the capability confirmed, the artifact decides.\<close>

lemma usable_settles:
  fixes r :: "('e, 're, 'ce, 'r, 'ae, 'ge, 'ue, 'v, 'x) executor_error + redfish_command operation"
  assumes "inv (xw_store w)" "view (xw_store w) i = Some op" "op_state op = Queued \<or> op_state op = Validating" "gateway_ok ex"
    and plan: "\<And>b. plan b = (case preflight_artifact ex c (xw_store w) of
        Inl (ArtifactLookup _) \<Rightarrow> (op_state op, []) | Inl _ \<Rightarrow> (Failed, []) | Inr artifact \<Rightarrow> dispatch_plan ex e c artifact b)"
    and run: "(case preflight_artifact ex c (xw_store w) of
        Inl (ArtifactLookup x) \<Rightarrow> (Inl (ArtifactPreflight x), w)
      | Inl _ \<Rightarrow> refuse ops ex i started failure w
      | Inr artifact \<Rightarrow> run_validated ops tasks ex i (op_state op) e c started artifact w) = (r, w')"
  shows "attempt_settles inv view (ex_clock ex) i (execute_stages (op_state op) (snd (plan True))) (plan (\<not> isl r)) r w w'"
proof (cases "preflight_artifact ex c (xw_store w)")
  case (Inl x)
  show ?thesis
  proof (cases "\<exists>y. x = ArtifactLookup y")
    case True
    with run Inl plan assms(1,2) show ?thesis by (auto intro!: attempt_settles_stay)
  next
    case False
    have "transition (op_state op) EventFailed = Inr Failed" using assms(3) by (auto simp: transition_def)
    moreover from False run Inl have "refuse ops ex i started failure w = (r, w')"
      by (auto split: update_artifact_resolution_error.splits)
    ultimately have "attempt_settles inv view (ex_clock ex) i {(op_state op, [])} (Failed, []) r w w'"
      by (rule refuse_settles [OF assms(1,2)])
    with False Inl show ?thesis
      by (auto simp: plan execute_stages_def split: update_artifact_resolution_error.splits elim: attempt_settles_weaken)
  qed
next
  case (Inr artifact)
  then have "update_payload c \<noteq> None \<longrightarrow> artifact \<noteq> None"
    by (auto simp: preflight_artifact_def result_simps split: option.splits)
  from run_validated_settles [OF assms(1-4) this] run Inr show ?thesis by (auto simp: plan)
qed

lemma preflight_settles:
  fixes r :: "('e, 're, 'ce, 'r, 'ae, 'ge, 'ue, 'v, 'x) executor_error + redfish_command operation"
  assumes "inv (xw_store w)" "view (xw_store w) i = Some op" "op_state op = Queued \<or> op_state op = Validating" "gateway_ok ex"
    and targets: "e = tg_endpoint_id (hd (op_targets op))" "c = op_command op"
    and run: "preflight_and_run ops tasks ex i (op_state op) e c started w = (r, w')"
  shows "attempt_settles inv view (ex_clock ex) i (execute_stages (op_state op) (snd (execute_plan ex op (xw_store w) True)))
    (execute_plan ex op (xw_store w) (\<not> isl r)) r w w'"
proof -
  note plan = execute_plan_def Let_def targets [symmetric]
  have failed: "transition (op_state op) EventFailed = Inr Failed" using assms(3) by (auto simp: transition_def)
  have stay: ?thesis if "r = Inl x" "\<not> interrupting x" "w' = w" "execute_plan ex op (xw_store w) False = (op_state op, [])" for x
    using that assms(1,2) by (auto intro!: attempt_settles_stay)
  have refused: ?thesis if "refuse ops ex i started f w = (r, w')" "\<And>b. execute_plan ex op (xw_store w) b = (Failed, [])" for f
    using refuse_settles [OF assms(1,2) failed that(1)] that(2) by (auto simp: execute_stages_def elim: attempt_settles_weaken)
  show ?thesis
  proof (cases "ex_find_endpoint ex e (xw_store w)")
    case (Inl x)
    with run show ?thesis by (intro stay) (auto simp: preflight_and_run_def endpoint_exists_def plan)
  next
    case found: (Inr found)
    show ?thesis
    proof (cases "found = None")
      case True
      with run found show ?thesis
        by (intro refused [of Fail_EndpointPersistenceFailed]) (auto simp: preflight_and_run_def endpoint_exists_def plan)
    next
      case False
      then obtain ep where found: "ex_find_endpoint ex e (xw_store w) = Inr (Some ep)" using found by auto
      note run = run [unfolded preflight_and_run_def endpoint_exists_def found, simplified]
      show ?thesis
      proof (cases "capability_query (ex_find_endpoint_capabilities ex (xw_store w)) e")
        case (Inl x)
        with run found show ?thesis by (intro stay) (auto simp: exec_capability_preflight_def plan)
      next
        case caps: (Inr entries)
        let ?state = "Option.bind entries (required_capability_state (required_capability c))"
        have pre: "exec_capability_preflight ex c e (xw_store w) =
            (Inr (preflight_of_state ?state) :: ('e, 're, 'ce, 'r, 'ae, 'ge, 'ue, 'v, 'x) executor_error + capability_preflight)"
          using caps by (simp add: exec_capability_preflight_def)
        show ?thesis
        proof (cases "preflight_of_state ?state")
          case Usable
          then have usable: "?state = Some capability_state.Supported" by (simp add: preflight_usable)
          with run pre Usable found caps show ?thesis
            by (intro usable_settles [OF assms(1-4)]) (auto simp: plan)
        next
          case Unsupported
          then have plan: "\<And>b. execute_plan ex op (xw_store w) b = (Failed, [])"
            using found caps preflight_usable [of ?state] by (auto simp: plan)
          from run pre Unsupported have "then_do (record_unsupported ops i w)
              (\<lambda>_ w. refuse ops ex i started Fail_CapabilityUnsupported w) = (r, w')" by simp
          from unsupported_settles [OF assms(1,2) failed this] plan show ?thesis
            by (auto simp: execute_stages_def elim: attempt_settles_weaken)
        next
          case Unconfirmed
          then have "\<And>b. execute_plan ex op (xw_store w) b = (Failed, [])"
            using found caps preflight_usable [of ?state] by (auto simp: plan)
          with run pre Unconfirmed show ?thesis by (intro refused [of Fail_RedfishDiscoveryFailed]) auto
        qed
      qed
    qed
  qed
qed

lemma after_start_audit:
  fixes r :: "('e, 're, 'ce, 'r, 'ae, 'ge, 'ue, 'v, 'x) executor_error + redfish_command operation"
  assumes "inv (xw_store w)" "view (xw_store w) i = Some op"
    and go: "then_do (start_audit ex e c src w) body = (r, w')"
    and body: "\<And>started w1. xw_store w1 = xw_store w \<Longrightarrow> body started w1 = (r, w') \<Longrightarrow> attempt_settles inv view (ex_clock ex) i B p r w1 w'"
    and "(op_state op, []) \<in> B"
  shows "attempt_settles inv view (ex_clock ex) i B p r w w'"
  using go
proof (cases rule: then_do_cases)
  case (failed x)
  from start_audit_result [OF failed(1)] failed(2) assms(1,2,5) show ?thesis by (auto intro!: attempt_settles_stay)
next
  case (continued started w1)
  note w1 = start_audit_result [OF continued(1)]
  from body [OF _ continued(2)] w1 show ?thesis by (auto elim: attempt_settles_same)
qed

lemma execute_settles:
  fixes r :: "('e, 're, 'ce, 'r, 'ae, 'ge, 'ue, 'v, 'x) executor_error + redfish_command operation"
  assumes "inv (xw_store w)" "view (xw_store w) i = Some op" "op_state op = Queued \<or> op_state op = Validating" "gateway_ok ex"
    and targets: "op_targets op \<noteq> []" and run: "execute_operation ops tasks ex i w = (r, w')"
  shows "attempt_settles inv view (ex_clock ex) i (execute_stages (op_state op) (snd (execute_plan ex op (xw_store w) True)))
    (execute_plan ex op (xw_store w) (\<not> isl r)) r w w'"
proof (cases "st_find_operation ops i (xw_store w)")
  case (Inl x)
  with run assms(1,2) show ?thesis by (auto simp: execute_operation_def execute_stages_def intro!: attempt_settles_stay)
next
  case (Inr found)
  from find_reads_view [OF assms(1) Inr] assms(2) have found: "found = Some op" by simp
  obtain target rest where ts: "op_targets op = target # rest" using targets by (cases "op_targets op") auto
  from run Inr found ts assms(3) have "then_do (start_audit ex (tg_endpoint_id target) (op_command op) (op_source op) w)
      (preflight_and_run ops tasks ex i (op_state op) (tg_endpoint_id target) (op_command op)) = (r, w')"
    by (auto simp: execute_operation_def)
  then show ?thesis
  proof (rule after_start_audit [OF assms(1,2)])
    fix started w1
    assume w1: "xw_store w1 = xw_store w"
      and go: "preflight_and_run ops tasks ex i (op_state op) (tg_endpoint_id target) (op_command op) started w1 = (r, w')"
    from preflight_settles [OF _ _ assms(3,4) _ _ go] assms(1,2) ts w1
    show "attempt_settles inv view (ex_clock ex) i (execute_stages (op_state op) (snd (execute_plan ex op (xw_store w) True)))
      (execute_plan ex op (xw_store w) (\<not> isl r)) r w1 w'" by simp
  qed (simp add: execute_stages_def)
qed

lemma judge_running_settles:
  fixes r :: "('e, 're, 'ce, 'r, 'ae, 'ge, 'ue, 'v, 'x) executor_error + redfish_command operation"
  assumes "inv (xw_store w)" "view (xw_store w) i = Some op" "op_state op = Running"
    and run: "judge_running ops ex i e c started w = (r, w')"
  shows "attempt_settles inv view (ex_clock ex) i {(Running, []), (Verifying, [])} (judge_state ex e c, []) r w w'"
proof -
  have tr: "transition (op_state op) ExecutionAccepted = Inr Verifying" "transition (op_state op) EventFailed = Inr Failed"
    "transition (op_state op) OutcomeUnknown = Inr Unknown" using assms(3) by (simp_all add: transition_def)
  note cas = recover_step_advances(2) [OF assms(1,2) _ assms(3)]
  have weaken: ?thesis if "attempt_settles inv view (ex_clock ex) i (insert (op_state op, []) B) p r w w'" "B \<subseteq> {(Verifying, [])}"
    "p = (judge_state ex e c, [])" for B p
    using attempt_settles_weaken [OF that(1), of "{(Running, []), (Verifying, [])}"] that(2,3) assms(3) by auto
  note judge = judge_state_def verify_state_def
  show ?thesis
  proof (cases "ex_verify ex e c")
    case (Inl x)
    from assms(1,2) cas [OF tr(3)] run [unfolded judge_running_def Inl sum.case] step_record_rules(1)
    have "attempt_settles inv view (ex_clock ex) i (insert (op_state op, []) {}) (Unknown, []) r w w'"
      by (rule step_then_record_settles) auto
    then show ?thesis by (rule weaken) (auto simp: judge Inl)
  next
    case (Inr verdict)
    show ?thesis
    proof (cases verdict)
      case Mismatched
      from assms(1,2) cas [OF tr(2)] run [unfolded judge_running_def Inr Mismatched sum.case verification_verdict.case]
        step_record_rules(1)
      have "attempt_settles inv view (ex_clock ex) i (insert (op_state op, []) {}) (Failed, []) r w w'"
        by (rule step_then_record_settles) auto
      then show ?thesis by (rule weaken) (auto simp: judge Inr Mismatched)
    next
      case Confirmed
      note run = run [unfolded judge_running_def Inr Confirmed sum.case verification_verdict.case]
      show ?thesis
      proof (cases "recovery_judgement_proves_effect c")
        case False
        from assms(1,2) cas [OF tr(3)] run [unfolded if_not_P [OF False]] step_record_rules(1)
        have "attempt_settles inv view (ex_clock ex) i (insert (op_state op, []) {}) (Unknown, []) r w w'"
          by (rule step_then_record_settles) auto
        then show ?thesis by (rule weaken) (auto simp: judge Inr Confirmed False)
      next
        case True
        have "attempt_settles inv view (ex_clock ex) i (insert (op_state op, []) {(Verifying, [])}) (Succeeded, []) r w w'"
          using assms(1,2) recover_step_advances(1) [OF assms(1,2) tr(1)] run [unfolded if_P [OF True]]
        proof (rule step_then)
          fix f w1
          assume w1: "inv (xw_store w1)" "view (xw_store w1) i = Some f" "op_state f = Verifying"
            and go: "then_do (recover_step ops ex i VerificationPassed w1) (\<lambda>final_operation w.
                then_do (exec_record_success ex started w) (\<lambda>_ w. (Inr final_operation, w))) = (r, w')"
          have "transition (op_state f) VerificationPassed = Inr Succeeded" using w1(3) by simp
          from w1(1,2) recover_step_advances(1) [OF w1(1,2) this] go step_record_rules(2)
          show "attempt_settles inv view (ex_clock ex) i {(Verifying, [])} (Succeeded, []) r w1 w'"
            unfolding w1(3) [symmetric] by (rule step_then_record_settles) auto
        qed
        then show ?thesis by (rule weaken) (auto simp: judge Inr Confirmed True)
      qed
    qed
  qed
qed

lemma guarded_verify_settles:
  fixes r :: "('e, 're, 'ce, 'r, 'ae, 'ge, 'ue, 'v, 'x) executor_error + redfish_command operation"
  assumes "inv (xw_store w)" "view (xw_store w) i = Some op" "op_state op = Verifying"
    and run: "recovery_guarded (exec_verify_target ops ex i e c started w) = (r, w')"
  shows "attempt_settles inv view (ex_clock ex) i {(Verifying, [])} (verify_state ex e c, []) r w w'"
proof -
  from run obtain q where q: "exec_verify_target ops ex i e c started w = (q, w')" "r = map_err guard_recovery_race q"
    by (simp add: recovery_guarded_def prod_eq_iff)
  from exec_verify_settles [OF assms(1-3) q(1)] show ?thesis by (simp add: q(2) attempt_settles_guarded)
qed

lemma recover_settles:
  fixes r :: "('e, 're, 'ce, 'r, 'ae, 'ge, 'ue, 'v, 'x) executor_error + redfish_command operation"
  assumes "inv (xw_store w)" "view (xw_store w) i = Some op" "op_state op = Running \<or> op_state op = Verifying"
    and targets: "op_targets op \<noteq> []" and run: "recover_operation ops tasks ex i w = (r, w')"
  shows "attempt_settles inv view (ex_clock ex) i {(op_state op, []), (Verifying, [])}
    (recover_plan ex op (task_view (xw_store w) i)) r w w'"
proof (cases "st_find_operation ops i (xw_store w)")
  case (Inl x)
  with run assms(1,2) show ?thesis by (auto simp: recover_operation_def intro!: attempt_settles_stay)
next
  case (Inr found)
  from find_reads_view [OF assms(1) Inr] assms(2) have found: "found = Some op" by simp
  obtain target rest where ts: "op_targets op = target # rest" using targets by (cases "op_targets op") auto
  let ?e = "tg_endpoint_id target"
  note run = run [unfolded recover_operation_def Inr found sum.case option.case ts list.case]
  show ?thesis
  proof (cases "op_state op = Verifying")
    case True
    with run have "then_do (start_audit ex ?e (op_command op) (op_source op) w) (\<lambda>started w.
        recovery_guarded (exec_verify_target ops ex i ?e (op_command op) started w)) = (r, w')" by simp
    then show ?thesis
    proof (rule after_start_audit [OF assms(1,2)])
      fix started w1
      assume w1: "xw_store w1 = xw_store w"
        and go: "recovery_guarded (exec_verify_target ops ex i ?e (op_command op) started w1) = (r, w')"
      have "attempt_settles inv view (ex_clock ex) i {(Verifying, [])} (verify_state ex ?e (op_command op), []) r w1 w'"
        by (rule guarded_verify_settles [OF _ _ True go]) (simp_all add: w1 assms(1,2))
      with True ts show "attempt_settles inv view (ex_clock ex) i {(op_state op, []), (Verifying, [])}
          (recover_plan ex op (task_view (xw_store w) i)) r w1 w'"
        by (simp add: recover_plan_def)
    qed simp
  next
    case False
    with assms(3) have st: "op_state op = Running" by simp
    show ?thesis
    proof (cases "rs_find_remote_task tasks i (xw_store w)")
      case (Inl x)
      with run st assms(1,2) show ?thesis by (auto intro!: attempt_settles_stay)
    next
      case (Inr row)
      have row: "row = task_view (xw_store w) i" using find_task [OF assms(1) Inr] .
      show ?thesis
      proof (cases row)
        case None
        with run st Inr have "then_do (start_audit ex ?e (op_command op) (op_source op) w)
            (judge_running ops ex i ?e (op_command op)) = (r, w')" by simp
        then show ?thesis
        proof (rule after_start_audit [OF assms(1,2)])
          fix started w1
          assume w1: "xw_store w1 = xw_store w" and go: "judge_running ops ex i ?e (op_command op) started w1 = (r, w')"
          have "attempt_settles inv view (ex_clock ex) i {(Running, []), (Verifying, [])} (judge_state ex ?e (op_command op), []) r w1 w'"
            by (rule judge_running_settles [OF _ _ st go]) (simp_all add: w1 assms(1,2))
          then show "attempt_settles inv view (ex_clock ex) i {(op_state op, []), (Verifying, [])}
              (recover_plan ex op (task_view (xw_store w) i)) r w1 w'"
            using st ts row None by (simp add: recover_plan_def)
        qed simp
      next
        case (Some task)
        with run st Inr have step: "recover_step ops ex i RemoteTaskStarted w = (r, w')" by simp
        have "transition (op_state op) RemoteTaskStarted = Inr WaitingRemote" using st by simp
        then have "advances inv view (ex_clock ex) i WaitingRemote (r, w') w"
          unfolding step [symmetric] by (rule recover_step_advances(1) [OF assms(1,2)])
        with assms(1,2) st row Some show ?thesis
          by (cases r) (auto simp: advances_def attempt_settles_def recover_plan_def)
      qed
    qed
  qed
qed

end

end
