(* ===== verification/Executor_On_Sqlite.thy ===== *)
theory Executor_On_Sqlite
  imports Executor_Laws Monitor_Properties
begin

text \<open>
  The executor on the SQLite repositories: they provide the store it relies on, and on a working site
  (no database call fails, the clock is not behind the operation's creation, the audit writer accepts
  facts) an attempt is never interrupted.
\<close>

section \<open>The SQLite repositories provide the executor's store\<close>

lemma record_failure_kind_ok:
  assumes "sqlite_inv s" "record_failure_kind i kind s = (Inr u, s')"
  shows "sqlite_inv s' \<and> sqlite_view s' = sqlite_view s
    \<and> db_remote_tasks (ss_database s') = db_remote_tasks (ss_database s)"
proof -
  let ?f = "\<lambda>r. r\<lparr>or_failure_kind := Some (failure_kind_as_str kind)\<rparr>"
  from assms(2) have s': "s' = s\<lparr>ss_database := update_rows i ?f (ss_database s)\<rparr>"
    unfolding record_failure_kind_def by (rule write_tx_Inr) (auto simp: result_simps)
  have ok: "row_ok s r \<Longrightarrow> row_ok s (?f r)" "row_operation s d (?f r) = row_operation s d r" for r d
    by (simp_all add: row_ok_def map_failure_kind_def row_operation_def split: sum.splits)
  have "db_ok s (update_rows i ?f (ss_database s))"
    using assms(1) by (intro db_ok_update) (simp_all add: sqlite_inv_def ok)
  moreover have "db_view s (update_rows i ?f (ss_database s)) = db_view s (ss_database s)"
    by (rule ext) (simp add: db_view_def find_row_update ok split: bind_splits option.splits)
  ultimately show ?thesis
    using assms(1) by (auto simp: s' sqlite_inv_def sqlite_view_db update_rows_def)
qed

interpretation sqlite_executor: executor_store sqlite_operation_store sqlite_task_inv sqlite_view stored_form
  sqlite_remote_task_store sqlite_task_view
proof
  fix i kind s s' and e :: operation_repository_error and u :: unit
  assume "st_record_failure_kind sqlite_operation_store i kind s = (Inl e, s')"
  then show "s' = s" by (auto simp: sqlite_operation_store_def record_failure_kind_def dest: write_tx_Inl)
next
  fix i kind s s' and u :: unit
  assume inv: "sqlite_task_inv s" and run: "st_record_failure_kind sqlite_operation_store i kind s = (Inr u, s')"
  then have "sqlite_inv s' \<and> sqlite_view s' = sqlite_view s
    \<and> db_remote_tasks (ss_database s') = db_remote_tasks (ss_database s)"
    by (intro record_failure_kind_ok [of s i kind u]) (simp_all add: sqlite_operation_store_def sqlite_task_inv_def)
  with inv show "sqlite_task_inv s' \<and> sqlite_view s' = sqlite_view s"
    using tasks_ok_keep [of "ss_database s'" "ss_database s"] by (simp add: sqlite_task_inv_def)
qed

section \<open>Failures do not come and go by themselves\<close>

lemma write_tx_keeps_faults: "write_tx body s = (r, s') \<Longrightarrow> ss_fault s' = ss_fault s"
  by (auto simp: write_tx_def split: sum.splits)

lemma repository_keeps_faults:
  "create_operation op s = (r, s') \<Longrightarrow> ss_fault s' = ss_fault s"
  "apply_transition_if_current i ex st t s = (r, s') \<Longrightarrow> ss_fault s' = ss_fault s"
  "record_failure_kind i kind s = (r, s') \<Longrightarrow> ss_fault s' = ss_fault s"
  "save_remote_task task s = (q, s') \<Longrightarrow> ss_fault s' = ss_fault s"
  by (auto simp: create_operation_def apply_transition_if_current_def record_failure_kind_def save_remote_task_def
      dest: write_tx_keeps_faults split: sum.splits)

definition steady_inv :: "(db_call \<Rightarrow> bool) \<Rightarrow> 'c sqlite_store \<Rightarrow> bool" where
  "steady_inv faults s \<longleftrightarrow> sqlite_task_inv s \<and> ss_fault s = faults"

interpretation sqlite_steady: executor_store sqlite_operation_store "steady_inv faults" sqlite_view stored_form
  sqlite_remote_task_store sqlite_task_view for faults
proof (unfold_locales, unfold steady_inv_def, goal_cases)
  case 1 show ?case by (rule sqlite_monitored.stored_same)
next
  case 2 then show ?case by (blast intro: sqlite_monitored.view_id)
next
  case 3 then show ?case by (blast intro: sqlite_monitored.find_reads_view)
next
  case 4 then show ?case by (rule sqlite_monitored.create_error)
next
  case 5 then show ?case using sqlite_monitored.create_ok repository_keeps_faults(1) by (metis sqlite_operation_store_sel(1))
next
  case 6 then show ?case by (rule sqlite_monitored.step_error)
next
  case 7 then show ?case using sqlite_monitored.step_ok apply_transition_keeps_faults by (metis sqlite_operation_store_sel(3))
next
  case 8 then show ?case by (rule sqlite_monitored.cas_error)
next
  case 9 then show ?case using sqlite_monitored.cas_ok repository_keeps_faults(2) by (metis sqlite_operation_store_sel(4))
next
  case 10 then show ?case using sqlite_monitored.list_ok by blast
next
  case 11 then show ?case using sqlite_monitored.list_filter_total by blast
next
  case 12 then show ?case by (rule sqlite_monitored.save_error)
next
  case 13 then show ?case using sqlite_monitored.save_ok repository_keeps_faults(4) by (metis sqlite_remote_task_store_sel(1))
next
  case 14 then show ?case using sqlite_monitored.find_task by blast
next
  case 15 then show ?case using sqlite_monitored.task_view_ok by blast
next
  case 16 then show ?case by (rule sqlite_monitored.step_keeps_tasks)
next
  case 17 then show ?case by (rule sqlite_executor.kind_error)
next
  case 18
  then have "ss_fault s' = ss_fault s" if "st_record_failure_kind sqlite_operation_store i kind s = (Inr u, s')" for i kind u s s'
    using that repository_keeps_faults(3) by (auto simp: sqlite_operation_store_def)
  with 18 sqlite_executor.kind_ok show ?case by metis
qed

section \<open>A working site finishes its attempts\<close>

definition healthy ::
  "(nat \<Rightarrow> instant) \<Rightarrow> (redfish_command sqlite_store, 'l) executor_world \<Rightarrow> operation_id \<Rightarrow> redfish_command operation \<Rightarrow> bool" where
  "healthy clock w i op \<longleftrightarrow>
     sqlite_task_inv (xw_store w) \<and> (\<forall>c. \<not> ss_fault (xw_store w) c) \<and> sqlite_view (xw_store w) i = Some op
   \<and> op_created_at op \<le> op_updated_at op \<and> (\<forall>n. op_created_at op \<le> clock n)"

definition accepts_facts :: "('s, 're, 'ce, 'ae, 'ge, 'ue, 'v, 'addr, 'x, 'l) executor \<Rightarrow> operation_source \<Rightarrow> bool" where
  "accepts_facts ex src \<longleftrightarrow>
     fst (execution_attribution (ex_actor ex) (ex_origin ex) src) \<noteq> Actor_User
   \<and> (\<forall>event l. \<not> isl (fst (ex_append ex event l)))"

lemma healthy_find: "healthy clock w i op \<Longrightarrow> find_operation i (xw_store w) = Inr (Some op)"
  by (rule find_operation_succeeds) (auto simp: healthy_def sqlite_task_inv_def)

lemma apply_transition_if_current_succeeds:
  assumes "\<forall>c. \<not> ss_fault s c" "sqlite_view s i = Some op" "\<not> is_terminal (op_state op)"
  shows "\<exists>s'. apply_transition_if_current i (op_state op) st t s = (Inr (), s') \<and> ss_fault s' = ss_fault s"
proof -
  from assms(2) obtain row where row: "find_row (ss_database s) i = Some row"
    "row_operation s (ss_database s) row = Some op"
    by (auto simp: sqlite_view_def bind_eq_Some_conv)
  from row_operation_fields(4) [OF row(2)] row(1) assms(1,3) show ?thesis
    by (simp add: apply_transition_if_current_def write_tx_def read_tx_def db_guard_def)
qed

text \<open>A legal step of a healthy operation succeeds and leaves it healthy.\<close>

lemma healthy_moved:
  assumes "healthy (ex_clock ex) w i op" "sqlite_task_inv s'" "ss_fault s' = ss_fault (xw_store w)"
    and "sqlite_view s' = (sqlite_view (xw_store w))(i \<mapsto> op\<lparr>op_state := st, op_updated_at := ex_clock ex n\<rparr>)"
  shows "healthy (ex_clock ex) (w\<lparr>xw_ticks := k, xw_store := s'\<rparr>) i (op\<lparr>op_state := st, op_updated_at := ex_clock ex n\<rparr>)"
  using assms by (simp add: healthy_def)

lemma healthy_step:
  assumes h: "healthy (ex_clock ex) w i op" and tr: "transition (op_state op) event = Inr st"
  shows "\<exists>f w1. exec_apply_step sqlite_operation_store ex i event w = (Inr f, w1)
    \<and> healthy (ex_clock ex) w1 i f \<and> op_state f = st"
proof -
  let ?s = "xw_store w" and ?now = "ex_clock ex (xw_ticks w)"
  let ?f = "op\<lparr>op_state := st, op_updated_at := ?now\<rparr>"
  from h have inv: "sqlite_task_inv ?s" and *: "\<forall>c. \<not> ss_fault ?s c" "sqlite_view ?s i = Some op" by (auto simp: healthy_def)
  obtain s' where "apply_transition i st ?now ?s = (Inr (), s')"
    using apply_transition_succeeds [OF *] transition_not_terminal [OF tr] by blast
  with healthy_find [OF h] tr have e: "engine_apply sqlite_operation_store i event ?now ?s = (Inr ?f, s')"
    by (simp add: engine_apply_def engine_read_def engine_decide_def operation_apply_def)
  from sqlite_monitored.engine_apply_ok [OF inv e] *(2) have "sqlite_task_inv s'" "sqlite_view s' = (sqlite_view ?s)(i \<mapsto> ?f)" by auto
  with healthy_moved [OF h _ engine_apply_keeps_faults [OF e], where st = st and n = "xw_ticks w" and k = "Suc (xw_ticks w)"] e show ?thesis
    by (simp add: exec_apply_step_def exec_now_def)
qed

lemma healthy_cas:
  assumes h: "healthy (ex_clock ex) w i op" and tr: "transition (op_state op) event = Inr st"
  shows "\<exists>f w1. apply_step_if_current sqlite_operation_store ex i (op_state op) event w = (Inr f, w1)
    \<and> healthy (ex_clock ex) w1 i f \<and> op_state f = st"
proof -
  let ?s = "xw_store w" and ?now = "ex_clock ex (xw_ticks w)"
  let ?f = "op\<lparr>op_state := st, op_updated_at := ?now\<rparr>"
  from h have inv: "sqlite_task_inv ?s" and *: "\<forall>c. \<not> ss_fault ?s c" "sqlite_view ?s i = Some op" by (auto simp: healthy_def)
  obtain s' where s': "apply_transition_if_current i (op_state op) st ?now ?s = (Inr (), s')" "ss_fault s' = ss_fault ?s"
    using apply_transition_if_current_succeeds [OF *] transition_not_terminal [OF tr] by blast
  with healthy_find [OF h] tr have e: "engine_apply_if_current sqlite_operation_store i (op_state op) event ?now ?s = (Inr ?f, s')"
    by (simp add: engine_apply_if_current_alone check_expected_def engine_read_def engine_decide_def operation_apply_def)
  from sqlite_monitored.engine_apply_if_current_ok [OF inv e] *(2)
  have "sqlite_task_inv s'" "sqlite_view s' = (sqlite_view ?s)(i \<mapsto> ?f)" by auto
  with healthy_moved [OF h _ s'(2), where st = st and n = "xw_ticks w" and k = "Suc (xw_ticks w)"] e show ?thesis
    by (simp add: apply_step_if_current_def exec_now_def)
qed

type_synonym ('re, 'ce, 'ae, 'ge, 'ue, 'v, 'x) executor_rejection =
  "(operation_repository_error, 're, 'ce, remote_task_repository_error, 'ae, 'ge, 'ue, 'v, 'x) executor_error"

type_synonym ('re, 'ce, 'ae, 'ge, 'ue, 'v, 'x) site_result =
  "('re, 'ce, 'ae, 'ge, 'ue, 'v, 'x) executor_rejection + redfish_command operation"

lemma finishes_step:
  fixes r :: "('re, 'ce, 'ae, 'ge, 'ue, 'v, 'x) site_result"
    and m :: "('re, 'ce, 'ae, 'ge, 'ue, 'v, 'x) site_result \<times> (redfish_command sqlite_store, 'l) executor_world"
  assumes "\<exists>f w1. m = (Inr f, w1) \<and> healthy clock w1 i f \<and> op_state f = st"
    and run: "then_do m k = (r, w')"
    and rest: "\<And>f w1. healthy clock w1 i f \<Longrightarrow> op_state f = st \<Longrightarrow> k f w1 = (r, w') \<Longrightarrow> \<not> interrupted r"
  shows "\<not> interrupted r"
  using assms(1) run by (auto dest: rest)

lemma finishes_record:
  fixes r :: "('re, 'ce, 'ae, 'ge, 'ue, 'v, 'x) site_result"
  assumes run: "then_do (m :: (_ + unit) \<times> _) (\<lambda>_ w. (k, w)) = (r, w')"
    and rec: "\<And>q w1. m = (q, w1) \<Longrightarrow> \<not> interrupted q" and k: "\<not> interrupted k"
  shows "\<not> interrupted r"
  using run
proof (cases rule: then_do_cases)
  case (failed e)
  with rec [OF failed(1)] show ?thesis by simp
next
  case (continued u w1)
  with k show ?thesis by simp
qed

lemma start_audit_succeeds:
  assumes "accepts_facts ex src"
  shows "\<exists>started w1. start_audit ex e c src w
    = (Inr started :: ('re, 'ce, 'ae, 'ge, 'ue, 'v, 'x) executor_rejection + 'addr started_audit, w1)"
proof -
  obtain actor origin where attr: "execution_attribution (ex_actor ex) (ex_origin ex) src = (actor, origin)" by fastforce
  have "context_consistent (Target_Endpoint e :: 'addr audit_target) Summary_EndpointRefresh Perm_ExecuteOperations Action_ExecuteOperation
      (command_audit_operation c)"
    by (cases c rule: command_audit_operation.cases) (simp_all add: context_consistent_def)
  then obtain entry :: "'addr audit_context" where ctx:
    "operation_audit_context (ex_fresh_operation_id ex) e (command_audit_operation c) actor origin = Inr entry"
    using assms attr
    by (auto simp: accepts_facts_def operation_audit_context_def context_try_new_def context_try_new_with_actor_principal_def)
  let ?event = "event_started (ex_fresh_start_id ex) entry (ex_clock ex (xw_ticks w))"
  obtain q l' where append: "ex_append ex ?event (xw_audit w) = (q, l')" by fastforce
  have "\<not> isl (fst (ex_append ex ?event (xw_audit w)))" using assms by (simp add: accepts_facts_def)
  with append have "ex_append ex ?event (xw_audit w) = (Inr (), l')" by (cases q) auto
  then show ?thesis
    using ctx attr by (simp add: start_audit_def exec_now_def exec_append_def sequence_next_def SEQUENCE_FIRST_def)
qed

lemma finishes_audit:
  fixes r :: "('re, 'ce, 'ae, 'ge, 'ue, 'v, 'x) site_result"
  assumes "accepts_facts ex src" "then_do (start_audit ex e c src w) body = (r, w')"
    and rest: "\<And>started w1. xw_store w1 = xw_store w \<Longrightarrow> body started w1 = (r, w') \<Longrightarrow> \<not> interrupted r"
  shows "\<not> interrupted r"
  using assms(2)
proof (cases rule: then_do_cases)
  case (failed x)
  with start_audit_succeeds [OF assms(1), of e c w] show ?thesis by auto
next
  case (continued started w1)
  with start_audit_result [OF continued(1)] rest show ?thesis by blast
qed

lemma record_not_interrupted:
  "exec_record_failure ex started f v w = (q, w') \<Longrightarrow> \<not> interrupted q"
  "exec_record_success ex started w = (q, w') \<Longrightarrow> \<not> interrupted q"
  using exec_record_result by blast+

lemmas finish = finishes_step [OF healthy_step] finishes_record record_not_interrupted

lemma refuse_finishes:
  fixes r :: "('re, 'ce, 'ae, 'ge, 'ue, 'v, 'x) site_result"
  assumes "healthy (ex_clock ex) w i op" "transition (op_state op) EventFailed = Inr Failed"
    and "refuse sqlite_operation_store ex i started failure w = (r, w')"
  shows "\<not> interrupted r"
  using assms unfolding refuse_def by (rule finish(1)) (erule finish(2), erule finish(3), simp)

lemma verify_finishes:
  fixes r :: "('re, 'ce, 'ae, 'ge, 'ue, 'v, 'x) site_result"
  assumes h: "healthy (ex_clock ex) w i op" "op_state op = Verifying"
    and run: "exec_verify_target sqlite_operation_store ex i e c started w = (r, w')"
  shows "\<not> interrupted r"
proof -
  have tr: "transition (op_state op) VerificationPassed = Inr Succeeded" "transition (op_state op) EventFailed = Inr Failed"
    "transition (op_state op) OutcomeUnknown = Inr Unknown" using h(2) by (simp_all add: transition_def)
  note run = run [unfolded exec_verify_target_def]
  show ?thesis
  proof (cases "ex_verify ex e c")
    case (Inl x)
    show ?thesis using h(1) tr(3) run [unfolded Inl sum.case]
      by (rule finish(1)) (erule finish(2), erule finish(3), simp)
  next
    case (Inr verdict)
    note run = run [unfolded Inr sum.case]
    show ?thesis
    proof (cases verdict)
      case Confirmed
      show ?thesis using h(1) tr(1) run [unfolded Confirmed verification_verdict.case]
        by (rule finish(1)) (erule finish(2), erule finish(4), simp)
    next
      case Mismatched
      show ?thesis using h(1) tr(2) run [unfolded Mismatched verification_verdict.case]
        by (rule finish(1)) (erule finish(2), erule finish(3), simp)
    qed
  qed
qed

lemma save_new_task_succeeds:
  assumes "\<forall>c. \<not> ss_fault s c" "sqlite_view s i = Some op"
  shows "\<exists>s'. save_remote_task (remote_task_new i e u None now) s = (Inr (), s') \<and> ss_fault s' = ss_fault s"
proof -
  from assms(2) obtain row where "find_row (ss_database s) i = Some row"
    by (auto simp: sqlite_view_def bind_eq_Some_conv)
  then have "list_ex (\<lambda>r. or_id r = i) (db_operations (ss_database s))"
    using find_row_mem by (fastforce simp: list_ex_iff)
  with assms(1) show ?thesis
    by (simp add: save_remote_task_def task_read_tx_def task_guard_def remote_task_new_def map_transpose_def
        write_task_row_def remote_task_row_of_def)
qed

lemma async_finishes:
  fixes r :: "('re, 'ce, 'ae, 'ge, 'ue, 'v, 'x) site_result"
  assumes h: "healthy (ex_clock ex) w i op" "op_state op = Running" "task_uri_parse u = Inr u"
    and run: "drive_outcome sqlite_operation_store sqlite_remote_task_store ex i e c started
      (Inr (AsyncTaskAccepted u)) verdict wrap w = (r, w')"
  shows "\<not> interrupted r"
proof -
  let ?task = "remote_task_new i e u None (ex_clock ex (xw_ticks w))" and ?w = "w\<lparr>xw_ticks := Suc (xw_ticks w)\<rparr>"
  obtain s' where s': "save_remote_task ?task (xw_store w) = (Inr (), s')" "ss_fault s' = ss_fault (xw_store w)"
    using save_new_task_succeeds [of "xw_store w" i op e u "ex_clock ex (xw_ticks w)"] h(1) by (auto simp: healthy_def)
  have "remote_task_ok ?task" using h(3) by (simp add: remote_task_ok_def remote_task_new_def)
  with save_remote_task_ok [OF _ _ s'(1)] h(1) s'(2) have h': "healthy (ex_clock ex) (?w\<lparr>xw_store := s'\<rparr>) i op"
    by (auto simp: healthy_def)
  have tr: "transition (op_state op) RemoteTaskStarted = Inr WaitingRemote" using h(2) by simp
  have step: "exec_apply_step sqlite_operation_store ex i RemoteTaskStarted (?w\<lparr>xw_store := s'\<rparr>) = (r, w')"
    using run s'(1) by (simp add: drive_outcome_def exec_now_def)
  have "\<exists>f w1. (r, w') = (Inr f, w1) \<and> healthy (ex_clock ex) w1 i f \<and> op_state f = WaitingRemote"
    unfolding step [symmetric] by (rule healthy_step [OF h' tr])
  then show ?thesis by auto
qed

lemma drive_outcome_finishes:
  fixes r :: "('re, 'ce, 'ae, 'ge, 'ue, 'v, 'x) site_result"
  assumes h: "healthy (ex_clock ex) w i op" "op_state op = Running"
    and uri: "\<And>u. outcome = Inr (AsyncTaskAccepted u) \<Longrightarrow> task_uri_parse u = Inr u" and wrap: "\<And>x. \<not> interrupting (wrap x)"
    and run: "drive_outcome sqlite_operation_store sqlite_remote_task_store ex i e c started outcome verdict wrap w = (r, w')"
  shows "\<not> interrupted r"
proof -
  have tr: "transition (op_state op) ExecutionAccepted = Inr Verifying" "transition (op_state op) EventFailed = Inr Failed"
    "transition (op_state op) OutcomeUnknown = Inr Unknown" using h(2) by (simp_all add: transition_def)
  show ?thesis
  proof (cases outcome)
    case (Inl x)
    note run = run [unfolded drive_outcome_def Inl sum.case]
    show ?thesis
    proof (cases "verdict x")
      case NotExecuted
      show ?thesis using h(1) tr(2) run [unfolded NotExecuted dispatch_verdict.case]
        by (rule finish(1)) (erule finish(2), erule finish(3), simp add: wrap)
    next
      case DispatchOutcomeUnknown
      show ?thesis using h(1) tr(3) run [unfolded DispatchOutcomeUnknown dispatch_verdict.case]
        by (rule finish(1)) (erule finish(2), erule finish(3), simp add: wrap)
    qed
  next
    case (Inr answer)
    show ?thesis
    proof (cases answer)
      case WriteAccepted
      show ?thesis using h(1) tr(1) run [unfolded drive_outcome_def Inr WriteAccepted sum.case command_outcome.case]
        by (rule finish(1)) (rule verify_finishes)
    next
      case (AsyncTaskAccepted u)
      with Inr have "outcome = Inr (AsyncTaskAccepted u)" by simp
      from async_finishes [OF h uri [OF this] run [unfolded this]] show ?thesis .
    next
      case WriteRejected
      show ?thesis using h(1) tr(2) run [unfolded drive_outcome_def Inr WriteRejected sum.case command_outcome.case]
        by (rule finish(1)) (erule finish(2), erule finish(3), simp)
    qed
  qed
qed

lemma healthy_sent [simp]: "healthy clock (sent d w) i op = healthy clock w i op"
  by (simp add: healthy_def)

lemma dispatch_finishes:
  fixes r :: "('re, 'ce, 'ae, 'ge, 'ue, 'v, 'x) site_result"
  assumes h: "healthy (ex_clock ex) w i op" "op_state op = Running" "gateway_ok ex"
    and run: "dispatch_and_verify sqlite_operation_store sqlite_remote_task_store ex i e c started artifact w = (r, w')"
  shows "\<not> interrupted r"
proof (cases "update_payload c")
  case None
  have "healthy (ex_clock ex) (sent (CommandWrite e c) w) i op" using h(1) by simp
  from drive_outcome_finishes [OF this h(2) _ _ run [unfolded dispatch_and_verify_def None option.case]] h(3)
  show ?thesis by (auto simp: gateway_ok_def)
next
  case (Some payload)
  note run = run [unfolded dispatch_and_verify_def Some option.case]
  show ?thesis
  proof (cases artifact)
    case None
    have "transition (op_state op) EventFailed = Inr Failed" using h(2) by (simp add: transition_def)
    from refuse_finishes [OF h(1) this run [unfolded None option.case]] show ?thesis .
  next
    case (Some bytes)
    have "healthy (ex_clock ex) (sent (UpdateWrite e bytes (su_push_uri payload)) w) i op" using h(1) by simp
    from drive_outcome_finishes [OF this h(2) _ _ run [unfolded Some option.case]] h(3)
    show ?thesis by (auto simp: gateway_ok_def)
  qed
qed

lemma run_validated_finishes:
  fixes r :: "('re, 'ce, 'ae, 'ge, 'ue, 'v, 'x) site_result"
  assumes h: "healthy (ex_clock ex) w i op" "op_state op = Queued \<or> op_state op = Validating" "gateway_ok ex"
    and run: "run_validated sqlite_operation_store sqlite_remote_task_store ex i (op_state op) e c started artifact w = (r, w')"
  shows "\<not> interrupted r"
proof -
  have passed: "\<not> interrupted r"
    if w1: "healthy (ex_clock ex) w1 i f" "op_state f = Validating"
      and go: "then_do (exec_apply_step sqlite_operation_store ex i ValidationPassed w1) (\<lambda>_ w.
          dispatch_and_verify sqlite_operation_store sqlite_remote_task_store ex i e c started artifact w) = (r, w')" for w1 f
  proof -
    have "transition (op_state f) ValidationPassed = Inr Running" using w1(2) by simp
    from w1(1) this go show ?thesis by (rule finish(1)) (rule dispatch_finishes [OF _ _ h(3)])
  qed
  show ?thesis
  proof (cases "op_state op = Queued")
    case True
    then have "transition (op_state op) ValidationStarted = Inr Validating" by simp
    from h(1) this run [unfolded run_validated_def if_P [OF True]] show ?thesis by (rule finish(1)) (rule passed)
  next
    case False
    with h(2) run show ?thesis by (intro passed [OF h(1)]) (simp_all add: run_validated_def)
  qed
qed

lemma record_unsupported_succeeds:
  assumes "healthy clock w i op"
  shows "\<exists>w1. record_unsupported sqlite_operation_store i w = (Inr (), w1) \<and> healthy clock w1 i op"
proof -
  from assms obtain row where "find_row (ss_database (xw_store w)) i = Some row"
    by (auto simp: healthy_def sqlite_view_def bind_eq_Some_conv)
  with assms obtain s' where s': "record_failure_kind i CapabilityUnsupported (xw_store w) = (Inr (), s')" "ss_fault s' = ss_fault (xw_store w)"
    by (simp add: healthy_def record_failure_kind_def write_tx_def read_tx_def db_guard_def)
  from assms have "sqlite_inv (xw_store w)" by (simp add: healthy_def sqlite_task_inv_def)
  from record_failure_kind_ok [OF this s'(1)] assms s' show ?thesis
    using tasks_ok_keep [of "ss_database s'" "ss_database (xw_store w)"]
    by (simp add: record_unsupported_def healthy_def sqlite_task_inv_def sqlite_operation_store_def)
qed

lemma preflight_finishes:
  fixes r :: "('re, 'ce, 'ae, 'ge, 'ue, 'v, 'x) site_result"
  assumes h: "healthy (ex_clock ex) w i op" "op_state op = Queued \<or> op_state op = Validating" "gateway_ok ex"
    and run: "preflight_and_run sqlite_operation_store sqlite_remote_task_store ex i (op_state op) e c started w = (r, w')"
  shows "\<not> interrupted r"
proof -
  have failed: "transition (op_state op) EventFailed = Inr Failed" using h(2) by (auto simp: transition_def)
  note refused = refuse_finishes [OF h(1) failed]
  have lookups: "endpoint_exists ex e s = (Inl x :: ('re, 'ce, 'ae, 'ge, 'ue, 'v, 'x) executor_rejection + bool) \<Longrightarrow> \<not> interrupting x"
    "exec_capability_preflight ex c e s = (Inl x :: ('re, 'ce, 'ae, 'ge, 'ue, 'v, 'x) executor_rejection + capability_preflight) \<Longrightarrow> \<not> interrupting x"
    for s x by (auto simp: endpoint_exists_def exec_capability_preflight_def result_simps)
  have unsupported: "\<not> interrupted r"
    if go: "then_do (record_unsupported sqlite_operation_store i w) (\<lambda>_ w. refuse sqlite_operation_store ex i started f w) = (r, w')" for f
  proof -
    obtain w1 where "record_unsupported sqlite_operation_store i w
        = (Inr () :: ('re, 'ce, 'ae, 'ge, 'ue, 'v, 'x) executor_rejection + unit, w1)" "healthy (ex_clock ex) w1 i op"
      using record_unsupported_succeeds [OF h(1)] by blast
    with go refuse_finishes [OF _ failed] show ?thesis by simp
  qed
  show ?thesis
    using run refused lookups unsupported run_validated_finishes [OF h]
    by (auto simp: preflight_and_run_def split: sum.splits bool.splits capability_preflight.splits
        update_artifact_resolution_error.splits)
qed

lemma execute_finishes:
  fixes r :: "('re, 'ce, 'ae, 'ge, 'ue, 'v, 'x) site_result"
  assumes h: "healthy (ex_clock ex) w i op" "op_state op = Queued \<or> op_state op = Validating" "gateway_ok ex"
    and "op_targets op \<noteq> []" "accepts_facts ex (op_source op)"
    and run: "execute_operation sqlite_operation_store sqlite_remote_task_store ex i w = (r, w')"
  shows "\<not> interrupted r"
proof -
  obtain target rest where ts: "op_targets op = target # rest" using assms(4) by (cases "op_targets op") auto
  from run h healthy_find [OF h(1)] ts have "then_do (start_audit ex (tg_endpoint_id target) (op_command op) (op_source op) w)
      (preflight_and_run sqlite_operation_store sqlite_remote_task_store ex i (op_state op) (tg_endpoint_id target) (op_command op)) = (r, w')"
    by (auto simp: execute_operation_def)
  from assms(5) this show ?thesis
    by (rule finishes_audit) (erule preflight_finishes [OF _ h(2,3), rotated], use h(1) in \<open>simp add: healthy_def\<close>)
qed

lemma find_task_succeeds:
  assumes "sqlite_task_inv s" "\<forall>c. \<not> ss_fault s c"
  shows "\<exists>row. find_remote_task i s = Inr row"
proof (cases "find_task_row (ss_database s) i")
  case None
  with assms(2) show ?thesis by (simp add: find_remote_task_def task_read_tx_def task_guard_def)
next
  case (Some r)
  from find_task_row_mem [OF Some] assms(1) obtain task where "map_stored_remote_task i r = Inr task"
    by (auto simp: sqlite_task_inv_def tasks_ok_def)
  with Some assms(2) show ?thesis by (simp add: find_remote_task_def task_read_tx_def task_guard_def)
qed

lemma guarded_result:
  "\<exists>f w1. m = (Inr f, w1) \<and> P f w1 \<Longrightarrow> \<exists>f w1. recovery_guarded m = (Inr f, w1) \<and> P f w1"
  by (auto simp: recovery_guarded_def)

lemma interrupted_guarded: "interrupted (map_err guard_recovery_race q) = interrupted q"
proof (cases q)
  case (Inl e)
  then show ?thesis by (cases e) simp_all
qed simp

lemmas finish_recovery =
  finishes_step [OF guarded_result [OF healthy_step], folded recover_step_def]
  finishes_step [OF guarded_result [OF healthy_cas], folded recover_step_if_current_def]

lemma judge_running_finishes:
  fixes r :: "('re, 'ce, 'ae, 'ge, 'ue, 'v, 'x) site_result"
  assumes h: "healthy (ex_clock ex) w i op" "op_state op = Running"
    and run: "judge_running sqlite_operation_store ex i e c started w = (r, w')"
  shows "\<not> interrupted r"
proof -
  have tr: "transition (op_state op) ExecutionAccepted = Inr Verifying" "transition (op_state op) EventFailed = Inr Failed"
    "transition (op_state op) OutcomeUnknown = Inr Unknown" using h(2) by (simp_all add: transition_def)
  note run = run [unfolded judge_running_def, folded h(2)]
  show ?thesis
  proof (cases "ex_verify ex e c")
    case (Inl x)
    show ?thesis using h(1) tr(3) run [unfolded Inl sum.case]
      by (rule finish_recovery(2)) (erule finish(2), erule finish(3), simp)
  next
    case (Inr verdict)
    note run = run [unfolded Inr sum.case]
    show ?thesis
    proof (cases verdict)
      case Mismatched
      show ?thesis using h(1) tr(2) run [unfolded Mismatched verification_verdict.case]
        by (rule finish_recovery(2)) (erule finish(2), erule finish(3), simp)
    next
      case Confirmed
      note run = run [unfolded Confirmed verification_verdict.case]
      show ?thesis
      proof (cases "recovery_judgement_proves_effect c")
        case False
        show ?thesis using h(1) tr(3) run [unfolded if_not_P [OF False]]
          by (rule finish_recovery(2)) (erule finish(2), erule finish(3), simp)
      next
        case True
        show ?thesis using h(1) tr(1) run [unfolded if_P [OF True]]
        proof (rule finish_recovery(1))
          fix f w1
          assume w1: "healthy (ex_clock ex) w1 i f" "op_state f = Verifying"
            and go: "then_do (recover_step sqlite_operation_store ex i VerificationPassed w1) (\<lambda>final_operation w.
                then_do (exec_record_success ex started w) (\<lambda>_ w. (Inr final_operation, w))) = (r, w')"
          have "transition (op_state f) VerificationPassed = Inr Succeeded" using w1(2) by simp
          from w1(1) this go show "\<not> interrupted r"
            by (rule finish_recovery(1)) (erule finish(2), erule finish(4), simp)
        qed
      qed
    qed
  qed
qed

lemma recover_finishes:
  fixes r :: "('re, 'ce, 'ae, 'ge, 'ue, 'v, 'x) site_result"
  assumes h: "healthy (ex_clock ex) w i op" "op_state op = Running \<or> op_state op = Verifying"
    and "op_targets op \<noteq> []" "accepts_facts ex (op_source op)"
    and run: "recover_operation sqlite_operation_store sqlite_remote_task_store ex i w = (r, w')"
  shows "\<not> interrupted r"
proof -
  obtain target rest where ts: "op_targets op = target # rest" using assms(3) by (cases "op_targets op") auto
  let ?e = "tg_endpoint_id target" and ?c = "op_command op"
  obtain row where row: "find_remote_task i (xw_store w) = Inr row"
    using find_task_succeeds [of "xw_store w" i] h(1) by (auto simp: healthy_def)
  have h1: "healthy (ex_clock ex) w1 i op" if "xw_store w1 = xw_store w" for w1 :: "(redfish_command sqlite_store, 'l) executor_world"
    using that h(1) by (simp add: healthy_def)
  note run = run [unfolded recover_operation_def sqlite_operation_store_sel sqlite_remote_task_store_sel
      healthy_find [OF h(1)] row ts sum.case option.case list.case]
  show ?thesis
  proof (cases "op_state op = Verifying")
    case True
    with run have "then_do (start_audit ex ?e ?c (op_source op) w) (\<lambda>started w.
        recovery_guarded (exec_verify_target sqlite_operation_store ex i ?e ?c started w)) = (r, w')" by simp
    with assms(4) show ?thesis
    proof (rule finishes_audit)
      fix started w1
      assume w1: "xw_store w1 = xw_store w"
        and go: "recovery_guarded (exec_verify_target sqlite_operation_store ex i ?e ?c started w1) = (r, w')"
      then obtain q where q: "exec_verify_target sqlite_operation_store ex i ?e ?c started w1 = (q, w')"
        "r = map_err guard_recovery_race q" by (simp add: recovery_guarded_def prod_eq_iff)
      from verify_finishes [OF h1 [OF w1] True q(1)] show "\<not> interrupted r" by (simp add: q(2) interrupted_guarded)
    qed
  next
    case False
    with h(2) have st: "op_state op = Running" by simp
    show ?thesis
    proof (cases row)
      case None
      with run st have "then_do (start_audit ex ?e ?c (op_source op) w)
          (judge_running sqlite_operation_store ex i ?e ?c) = (r, w')" by simp
      with assms(4) show ?thesis by (rule finishes_audit) (rule judge_running_finishes [OF h1 st])
    next
      case (Some task)
      with run st have step: "recover_step sqlite_operation_store ex i RemoteTaskStarted w = (r, w')" by simp
      have "\<exists>f w1. (r, w') = (Inr f, w1) \<and> healthy (ex_clock ex) w1 i f \<and> op_state f = WaitingRemote"
        unfolding step [symmetric] recover_step_def
        by (rule guarded_result [OF healthy_step [OF h(1)]]) (simp add: st)
      then show ?thesis by auto
    qed
  qed
qed

end
