(* ===== verification/Scheduler.thy ===== *)
theory Scheduler
  imports Operation_Executor
begin

text \<open>
  The scheduling loop, \<open>app/src/scheduler.rs\<close>. A sweep lists the recoverable and the queued operations,
  then runs two passes concurrently: the executor pass drives every listed operation by its state, at
  most four at a time, the monitor pass lists the waiting operations and polls them in order. A drive
  holds its endpoint's write gate from start to end and is one step here. The interleaving of the two
  passes and the order in which concurrent drives finish come from a schedule, any list of choices;
  when it is used up, the passes are drained in order.
\<close>

definition TICK_INTERVAL_SECONDS :: nat where
  "TICK_INTERVAL_SECONDS = 2"

definition MAX_CONCURRENT_DRIVES :: nat where
  "MAX_CONCURRENT_DRIVES = 4"

datatype ('e, 'r, 'v, 'x) tick_sweep_error =
    SweepRecovery "'e engine_error"
  | QueuedListing "'e engine_error"
  | MonitorRecovery "('e, 'r, 'v, 'x) task_monitor_error"

datatype drive = DriveExecute operation_id | DriveRecover operation_id

text \<open>
  What a sweep runs with: the executor and the monitor as they meet each operation (with what the
  device answers then), whether an endpoint's write gate can be acquired, the shared instant and the
  interleaving (\<open>Some k\<close>: the k-th drive in flight finishes, \<open>None\<close>: the monitor makes its next call).
\<close>

record ('s, 're, 'ce, 'ae, 'ge, 'ue, 'v, 'addr, 'x, 'l, 'rd) tick =
  tk_executor :: "operation_id \<Rightarrow> ('s, 're, 'ce, 'ae, 'ge, 'ue, 'v, 'addr, 'x, 'l) executor"
  tk_monitor :: "operation_id \<Rightarrow> (redfish_command, 'rd, 'v, 'addr, 'x, 'l) monitor"
  tk_gate :: "endpoint_id \<Rightarrow> bool"
  tk_now :: instant
  tk_schedule :: "nat option list"

section \<open>The executor pass\<close>

definition first_endpoint :: "'c operation \<Rightarrow> endpoint_id option" where
  "first_endpoint op = (case op_targets op of [] \<Rightarrow> None | target # _ \<Rightarrow> Some (tg_endpoint_id target))"

definition drive_of :: "'c operation \<Rightarrow> (drive \<times> endpoint_id option) option" where
  "drive_of op =
     (case op_state op of
        Queued \<Rightarrow> Some (DriveExecute (op_id op), first_endpoint op)
      | Validating \<Rightarrow> Some (DriveExecute (op_id op), first_endpoint op)
      | Running \<Rightarrow> Some (DriveRecover (op_id op), first_endpoint op)
      | Verifying \<Rightarrow> Some (DriveRecover (op_id op), first_endpoint op)
      | _ \<Rightarrow> None)"

fun run_drive ::
  "('s, redfish_command, 'e) operation_store \<Rightarrow> ('s, 'r) remote_task_store
     \<Rightarrow> ('s, 're, 'ce, 'ae, 'ge, 'ue, 'v, 'addr, 'x, 'l, 'rd) tick \<Rightarrow> drive \<Rightarrow> ('s, 'l) executor_world \<Rightarrow> ('s, 'l) executor_world" where
  "run_drive ops tasks t (DriveExecute i) w = snd (execute_operation ops tasks (tk_executor t i) i w)"
| "run_drive ops tasks t (DriveRecover i) w = snd (recover_operation ops tasks (tk_executor t i) i w)"

text \<open>A drive whose gate cannot be acquired is logged and skipped; its errors are only logged.\<close>

definition drive_one ::
  "('s, redfish_command, 'e) operation_store \<Rightarrow> ('s, 'r) remote_task_store
     \<Rightarrow> ('s, 're, 'ce, 'ae, 'ge, 'ue, 'v, 'addr, 'x, 'l, 'rd) tick \<Rightarrow> drive \<times> endpoint_id option
     \<Rightarrow> ('s, 'l) executor_world \<Rightarrow> ('s, 'l) executor_world" where
  "drive_one ops tasks t d w =
     (case d of (drive, endpoint) \<Rightarrow>
        if (case endpoint of None \<Rightarrow> True | Some e \<Rightarrow> tk_gate t e) then run_drive ops tasks t drive w else w)"

section \<open>The monitor pass\<close>

definition poll_effect ::
  "('s, redfish_command, 'e) operation_store \<Rightarrow> ('s, 'r) remote_task_store \<Rightarrow> (redfish_command, 'rd, 'v, 'addr, 'x, 'l) monitor
     \<Rightarrow> operation_id \<Rightarrow> instant \<Rightarrow> ('s, 'l) executor_world \<Rightarrow> ('s, 'l) executor_world" where
  "poll_effect ops tasks m i now w =
     (case snd (poll ops tasks m i now \<lparr>mw_store = xw_store w, mw_audit = xw_audit w\<rparr>) of
        v \<Rightarrow> w\<lparr>xw_store := mw_store v, xw_audit := mw_audit v\<rparr>)"

text \<open>How far the monitor pass is: the waiting list is still to be read, is being polled, or failed.\<close>

datatype 'f monitor_pass = NotListed | Polling "operation_id list" | ListingFailed 'f

fun monitor_next ::
  "('s, redfish_command, 'e) operation_store \<Rightarrow> ('s, 'r) remote_task_store
     \<Rightarrow> ('s, 're, 'ce, 'ae, 'ge, 'ue, 'v, 'addr, 'x, 'l, 'rd) tick
     \<Rightarrow> ('e, 'r, 'v, 'x) task_monitor_error monitor_pass \<Rightarrow> ('s, 'l) executor_world
     \<Rightarrow> ('e, 'r, 'v, 'x) task_monitor_error monitor_pass \<times> ('s, 'l) executor_world" where
  "monitor_next ops tasks t NotListed w =
     (case recover_tasks ops (xw_store w) of
        Inl e \<Rightarrow> (ListingFailed e, w)
      | Inr waiting \<Rightarrow> (Polling (map op_id waiting), w))"
| "monitor_next ops tasks t (Polling (i # is)) w =
     (Polling is, poll_effect ops tasks (tk_monitor t i) i (tk_now t) w)"
| "monitor_next ops tasks t m w = (m, w)"

fun monitor_finish ::
  "('s, redfish_command, 'e) operation_store \<Rightarrow> ('s, 'r) remote_task_store
     \<Rightarrow> ('s, 're, 'ce, 'ae, 'ge, 'ue, 'v, 'addr, 'x, 'l, 'rd) tick
     \<Rightarrow> ('e, 'r, 'v, 'x) task_monitor_error monitor_pass \<Rightarrow> ('s, 'l) executor_world
     \<Rightarrow> (('e, 'r, 'v, 'x) tick_sweep_error + unit) \<times> ('s, 'l) executor_world" where
  "monitor_finish ops tasks t (ListingFailed e) w = (Inl (MonitorRecovery e), w)"
| "monitor_finish ops tasks t (Polling is) w =
     (Inr (), fold (\<lambda>i. poll_effect ops tasks (tk_monitor t i) i (tk_now t)) is w)"
| "monitor_finish ops tasks t NotListed w =
     (case recover_tasks ops (xw_store w) of
        Inl e \<Rightarrow> (Inl (MonitorRecovery e), w)
      | Inr waiting \<Rightarrow>
          (Inr (), fold (\<lambda>i. poll_effect ops tasks (tk_monitor t i) i (tk_now t)) (map op_id waiting) w))"

section \<open>A sweep\<close>

text \<open>The drives in flight are the first \<open>MAX_CONCURRENT_DRIVES\<close> of those left.\<close>

fun passes ::
  "('s, redfish_command, 'e) operation_store \<Rightarrow> ('s, 'r) remote_task_store
     \<Rightarrow> ('s, 're, 'ce, 'ae, 'ge, 'ue, 'v, 'addr, 'x, 'l, 'rd) tick \<Rightarrow> nat option list
     \<Rightarrow> (drive \<times> endpoint_id option) list \<Rightarrow> ('e, 'r, 'v, 'x) task_monitor_error monitor_pass
     \<Rightarrow> ('s, 'l) executor_world \<Rightarrow> (('e, 'r, 'v, 'x) tick_sweep_error + unit) \<times> ('s, 'l) executor_world" where
  "passes ops tasks t [] ds m w = monitor_finish ops tasks t m (fold (drive_one ops tasks t) ds w)"
| "passes ops tasks t (None # choices) ds m w =
     (case monitor_next ops tasks t m w of (m', w') \<Rightarrow> passes ops tasks t choices ds m' w')"
| "passes ops tasks t (Some k # choices) ds m w =
     (if ds = [] then passes ops tasks t choices ds m w
      else let j = k mod min MAX_CONCURRENT_DRIVES (length ds) in
        passes ops tasks t choices (take j ds @ drop (Suc j) ds) m (drive_one ops tasks t (ds ! j) w))"

definition run_tick ::
  "('s, redfish_command, 'e) operation_store \<Rightarrow> ('s, 'r) remote_task_store
     \<Rightarrow> ('s, 're, 'ce, 'ae, 'ge, 'ue, 'v, 'addr, 'x, 'l, 'rd) tick \<Rightarrow> ('s, 'l) executor_world
     \<Rightarrow> (('e, 'r, 'v, 'x) tick_sweep_error + unit) \<times> ('s, 'l) executor_world" where
  "run_tick ops tasks t w =
     (case engine_recover_pending ops (xw_store w) of
        Inl e \<Rightarrow> (Inl (SweepRecovery e), w)
      | Inr recovered \<Rightarrow>
          (case engine_list ops (Some Queued) (xw_store w) of
             Inl e \<Rightarrow> (Inl (QueuedListing e), w)
           | Inr queued \<Rightarrow>
               passes ops tasks t (tk_schedule t) (List.map_filter drive_of (recovered @ queued)) NotListed w))"

section \<open>The loop\<close>

text \<open>
  What wakes the loop: the stop signal, or a tick, with whether the stop signal had fired by then. A
  failed sweep is logged and the loop goes on.
\<close>

datatype 't loop_event = StopSignalled | TickFired bool 't

fun scheduler_run ::
  "('s, redfish_command, 'e) operation_store \<Rightarrow> ('s, 'r) remote_task_store
     \<Rightarrow> ('s, 're, 'ce, 'ae, 'ge, 'ue, 'v, 'addr, 'x, 'l, 'rd) tick loop_event list \<Rightarrow> ('s, 'l) executor_world \<Rightarrow> ('s, 'l) executor_world" where
  "scheduler_run ops tasks [] w = w"
| "scheduler_run ops tasks (StopSignalled # _) w = w"
| "scheduler_run ops tasks (TickFired stopped t # events) w =
     (if stopped then w
      else scheduler_run ops tasks events
        (snd (run_tick ops tasks t w :: (('e, 'r, 'v, 'x) tick_sweep_error + unit) \<times> ('s, 'l) executor_world)))"

end
