(* ===== verification/Scheduler_Progress.thy ===== *)
theory Scheduler_Progress
  imports Executor_On_Sqlite Scheduler
begin

text \<open>
  A sweep on a working site: no call of it is interrupted, so every operation it drives or polls is
  carried to its end, or waits for its remote task.
\<close>

section \<open>Polls on a working site\<close>

definition poll_healthy ::
  "instant \<Rightarrow> ('c sqlite_store, 'l) monitor_world \<Rightarrow> operation_id \<Rightarrow> 'c operation \<Rightarrow> bool" where
  "poll_healthy now w i op \<longleftrightarrow>
     sqlite_task_inv (mw_store w) \<and> (\<forall>c. \<not> ss_fault (mw_store w) c) \<and> sqlite_view (mw_store w) i = Some op
   \<and> op_created_at op \<le> op_updated_at op \<and> op_created_at op \<le> now"

type_synonym ('v, 'x) poll_error = "(operation_repository_error, remote_task_repository_error, 'v, 'x) task_monitor_error"

lemma poll_step_succeeds:
  assumes h: "poll_healthy now w i op" and tr: "transition (op_state op) event = Inr st"
  shows "\<exists>f w1. apply_step sqlite_operation_store i event now w = (Inr f :: ('v, 'x) poll_error + 'c operation, w1) \<and> poll_healthy now w1 i f \<and> op_state f = st"
proof -
  let ?f = "op\<lparr>op_state := st, op_updated_at := now\<rparr>"
  from h have inv: "sqlite_task_inv (mw_store w)" and *: "\<forall>c. \<not> ss_fault (mw_store w) c"
    "sqlite_view (mw_store w) i = Some op" "op_created_at op \<le> op_updated_at op" by (auto simp: poll_healthy_def)
  obtain w1 where w1: "apply_step sqlite_operation_store i event now w = (Inr ?f :: ('v, 'x) poll_error + 'c operation, w1)"
    "ss_fault (mw_store w1) = ss_fault (mw_store w)" using apply_step_succeeds [OF inv * tr] by blast
  from sqlite_monitored.apply_step_result [OF inv *(2) tr w1(1)] w1 h show ?thesis
    by (auto simp: poll_healthy_def)
qed

lemma poll_step_then:
  fixes r :: "('v, 'x) poll_error + 'c task_poll" and m :: "(('v, 'x) poll_error + 'c operation) \<times> ('c sqlite_store, 'l) monitor_world"
  assumes "\<exists>f w1. m = (Inr f, w1) \<and> poll_healthy now w1 i f \<and> op_state f = st" and "then_do m k = (r, w')"
    and "\<And>f w1. poll_healthy now w1 i f \<Longrightarrow> op_state f = st \<Longrightarrow> k f w1 = (r, w') \<Longrightarrow> \<not> is_store_failure r"
  shows "\<not> is_store_failure r"
  using assms(1,2) by (auto dest: assms(3))

lemma poll_record_then:
  fixes r :: "('v, 'x) poll_error + 'c task_poll"
  assumes "then_do (m :: (_ + unit) \<times> _) (\<lambda>_ w. (k, w)) = (r, w')"
    and "\<And>q w1. m = (q, w1) \<Longrightarrow> \<not> is_store_failure q" "\<not> is_store_failure k"
  shows "\<not> is_store_failure r"
  using assms(1)
proof (cases rule: then_do_cases)
  case (failed e)
  with assms(2) [OF failed(1)] show ?thesis by simp
next
  case (continued u w1)
  with assms(3) show ?thesis by simp
qed

lemmas poll_finish = poll_step_then [OF poll_step_succeeds] poll_record_then record_failure_result(2) record_success_result(2)

lemma resolve_unknown_finishes:
  fixes r :: "('v, 'x) poll_error + 'c task_poll"
  assumes "poll_healthy now w i op" "op_state op = WaitingRemote"
    and run: "resolve_unknown sqlite_operation_store m i e src now w = (r, w')"
  shows "\<not> is_store_failure r"
proof -
  have "transition (op_state op) OutcomeUnknown = Inr Unknown" using assms(2) by (simp add: transition_def)
  from assms(1) this run [unfolded resolve_unknown_def] show ?thesis
    by (rule poll_finish(1)) (erule poll_finish(2), erule poll_finish(3), simp)
qed

lemma verify_target_finishes:
  fixes r :: "('v, 'x) poll_error + 'c task_poll"
  assumes h: "poll_healthy now w i op" "op_state op = Verifying"
    and run: "verify_target sqlite_operation_store m i e c src now w = (r, w')"
  shows "\<not> is_store_failure r"
proof -
  have tr: "transition (op_state op) VerificationPassed = Inr Succeeded" "transition (op_state op) EventFailed = Inr Failed"
    "transition (op_state op) OutcomeUnknown = Inr Unknown" using h(2) by (simp_all add: transition_def)
  note run = run [unfolded verify_target_def]
  show ?thesis
  proof (cases "tm_verify m e c")
    case (Inl x)
    from h(1) tr(3) run [unfolded Inl sum.case] show ?thesis
      by (rule poll_finish(1)) (erule poll_finish(2), erule poll_finish(3), simp)
  next
    case (Inr verdict)
    note run = run [unfolded Inr sum.case]
    show ?thesis
    proof (cases verdict)
      case Confirmed
      from h(1) tr(1) run [unfolded Confirmed verification_verdict.case] show ?thesis
        by (rule poll_finish(1)) (erule poll_finish(2), erule poll_finish(4), simp)
    next
      case Mismatched
      from h(1) tr(2) run [unfolded Mismatched verification_verdict.case] show ?thesis
        by (rule poll_finish(1)) (erule poll_finish(2), erule poll_finish(3), simp)
    qed
  qed
qed

lemma save_task_succeeds:
  assumes "\<forall>c. \<not> ss_fault s c" "sqlite_view s (rt_operation_id task) = Some op" "remote_task_ok task"
  shows "\<exists>s'. save_remote_task task s = (Inr (), s')"
proof -
  from assms(2) obtain row where "find_row (ss_database s) (rt_operation_id task) = Some row"
    by (auto simp: sqlite_view_def bind_eq_Some_conv)
  then have "list_ex (\<lambda>r. or_id r = rt_operation_id task) (db_operations (ss_database s))"
    using find_row_mem by (fastforce simp: list_ex_iff)
  moreover obtain percent where "map_transpose percent_complete_i32 (rt_percent_complete task) = Inr percent"
    using assms(3) percent_roundtrip
    by (cases "rt_percent_complete task") (fastforce simp: map_transpose_def remote_task_ok_def)+
  ultimately show ?thesis using assms(1)
    by (simp add: save_remote_task_def task_read_tx_def task_guard_def write_task_row_def remote_task_row_of_def)
qed

lemma observe_finishes:
  fixes r :: "('v, 'x) poll_error + 'c task_poll"
  assumes h: "poll_healthy now w (op_id op) op" "op_state op = WaitingRemote"
    and task: "remote_task_ok task" "rt_operation_id task = op_id op"
    and uri: "\<And>u. to_task_monitor_uri obs = Some u \<Longrightarrow> task_uri_parse u = Inr u"
    and run: "observe sqlite_operation_store sqlite_remote_task_store m op task obs now w = (r, w')"
  shows "\<not> is_store_failure r"
proof (cases "to_state obs")
  case None
  show ?thesis by (rule resolve_unknown_finishes [OF h run [unfolded observe_def None option.case]])
next
  case (Some st)
  obtain row where row: "updated_row task obs st now = Inr row" "rt_operation_id row = rt_operation_id task"
    using updated_row_ok by blast
  have ok: "remote_task_ok row" by (rule updated_row_well_formed [OF task(1) uri row(1)])
  obtain s' where s': "save_remote_task row (mw_store w) = (Inr (), s')"
    using save_task_succeeds [of "mw_store w" row op] h(1) row(2) task(2) ok by (auto simp: poll_healthy_def)
  let ?w = "w\<lparr>mw_store := s'\<rparr>"
  have h': "poll_healthy now ?w (op_id op) op"
    using h(1) save_remote_task_ok [OF _ ok s'] repository_keeps_faults(4) [OF s'] by (auto simp: poll_healthy_def)
  have saved: "save_observation sqlite_remote_task_store row w = (Inr () :: ('v, 'x) poll_error + unit, ?w)"
    using s' by (simp add: save_observation_def)
  note run = run [unfolded observe_def Some option.case row(1) sum.case saved then_do_simps(2)]
  have tr: "transition (op_state op) RemoteTaskCompleted = Inr Verifying" "transition (op_state op) EventFailed = Inr Failed"
    using h(2) by (simp_all add: transition_def)
  show ?thesis
  proof (cases "task_is_terminal st")
    case False
    with run show ?thesis by auto
  next
    case True
    show ?thesis
    proof (cases "st = Task_Completed")
      case completed: True
      with run True have "then_do (apply_step sqlite_operation_store (op_id op) RemoteTaskCompleted now ?w) (\<lambda>_ w.
          verify_target sqlite_operation_store m (op_id op) (rt_endpoint_id task) (op_command op) (op_source op) now w) = (r, w')"
        by simp
      with h' tr(1) show ?thesis by (rule poll_finish(1)) (rule verify_target_finishes)
    next
      case False
      with run True have "then_do (apply_step sqlite_operation_store (op_id op) EventFailed now ?w) (\<lambda>final_operation w.
          then_do (record_failure m (rt_endpoint_id task) (op_source op) Fail_RedfishDiscoveryFailed FailureVerified_Rejected now w)
            (\<lambda>_ w. (Inr (PollTerminal final_operation), w))) = (r, w')" by simp
      with h' tr(2) show ?thesis by (rule poll_finish(1)) (erule poll_finish(2), erule poll_finish(3), simp)
    qed
  qed
qed

lemma poll_finishes:
  fixes r :: "('v, 'x) poll_error + 'c task_poll"
  assumes h: "poll_healthy now w i op" "op_state op = WaitingRemote" and "op_targets op \<noteq> []" "reader_ok m"
    and run: "poll sqlite_operation_store sqlite_remote_task_store m i now w = (r, w')"
  shows "\<not> is_store_failure r"
proof -
  from h(1) have inv: "sqlite_task_inv (mw_store w)" and view: "sqlite_view (mw_store w) i = Some op"
    and faults: "\<forall>c. \<not> ss_fault (mw_store w) c" by (auto simp: poll_healthy_def)
  have i: "op_id op = i" using sqlite_view_id [OF view] .
  have found: "find_operation i (mw_store w) = Inr (Some op)"
    by (rule find_operation_succeeds) (use h(1) in \<open>auto simp: poll_healthy_def sqlite_task_inv_def\<close>)
  obtain target rest where ts: "op_targets op = target # rest" using assms(3) by (cases "op_targets op") auto
  obtain row where row: "find_remote_task i (mw_store w) = Inr row" using find_task_succeeds [OF inv faults] by blast
  note run = run [unfolded poll_def sqlite_operation_store_sel sqlite_remote_task_store_sel found row ts
      sum.case option.case list.case]
  note unknown = resolve_unknown_finishes [OF h, of m "tg_endpoint_id target" "op_source op" r w']
  show ?thesis
  proof (cases row)
    case None
    with run h(2) show ?thesis by (intro unknown) simp
  next
    case (Some task)
    note task = sqlite_monitored.task_view_ok [OF inv sqlite_monitored.find_task [OF inv, symmetric], unfolded sqlite_remote_task_store_sel, OF row [unfolded Some]]
    show ?thesis
    proof (cases "tm_read_task m (tg_endpoint_id target) (rt_task_uri task)")
      case (Inl e)
      with run h(2) Some show ?thesis by auto
    next
      case (Inr answer)
      show ?thesis
      proof (cases answer)
        case none: None
        with run h(2) Some Inr show ?thesis by (intro unknown) simp
      next
        case obs: (Some obs)
        with run h(2) Some Inr have go: "observe sqlite_operation_store sqlite_remote_task_store m op task obs now w = (r, w')" by simp
        show ?thesis
          by (rule observe_finishes [OF _ h(2) _ _ _ go])
             (use h(1) i task assms(4) Inr obs in \<open>auto simp: reader_ok_def\<close>)
      qed
    qed
  qed
qed

end
