(* ===== verification/Executor_Demo.thy ===== *)
theory Executor_Demo
  imports Executor_On_Sqlite Scheduler
begin

text \<open>
  A demonstration site: the demonstration database of \<open>Engine_On_Sqlite\<close> with a Redfish command, an
  executor whose device accepts and confirms, and a monitor. It shows that the hypotheses of the
  executor's and the scheduler's properties can hold together.
\<close>

definition demo_command :: redfish_command where
  "demo_command = Cmd_Telemetry (SetEnabled True)"

definition demo_site :: "operation_state \<Rightarrow> redfish_command sqlite_store" where
  "demo_site st =
     \<lparr>ss_command_key = Some (replicate 32 1), ss_database = ss_database (demo_store st), ss_cipher = demo_lib,
      ss_to_json = (\<lambda>c. if c = demo_command then Some [123] else None),
      ss_from_json = (\<lambda>j. if j = [123] then Some demo_command else None),
      ss_getrandom = (\<lambda>_. Some (replicate 24 7)), ss_fault = (\<lambda>_. False)\<rparr>"

definition demo_site_operation :: "operation_state \<Rightarrow> redfish_command operation" where
  "demo_site_operation st =
     \<lparr>op_id = 1, op_source = Center, op_targets = [operation_target_new 5 9], op_command = demo_command,
      op_state = st, op_created_at = 0, op_updated_at = 0\<rparr>"

definition demo_capability :: stored_capability where
  "demo_capability = \<lparr>sc_observation = endpoint_capability_observation_new endpoint_capability.TelemetryService capability_state.Supported,
     sc_observed_at = 0\<rparr>"

definition demo_endpoint :: "ustring endpoint" where
  "demo_endpoint =
     \<lparr>ep_id = 9, ep_display_name = ascii ''bmc'', ep_address = ascii ''https://bmc'',
      ep_trust = PinnedCertificate \<lparr>tc_fingerprint = replicate 32 0, tc_certificate_der = [1]\<rparr> 0,
      ep_credential_id = 3, ep_created_at = 0, ep_updated_at = 0\<rparr>"

definition demo_executor ::
  "(redfish_command sqlite_store, unit, unit, unit, unit, unit, unit, ustring, unit, ustring audit_event list) executor" where
  "demo_executor =
     \<lparr>ex_find_endpoint = (\<lambda>_ _. Inr (Some demo_endpoint)), ex_find_endpoint_capabilities = (\<lambda>_ _. Inr (Some [demo_capability])),
      ex_find_artifact = (\<lambda>_ _. Inr None), ex_artifact_bytes = (\<lambda>_. None),
      ex_execute_command = (\<lambda>_ _. Inr WriteAccepted), ex_execute_update = (\<lambda>_ _ _. Inr WriteRejected),
      ex_gateway_verdict = (\<lambda>_. NotExecuted), ex_update_verdict = (\<lambda>_. NotExecuted),
      ex_verify = (\<lambda>_ _. Inr Confirmed), ex_append = (\<lambda>event l. (Inr (), l @ [event])), ex_clock = int,
      ex_actor = Actor_System, ex_origin = Posture_Site, ex_fresh_operation_id = 7, ex_fresh_start_id = 8,
      ex_fresh_terminal_id = 10\<rparr>"

definition demo_world :: "operation_state \<Rightarrow> (redfish_command sqlite_store, ustring audit_event list) executor_world" where
  "demo_world st = \<lparr>xw_store = demo_site st, xw_audit = [], xw_writes = [], xw_ticks = 0\<rparr>"

lemma demo_world_sel [simp]:
  "xw_store (demo_world st) = demo_site st" "xw_writes (demo_world st) = []"
  by (simp_all add: demo_world_def)

lemma demo_site_sel [simp]: "ss_fault (demo_site st) c = False" "ss_database (demo_site st) = ss_database (demo_store st)"
  by (simp_all add: demo_site_def)

lemma demo_site_deserialize: "deserialize_command (demo_site st) [123] i = Inr demo_command"
  by (simp add: deserialize_command_def demo_no_prefix) (simp add: demo_site_def)

lemma demo_site_inv: "sqlite_task_inv (demo_site st)"
proof -
  have "codec_ok (demo_site st)"
    using demo_lib_ok by (auto simp: codec_ok_def demo_site_def valid_str_def scalar_value_def COMMAND_NONCE_LENGTH_def
        split: if_splits)
  moreover have "row_ok (demo_site st) (demo_row st)"
    using demo_site_deserialize [of st 1]
    by (simp add: row_ok_def map_failure_kind_def demo_row_def demo_source)
  moreover have "db_operations (ss_database (demo_store st)) = [demo_row st]" "db_batches (ss_database (demo_store st)) = []"
    "db_remote_tasks (ss_database (demo_store st)) = []"
    by (simp_all add: demo_store_def)
  moreover have "db_ok (demo_store st) (ss_database (demo_store st))" using demo_inv [of st] by (simp add: sqlite_inv_def)
  ultimately show ?thesis
    by (auto simp: sqlite_task_inv_def tasks_ok_def sqlite_inv_def db_ok_def)
qed

lemma demo_site_view: "sqlite_view (demo_site st) i = (if i = 1 then Some (demo_site_operation st) else None)"
proof -
  have "select_targets (ss_database (demo_store st)) 1 = [operation_target_new 5 9]"
    by (simp add: select_targets_def demo_store_def)
  moreover have "or_id (demo_row st) = 1" "or_source (demo_row st) = ''center''"
    "or_state (demo_row st) = operation_state_as_str st" "or_command (demo_row st) = [123]"
    "or_created_at (demo_row st) = 0" "or_updated_at (demo_row st) = 0"
    by (simp_all add: demo_row_def)
  ultimately show ?thesis
    by (simp add: sqlite_view_def demo_find_row row_operation_def demo_site_deserialize demo_source demo_site_operation_def)
qed

lemma demo_executor_sel:
  "ex_find_endpoint demo_executor e s = Inr (Some demo_endpoint)" "ex_execute_command demo_executor e c = Inr WriteAccepted"
  "ex_verify demo_executor e c = Inr Confirmed"
  by (simp_all add: demo_executor_def)

lemma demo_gateway_ok: "gateway_ok demo_executor"
  by (simp add: gateway_ok_def demo_executor_def)

lemma demo_accepts: "accepts_facts demo_executor src"
  by (cases src) (simp_all add: accepts_facts_def demo_executor_def)

lemma demo_healthy: "healthy (ex_clock demo_executor) (demo_world st) 1 (demo_site_operation st)"
  using demo_site_inv [of st] demo_site_view [of st 1]
  by (simp add: healthy_def demo_executor_def demo_site_operation_def)

lemma demo_capabilities:
  "\<exists>entries. capability_query (ex_find_endpoint_capabilities demo_executor s) e = Inr (Some entries)
     \<and> required_capability_state endpoint_capability.TelemetryService entries = Some capability_state.Supported"
proof -
  let ?repo = "ex_find_endpoint_capabilities demo_executor s"
  obtain entries where q: "capability_query ?repo e = Inr (Some entries)"
    by (simp add: capability_query_def demo_executor_def demo_capability_def endpoint_capability_observation_new_def)
  from capability_query_Some(2) [OF q] have "required_capability_state endpoint_capability.TelemetryService entries = Some capability_state.Supported"
    by (auto simp: required_capability_state_def demo_executor_def demo_capability_def endpoint_capability_observation_new_def)
  with q show ?thesis by blast
qed

lemma demo_plan:
  "execute_plan demo_executor (demo_site_operation st) s b = (Succeeded, [CommandWrite 9 demo_command])"
proof -
  obtain entries where "capability_query (ex_find_endpoint_capabilities demo_executor s) 9 = Inr (Some entries)"
    "required_capability_state endpoint_capability.TelemetryService entries = Some capability_state.Supported"
    using demo_capabilities [of s 9] by blast
  then show ?thesis
    by (simp add: execute_plan_def Let_def demo_site_operation_def operation_target_new_def dispatch_plan_def
        demo_command_def preflight_artifact_def outcome_state_def verify_state_def demo_executor_sel)
qed

lemma demo_execute:
  fixes r :: "(unit, unit, unit, unit, unit, unit, unit) site_result"
  assumes "execute_operation sqlite_operation_store sqlite_remote_task_store demo_executor 1 (demo_world Queued) = (r, w')"
  shows "xw_writes w' = [CommandWrite 9 demo_command] \<and> (\<exists>op. sqlite_view (xw_store w') 1 = Some op \<and> op_state op = Succeeded)"
proof -
  let ?op = "demo_site_operation Queued" and ?w = "demo_world Queued"
  have op: "op_state ?op = Queued \<or> op_state ?op = Validating" "op_targets ?op \<noteq> []" by (simp_all add: demo_site_operation_def)
  have view: "sqlite_task_inv (xw_store ?w)" "sqlite_view (xw_store ?w) 1 = Some ?op"
    using demo_site_inv demo_site_view [of Queued 1] by simp_all
  from execute_finishes [OF demo_healthy op(1) demo_gateway_ok op(2) demo_accepts assms]
    sqlite_executor.execute_settles [OF view op(1) demo_gateway_ok op(2) assms]
  show ?thesis by (auto simp: attempt_settles_def demo_plan)
qed

text \<open>A sweep over the demonstration site.\<close>

definition demo_site_monitor :: "(redfish_command, unit, unit, ustring, unit, ustring audit_event list) monitor" where
  "demo_site_monitor = \<lparr>tm_read_task = (\<lambda>_ _. Inr None), tm_verify = (\<lambda>_ _. Inr Confirmed),
     tm_append = (\<lambda>event l. (Inr (), l @ [event])), tm_actor = Actor_System, tm_origin = Posture_Site,
     tm_fresh_operation_id = 11, tm_fresh_event_id = 12\<rparr>"

definition demo_tick ::
  "(redfish_command sqlite_store, unit, unit, unit, unit, unit, unit, ustring, unit, ustring audit_event list, unit) tick" where
  "demo_tick = \<lparr>tk_executor = (\<lambda>_. demo_executor), tk_monitor = (\<lambda>_. demo_site_monitor), tk_gate = (\<lambda>_. True),
     tk_now = 5, tk_schedule = [None, Some 0]\<rparr>"

end
