(* ===== verification/Executor_Properties.thy ===== *)
theory Executor_Properties
  imports Executor_Demo Histories
begin

text \<open>
  The executor on the SQLite repositories: a write is handed to the device at most once over any
  history of a site, and every attempt implements the decision table. A history is a list of calls:
  execution and recovery attempts, polls of the task monitor, the engine's own methods and changes of
  which database calls fail. The scheduler holds one write gate per endpoint for a whole drive, so two
  attempts on one operation never overlap; each attempt is one step here.
\<close>

section \<open>Histories of a site\<close>

type_synonym site_store = "redfish_command sqlite_store"

datatype ('re, 'ce, 'ae, 'ge, 'ue, 'v, 'addr, 'x, 'l, 'rd) site_call =
    ExecuteCall "(site_store, 're, 'ce, 'ae, 'ge, 'ue, 'v, 'addr, 'x, 'l) executor" operation_id
  | RecoverCall "(site_store, 're, 'ce, 'ae, 'ge, 'ue, 'v, 'addr, 'x, 'l) executor" operation_id
  | PollCall "(redfish_command, 'rd, 'v, 'addr, 'x, 'l) monitor" operation_id instant
  | CreateCall operation_id operation_source "operation_target list" redfish_command instant
  | CreateBatchCall "nat \<Rightarrow> uuid" operation_source "operation_target list" redfish_command instant
  | ApplyCall operation_id operation_event instant
  | ApplyIfCall operation_id operation_state operation_event instant
  | EnvironmentCall "db_call \<Rightarrow> bool" "uuid \<Rightarrow> byte list option"

fun site_effect ::
  "('re, 'ce, 'ae, 'ge, 'ue, 'v, 'addr, 'x, 'l, 'rd) site_call \<Rightarrow> (site_store, 'l) executor_world \<Rightarrow> (site_store, 'l) executor_world" where
  "site_effect (ExecuteCall ex i) w = snd (execute_operation sqlite_operation_store sqlite_remote_task_store ex i w)"
| "site_effect (RecoverCall ex i) w = snd (recover_operation sqlite_operation_store sqlite_remote_task_store ex i w)"
| "site_effect (PollCall m i now) w = poll_effect sqlite_operation_store sqlite_remote_task_store m i now w"
| "site_effect (CreateCall i src ts c now) w =
     w\<lparr>xw_store := snd (engine_create sqlite_operation_store i src ts c now (xw_store w))\<rparr>"
| "site_effect (CreateBatchCall fresh src ts c now) w =
     w\<lparr>xw_store := snd (engine_create_batch sqlite_operation_store fresh src ts c now (xw_store w))\<rparr>"
| "site_effect (ApplyCall i event now) w =
     w\<lparr>xw_store := snd (engine_apply sqlite_operation_store i event now (xw_store w))\<rparr>"
| "site_effect (ApplyIfCall i expected event now) w =
     w\<lparr>xw_store := snd (engine_apply_if_current sqlite_operation_store i expected event now (xw_store w))\<rparr>"
| "site_effect (EnvironmentCall faults rnd) w = w\<lparr>xw_store := (xw_store w)\<lparr>ss_fault := faults, ss_getrandom := rnd\<rparr>\<rparr>"

text \<open>A step replies with the writes it handed to the device.\<close>

definition site_step ::
  "('re, 'ce, 'ae, 'ge, 'ue, 'v, 'addr, 'x, 'l, 'rd) site_call \<Rightarrow> (site_store, 'l) executor_world
     \<Rightarrow> device_write list \<times> (site_store, 'l) executor_world" where
  "site_step call w = (drop (length (xw_writes w)) (xw_writes (site_effect call w)), site_effect call w)"

fun call_ok :: "('re, 'ce, 'ae, 'ge, 'ue, 'v, 'addr, 'x, 'l, 'rd) site_call \<Rightarrow> bool" where
  "call_ok (ExecuteCall ex _) = gateway_ok ex"
| "call_ok (PollCall m _ _) = reader_ok m"
| "call_ok (EnvironmentCall _ rnd) = (\<forall>i n. rnd i = Some n \<longrightarrow> length n = COMMAND_NONCE_LENGTH)"
| "call_ok _ = True"

text \<open>An operation whose write cannot have been sent yet: unknown, queued or validating.\<close>

definition undispatched :: "operation_id \<Rightarrow> ('s \<Rightarrow> operation_id \<Rightarrow> redfish_command operation option) \<Rightarrow> 's \<Rightarrow> bool" where
  "undispatched i view s \<longleftrightarrow> (\<forall>op. view s i = Some op \<longrightarrow> op_state op = Queued \<or> op_state op = Validating)"

section \<open>What one call does to the writes\<close>

text \<open>No call makes a dispatched operation undispatched, and only an execution attempt writes, once, while dispatching.\<close>

definition call_safe ::
  "('s \<Rightarrow> bool) \<Rightarrow> ('s \<Rightarrow> operation_id \<Rightarrow> redfish_command operation option) \<Rightarrow> operation_id option
     \<Rightarrow> ('s, 'l) executor_world \<Rightarrow> ('s, 'l) executor_world \<Rightarrow> bool" where
  "call_safe invariant view executed w w' \<longleftrightarrow>
     invariant (xw_store w') \<and> (\<forall>j. undispatched j view (xw_store w') \<longrightarrow> undispatched j view (xw_store w))
   \<and> (xw_writes w' = xw_writes w
      \<or> (\<exists>i d. executed = Some i \<and> xw_writes w' = xw_writes w @ [d]
           \<and> undispatched i view (xw_store w) \<and> \<not> undispatched i view (xw_store w')))"

lemma call_safe_quiet:
  assumes "invariant (xw_store w')" "xw_writes w' = xw_writes w"
    and "\<And>j. view (xw_store w') j = view (xw_store w) j \<or> view (xw_store w) j = None
      \<or> (\<exists>op. view (xw_store w') j = Some op \<and> op_state op \<noteq> Queued \<and> op_state op \<noteq> Validating)
      \<or> undispatched j view (xw_store w)"
  shows "call_safe invariant view executed w w'"
  unfolding call_safe_def
proof (intro conjI allI impI disjI1)
  fix j
  assume "undispatched j view (xw_store w')"
  with assms(3) [of j] show "undispatched j view (xw_store w)" by (auto simp: undispatched_def)
qed (use assms in simp_all)

lemma call_safe_moved:
  assumes "invariant (xw_store w')" "xw_writes w' = xw_writes w" "\<And>j. j \<noteq> i \<Longrightarrow> view (xw_store w') j = view (xw_store w) j"
    and "view (xw_store w') i = Some op" "op_state op \<noteq> Queued" "op_state op \<noteq> Validating"
  shows "call_safe invariant view executed w w'"
  using assms(1,2)
proof (rule call_safe_quiet)
  fix j
  show "view (xw_store w') j = view (xw_store w) j \<or> view (xw_store w) j = None
      \<or> (\<exists>op. view (xw_store w') j = Some op \<and> op_state op \<noteq> Queued \<and> op_state op \<noteq> Validating)
      \<or> undispatched j view (xw_store w)"
    using assms(3-6) by (cases "j = i") auto
qed

lemma attempt_safe:
  assumes "attempt_settles invariant view clock i B p r w w'" "view (xw_store w) i = Some op"
    and "\<And>st ws. (st, ws) \<in> insert p B \<Longrightarrow> (ws = [] \<or> (\<exists>d. ws = [d]) \<and> executed = Some i
        \<and> (op_state op = Queued \<or> op_state op = Validating) \<and> st \<noteq> Queued \<and> st \<noteq> Validating)
      \<and> (op_state op \<noteq> Queued \<and> op_state op \<noteq> Validating \<longrightarrow> st \<noteq> Queued \<and> st \<noteq> Validating)"
  shows "call_safe invariant view executed w w'"
proof -
  from assms(1) obtain op' ws where *: "invariant (xw_store w')" "\<And>j. j \<noteq> i \<Longrightarrow> view (xw_store w') j = view (xw_store w) j"
    "view (xw_store w') i = Some op'" "xw_writes w' = xw_writes w @ ws" "(op_state op', ws) \<in> insert p B"
    by (auto simp: attempt_settles_def split: if_splits)
  from assms(3) [OF *(5)] show ?thesis
    using * assms(2) unfolding call_safe_def undispatched_def by (metis append_Nil2 option.inject)
qed

lemma outcome_state_dispatched [simp]:
  "outcome_state ex e c outcome verdict b \<noteq> Queued" "outcome_state ex e c outcome verdict b \<noteq> Validating"
  by (auto simp: outcome_state_def verify_state_def split: sum.splits command_outcome.splits dispatch_verdict.splits
      verification_verdict.splits)

lemma execute_plan_writes:
  assumes "execute_plan ex op s b = (st, ws)"
  shows "ws = [] \<or> (\<exists>d. ws = [d]) \<and> st \<noteq> Queued \<and> st \<noteq> Validating"
  using assms
  by (auto simp: execute_plan_def Let_def dispatch_plan_def split: sum.splits option.splits if_splits
      update_artifact_resolution_error.splits)

lemma execute_plan_snd: "snd (execute_plan ex op s b) = snd (execute_plan ex op s b')"
  by (auto simp: execute_plan_def Let_def dispatch_plan_def split: sum.splits option.splits if_splits
      update_artifact_resolution_error.splits)

lemma transition_dispatched:
  "transition st event = Inr st' \<Longrightarrow> st \<noteq> Queued \<Longrightarrow> st \<noteq> Validating \<Longrightarrow> st' \<noteq> Queued \<and> st' \<noteq> Validating"
  by (cases st; cases event) (simp_all add: transition_def)

lemma sum_state_cases:
  obtains (1) e s where "m = (Inl e, s)" | (2) x s where "m = (Inr x, s)"
  by (metis prod.exhaust sum.exhaust)

context executor_store
begin

lemma execute_safe:
  assumes "inv (xw_store w)" "gateway_ok ex"
  shows "call_safe inv view (Some i) w (snd (execute_operation ops tasks ex i w))"
proof (cases "\<exists>op. view (xw_store w) i = Some op \<and> (op_state op = Queued \<or> op_state op = Validating) \<and> op_targets op \<noteq> []")
  case True
  then obtain op where op: "view (xw_store w) i = Some op" "op_state op = Queued \<or> op_state op = Validating" "op_targets op \<noteq> []" by blast
  obtain r w' where run: "execute_operation ops tasks ex i w = (r, w')" by fastforce
  let ?p = "\<lambda>b. execute_plan ex op (xw_store w) b"
  have plans: "ws = [] \<or> (\<exists>d. ws = [d]) \<and> st \<noteq> Queued \<and> st \<noteq> Validating"
    if "(st, ws) \<in> insert (?p b) (execute_stages (op_state op) (snd (?p True)))" for st ws b
    using that execute_plan_writes [of ex op "xw_store w" b] execute_plan_writes [of ex op "xw_store w" True]
    by (cases "?p True"; cases "?p b") (auto simp: execute_stages_def split: if_splits)
  show ?thesis
    unfolding run snd_conv
    by (rule attempt_safe [OF execute_settles [OF assms(1) op(1,2) assms(2) op(3) run] op(1)])
       (use plans op(2) in blast)
next
  case False
  have "snd (execute_operation ops tasks ex i w) = w"
    using False find_reads_view [OF assms(1), of i]
    by (auto simp: execute_operation_def split: sum.splits option.splits list.splits)
  with assms(1) show ?thesis by (auto intro: call_safe_quiet)
qed

lemma recover_safe:
  assumes "inv (xw_store w)"
  shows "call_safe inv view executed w (snd (recover_operation ops tasks ex i w))"
proof (cases "\<exists>op. view (xw_store w) i = Some op \<and> (op_state op = Running \<or> op_state op = Verifying) \<and> op_targets op \<noteq> []")
  case True
  then obtain op where op: "view (xw_store w) i = Some op" "op_state op = Running \<or> op_state op = Verifying" "op_targets op \<noteq> []" by blast
  obtain r w' where run: "recover_operation ops tasks ex i w = (r, w')" by fastforce
  show ?thesis
    unfolding run snd_conv
    by (rule attempt_safe [OF recover_settles [OF assms op run] op(1)])
       (use op(2) in \<open>auto simp: recover_plan_def Let_def judge_state_def verify_state_def
          split: if_splits sum.splits verification_verdict.splits\<close>)
next
  case False
  have "snd (recover_operation ops tasks ex i w) = w"
    using False find_reads_view [OF assms, of i]
    by (auto simp: recover_operation_def split: sum.splits option.splits list.splits)
  with assms show ?thesis by (auto intro: call_safe_quiet)
qed

lemma poll_safe:
  assumes "inv (xw_store w)" "reader_ok m"
  shows "call_safe inv view executed w (poll_effect ops tasks m i now w)"
proof -
  let ?v = "\<lparr>mw_store = xw_store w, mw_audit = xw_audit w\<rparr>"
  obtain r v' where run: "poll ops tasks m i now ?v = (r, v')" by fastforce
  then have eff: "poll_effect ops tasks m i now w = w\<lparr>xw_store := mw_store v', xw_audit := mw_audit v'\<rparr>"
    by (simp add: poll_effect_def)
  show ?thesis
  proof (cases "\<exists>op. view (xw_store w) i = Some op \<and> op_state op = WaitingRemote \<and> op_targets op \<noteq> []")
    case True
    then obtain op where op: "view (mw_store ?v) i = Some op" "op_state op = WaitingRemote" "op_targets op \<noteq> []" by auto
    from assms(1) have "inv (mw_store ?v)" by simp
    from poll_settles [OF this op(1,2,3) assms(2) run] obtain op' where
      *: "inv (mw_store v')" "\<And>j. j \<noteq> i \<Longrightarrow> view (mw_store v') j = view (xw_store w) j" "view (mw_store v') i = Some op'"
      "op_state op' \<in> {WaitingRemote, Verifying, monitor_verdict m op (task_view (xw_store w) i)}"
      by (auto simp: settles_def split: if_splits)
    have "monitor_verdict m op row \<noteq> Queued \<and> monitor_verdict m op row \<noteq> Validating" for row
      by (auto simp: monitor_verdict_def split: option.splits sum.splits verification_verdict.splits if_splits)
    with *(4) have "op_state op' \<noteq> Queued" "op_state op' \<noteq> Validating" by auto
    with *(1-3) show ?thesis unfolding eff by (intro call_safe_moved [of _ _ _ i _ op']) simp_all
  next
    case False
    have "v' = ?v" using run False find_reads_view [OF assms(1), of i]
      by (auto simp: poll_def split: sum.splits option.splits list.splits if_splits)
    with assms(1) show ?thesis unfolding eff by (auto intro: call_safe_quiet)
  qed
qed

lemma engine_safe:
  assumes "inv (xw_store w)"
  shows "call_safe inv view executed w (w\<lparr>xw_store := snd (engine_apply ops i event now (xw_store w))\<rparr>)"
    and "call_safe inv view executed w (w\<lparr>xw_store := snd (engine_apply_if_current ops i expected event now (xw_store w))\<rparr>)"
    and "call_safe inv view executed w (w\<lparr>xw_store := snd (engine_create ops i src ts c now (xw_store w))\<rparr>)"
proof -
  have stepped: "call_safe inv view executed w (w\<lparr>xw_store := s'\<rparr>)"
    if "inv s'" "view (xw_store w) i = Some op" "transition (op_state op) event = Inr (op_state op')"
      "view s' = (view (xw_store w))(i \<mapsto> op')" for s' op op'
    using that transition_dispatched [OF that(3)] by (intro call_safe_quiet) (auto simp: undispatched_def)
  have same: "call_safe inv view executed w (w\<lparr>xw_store := xw_store w\<rparr>)"
    using assms by (intro call_safe_quiet) auto
  show "call_safe inv view executed w (w\<lparr>xw_store := snd (engine_apply ops i event now (xw_store w))\<rparr>)"
  proof (cases "engine_apply ops i event now (xw_store w)" rule: sum_state_cases)
    case (1 e s')
    with same engine_error_writes_nothing(1) [OF 1] show ?thesis by simp
  next
    case (2 op' s')
    with engine_apply_ok [OF assms 2] stepped show ?thesis by auto
  qed
  show "call_safe inv view executed w (w\<lparr>xw_store := snd (engine_apply_if_current ops i expected event now (xw_store w))\<rparr>)"
  proof (cases "engine_apply_if_current ops i expected event now (xw_store w)" rule: sum_state_cases)
    case (1 e s')
    with same engine_error_writes_nothing(2) [OF 1] show ?thesis by simp
  next
    case (2 op' s')
    with engine_apply_if_current_ok [OF assms 2] stepped show ?thesis by auto
  qed
  show "call_safe inv view executed w (w\<lparr>xw_store := snd (engine_create ops i src ts c now (xw_store w))\<rparr>)"
  proof (cases "engine_create ops i src ts c now (xw_store w)" rule: sum_state_cases)
    case (1 e s')
    with same engine_error_writes_nothing(3) [OF 1] show ?thesis by simp
  next
    case (2 op' s')
    then obtain u where create: "st_create_operation ops (operation_new i src ts c now) (xw_store w) = (Inr u, s')"
      by (auto simp: engine_create_def Let_def split: if_splits sum.splits prod.splits)
    from create_ok [OF assms create] have "inv s'"
      "\<And>j. view s' j = view (xw_store w) j \<or> view (xw_store w) j = None" by (auto split: if_splits)
    then show ?thesis unfolding 2 by (intro call_safe_quiet) (simp_all, blast)
  qed
qed

end

text \<open>A batch: like a single creation, it adds rows and changes none.\<close>

lemma create_batch_tasks:
  assumes "create_batch b cs s = (Inr u, s')"
  shows "db_remote_tasks (ss_database s') = db_remote_tasks (ss_database s)"
proof -
  have fold: "fold_res (insert_operation_aggregate s bid) cs d = Inr d' \<Longrightarrow> db_remote_tasks d' = db_remote_tasks d" for d d' bid
    by (induction cs arbitrary: d) (auto simp: result_simps dest: insert_aggregate_tasks)
  show ?thesis using assms by (cases rule: create_batch_Inr) (auto dest: fold)
qed

lemma batch_safe:
  assumes inv: "sqlite_task_inv (xw_store w)"
  shows "call_safe sqlite_task_inv sqlite_view executed w
    (w\<lparr>xw_store := snd (engine_create_batch sqlite_operation_store fresh src ts c now (xw_store w))\<rparr>)"
proof -
  let ?b = "batch_operation_new (fresh 0) src c now" and ?s = "xw_store w"
  let ?cs = "batch_children fresh src ts (ba_command ?b) now"
  obtain q s' where create: "create_batch ?b ?cs ?s = (q, s')" by fastforce
  have same: "call_safe sqlite_task_inv sqlite_view executed w (w\<lparr>xw_store := ?s\<rparr>)"
    using inv by (intro call_safe_quiet) auto
  have "call_safe sqlite_task_inv sqlite_view executed w (w\<lparr>xw_store := s'\<rparr>)"
  proof (cases q)
    case (Inl e)
    have "s' = ?s" using create_batch_error [OF create [unfolded Inl]] .
    with same show ?thesis by simp
  next
    case (Inr u)
    note create = create [unfolded Inr]
    from inv have inv1: "sqlite_inv ?s" by (simp add: sqlite_task_inv_def)
    show ?thesis
    proof (cases "sqlite_batch_view ?s (ba_id ?b)")
      case (Some b)
      with create_batch_redelivered [OF inv1 create] same show ?thesis by simp
    next
      case None
      from create_batch_ok [OF inv1 create None] have ok: "sqlite_inv s'"
        "\<And>j. sqlite_view s' j = sqlite_view ?s j \<or> sqlite_view ?s j = None" by (auto split: option.splits)
      from ok(1) inv tasks_ok_keep [OF create_batch_tasks [OF create]] have "sqlite_task_inv s'"
        by (simp add: sqlite_task_inv_def)
      with ok(2) show ?thesis by (intro call_safe_quiet) (simp_all, blast)
    qed
  qed
  with create same show ?thesis
    by (cases q) (auto simp: engine_create_batch_def Let_def)
qed

lemma environment_safe:
  assumes "sqlite_task_inv (xw_store w)" "\<forall>i n. rnd i = Some n \<longrightarrow> length n = COMMAND_NONCE_LENGTH"
  shows "call_safe sqlite_task_inv sqlite_view executed w
    (w\<lparr>xw_store := (xw_store w)\<lparr>ss_fault := faults, ss_getrandom := rnd\<rparr>\<rparr>)"
proof -
  let ?s = "(xw_store w)\<lparr>ss_fault := faults, ss_getrandom := rnd\<rparr>"
  have "sqlite_env (xw_store w) ?s" using assms(2) by (auto simp: sqlite_env_def)
  with assms(1) sqlite_env_ok [of "xw_store w" ?s] have "sqlite_task_inv ?s" "sqlite_view ?s = sqlite_view (xw_store w)"
    by (simp_all add: sqlite_task_inv_def)
  then show ?thesis by (intro call_safe_quiet) simp_all
qed

fun executed :: "('re, 'ce, 'ae, 'ge, 'ue, 'v, 'addr, 'x, 'l, 'rd) site_call \<Rightarrow> operation_id option" where
  "executed (ExecuteCall _ i) = Some i"
| "executed _ = None"

lemma site_effect_safe:
  assumes "call_ok call" "sqlite_task_inv (xw_store w)"
  shows "call_safe sqlite_task_inv sqlite_view (executed call) w (site_effect call w)"
  using assms sqlite_executor.execute_safe sqlite_executor.recover_safe sqlite_executor.poll_safe
    sqlite_executor.engine_safe batch_safe environment_safe
  by (cases call) simp_all

section \<open>Counting the writes\<close>

lemma snd_site_step [simp]: "snd (site_step call w) = site_effect call w"
  by (simp add: site_step_def)

lemma site_writes:
  assumes "call_ok call" "sqlite_task_inv (xw_store w)"
  shows "xw_writes (site_effect call w) = xw_writes w @ fst (site_step call w)"
    and "fst (site_step call w) = [] \<or> (\<exists>i d. executed call = Some i \<and> fst (site_step call w) = [d]
      \<and> undispatched i sqlite_view (xw_store w) \<and> \<not> undispatched i sqlite_view (xw_store (site_effect call w)))"
  using site_effect_safe [OF assms] by (auto simp: call_safe_def site_step_def)

definition dispatch_level :: "operation_id \<Rightarrow> (site_store, 'l) executor_world \<Rightarrow> nat" where
  "dispatch_level i w = (if undispatched i sqlite_view (xw_store w) then 0 else 1)"

interpretation site: leveled site_step "\<lambda>w. sqlite_task_inv (xw_store w)" "dispatch_level i" call_ok for i
proof
  fix call :: "('re, 'ce, 'ae, 'ge, 'ue, 'v, 'addr, 'x, 'l, 'rd) site_call" and w :: "(site_store, 'l) executor_world"
  assume "call_ok call" "sqlite_task_inv (xw_store w)"
  from site_effect_safe [OF this] show "sqlite_task_inv (xw_store (snd (site_step call w)))"
    "dispatch_level i w \<le> dispatch_level i (snd (site_step call w))"
    by (auto simp: site_step_def call_safe_def dispatch_level_def)
qed

lemma count_writes:
  assumes "\<And>c ws. (c, ws) \<in> set tr \<Longrightarrow> length ws \<le> 1"
  shows "length (concat (map snd (filter (\<lambda>(c, ws). P c) tr))) = length (filter (\<lambda>(c, ws). P c \<and> ws \<noteq> []) tr)"
  using assms
proof (induction tr)
  case (Cons x tr)
  obtain c ws where x: "x = (c, ws)" by (cases x)
  from Cons.prems [of c ws] x have "length ws \<le> 1" by simp
  moreover have "length (concat (map snd (filter (\<lambda>(c, ws). P c) tr))) = length (filter (\<lambda>(c, ws). P c \<and> ws \<noteq> []) tr)"
    by (rule Cons.IH) (use Cons.prems in \<open>meson list.set_intros(2)\<close>)
  ultimately show ?case using x by (cases ws) auto
qed simp

lemma site_trace:
  fixes w :: "(site_store, 'l) executor_world"
    and calls :: "('re, 'ce, 'ae, 'ge, 'ue, 'v, 'addr, 'x, 'l, 'rd) site_call list"
  assumes "list_all call_ok calls" "sqlite_task_inv (xw_store w)"
  shows "xw_writes (run site_step calls w) = xw_writes w @ concat (map snd (trace site_step calls w))"
    and "(c, ws) \<in> set (trace site_step calls w) \<Longrightarrow> length ws \<le> 1 \<and> (ws \<noteq> [] \<longrightarrow> executed c \<noteq> None)"
  using assms
proof (induction calls arbitrary: w)
  case (Cons call calls)
  {
    case 1
    then have ok: "call_ok call" "sqlite_task_inv (xw_store w)" "list_all call_ok calls" by simp_all
    from Cons.IH(1) [OF ok(3) site.step_inv [OF ok(1,2)]] site_writes(1) [OF ok(1,2)] show ?case by simp
  next
    case 2
    then have ok: "call_ok call" "sqlite_task_inv (xw_store w)" "list_all call_ok calls" by simp_all
    from 2(1) Cons.IH(2) [OF _ ok(3) site.step_inv [OF ok(1,2)]] site_writes(2) [OF ok(1,2)] show ?case by auto
  }
qed simp_all

section \<open>Properties\<close>

text \<open>
  C39: A write is handed to the device at most once. Over any history of execution and recovery
  attempts, polls, engine calls and database failures, the attempts on one operation together send at
  most one write, and none if the operation was already past validation; what the device receives is
  the writes of the steps in order, and only execution attempts write.
\<close>

theorem write_sent_at_most_once:
  fixes w :: "(site_store, 'l) executor_world"
    and calls :: "('re, 'ce, 'ae, 'ge, 'ue, 'v, 'addr, 'x, 'l, 'rd) site_call list"
  assumes "sqlite_task_inv (xw_store w)" "list_all call_ok calls"
  shows "length (concat (map snd (filter (\<lambda>(call, _). executed call = Some i) (trace site_step calls w))))
      \<le> (if undispatched i sqlite_view (xw_store w) then 1 else 0)
    \<and> xw_writes (run site_step calls w) = xw_writes w @ concat (map snd (trace site_step calls w))
    \<and> (\<forall>(call, writes) \<in> set (trace site_step calls w). writes \<noteq> [] \<longrightarrow> executed call \<noteq> None)"
proof (intro conjI)
  let ?tr = "trace site_step calls w" and ?lifts = "\<lambda>(call, ws). executed call = Some i \<and> ws \<noteq> []"
  have "length (filter ?lifts ?tr) \<le> (if dispatch_level i w \<le> 0 then 1 else 0)"
  proof (rule site.lifted_at_most_once [OF _ assms])
    fix call :: "('re, 'ce, 'ae, 'ge, 'ue, 'v, 'addr, 'x, 'l, 'rd) site_call" and w :: "(site_store, 'l) executor_world"
    assume "call_ok call" "sqlite_task_inv (xw_store w)" "?lifts (call, fst (site_step call w))"
    with site_writes(2) [of call w] show "dispatch_level i w \<le> 0 \<and> 0 < dispatch_level i (snd (site_step call w))"
      by (auto simp: dispatch_level_def)
  qed
  moreover have "length (concat (map snd (filter (\<lambda>(call, _). executed call = Some i) ?tr))) = length (filter ?lifts ?tr)"
    by (rule count_writes) (use site_trace(2) [OF assms(2,1)] in blast)
  ultimately show "length (concat (map snd (filter (\<lambda>(call, _). executed call = Some i) ?tr)))
      \<le> (if undispatched i sqlite_view (xw_store w) then 1 else 0)"
    by (simp add: dispatch_level_def split: if_splits)
  show "xw_writes (run site_step calls w) = xw_writes w @ concat (map snd ?tr)"
    by (rule site_trace(1) [OF assms(2,1)])
  show "\<forall>(call, writes) \<in> set ?tr. writes \<noteq> [] \<longrightarrow> executed call \<noteq> None"
    using site_trace(2) [OF assms(2,1)] by blast
qed

definition demo_calls :: "(unit, unit, unit, unit, unit, unit, ustring, unit, ustring audit_event list, unit) site_call list" where
  "demo_calls = [ExecuteCall demo_executor 1, ExecuteCall demo_executor 1, RecoverCall demo_executor 1]"

lemma demo_calls_ok: "list_all call_ok demo_calls"
  by (simp add: demo_calls_def demo_gateway_ok)

lemma demo_first_write: "fst (site_step (ExecuteCall demo_executor 1 :: (unit, unit, unit, unit, unit, unit, ustring, unit, ustring audit_event list, unit) site_call)
    (demo_world Queued)) = [CommandWrite 9 demo_command]"
proof -
  obtain r w' where run: "execute_operation sqlite_operation_store sqlite_remote_task_store demo_executor 1 (demo_world Queued)
      = (r :: (unit, unit, unit, unit, unit, unit, unit) site_result, w')" by fastforce
  from demo_execute [OF run] run show ?thesis by (simp add: site_step_def)
qed

theorem write_sent_at_most_once_witness:
  "length (concat (map snd (filter (\<lambda>(call, _). executed call = Some 1) (trace site_step demo_calls (demo_world Queued))))) = 1"
proof -
  let ?tr = "trace site_step demo_calls (demo_world Queued)"
  have "undispatched 1 sqlite_view (demo_site Queued)" by (simp add: undispatched_def demo_site_view demo_site_operation_def)
  then have "length (concat (map snd (filter (\<lambda>(call, _). executed call = Some 1) ?tr))) \<le> 1"
    using write_sent_at_most_once [of "demo_world Queued" demo_calls 1] demo_site_inv [of Queued] demo_calls_ok
    by simp
  moreover have "length (concat (map snd (filter (\<lambda>(call, _). executed call = Some 1) ?tr))) \<ge> 1"
    using demo_first_write by (simp add: demo_calls_def)
  ultimately show ?thesis by simp
qed

text \<open>
  C40: Attempts implement the decision table. An execution attempt on a queued or validating operation,
  and a recovery attempt on a running or verifying one, leave the operation in the state the table
  gives for what was read and send exactly the writes it gives; when a store call or the start fact
  failed, the operation is in one of the states before the verdict, with the write sent exactly if it
  is past validation. No other operation moves, and a returned record is the stored one.
\<close>

theorem attempts_implement_decision_table:
  assumes "sqlite_task_inv (xw_store w)" "sqlite_view (xw_store w) i = Some op" "op_targets op \<noteq> []" "gateway_ok ex"
  shows "(op_state op = Queued \<or> op_state op = Validating \<longrightarrow>
      (case execute_operation sqlite_operation_store sqlite_remote_task_store ex i w of (r, w') \<Rightarrow>
         attempt_settles sqlite_task_inv sqlite_view (ex_clock ex) i
           (execute_stages (op_state op) (snd (execute_plan ex op (xw_store w) True)))
           (execute_plan ex op (xw_store w) (\<not> isl r)) r w w'))
    \<and> (op_state op = Running \<or> op_state op = Verifying \<longrightarrow>
      (case recover_operation sqlite_operation_store sqlite_remote_task_store ex i w of (r, w') \<Rightarrow>
         attempt_settles sqlite_task_inv sqlite_view (ex_clock ex) i {(op_state op, []), (Verifying, [])}
           (recover_plan ex op (sqlite_task_view (xw_store w) i)) r w w'))"
proof (intro conjI impI)
  obtain r w' where run: "execute_operation sqlite_operation_store sqlite_remote_task_store ex i w = (r, w')" by fastforce
  assume "op_state op = Queued \<or> op_state op = Validating"
  from sqlite_executor.execute_settles [OF assms(1,2) this assms(4,3) run] run
  show "case execute_operation sqlite_operation_store sqlite_remote_task_store ex i w of (r, w') \<Rightarrow>
         attempt_settles sqlite_task_inv sqlite_view (ex_clock ex) i
           (execute_stages (op_state op) (snd (execute_plan ex op (xw_store w) True)))
           (execute_plan ex op (xw_store w) (\<not> isl r)) r w w'" by simp
next
  obtain r w' where run: "recover_operation sqlite_operation_store sqlite_remote_task_store ex i w = (r, w')" by fastforce
  assume "op_state op = Running \<or> op_state op = Verifying"
  from sqlite_executor.recover_settles [OF assms(1,2) this assms(3) run] run
  show "case recover_operation sqlite_operation_store sqlite_remote_task_store ex i w of (r, w') \<Rightarrow>
         attempt_settles sqlite_task_inv sqlite_view (ex_clock ex) i {(op_state op, []), (Verifying, [])}
           (recover_plan ex op (sqlite_task_view (xw_store w) i)) r w w'" by simp
qed

lemma demo_queued: "op_state (demo_site_operation Queued) = Queued" "op_targets (demo_site_operation Queued) \<noteq> []"
  by (simp_all add: demo_site_operation_def)

theorem attempts_implement_decision_table_witness:
  "case execute_operation sqlite_operation_store sqlite_remote_task_store demo_executor 1 (demo_world Queued) of
     (r :: (unit, unit, unit, unit, unit, unit, unit) site_result, w') \<Rightarrow>
       attempt_settles sqlite_task_inv sqlite_view int 1 (execute_stages Queued [CommandWrite 9 demo_command])
         (Succeeded, [CommandWrite 9 demo_command]) r (demo_world Queued) w'"
proof -
  have "ex_clock demo_executor = int" by (simp add: demo_executor_def)
  then show ?thesis
    using attempts_implement_decision_table [of "demo_world Queued" 1 "demo_site_operation Queued" demo_executor]
      demo_site_inv [of Queued] demo_site_view [of Queued 1] demo_gateway_ok
    by (simp add: demo_plan demo_queued split: prod.splits)
qed

end
