(* ===== verification/Scheduler_Properties.thy ===== *)
theory Scheduler_Properties
  imports Scheduler_Progress Executor_Properties
begin

text \<open>
  The scheduler's promise: a sweep over a working site takes every stored operation to its end, or to
  the state in which it waits for its remote task, whatever the interleaving of its passes.
\<close>

section \<open>A working sweep\<close>

definition settled :: "operation_state \<Rightarrow> bool" where
  "settled st \<longleftrightarrow> is_terminal st \<or> st = WaitingRemote"

definition lookups_answer :: "('s, 're, 'ce, 'ae, 'ge, 'ue, 'v, 'addr, 'x, 'l) executor \<Rightarrow> bool" where
  "lookups_answer ex \<longleftrightarrow>
     (\<forall>s e c. \<not> isl (ex_find_endpoint ex e s) \<and> \<not> isl (capability_query (ex_find_endpoint_capabilities ex s) e)
        \<and> (\<forall>x. preflight_artifact ex c s \<noteq> Inl (ArtifactLookup x)))"

text \<open>The boundaries of the sweep answer, the gates can be acquired and facts are accepted.\<close>

definition working_tick :: "('s, 're, 'ce, 'ae, 'ge, 'ue, 'v, 'addr, 'x, 'l, 'rd) tick \<Rightarrow> bool" where
  "working_tick t \<longleftrightarrow>
     (\<forall>i. gateway_ok (tk_executor t i) \<and> lookups_answer (tk_executor t i) \<and> (\<forall>src. accepts_facts (tk_executor t i) src)
        \<and> reader_ok (tk_monitor t i)) \<and> (\<forall>e. tk_gate t e)"

text \<open>A stored operation the sweep can work on: it has a target and no clock is behind its creation.\<close>

definition sound_operation :: "('s, 're, 'ce, 'ae, 'ge, 'ue, 'v, 'addr, 'x, 'l, 'rd) tick \<Rightarrow> 'c operation \<Rightarrow> bool" where
  "sound_operation t op \<longleftrightarrow>
     op_targets op \<noteq> [] \<and> op_created_at op \<le> op_updated_at op \<and> op_created_at op \<le> tk_now t
   \<and> (\<forall>i n. op_created_at op \<le> ex_clock (tk_executor t i) n)"

fun drive_id :: "drive \<Rightarrow> operation_id" where
  "drive_id (DriveExecute i) = i"
| "drive_id (DriveRecover i) = i"

abbreviation steady :: "'c sqlite_store \<Rightarrow> bool" where
  "steady \<equiv> steady_inv (\<lambda>_. False)"

section \<open>What one call does on a working site\<close>

lemma settled_simps [simp]: "settled Failed" "settled Unknown" "settled Succeeded" "settled WaitingRemote"
  by (simp_all add: settled_def)

lemma verify_state_settled [simp]: "settled (verify_state ex e c)" "settled (judge_state ex e c)"
  by (simp_all add: verify_state_def judge_state_def split: sum.splits verification_verdict.splits)

lemma outcome_state_settled [simp]: "settled (outcome_state ex e c outcome verdict b)"
  by (simp add: outcome_state_def split: sum.splits command_outcome.splits dispatch_verdict.splits)

lemma dispatch_plan_settled [simp]: "settled (fst (dispatch_plan ex e c artifact b))"
  by (simp add: dispatch_plan_def split: option.splits)

lemma execute_plan_settled:
  assumes "lookups_answer ex"
  shows "settled (fst (execute_plan ex op s b))"
proof -
  let ?e = "tg_endpoint_id (hd (op_targets op))" and ?c = "op_command op"
  from assms have "\<not> isl (ex_find_endpoint ex ?e s)" "\<not> isl (capability_query (ex_find_endpoint_capabilities ex s) ?e)"
    "\<And>x. preflight_artifact ex ?c s \<noteq> Inl (ArtifactLookup x)" by (auto simp: lookups_answer_def)
  then show ?thesis
    by (auto simp: execute_plan_def Let_def split: sum.split option.split update_artifact_resolution_error.split)
qed

lemma recover_plan_settled:
  "op_state op = Running \<or> op_state op = Verifying \<Longrightarrow> settled (fst (recover_plan ex op row))"
  by (auto simp: recover_plan_def Let_def)

text \<open>A drive of an unfinished operation settles it and touches no other.\<close>

lemma drive_settles_operation:
  assumes t: "working_tick t" and w: "steady (xw_store w)" and op: "sqlite_view (xw_store w) i = Some op" "sound_operation t op"
    and d: "drive_of op = Some (d, e)"
  shows "\<exists>op'. steady (xw_store (drive_one sqlite_operation_store sqlite_remote_task_store t (d, e) w))
    \<and> sqlite_view (xw_store (drive_one sqlite_operation_store sqlite_remote_task_store t (d, e) w))
      = (sqlite_view (xw_store w))(i \<mapsto> op') \<and> settled (op_state op') \<and> sound_operation t op'"
proof -
  let ?ex = "tk_executor t i" and ?w' = "drive_one sqlite_operation_store sqlite_remote_task_store t (d, e) w"
  have id: "op_id op = i" using sqlite_view_id [OF op(1)] .
  from op(2) have sound: "op_targets op \<noteq> []" "op_created_at op \<le> op_updated_at op" "\<And>n. op_created_at op \<le> ex_clock ?ex n"
    by (auto simp: sound_operation_def)
  have h: "healthy (ex_clock ?ex) w i op" using w op(1) sound by (auto simp: healthy_def steady_inv_def)
  from t have ex: "gateway_ok ?ex" "lookups_answer ?ex" "accepts_facts ?ex (op_source op)" and gate: "\<And>e. tk_gate t e"
    by (auto simp: working_tick_def)
  have conclude: ?thesis
    if s: "attempt_settles steady sqlite_view (ex_clock ?ex) i B p r w ?w'" and "\<not> interrupted r" "settled (fst p)"
    for B p and r :: "(operation_repository_error, 're, 'ce, remote_task_repository_error, 'ae, 'ge, 'ue, 'v, 'x) executor_error + redfish_command operation"
  proof -
    from s that(2) op(1) obtain op' where o: "steady (xw_store ?w')" "\<And>j. j \<noteq> i \<Longrightarrow> sqlite_view (xw_store ?w') j = sqlite_view (xw_store w) j"
      "sqlite_view (xw_store ?w') i = Some op'" "stepped (ex_clock ?ex) op op'" "op_state op' = fst p"
      by (auto simp: attempt_settles_def)
    have "sound_operation t op'" using o(4) op(2) by (auto simp: sound_operation_def stepped_def)
    moreover have "sqlite_view (xw_store ?w') = (sqlite_view (xw_store w))(i \<mapsto> op')" using o(2,3) by auto
    ultimately show ?thesis using o that(3) by auto
  qed
  consider (execute) "op_state op = Queued \<or> op_state op = Validating" "d = DriveExecute i"
    | (recover) "op_state op = Running \<or> op_state op = Verifying" "d = DriveRecover i"
    using d id by (auto simp: drive_of_def split: operation_state.splits)
  then show ?thesis
  proof cases
    case execute
    then have w': "?w' = snd (execute_operation sqlite_operation_store sqlite_remote_task_store ?ex i w)"
      using gate by (simp add: drive_one_def split: option.splits)
    obtain r where run: "execute_operation sqlite_operation_store sqlite_remote_task_store ?ex i w = (r, ?w')"
      unfolding w' by (metis prod.collapse)
    from conclude [OF sqlite_steady.execute_settles [OF w op(1) execute(1) ex(1) sound(1) run]
        execute_finishes [OF h execute(1) ex(1) sound(1) ex(3) run] execute_plan_settled [OF ex(2)]] show ?thesis .
  next
    case recover
    then have w': "?w' = snd (recover_operation sqlite_operation_store sqlite_remote_task_store ?ex i w)"
      using gate by (simp add: drive_one_def split: option.splits)
    obtain r where run: "recover_operation sqlite_operation_store sqlite_remote_task_store ?ex i w = (r, ?w')"
      unfolding w' by (metis prod.collapse)
    from conclude [OF sqlite_steady.recover_settles [OF w op(1) recover(1) sound(1) run]
        recover_finishes [OF h recover(1) sound(1) ex(3) run] recover_plan_settled [OF recover(1)]] show ?thesis .
  qed
qed

text \<open>A poll settles a waiting operation or leaves it waiting, and moves nothing else.\<close>

lemma poll_settles_operation:
  fixes t :: "('s, 're, 'ce, 'ae, 'ge, 'ue, 'v, 'addr, 'x, 'l, 'rd) tick"
  assumes t: "working_tick t" and w: "steady (xw_store w)"
    and sound: "\<And>op. sqlite_view (xw_store w) i = Some op \<Longrightarrow> sound_operation t op"
  defines "w' \<equiv> poll_effect sqlite_operation_store sqlite_remote_task_store (tk_monitor t i) i (tk_now t) w"
  shows "steady (xw_store w') \<and> (sqlite_view (xw_store w') = sqlite_view (xw_store w)
    \<or> (\<exists>op op'. sqlite_view (xw_store w) i = Some op \<and> op_state op = WaitingRemote
        \<and> sqlite_view (xw_store w') = (sqlite_view (xw_store w))(i \<mapsto> op') \<and> settled (op_state op')))"
proof -
  let ?m = "tk_monitor t i" and ?now = "tk_now t"
  let ?v = "\<lparr>mw_store = xw_store w, mw_audit = xw_audit w\<rparr>"
  obtain r v' where run: "poll sqlite_operation_store sqlite_remote_task_store ?m i ?now ?v = (r, v')" by fastforce
  then have eff: "w' = w\<lparr>xw_store := mw_store v', xw_audit := mw_audit v'\<rparr>"
    by (simp add: w'_def poll_effect_def)
  show ?thesis
  proof (cases "\<exists>op. sqlite_view (xw_store w) i = Some op \<and> op_state op = WaitingRemote")
    case False
    have "v' = ?v" using run False sqlite_steady.find_reads_view [OF w, of i]
      by (auto simp: poll_def split: sum.splits option.splits list.splits if_splits)
    with w show ?thesis unfolding eff by auto
  next
    case True
    then obtain op where op: "sqlite_view (xw_store w) i = Some op" "op_state op = WaitingRemote" by blast
    have ok: "op_targets op \<noteq> []" "reader_ok ?m" using sound [OF op(1)] t by (auto simp: sound_operation_def working_tick_def)
    have v: "steady (mw_store ?v)" "sqlite_view (mw_store ?v) i = Some op" using w op by simp_all
    have "poll_healthy ?now ?v i op"
      using w op(1) sound [OF op(1)] by (auto simp: poll_healthy_def steady_inv_def sound_operation_def)
    from poll_finishes [OF this op(2) ok run] sqlite_steady.poll_settles [OF v op(2) ok run]
    obtain op' where o: "steady (mw_store v')" "\<And>j. j \<noteq> i \<Longrightarrow> sqlite_view (mw_store v') j = sqlite_view (xw_store w) j"
      "sqlite_view (mw_store v') i = Some op'" "op_state op' = monitor_verdict ?m op (sqlite_task_view (xw_store w) i)"
      by (auto simp: settles_def)
    have "settled (op_state op')"
      unfolding o(4) monitor_verdict_def by (simp split: option.splits sum.splits verification_verdict.splits)
    moreover have "sqlite_view (mw_store v') = (sqlite_view (xw_store w))(i \<mapsto> op')" using o(2,3) by auto
    ultimately show ?thesis using o(1) op unfolding eff by auto
  qed
qed

section \<open>Listings on a working site\<close>

lemma list_operations_succeeds:
  assumes "sqlite_inv s" "\<forall>c. \<not> ss_fault s c"
    and times: "\<And>i op. sqlite_view s i = Some op \<Longrightarrow> op_created_at op \<le> op_updated_at op"
  shows "\<exists>xs. list_operations f s = Inr xs"
proof -
  have row: "\<exists>op. map_stored_operation s (ss_database s) r = Inr op" if "r \<in> set (db_operations (ss_database s))" for r
  proof -
    have "find_row (ss_database s) (or_id r) = Some r"
      using find_row_of_mem that assms(1) by (auto simp: sqlite_inv_def db_ok_def)
    moreover have "row_ok s r" using that assms(1) by (auto simp: sqlite_inv_def db_ok_def)
    ultimately obtain op where op: "row_operation s (ss_database s) r = Some op" "sqlite_view s (or_id r) = Some op"
      using row_ok_row_operation by (fastforce simp: sqlite_view_def)
    with times [OF op(2)] assms(2) \<open>row_ok s r\<close> show ?thesis
      by (auto simp: map_stored_operation_def row_operation_def operation_try_from_parts_def row_ok_def
          db_guard_def split: sum.splits)
  qed
  have "\<exists>xs. traverse (map_stored_operation s (ss_database s)) rows = Inr xs"
    if "set rows \<subseteq> set (db_operations (ss_database s))" for rows
    using that row by (induction rows) (auto simp: subset_iff, fastforce)
  moreover have "set (listed_rows f (ss_database s)) \<subseteq> set (db_operations (ss_database s))"
    by (auto simp: listed_rows_def)
  ultimately show ?thesis using assms(2) by (auto simp: list_operations_Inr)
qed

section \<open>The invariant of a sweep\<close>

text \<open>Operations the monitor pass may still poll.\<close>

fun live :: "'f monitor_pass \<Rightarrow> operation_id set" where
  "live NotListed = UNIV"
| "live (Polling is) = set is"
| "live (ListingFailed _) = {}"

fun pass_ok :: "'f monitor_pass \<Rightarrow> bool" where
  "pass_ok NotListed = True"
| "pass_ok (Polling is) = distinct is"
| "pass_ok (ListingFailed _) = False"

definition driven_ids :: "(drive \<times> endpoint_id option) list \<Rightarrow> operation_id set" where
  "driven_ids ds = (drive_id \<circ> fst) ` set ds"

text \<open>
  Between two calls of a sweep begun at \<open>s0\<close>: an operation whose drive is still to come is as it was,
  every other one is settled, and those still to be polled are sound.
\<close>

definition sweep_inv ::
  "('s, 're, 'ce, 'ae, 'ge, 'ue, 'v, 'addr, 'x, 'l, 'rd) tick \<Rightarrow> site_store \<Rightarrow> (drive \<times> endpoint_id option) list
     \<Rightarrow> operation_id set \<Rightarrow> site_store \<Rightarrow> bool" where
  "sweep_inv t s0 ds polled s \<longleftrightarrow>
     steady s \<and> distinct (map (drive_id \<circ> fst) ds)
   \<and> (\<forall>d e. (d, e) \<in> set ds \<longrightarrow> (\<exists>op. sqlite_view s0 (drive_id d) = Some op \<and> drive_of op = Some (d, e) \<and> sound_operation t op))
   \<and> (\<forall>i. sqlite_view s0 i = None \<longrightarrow> sqlite_view s i = None)
   \<and> (\<forall>i op0. sqlite_view s0 i = Some op0 \<longrightarrow> (\<exists>op. sqlite_view s i = Some op
        \<and> (if i \<in> driven_ids ds then op = op0 else settled (op_state op)) \<and> (i \<in> polled \<longrightarrow> sound_operation t op)))"

lemma sweep_operation:
  assumes "sweep_inv t s0 ds polled s" "sqlite_view s0 i = Some op0"
  obtains op where "sqlite_view s i = Some op" "if i \<in> driven_ids ds then op = op0 else settled (op_state op)"
    "i \<in> polled \<longrightarrow> sound_operation t op"
  using assms unfolding sweep_inv_def by blast

lemma sweep_inv_same:
  assumes "sweep_inv t s0 ds polled s" "steady s'" "sqlite_view s' = sqlite_view s"
    and "polled' \<subseteq> polled"
  shows "sweep_inv t s0 ds polled' s'"
  unfolding sweep_inv_def
proof (intro conjI allI impI)
  fix i op0
  assume i: "sqlite_view s0 i = Some op0"
  from sweep_operation [OF assms(1) i] assms(3,4)
  show "\<exists>op. sqlite_view s' i = Some op \<and> (if i \<in> driven_ids ds then op = op0 else settled (op_state op))
      \<and> (i \<in> polled' \<longrightarrow> sound_operation t op)" by (metis subsetD)
qed (use assms in \<open>simp_all add: sweep_inv_def\<close>)

lemma sweep_known:
  assumes "sweep_inv t s0 ds polled s" "sqlite_view s i = Some op"
  obtains op0 where "sqlite_view s0 i = Some op0"
  using assms unfolding sweep_inv_def by fastforce

lemma sweep_pending:
  assumes inv: "sweep_inv t s0 ds polled s" and d: "(d, e) \<in> set ds"
  obtains op where "sqlite_view s0 (drive_id d) = Some op" "drive_of op = Some (d, e)" "sound_operation t op"
    "sqlite_view s (drive_id d) = Some op"
proof -
  from assms obtain op where op: "sqlite_view s0 (drive_id d) = Some op" "drive_of op = Some (d, e)" "sound_operation t op"
    unfolding sweep_inv_def by blast
  have "drive_id d \<in> driven_ids ds" using d by (force simp: driven_ids_def)
  with sweep_operation [OF inv op(1)] op show thesis by (metis that)
qed

lemma sweep_drive:
  assumes t: "working_tick t" and inv: "sweep_inv t s0 (us @ d # vs) polled (xw_store w)"
  shows "sweep_inv t s0 (us @ vs) polled (xw_store (drive_one sqlite_operation_store sqlite_remote_task_store t d w))"
proof -
  obtain dr e where d: "d = (dr, e)" by (cases d)
  let ?i = "drive_id dr" and ?w' = "drive_one sqlite_operation_store sqlite_remote_task_store t d w"
  from d have "(dr, e) \<in> set (us @ d # vs)" by simp
  from sweep_pending [OF inv this] obtain op where
    op: "sqlite_view s0 ?i = Some op" "drive_of op = Some (dr, e)" "sound_operation t op"
    and view: "sqlite_view (xw_store w) ?i = Some op" by blast
  from inv have w: "steady (xw_store w)" by (simp add: sweep_inv_def)
  from drive_settles_operation [OF t w view op(3,2)] d obtain op' where
    o: "steady (xw_store ?w')" "sqlite_view (xw_store ?w') = (sqlite_view (xw_store w))(?i \<mapsto> op')"
      "settled (op_state op')" "sound_operation t op'" by auto
  have ids: "driven_ids (us @ vs) = driven_ids (us @ d # vs) - {?i}"
  proof -
    have "distinct (map (drive_id \<circ> fst) us @ ?i # map (drive_id \<circ> fst) vs)" using inv d by (simp add: sweep_inv_def)
    then have "set (map (drive_id \<circ> fst) us @ map (drive_id \<circ> fst) vs)
        = set (map (drive_id \<circ> fst) us @ ?i # map (drive_id \<circ> fst) vs) - {?i}" by auto
    with d show ?thesis by (simp add: driven_ids_def image_Un)
  qed
  show ?thesis
    unfolding sweep_inv_def ids
  proof (intro conjI allI impI)
    fix i op0
    assume i: "sqlite_view s0 i = Some op0"
    obtain op1 where "sqlite_view (xw_store w) i = Some op1"
      "if i \<in> driven_ids (us @ d # vs) then op1 = op0 else settled (op_state op1)" "i \<in> polled \<longrightarrow> sound_operation t op1"
      by (rule sweep_operation [OF inv i])
    with o show "\<exists>op. sqlite_view (xw_store ?w') i = Some op
        \<and> (if i \<in> driven_ids (us @ d # vs) - {?i} then op = op0 else settled (op_state op))
        \<and> (i \<in> polled \<longrightarrow> sound_operation t op)"
      by (cases "i = ?i") auto
  qed (use inv o op(1) in \<open>auto simp: sweep_inv_def\<close>)
qed

lemma sweep_poll:
  assumes t: "working_tick t" and inv: "sweep_inv t s0 ds (insert i polled) (xw_store w)" and fresh: "i \<notin> polled"
  shows "sweep_inv t s0 ds polled
    (xw_store (poll_effect sqlite_operation_store sqlite_remote_task_store (tk_monitor t i) i (tk_now t) w))"
    (is "sweep_inv t s0 ds _ (xw_store ?w')")
proof -
  from inv have w: "steady (xw_store w)" by (simp add: sweep_inv_def)
  have sound: "sound_operation t op" if v: "sqlite_view (xw_store w) i = Some op" for op
  proof -
    obtain op0 where "sqlite_view s0 i = Some op0" by (rule sweep_known [OF inv v])
    from sweep_operation [OF inv this] v show ?thesis by auto
  qed
  note poll = poll_settles_operation [OF t w, of i, OF sound]
  show ?thesis
  proof (cases "sqlite_view (xw_store ?w') = sqlite_view (xw_store w)")
    case True
    show ?thesis by (rule sweep_inv_same [OF inv _ True]) (use poll in auto)
  next
    case False
    with poll obtain op op' where o: "steady (xw_store ?w')" "sqlite_view (xw_store w) i = Some op" "op_state op = WaitingRemote"
      "sqlite_view (xw_store ?w') = (sqlite_view (xw_store w))(i \<mapsto> op')" "settled (op_state op')" by blast
    have idle: "i \<notin> driven_ids ds"
    proof
      assume "i \<in> driven_ids ds"
      then obtain d e where "(d, e) \<in> set ds" "i = drive_id d" by (auto simp: driven_ids_def)
      with sweep_pending [OF inv] o(2) have "drive_of op = Some (d, e)" by (metis option.inject)
      with o(3) show False by (simp add: drive_of_def)
    qed
    show ?thesis
      unfolding sweep_inv_def
    proof (intro conjI allI impI)
      fix j op0
      assume j: "sqlite_view s0 j = Some op0"
      obtain op1 where "sqlite_view (xw_store w) j = Some op1"
        "if j \<in> driven_ids ds then op1 = op0 else settled (op_state op1)" "j \<in> insert i polled \<longrightarrow> sound_operation t op1"
        by (rule sweep_operation [OF inv j])
      with o fresh idle show "\<exists>op. sqlite_view (xw_store ?w') j = Some op
          \<and> (if j \<in> driven_ids ds then op = op0 else settled (op_state op)) \<and> (j \<in> polled \<longrightarrow> sound_operation t op)"
        by (cases "j = i") auto
    qed (use inv o in \<open>auto simp: sweep_inv_def\<close>)
  qed
qed

lemma sweep_listing:
  assumes inv: "sweep_inv t s0 ds UNIV s"
  obtains waiting where "list_operations (Some WaitingRemote) s = Inr waiting" "distinct (map op_id waiting)"
    "sweep_inv t s0 ds (set (map op_id waiting)) s"
proof -
  from inv have s: "steady s" by (simp add: sweep_inv_def)
  then have site: "sqlite_inv s" "\<forall>c. \<not> ss_fault s c" by (auto simp: steady_inv_def sqlite_task_inv_def)
  have times: "op_created_at op \<le> op_updated_at op" if v: "sqlite_view s i = Some op" for i op
  proof -
    obtain op0 where i: "sqlite_view s0 i = Some op0" by (rule sweep_known [OF inv v])
    from sweep_operation [OF inv i] v show ?thesis by (auto simp: sound_operation_def)
  qed
  obtain waiting where l: "list_operations (Some WaitingRemote) s = Inr waiting"
    using list_operations_succeeds [OF site] times by blast
  then have "distinct (map op_id waiting)" using list_operations_ok [OF site(1)] by blast
  with l show thesis by (rule that) (rule sweep_inv_same [OF inv s], simp_all)
qed

lemma sweep_polls:
  assumes t: "working_tick t"
  shows "distinct is \<Longrightarrow> sweep_inv t s0 ds (set is) (xw_store w) \<Longrightarrow>
    sweep_inv t s0 ds {}
      (xw_store (fold (\<lambda>i. poll_effect sqlite_operation_store sqlite_remote_task_store (tk_monitor t i) i (tk_now t)) is w))"
  by (induction "is" arbitrary: w) (auto dest: sweep_poll [OF t])

lemma sweep_drives:
  assumes t: "working_tick t"
  shows "sweep_inv t s0 ds polled (xw_store w) \<Longrightarrow>
    sweep_inv t s0 [] polled (xw_store (fold (drive_one sqlite_operation_store sqlite_remote_task_store t) ds w))"
proof (induction ds arbitrary: w)
  case (Cons d ds)
  from sweep_drive [OF t, of s0 "[]" d ds polled w] Cons.prems have
    "sweep_inv t s0 ds polled (xw_store (drive_one sqlite_operation_store sqlite_remote_task_store t d w))" by simp
  from Cons.IH [OF this] show ?case by simp
qed simp

text \<open>One call of the monitor pass, and its end.\<close>

lemma sweep_monitor_next:
  assumes t: "working_tick t" and "sweep_inv t s0 ds (live m) (xw_store w)" "pass_ok m"
    and run: "monitor_next sqlite_operation_store sqlite_remote_task_store t m w = (m', w')"
  shows "sweep_inv t s0 ds (live m') (xw_store w') \<and> pass_ok m'"
proof (cases m)
  case NotListed
  obtain waiting where "list_operations (Some WaitingRemote) (xw_store w) = Inr waiting" "distinct (map op_id waiting)"
    "sweep_inv t s0 ds (set (map op_id waiting)) (xw_store w)"
    by (rule sweep_listing) (use assms(2) NotListed in simp)
  with run NotListed show ?thesis by (auto simp: recover_tasks_def)
next
  case (Polling "is")
  with assms(2,3) run show ?thesis by (cases "is") (auto dest: sweep_poll [OF t])
qed (use assms(3) in simp)

lemma sweep_monitor_finish:
  assumes t: "working_tick t" and "sweep_inv t s0 ds (live m) (xw_store w)" "pass_ok m"
  shows "\<exists>w'. monitor_finish sqlite_operation_store sqlite_remote_task_store t m w = (Inr (), w')
    \<and> sweep_inv t s0 ds {} (xw_store w')"
proof (cases m)
  case NotListed
  obtain waiting where "list_operations (Some WaitingRemote) (xw_store w) = Inr waiting" "distinct (map op_id waiting)"
    "sweep_inv t s0 ds (set (map op_id waiting)) (xw_store w)"
    by (rule sweep_listing) (use assms(2) NotListed in simp)
  with sweep_polls [OF t] NotListed show ?thesis by (simp add: recover_tasks_def)
next
  case (Polling "is")
  with assms(2,3) sweep_polls [OF t] show ?thesis by simp
qed (use assms(3) in simp)

lemma sweep_passes:
  assumes t: "working_tick t" and "sweep_inv t s0 ds (live m) (xw_store w)" "pass_ok m"
  shows "\<exists>w'. passes sqlite_operation_store sqlite_remote_task_store t choices ds m w = (Inr (), w')
    \<and> sweep_inv t s0 [] {} (xw_store w')"
  using assms(2,3)
proof (induction choices arbitrary: ds m w)
  case Nil
  from sweep_monitor_finish [OF t sweep_drives [OF t Nil(1)] Nil(2)] show ?case by simp
next
  case (Cons choice choices)
  show ?case
  proof (cases choice)
    case None
    obtain m' w' where nxt: "monitor_next sqlite_operation_store sqlite_remote_task_store t m w = (m', w')" by fastforce
    from sweep_monitor_next [OF t Cons.prems nxt] Cons.IH [of ds m' w'] None nxt show ?thesis by simp
  next
    case (Some k)
    show ?thesis
    proof (cases "ds = []")
      case False
      let ?j = "k mod min MAX_CONCURRENT_DRIVES (length ds)"
      have "?j < min MAX_CONCURRENT_DRIVES (length ds)"
        using False by (intro mod_less_divisor) (simp add: MAX_CONCURRENT_DRIVES_def)
      then have "ds = take ?j ds @ ds ! ?j # drop (Suc ?j) ds" by (simp add: id_take_nth_drop)
      with sweep_drive [OF t, of s0 "take ?j ds" "ds ! ?j" "drop (Suc ?j) ds" "live m" w] Cons.prems(1)
      have "sweep_inv t s0 (take ?j ds @ drop (Suc ?j) ds) (live m)
          (xw_store (drive_one sqlite_operation_store sqlite_remote_task_store t (ds ! ?j) w))" by simp
      from Cons.IH [OF this Cons.prems(2)] False Some show ?thesis by (simp add: Let_def)
    qed (use Cons Some in simp)
  qed
qed

section \<open>The start of a sweep\<close>

lemma drive_of_Some:
  "drive_of op = Some (d, e) \<Longrightarrow> drive_id d = op_id op"
  "drive_of op = None \<longleftrightarrow> settled (op_state op)"
  by (cases "op_state op"; auto simp: drive_of_def settled_def)+

lemma map_filter_drives:
  assumes "distinct (map op_id ops)"
  shows "distinct (map (drive_id \<circ> fst) (List.map_filter drive_of ops))"
    and "driven_ids (List.map_filter drive_of ops) = op_id ` {op \<in> set ops. \<not> settled (op_state op)}"
proof -
  show ids: "driven_ids (List.map_filter drive_of ops) = op_id ` {op \<in> set ops. \<not> settled (op_state op)}" for ops
    by (induction ops) (auto simp: driven_ids_def List.map_filter_simps drive_of_Some(2) [symmetric] drive_of_Some(1)
        split: option.splits)
  show "distinct (map (drive_id \<circ> fst) (List.map_filter drive_of ops))"
    using assms
  proof (induction ops)
    case (Cons op ops)
    then have "op_id op \<notin> driven_ids (List.map_filter drive_of ops)" unfolding ids by auto
    with Cons show ?case by (auto simp: List.map_filter_simps driven_ids_def drive_of_Some(1) split: option.splits)
  qed (simp add: List.map_filter_simps)
qed

lemma set_map_filter: "x \<in> set (List.map_filter f xs) \<longleftrightarrow> (\<exists>y \<in> set xs. f y = Some x)"
  by (induction xs) (auto simp: List.map_filter_simps split: option.splits)

lemma sweep_start:
  assumes steady: "steady s" and sound: "\<And>i op. sqlite_view s i = Some op \<Longrightarrow> sound_operation t op"
  obtains recovered queued where "engine_recover_pending sqlite_operation_store s = Inr recovered"
    "engine_list sqlite_operation_store (Some Queued) s = Inr queued"
    "sweep_inv t s (List.map_filter drive_of (recovered @ queued)) UNIV s"
proof -
  have site: "sqlite_inv s" "\<forall>c. \<not> ss_fault s c" using steady by (auto simp: steady_inv_def sqlite_task_inv_def)
  have lists: "\<exists>xs. list_operations f s = Inr xs" for f
    by (rule list_operations_succeeds [OF site]) (use sound in \<open>auto simp: sound_operation_def\<close>)
  obtain xs queued where xs: "list_operations None s = Inr xs" and queued: "list_operations (Some Queued) s = Inr queued"
    using lists by blast
  let ?recovered = "filter (\<lambda>op. op_state op \<in> set RECOVERABLE_STATES) xs"
  let ?ops = "?recovered @ queued" and ?ds = "List.map_filter drive_of (?recovered @ queued)"
  note full = list_operations_ok [OF site(1) xs] and waiting = list_operations_ok [OF site(1) queued]
  have rec: "engine_recover_pending sqlite_operation_store s = Inr ?recovered"
    using sqlite_steady.recover_pending_listing [OF steady] xs by simp
  have ops: "set ?ops = {op. sqlite_view s (op_id op) = Some op \<and> \<not> is_terminal (op_state op)}"
    using full waiting by (auto simp: matches_state_def recoverable_iff)
  have "op_id a \<noteq> op_id b" if "a \<in> set ?recovered" "b \<in> set queued" for a b
  proof
    assume same: "op_id a = op_id b"
    have "a \<in> set xs" using that(1) by simp
    with full have a: "sqlite_view s (op_id a) = Some a" by blast
    from that(2) waiting have b: "sqlite_view s (op_id b) = Some b" "matches_state (Some Queued) b" by blast+
    from a b(1) have "a = b" unfolding same by (metis option.inject)
    with b(2) have "op_state a = Queued" by (simp add: matches_state_def)
    with that(1) show False by (simp add: RECOVERABLE_STATES_def)
  qed
  then have apart: "op_id ` set ?recovered \<inter> op_id ` set queued = {}" by blast
  have "distinct (map op_id ?recovered)" using full by (intro distinct_map_filter_key) simp
  with waiting apart have "distinct (map op_id ?ops)" by simp
  note drives = map_filter_drives [OF this]
  have "sweep_inv t s ?ds UNIV s"
    unfolding sweep_inv_def
  proof (intro conjI allI impI)
    fix d e
    assume "(d, e) \<in> set ?ds"
    then obtain op where op: "op \<in> set ?ops" "drive_of op = Some (d, e)" unfolding set_map_filter by blast
    with ops sound drive_of_Some(1) [OF op(2)] show "\<exists>op. sqlite_view s (drive_id d) = Some op \<and> drive_of op = Some (d, e) \<and> sound_operation t op"
      by fastforce
  next
    fix i op0
    assume i: "sqlite_view s i = Some op0"
    have "settled (op_state op0)" if "i \<notin> driven_ids ?ds"
      using that i sqlite_view_id [OF i] ops unfolding drives(2) by (auto simp: settled_def)
    with i sound show "\<exists>op. sqlite_view s i = Some op \<and> (if i \<in> driven_ids ?ds then op = op0 else settled (op_state op))
        \<and> (i \<in> UNIV \<longrightarrow> sound_operation t op)" by auto
  qed (use steady drives(1) in simp_all)
  with rec queued show thesis by (intro that) (simp_all add: engine_list_def)
qed

section \<open>The property\<close>

text \<open>
  C19: A sweep settles every operation. On a site whose database calls succeed, whose boundaries answer
  and whose clocks are not behind, one sweep of the scheduler succeeds under every interleaving of its
  two passes, and afterwards every stored operation is in a terminal state or waits for its remote task.
\<close>

theorem sweep_settles_every_operation:
  assumes "sqlite_task_inv (xw_store w)" "\<forall>c. \<not> ss_fault (xw_store w) c" "working_tick t"
    and "\<forall>i op. sqlite_view (xw_store w) i = Some op \<longrightarrow> sound_operation t op"
  shows "\<exists>w'. run_tick sqlite_operation_store sqlite_remote_task_store t w = (Inr (), w')
    \<and> (\<forall>i op. sqlite_view (xw_store w) i = Some op \<longrightarrow>
        (\<exists>op'. sqlite_view (xw_store w') i = Some op' \<and> (is_terminal (op_state op') \<or> op_state op' = WaitingRemote)))"
proof -
  have steady: "steady (xw_store w)" using assms(1,2) by (auto simp: steady_inv_def)
  obtain recovered queued where start: "engine_recover_pending sqlite_operation_store (xw_store w) = Inr recovered"
    "engine_list sqlite_operation_store (Some Queued) (xw_store w) = Inr queued"
    "sweep_inv t (xw_store w) (List.map_filter drive_of (recovered @ queued)) UNIV (xw_store w)"
    by (rule sweep_start [OF steady]) (use assms(4) in auto)
  from sweep_passes [OF assms(3), of "xw_store w" _ NotListed w] start(3) obtain w' where
    w': "passes sqlite_operation_store sqlite_remote_task_store t (tk_schedule t)
      (List.map_filter drive_of (recovered @ queued)) NotListed w = (Inr (), w')" "sweep_inv t (xw_store w) [] {} (xw_store w')"
    by fastforce
  show ?thesis
  proof (rule exI [of _ w'], intro conjI allI impI)
    show "run_tick sqlite_operation_store sqlite_remote_task_store t w = (Inr (), w')"
      using start w'(1) by (simp add: run_tick_def)
    fix i op
    assume i: "sqlite_view (xw_store w) i = Some op"
    from sweep_operation [OF w'(2) i] show "\<exists>op'. sqlite_view (xw_store w') i = Some op' \<and> (is_terminal (op_state op') \<or> op_state op' = WaitingRemote)"
      by (auto simp: driven_ids_def settled_def)
  qed
qed

theorem sweep_settles_every_operation_witness:
  "\<exists>w'. run_tick sqlite_operation_store sqlite_remote_task_store demo_tick (demo_world Queued) = (Inr (), w')
     \<and> (\<exists>op'. sqlite_view (xw_store w') 1 = Some op' \<and> (is_terminal (op_state op') \<or> op_state op' = WaitingRemote))"
proof -
  have "\<not> isl (capability_query (ex_find_endpoint_capabilities demo_executor s) e)" for s e
    using demo_capabilities [of s e] by auto
  moreover have "preflight_artifact demo_executor c s \<noteq> Inl (ArtifactLookup x)" for c s x
    by (auto simp: preflight_artifact_def resolve_update_artifact_def demo_executor_def split: option.splits)
  ultimately have "lookups_answer demo_executor" by (simp add: lookups_answer_def demo_executor_sel)
  then have "working_tick demo_tick"
    by (simp add: working_tick_def demo_tick_def demo_gateway_ok demo_accepts reader_ok_def demo_site_monitor_def)
  moreover have "sound_operation demo_tick (demo_site_operation Queued)"
    by (simp add: sound_operation_def demo_tick_def demo_executor_def demo_site_operation_def)
  ultimately have "\<exists>w'. run_tick sqlite_operation_store sqlite_remote_task_store demo_tick (demo_world Queued) = (Inr (), w')
    \<and> (\<forall>i op. sqlite_view (demo_site Queued) i = Some op \<longrightarrow>
        (\<exists>op'. sqlite_view (xw_store w') i = Some op' \<and> (is_terminal (op_state op') \<or> op_state op' = WaitingRemote)))"
    using demo_site_inv [of Queued]
    by (intro sweep_settles_every_operation [of "demo_world Queued", unfolded demo_world_sel])
       (auto simp: demo_site_view split: if_splits)
  then show ?thesis using demo_site_view [of Queued 1] by auto
qed

end
