(* ===== verification/Principal_Domain.thy ===== *)
theory Principal_Domain
  imports Center_Domain Stable_Code
begin

text \<open>
  The product users, \<open>domain/src/user.rs\<close> and \<open>domain/src/password.rs\<close>: normalized principal names,
  principals and their states, roles and role assignments with an optional site scope, one-time
  bootstrap codes, and password credentials. Lower-casing comes from the Unicode tables of the standard
  library, Argon2id from its crate: both are arguments.
\<close>

type_synonym principal_id = uuid
type_synonym bootstrap_code_id = uuid

section \<open>Names\<close>

definition MAX_PRINCIPAL_NAME_CHARS :: nat where
  "MAX_PRINCIPAL_NAME_CHARS = 64"

type_synonym principal_name = ustring

datatype principal_name_error = Name_Empty | Name_InvalidCharacter | Name_TooLong nat

definition is_name_start :: "nat \<Rightarrow> bool" where
  "is_name_start c \<longleftrightarrow> (97 \<le> c \<and> c \<le> 122) \<or> (48 \<le> c \<and> c \<le> 57)"

definition is_name_character :: "nat \<Rightarrow> bool" where
  "is_name_character c \<longleftrightarrow> is_name_start c \<or> c \<in> {46, 45, 95}"

text \<open>\<open>char::to_lowercase\<close> and \<open>str::to_lowercase\<close>; the latter looks at the end of words.\<close>

record case_tables =
  lower_char :: "nat \<Rightarrow> nat list"
  lower_str :: "ustring \<Rightarrow> ustring"

definition principal_name_parse :: "case_tables \<Rightarrow> ustring \<Rightarrow> principal_name_error + principal_name" where
  "principal_name_parse tables v =
     (case lower_str tables (trim v) of
        [] \<Rightarrow> Inl Name_Empty
      | first # rest \<Rightarrow>
          if \<not> is_name_start first then Inl Name_InvalidCharacter
          else if list_ex (\<lambda>c. \<not> is_name_character c) rest then Inl Name_InvalidCharacter
          else if length (first # rest) > MAX_PRINCIPAL_NAME_CHARS then Inl (Name_TooLong MAX_PRINCIPAL_NAME_CHARS)
          else Inr (first # rest))"

section \<open>Principals\<close>

datatype principal_state = Enabled | Disabled

datatype principal_state_parse_error = PrincipalStateParseError

fun principal_state_as_str :: "principal_state \<Rightarrow> string" where
  "principal_state_as_str Enabled = ''enabled''"
| "principal_state_as_str Disabled = ''disabled''"

definition principal_state_codes :: "(string \<times> principal_state) list" where
  "principal_state_codes = [(''enabled'', Enabled), (''disabled'', Disabled)]"

definition principal_state_from_str :: "string \<Rightarrow> principal_state_parse_error + principal_state" where
  "principal_state_from_str s = ok_or PrincipalStateParseError (map_of principal_state_codes s)"

record principal =
  pr_id :: principal_id
  pr_name :: principal_name
  pr_state :: principal_state
  pr_created_at :: instant
  pr_updated_at :: instant

datatype principal_restore_error = Principal_InvalidTimeline

definition principal_new :: "principal_id \<Rightarrow> principal_name \<Rightarrow> instant \<Rightarrow> principal" where
  "principal_new i name created_at =
     \<lparr>pr_id = i, pr_name = name, pr_state = Enabled, pr_created_at = created_at, pr_updated_at = created_at\<rparr>"

definition principal_try_from_parts ::
  "principal_id \<Rightarrow> principal_name \<Rightarrow> principal_state \<Rightarrow> instant \<Rightarrow> instant \<Rightarrow> principal_restore_error + principal" where
  "principal_try_from_parts i name st created_at updated_at =
     (if updated_at < created_at then Inl Principal_InvalidTimeline
      else Inr \<lparr>pr_id = i, pr_name = name, pr_state = st, pr_created_at = created_at, pr_updated_at = updated_at\<rparr>)"

definition principal_set_state :: "principal_state \<Rightarrow> instant \<Rightarrow> principal \<Rightarrow> principal" where
  "principal_set_state st at p = p\<lparr>pr_state := st, pr_updated_at := at\<rparr>"

section \<open>Roles\<close>

datatype role = Administrator | Operator | Viewer

datatype role_parse_error = RoleParseError

fun role_as_str :: "role \<Rightarrow> string" where
  "role_as_str Administrator = ''administrator''"
| "role_as_str Operator = ''operator''"
| "role_as_str Viewer = ''viewer''"

definition role_codes :: "(string \<times> role) list" where
  "role_codes = [(''administrator'', Administrator), (''operator'', Operator), (''viewer'', Viewer)]"

definition role_from_str :: "string \<Rightarrow> role_parse_error + role" where
  "role_from_str s = ok_or RoleParseError (map_of role_codes s)"

record role_assignment =
  ra_principal_id :: principal_id
  ra_role :: role
  ra_assigned_by :: "principal_id option"
  ra_assigned_at :: instant
  ra_site_id :: "instance_id option"

section \<open>Bootstrap codes\<close>

record bootstrap_code =
  bc_id :: bootstrap_code_id
  bc_code_hash :: "byte list"
  bc_created_at :: instant
  bc_used_at :: "instant option"
  bc_used_by :: "principal_id option"

datatype bootstrap_code_error = Bootstrap_InvalidCodeHash | InvalidConsumption | AlreadyUsed

definition bootstrap_code_new :: "bootstrap_code_id \<Rightarrow> byte list \<Rightarrow> instant \<Rightarrow> bootstrap_code" where
  "bootstrap_code_new i code_hash created_at =
     \<lparr>bc_id = i, bc_code_hash = code_hash, bc_created_at = created_at, bc_used_at = None, bc_used_by = None\<rparr>"

definition bootstrap_code_try_from_parts ::
  "bootstrap_code_id \<Rightarrow> byte list \<Rightarrow> instant \<Rightarrow> instant option \<Rightarrow> principal_id option
     \<Rightarrow> bootstrap_code_error + bootstrap_code" where
  "bootstrap_code_try_from_parts i code_hash created_at used_at used_by =
     (if length code_hash \<noteq> 32 then Inl Bootstrap_InvalidCodeHash
      else if (used_at \<noteq> None) \<noteq> (used_by \<noteq> None) then Inl InvalidConsumption
      else Inr \<lparr>bc_id = i, bc_code_hash = code_hash, bc_created_at = created_at, bc_used_at = used_at,
                bc_used_by = used_by\<rparr>)"

definition bootstrap_code_consume ::
  "principal_id \<Rightarrow> instant \<Rightarrow> bootstrap_code \<Rightarrow> bootstrap_code_error + bootstrap_code" where
  "bootstrap_code_consume used_by at c =
     (if bc_used_at c \<noteq> None then Inl AlreadyUsed
      else Inr (c\<lparr>bc_used_at := Some at, bc_used_by := Some used_by\<rparr>))"

section \<open>Passwords\<close>

definition ARGON2ID_FORMAT :: string where
  "ARGON2ID_FORMAT = ''argon2id-1''"

definition ARGON2ID_MEMORY_KIB :: nat where
  "ARGON2ID_MEMORY_KIB = 65536"

definition ARGON2ID_TIME_COST :: nat where
  "ARGON2ID_TIME_COST = 3"

definition ARGON2ID_PARALLELISM :: nat where
  "ARGON2ID_PARALLELISM = 1"

definition ARGON2ID_SALT_LENGTH :: nat where
  "ARGON2ID_SALT_LENGTH = 16"

definition ARGON2ID_HASH_LENGTH :: nat where
  "ARGON2ID_HASH_LENGTH = 32"

record argon2id_hash =
  ah_salt :: "byte list"
  ah_hash :: "byte list"

datatype password_credential_error = InvalidHashParts

definition argon2id_from_parts :: "byte list \<Rightarrow> byte list \<Rightarrow> password_credential_error + argon2id_hash" where
  "argon2id_from_parts salt hash =
     (if length salt \<noteq> ARGON2ID_SALT_LENGTH \<or> length hash \<noteq> ARGON2ID_HASH_LENGTH then Inl InvalidHashParts
      else Inr \<lparr>ah_salt = salt, ah_hash = hash\<rparr>)"

text \<open>
  The derivation of the \<open>argon2\<close> crate: parameters (memory, passes, lanes, output length), password
  and salt; \<open>None\<close> when it refuses them.
\<close>

type_synonym argon2_lib = "nat \<times> nat \<times> nat \<times> nat \<Rightarrow> byte list \<Rightarrow> byte list \<Rightarrow> byte list option"

definition argon2_params :: "nat \<times> nat \<times> nat \<times> nat" where
  "argon2_params = (ARGON2ID_MEMORY_KIB, ARGON2ID_TIME_COST, ARGON2ID_PARALLELISM, ARGON2ID_HASH_LENGTH)"

definition argon2id_verify :: "argon2_lib \<Rightarrow> ustring \<Rightarrow> argon2id_hash \<Rightarrow> bool" where
  "argon2id_verify lib password h =
     (case lib argon2_params (utf8_encode password) (ah_salt h) of
        None \<Rightarrow> False
      | Some candidate \<Rightarrow> constant_time_eq candidate (ah_hash h))"

record password_credential =
  pc_principal_id :: principal_id
  pc_hash :: argon2id_hash
  pc_changed_at :: instant

definition password_credential_try_from_parts ::
  "principal_id \<Rightarrow> argon2id_hash \<Rightarrow> instant \<Rightarrow> password_credential_error + password_credential" where
  "password_credential_try_from_parts i hash changed_at =
     Inr \<lparr>pc_principal_id = i, pc_hash = hash, pc_changed_at = changed_at\<rparr>"

datatype password_hash_error = PasswordRandomnessUnavailable | Derivation | PasswordInvalidHashParts

text \<open>\<open>security/src/password_hash.rs\<close>; the salt is what the operating system filled in.\<close>

definition hash_password ::
  "argon2_lib \<Rightarrow> byte list option \<Rightarrow> ustring \<Rightarrow> password_hash_error + argon2id_hash" where
  "hash_password lib getrandom password =
     rbind (ok_or PasswordRandomnessUnavailable getrandom) (\<lambda>salt.
     rbind (ok_or Derivation (lib argon2_params (utf8_encode password) salt)) (\<lambda>hash.
     map_err (\<lambda>_. PasswordInvalidHashParts) (argon2id_from_parts salt hash)))"

section \<open>Lemmas\<close>

interpretation principal_state_code: stable_code principal_state_as_str principal_state_from_str
  unfolding principal_state_from_str_def
proof (rule code_of_table)
  show "principal_state_codes = map (\<lambda>x. (principal_state_as_str x, x)) (map snd principal_state_codes)"
    by (simp add: principal_state_codes_def)
  show "x \<in> set (map snd principal_state_codes)" for x
    by (cases x) (simp_all add: principal_state_codes_def)
  show "distinct (map principal_state_as_str (map snd principal_state_codes))"
    by (simp add: principal_state_codes_def)
qed

interpretation role_code: stable_code role_as_str role_from_str
  unfolding role_from_str_def
proof (rule code_of_table)
  show "role_codes = map (\<lambda>x. (role_as_str x, x)) (map snd role_codes)" by (simp add: role_codes_def)
  show "x \<in> set (map snd role_codes)" for x by (cases x) (simp_all add: role_codes_def)
  show "distinct (map role_as_str (map snd role_codes))" by (simp add: role_codes_def)
qed

lemmas identity_code_roundtrip [code_roundtrip] =
  principal_state_code.parse_print role_code.parse_print

text \<open>A parsed name is a non-empty ASCII identifier of bounded length, and parses to itself again.\<close>

lemma principal_name_parse_Inr:
  assumes "principal_name_parse tables v = Inr name"
  shows "name = lower_str tables (trim v)" "name \<noteq> []" "length name \<le> MAX_PRINCIPAL_NAME_CHARS"
    "list_all is_name_character name"
  using assms by (cases "lower_str tables (trim v)";
      auto simp: principal_name_parse_def is_name_character_def list_all_iff list_ex_iff split: if_splits)+

lemma name_character_not_space: "is_name_character c \<Longrightarrow> \<not> is_whitespace c"
  by (auto simp: is_name_character_def is_name_start_def is_whitespace_def)

lemma trim_name:
  assumes "list_all is_name_character name"
  shows "trim name = name"
proof -
  have "dropWhile is_whitespace xs = xs" if "set xs \<subseteq> set name" for xs
    using that assms name_character_not_space by (cases xs) (auto simp: list_all_iff)
  then show ?thesis by (simp add: trim_def trim_start_def trim_end_def)
qed

text \<open>A freshly derived hash verifies its password, and what verifies derives the same digest.\<close>

lemma hash_password_verifies:
  assumes "hash_password lib getrandom password = Inr h"
  shows "argon2id_verify lib password h"
proof -
  obtain hash where "lib argon2_params (utf8_encode password) (ah_salt h) = Some hash" "ah_hash h = hash"
    using assms by (auto simp: hash_password_def result_simps argon2id_from_parts_def split: if_splits)
  then show ?thesis by (simp add: argon2id_verify_def constant_time_eq_iff)
qed

lemma argon2id_verify_iff:
  assumes "\<And>p s d. lib argon2_params p s = Some d \<Longrightarrow> length d = ARGON2ID_HASH_LENGTH"
    and "length (ah_hash h) = ARGON2ID_HASH_LENGTH"
  shows "argon2id_verify lib password h \<longleftrightarrow>
    lib argon2_params (utf8_encode password) (ah_salt h) = Some (ah_hash h)"
  using assms(2)
  by (auto simp: argon2id_verify_def constant_time_eq_iff split: option.split dest!: assms(1))

end
