(* ===== verification/Rate_Limiter.thy ===== *)
theory Rate_Limiter
  imports Histories Principal_Domain
begin

text \<open>
  The sign-in rate limiter of \<open>web/src/auth.rs\<close>. A budget map keeps, for every key, the reservations of
  the last fifteen minutes; it is pruned when it is read and swept as a whole after enough new keys. The
  code holds one lock per section, so a budget map is driven by sections in any order, whatever requests
  they belong to. \<open>Instant\<close>s are nanoseconds on the monotonic clock; a \<open>HashMap\<close> is a partial function.
\<close>

section \<open>Budget maps\<close>

definition RATE_WINDOW :: int where
  "RATE_WINDOW = 15 * 60 * 1000000000"

definition USERNAME_FAILURE_LIMIT :: nat where
  "USERNAME_FAILURE_LIMIT = 5"

definition IP_FAILURE_LIMIT :: nat where
  "IP_FAILURE_LIMIT = 20"

definition ME_IP_QUERY_LIMIT :: nat where
  "ME_IP_QUERY_LIMIT = 60"

definition BUCKET_PRUNE_THRESHOLD :: nat where
  "BUCKET_PRUNE_THRESHOLD = 4096"

text \<open>An entry: when it was recorded, the presenting address, the token of the reservation.\<close>

type_synonym token = "64 word"
type_synonym rate_entry = "instant \<times> ustring \<times> token"

record bucket_map =
  bk_buckets :: "ustring \<rightharpoonup> rate_entry list"
  bk_inserts_since_prune :: nat
  bk_next_token :: token
  bk_poisoned :: bool

definition bucket_map_new :: bucket_map where
  "bucket_map_new = \<lparr>bk_buckets = Map.empty, bk_inserts_since_prune = 0, bk_next_token = 0, bk_poisoned = False\<rparr>"

text \<open>\<open>duration_since\<close> is zero for an instant in the future.\<close>

definition duration_since :: "instant \<Rightarrow> instant \<Rightarrow> int" where
  "duration_since now at = max 0 (now - at)"

definition expired :: "instant \<Rightarrow> rate_entry \<Rightarrow> bool" where
  "expired now e \<longleftrightarrow> duration_since now (fst e) \<ge> RATE_WINDOW"

definition prune_front :: "instant \<Rightarrow> rate_entry list \<Rightarrow> rate_entry list" where
  "prune_front now failures = dropWhile (expired now) failures"

definition bucket_entry :: "ustring \<Rightarrow> bucket_map \<Rightarrow> bucket_map" where
  "bucket_entry key m =
     (case bk_buckets m key of
        None \<Rightarrow> m\<lparr>bk_inserts_since_prune := bk_inserts_since_prune m + 1, bk_buckets := (bk_buckets m)(key \<mapsto> [])\<rparr>
      | Some _ \<Rightarrow> m)"

definition bucket_of :: "bucket_map \<Rightarrow> ustring \<Rightarrow> rate_entry list" where
  "bucket_of m key = (case bk_buckets m key of None \<Rightarrow> [] | Some failures \<Rightarrow> failures)"

definition put_bucket :: "ustring \<Rightarrow> rate_entry list \<Rightarrow> bucket_map \<Rightarrow> bucket_map" where
  "put_bucket key failures m = m\<lparr>bk_buckets := (bk_buckets m)(key \<mapsto> failures)\<rparr>"

definition reserve_username_key ::
  "ustring \<Rightarrow> ustring \<Rightarrow> instant \<Rightarrow> nat \<Rightarrow> bucket_map \<Rightarrow> token option \<times> bucket_map" where
  "reserve_username_key key ip now limit m =
     (if bk_poisoned m then (None, m)
      else
        let token = bk_next_token m;
            m = bucket_entry key (m\<lparr>bk_next_token := token + 1\<rparr>);
            failures = prune_front now (bucket_of m key)
        in if length (filter (\<lambda>(_, entry_ip, _). entry_ip = ip) failures) < limit
           then (Some token, put_bucket key (failures @ [(now, ip, token)]) m)
           else (None, put_bucket key failures m))"

definition reserve_ip_key :: "ustring \<Rightarrow> instant \<Rightarrow> nat \<Rightarrow> bucket_map \<Rightarrow> token option \<times> bucket_map" where
  "reserve_ip_key key now limit m =
     (if bk_poisoned m then (None, m)
      else
        let token = bk_next_token m;
            m = bucket_entry key (m\<lparr>bk_next_token := token + 1\<rparr>);
            failures = prune_front now (bucket_of m key)
        in if length failures < limit
           then (Some token, put_bucket key (failures @ [(now, key, token)]) m)
           else (None, put_bucket key failures m))"

fun remove_token :: "token \<Rightarrow> rate_entry list \<Rightarrow> rate_entry list" where
  "remove_token token [] = []"
| "remove_token token (e # es) = (if snd (snd e) = token then es else e # remove_token token es)"

definition refund_key_by_token :: "ustring \<Rightarrow> token \<Rightarrow> bucket_map \<Rightarrow> bucket_map" where
  "refund_key_by_token key token m =
     (if bk_poisoned m then m
      else case bk_buckets m key of
        None \<Rightarrow> m
      | Some failures \<Rightarrow> put_bucket key (remove_token token failures) m)"

definition prune_expired :: "instant \<Rightarrow> (ustring \<rightharpoonup> rate_entry list) \<Rightarrow> (ustring \<rightharpoonup> rate_entry list)" where
  "prune_expired now buckets = (\<lambda>key.
     case buckets key of
       None \<Rightarrow> None
     | Some failures \<Rightarrow> (case prune_front now failures of [] \<Rightarrow> None | kept \<Rightarrow> Some kept))"

definition prune_if_due :: "instant \<Rightarrow> bucket_map \<Rightarrow> bucket_map" where
  "prune_if_due now m =
     (if bk_inserts_since_prune m \<ge> BUCKET_PRUNE_THRESHOLD
      then m\<lparr>bk_inserts_since_prune := 0, bk_buckets := prune_expired now (bk_buckets m)\<rparr>
      else m)"

definition sweep_if_due :: "instant \<Rightarrow> bucket_map \<Rightarrow> bucket_map" where
  "sweep_if_due now m = (if bk_poisoned m then m else prune_if_due now m)"

section \<open>The limiter\<close>

definition RATE_LIMIT_USERNAME_CHARS :: nat where
  "RATE_LIMIT_USERNAME_CHARS = MAX_PRINCIPAL_NAME_CHARS"

definition bounded_username_key :: "case_tables \<Rightarrow> ustring \<Rightarrow> ustring" where
  "bounded_username_key tables username =
     (let trimmed = trim username;
          within_bound = length trimmed \<le> RATE_LIMIT_USERNAME_CHARS;
          already_canonical = (str_len trimmed = str_len username
            \<and> list_all (\<lambda>c. lower_char tables c \<noteq> [] \<and> hd (lower_char tables c) = c) trimmed)
      in if within_bound \<and> already_canonical then username
         else take RATE_LIMIT_USERNAME_CHARS (lower_str tables trimmed))"

record reservation =
  rv_username_token :: token
  rv_ip_token :: token

record login_rate_limiter =
  rl_by_username :: bucket_map
  rl_by_ip :: bucket_map

definition limiter_new :: login_rate_limiter where
  "limiter_new = \<lparr>rl_by_username = bucket_map_new, rl_by_ip = bucket_map_new\<rparr>"

definition reserve ::
  "case_tables \<Rightarrow> ustring \<Rightarrow> ustring \<Rightarrow> instant \<Rightarrow> login_rate_limiter \<Rightarrow> reservation option \<times> login_rate_limiter" where
  "reserve tables username ip now l =
     (let username_key = bounded_username_key tables username in
      case reserve_username_key username_key ip now USERNAME_FAILURE_LIMIT (rl_by_username l) of
        (None, u) \<Rightarrow> (None, l\<lparr>rl_by_username := u\<rparr>)
      | (Some username_token, u) \<Rightarrow>
          (case reserve_ip_key ip now IP_FAILURE_LIMIT (rl_by_ip l) of
             (None, a) \<Rightarrow>
               (None, \<lparr>rl_by_username = sweep_if_due now (refund_key_by_token username_key username_token u),
                       rl_by_ip = sweep_if_due now a\<rparr>)
           | (Some ip_token, a) \<Rightarrow>
               (Some \<lparr>rv_username_token = username_token, rv_ip_token = ip_token\<rparr>,
                \<lparr>rl_by_username = sweep_if_due now u, rl_by_ip = sweep_if_due now a\<rparr>)))"

definition refund :: "case_tables \<Rightarrow> ustring \<Rightarrow> ustring \<Rightarrow> reservation \<Rightarrow> login_rate_limiter \<Rightarrow> login_rate_limiter" where
  "refund tables username ip r l =
     \<lparr>rl_by_username = refund_key_by_token (bounded_username_key tables username) (rv_username_token r) (rl_by_username l),
      rl_by_ip = refund_key_by_token ip (rv_ip_token r) (rl_by_ip l)\<rparr>"

definition reserve_ip :: "ustring \<Rightarrow> instant \<Rightarrow> nat \<Rightarrow> login_rate_limiter \<Rightarrow> bool \<times> login_rate_limiter" where
  "reserve_ip ip now limit l =
     (case reserve_ip_key ip now limit (rl_by_ip l) of
        (granted, a) \<Rightarrow> (granted \<noteq> None, l\<lparr>rl_by_ip := sweep_if_due now a\<rparr>))"

end
