(* ===== verification/Rate_Limiter_Properties.thy ===== *)
theory Rate_Limiter_Properties
  imports Rate_Limiter
begin

text \<open>
  A budget map against a ledger that keeps every outstanding reservation for ever: no window holds more
  than the limit, up to the disorder of the instants, and on instants in order pruning and sweeping never
  change a verdict and a refund releases exactly its own reservation. A history is any sequence of the
  sections the code runs under the lock of one map. The instants are read before the lock is taken, so
  they may come out of order.
\<close>

section \<open>Sections\<close>

datatype budget_section =
    ReserveUsername ustring ustring instant
  | ReserveIp ustring instant
  | RefundToken ustring token
  | Sweep instant

fun section_step :: "nat \<Rightarrow> budget_section \<Rightarrow> bucket_map \<Rightarrow> token option \<times> bucket_map" where
  "section_step limit (ReserveUsername key ip now) m = reserve_username_key key ip now limit m"
| "section_step limit (ReserveIp key now) m = reserve_ip_key key now limit m"
| "section_step limit (RefundToken key token) m = (None, refund_key_by_token key token m)"
| "section_step limit (Sweep now) m = (None, sweep_if_due now m)"

fun section_times :: "budget_section list \<Rightarrow> instant list" where
  "section_times [] = []"
| "section_times (ReserveUsername _ _ now # ss) = now # section_times ss"
| "section_times (ReserveIp _ now # ss) = now # section_times ss"
| "section_times (RefundToken _ _ # ss) = section_times ss"
| "section_times (Sweep now # ss) = now # section_times ss"

section \<open>The reference\<close>

text \<open>The outstanding reservations with their keys, oldest first, and the next token.\<close>

type_synonym reference = "(ustring \<times> rate_entry) list \<times> token"

definition reservations_of :: "reference \<Rightarrow> ustring \<Rightarrow> rate_entry list" where
  "reservations_of r key = map snd (filter (\<lambda>g. fst g = key) (fst r))"

definition reference_reserve ::
  "ustring \<Rightarrow> ustring \<Rightarrow> instant \<Rightarrow> bool \<Rightarrow> reference \<Rightarrow> token option \<times> reference" where
  "reference_reserve key ip now granted r =
     (if granted then (Some (snd r), (fst r @ [(key, now, ip, snd r)], snd r + 1)) else (None, (fst r, snd r + 1)))"

fun reference_step :: "nat \<Rightarrow> budget_section \<Rightarrow> reference \<Rightarrow> token option \<times> reference" where
  "reference_step limit (ReserveUsername key ip now) r =
     reference_reserve key ip now
       (length (filter (\<lambda>e. \<not> expired now e \<and> fst (snd e) = ip) (reservations_of r key)) < limit) r"
| "reference_step limit (ReserveIp key now) r =
     reference_reserve key key now
       (length (filter (\<lambda>e. \<not> expired now e) (reservations_of r key)) < limit) r"
| "reference_step limit (RefundToken key token) r =
     (None, (filter (\<lambda>g. \<not> (fst g = key \<and> snd (snd (snd g)) = token)) (fst r), snd r))"
| "reference_step limit (Sweep now) r = (None, r)"

definition reference_new :: reference where
  "reference_new = ([], 0)"

text \<open>The ledger writes down what the map itself grants and releases.\<close>

fun recorded :: "budget_section \<Rightarrow> bool \<Rightarrow> reference \<Rightarrow> reference" where
  "recorded (ReserveUsername key ip now) granted r = snd (reference_reserve key ip now granted r)"
| "recorded (ReserveIp key now) granted r = snd (reference_reserve key key now granted r)"
| "recorded (RefundToken key token) granted r = (filter (\<lambda>g. \<not> (fst g = key \<and> snd (snd (snd g)) = token)) (fst r), snd r)"
| "recorded (Sweep now) granted r = r"

fun ledger_step :: "nat \<Rightarrow> budget_section \<Rightarrow> bucket_map \<times> reference \<Rightarrow> token option \<times> (bucket_map \<times> reference)" where
  "ledger_step limit s (m, r) =
     (fst (section_step limit s m),
      snd (section_step limit s m), recorded s (fst (section_step limit s m) \<noteq> None) r)"

text \<open>No instant is more than \<open>late\<close> behind one that came before it.\<close>

fun late_by :: "int \<Rightarrow> instant list \<Rightarrow> bool" where
  "late_by late [] \<longleftrightarrow> True"
| "late_by late (t # ts) \<longleftrightarrow> list_all (\<lambda>u. t - late \<le> u) ts \<and> late_by late ts"

section \<open>Simulation\<close>

text \<open>
  A map tracks the reference when every bucket is what is left of the key's reservations after dropping
  some that left the window.
\<close>

definition kept :: "instant \<Rightarrow> rate_entry list \<Rightarrow> rate_entry list \<Rightarrow> bool" where
  "kept now bucket all \<longleftrightarrow> (\<exists>dropped. all = dropped @ bucket \<and> list_all (expired now) dropped)"

definition reference_ok :: "instant \<Rightarrow> nat \<Rightarrow> reference \<Rightarrow> bool" where
  "reference_ok now k r \<longleftrightarrow>
     snd r = word_of_nat k \<and> distinct (map (\<lambda>g. snd (snd (snd g))) (fst r))
   \<and> (\<forall>g \<in> set (fst r). unat (snd (snd (snd g))) < k \<and> fst (snd g) \<le> now)
   \<and> sorted (map (\<lambda>g. fst (snd g)) (fst r))"

definition tracks :: "instant \<Rightarrow> bucket_map \<Rightarrow> reference \<Rightarrow> bool" where
  "tracks now m r \<longleftrightarrow>
     \<not> bk_poisoned m \<and> bk_next_token m = snd r \<and> (\<forall>key. kept now (bucket_of m key) (reservations_of r key))"

lemma expired_mono: "now \<le> now' \<Longrightarrow> expired now e \<Longrightarrow> expired now' e"
  by (auto simp: expired_def duration_since_def)

lemma expired_earlier: "expired now e \<Longrightarrow> fst e' \<le> fst e \<Longrightarrow> expired now e'"
  by (auto simp: expired_def duration_since_def)

lemma tracks_later: "now \<le> now' \<Longrightarrow> tracks now m r \<Longrightarrow> tracks now' m r"
  by (fastforce simp: tracks_def kept_def list_all_iff intro: expired_mono)

lemma kept_pruned:
  assumes "kept high bucket all" "now \<le> high"
  shows "kept high (prune_front now bucket) all"
proof -
  obtain dropped where all: "all = dropped @ bucket" "list_all (expired high) dropped" using assms(1) by (auto simp: kept_def)
  have "all = (dropped @ takeWhile (expired now) bucket) @ prune_front now bucket"
    by (simp add: all(1) prune_front_def)
  moreover have "list_all (expired high) (dropped @ takeWhile (expired now) bucket)"
    using all(2) expired_mono [OF assms(2)] by (auto simp: list_all_iff dest: set_takeWhileD)
  ultimately show ?thesis unfolding kept_def by blast
qed

lemma pruned_fresh: "sorted (map fst bucket) \<Longrightarrow> e \<in> set (prune_front now bucket) \<Longrightarrow> \<not> expired now e"
  unfolding prune_front_def
  by (induction bucket) (auto split: if_splits dest: expired_earlier)

lemma kept_counted:
  assumes "kept now bucket all" "sorted (map fst all)"
  shows "filter P (prune_front now bucket) = filter (\<lambda>e. \<not> expired now e \<and> P e) all"
proof -
  obtain dropped where all: "all = dropped @ prune_front now bucket" "list_all (expired now) dropped"
    using kept_pruned [OF assms(1) order_refl] by (auto simp: kept_def)
  have "sorted (map fst bucket)" using assms by (auto simp: kept_def sorted_append)
  then have "filter P (prune_front now bucket) = filter (\<lambda>e. \<not> expired now e \<and> P e) (prune_front now bucket)"
    by (auto intro!: filter_cong dest: pruned_fresh)
  moreover have "filter (\<lambda>e. \<not> expired now e \<and> P e) dropped = []"
    using all(2) by (auto simp: filter_empty_conv list_all_iff)
  ultimately show ?thesis by (simp add: all(1))
qed

lemma remove_token_absent: "t \<notin> (\<lambda>e. snd (snd e)) ` set es \<Longrightarrow> remove_token t es = es"
  by (induction es) auto

lemma remove_token_filter:
  "distinct (map (\<lambda>e. snd (snd e)) es) \<Longrightarrow> remove_token t es = filter (\<lambda>e. snd (snd e) \<noteq> t) es"
  by (induction es) (auto intro!: filter_True [symmetric] simp: image_iff)

lemma kept_removed:
  assumes "kept now bucket all" "distinct (map (\<lambda>e. snd (snd e)) all)"
  shows "kept now (remove_token t bucket) (filter (\<lambda>e. snd (snd e) \<noteq> t) all)"
  using assms by (fastforce simp: kept_def remove_token_filter list_all_iff)

lemma reservations_sorted: "reference_ok now k r \<Longrightarrow> sorted (map fst (reservations_of r key))"
  using sorted_map_filter_key [of "\<lambda>g. fst (snd g)" "fst r" "\<lambda>g. fst g = key"]
  by (simp add: reference_ok_def reservations_of_def comp_def)

lemma reservations_distinct:
  "distinct (map (\<lambda>g. snd (snd (snd g))) (fst r)) \<Longrightarrow> distinct (map (\<lambda>e. snd (snd e)) (reservations_of r key))"
  using distinct_map_filter_key [of "\<lambda>g. snd (snd (snd g))" "fst r" "\<lambda>g. fst g = key"]
  by (simp add: reservations_of_def comp_def)

lemma reservations_removed:
  "reservations_of (filter (\<lambda>g. \<not> (fst g = key \<and> snd (snd (snd g)) = t)) log, n) key' =
     (if key' = key then filter (\<lambda>e. snd (snd e) \<noteq> t) (reservations_of (log, n) key) else reservations_of (log, n) key')"
  by (induction log) (auto simp: reservations_of_def)

lemma bucket_of_put [simp]: "bucket_of (put_bucket key es m) key' = (if key' = key then es else bucket_of m key')"
  by (simp add: bucket_of_def put_bucket_def)

lemma bucket_of_entry [simp]:
  "bucket_of (bucket_entry key m) key' = bucket_of m key'" "bk_poisoned (bucket_entry key m) = bk_poisoned m"
  "bk_next_token (bucket_entry key m) = bk_next_token m" "bk_poisoned (put_bucket key es m) = bk_poisoned m"
  "bk_next_token (put_bucket key es m) = bk_next_token m"
  "bucket_of (m\<lparr>bk_next_token := t\<rparr>) key' = bucket_of m key'"
  by (auto simp: bucket_of_def bucket_entry_def put_bucket_def split: option.split)

text \<open>A reservation keeps the two in step, whether it is granted or refused.\<close>

lemma reserve_tracks:
  assumes "tracks high m r" "now \<le> high"
  shows "tracks high (put_bucket key (prune_front now (bucket_of m key) @ [(now, ip, bk_next_token m)])
           (bucket_entry key (m\<lparr>bk_next_token := bk_next_token m + 1\<rparr>))) (snd (reference_reserve key ip now True r))"
    and "tracks high (put_bucket key (prune_front now (bucket_of m key))
           (bucket_entry key (m\<lparr>bk_next_token := bk_next_token m + 1\<rparr>))) (snd (reference_reserve key ip now False r))"
proof -
  have pruned: "kept high (prune_front now (bucket_of m key)) (reservations_of r key)"
    using assms by (intro kept_pruned) (simp_all add: tracks_def)
  then have grown: "kept high (prune_front now (bucket_of m key) @ [e]) (reservations_of r key @ [e])" for e
    by (auto simp: kept_def)
  have step: "reservations_of (fst r @ [(key, e)], n) key' = reservations_of r key' @ (if key' = key then [e] else [])"
    "reservations_of (fst r, n) key' = reservations_of r key'" for e n key'
    by (simp_all add: reservations_of_def)
  show "tracks high (put_bucket key (prune_front now (bucket_of m key) @ [(now, ip, bk_next_token m)])
           (bucket_entry key (m\<lparr>bk_next_token := bk_next_token m + 1\<rparr>))) (snd (reference_reserve key ip now True r))"
    using assms grown by (simp add: tracks_def reference_reserve_def step)
  show "tracks high (put_bucket key (prune_front now (bucket_of m key))
           (bucket_entry key (m\<lparr>bk_next_token := bk_next_token m + 1\<rparr>))) (snd (reference_reserve key ip now False r))"
    using assms pruned by (simp add: tracks_def reference_reserve_def step)
qed

lemma reserve_username_tracks:
  assumes "tracks now m r" "reference_ok now' k r"
  shows "fst (reserve_username_key key ip now limit m) = fst (reference_step limit (ReserveUsername key ip now) r)
    \<and> tracks now (snd (reserve_username_key key ip now limit m)) (snd (reference_step limit (ReserveUsername key ip now) r))"
proof -
  have P: "filter (\<lambda>(_, entry_ip, _). entry_ip = ip) (prune_front now (bucket_of m key)) =
      filter (\<lambda>e. \<not> expired now e \<and> fst (snd e) = ip) (reservations_of r key)"
    using kept_counted [of now "bucket_of m key" "reservations_of r key" "\<lambda>(_, entry_ip, _). entry_ip = ip"] assms
      reservations_sorted [OF assms(2)] by (simp add: tracks_def case_prod_unfold)
  from assms(1) have "\<not> bk_poisoned m" "bk_next_token m = snd r" by (simp_all add: tracks_def)
  with reserve_tracks [OF assms(1) order_refl, of key ip] P show ?thesis
    by (simp add: reserve_username_key_def Let_def) (simp add: reference_reserve_def)
qed

lemma reserve_ip_tracks:
  assumes "tracks now m r" "reference_ok now' k r"
  shows "fst (reserve_ip_key key now limit m) = fst (reference_step limit (ReserveIp key now) r)
    \<and> tracks now (snd (reserve_ip_key key now limit m)) (snd (reference_step limit (ReserveIp key now) r))"
proof -
  have P: "length (prune_front now (bucket_of m key)) = length (filter (\<lambda>e. \<not> expired now e) (reservations_of r key))"
    using kept_counted [of now "bucket_of m key" "reservations_of r key" "\<lambda>_. True"] assms reservations_sorted [OF assms(2)]
    by (simp add: tracks_def)
  from assms(1) have "\<not> bk_poisoned m" "bk_next_token m = snd r" by (simp_all add: tracks_def)
  with reserve_tracks [OF assms(1) order_refl, of key key] P show ?thesis
    by (simp add: reserve_ip_key_def Let_def) (simp add: reference_reserve_def)
qed

lemma refund_tracks:
  assumes "tracks now m r" "distinct (map (\<lambda>g. snd (snd (snd g))) (fst r))"
  shows "tracks now (refund_key_by_token key t m) (recorded (RefundToken key t) granted r)"
proof -
  have all: "reservations_of (recorded (RefundToken key t) granted r) key' =
      (if key' = key then filter (\<lambda>e. snd (snd e) \<noteq> t) (reservations_of r key) else reservations_of r key')" for key'
    using reservations_removed [of key t "fst r" "snd r" key'] by simp
  have bucket: "bucket_of (refund_key_by_token key t m) key' =
      (if key' = key then remove_token t (bucket_of m key) else bucket_of m key')" for key'
    using assms(1) by (auto simp: refund_key_by_token_def tracks_def bucket_of_def put_bucket_def split: option.split)
  have "\<not> bk_poisoned (refund_key_by_token key t m)" "bk_next_token (refund_key_by_token key t m) = snd r"
    using assms(1) by (auto simp: refund_key_by_token_def tracks_def split: option.split)
  then show ?thesis
    using assms(1) kept_removed [OF _ reservations_distinct [OF assms(2)], of now "bucket_of m key" key t]
    unfolding tracks_def all bucket by simp
qed

lemma sweep_tracks:
  assumes "tracks high m r" "now \<le> high"
  shows "tracks high (sweep_if_due now m) r"
proof -
  have "bucket_of (m\<lparr>bk_inserts_since_prune := 0, bk_buckets := prune_expired now (bk_buckets m)\<rparr>) key =
      prune_front now (bucket_of m key)" for key
  proof (cases "bk_buckets m key")
    case None
    then show ?thesis by (simp add: bucket_of_def prune_expired_def prune_front_def)
  next
    case (Some failures)
    then show ?thesis by (cases "prune_front now failures") (simp_all add: bucket_of_def prune_expired_def)
  qed
  with assms show ?thesis
    by (auto simp: tracks_def sweep_if_due_def prune_if_due_def intro!: kept_pruned)
qed

section \<open>Histories\<close>

lemma reference_reserve_ok:
  assumes "reference_ok now k r" "now \<le> now'" "Suc k \<le> 2 ^ 64"
  shows "reference_ok now' (Suc k) (snd (reference_reserve key ip now' granted r))"
proof -
  have k: "unat (word_of_nat k :: token) = k" using assms(3) by (simp add: unat_of_nat)
  have next_token: "snd (snd (reference_reserve key ip now' granted r)) = word_of_nat (Suc k)"
    using assms(1) by (auto simp: reference_ok_def reference_reserve_def)
  have fresh: "snd r \<notin> (\<lambda>g. snd (snd (snd g))) ` set (fst r)"
    using assms(1) k by (fastforce simp: reference_ok_def)
  have "reference_ok now' (Suc k) (fst r, snd r + 1)"
    using assms(1,2) by (fastforce simp: reference_ok_def)
  then show ?thesis
    using assms(1,2) k fresh next_token
    by (fastforce simp: reference_ok_def reference_reserve_def sorted_append image_iff)
qed

lemma reference_refund_ok:
  assumes "reference_ok now k r"
  shows "reference_ok now k (snd (reference_step limit (RefundToken key t) r))"
  using assms
  by (auto simp: reference_ok_def intro!: sorted_map_filter_key distinct_map_filter_key)

lemma reference_ok_later: "reference_ok now k r \<Longrightarrow> now \<le> now' \<Longrightarrow> reference_ok now' k r"
  by (fastforce simp: reference_ok_def)

text \<open>One section: the same reply, and the two stay in step.\<close>

lemma section_simulates:
  assumes "tracks now m r" "reference_ok now k r" "sorted (now # section_times [s])" "Suc k \<le> 2 ^ 64"
  obtains now' k' where "fst (section_step limit s m) = fst (reference_step limit s r)"
    "tracks now' (snd (section_step limit s m)) (snd (reference_step limit s r))"
    "reference_ok now' k' (snd (reference_step limit s r))" "k' \<le> Suc k" "now' = last (now # section_times [s])"
proof (cases s)
  case (ReserveUsername key ip now')
  with assms(3) have now: "now \<le> now'" by simp
  from reserve_username_tracks [OF tracks_later [OF now assms(1)] assms(2)]
    reference_reserve_ok [OF assms(2) now assms(4)] show ?thesis
    by (intro that [of now' "Suc k"]) (simp_all add: ReserveUsername)
next
  case (ReserveIp key now')
  with assms(3) have now: "now \<le> now'" by simp
  from reserve_ip_tracks [OF tracks_later [OF now assms(1)] assms(2)]
    reference_reserve_ok [OF assms(2) now assms(4)] show ?thesis
    by (intro that [of now' "Suc k"]) (simp_all add: ReserveIp)
next
  case (RefundToken key t)
  have "distinct (map (\<lambda>g. snd (snd (snd g))) (fst r))" using assms(2) by (simp add: reference_ok_def)
  from refund_tracks [OF assms(1) this] reference_refund_ok [OF assms(2)] show ?thesis
    by (intro that [of now k]) (simp_all only: RefundToken section_step.simps reference_step.simps section_times.simps fst_conv snd_conv last.simps, simp_all)
next
  case (Sweep now')
  with assms(3) have now: "now \<le> now'" by simp
  from sweep_tracks [OF tracks_later [OF now assms(1)] order_refl] reference_ok_later [OF assms(2) now] show ?thesis
    by (intro that [of now' k]) (simp_all add: Sweep)
qed

lemma section_times_Cons: "section_times (s # ss) = section_times [s] @ section_times ss"
  by (cases s) simp_all

lemma sections_simulate:
  assumes "tracks now m r" "reference_ok now k r" "sorted (now # section_times ss)" "k + length ss \<le> 2 ^ 64"
  shows "trace (section_step limit) ss m = trace (reference_step limit) ss r"
  using assms
proof (induction ss arbitrary: now m r k)
  case (Cons s ss)
  have one: "sorted (now # section_times [s])" and rest: "sorted (last (now # section_times [s]) # section_times ss)"
    using Cons.prems(3) by (cases s; simp)+
  obtain now' k' where step: "fst (section_step limit s m) = fst (reference_step limit s r)"
    "tracks now' (snd (section_step limit s m)) (snd (reference_step limit s r))"
    "reference_ok now' k' (snd (reference_step limit s r))" "k' \<le> Suc k" "now' = last (now # section_times [s])"
    using section_simulates [OF Cons.prems(1,2) one] Cons.prems(4) by (metis add_leD1 length_Cons add_Suc_right add_Suc)
  have "k' + length ss \<le> 2 ^ 64" using step(4) Cons.prems(4) by simp
  from Cons.IH [OF step(2,3) _ this] rest step(1,5) show ?case by simp
qed simp

section \<open>The bound\<close>

text \<open>The outstanding reservations of a key from one address in the window of that width that ends at \<open>t\<close>.\<close>

definition outstanding_in_window :: "int \<Rightarrow> instant \<Rightarrow> ustring \<Rightarrow> ustring \<Rightarrow> reference \<Rightarrow> nat" where
  "outstanding_in_window width t key ip r =
     length (filter (\<lambda>(k, at, address, _). k = key \<and> address = ip \<and> t - width < at \<and> at \<le> t) (fst r))"

lemma length_filter_mono: "(\<And>x. P x \<Longrightarrow> Q x) \<Longrightarrow> length (filter P xs) \<le> length (filter Q xs)"
  by (induction xs) auto

text \<open>
  What the map counts covers the window narrowed by the lateness: an entry it dropped left the window of an
  instant that is at most that much ahead.
\<close>

lemma outstanding_le_counted:
  assumes "kept high bucket (reservations_of r key)" "high \<le> now + late" "now \<le> high" "now \<le> t"
  shows "outstanding_in_window (RATE_WINDOW - late) t key ip r
    \<le> length (filter (\<lambda>e. fst (snd e) = ip) (prune_front now bucket))"
proof -
  obtain dropped where all: "reservations_of r key = dropped @ prune_front now bucket" "list_all (expired high) dropped"
    using kept_pruned [OF assms(1,3)] by (auto simp: kept_def)
  let ?P = "\<lambda>e :: rate_entry. fst (snd e) = ip \<and> t - (RATE_WINDOW - late) < fst e \<and> fst e \<le> t"
  have "\<not> ?P e" if "e \<in> set dropped" for e
    using all(2) that assms(2,4) by (auto simp: list_all_iff expired_def duration_since_def RATE_WINDOW_def)
  then have "filter ?P (reservations_of r key) = filter ?P (prune_front now bucket)"
    by (simp add: all(1) filter_empty_conv)
  moreover have "outstanding_in_window (RATE_WINDOW - late) t key ip r = length (filter ?P (reservations_of r key))"
    by (simp add: outstanding_in_window_def reservations_of_def filter_map comp_def case_prod_unfold conj_ac)
  ultimately show ?thesis by (auto intro!: length_filter_mono)
qed

lemma outstanding_recorded:
  assumes "\<And>t. outstanding_in_window width t key ip r \<le> limit"
    and "\<And>t. granted \<Longrightarrow> now \<le> t \<Longrightarrow> outstanding_in_window width t key' ip' r < limit"
  shows "outstanding_in_window width t key ip (snd (reference_reserve key' ip' now granted r)) \<le> limit"
proof (cases "granted \<and> key = key' \<and> ip = ip' \<and> t - width < now \<and> now \<le> t")
  case True
  with assms(2) [of t] show ?thesis by (simp add: outstanding_in_window_def reference_reserve_def)
next
  case False
  then have "outstanding_in_window width t key ip (snd (reference_reserve key' ip' now granted r)) = outstanding_in_window width t key ip r"
    by (auto simp: outstanding_in_window_def reference_reserve_def)
  with assms(1) show ?thesis by simp
qed

text \<open>What every history keeps of a map and its ledger; \<open>high\<close> is the latest instant so far.\<close>

definition ledger_ok :: "int \<Rightarrow> nat \<Rightarrow> instant \<Rightarrow> nat \<Rightarrow> bucket_map \<times> reference \<Rightarrow> bool" where
  "ledger_ok late limit high k l \<longleftrightarrow>
     tracks high (fst l) (snd l) \<and> snd (snd l) = word_of_nat k
   \<and> distinct (map (\<lambda>g. snd (snd (snd g))) (fst (snd l)))
   \<and> (\<forall>g \<in> set (fst (snd l)). unat (snd (snd (snd g))) < k)
   \<and> (\<forall>t key ip. outstanding_in_window (RATE_WINDOW - late) t key ip (snd l) \<le> limit)"

lemma ledger_reserved:
  assumes "ledger_ok late limit high k (m, r)" "tracks high m' (snd (reference_reserve key ip now granted r))"
    and "granted \<Longrightarrow> length (filter (\<lambda>e. fst (snd e) = ip) (prune_front now (bucket_of m key))) < limit"
    and "now \<le> high" "high \<le> now + late" "Suc k \<le> 2 ^ 64"
  shows "ledger_ok late limit high (Suc k) (m', snd (reference_reserve key ip now granted r))"
proof -
  have k: "unat (word_of_nat k :: token) = k" using assms(6) by (simp add: unat_of_nat)
  have "outstanding_in_window (RATE_WINDOW - late) t key ip r < limit" if "granted" "now \<le> t" for t
    using outstanding_le_counted [of high "bucket_of m key" r key now late t ip] assms that
    by (fastforce simp: ledger_ok_def tracks_def)
  then have bound: "outstanding_in_window (RATE_WINDOW - late) t key' ip' (snd (reference_reserve key ip now granted r)) \<le> limit"
    for t key' ip'
    using assms(1) by (intro outstanding_recorded) (auto simp: ledger_ok_def)
  have "snd r \<notin> (\<lambda>g. snd (snd (snd g))) ` set (fst r)"
    using assms(1) k by (fastforce simp: ledger_ok_def)
  with assms(1,2) k bound show ?thesis
    by (fastforce simp: ledger_ok_def reference_reserve_def image_iff split: if_splits)
qed

lemma ledger_keeps:
  assumes "ledger_ok late limit high k l" "list_all (\<lambda>u. high - late \<le> u) (section_times [s])" "0 \<le> late" "Suc k \<le> 2 ^ 64"
  obtains k' where "ledger_ok late limit (foldl max high (section_times [s])) k' (snd (ledger_step limit s l))" "k' \<le> Suc k"
proof -
  obtain m r where l: "l = (m, r)" by (rule prod.exhaust)
  have later: "ledger_ok late limit (max high now) k (m, r)" for now
    using assms(1) tracks_later [of high "max high now" m r] by (simp add: ledger_ok_def l)
  have safe: "\<not> bk_poisoned m" "bk_next_token m = snd r" using assms(1) by (simp_all add: ledger_ok_def tracks_def l)
  show thesis
  proof (cases s)
    case (ReserveUsername key ip now)
    let ?high = "max high now"
    have now: "now \<le> ?high" "?high \<le> now + late" using assms(2,3) ReserveUsername by auto
    note tracked = reserve_tracks [OF _ now(1), of m r key ip] later [unfolded ledger_ok_def]
    have "ledger_ok late limit ?high (Suc k) (snd (ledger_step limit s l))"
      unfolding l ReserveUsername ledger_step.simps recorded.simps snd_conv
      by (rule ledger_reserved [OF later _ _ now assms(4)])
        (use tracked safe in \<open>auto simp: reserve_username_key_def Let_def case_prod_unfold split: if_splits\<close>)
    then show thesis by (intro that [of "Suc k"]) (simp_all add: ReserveUsername)
  next
    case (ReserveIp key now)
    let ?high = "max high now"
    have now: "now \<le> ?high" "?high \<le> now + late" using assms(2,3) ReserveIp by auto
    note tracked = reserve_tracks [OF _ now(1), of m r key key] later [unfolded ledger_ok_def]
    have shorter: "length (filter P es) < limit" if "length es < limit" for P and es :: "rate_entry list"
      using that length_filter_le [of P es] by linarith
    have "ledger_ok late limit ?high (Suc k) (snd (ledger_step limit s l))"
      unfolding l ReserveIp ledger_step.simps recorded.simps snd_conv
      by (rule ledger_reserved [OF later _ _ now assms(4)])
        (use tracked safe in \<open>auto simp: reserve_ip_key_def Let_def intro: shorter split: if_splits\<close>)
    then show thesis by (intro that [of "Suc k"]) (simp_all add: ReserveIp)
  next
    case (RefundToken key token)
    have "outstanding_in_window w t key' ip (recorded (RefundToken key token) False r) \<le> outstanding_in_window w t key' ip r" for w t key' ip
      by (auto simp: outstanding_in_window_def intro!: length_filter_mono)
    then have "outstanding_in_window (RATE_WINDOW - late) t key' ip (recorded (RefundToken key token) False r) \<le> limit" for t key' ip
      using assms(1) unfolding ledger_ok_def l snd_conv by (blast intro: le_trans)
    then have "ledger_ok late limit high k (snd (ledger_step limit s l))"
      using assms(1) refund_tracks [of high m r key token False]
      unfolding l RefundToken by (simp add: ledger_ok_def distinct_map_filter_key)
    then show thesis by (intro that [of k]) (simp_all add: RefundToken)
  next
    case (Sweep now)
    have "ledger_ok late limit (max high now) k (snd (ledger_step limit s l))"
      using later [of now] sweep_tracks [of "max high now" m r now] by (simp add: ledger_ok_def l Sweep)
    then show thesis by (intro that [of k]) (simp_all add: Sweep)
  qed
qed

lemma late_by_append:
  "late_by late (ts @ us) \<longleftrightarrow> late_by late ts \<and> late_by late us \<and> (\<forall>t \<in> set ts. list_all (\<lambda>u. t - late \<le> u) us)"
  by (induction ts) (auto simp: list_all_iff)

lemma late_by_sorted: "sorted ts \<longleftrightarrow> late_by 0 ts"
  by (induction ts) (auto simp: list_all_iff)

lemma ledger_run:
  assumes "ledger_ok late limit high k l" "late_by late (high # section_times ss)" "0 \<le> late" "k + length ss \<le> 2 ^ 64"
  shows "outstanding_in_window (RATE_WINDOW - late) t key ip (snd (run (ledger_step limit) ss l)) \<le> limit"
  using assms
proof (induction ss arbitrary: high k l)
  case Nil
  then show ?case by (simp add: ledger_ok_def)
next
  case (Cons s ss)
  let ?high = "foldl max high (section_times [s])"
  have times: "section_times (s # ss) = section_times [s] @ section_times ss" by (rule section_times_Cons)
  have one: "list_all (\<lambda>u. high - late \<le> u) (section_times [s])"
    using Cons.prems(2) unfolding times by simp
  have rest: "late_by late (?high # section_times ss)"
    using Cons.prems(2) unfolding times by (cases s) (auto simp: late_by_append list_all_iff max_def)
  obtain k' where "ledger_ok late limit ?high k' (snd (ledger_step limit s l))" "k' \<le> Suc k"
    using ledger_keeps [OF Cons.prems(1) one Cons.prems(3)] Cons.prems(4) by auto
  with Cons.IH [OF this(1) rest Cons.prems(3)] Cons.prems(4) show ?case by simp
qed

section \<open>Property\<close>

text \<open>
  C23: The rate limit holds over every window. Whatever sequence of reservations, refunds and sweeps runs
  under the lock of a budget map, at whatever instants: of one key and address, no window ever holds more
  outstanding reservations than the limit, where a window is fifteen minutes less the time by which an
  instant came behind one that was used before it. When the instants come in order, so when every window
  is the full fifteen minutes, the replies are those of a reference that never forgets a reservation:
  pruning and sweeping change no verdict and a refund releases no other attempt.
\<close>

theorem rate_limit_holds_in_every_window:
  assumes "length ss \<le> 2 ^ 64"
  shows "(\<forall>late t key ip. 0 \<le> late \<and> late_by late (section_times ss) \<longrightarrow>
        outstanding_in_window (RATE_WINDOW - late) t key ip
          (snd (run (ledger_step limit) ss (bucket_map_new, reference_new))) \<le> limit)
    \<and> (sorted (section_times ss) \<longrightarrow>
        trace (section_step limit) ss bucket_map_new = trace (reference_step limit) ss reference_new)"
proof (intro conjI allI impI)
  have new: "tracks now bucket_map_new reference_new" for now
    by (simp add: tracks_def bucket_map_new_def reference_new_def kept_def bucket_of_def reservations_of_def)
  define now where "now = (case section_times ss of [] \<Rightarrow> 0 | t # _ \<Rightarrow> t)"
  show "outstanding_in_window (RATE_WINDOW - late) t key ip (snd (run (ledger_step limit) ss (bucket_map_new, reference_new))) \<le> limit"
    if late: "0 \<le> late \<and> late_by late (section_times ss)" for late t key ip
  proof (rule ledger_run [where k = 0 and high = now])
    show "ledger_ok late limit now 0 (bucket_map_new, reference_new)"
      using new by (simp add: ledger_ok_def reference_new_def outstanding_in_window_def)
    show "late_by late (now # section_times ss)" using late by (cases "section_times ss") (auto simp: now_def)
  qed (use late assms in simp_all)
  assume "sorted (section_times ss)"
  then have "sorted (now # section_times ss)" by (cases "section_times ss") (simp_all add: now_def)
  moreover have "reference_ok now 0 reference_new" by (simp add: reference_ok_def reference_new_def)
  ultimately show "trace (section_step limit) ss bucket_map_new = trace (reference_step limit) ss reference_new"
    using assms new by (intro sections_simulate [where k = 0]) auto
qed

text \<open>Attempts under a limit of two, one of them late by two: a refused one is granted after a refund.\<close>

definition demo_sections :: "budget_section list" where
  "demo_sections =
     [ReserveUsername [97] [49] 0, ReserveUsername [97] [49] 3, ReserveUsername [97] [49] 1, RefundToken [97] 1,
      Sweep 3, ReserveUsername [97] [49] 4]"

theorem rate_limit_holds_in_every_window_witness:
  "outstanding_in_window (RATE_WINDOW - 2) 4 [97] [49]
       (snd (run (ledger_step 2) demo_sections (bucket_map_new, reference_new))) \<le> 2
   \<and> late_by 2 (section_times demo_sections) \<and> \<not> sorted (section_times demo_sections)"
proof -
  have "late_by 2 (section_times demo_sections)" "\<not> sorted (section_times demo_sections)" "length demo_sections \<le> 2 ^ 64"
    by (simp_all add: demo_sections_def)
  with rate_limit_holds_in_every_window [of demo_sections 2] show ?thesis by auto
qed

text \<open>
  The lateness matters: when a fast request has pruned the entries of the window, one that read its instant before it
  is granted although the full window that ends at its instant holds more than the limit.
\<close>

lemma late_attempt_exceeds_window:
  "outstanding_in_window RATE_WINDOW (RATE_WINDOW - 1) [97] [49] (snd (run (ledger_step 2)
     [ReserveUsername [97] [49] 0, ReserveUsername [97] [49] 0, ReserveUsername [97] [49] RATE_WINDOW,
      ReserveUsername [97] [49] (RATE_WINDOW - 1)] (bucket_map_new, reference_new))) = 3"
  by (simp add: outstanding_in_window_def bucket_map_new_def reference_new_def reference_reserve_def
      reserve_username_key_def bucket_entry_def bucket_of_def put_bucket_def prune_front_def expired_def duration_since_def
      RATE_WINDOW_def)

text \<open>Both maps of a limiter are driven by such sections: what a reservation runs on each.\<close>

lemma reserve_sections:
  obtains us ads where
    "rl_by_username (snd (reserve tables username ip now l)) = run (section_step USERNAME_FAILURE_LIMIT) us (rl_by_username l)"
    "rl_by_ip (snd (reserve tables username ip now l)) = run (section_step IP_FAILURE_LIMIT) ads (rl_by_ip l)"
    "set us \<subseteq> {ReserveUsername (bounded_username_key tables username) ip now, Sweep now}
       \<union> range (RefundToken (bounded_username_key tables username))"
    "set ads \<subseteq> {ReserveIp ip now, Sweep now}"
proof -
  let ?key = "bounded_username_key tables username"
  obtain u t where u: "reserve_username_key ?key ip now USERNAME_FAILURE_LIMIT (rl_by_username l) = (t, u)" by fastforce
  obtain a s where a: "reserve_ip_key ip now IP_FAILURE_LIMIT (rl_by_ip l) = (s, a)" by fastforce
  consider "t = None" | x where "t = Some x" "s = None" | x y where "t = Some x" "s = Some y" by blast
  then show thesis
  proof cases
    case 1
    with u show ?thesis
      by (intro that [of "[ReserveUsername ?key ip now]" "[]"]) (simp_all add: reserve_def)
  next
    case (2 x)
    with u a show ?thesis
      by (intro that [of "[ReserveUsername ?key ip now, RefundToken ?key x, Sweep now]" "[ReserveIp ip now, Sweep now]"])
         (simp_all add: reserve_def)
  next
    case 3
    with u a show ?thesis
      by (intro that [of "[ReserveUsername ?key ip now, Sweep now]" "[ReserveIp ip now, Sweep now]"])
         (simp_all add: reserve_def)
  qed
qed

end
