(* ===== verification/Session_Domain.thy ===== *)
theory Session_Domain
  imports Principal_Domain
begin

text \<open>
  Sign-in sessions, \<open>domain/src/session.rs\<close>, and their tokens, \<open>security/src/session_token.rs\<close>. A
  session stores only hashes of its tokens, ends at a fixed time and is revoked at most once. SHA-256,
  the base64url codec and the random source are arguments.
\<close>

type_synonym session_id = uuid

section \<open>Sessions\<close>

record session =
  se_id :: session_id
  se_principal_id :: principal_id
  se_token_hash :: "byte list"
  se_csrf_hash :: "byte list"
  se_created_at :: instant
  se_last_used_at :: instant
  se_expires_at :: instant
  se_revoked_at :: "instant option"

datatype session_restore_error = Session_InvalidTimeline

datatype session_error = Session_AlreadyRevoked | SessionTimeline

definition session_new ::
  "session_id \<Rightarrow> principal_id \<Rightarrow> byte list \<Rightarrow> byte list \<Rightarrow> instant \<Rightarrow> instant \<Rightarrow> session" where
  "session_new i p token_hash csrf_hash created_at expires_at =
     \<lparr>se_id = i, se_principal_id = p, se_token_hash = token_hash, se_csrf_hash = csrf_hash,
      se_created_at = created_at, se_last_used_at = created_at, se_expires_at = expires_at, se_revoked_at = None\<rparr>"

definition session_try_from_parts ::
  "session_id \<Rightarrow> principal_id \<Rightarrow> byte list \<Rightarrow> byte list \<Rightarrow> instant \<Rightarrow> instant \<Rightarrow> instant \<Rightarrow> instant option
     \<Rightarrow> session_restore_error + session" where
  "session_try_from_parts i p token_hash csrf_hash created_at last_used_at expires_at revoked_at =
     (if expires_at \<le> created_at then Inl Session_InvalidTimeline
      else if last_used_at < created_at then Inl Session_InvalidTimeline
      else if (case revoked_at of None \<Rightarrow> False | Some t \<Rightarrow> t < created_at) then Inl Session_InvalidTimeline
      else Inr \<lparr>se_id = i, se_principal_id = p, se_token_hash = token_hash, se_csrf_hash = csrf_hash,
                se_created_at = created_at, se_last_used_at = last_used_at, se_expires_at = expires_at,
                se_revoked_at = revoked_at\<rparr>)"

definition session_touch :: "instant \<Rightarrow> session \<Rightarrow> session_restore_error + session" where
  "session_touch at s =
     (if at < se_last_used_at s then Inl Session_InvalidTimeline else Inr (s\<lparr>se_last_used_at := at\<rparr>))"

definition session_revoke :: "instant \<Rightarrow> session \<Rightarrow> session_error + session" where
  "session_revoke at s =
     (if se_revoked_at s \<noteq> None then Inl Session_AlreadyRevoked
      else if at < se_created_at s then Inl SessionTimeline
      else Inr (s\<lparr>se_revoked_at := Some at\<rparr>))"

definition session_is_active :: "instant \<Rightarrow> session \<Rightarrow> bool" where
  "session_is_active at s \<longleftrightarrow> se_revoked_at s = None \<and> at < se_expires_at s"

section \<open>Tokens\<close>

definition TOKEN_LENGTH :: nat where
  "TOKEN_LENGTH = 32"

type_synonym session_token = "byte list"

record token_lib =
  sha256 :: "byte list \<Rightarrow> byte list"
  base64url_encode :: "byte list \<Rightarrow> ustring"
  base64url_decode :: "ustring \<Rightarrow> byte list option"

datatype session_token_error = TokenRandomnessUnavailable | TokenInvalidEncoding

definition token_generate :: "byte list option \<Rightarrow> session_token_error + session_token" where
  "token_generate getrandom = ok_or TokenRandomnessUnavailable getrandom"

definition token_from_base64url :: "token_lib \<Rightarrow> ustring \<Rightarrow> session_token_error + session_token" where
  "token_from_base64url lib v =
     rbind (ok_or TokenInvalidEncoding (base64url_decode lib v)) (\<lambda>decoded.
     if length decoded \<noteq> TOKEN_LENGTH then Inl TokenInvalidEncoding else Inr decoded)"

definition token_digest :: "token_lib \<Rightarrow> session_token \<Rightarrow> byte list" where
  "token_digest lib token = sha256 lib token"

definition token_as_base64url :: "token_lib \<Rightarrow> session_token \<Rightarrow> ustring" where
  "token_as_base64url lib token = base64url_encode lib token"

text \<open>One issued pair: the wire forms for the client, the hashes for the row.\<close>

record issued_session_tokens =
  it_session_token :: ustring
  it_session_token_hash :: "byte list"
  it_csrf_token :: ustring
  it_csrf_token_hash :: "byte list"

section \<open>Lemmas\<close>

definition session_ok :: "session \<Rightarrow> bool" where
  "session_ok s \<longleftrightarrow>
     se_created_at s < se_expires_at s \<and> se_created_at s \<le> se_last_used_at s
   \<and> (\<forall>t. se_revoked_at s = Some t \<longrightarrow> se_created_at s \<le> t)"

lemma session_try_from_parts_Inr:
  "session_try_from_parts i p th ch c l e r = Inr s \<longleftrightarrow>
     s = \<lparr>se_id = i, se_principal_id = p, se_token_hash = th, se_csrf_hash = ch, se_created_at = c,
          se_last_used_at = l, se_expires_at = e, se_revoked_at = r\<rparr> \<and> session_ok s"
  by (auto simp: session_try_from_parts_def session_ok_def split: option.splits)

lemma session_touch_ok: "session_touch at s = Inr s' \<Longrightarrow> session_ok s \<Longrightarrow> session_ok s'"
  by (auto simp: session_touch_def session_ok_def split: if_splits)

lemma session_revoke_ok: "session_revoke at s = Inr s' \<Longrightarrow> session_ok s \<Longrightarrow> session_ok s'"
  by (auto simp: session_revoke_def session_ok_def split: if_splits)

lemma revoked_session_is_over:
  assumes "session_revoke at s = Inr s'"
  shows "\<not> session_is_active t s'" "session_revoke at' s' = Inl Session_AlreadyRevoked"
    "session_touch at' s' = Inr s'' \<Longrightarrow> \<not> session_is_active t s''"
  using assms by (auto simp: session_revoke_def session_is_active_def session_touch_def split: if_splits)

text \<open>A generated token is recovered from the form the client presents.\<close>

lemma token_roundtrip:
  assumes "base64url_decode lib (base64url_encode lib token) = Some token" "length token = TOKEN_LENGTH"
  shows "token_from_base64url lib (token_as_base64url lib token) = Inr token"
  using assms by (simp add: token_from_base64url_def token_as_base64url_def)

end
