(* ===== verification/Totp.thy ===== *)
theory Totp
  imports Principal_Domain "HOL-Library.Word"
begin

unbundle bit_operations_syntax

text \<open>
  Time-based one-time codes, \<open>domain/src/totp.rs\<close>, and the labels of the provisioning URI,
  \<open>security/src/totp.rs\<close>. The step is the number of 30-second periods since the epoch; a code is accepted
  one step around the current one, and only past the last used step. HMAC-SHA1 is an argument that
  answers 20 bytes; the base32 codec is an argument.
\<close>

definition TOTP_DIGITS :: nat where
  "TOTP_DIGITS = 6"

definition TOTP_PERIOD_SECONDS :: int where
  "TOTP_PERIOD_SECONDS = 30"

definition TOTP_WINDOW :: "64 word" where
  "TOTP_WINDOW = 1"

definition TOTP_SECRET_LENGTH :: nat where
  "TOTP_SECRET_LENGTH = 20"

type_synonym totp_authenticator_id = uuid
type_synonym totp_step = "64 word"
type_synonym hmac_sha1 = "byte list \<Rightarrow> byte list \<Rightarrow> byte list"

datatype totp_state = Provisioning | Active

datatype totp_state_parse_error = TotpStateParseError

fun totp_state_as_str :: "totp_state \<Rightarrow> string" where
  "totp_state_as_str Provisioning = ''provisioning''"
| "totp_state_as_str Active = ''active''"

definition totp_state_codes :: "(string \<times> totp_state) list" where
  "totp_state_codes = [(''provisioning'', Provisioning), (''active'', Active)]"

definition totp_state_from_str :: "string \<Rightarrow> totp_state_parse_error + totp_state" where
  "totp_state_from_str s = ok_or TotpStateParseError (map_of totp_state_codes s)"

record totp_authenticator =
  ta_id :: totp_authenticator_id
  ta_principal_id :: principal_id
  ta_secret :: "byte list"
  ta_state :: totp_state
  ta_created_at :: instant
  ta_activated_at :: "instant option"
  ta_last_used_step :: "totp_step option"

datatype totp_restore_error = InvalidSecretLength | InvalidShape

datatype totp_authenticator_error = InvalidCode | Replayed | NotActive | AlreadyActive

section \<open>Codes\<close>

definition hotp :: "hmac_sha1 \<Rightarrow> byte list \<Rightarrow> totp_step \<Rightarrow> 32 word" where
  "hotp hmac secret step =
     (let digest = hmac secret (be_bytes 8 (unat step));
          offset = unat (digest ! 19 AND 0x0f);
          binary = push_bit 24 (ucast (digest ! offset AND 0x7f)) OR push_bit 16 (ucast (digest ! (offset + 1)))
            OR push_bit 8 (ucast (digest ! (offset + 2))) OR ucast (digest ! (offset + 3))
      in binary mod 1000000)"

text \<open>Whole seconds since the epoch, divided towards zero; a negative quotient counts as zero.\<close>

definition current_step :: "instant \<Rightarrow> totp_step" where
  "current_step now =
     (let timestamp = now div 1000000000 in
      if timestamp < 0 then 0 else word_of_int (timestamp div TOTP_PERIOD_SECONDS))"

definition saturating_sub :: "64 word \<Rightarrow> 64 word \<Rightarrow> 64 word" where
  "saturating_sub a b = (if a < b then 0 else a - b)"

definition saturating_add :: "64 word \<Rightarrow> 64 word \<Rightarrow> 64 word" where
  "saturating_add a b = (if a + b < a then - 1 else a + b)"

definition window_steps :: "totp_step \<Rightarrow> totp_step list" where
  "window_steps current = [saturating_sub current TOTP_WINDOW, current, saturating_add current TOTP_WINDOW]"

definition is_six_digit_code :: "ustring \<Rightarrow> bool" where
  "is_six_digit_code code \<longleftrightarrow>
     str_len code = TOTP_DIGITS \<and> list_all (\<lambda>b. 48 \<le> b \<and> b \<le> (57 :: byte)) (utf8_encode code)"

text \<open>\<open>format!("{expected:06}")\<close> of a number below a million.\<close>

definition format_six :: "nat \<Rightarrow> ustring" where
  "format_six n = map (\<lambda>k. 48 + n div 10 ^ k mod 10) [5, 4, 3, 2, 1, 0]"

definition code_matches :: "ustring \<Rightarrow> 32 word \<Rightarrow> bool" where
  "code_matches code expected =
     (foldl (\<lambda>d (presented, derived). d OR (presented XOR derived)) 0
        (zip (utf8_encode code) (utf8_encode (format_six (unat expected)))) = 0)"

text \<open>The loop over the window: the first step whose code matches decides.\<close>

fun match_window ::
  "hmac_sha1 \<Rightarrow> byte list \<Rightarrow> ustring \<Rightarrow> totp_step option \<Rightarrow> totp_step list \<Rightarrow> totp_authenticator_error + totp_step" where
  "match_window hmac secret code last_used [] = Inl InvalidCode"
| "match_window hmac secret code last_used (candidate # rest) =
     (if \<not> code_matches code (hotp hmac secret candidate) then match_window hmac secret code last_used rest
      else if (case last_used of None \<Rightarrow> False | Some l \<Rightarrow> candidate \<le> l) then Inl Replayed
      else Inr candidate)"

definition verify_totp_code ::
  "hmac_sha1 \<Rightarrow> byte list \<Rightarrow> ustring \<Rightarrow> instant \<Rightarrow> totp_step option \<Rightarrow> totp_authenticator_error + totp_step" where
  "verify_totp_code hmac secret code now last_used =
     (if \<not> is_six_digit_code code then Inl InvalidCode
      else match_window hmac secret code last_used (window_steps (current_step now)))"

section \<open>Authenticators\<close>

definition totp_new :: "totp_authenticator_id \<Rightarrow> principal_id \<Rightarrow> byte list \<Rightarrow> instant \<Rightarrow> totp_authenticator" where
  "totp_new i p secret created_at =
     \<lparr>ta_id = i, ta_principal_id = p, ta_secret = secret, ta_state = Provisioning, ta_created_at = created_at,
      ta_activated_at = None, ta_last_used_step = None\<rparr>"

definition totp_try_from_parts ::
  "totp_authenticator_id \<Rightarrow> principal_id \<Rightarrow> byte list \<Rightarrow> totp_state \<Rightarrow> instant \<Rightarrow> instant option \<Rightarrow> totp_step option
     \<Rightarrow> totp_restore_error + totp_authenticator" where
  "totp_try_from_parts i p secret st created_at activated_at last_used =
     (if length secret \<noteq> TOTP_SECRET_LENGTH then Inl InvalidSecretLength
      else if (st = Active) \<noteq> (activated_at \<noteq> None) \<or> (st = Provisioning \<and> last_used \<noteq> None) then Inl InvalidShape
      else Inr \<lparr>ta_id = i, ta_principal_id = p, ta_secret = secret, ta_state = st, ta_created_at = created_at,
                ta_activated_at = activated_at, ta_last_used_step = last_used\<rparr>)"

definition totp_activate ::
  "hmac_sha1 \<Rightarrow> ustring \<Rightarrow> instant \<Rightarrow> totp_authenticator \<Rightarrow> totp_authenticator_error + totp_authenticator" where
  "totp_activate hmac code now a =
     (if ta_state a = Active then Inl AlreadyActive
      else rbind (verify_totp_code hmac (ta_secret a) code now (ta_last_used_step a)) (\<lambda>step.
           Inr (a\<lparr>ta_state := Active, ta_activated_at := Some now, ta_last_used_step := Some step\<rparr>)))"

definition totp_verify ::
  "hmac_sha1 \<Rightarrow> ustring \<Rightarrow> instant \<Rightarrow> totp_authenticator \<Rightarrow> totp_authenticator_error + totp_step" where
  "totp_verify hmac code now a =
     (if ta_state a \<noteq> Active then Inl NotActive
      else verify_totp_code hmac (ta_secret a) code now (ta_last_used_step a))"

definition totp_record_step :: "totp_step \<Rightarrow> totp_authenticator \<Rightarrow> totp_authenticator_error + totp_authenticator" where
  "totp_record_step step a =
     (if (case ta_last_used_step a of None \<Rightarrow> False | Some l \<Rightarrow> step \<le> l) then Inl Replayed
      else Inr (a\<lparr>ta_last_used_step := Some step\<rparr>))"

section \<open>Provisioning URIs\<close>

definition MAX_LABEL_CHARS :: nat where
  "MAX_LABEL_CHARS = 64"

datatype totp_uri_error = Label_Empty | Label_TooLong nat | Label_InvalidCharacter

definition validate_label :: "ustring \<Rightarrow> totp_uri_error + ustring" where
  "validate_label label =
     (if label = [] then Inl Label_Empty
      else if length label > MAX_LABEL_CHARS then Inl (Label_TooLong MAX_LABEL_CHARS)
      else if list_ex (\<lambda>c. is_control c \<or> c \<in> {58, 37, 63, 38}) label then Inl Label_InvalidCharacter
      else Inr label)"

definition totp_uri ::
  "(byte list \<Rightarrow> ustring) \<Rightarrow> byte list \<Rightarrow> ustring \<Rightarrow> ustring \<Rightarrow> totp_uri_error + ustring" where
  "totp_uri base32 secret issuer account =
     rbind (validate_label issuer) (\<lambda>issuer.
     rbind (validate_label account) (\<lambda>account.
     Inr (ascii ''otpauth://totp/'' @ issuer @ ascii '':'' @ account @ ascii ''?secret='' @ base32 secret
       @ ascii ''&issuer='' @ issuer @ ascii ''&algorithm=SHA1&digits=6&period=30'')))"

section \<open>Lemmas\<close>

interpretation totp_state_code: stable_code totp_state_as_str totp_state_from_str
  unfolding totp_state_from_str_def
proof (rule code_of_table)
  show "totp_state_codes = map (\<lambda>x. (totp_state_as_str x, x)) (map snd totp_state_codes)"
    by (simp add: totp_state_codes_def)
  show "x \<in> set (map snd totp_state_codes)" for x by (cases x) (simp_all add: totp_state_codes_def)
  show "distinct (map totp_state_as_str (map snd totp_state_codes))" by (simp add: totp_state_codes_def)
qed

lemmas [code_roundtrip] = totp_state_code.parse_print

lemma match_window_Inr:
  assumes "match_window hmac secret code last_used steps = Inr step"
  shows "step \<in> set steps" "code_matches code (hotp hmac secret step)" "\<And>l. last_used = Some l \<Longrightarrow> l < step"
  using assms by (induction steps) (auto split: if_splits option.splits)

text \<open>An accepted code is the code of a step in the window, past the last used one.\<close>

lemma verify_totp_code_Inr:
  assumes "verify_totp_code hmac secret code now last_used = Inr step"
  shows "is_six_digit_code code" "step \<in> set (window_steps (current_step now))"
    "code_matches code (hotp hmac secret step)" "\<And>l. last_used = Some l \<Longrightarrow> l < step"
  using assms match_window_Inr by (auto simp: verify_totp_code_def split: if_splits)

text \<open>A step that was used is never accepted again, whatever is presented and whenever.\<close>

lemma used_step_refused: "verify_totp_code hmac secret code now (Some l) = Inr step \<Longrightarrow> l < step"
  using verify_totp_code_Inr(4) by blast

definition totp_ok :: "totp_authenticator \<Rightarrow> bool" where
  "totp_ok a \<longleftrightarrow> length (ta_secret a) = TOTP_SECRET_LENGTH \<and> (ta_state a = Active \<longleftrightarrow> ta_activated_at a \<noteq> None)
     \<and> (ta_state a = Provisioning \<longrightarrow> ta_last_used_step a = None)"

lemma totp_try_from_parts_Inr:
  "totp_try_from_parts i p secret st c act l = Inr a \<longleftrightarrow>
     a = \<lparr>ta_id = i, ta_principal_id = p, ta_secret = secret, ta_state = st, ta_created_at = c,
          ta_activated_at = act, ta_last_used_step = l\<rparr> \<and> totp_ok a"
  by (auto simp: totp_try_from_parts_def totp_ok_def)

lemma totp_activate_ok: "totp_activate hmac code now a = Inr a' \<Longrightarrow> totp_ok a \<Longrightarrow> totp_ok a' \<and> ta_state a' = Active"
  by (auto simp: totp_activate_def totp_ok_def result_simps split: if_splits)

text \<open>The code that activated an authenticator does not sign in.\<close>

lemma activation_code_not_replayed:
  assumes "totp_activate hmac code now a = Inr a'" "totp_verify hmac code' now' a' = Inr step"
  obtains l where "ta_last_used_step a' = Some l" "l < step"
proof -
  obtain l where "ta_last_used_step a' = Some l" "ta_state a' = Active"
    using assms(1) by (auto simp: totp_activate_def result_simps split: if_splits)
  with assms(2) show thesis by (intro that [of l]) (auto simp: totp_verify_def dest: used_step_refused)
qed

text \<open>The comparison without short-circuit is equality with the six derived digits.\<close>

lemma code_matches_iff:
  assumes "is_six_digit_code code"
  shows "code_matches code expected \<longleftrightarrow> utf8_encode code = utf8_encode (format_six (unat expected))"
proof -
  have "length (utf8_char (48 + n mod 10)) = 1" for n by (simp add: utf8_char_def)
  then have "length (utf8_encode (format_six (unat expected))) = length (utf8_encode code)"
    using assms by (simp add: is_six_digit_code_def str_len_def TOTP_DIGITS_def format_six_def utf8_encode_def)
  then show ?thesis
    using constant_time_eq_iff [of "utf8_encode code" "utf8_encode (format_six (unat expected))"]
    by (simp add: code_matches_def constant_time_eq_def)
qed

end
