(* ===== verification/Credential_Cipher.thy ===== *)
theory Credential_Cipher
  imports Command_Cipher Center_Domain
begin

text \<open>
  Protection of stored credentials, \<open>security/src/lib.rs\<close>: XChaCha20-Poly1305 under the master key, bound
  to the identities of the credential and its version as associated data; and the one-time bootstrap
  codes of \<open>security/src/bootstrap_code.rs\<close>. The crates are the fields of \<open>cipher_lib\<close>.
\<close>

section \<open>Credential versions\<close>

definition CREDENTIAL_NONCE_LENGTH :: nat where
  "CREDENTIAL_NONCE_LENGTH = 24"

datatype credential_protection_error =
    CredentialRandomnessUnavailable | CredentialEncryptionFailed | CredentialInvalidMasterKeyLength
  | CredentialAuthenticationFailed | CiphertextTooShort | CredentialInvalidPlaintextEncoding

record encrypted_credential =
  ec_nonce :: "byte list"
  ec_ciphertext :: "byte list"

record protected_credential_version =
  pv_credential_id :: uuid
  pv_version_id :: uuid
  pv_encrypted :: encrypted_credential

definition encrypted_from_parts :: "byte list \<Rightarrow> byte list \<Rightarrow> credential_protection_error + encrypted_credential" where
  "encrypted_from_parts nonce ciphertext =
     (if length ciphertext < AUTHENTICATION_TAG_LENGTH then Inl CiphertextTooShort
      else Inr \<lparr>ec_nonce = nonce, ec_ciphertext = ciphertext\<rparr>)"

definition protected_from_parts ::
  "uuid \<Rightarrow> uuid \<Rightarrow> byte list \<Rightarrow> byte list \<Rightarrow> credential_protection_error + protected_credential_version" where
  "protected_from_parts credential_id version_id nonce ciphertext =
     rbind (encrypted_from_parts nonce ciphertext) (\<lambda>encrypted.
     Inr \<lparr>pv_credential_id = credential_id, pv_version_id = version_id, pv_encrypted = encrypted\<rparr>)"

definition credential_cipher_key :: "byte list \<Rightarrow> credential_protection_error + byte list" where
  "credential_cipher_key master_key =
     (if length master_key = 32 then Inr master_key else Inl CredentialInvalidMasterKeyLength)"

definition associated_data :: "uuid \<Rightarrow> uuid \<Rightarrow> byte list" where
  "associated_data credential_id version_id = be_bytes 16 (unat credential_id) @ be_bytes 16 (unat version_id)"

definition encrypt_credential ::
  "cipher_lib \<Rightarrow> byte list option \<Rightarrow> byte list \<Rightarrow> uuid \<Rightarrow> uuid \<Rightarrow> ustring
     \<Rightarrow> credential_protection_error + protected_credential_version" where
  "encrypt_credential lib getrandom master_key credential_id version_id plaintext =
     rbind (ok_or CredentialRandomnessUnavailable getrandom) (\<lambda>nonce.
     rbind (credential_cipher_key master_key) (\<lambda>key.
     rbind (ok_or CredentialEncryptionFailed
              (aead_encrypt lib key nonce (associated_data credential_id version_id) (utf8_encode plaintext))) (\<lambda>ciphertext.
     protected_from_parts credential_id version_id nonce ciphertext)))"

definition decrypt_credential ::
  "cipher_lib \<Rightarrow> byte list \<Rightarrow> protected_credential_version \<Rightarrow> credential_protection_error + ustring" where
  "decrypt_credential lib master_key p =
     rbind (credential_cipher_key master_key) (\<lambda>key.
     rbind (ok_or CredentialAuthenticationFailed
              (aead_decrypt lib key (ec_nonce (pv_encrypted p)) (associated_data (pv_credential_id p) (pv_version_id p))
                 (ec_ciphertext (pv_encrypted p)))) (\<lambda>plaintext.
     ok_or CredentialInvalidPlaintextEncoding (utf8_decode plaintext)))"

section \<open>Bootstrap codes\<close>

definition BOOTSTRAP_CODE_CHARACTERS :: nat where
  "BOOTSTRAP_CODE_CHARACTERS = 20"

definition generate_bootstrap_code :: "byte list option \<Rightarrow> unit + ustring" where
  "generate_bootstrap_code getrandom =
     rbind (ok_or () getrandom) (\<lambda>indices.
     Inr (map (\<lambda>index. unat (CODE_ALPHABET ! (unat index mod length CODE_ALPHABET))) indices))"

definition to_ascii_uppercase :: "ustring \<Rightarrow> ustring" where
  "to_ascii_uppercase s = map (\<lambda>c. if 97 \<le> c \<and> c \<le> 122 then c - 32 else c) s"

definition hash_bootstrap_code :: "(byte list \<Rightarrow> byte list) \<Rightarrow> ustring \<Rightarrow> byte list" where
  "hash_bootstrap_code sha256 code = sha256 (utf8_encode (to_ascii_uppercase (trim code)))"

section \<open>Lemmas\<close>

lemma credential_roundtrip:
  assumes "cipher_lib_ok lib" "valid_str plaintext"
    and "encrypt_credential lib rnd key c v plaintext = Inr p"
  shows "decrypt_credential lib key p = Inr plaintext" "pv_credential_id p = c" "pv_version_id p = v"
    "rnd = Some (ec_nonce (pv_encrypted p))" "AUTHENTICATION_TAG_LENGTH \<le> length (ec_ciphertext (pv_encrypted p))"
  using assms
  by (auto simp: encrypt_credential_def decrypt_credential_def protected_from_parts_def encrypted_from_parts_def
      credential_cipher_key_def cipher_lib_ok_def result_simps split: if_splits)

text \<open>A ciphertext is refused under any identity the AEAD does not authenticate it for.\<close>

lemma decrypt_credential_bound_to_identity:
  assumes "decrypt_credential lib key p = Inr plaintext"
  shows "\<exists>bytes. aead_decrypt lib key (ec_nonce (pv_encrypted p)) (associated_data (pv_credential_id p) (pv_version_id p))
      (ec_ciphertext (pv_encrypted p)) = Some bytes \<and> utf8_decode bytes = Some plaintext"
  using assms by (auto simp: decrypt_credential_def credential_cipher_key_def result_simps split: if_splits)

lemma associated_data_inject: "associated_data c v = associated_data c' v' \<longleftrightarrow> c = c' \<and> v = v'"
proof -
  have "unat x < 256 ^ 16" for x :: uuid using unsigned_less [of x] by simp
  then have "be_bytes 16 (unat x) = be_bytes 16 (unat y) \<longleftrightarrow> x = y" for x y :: uuid
    using be_value_be_bytes by (metis word_unat_eq_iff)
  then show ?thesis by (simp add: associated_data_def)
qed

lemma bootstrap_code_alphabet:
  assumes "generate_bootstrap_code (Some indices) = Inr code"
  shows "length code = length indices" "set code \<subseteq> unat ` set CODE_ALPHABET"
proof -
  have "0 < length CODE_ALPHABET" by (simp add: CODE_ALPHABET_def)
  then have "CODE_ALPHABET ! (n mod length CODE_ALPHABET) \<in> set CODE_ALPHABET" for n
    by (intro nth_mem mod_less_divisor)
  with assms show "length code = length indices" "set code \<subseteq> unat ` set CODE_ALPHABET"
    by (auto simp: generate_bootstrap_code_def)
qed

end
