(* ===== verification/Identity_Store.thy ===== *)
theory Identity_Store
  imports Session_Domain Totp Credential_Cipher Center_Store
begin

text \<open>
  The identity tables of the SQLite store: \<open>principals\<close>, \<open>role_assignments\<close>, \<open>password_credentials\<close>,
  \<open>totp_authenticators\<close>, \<open>sessions\<close> and \<open>bootstrap_codes\<close> with the columns of their entity models, their
  keys, indexes, foreign keys and CHECK constraints, and how their rows map to domain values. The world
  outside is the master key, the cipher crates, the Unicode tables, the random source and which database
  calls fail; transactions are those of \<open>Center_Store\<close>.
\<close>

section \<open>Tables\<close>

record principal_row =
  prr_id :: uuid
  prr_name :: ustring
  prr_state :: string
  prr_created_at :: instant
  prr_updated_at :: instant

record role_row =
  rr_principal_id :: uuid
  rr_role :: string
  rr_assigned_by :: "uuid option"
  rr_assigned_at :: instant
  rr_site_id :: "uuid option"

record password_row =
  pwr_principal_id :: uuid
  pwr_hash_format :: string
  pwr_salt :: "byte list"
  pwr_hash :: "byte list"
  pwr_changed_at :: instant

record totp_row =
  tor_id :: uuid
  tor_principal_id :: uuid
  tor_secret :: "byte list"
  tor_state :: string
  tor_algorithm :: string
  tor_digits :: int
  tor_period :: int
  tor_created_at :: instant
  tor_activated_at :: "instant option"
  tor_last_used_step :: "int option"

record session_row =
  sr_id :: uuid
  sr_principal_id :: uuid
  sr_token_hash :: "byte list"
  sr_csrf_hash :: "byte list"
  sr_created_at :: instant
  sr_last_used_at :: instant
  sr_expires_at :: instant
  sr_revoked_at :: "instant option"

record bootstrap_row =
  bsr_id :: uuid
  bsr_code_hash :: "byte list"
  bsr_created_at :: instant
  bsr_used_at :: "instant option"
  bsr_used_by :: "uuid option"

record identity_store =
  id_principals :: "principal_row list"
  id_roles :: "role_row list"
  id_passwords :: "password_row list"
  id_totps :: "totp_row list"
  id_sessions :: "session_row list"
  id_bootstraps :: "bootstrap_row list"
  id_instances :: "instance_id list"
  id_master_key :: "byte list"
  id_cipher :: cipher_lib
  id_tables :: case_tables
  id_getrandom :: "uuid \<Rightarrow> byte list option"
  id_fault :: "center_call \<Rightarrow> bool"

definition principal_stored :: "identity_store \<Rightarrow> uuid \<Rightarrow> bool" where
  "principal_stored store p \<longleftrightarrow> list_ex (\<lambda>r. prr_id r = p) (id_principals store)"

section \<open>Errors\<close>

datatype stored_principal_error =
    InvalidName principal_name_error
  | InvalidPrincipalState principal_state_parse_error
  | InvalidPrincipalTimeline principal_restore_error
  | InvalidRole role_parse_error

datatype principal_repository_error =
    PrincipalCoordinate
  | PrincipalNotFound principal_id
  | DuplicateName principal_name
  | PrincipalCorrupt principal_id stored_principal_error
  | CorruptAssignment principal_id stored_principal_error
  | PrincipalDatabase

datatype password_repository_error =
    PasswordCoordinate
  | PasswordCorrupt principal_id password_credential_error
  | PasswordDatabase

datatype stored_session_error = InvalidTokenHash | InvalidCsrfHash | StoredSessionTimeline session_restore_error

datatype session_repository_error =
    SessionCoordinate
  | SessionNotFound session_id
  | TokenHashTaken
  | SessionAlreadyRevoked session_id
  | StaleTouch session_id
  | SessionCorrupt session_id stored_session_error
  | SessionDatabase

datatype stored_totp_error =
    InvalidTotpState totp_state_parse_error
  | InvalidTotpShape totp_restore_error
  | InvalidStep
  | InvalidSecret credential_protection_error

datatype totp_repository_error =
    TotpCoordinate
  | TotpNotFound totp_authenticator_id
  | StaleStep totp_authenticator_id
  | StepOutOfRange totp_authenticator_id
  | TotpProtect credential_protection_error
  | TotpCorrupt totp_authenticator_id stored_totp_error
  | TotpDatabase

datatype bootstrap_repository_error =
    BootstrapCoordinate
  | BootstrapNotFound bootstrap_code_id
  | BootstrapAlreadyUsed bootstrap_code_id
  | BootstrapCorrupt bootstrap_code_id bootstrap_code_error
  | BootstrapProtect credential_protection_error
  | BootstrapDatabase

section \<open>Rows\<close>

definition principal_row_of :: "principal \<Rightarrow> principal_row" where
  "principal_row_of p =
     \<lparr>prr_id = pr_id p, prr_name = pr_name p, prr_state = principal_state_as_str (pr_state p),
      prr_created_at = pr_created_at p, prr_updated_at = pr_updated_at p\<rparr>"

definition map_stored_principal :: "case_tables \<Rightarrow> principal_row \<Rightarrow> principal_repository_error + principal" where
  "map_stored_principal tables model =
     (let i = prr_id model in
      rbind (map_err (\<lambda>e. PrincipalCorrupt i (InvalidName e)) (principal_name_parse tables (prr_name model))) (\<lambda>name.
      rbind (map_err (\<lambda>e. PrincipalCorrupt i (InvalidPrincipalState e)) (principal_state_from_str (prr_state model))) (\<lambda>st.
      map_err (\<lambda>e. PrincipalCorrupt i (InvalidPrincipalTimeline e))
        (principal_try_from_parts i name st (prr_created_at model) (prr_updated_at model)))))"

definition map_stored_assignment :: "role_row \<Rightarrow> principal_repository_error + role_assignment" where
  "map_stored_assignment model =
     rbind (map_err (\<lambda>e. CorruptAssignment (rr_principal_id model) (InvalidRole e)) (role_from_str (rr_role model))) (\<lambda>role.
     Inr \<lparr>ra_principal_id = rr_principal_id model, ra_role = role, ra_assigned_by = rr_assigned_by model,
          ra_assigned_at = rr_assigned_at model, ra_site_id = rr_site_id model\<rparr>)"

definition session_row_of :: "session \<Rightarrow> session_row" where
  "session_row_of s =
     \<lparr>sr_id = se_id s, sr_principal_id = se_principal_id s, sr_token_hash = se_token_hash s,
      sr_csrf_hash = se_csrf_hash s, sr_created_at = se_created_at s, sr_last_used_at = se_last_used_at s,
      sr_expires_at = se_expires_at s, sr_revoked_at = se_revoked_at s\<rparr>"

definition map_stored_session :: "session_row \<Rightarrow> session_repository_error + session" where
  "map_stored_session model =
     (let i = sr_id model in
      if length (sr_token_hash model) \<noteq> 32 then Inl (SessionCorrupt i InvalidTokenHash)
      else if length (sr_csrf_hash model) \<noteq> 32 then Inl (SessionCorrupt i InvalidCsrfHash)
      else map_err (\<lambda>e. SessionCorrupt i (StoredSessionTimeline e))
        (session_try_from_parts i (sr_principal_id model) (sr_token_hash model) (sr_csrf_hash model)
           (sr_created_at model) (sr_last_used_at model) (sr_expires_at model) (sr_revoked_at model)))"

text \<open>\<open>i64::try_from\<close> of an unsigned step, and back.\<close>

definition step_to_db :: "totp_step \<Rightarrow> int option" where
  "step_to_db step = (if unat step < 2 ^ 63 then Some (int (unat step)) else None)"

definition step_from_db :: "int \<Rightarrow> totp_step option" where
  "step_from_db n = (if 0 \<le> n then Some (word_of_int n) else None)"

text \<open>The stored blob: the nonce followed by the ciphertext of the secret in base64.\<close>

definition protect_totp_secret ::
  "identity_store \<Rightarrow> totp_authenticator \<Rightarrow> credential_protection_error + byte list" where
  "protect_totp_secret store a =
     rbind (encrypt_credential (id_cipher store) (id_getrandom store (ta_id a)) (id_master_key store) (ta_id a) (ta_id a)
              (base64_encode (id_cipher store) (ta_secret a))) (\<lambda>p.
     Inr (ec_nonce (pv_encrypted p) @ ec_ciphertext (pv_encrypted p)))"

definition totp_row_of :: "byte list \<Rightarrow> totp_authenticator \<Rightarrow> totp_row" where
  "totp_row_of secret a =
     \<lparr>tor_id = ta_id a, tor_principal_id = ta_principal_id a, tor_secret = secret,
      tor_state = totp_state_as_str (ta_state a), tor_algorithm = ''sha1'', tor_digits = int TOTP_DIGITS,
      tor_period = TOTP_PERIOD_SECONDS, tor_created_at = ta_created_at a, tor_activated_at = ta_activated_at a,
      tor_last_used_step = Option.bind (ta_last_used_step a) step_to_db\<rparr>"

definition decrypt_stored_secret ::
  "cipher_lib \<Rightarrow> byte list \<Rightarrow> totp_authenticator_id \<Rightarrow> byte list \<Rightarrow> credential_protection_error + byte list" where
  "decrypt_stored_secret lib master_key i stored =
     (if length stored < CREDENTIAL_NONCE_LENGTH then Inl CiphertextTooShort
      else
        rbind (protected_from_parts i i (take CREDENTIAL_NONCE_LENGTH stored) (drop CREDENTIAL_NONCE_LENGTH stored)) (\<lambda>p.
        rbind (decrypt_credential lib master_key p) (\<lambda>plaintext.
        ok_or CredentialInvalidPlaintextEncoding (base64_decode lib plaintext))))"

definition map_stored_authenticator :: "identity_store \<Rightarrow> totp_row \<Rightarrow> totp_repository_error + totp_authenticator" where
  "map_stored_authenticator store model =
     (let i = tor_id model in
      rbind (map_err (\<lambda>e. TotpCorrupt i (InvalidTotpState e)) (totp_state_from_str (tor_state model))) (\<lambda>st.
      rbind (case tor_last_used_step model of
               None \<Rightarrow> Inr None
             | Some n \<Rightarrow> rbind (ok_or (TotpCorrupt i InvalidStep) (step_from_db n)) (\<lambda>step. Inr (Some step))) (\<lambda>last_used.
      rbind (map_err (\<lambda>e. TotpCorrupt i (InvalidSecret e))
               (decrypt_stored_secret (id_cipher store) (id_master_key store) i (tor_secret model))) (\<lambda>secret.
      map_err (\<lambda>e. TotpCorrupt i (InvalidTotpShape e))
        (totp_try_from_parts i (tor_principal_id model) secret st (tor_created_at model) (tor_activated_at model)
           last_used)))))"

definition map_stored_code :: "bootstrap_row \<Rightarrow> bootstrap_repository_error + bootstrap_code" where
  "map_stored_code model =
     map_err (BootstrapCorrupt (bsr_id model))
       (bootstrap_code_try_from_parts (bsr_id model) (bsr_code_hash model) (bsr_created_at model) (bsr_used_at model)
          (bsr_used_by model))"

definition password_row_of :: "password_credential \<Rightarrow> password_row" where
  "password_row_of c =
     \<lparr>pwr_principal_id = pc_principal_id c, pwr_hash_format = ARGON2ID_FORMAT, pwr_salt = ah_salt (pc_hash c),
      pwr_hash = ah_hash (pc_hash c), pwr_changed_at = pc_changed_at c\<rparr>"

section \<open>Lemmas\<close>

lemma step_db_roundtrip: "step_to_db step = Some n \<Longrightarrow> step_from_db n = Some step \<and> 0 \<le> n"
  by (auto simp: step_to_db_def step_from_db_def split: if_splits)

lemma step_from_db_order: "0 \<le> m \<Longrightarrow> n < 2 ^ 63 \<Longrightarrow> m < n \<Longrightarrow> (word_of_int m :: totp_step) < word_of_int n"
  by (simp add: word_less_alt uint_word_of_int)

lemma session_row_roundtrip:
  assumes "session_ok s" "length (se_token_hash s) = 32" "length (se_csrf_hash s) = 32"
  shows "map_stored_session (session_row_of s) = Inr s"
  using assms by (auto simp: map_stored_session_def session_row_of_def result_simps Let_def session_try_from_parts_Inr)

lemma map_stored_session_Inr:
  assumes "map_stored_session model = Inr s"
  shows "session_row_of s = model" "session_ok s" "length (se_token_hash s) = 32" "length (se_csrf_hash s) = 32"
  using assms
  by (auto simp: map_stored_session_def session_row_of_def Let_def session_try_from_parts_Inr split: if_splits)

text \<open>An authenticator is read back with its secret from the row it was written to.\<close>

lemma totp_row_roundtrip:
  assumes "cipher_lib_ok (id_cipher store)" "totp_ok a" "valid_str (base64_encode (id_cipher store) (ta_secret a))"
    and "\<And>n. id_getrandom store (ta_id a) = Some n \<Longrightarrow> length n = CREDENTIAL_NONCE_LENGTH"
    and "\<And>s. ta_last_used_step a = Some s \<Longrightarrow> unat s < 2 ^ 63"
    and "protect_totp_secret store a = Inr secret"
  shows "map_stored_authenticator store (totp_row_of secret a) = Inr a"
proof -
  obtain p where p: "encrypt_credential (id_cipher store) (id_getrandom store (ta_id a)) (id_master_key store) (ta_id a) (ta_id a)
      (base64_encode (id_cipher store) (ta_secret a)) = Inr p" "secret = ec_nonce (pv_encrypted p) @ ec_ciphertext (pv_encrypted p)"
    using assms(6) by (auto simp: protect_totp_secret_def result_simps)
  note round = credential_roundtrip [OF assms(1,3) p(1)]
  have len: "length (ec_nonce (pv_encrypted p)) = CREDENTIAL_NONCE_LENGTH" using round(4) assms(4) by blast
  have "protected_from_parts (ta_id a) (ta_id a) (ec_nonce (pv_encrypted p)) (ec_ciphertext (pv_encrypted p)) = Inr p"
    using round(2,3,5) by (auto simp: protected_from_parts_def encrypted_from_parts_def)
  then have secret: "decrypt_stored_secret (id_cipher store) (id_master_key store) (ta_id a) secret = Inr (ta_secret a)"
    using round(1) len assms(1) by (simp add: decrypt_stored_secret_def p(2) cipher_lib_ok_def)
  have step: "(case Option.bind (ta_last_used_step a) step_to_db of None \<Rightarrow> Inr None
      | Some n \<Rightarrow> rbind (ok_or e (step_from_db n)) (\<lambda>step. Inr (Some step))) = Inr (ta_last_used_step a)" for e :: totp_repository_error
    using assms(5) by (cases "ta_last_used_step a") (auto simp: step_to_db_def step_from_db_def)
  show ?thesis
    using assms(2)
    by (simp add: map_stored_authenticator_def totp_row_of_def Let_def secret step code_roundtrip totp_try_from_parts_Inr)
qed

lemma map_stored_authenticator_Inr:
  assumes "map_stored_authenticator store model = Inr a"
  shows "ta_id a = tor_id model" "ta_principal_id a = tor_principal_id model" "tor_state model = totp_state_as_str (ta_state a)"
    "ta_last_used_step a = map_option word_of_int (tor_last_used_step model)"
    "\<And>n. tor_last_used_step model = Some n \<Longrightarrow> 0 \<le> n"
    "decrypt_stored_secret (id_cipher store) (id_master_key store) (tor_id model) (tor_secret model) = Inr (ta_secret a)"
  using assms
  by (auto simp: map_stored_authenticator_def Let_def result_simps totp_try_from_parts_Inr step_from_db_def
      totp_state_code.from_str_Inr_iff split: option.splits if_splits)

end
