(* ===== verification/Identity_Repository.thy ===== *)
theory Identity_Repository
  imports Identity_Store
begin

text \<open>
  The repositories of the identity tables, \<open>persistence/src\<close>: \<open>principal_repository.rs\<close>,
  \<open>password_repository.rs\<close>, \<open>totp_repository.rs\<close>, \<open>session_repository.rs\<close> and
  \<open>bootstrap_repository.rs\<close>. A method that writes several statements runs them in one transaction
  (\<open>transact\<close>); the others take the write permit and run one statement. What SQLite refuses (keys, unique
  indexes, CHECK constraints, foreign keys) is written out where the statement can meet it.
\<close>

text \<open>A write of one statement: the write permit, then the statement, which changes nothing when it fails.\<close>

definition permitted :: "'e \<Rightarrow> (center_call \<Rightarrow> bool) \<Rightarrow> ('t \<Rightarrow> 'e + 'a \<times> 't) \<Rightarrow> 't \<Rightarrow> ('e + 'a) \<times> 't" where
  "permitted coordinate fault body t =
     (if fault CenterPermit then (Inl coordinate, t)
      else (case body t of Inl e \<Rightarrow> (Inl e, t) | Inr (a, t') \<Rightarrow> (Inr a, t')))"

section \<open>Principals\<close>

text \<open>\<open>lower\<close> of SQLite folds the ASCII letters.\<close>

definition no_ascii_uppercase :: "ustring \<Rightarrow> bool" where
  "no_ascii_uppercase s \<longleftrightarrow> list_all (\<lambda>c. \<not> (65 \<le> c \<and> c \<le> 90)) s"

definition insert_principal :: "principal \<Rightarrow> identity_store \<Rightarrow> principal_repository_error + identity_store" where
  "insert_principal p store =
     rbind (call PrincipalDatabase (id_fault store) CenterInsert) (\<lambda>_.
     rbind (ensure (no_ascii_uppercase (pr_name p)) PrincipalDatabase) (\<lambda>_.
     if list_ex (\<lambda>r. prr_id r = pr_id p \<or> prr_name r = pr_name p) (id_principals store)
     then Inl (DuplicateName (pr_name p))
     else Inr (store\<lparr>id_principals := id_principals store @ [principal_row_of p]\<rparr>)))"

definition create_principal ::
  "principal \<Rightarrow> identity_store \<Rightarrow> (principal_repository_error + unit) \<times> identity_store" where
  "create_principal p store =
     transact PrincipalCoordinate PrincipalDatabase (id_fault store)
       (\<lambda>store. rbind (insert_principal p store) (\<lambda>store. Inr ((), store))) store"

definition find_principal :: "principal_id \<Rightarrow> identity_store \<Rightarrow> principal_repository_error + principal option" where
  "find_principal i store =
     rbind (call PrincipalDatabase (id_fault store) CenterQuery) (\<lambda>_.
     case List.find (\<lambda>r. prr_id r = i) (id_principals store) of
       None \<Rightarrow> Inr None
     | Some model \<Rightarrow> rbind (map_stored_principal (id_tables store) model) (\<lambda>p. Inr (Some p)))"

definition find_principal_by_name ::
  "principal_name \<Rightarrow> identity_store \<Rightarrow> principal_repository_error + principal option" where
  "find_principal_by_name name store =
     rbind (call PrincipalDatabase (id_fault store) CenterQuery) (\<lambda>_.
     case List.find (\<lambda>r. prr_name r = name) (id_principals store) of
       None \<Rightarrow> Inr None
     | Some model \<Rightarrow> rbind (map_stored_principal (id_tables store) model) (\<lambda>p. Inr (Some p)))"

definition list_principals :: "identity_store \<Rightarrow> principal_repository_error + principal list" where
  "list_principals store =
     rbind (call PrincipalDatabase (id_fault store) CenterQuery) (\<lambda>_.
     traverse (map_stored_principal (id_tables store))
       (sort_key (\<lambda>r. (prr_created_at r, prr_id r)) (id_principals store)))"

definition set_principal_state ::
  "principal_id \<Rightarrow> principal_state \<Rightarrow> instant \<Rightarrow> identity_store
     \<Rightarrow> (principal_repository_error + unit) \<times> identity_store" where
  "set_principal_state i st at store =
     transact PrincipalCoordinate PrincipalDatabase (id_fault store)
       (\<lambda>store.
          rbind (call PrincipalDatabase (id_fault store) CenterQuery) (\<lambda>_.
          rbind (ok_or (PrincipalNotFound i) (List.find (\<lambda>r. prr_id r = i) (id_principals store))) (\<lambda>_.
          rbind (call PrincipalDatabase (id_fault store) CenterUpdate) (\<lambda>_.
          Inr ((), store\<lparr>id_principals := map (\<lambda>r.
            if prr_id r = i then r\<lparr>prr_state := principal_state_as_str st, prr_updated_at := at\<rparr> else r)
            (id_principals store)\<rparr>))))) store"

section \<open>Roles\<close>

text \<open>\<open>ck_role_assignments_site\<close> of the migration: only operators and viewers are scoped to a site.\<close>

definition role_scope_check :: "string \<Rightarrow> instance_id option \<Rightarrow> bool" where
  "role_scope_check role site \<longleftrightarrow> site = None \<or> role \<in> {''operator'', ''viewer''}"

definition assigner_stored :: "identity_store \<Rightarrow> principal_id option \<Rightarrow> bool" where
  "assigner_stored store assigner \<longleftrightarrow> (case assigner of None \<Rightarrow> True | Some p \<Rightarrow> principal_stored store p)"

definition role_row_of :: "role_assignment \<Rightarrow> role_row" where
  "role_row_of a =
     \<lparr>rr_principal_id = ra_principal_id a, rr_role = role_as_str (ra_role a), rr_assigned_by = ra_assigned_by a,
      rr_assigned_at = ra_assigned_at a, rr_site_id = ra_site_id a\<rparr>"

text \<open>\<open>ON CONFLICT (principal_id) DO UPDATE SET role, assigned_by, assigned_at\<close>.\<close>

definition role_conflict_update :: "role_assignment \<Rightarrow> role_row \<Rightarrow> role_row" where
  "role_conflict_update a r =
     r\<lparr>rr_role := role_as_str (ra_role a), rr_assigned_by := ra_assigned_by a, rr_assigned_at := ra_assigned_at a\<rparr>"

definition assign_role_statement ::
  "role_assignment \<Rightarrow> identity_store \<Rightarrow> principal_repository_error + unit \<times> identity_store" where
  "assign_role_statement a store =
     rbind (call PrincipalDatabase (id_fault store) CenterInsert) (\<lambda>_.
     rbind (ensure (role_scope_check (role_as_str (ra_role a)) (ra_site_id a)) PrincipalDatabase) (\<lambda>_.
     case List.find (\<lambda>r. rr_principal_id r = ra_principal_id a) (id_roles store) of
       None \<Rightarrow>
         rbind (ensure (principal_stored store (ra_principal_id a) \<and> assigner_stored store (ra_assigned_by a)
                  \<and> (case ra_site_id a of None \<Rightarrow> True | Some site \<Rightarrow> site \<in> set (id_instances store)))
                PrincipalDatabase) (\<lambda>_.
         Inr ((), store\<lparr>id_roles := id_roles store @ [role_row_of a]\<rparr>))
     | Some r \<Rightarrow>
         rbind (ensure (role_scope_check (role_as_str (ra_role a)) (rr_site_id r)
                  \<and> assigner_stored store (ra_assigned_by a)) PrincipalDatabase) (\<lambda>_.
         Inr ((), store\<lparr>id_roles := map (\<lambda>r.
           if rr_principal_id r = ra_principal_id a then role_conflict_update a r else r) (id_roles store)\<rparr>))))"

definition assign_role ::
  "role_assignment \<Rightarrow> identity_store \<Rightarrow> (principal_repository_error + unit) \<times> identity_store" where
  "assign_role a store = permitted PrincipalCoordinate (id_fault store) (assign_role_statement a) store"

definition find_role_assignment ::
  "principal_id \<Rightarrow> identity_store \<Rightarrow> principal_repository_error + role_assignment option" where
  "find_role_assignment i store =
     rbind (call PrincipalDatabase (id_fault store) CenterQuery) (\<lambda>_.
     case List.find (\<lambda>r. rr_principal_id r = i) (id_roles store) of
       None \<Rightarrow> Inr None
     | Some model \<Rightarrow> rbind (map_stored_assignment model) (\<lambda>a. Inr (Some a)))"

definition list_role_assignments :: "identity_store \<Rightarrow> principal_repository_error + role_assignment list" where
  "list_role_assignments store =
     rbind (call PrincipalDatabase (id_fault store) CenterQuery) (\<lambda>_.
     traverse map_stored_assignment (sort_key rr_assigned_at (id_roles store)))"

section \<open>Passwords\<close>

definition find_password_credential ::
  "principal_id \<Rightarrow> identity_store \<Rightarrow> password_repository_error + password_credential option" where
  "find_password_credential i store =
     rbind (call PasswordDatabase (id_fault store) CenterQuery) (\<lambda>_.
     case List.find (\<lambda>r. pwr_principal_id r = i) (id_passwords store) of
       None \<Rightarrow> Inr None
     | Some model \<Rightarrow>
         rbind (map_err (PasswordCorrupt i) (argon2id_from_parts (pwr_salt model) (pwr_hash model))) (\<lambda>hash.
         rbind (map_err (PasswordCorrupt i) (password_credential_try_from_parts i hash (pwr_changed_at model))) (\<lambda>c.
         Inr (Some c))))"

definition save_password_statement ::
  "password_credential \<Rightarrow> identity_store \<Rightarrow> password_repository_error + unit \<times> identity_store" where
  "save_password_statement c store =
     rbind (call PasswordDatabase (id_fault store) CenterInsert) (\<lambda>_.
     if list_ex (\<lambda>r. pwr_principal_id r = pc_principal_id c) (id_passwords store)
     then Inr ((), store\<lparr>id_passwords := map (\<lambda>r.
            if pwr_principal_id r = pc_principal_id c
            then r\<lparr>pwr_hash_format := ARGON2ID_FORMAT, pwr_salt := ah_salt (pc_hash c), pwr_hash := ah_hash (pc_hash c),
                   pwr_changed_at := pc_changed_at c\<rparr>
            else r) (id_passwords store)\<rparr>)
     else
       rbind (ensure (principal_stored store (pc_principal_id c)) PasswordDatabase) (\<lambda>_.
       Inr ((), store\<lparr>id_passwords := id_passwords store @ [password_row_of c]\<rparr>)))"

definition save_password_credential ::
  "password_credential \<Rightarrow> identity_store \<Rightarrow> (password_repository_error + unit) \<times> identity_store" where
  "save_password_credential c store = permitted PasswordCoordinate (id_fault store) (save_password_statement c) store"

section \<open>TOTP authenticators\<close>

definition insert_totp_row ::
  "'e \<Rightarrow> byte list \<Rightarrow> totp_authenticator \<Rightarrow> identity_store \<Rightarrow> 'e + identity_store" where
  "insert_totp_row database secret a store =
     rbind (call database (id_fault store) CenterInsert) (\<lambda>_.
     rbind (ensure (\<not> list_ex (\<lambda>r. tor_id r = ta_id a) (id_totps store)
              \<and> principal_stored store (ta_principal_id a)) database) (\<lambda>_.
     Inr (store\<lparr>id_totps := id_totps store @ [totp_row_of secret a]\<rparr>)))"

definition insert_authenticator ::
  "totp_authenticator \<Rightarrow> identity_store \<Rightarrow> totp_repository_error + identity_store" where
  "insert_authenticator a store =
     rbind (map_err TotpProtect (protect_totp_secret store a)) (\<lambda>secret.
     insert_totp_row TotpDatabase secret a store)"

definition create_totp_authenticator ::
  "totp_authenticator \<Rightarrow> identity_store \<Rightarrow> (totp_repository_error + unit) \<times> identity_store" where
  "create_totp_authenticator a store =
     transact TotpCoordinate TotpDatabase (id_fault store)
       (\<lambda>store. rbind (insert_authenticator a store) (\<lambda>store. Inr ((), store))) store"

definition find_totp_authenticator ::
  "totp_authenticator_id \<Rightarrow> identity_store \<Rightarrow> totp_repository_error + totp_authenticator option" where
  "find_totp_authenticator i store =
     rbind (call TotpDatabase (id_fault store) CenterQuery) (\<lambda>_.
     case List.find (\<lambda>r. tor_id r = i) (id_totps store) of
       None \<Rightarrow> Inr None
     | Some model \<Rightarrow> rbind (map_stored_authenticator store model) (\<lambda>a. Inr (Some a)))"

definition list_totp_authenticators ::
  "principal_id \<Rightarrow> identity_store \<Rightarrow> totp_repository_error + totp_authenticator list" where
  "list_totp_authenticators p store =
     rbind (call TotpDatabase (id_fault store) CenterQuery) (\<lambda>_.
     traverse (map_stored_authenticator store)
       (sort_key tor_created_at (filter (\<lambda>r. tor_principal_id r = p) (id_totps store))))"

text \<open>The guard of both step updates: no step recorded yet, or an earlier one.\<close>

definition step_guard :: "totp_authenticator_id \<Rightarrow> int \<Rightarrow> totp_row \<Rightarrow> bool" where
  "step_guard i step r \<longleftrightarrow>
     tor_id r = i \<and> (case tor_last_used_step r of None \<Rightarrow> True | Some used \<Rightarrow> used < step)"

definition activate_totp_statement ::
  "totp_authenticator_id \<Rightarrow> instant \<Rightarrow> totp_step \<Rightarrow> identity_store \<Rightarrow> totp_repository_error + unit \<times> identity_store" where
  "activate_totp_statement i activated_at step store =
     rbind (ok_or (StepOutOfRange i) (step_to_db step)) (\<lambda>step.
     rbind (call TotpDatabase (id_fault store) CenterUpdate) (\<lambda>_.
     if list_ex (step_guard i step) (id_totps store)
     then Inr ((), store\<lparr>id_totps := map (\<lambda>r.
            if step_guard i step r
            then r\<lparr>tor_state := totp_state_as_str Active, tor_activated_at := Some activated_at,
                   tor_last_used_step := Some step\<rparr>
            else r) (id_totps store)\<rparr>)
     else
       rbind (call TotpDatabase (id_fault store) CenterReread) (\<lambda>_.
       Inl (if list_ex (\<lambda>r. tor_id r = i) (id_totps store) then StaleStep i else TotpNotFound i))))"

definition activate_totp_authenticator ::
  "totp_authenticator_id \<Rightarrow> instant \<Rightarrow> totp_step \<Rightarrow> identity_store
     \<Rightarrow> (totp_repository_error + unit) \<times> identity_store" where
  "activate_totp_authenticator i activated_at step store =
     permitted TotpCoordinate (id_fault store) (activate_totp_statement i activated_at step) store"

definition record_totp_statement ::
  "totp_authenticator_id \<Rightarrow> totp_step \<Rightarrow> identity_store \<Rightarrow> totp_repository_error + bool \<times> identity_store" where
  "record_totp_statement i step store =
     rbind (ok_or (StepOutOfRange i) (step_to_db step)) (\<lambda>step.
     rbind (call TotpDatabase (id_fault store) CenterUpdate) (\<lambda>_.
     Inr (length (filter (step_guard i step) (id_totps store)) = 1,
          store\<lparr>id_totps := map (\<lambda>r.
            if step_guard i step r then r\<lparr>tor_last_used_step := Some step\<rparr> else r) (id_totps store)\<rparr>)))"

definition record_totp_step ::
  "totp_authenticator_id \<Rightarrow> totp_step \<Rightarrow> identity_store \<Rightarrow> (totp_repository_error + bool) \<times> identity_store" where
  "record_totp_step i step store = permitted TotpCoordinate (id_fault store) (record_totp_statement i step) store"

section \<open>Sessions\<close>

text \<open>
  The unique indexes (the key and the token hash) are checked before the foreign key of the principal;
  \<open>taken\<close> is the error of the former, \<open>database\<close> of the latter.
\<close>

definition insert_session_row :: "'e \<Rightarrow> 'e \<Rightarrow> session \<Rightarrow> identity_store \<Rightarrow> 'e + identity_store" where
  "insert_session_row taken database s store =
     rbind (call database (id_fault store) CenterInsert) (\<lambda>_.
     rbind (ensure (\<not> list_ex (\<lambda>r. sr_id r = se_id s \<or> sr_token_hash r = se_token_hash s) (id_sessions store)) taken) (\<lambda>_.
     rbind (ensure (principal_stored store (se_principal_id s)) database) (\<lambda>_.
     Inr (store\<lparr>id_sessions := id_sessions store @ [session_row_of s]\<rparr>))))"

definition create_session :: "session \<Rightarrow> identity_store \<Rightarrow> (session_repository_error + unit) \<times> identity_store" where
  "create_session s store =
     transact SessionCoordinate SessionDatabase (id_fault store)
       (\<lambda>store. rbind (insert_session_row TokenHashTaken SessionDatabase s store) (\<lambda>store. Inr ((), store))) store"

definition find_session_by_token_hash ::
  "byte list \<Rightarrow> identity_store \<Rightarrow> session_repository_error + session option" where
  "find_session_by_token_hash token_hash store =
     rbind (call SessionDatabase (id_fault store) CenterQuery) (\<lambda>_.
     case List.find (\<lambda>r. sr_token_hash r = token_hash) (id_sessions store) of
       None \<Rightarrow> Inr None
     | Some model \<Rightarrow> rbind (map_stored_session model) (\<lambda>s. Inr (Some s)))"

definition list_sessions :: "principal_id \<Rightarrow> identity_store \<Rightarrow> session_repository_error + session list" where
  "list_sessions p store =
     rbind (call SessionDatabase (id_fault store) CenterQuery) (\<lambda>_.
     traverse map_stored_session (sort_key sr_created_at (filter (\<lambda>r. sr_principal_id r = p) (id_sessions store))))"

text \<open>The update of a session writes every column from the domain value.\<close>

definition update_session :: "session \<Rightarrow> identity_store \<Rightarrow> session_repository_error + unit \<times> identity_store" where
  "update_session s store =
     rbind (call SessionDatabase (id_fault store) CenterUpdate) (\<lambda>_.
     Inr ((), store\<lparr>id_sessions := map (\<lambda>r. if sr_id r = se_id s then session_row_of s else r) (id_sessions store)\<rparr>))"

definition read_session :: "session_id \<Rightarrow> identity_store \<Rightarrow> session_repository_error + session" where
  "read_session i store =
     rbind (call SessionDatabase (id_fault store) CenterQuery) (\<lambda>_.
     rbind (ok_or (SessionNotFound i) (List.find (\<lambda>r. sr_id r = i) (id_sessions store))) map_stored_session)"

definition touch_session ::
  "session_id \<Rightarrow> instant \<Rightarrow> identity_store \<Rightarrow> (session_repository_error + unit) \<times> identity_store" where
  "touch_session i at store =
     transact SessionCoordinate SessionDatabase (id_fault store)
       (\<lambda>store.
          rbind (read_session i store) (\<lambda>s.
          rbind (map_err (\<lambda>_. StaleTouch i) (session_touch at s)) (\<lambda>s.
          update_session s store))) store"

definition revoke_session ::
  "session_id \<Rightarrow> instant \<Rightarrow> identity_store \<Rightarrow> (session_repository_error + unit) \<times> identity_store" where
  "revoke_session i at store =
     transact SessionCoordinate SessionDatabase (id_fault store)
       (\<lambda>store.
          rbind (read_session i store) (\<lambda>s.
          rbind (map_err (\<lambda>e. case e of
                     Session_AlreadyRevoked \<Rightarrow> SessionAlreadyRevoked i
                   | SessionTimeline \<Rightarrow> SessionCorrupt i (StoredSessionTimeline Session_InvalidTimeline))
                   (session_revoke at s)) (\<lambda>s.
          update_session s store))) store"

definition revoke_sessions_statement ::
  "principal_id \<Rightarrow> instant \<Rightarrow> identity_store \<Rightarrow> session_repository_error + nat \<times> identity_store" where
  "revoke_sessions_statement p at store =
     rbind (call SessionDatabase (id_fault store) CenterUpdate) (\<lambda>_.
     Inr (length (filter (\<lambda>r. sr_principal_id r = p \<and> sr_revoked_at r = None) (id_sessions store)),
          store\<lparr>id_sessions := map (\<lambda>r.
            if sr_principal_id r = p \<and> sr_revoked_at r = None then r\<lparr>sr_revoked_at := Some at\<rparr> else r)
            (id_sessions store)\<rparr>))"

definition revoke_sessions_for_principal ::
  "principal_id \<Rightarrow> instant \<Rightarrow> identity_store \<Rightarrow> (session_repository_error + nat) \<times> identity_store" where
  "revoke_sessions_for_principal p at store =
     permitted SessionCoordinate (id_fault store) (revoke_sessions_statement p at) store"

section \<open>Bootstrap codes\<close>

definition code_owner_stored :: "identity_store \<Rightarrow> bootstrap_code \<Rightarrow> bool" where
  "code_owner_stored store c \<longleftrightarrow> (case bc_used_by c of None \<Rightarrow> True | Some p \<Rightarrow> principal_stored store p)"

definition bootstrap_row_of :: "bootstrap_code \<Rightarrow> bootstrap_row" where
  "bootstrap_row_of c =
     \<lparr>bsr_id = bc_id c, bsr_code_hash = bc_code_hash c, bsr_created_at = bc_created_at c, bsr_used_at = bc_used_at c,
      bsr_used_by = bc_used_by c\<rparr>"

definition create_bootstrap_statement ::
  "bootstrap_code \<Rightarrow> identity_store \<Rightarrow> bootstrap_repository_error + unit \<times> identity_store" where
  "create_bootstrap_statement c store =
     rbind (call BootstrapDatabase (id_fault store) CenterInsert) (\<lambda>_.
     rbind (ensure (\<not> list_ex (\<lambda>r. bsr_id r = bc_id c) (id_bootstraps store) \<and> code_owner_stored store c) BootstrapDatabase) (\<lambda>_.
     Inr ((), store\<lparr>id_bootstraps := id_bootstraps store @ [bootstrap_row_of c]\<rparr>)))"

definition create_bootstrap_code ::
  "bootstrap_code \<Rightarrow> identity_store \<Rightarrow> (bootstrap_repository_error + unit) \<times> identity_store" where
  "create_bootstrap_code c store = permitted BootstrapCoordinate (id_fault store) (create_bootstrap_statement c) store"

definition find_bootstrap_code ::
  "bootstrap_code_id \<Rightarrow> identity_store \<Rightarrow> bootstrap_repository_error + bootstrap_code option" where
  "find_bootstrap_code i store =
     rbind (call BootstrapDatabase (id_fault store) CenterQuery) (\<lambda>_.
     case List.find (\<lambda>r. bsr_id r = i) (id_bootstraps store) of
       None \<Rightarrow> Inr None
     | Some model \<Rightarrow> rbind (map_stored_code model) (\<lambda>c. Inr (Some c)))"

text \<open>The hash has no unique index; \<open>one()\<close> answers the first row in key order of the table.\<close>

definition find_bootstrap_code_by_hash ::
  "byte list \<Rightarrow> identity_store \<Rightarrow> bootstrap_repository_error + bootstrap_code option" where
  "find_bootstrap_code_by_hash code_hash store =
     rbind (call BootstrapDatabase (id_fault store) CenterQuery) (\<lambda>_.
     case List.find (\<lambda>r. bsr_code_hash r = code_hash) (id_bootstraps store) of
       None \<Rightarrow> Inr None
     | Some model \<Rightarrow> rbind (map_stored_code model) (\<lambda>c. Inr (Some c)))"

definition has_unconsumed_bootstrap_code :: "identity_store \<Rightarrow> bootstrap_repository_error + bool" where
  "has_unconsumed_bootstrap_code store =
     rbind (call BootstrapDatabase (id_fault store) CenterQuery) (\<lambda>_.
     Inr (length (filter (\<lambda>r. bsr_used_at r = None) (id_bootstraps store)) > 0))"

definition insert_password_credential ::
  "password_credential \<Rightarrow> identity_store \<Rightarrow> bootstrap_repository_error + identity_store" where
  "insert_password_credential c store =
     rbind (call BootstrapDatabase (id_fault store) CenterInsert) (\<lambda>_.
     rbind (ensure (\<not> list_ex (\<lambda>r. pwr_principal_id r = pc_principal_id c) (id_passwords store)
              \<and> principal_stored store (pc_principal_id c)) BootstrapDatabase) (\<lambda>_.
     Inr (store\<lparr>id_passwords := id_passwords store @ [password_row_of c]\<rparr>)))"

definition insert_claim_authenticator ::
  "totp_authenticator option \<Rightarrow> identity_store \<Rightarrow> bootstrap_repository_error + identity_store" where
  "insert_claim_authenticator authenticator store =
     (case authenticator of
        None \<Rightarrow> Inr store
      | Some a \<Rightarrow>
          rbind (map_err BootstrapProtect (protect_totp_secret store a)) (\<lambda>secret.
          insert_totp_row BootstrapDatabase secret a store))"

definition mark_code_used ::
  "bootstrap_code_id \<Rightarrow> principal_id \<Rightarrow> instant \<Rightarrow> identity_store \<Rightarrow> bootstrap_repository_error + identity_store" where
  "mark_code_used i used_by consumed_at store =
     rbind (call BootstrapDatabase (id_fault store) CenterUpdate) (\<lambda>_.
     rbind (ensure (principal_stored store used_by) BootstrapDatabase) (\<lambda>_.
     Inr (store\<lparr>id_bootstraps := map (\<lambda>r.
       if bsr_id r = i then r\<lparr>bsr_used_at := Some consumed_at, bsr_used_by := Some used_by\<rparr> else r)
       (id_bootstraps store)\<rparr>)))"

definition consume_bootstrap_code ::
  "bootstrap_code_id \<Rightarrow> principal_id \<Rightarrow> password_credential \<Rightarrow> totp_authenticator option \<Rightarrow> session \<Rightarrow> instant
     \<Rightarrow> identity_store \<Rightarrow> (bootstrap_repository_error + unit) \<times> identity_store" where
  "consume_bootstrap_code i used_by password authenticator s consumed_at store =
     transact BootstrapCoordinate BootstrapDatabase (id_fault store)
       (\<lambda>store.
          rbind (call BootstrapDatabase (id_fault store) CenterQuery) (\<lambda>_.
          rbind (ok_or (BootstrapNotFound i) (List.find (\<lambda>r. bsr_id r = i) (id_bootstraps store))) (\<lambda>model.
          if bsr_used_at model \<noteq> None then Inl (BootstrapAlreadyUsed i)
          else
            rbind (mark_code_used i used_by consumed_at store) (\<lambda>store.
            rbind (insert_password_credential password store) (\<lambda>store.
            rbind (insert_claim_authenticator authenticator store) (\<lambda>store.
            rbind (insert_session_row BootstrapDatabase BootstrapDatabase s store) (\<lambda>store.
            Inr ((), store)))))))) store"

section \<open>Writes that fail change nothing\<close>

lemma permitted_Inl: "permitted c f body t = (Inl e, t') \<Longrightarrow> t' = t"
  by (auto simp: permitted_def split: if_splits sum.splits prod.splits)

lemma permitted_Inr: "permitted c f body t = (Inr a, t') \<Longrightarrow> body t = Inr (a, t')"
  by (auto simp: permitted_def split: if_splits sum.splits prod.splits)

lemma permitted_cases:
  assumes "permitted c f body t = (r, t')"
  obtains (failed) e where "r = Inl e" "t' = t" | (written) a where "r = Inr a" "body t = Inr (a, t')"
  using assms by (cases r) (auto dest: permitted_Inl permitted_Inr)

end
