(* ===== verification/Auth_Services.thy ===== *)
theory Auth_Services
  imports Identity_Repository Rate_Limiter Audit_Event
begin

text \<open>
  The authentication boundary of \<open>web/src/auth.rs\<close>, the trait \<open>AuthServices\<close>, and its implementation on the
  stores, \<open>app/src/standalone_runtime.rs\<close>. A request handler is a tree of calls: every await of the code
  is a constructor that carries the arguments of the call and what the handler does with the answer. Each
  call is atomic (a repository method, a section under the lock of a rate limiter, a derivation, an audit
  append); requests interleave between calls. \<open>perform\<close> runs the next call of a handler, \<open>run_alone\<close> a
  handler with nobody else, \<open>interleave\<close> any number of handlers under a schedule that also decides which
  database calls fail and what becomes of password derivations.
\<close>

section \<open>Answers of the boundary\<close>

datatype auth_error =
    AuthSession session_repository_error
  | AuthPrincipal principal_repository_error
  | AuthPassword password_repository_error
  | AuthTotp totp_repository_error
  | AuthBootstrap bootstrap_repository_error
  | AuthHash password_hash_error
  | AuthTokens session_token_error
  | HashGateBusy
  | HashWorker

definition is_derivation_gate_busy :: "auth_error \<Rightarrow> bool" where
  "is_derivation_gate_busy e \<longleftrightarrow> e = HashGateBusy"

datatype session_revocation = Revocation_Revoked | Revocation_NotFound | Revocation_AlreadyRevoked

text \<open>What becomes of a derivation: it ran, the bounded queue was full, the blocking task was lost.\<close>

datatype derivation = Derived | QueueFull | WorkerLost

datatype limiter_name = SignIn | PasswordChange | Bootstrap | SessionState

type_synonym auth_fact = "unit audit_event"

record auth_world =
  aw_identity :: identity_store
  aw_limiter :: "limiter_name \<Rightarrow> login_rate_limiter"
  aw_armed :: bool
  aw_argon2 :: argon2_lib
  aw_facts :: "auth_fact list"

section \<open>Handlers\<close>

text \<open>The writes of the stores that answer nothing, and the calls that cannot fail.\<close>

datatype store_write =
    CreateSession session
  | TouchSession session_id instant
  | CreatePrincipal principal
  | SetPrincipalState principal_id principal_state instant
  | AssignRole role_assignment
  | SavePassword password_credential
  | ConsumeBootstrapCode bootstrap_code_id principal_id password_credential "totp_authenticator option" session instant

datatype local_step = AppendFact auth_fact | RefundBudget limiter_name ustring ustring reservation | ArmGate

datatype check = VerifyPassword argon2id_hash ustring | ReserveAddress limiter_name ustring instant nat | ReadGate

datatype principal_key = ById principal_id | ByName principal_name

datatype (plugins only: ) 'r handler =
    Answer 'r
  | FindSession "byte list" "auth_error + session option \<Rightarrow> 'r handler"
  | RevokeSession session_id instant "auth_error + session_revocation \<Rightarrow> 'r handler"
  | RevokeSessionsOf principal_id instant "auth_error + nat \<Rightarrow> 'r handler"
  | ListSessions principal_id "auth_error + session list \<Rightarrow> 'r handler"
  | FindPrincipal principal_key "auth_error + principal option \<Rightarrow> 'r handler"
  | ListPrincipals "auth_error + principal list \<Rightarrow> 'r handler"
  | FindRoleAssignment principal_id "auth_error + role_assignment option \<Rightarrow> 'r handler"
  | ListRoleAssignments "auth_error + role_assignment list \<Rightarrow> 'r handler"
  | FindPassword principal_id "auth_error + password_credential option \<Rightarrow> 'r handler"
  | ListAuthenticators principal_id "auth_error + totp_authenticator list \<Rightarrow> 'r handler"
  | RecordTotpStep totp_authenticator_id totp_step "auth_error + bool \<Rightarrow> 'r handler"
  | FindBootstrapCode "byte list" "auth_error + bootstrap_code option \<Rightarrow> 'r handler"
  | HasUnconsumedCode "auth_error + bool \<Rightarrow> 'r handler"
  | Write store_write "auth_error + unit \<Rightarrow> 'r handler"
  | HashPassword "byte list option" ustring "auth_error + argon2id_hash \<Rightarrow> 'r handler"
  | ReserveBudget limiter_name ustring ustring instant "reservation option \<Rightarrow> 'r handler"
  | Check check "bool \<Rightarrow> 'r handler"
  | Local local_step "'r handler"

section \<open>The implementation on the stores\<close>

definition on_identity ::
  "(identity_store \<Rightarrow> ('e + 'a) \<times> identity_store) \<Rightarrow> ('e \<Rightarrow> auth_error) \<Rightarrow> auth_world \<Rightarrow> (auth_error + 'a) \<times> auth_world" where
  "on_identity method wrap w =
     (let (r, store) = method (aw_identity w) in (map_err wrap r, w\<lparr>aw_identity := store\<rparr>))"

definition reading :: "(identity_store \<Rightarrow> 'e + 'a) \<Rightarrow> ('e \<Rightarrow> auth_error) \<Rightarrow> auth_world \<Rightarrow> auth_error + 'a" where
  "reading method wrap w = map_err wrap (method (aw_identity w))"

text \<open>The settled states of a revocation are answers, every other failure is an error.\<close>

definition revocation_of :: "session_repository_error + unit \<Rightarrow> auth_error + session_revocation" where
  "revocation_of r =
     (case r of
        Inr _ \<Rightarrow> Inr Revocation_Revoked
      | Inl e \<Rightarrow> (case e of
            SessionNotFound _ \<Rightarrow> Inr Revocation_NotFound
          | SessionAlreadyRevoked _ \<Rightarrow> Inr Revocation_AlreadyRevoked
          | _ \<Rightarrow> Inl (AuthSession e)))"

definition revoke_session_service ::
  "session_id \<Rightarrow> instant \<Rightarrow> auth_world \<Rightarrow> (auth_error + session_revocation) \<times> auth_world" where
  "revoke_session_service i at w =
     (let (r, store) = revoke_session i at (aw_identity w) in (revocation_of r, w\<lparr>aw_identity := store\<rparr>))"

definition verify_password_async :: "derivation \<Rightarrow> argon2id_hash \<Rightarrow> ustring \<Rightarrow> auth_world \<Rightarrow> bool" where
  "verify_password_async d h password w =
     (case d of Derived \<Rightarrow> argon2id_verify (aw_argon2 w) password h | QueueFull \<Rightarrow> False | WorkerLost \<Rightarrow> False)"

definition hash_password_async ::
  "derivation \<Rightarrow> byte list option \<Rightarrow> ustring \<Rightarrow> auth_world \<Rightarrow> auth_error + argon2id_hash" where
  "hash_password_async d getrandom password w =
     (case d of
        QueueFull \<Rightarrow> Inl HashGateBusy
      | WorkerLost \<Rightarrow> Inl HashWorker
      | Derived \<Rightarrow> map_err AuthHash (hash_password (aw_argon2 w) getrandom password))"

definition on_limiter :: "limiter_name \<Rightarrow> (login_rate_limiter \<Rightarrow> 'a \<times> login_rate_limiter) \<Rightarrow> auth_world \<Rightarrow> 'a \<times> auth_world" where
  "on_limiter n f w =
     (let (a, l) = f (aw_limiter w n) in (a, w\<lparr>aw_limiter := (aw_limiter w)(n := l)\<rparr>))"

fun write_service :: "store_write \<Rightarrow> auth_world \<Rightarrow> (auth_error + unit) \<times> auth_world" where
  "write_service (CreateSession s) w = on_identity (create_session s) AuthSession w"
| "write_service (TouchSession i at) w = on_identity (touch_session i at) AuthSession w"
| "write_service (CreatePrincipal p) w = on_identity (create_principal p) AuthPrincipal w"
| "write_service (SetPrincipalState p st at) w = on_identity (set_principal_state p st at) AuthPrincipal w"
| "write_service (AssignRole a) w = on_identity (assign_role a) AuthPrincipal w"
| "write_service (SavePassword c) w = on_identity (save_password_credential c) AuthPassword w"
| "write_service (ConsumeBootstrapCode i p c a s at) w =
     on_identity (consume_bootstrap_code i p c a s at) AuthBootstrap w"

fun local_service :: "local_step \<Rightarrow> auth_world \<Rightarrow> auth_world" where
  "local_service (AppendFact event) w = w\<lparr>aw_facts := aw_facts w @ [event]\<rparr>"
| "local_service (RefundBudget n username ip r) w =
     w\<lparr>aw_limiter := (aw_limiter w)(n := refund (id_tables (aw_identity w)) username ip r (aw_limiter w n))\<rparr>"
| "local_service ArmGate w = w\<lparr>aw_armed := True\<rparr>"

fun check_service :: "derivation \<Rightarrow> check \<Rightarrow> auth_world \<Rightarrow> bool \<times> auth_world" where
  "check_service d (VerifyPassword h password) w = (verify_password_async d h password w, w)"
| "check_service d (ReserveAddress n ip now limit) w = on_limiter n (reserve_ip ip now limit) w"
| "check_service d ReadGate w = (aw_armed w, w)"

fun principal_service :: "principal_key \<Rightarrow> identity_store \<Rightarrow> principal_repository_error + principal option" where
  "principal_service (ById i) = find_principal i"
| "principal_service (ByName n) = find_principal_by_name n"

section \<open>Running handlers\<close>

primrec perform :: "derivation \<Rightarrow> 'r handler \<Rightarrow> auth_world \<Rightarrow> 'r handler \<times> auth_world" where
  "perform d (Answer r) w = (Answer r, w)"
| "perform d (FindSession h k) w = (k (reading (find_session_by_token_hash h) AuthSession w), w)"
| "perform d (RevokeSession i at k) w = apfst k (revoke_session_service i at w)"
| "perform d (RevokeSessionsOf p at k) w = apfst k (on_identity (revoke_sessions_for_principal p at) AuthSession w)"
| "perform d (ListSessions p k) w = (k (reading (list_sessions p) AuthSession w), w)"
| "perform d (FindPrincipal key k) w = (k (reading (principal_service key) AuthPrincipal w), w)"
| "perform d (ListPrincipals k) w = (k (reading list_principals AuthPrincipal w), w)"
| "perform d (FindRoleAssignment p k) w = (k (reading (find_role_assignment p) AuthPrincipal w), w)"
| "perform d (ListRoleAssignments k) w = (k (reading list_role_assignments AuthPrincipal w), w)"
| "perform d (FindPassword p k) w = (k (reading (find_password_credential p) AuthPassword w), w)"
| "perform d (ListAuthenticators p k) w = (k (reading (list_totp_authenticators p) AuthTotp w), w)"
| "perform d (RecordTotpStep i step k) w = apfst k (on_identity (record_totp_step i step) AuthTotp w)"
| "perform d (FindBootstrapCode h k) w = (k (reading (find_bootstrap_code_by_hash h) AuthBootstrap w), w)"
| "perform d (HasUnconsumedCode k) w = (k (reading has_unconsumed_bootstrap_code AuthBootstrap w), w)"
| "perform d (Write c k) w = apfst k (write_service c w)"
| "perform d (HashPassword getrandom password k) w = (k (hash_password_async d getrandom password w), w)"
| "perform d (ReserveBudget n username ip now k) w =
     apfst k (on_limiter n (reserve (id_tables (aw_identity w)) username ip now) w)"
| "perform d (Check c k) w = apfst k (check_service d c w)"
| "perform d (Local c k) w = (k, local_service c w)"

definition answer_of :: "'r handler \<Rightarrow> 'r option" where
  "answer_of p = (case p of Answer r \<Rightarrow> Some r | _ \<Rightarrow> None)"

text \<open>A handler runs to its answer: the continuation of a call is a smaller tree.\<close>

definition continues :: "('r handler \<times> 'r handler) set" where
  "continues = {(p', p). answer_of p = None \<and> (\<exists>d w. p' = fst (perform d p w))}"

lemma wf_continues: "wf continues"
proof (rule acc_wfI, rule allI)
  show "p \<in> Wellfounded.acc continues" for p :: "'r handler"
    by (induction p; rule accI) (auto simp: continues_def answer_of_def)
qed

lemma continuesI: "answer_of p = None \<Longrightarrow> (fst (perform d p w), p) \<in> continues"
  by (auto simp: continues_def)

function run_alone :: "derivation \<Rightarrow> 'r handler \<Rightarrow> auth_world \<Rightarrow> 'r \<times> auth_world" where
  "run_alone d p w =
     (case answer_of p of
        Some r \<Rightarrow> (r, w)
      | None \<Rightarrow> run_alone d (fst (perform d p w)) (snd (perform d p w)))"
  by pat_completeness auto

termination
proof (relation "inv_image continues (\<lambda>(d, p, w). p)")
  show "wf (inv_image continues (\<lambda>(d, p, w). p))" by (rule wf_inv_image [OF wf_continues])
  show "((d, fst (perform d p w), snd (perform d p w)), d, p, w) \<in> inv_image continues (\<lambda>(d, p, w). p)"
    if "answer_of p = None" for d p w
    unfolding in_inv_image prod.case using that by (rule continuesI)
qed

declare run_alone.simps [simp del]

text \<open>A turn of the schedule: which request moves, which database calls fail, what a derivation does.\<close>

record turn =
  tn_request :: nat
  tn_fault :: "center_call \<Rightarrow> bool"
  tn_derivation :: derivation

definition set_fault :: "(center_call \<Rightarrow> bool) \<Rightarrow> auth_world \<Rightarrow> auth_world" where
  "set_fault f w = w\<lparr>aw_identity := (aw_identity w)\<lparr>id_fault := f\<rparr>\<rparr>"

definition take_turn :: "turn \<Rightarrow> 'r handler list \<times> auth_world \<Rightarrow> 'r handler list \<times> auth_world" where
  "take_turn t = (\<lambda>(pool, w).
     if tn_request t < length pool
     then let (p, w') = perform (tn_derivation t) (pool ! tn_request t) (set_fault (tn_fault t) w)
          in (pool[tn_request t := p], w')
     else (pool, w))"

fun interleave :: "turn list \<Rightarrow> 'r handler list \<times> auth_world \<Rightarrow> 'r handler list \<times> auth_world" where
  "interleave [] s = s"
| "interleave (t # ts) s = interleave ts (take_turn t s)"

end
