(* ===== verification/Web_Responses.thy ===== *)
theory Web_Responses
  imports Auth_Services
begin

text \<open>
  What the sign-in handlers of \<open>web/src/auth.rs\<close> read from a request and put into a response: the cookie
  scan, the session cookies, the client address, the transport, the constant response shapes, tokens and
  their hashes, and the audit facts of an outcome. Crates and the text forms of addresses are arguments.
\<close>

section \<open>Requests and responses\<close>

datatype ip_addr = IpV4 "32 word" | IpV6 "128 word"

record web_request =
  wq_scheme :: "ustring option"
  wq_forwarded_proto :: "ustring option"
  wq_cookie :: "ustring option"
  wq_csrf :: "ustring option"
  wq_peer :: "ip_addr option"

record session_summary =
  ss_session :: session
  ss_principal_id :: principal_id
  ss_principal_name :: principal_name
  ss_current :: bool

record user_summary =
  us_id :: principal_id
  us_name :: principal_name
  us_state :: principal_state
  us_role :: "role option"
  us_created_at :: instant

datatype response_body =
    Body_Empty
  | Body_Error string
  | Body_Csrf ustring
  | Body_Me bool bool "(principal \<times> role option) option"
  | Body_Sessions "session_summary list"
  | Body_Users "user_summary list"

record response =
  rs_status :: nat
  rs_body :: response_body
  rs_set_cookie :: "ustring option"
  rs_no_store :: bool

definition json_ok :: "response_body \<Rightarrow> response" where
  "json_ok body = \<lparr>rs_status = 200, rs_body = body, rs_set_cookie = None, rs_no_store = True\<rparr>"

definition json_error :: "nat \<Rightarrow> string \<Rightarrow> response" where
  "json_error status message = \<lparr>rs_status = status, rs_body = Body_Error message, rs_set_cookie = None, rs_no_store = True\<rparr>"

definition uncached_status :: "nat \<Rightarrow> response" where
  "uncached_status status = \<lparr>rs_status = status, rs_body = Body_Empty, rs_set_cookie = None, rs_no_store = True\<rparr>"

section \<open>The world a request reads\<close>

record web_lib =
  wl_tables :: case_tables
  wl_tokens :: token_lib
  wl_hmac :: hmac_sha1
  wl_base32_decode :: "ustring \<Rightarrow> byte list option"
  wl_uuid_text :: "uuid \<Rightarrow> ustring"
  wl_uuid_parse :: "ustring \<Rightarrow> uuid option"
  wl_v4_text :: "32 word \<Rightarrow> ustring"
  wl_v6_text :: "128 word \<Rightarrow> ustring"

text \<open>
  Clocks, generated identities and random bytes of one request: the instant the middleware validates the
  session at, the one the handler reads when it starts, those of the limiter and of the cookie.
\<close>

type_synonym audit_ids = "uuid \<times> uuid \<times> uuid"

record web_env =
  we_resolve_now :: instant
  we_now :: instant
  we_rate_now :: instant
  we_utc_now :: instant
  we_session_id :: session_id
  we_principal_id :: principal_id
  we_authenticator_id :: totp_authenticator_id
  we_session_token :: "byte list option"
  we_csrf_token :: "byte list option"
  we_salt :: "byte list option"
  we_audit_ids :: audit_ids
  we_enrollment_audit_ids :: audit_ids

datatype auth_policy = Policy_Open | Policy_Guarded | Policy_PendingBootstrap

record web_config =
  wc_policy :: auth_policy
  wc_actor :: audit_actor
  wc_origin :: deployment_posture

section \<open>Headers\<close>

definition SESSION_COOKIE_NAME :: ustring where
  "SESSION_COOKIE_NAME = ascii ''rutilus_session''"

definition SESSION_LIFETIME :: int where
  "SESSION_LIFETIME = 8 * 3600 * 1000000000"

definition TOUCH_INTERVAL :: int where
  "TOUCH_INTERVAL = 60 * 1000000000"

definition MIN_PASSWORD_CHARS :: nat where
  "MIN_PASSWORD_CHARS = 12"

fun split_on :: "nat \<Rightarrow> ustring \<Rightarrow> ustring list" where
  "split_on c [] = [[]]"
| "split_on c (x # xs) = (if x = c then [] # split_on c xs
      else (case split_on c xs of [] \<Rightarrow> [[x]] | part # parts \<Rightarrow> (x # part) # parts))"

fun scan_pairs :: "ustring \<Rightarrow> ustring list \<Rightarrow> ustring option" where
  "scan_pairs name [] = None"
| "scan_pairs name (pair # pairs) =
     (case strip_prefix name (trim pair) of
        None \<Rightarrow> scan_pairs name pairs
      | Some rest \<Rightarrow> (case strip_prefix (ascii ''='') rest of
            None \<Rightarrow> scan_pairs name pairs
          | Some v \<Rightarrow> Some (trim v)))"

definition cookie_value :: "web_request \<Rightarrow> ustring \<Rightarrow> ustring option" where
  "cookie_value rq name = Option.bind (wq_cookie rq) (\<lambda>cookie. scan_pairs name (split_on 59 cookie))"

fun decimal :: "nat \<Rightarrow> ustring" where
  "decimal n = (if n < 10 then [48 + n] else decimal (n div 10) @ [48 + n mod 10])"

declare decimal.simps [simp del]

text \<open>\<open>HeaderValue::from_str\<close>: visible bytes and the tab.\<close>

definition header_value_ok :: "ustring \<Rightarrow> bool" where
  "header_value_ok s \<longleftrightarrow> list_all (\<lambda>b. (32 \<le> unat b \<and> unat b \<noteq> 127) \<or> unat b = 9) (utf8_encode s)"

definition session_cookie :: "ustring \<Rightarrow> instant \<Rightarrow> instant \<Rightarrow> bool \<Rightarrow> ustring" where
  "session_cookie tok expires_at utc_now secure =
     (let max_age = max 0 ((expires_at - utc_now) div 1000000000);
          cookie = SESSION_COOKIE_NAME @ ascii ''='' @ tok @ ascii ''; Path=/; HttpOnly; SameSite=Strict; Max-Age=''
            @ decimal (nat max_age) @ (if secure then ascii ''; Secure'' else [])
      in if header_value_ok cookie then cookie else ascii ''rutilus_session=; Max-Age=0'')"

definition clear_session_cookie :: ustring where
  "clear_session_cookie = ascii ''rutilus_session=; Path=/; HttpOnly; SameSite=Strict; Max-Age=0''"

definition request_ip :: "web_lib \<Rightarrow> web_request \<Rightarrow> ustring" where
  "request_ip lib rq =
     (case wq_peer rq of
        Some (IpV4 v4) \<Rightarrow> wl_v4_text lib v4
      | Some (IpV6 v6) \<Rightarrow> if drop_bit 32 v6 = 0xffff then wl_v4_text lib (ucast v6) else wl_v6_text lib v6
      | None \<Rightarrow> ascii ''unknown'')"

definition is_https :: "web_request \<Rightarrow> bool" where
  "is_https rq \<longleftrightarrow>
     wq_scheme rq = Some (ascii ''https'')
   \<or> (case wq_forwarded_proto rq of None \<Rightarrow> False | Some proto \<Rightarrow> trim (hd (split_on 44 proto)) = ascii ''https'')"

section \<open>Tokens\<close>

text \<open>A presentation that does not parse hashes to zeros.\<close>

definition presented_hash :: "web_lib \<Rightarrow> ustring \<Rightarrow> byte list" where
  "presented_hash lib wire =
     (case token_from_base64url (wl_tokens lib) wire of
        Inl _ \<Rightarrow> replicate 32 0
      | Inr tok \<Rightarrow> token_digest (wl_tokens lib) tok)"

definition issue_tokens :: "web_lib \<Rightarrow> web_env \<Rightarrow> auth_error + issued_session_tokens" where
  "issue_tokens lib env =
     rbind (map_err AuthTokens (token_generate (we_session_token env))) (\<lambda>session_token.
     rbind (map_err AuthTokens (token_generate (we_csrf_token env))) (\<lambda>csrf_token.
     Inr \<lparr>it_session_token = token_as_base64url (wl_tokens lib) session_token,
          it_session_token_hash = token_digest (wl_tokens lib) session_token,
          it_csrf_token = token_as_base64url (wl_tokens lib) csrf_token,
          it_csrf_token_hash = token_digest (wl_tokens lib) csrf_token\<rparr>))"

definition csrf_matches :: "web_lib \<Rightarrow> web_request \<Rightarrow> byte list \<Rightarrow> bool" where
  "csrf_matches lib rq expected_hash =
     (case wq_csrf rq of
        None \<Rightarrow> False
      | Some presented \<Rightarrow> constant_time_eq (presented_hash lib presented) expected_hash)"

section \<open>Outcomes\<close>

definition audit_context ::
  "web_config \<Rightarrow> uuid \<Rightarrow> audit_actor \<Rightarrow> principal_id option \<Rightarrow> product_permission \<Rightarrow> audit_action \<Rightarrow> principal_id option
     \<Rightarrow> audit_operation_context_error + unit audit_context" where
  "audit_context cfg i actor actor_principal permission action target =
     rbind (context_try_new_with_actor_principal i actor (wc_origin cfg) Target_Product Summary_EndpointRefresh
              permission action Rf_None actor_principal) (\<lambda>context.
     Inr (case target of Some p \<Rightarrow> with_target_principal p context | None \<Rightarrow> context))"

definition record_outcome ::
  "web_config \<Rightarrow> audit_ids \<Rightarrow> instant \<Rightarrow> audit_actor \<Rightarrow> principal_id option \<Rightarrow> product_permission \<Rightarrow> audit_action \<Rightarrow> bool
     \<Rightarrow> (audit_failure \<times> audit_failure_verification) option \<Rightarrow> principal_id option \<Rightarrow> 'r handler \<Rightarrow> 'r handler" where
  "record_outcome cfg ids now actor actor_principal permission action succeeded failure target k =
     (case ids of (operation, started, terminal) \<Rightarrow>
      case audit_context cfg operation actor actor_principal permission action target of
        Inl _ \<Rightarrow> k
      | Inr context \<Rightarrow>
          Local (AppendFact (event_started started context now))
            (case sequence_next SEQUENCE_FIRST of
               Inl _ \<Rightarrow> k
             | Inr sequence \<Rightarrow>
                 (case (if succeeded then Some (event_succeeded terminal context sequence now)
                        else map_option (\<lambda>(f, v). event_failed terminal context sequence f v now) failure) of
                    Some (Inr event) \<Rightarrow> Local (AppendFact event) k
                  | _ \<Rightarrow> k)))"

definition record_management_event ::
  "web_config \<Rightarrow> audit_ids \<Rightarrow> instant \<Rightarrow> audit_actor \<Rightarrow> principal_id option \<Rightarrow> product_permission \<Rightarrow> audit_action \<Rightarrow> bool
     \<Rightarrow> 'r handler \<Rightarrow> 'r handler" where
  "record_management_event cfg ids now actor actor_principal permission action succeeded k =
     record_outcome cfg ids now actor actor_principal permission action succeeded None None k"

definition record_login_failure ::
  "web_config \<Rightarrow> web_env \<Rightarrow> principal_id option \<Rightarrow> 'r handler \<Rightarrow> 'r handler" where
  "record_login_failure cfg env p k =
     record_outcome cfg (we_audit_ids env) (we_now env) (if p \<noteq> None then Actor_User else Actor_System) p
       Perm_Authenticate Action_Login False (Some (Fail_AuthenticationFailed, FailureVerified_Rejected)) None k"

definition record_login_success :: "web_config \<Rightarrow> web_env \<Rightarrow> principal_id \<Rightarrow> 'r handler \<Rightarrow> 'r handler" where
  "record_login_success cfg env p k =
     record_outcome cfg (we_audit_ids env) (we_now env) Actor_User (Some p) Perm_Authenticate Action_Login True None None k"

definition password_satisfies_policy :: "ustring \<Rightarrow> bool" where
  "password_satisfies_policy password \<longleftrightarrow> length password \<ge> MIN_PASSWORD_CHARS"

definition password_policy_error :: response where
  "password_policy_error = json_error 400 ''the password must contain at least 12 characters''"

definition derivation_failure_response :: "auth_error \<Rightarrow> response" where
  "derivation_failure_response e = (if is_derivation_gate_busy e then uncached_status 503 else uncached_status 500)"

text \<open>\<open>.ok().flatten()\<close>.\<close>

definition found :: "auth_error + 'a option \<Rightarrow> 'a option" where
  "found r = (case r of Inl _ \<Rightarrow> None | Inr a \<Rightarrow> a)"

section \<open>Dummy derivations\<close>

definition DUMMY_SALT :: "byte list" where
  "DUMMY_SALT = replicate ARGON2ID_SALT_LENGTH 0x1a"

definition DUMMY_HASH :: "byte list" where
  "DUMMY_HASH = replicate ARGON2ID_HASH_LENGTH 0x2b"

definition DUMMY_ADMIN_DERIVATION_INPUT :: ustring where
  "DUMMY_ADMIN_DERIVATION_INPUT = ascii ''rutilus-dummy-admin-derivation''"

definition dummy_password_verification :: "ustring \<Rightarrow> 'r handler \<Rightarrow> 'r handler" where
  "dummy_password_verification password k =
     (case argon2id_from_parts DUMMY_SALT DUMMY_HASH of
        Inl _ \<Rightarrow> k
      | Inr dummy \<Rightarrow> Check (VerifyPassword dummy password) (\<lambda>_. k))"

definition dummy_admin_derivation :: "web_env \<Rightarrow> ustring \<Rightarrow> 'r handler \<Rightarrow> 'r handler" where
  "dummy_admin_derivation env password k = HashPassword (we_salt env) password (\<lambda>_. k)"

end
