(* ===== verification/Web_Auth.thy ===== *)
theory Web_Auth
  imports Web_Responses
begin

text \<open>
  The handlers of the sign-in surface, \<open>web/src/auth.rs\<close>: sign-in, sign-out, the first-startup claim, the
  password change, the session state, and the administration of sessions and users. A handler is the tree
  of its calls in the order of the code.
\<close>

section \<open>The acting identity\<close>

record auth_context =
  ax_actor :: audit_actor
  ax_principal_id :: "principal_id option"
  ax_session_id :: "session_id option"
  ax_role :: "role option"
  ax_site_id :: "instance_id option"

definition unauthenticated :: "audit_actor \<Rightarrow> auth_context" where
  "unauthenticated actor =
     \<lparr>ax_actor = actor, ax_principal_id = None, ax_session_id = None, ax_role = None, ax_site_id = None\<rparr>"

section \<open>Sign-in\<close>

record login_request =
  lq_username :: ustring
  lq_password :: ustring
  lq_totp_code :: "ustring option"

definition login_failed :: "web_config \<Rightarrow> web_env \<Rightarrow> principal_id option \<Rightarrow> response handler" where
  "login_failed cfg env p = record_login_failure cfg env p (Answer (json_error 401 ''sign-in failed''))"

definition open_session :: "web_env \<Rightarrow> principal_id \<Rightarrow> issued_session_tokens \<Rightarrow> session" where
  "open_session env p tokens =
     session_new (we_session_id env) p (it_session_token_hash tokens) (it_csrf_token_hash tokens) (we_now env)
       (we_now env + SESSION_LIFETIME)"

definition signed_in_response :: "web_env \<Rightarrow> web_request \<Rightarrow> issued_session_tokens \<Rightarrow> session \<Rightarrow> response" where
  "signed_in_response env rq tokens s =
     (json_ok (Body_Csrf (it_csrf_token tokens)))
       \<lparr>rs_set_cookie := Some (session_cookie (it_session_token tokens) (se_expires_at s) (we_utc_now env) (is_https rq))\<rparr>"

definition login_verified ::
  "web_lib \<Rightarrow> web_config \<Rightarrow> web_env \<Rightarrow> web_request \<Rightarrow> login_request \<Rightarrow> reservation \<Rightarrow> principal_id \<Rightarrow> response handler" where
  "login_verified lib cfg env rq body r p =
     Local (RefundBudget SignIn (lq_username body) (request_ip lib rq) r)
       (case issue_tokens lib env of
          Inl _ \<Rightarrow> Answer (uncached_status 500)
        | Inr tokens \<Rightarrow>
            (let s = open_session env p tokens in
             Write (CreateSession s) (\<lambda>created. case created of
                 Inl _ \<Rightarrow> Answer (uncached_status 500)
               | Inr _ \<Rightarrow> record_login_success cfg env p (Answer (signed_in_response env rq tokens s)))))"

definition second_factor ::
  "web_lib \<Rightarrow> web_env \<Rightarrow> ustring option \<Rightarrow> totp_authenticator list \<Rightarrow> 'r handler \<Rightarrow> 'r handler \<Rightarrow> 'r handler" where
  "second_factor lib env code authenticators failed k =
     (case List.find (\<lambda>a. ta_state a = Active) authenticators of
        None \<Rightarrow> k
      | Some a \<Rightarrow>
          (case code of
             None \<Rightarrow> failed
           | Some code \<Rightarrow>
               (case verify_totp_code (wl_hmac lib) (ta_secret a) code (we_now env) (ta_last_used_step a) of
                  Inl _ \<Rightarrow> failed
                | Inr step \<Rightarrow> RecordTotpStep (ta_id a) step (\<lambda>r. if r = Inr True then k else failed))))"

definition login ::
  "web_lib \<Rightarrow> web_config \<Rightarrow> web_env \<Rightarrow> web_request \<Rightarrow> login_request \<Rightarrow> response handler" where
  "login lib cfg env rq body =
     (if \<not> password_satisfies_policy (lq_password body) then Answer password_policy_error
      else
        ReserveBudget SignIn (lq_username body) (request_ip lib rq) (we_rate_now env) (\<lambda>reserved.
        (case reserved of
          None \<Rightarrow> Answer (json_error 429 ''too many sign-in attempts; try again later'')
        | Some r \<Rightarrow>
        (case principal_name_parse (wl_tables lib) (lq_username body) of
          Inl _ \<Rightarrow> login_failed cfg env None
        | Inr name \<Rightarrow>
        FindPrincipal (ByName name) (\<lambda>answer. (case found answer of
          None \<Rightarrow> dummy_password_verification (lq_password body) (login_failed cfg env None)
        | Some user \<Rightarrow>
        if pr_state user \<noteq> Enabled
        then dummy_password_verification (lq_password body) (login_failed cfg env (Some (pr_id user)))
        else
        FindPassword (pr_id user) (\<lambda>answer. (case found answer of
          None \<Rightarrow> dummy_password_verification (lq_password body) (login_failed cfg env (Some (pr_id user)))
        | Some credential \<Rightarrow>
        Check (VerifyPassword (pc_hash credential) (lq_password body)) (\<lambda>verified.
        if \<not> verified then login_failed cfg env (Some (pr_id user))
        else
        ListAuthenticators (pr_id user) (\<lambda>answer. (case answer of
          Inl e \<Rightarrow> if is_derivation_gate_busy e then Answer (uncached_status 503)
                   else login_failed cfg env (Some (pr_id user))
        | Inr authenticators \<Rightarrow>
        second_factor lib env (lq_totp_code body) authenticators (login_failed cfg env (Some (pr_id user)))
          (login_verified lib cfg env rq body r (pr_id user)))))))))))))"

section \<open>Sign-out\<close>

definition cleared_response :: response where
  "cleared_response = (json_ok (Body_Csrf []))\<lparr>rs_set_cookie := Some clear_session_cookie\<rparr>"

definition session_required :: response where
  "session_required = json_error 401 ''a valid session is required''"

definition logout :: "web_config \<Rightarrow> web_env \<Rightarrow> auth_context \<Rightarrow> response handler" where
  "logout cfg env ctx =
     (case ax_session_id ctx of
        None \<Rightarrow> Answer session_required
      | Some i \<Rightarrow>
          RevokeSession i (we_now env) (\<lambda>revoked. case revoked of
            Inl _ \<Rightarrow> Answer (uncached_status 500)
          | Inr _ \<Rightarrow>
              record_management_event cfg (we_audit_ids env) (we_now env) (ax_actor ctx) (ax_principal_id ctx)
                Perm_Authenticate Action_Logout True (Answer cleared_response)))"

section \<open>The first-startup claim\<close>

record claim_request =
  cq_code :: ustring
  cq_password :: ustring
  cq_totp_secret :: "ustring option"
  cq_totp_code :: "ustring option"

definition BOOTSTRAP_PRINCIPAL_NAME :: ustring where
  "BOOTSTRAP_PRINCIPAL_NAME = ascii ''admin''"

definition has_complete_totp_pair :: "claim_request \<Rightarrow> bool" where
  "has_complete_totp_pair body \<longleftrightarrow> (cq_totp_secret body \<noteq> None) = (cq_totp_code body \<noteq> None)"

definition claim_failed :: "web_config \<Rightarrow> web_env \<Rightarrow> principal_id option \<Rightarrow> response handler" where
  "claim_failed cfg env p = record_login_failure cfg env p (Answer (json_error 401 ''bootstrap failed''))"

text \<open>The optional enrollment: a response when it is refused, the activated authenticator otherwise.\<close>

definition claim_enrollment ::
  "web_lib \<Rightarrow> web_env \<Rightarrow> claim_request \<Rightarrow> principal_id \<Rightarrow> response + totp_authenticator option" where
  "claim_enrollment lib env body p =
     (case cq_totp_secret body of
        None \<Rightarrow> Inr None
      | Some encoded \<Rightarrow>
          rbind (ok_or (json_error 400 ''the TOTP secret is not valid base32'') (wl_base32_decode lib encoded)) (\<lambda>secret.
          rbind (ensure (length secret = TOTP_SECRET_LENGTH) (json_error 400 ''the TOTP secret must decode to 20 bytes'')) (\<lambda>_.
          rbind (ok_or (json_error 400 ''the TOTP activation code is required'') (cq_totp_code body)) (\<lambda>code.
          rbind (map_err (\<lambda>_. json_error 400 ''the TOTP activation code is invalid'')
                   (totp_activate (wl_hmac lib) code (we_now env)
                      (totp_new (we_authenticator_id env) p secret (we_now env)))) (\<lambda>a.
          Inr (Some a))))))"

definition claim_settled ::
  "web_lib \<Rightarrow> web_config \<Rightarrow> web_env \<Rightarrow> web_request \<Rightarrow> reservation \<Rightarrow> principal_id \<Rightarrow> totp_authenticator option
     \<Rightarrow> issued_session_tokens \<Rightarrow> session \<Rightarrow> response handler" where
  "claim_settled lib cfg env rq r p enrolled tokens s =
     (let answer = Answer (signed_in_response env rq tokens s);
          armed = (if wc_policy cfg = Policy_PendingBootstrap then Local ArmGate answer else answer);
          enrollment = (if enrolled \<noteq> None
            then record_management_event cfg (we_enrollment_audit_ids env) (we_now env) Actor_User (Some p) Perm_ManageUsers
                   Action_ManageTotp True armed
            else armed)
      in Local (RefundBudget Bootstrap BOOTSTRAP_PRINCIPAL_NAME (request_ip lib rq) r)
           (record_login_success cfg env p enrollment))"

definition claim_consumed ::
  "web_lib \<Rightarrow> web_config \<Rightarrow> web_env \<Rightarrow> web_request \<Rightarrow> reservation \<Rightarrow> principal_id \<Rightarrow> bootstrap_code_id
     \<Rightarrow> totp_authenticator option \<Rightarrow> argon2id_hash \<Rightarrow> response handler" where
  "claim_consumed lib cfg env rq r p code enrolled hash =
     (case password_credential_try_from_parts p hash (we_now env) of
        Inl _ \<Rightarrow> Answer (uncached_status 500)
      | Inr credential \<Rightarrow>
          (case issue_tokens lib env of
             Inl _ \<Rightarrow> Answer (uncached_status 500)
           | Inr tokens \<Rightarrow>
               (let s = open_session env p tokens in
                Write (ConsumeBootstrapCode code p credential enrolled s (we_now env)) (\<lambda>consumed. case consumed of
                    Inl _ \<Rightarrow> Answer (json_error 401 ''bootstrap failed'')
                  | Inr _ \<Rightarrow> claim_settled lib cfg env rq r p enrolled tokens s))))"

definition bootstrap_complete ::
  "web_lib \<Rightarrow> web_config \<Rightarrow> web_env \<Rightarrow> web_request \<Rightarrow> claim_request \<Rightarrow> response handler" where
  "bootstrap_complete lib cfg env rq body =
     (if \<not> password_satisfies_policy (cq_password body) then Answer password_policy_error
      else if \<not> has_complete_totp_pair body
      then Answer (json_error 400 ''the TOTP secret and its activation code must travel together'')
      else
        ReserveBudget Bootstrap BOOTSTRAP_PRINCIPAL_NAME (request_ip lib rq) (we_rate_now env) (\<lambda>reserved.
        (case reserved of
          None \<Rightarrow> Answer (json_error 429 ''too many bootstrap attempts; try again later'')
        | Some r \<Rightarrow>
        (case principal_name_parse (wl_tables lib) BOOTSTRAP_PRINCIPAL_NAME of
          Inl _ \<Rightarrow> Answer (uncached_status 500)
        | Inr name \<Rightarrow>
        FindPrincipal (ByName name) (\<lambda>answer. (case found answer of
          None \<Rightarrow> claim_failed cfg env None
        | Some user \<Rightarrow>
        FindBootstrapCode (hash_bootstrap_code (sha256 (wl_tokens lib)) (cq_code body)) (\<lambda>answer. (case found answer of
          None \<Rightarrow> claim_failed cfg env (Some (pr_id user))
        | Some code \<Rightarrow>
        if bc_used_at code \<noteq> None then claim_failed cfg env (Some (pr_id user))
        else
        (case claim_enrollment lib env body (pr_id user) of
          Inl refusal \<Rightarrow> Answer refusal
        | Inr enrolled \<Rightarrow>
        HashPassword (we_salt env) (cq_password body) (\<lambda>hashed. (case hashed of
          Inl e \<Rightarrow> Answer (derivation_failure_response e)
        | Inr hash \<Rightarrow> claim_consumed lib cfg env rq r (pr_id user) (bc_id code) enrolled hash)))))))))))"

section \<open>Password changes\<close>

record change_request =
  pq_current_password :: ustring
  pq_new_password :: ustring

definition change_failed :: "web_config \<Rightarrow> web_env \<Rightarrow> auth_context \<Rightarrow> response handler" where
  "change_failed cfg env ctx =
     record_outcome cfg (we_audit_ids env) (we_now env) (ax_actor ctx) (ax_principal_id ctx) Perm_Authenticate
       Action_ChangePassword False (Some (Fail_AuthenticationFailed, FailureVerified_Rejected)) None
       (Answer (json_error 401 ''password change failed''))"

text \<open>
  Deriving, saving and revoking, shared by the own change and the one an administrator sets: \<open>revoked\<close> is
  what follows the revocation of every session of the principal, \<open>unrevoked\<close> what follows its failure.
\<close>

definition replace_password ::
  "web_env \<Rightarrow> principal_id \<Rightarrow> ustring \<Rightarrow> response handler \<Rightarrow> response handler \<Rightarrow> response handler" where
  "replace_password env p new_password unrevoked revoked =
     HashPassword (we_salt env) new_password (\<lambda>hashed. case hashed of
       Inl e \<Rightarrow> Answer (derivation_failure_response e)
     | Inr hash \<Rightarrow>
         (case password_credential_try_from_parts p hash (we_now env) of
            Inl _ \<Rightarrow> Answer (uncached_status 500)
          | Inr updated \<Rightarrow>
              Write (SavePassword updated) (\<lambda>saved. case saved of
                Inl _ \<Rightarrow> Answer (uncached_status 500)
              | Inr _ \<Rightarrow> RevokeSessionsOf p (we_now env) (\<lambda>r. case r of Inl _ \<Rightarrow> unrevoked | Inr _ \<Rightarrow> revoked))))"

definition change_password ::
  "web_lib \<Rightarrow> web_config \<Rightarrow> web_env \<Rightarrow> web_request \<Rightarrow> auth_context \<Rightarrow> change_request \<Rightarrow> response handler" where
  "change_password lib cfg env rq ctx body =
     (if \<not> password_satisfies_policy (pq_new_password body) then Answer password_policy_error
      else case ax_principal_id ctx of
        None \<Rightarrow> Answer session_required
      | Some p \<Rightarrow>
          ReserveBudget PasswordChange (wl_uuid_text lib p) (request_ip lib rq) (we_rate_now env) (\<lambda>reserved.
          if reserved = None then Answer (json_error 429 ''too many password-change attempts; try again later'')
          else
          FindPassword p (\<lambda>answer. case found answer of
            None \<Rightarrow> change_failed cfg env ctx
          | Some credential \<Rightarrow>
          Check (VerifyPassword (pc_hash credential) (pq_current_password body)) (\<lambda>verified.
          if \<not> verified then change_failed cfg env ctx
          else
          replace_password env p (pq_new_password body)
            (record_outcome cfg (we_audit_ids env) (we_now env) Actor_User (Some p) Perm_Authenticate Action_ChangePassword
               False (Some (Fail_SessionRevocationFailed, FailureVerified_Inconclusive)) None (Answer (uncached_status 500)))
            (record_management_event cfg (we_audit_ids env) (we_now env) Actor_User (Some p) Perm_Authenticate
               Action_ChangePassword True (Answer cleared_response))))))"

end
