(* ===== verification/Web_Admin.thy ===== *)
theory Web_Admin
  imports Web_Auth
begin

text \<open>
  The session state and the administration handlers of \<open>web/src/auth.rs\<close>: \<open>me\<close>, the listing and revocation
  of sessions, the listing and creation of users, and the changes of a user's state, role and password.
\<close>

section \<open>The session state\<close>

definition me_response :: "bool \<Rightarrow> (principal \<times> role option) option \<Rightarrow> response" where
  "me_response bootstrap_pending user = json_ok (Body_Me (user \<noteq> None) bootstrap_pending user)"

definition me :: "web_lib \<Rightarrow> web_env \<Rightarrow> web_request \<Rightarrow> response handler" where
  "me lib env rq =
     Check (ReserveAddress SessionState (request_ip lib rq) (we_rate_now env) ME_IP_QUERY_LIMIT) (\<lambda>granted.
     if \<not> granted then Answer (json_error 429 ''too many session-state queries; try again later'')
     else
     HasUnconsumedCode (\<lambda>pending. let bootstrap_pending = (case pending of Inl _ \<Rightarrow> True | Inr b \<Rightarrow> b) in
     (case cookie_value rq SESSION_COOKIE_NAME of
        None \<Rightarrow> Answer (me_response bootstrap_pending None)
      | Some cookie \<Rightarrow>
     FindSession (presented_hash lib cookie) (\<lambda>answer. (case found answer of
        None \<Rightarrow> Answer (me_response bootstrap_pending None)
      | Some s \<Rightarrow>
     if \<not> session_is_active (we_now env) s then Answer (me_response bootstrap_pending None)
     else
     FindPrincipal (ById (se_principal_id s)) (\<lambda>answer. (case found answer of
        None \<Rightarrow> Answer (me_response bootstrap_pending None)
      | Some user \<Rightarrow>
     if pr_state user \<noteq> Enabled then Answer (me_response bootstrap_pending None)
     else
     FindRoleAssignment (pr_id user) (\<lambda>answer.
     Answer (me_response bootstrap_pending (Some (user, map_option ra_role (found answer))))))))))))"

section \<open>Sessions\<close>

definition session_summary_of :: "auth_context \<Rightarrow> principal \<Rightarrow> session \<Rightarrow> session_summary" where
  "session_summary_of ctx user s =
     \<lparr>ss_session = s, ss_principal_id = pr_id user, ss_principal_name = pr_name user,
      ss_current = (Some (se_id s) = ax_session_id ctx)\<rparr>"

fun collect_sessions ::
  "auth_context \<Rightarrow> principal list \<Rightarrow> session_summary list \<Rightarrow> response handler" where
  "collect_sessions ctx [] acc = Answer (json_ok (Body_Sessions acc))"
| "collect_sessions ctx (user # users) acc =
     ListSessions (pr_id user) (\<lambda>answer. case answer of
       Inl _ \<Rightarrow> Answer (uncached_status 500)
     | Inr sessions \<Rightarrow> collect_sessions ctx users (acc @ map (session_summary_of ctx user) sessions))"

definition list_sessions_handler :: "auth_context \<Rightarrow> response handler" where
  "list_sessions_handler ctx =
     ListPrincipals (\<lambda>answer. case answer of
       Inl _ \<Rightarrow> Answer (uncached_status 500)
     | Inr users \<Rightarrow> collect_sessions ctx users [])"

definition done_response :: response where
  "done_response = json_ok (Body_Csrf [])"

definition revoke_session_handler ::
  "web_config \<Rightarrow> web_env \<Rightarrow> auth_context \<Rightarrow> session_id \<Rightarrow> response handler" where
  "revoke_session_handler cfg env ctx i =
     RevokeSession i (we_now env) (\<lambda>answer. case answer of
       Inr Revocation_NotFound \<Rightarrow> Answer (json_error 404 ''the session does not exist'')
     | Inr _ \<Rightarrow>
         record_management_event cfg (we_audit_ids env) (we_now env) (ax_actor ctx) (ax_principal_id ctx) Perm_ManageUsers
           Action_ManageSessions True (Answer done_response)
     | Inl _ \<Rightarrow>
         record_outcome cfg (we_audit_ids env) (we_now env) (ax_actor ctx) (ax_principal_id ctx) Perm_ManageUsers
           Action_ManageSessions False (Some (Fail_SessionRevocationFailed, FailureVerified_Inconclusive)) None
           (Answer (uncached_status 500)))"

section \<open>Users\<close>

text \<open>Both reads are made before either answer is looked at; the map of roles keeps the last entry.\<close>

definition user_summary_of :: "role_assignment list \<Rightarrow> principal \<Rightarrow> user_summary" where
  "user_summary_of assignments user =
     \<lparr>us_id = pr_id user, us_name = pr_name user, us_state = pr_state user,
      us_role = map_of (rev (map (\<lambda>a. (ra_principal_id a, ra_role a)) assignments)) (pr_id user),
      us_created_at = pr_created_at user\<rparr>"

definition list_users :: "response handler" where
  "list_users =
     ListPrincipals (\<lambda>users. ListRoleAssignments (\<lambda>assignments. case (users, assignments) of
       (Inr users, Inr assignments) \<Rightarrow> Answer (json_ok (Body_Users (map (user_summary_of assignments) users)))
     | _ \<Rightarrow> Answer (uncached_status 500)))"

definition record_user_management :: "web_config \<Rightarrow> web_env \<Rightarrow> auth_context \<Rightarrow> response handler" where
  "record_user_management cfg env ctx =
     record_management_event cfg (we_audit_ids env) (we_now env) (ax_actor ctx) (ax_principal_id ctx) Perm_ManageUsers
       Action_ManageUsers True (Answer done_response)"

definition role_assignment_of :: "web_env \<Rightarrow> auth_context \<Rightarrow> principal_id \<Rightarrow> role \<Rightarrow> role_assignment" where
  "role_assignment_of env ctx p role =
     \<lparr>ra_principal_id = p, ra_role = role, ra_assigned_by = ax_principal_id ctx, ra_assigned_at = we_now env,
      ra_site_id = None\<rparr>"

definition create_user ::
  "web_lib \<Rightarrow> web_config \<Rightarrow> web_env \<Rightarrow> auth_context \<Rightarrow> ustring \<Rightarrow> role \<Rightarrow> response handler" where
  "create_user lib cfg env ctx name role =
     (case principal_name_parse (wl_tables lib) name of
        Inl _ \<Rightarrow> Answer (json_error 400 ''the principal name is invalid'')
      | Inr name \<Rightarrow>
          FindPrincipal (ByName name) (\<lambda>answer.
          if found answer \<noteq> None then Answer (json_error 409 ''a principal with this name already exists'')
          else
          Write (CreatePrincipal (principal_new (we_principal_id env) name (we_now env))) (\<lambda>created. (case created of
            Inl _ \<Rightarrow> Answer (uncached_status 500)
          | Inr _ \<Rightarrow>
          Write (AssignRole (role_assignment_of env ctx (we_principal_id env) role)) (\<lambda>assigned. (case assigned of
            Inl _ \<Rightarrow> Answer (uncached_status 500)
          | Inr _ \<Rightarrow> record_user_management cfg env ctx))))))"

text \<open>
  What the changes of a user share: the acting administrator, the user's identity, a slot of the
  credential-change budget and the lookup of the user, with a dummy derivation for an unknown one.
\<close>

definition administer_user ::
  "web_lib \<Rightarrow> web_env \<Rightarrow> web_request \<Rightarrow> auth_context \<Rightarrow> ustring \<Rightarrow> string \<Rightarrow> ustring
     \<Rightarrow> (principal_id \<Rightarrow> response handler) \<Rightarrow> response handler" where
  "administer_user lib env rq ctx path_id refusal dummy_input k =
     (case ax_principal_id ctx of
        None \<Rightarrow> Answer session_required
      | Some actor \<Rightarrow>
          (case wl_uuid_parse lib path_id of
             None \<Rightarrow> Answer (json_error 400 ''the principal id is invalid'')
           | Some p \<Rightarrow>
               ReserveBudget PasswordChange (wl_uuid_text lib actor) (request_ip lib rq) (we_rate_now env) (\<lambda>reserved.
               if reserved = None then Answer (json_error 429 refusal)
               else
               FindPrincipal (ById p) (\<lambda>answer.
               if found answer = None
               then dummy_admin_derivation env dummy_input (Answer (json_error 404 ''the principal does not exist''))
               else k p))))"

definition set_user_state ::
  "web_lib \<Rightarrow> web_config \<Rightarrow> web_env \<Rightarrow> web_request \<Rightarrow> auth_context \<Rightarrow> ustring \<Rightarrow> principal_state \<Rightarrow> response handler" where
  "set_user_state lib cfg env rq ctx path_id st =
     administer_user lib env rq ctx path_id ''too many administration attempts; try again later''
       DUMMY_ADMIN_DERIVATION_INPUT (\<lambda>p.
       Write (SetPrincipalState p st (we_now env)) (\<lambda>changed. case changed of
         Inl _ \<Rightarrow> Answer (uncached_status 500)
       | Inr _ \<Rightarrow>
           if st = Disabled
           then RevokeSessionsOf p (we_now env) (\<lambda>_. record_user_management cfg env ctx)
           else record_user_management cfg env ctx))"

definition assign_user_role ::
  "web_lib \<Rightarrow> web_config \<Rightarrow> web_env \<Rightarrow> web_request \<Rightarrow> auth_context \<Rightarrow> ustring \<Rightarrow> role \<Rightarrow> response handler" where
  "assign_user_role lib cfg env rq ctx path_id role =
     administer_user lib env rq ctx path_id ''too many administration attempts; try again later''
       DUMMY_ADMIN_DERIVATION_INPUT (\<lambda>p.
       Write (AssignRole (role_assignment_of env ctx p role)) (\<lambda>assigned. case assigned of
         Inl _ \<Rightarrow> Answer (uncached_status 500)
       | Inr _ \<Rightarrow> RevokeSessionsOf p (we_now env) (\<lambda>_. record_user_management cfg env ctx)))"

definition set_user_password ::
  "web_lib \<Rightarrow> web_config \<Rightarrow> web_env \<Rightarrow> web_request \<Rightarrow> auth_context \<Rightarrow> ustring \<Rightarrow> ustring \<Rightarrow> response handler" where
  "set_user_password lib cfg env rq ctx path_id new_password =
     (if \<not> password_satisfies_policy new_password then Answer password_policy_error
      else
        administer_user lib env rq ctx path_id ''too many password-change attempts; try again later'' new_password (\<lambda>p.
          replace_password env p new_password
            (record_outcome cfg (we_audit_ids env) (we_now env) (ax_actor ctx) (ax_principal_id ctx) Perm_Authenticate
               Action_ChangePassword False (Some (Fail_SessionRevocationFailed, FailureVerified_Inconclusive)) (Some p)
               (Answer (uncached_status 500)))
            (record_outcome cfg (we_audit_ids env) (we_now env) (ax_actor ctx) (ax_principal_id ctx) Perm_Authenticate
               Action_ChangePassword True None (Some p) (Answer done_response))))"

end
