(* ===== verification/Route_Access.thy ===== *)
theory Route_Access
  imports Principal_Domain Audit_Event
begin

text \<open>
  The route authorization of the console: the table and its matcher of \<open>web/src/auth.rs\<close> and the route
  registries of \<open>web/src/lib.rs\<close>. A registry path is a template; the router matches a request path that is
  an instance of it, the parameters in braces replaced by arbitrary segments.
\<close>

section \<open>Roles and access\<close>

datatype http_method = GET | HEAD | POST | PUT | DELETE | OTHER string

type_synonym role_mask = "8 word"

fun role_bit :: "role \<Rightarrow> role_mask" where
  "role_bit Administrator = 1"
| "role_bit Operator = 2"
| "role_bit Viewer = 4"

definition ROLES_ANY :: role_mask where
  "ROLES_ANY = Bit_Operations.or (Bit_Operations.or 1 2) 4"

definition ADMINISTRATOR_ONLY :: role_mask where
  "ADMINISTRATOR_ONLY = 1"

definition ADMINISTRATOR_OR_OPERATOR :: role_mask where
  "ADMINISTRATOR_OR_OPERATOR = Bit_Operations.or 1 2"

definition mask_allows :: "role_mask \<Rightarrow> role \<Rightarrow> bool" where
  "mask_allows roles role \<longleftrightarrow> Bit_Operations.and roles (role_bit role) \<noteq> 0"

datatype route_access =
    Public
  | Always role_mask bool
  | GuardedOnly role_mask bool

datatype console_scope = Scope_Edge | Scope_Center

fun scope_of :: "deployment_posture \<Rightarrow> console_scope" where
  "scope_of Posture_Standalone = Scope_Edge"
| "scope_of Posture_Site = Scope_Edge"
| "scope_of Posture_Center = Scope_Center"

section \<open>The authorization table\<close>

text \<open>A pattern: an exact path, or what stands before a trailing star.\<close>

datatype path_pattern = Exact string | Prefix string

fun pattern_text :: "path_pattern \<Rightarrow> string" where
  "pattern_text (Exact p) = p"
| "pattern_text (Prefix p) = p @ ''*''"

type_synonym table_row = "http_method \<times> path_pattern \<times> route_access"

definition SESSION_ACCESS :: "table_row list" where
  "SESSION_ACCESS = [
    (GET, Exact ''/api/v1/health'', Public),
    (GET, Exact ''/api/v1/about'', Public),
    (POST, Exact ''/api/v1/auth/login'', Public),
    (POST, Exact ''/api/v1/auth/bootstrap'', Public),
    (GET, Exact ''/api/v1/auth/me'', Public),
    (POST, Exact ''/api/v1/auth/logout'', Always ROLES_ANY True),
    (POST, Exact ''/api/v1/auth/password'', Always ROLES_ANY True),
    (GET, Exact ''/api/v1/admin/sessions'', Always ADMINISTRATOR_ONLY False),
    (POST, Exact ''/api/v1/admin/sessions'', Always ADMINISTRATOR_ONLY True),
    (GET, Exact ''/api/v1/admin/users'', Always ADMINISTRATOR_ONLY False),
    (POST, Exact ''/api/v1/admin/users'', Always ADMINISTRATOR_ONLY True),
    (POST, Prefix ''/api/v1/admin/users'', Always ADMINISTRATOR_ONLY True)]"

definition FLEET_ACCESS :: "table_row list" where
  "FLEET_ACCESS = [
    (GET, Exact ''/api/v1/audit'', GuardedOnly ADMINISTRATOR_OR_OPERATOR False),
    (GET, Prefix ''/api/v1/operations'', GuardedOnly ROLES_ANY False),
    (GET, Prefix ''/api/v1/batches'', GuardedOnly ROLES_ANY False),
    (POST, Exact ''/api/v1/operations'', GuardedOnly ADMINISTRATOR_OR_OPERATOR True),
    (GET, Prefix ''/api/v1/artifacts'', GuardedOnly ROLES_ANY False),
    (POST, Prefix ''/api/v1/artifacts'', GuardedOnly ADMINISTRATOR_OR_OPERATOR True),
    (GET, Exact ''/api/v1/credentials'', GuardedOnly ADMINISTRATOR_ONLY False),
    (POST, Exact ''/api/v1/credentials'', GuardedOnly ADMINISTRATOR_ONLY True),
    (POST, Prefix ''/api/v1/endpoints/trust'', GuardedOnly ADMINISTRATOR_ONLY True),
    (POST, Exact ''/api/v1/endpoints/import'', GuardedOnly ADMINISTRATOR_ONLY True),
    (POST, Exact ''/api/v1/endpoints/refresh'', GuardedOnly ADMINISTRATOR_ONLY True),
    (POST, Exact ''/api/v1/endpoints'', GuardedOnly ADMINISTRATOR_ONLY True),
    (GET, Prefix ''/api/v1/endpoints'', GuardedOnly ROLES_ANY False),
    (DELETE, Prefix ''/api/v1/endpoints'', GuardedOnly ADMINISTRATOR_ONLY True)]"

definition GROUP_ACCESS :: "table_row list" where
  "GROUP_ACCESS = [
    (GET, Prefix ''/api/v1/groups'', GuardedOnly ROLES_ANY False),
    (GET, Exact ''/api/v1/tags'', GuardedOnly ROLES_ANY False),
    (POST, Exact ''/api/v1/groups'', GuardedOnly ADMINISTRATOR_ONLY True),
    (PUT, Prefix ''/api/v1/groups'', GuardedOnly ADMINISTRATOR_ONLY True),
    (DELETE, Prefix ''/api/v1/groups'', GuardedOnly ADMINISTRATOR_ONLY True),
    (PUT, Exact ''/api/v1/tags'', GuardedOnly ADMINISTRATOR_ONLY True),
    (GET, Exact ''/api/v1/events'', GuardedOnly ROLES_ANY False),
    (GET, Exact ''/api/v1/overview'', GuardedOnly ROLES_ANY False),
    (GET, Prefix ''/api/v1/telemetry'', GuardedOnly ROLES_ANY False)]"

definition CENTER_ACCESS :: "table_row list" where
  "CENTER_ACCESS = [
    (GET, Prefix ''/api/v1/center'', GuardedOnly ROLES_ANY False),
    (POST, Prefix ''/api/v1/center/bindings'', GuardedOnly ADMINISTRATOR_ONLY True),
    (POST, Exact ''/api/v1/center/operations'', GuardedOnly ADMINISTRATOR_OR_OPERATOR True)]"

definition ROUTE_TABLE :: "table_row list" where
  "ROUTE_TABLE = SESSION_ACCESS @ FLEET_ACCESS @ GROUP_ACCESS @ CENTER_ACCESS"

definition CENTER_SURFACE_PREFIX :: string where
  "CENTER_SURFACE_PREFIX = ''/api/v1/center''"

fun starts_with :: "string \<Rightarrow> string \<Rightarrow> bool" where
  "starts_with [] s \<longleftrightarrow> True"
| "starts_with (c # p) [] \<longleftrightarrow> False"
| "starts_with (c # p) (d # s) \<longleftrightarrow> c = d \<and> starts_with p s"

definition pattern_covers :: "path_pattern \<Rightarrow> string \<Rightarrow> bool" where
  "pattern_covers pat path \<longleftrightarrow>
     (case pat of Prefix p \<Rightarrow> starts_with p path | Exact _ \<Rightarrow> False) \<or> path = pattern_text pat"

fun table_entry :: "table_row list \<Rightarrow> http_method \<Rightarrow> string \<Rightarrow> console_scope \<Rightarrow> route_access option" where
  "table_entry [] m path scope = None"
| "table_entry ((route_method, pat, access) # rows) m path scope =
     (if route_method \<noteq> m then table_entry rows m path scope
      else if starts_with CENTER_SURFACE_PREFIX (pattern_text pat) \<and> scope \<noteq> Scope_Center then table_entry rows m path scope
      else if pattern_covers pat path then Some access
      else table_entry rows m path scope)"

definition route_access :: "http_method \<Rightarrow> string \<Rightarrow> console_scope \<Rightarrow> route_access" where
  "route_access m path scope =
     (case table_entry ROUTE_TABLE (if m = HEAD then GET else m) path scope of None \<Rightarrow> Public | Some access \<Rightarrow> access)"

section \<open>The route registries\<close>

datatype (plugins only: ) edge_route_kind =
    Edge_Health | Edge_About | Edge_EndpointInventory | Edge_Overview | Edge_EndpointResources | Edge_ResourceDiagnostics
  | Edge_EndpointCapabilities | Edge_CredentialInventory | Edge_CreateCredential | Edge_BeginEndpointTrust | Edge_ConfirmEndpointTrust | Edge_EnrollEndpoint
  | Edge_ImportEndpointsCsv | Edge_RefreshEndpoints | Edge_AuditQuery | Edge_EventQuery | Edge_TelemetrySeries | Edge_TelemetrySamples
  | Edge_CreateOperation | Edge_ListOperations | Edge_OperationDetail | Edge_ListBatches | Edge_BatchDetail | Edge_CreateArtifact
  | Edge_ListArtifacts | Edge_AppendArtifactChunk | Edge_FinalizeArtifact | Edge_ArtifactDetail | Edge_GroupInventory | Edge_CreateGroup
  | Edge_GroupDetail | Edge_DeleteGroup | Edge_AddGroupMember | Edge_RemoveGroupMember | Edge_TagInventory | Edge_AssignTag
  | Edge_RemoveTag | Edge_Login | Edge_Logout | Edge_BootstrapComplete | Edge_ChangePassword | Edge_Me
  | Edge_ListSessions | Edge_RevokeSession | Edge_ListUsers | Edge_CreateUser | Edge_SetUserState | Edge_AssignUserRole
  | Edge_SetUserPassword

datatype (plugins only: ) center_route_kind =
    Center_Health | Center_About | Center_AuditQuery | Center_CenterSites | Center_RegisterCenterSite | Center_RevokeCenterBinding
  | Center_CenterEndpoints | Center_CenterOperations | Center_SubmitCenterOperation | Center_Login | Center_Logout | Center_BootstrapComplete
  | Center_ChangePassword | Center_Me | Center_ListSessions | Center_RevokeSession | Center_ListUsers | Center_CreateUser
  | Center_SetUserState | Center_AssignUserRole | Center_SetUserPassword

definition EDGE_FLEET_ROUTES :: "(http_method \<times> string \<times> edge_route_kind) list" where
  "EDGE_FLEET_ROUTES = [
    (GET, ''/api/v1/health'', Edge_Health),
    (GET, ''/api/v1/about'', Edge_About),
    (GET, ''/api/v1/endpoints'', Edge_EndpointInventory),
    (GET, ''/api/v1/overview'', Edge_Overview),
    (GET, ''/api/v1/endpoints/{endpoint_id}/resources'', Edge_EndpointResources),
    (GET, ''/api/v1/endpoints/{endpoint_id}/resources/{resource_id}/diagnostics'', Edge_ResourceDiagnostics),
    (GET, ''/api/v1/endpoints/{endpoint_id}/capabilities'', Edge_EndpointCapabilities),
    (GET, ''/api/v1/credentials'', Edge_CredentialInventory),
    (POST, ''/api/v1/credentials'', Edge_CreateCredential),
    (POST, ''/api/v1/endpoints/trust'', Edge_BeginEndpointTrust),
    (POST, ''/api/v1/endpoints/trust/expect'', Edge_ConfirmEndpointTrust),
    (POST, ''/api/v1/endpoints'', Edge_EnrollEndpoint),
    (POST, ''/api/v1/endpoints/import'', Edge_ImportEndpointsCsv),
    (POST, ''/api/v1/endpoints/refresh'', Edge_RefreshEndpoints),
    (GET, ''/api/v1/audit'', Edge_AuditQuery),
    (GET, ''/api/v1/events'', Edge_EventQuery),
    (GET, ''/api/v1/telemetry'', Edge_TelemetrySeries),
    (GET, ''/api/v1/telemetry/{series_id}/samples'', Edge_TelemetrySamples),
    (POST, ''/api/v1/operations'', Edge_CreateOperation),
    (GET, ''/api/v1/operations'', Edge_ListOperations),
    (GET, ''/api/v1/operations/{operation_id}'', Edge_OperationDetail),
    (GET, ''/api/v1/batches'', Edge_ListBatches),
    (GET, ''/api/v1/batches/{batch_id}'', Edge_BatchDetail),
    (POST, ''/api/v1/artifacts'', Edge_CreateArtifact),
    (GET, ''/api/v1/artifacts'', Edge_ListArtifacts),
    (POST, ''/api/v1/artifacts/{artifact_id}/chunks'', Edge_AppendArtifactChunk),
    (POST, ''/api/v1/artifacts/{artifact_id}/finalize'', Edge_FinalizeArtifact),
    (GET, ''/api/v1/artifacts/{artifact_id}'', Edge_ArtifactDetail)]"

definition EDGE_OTHER_ROUTES :: "(http_method \<times> string \<times> edge_route_kind) list" where
  "EDGE_OTHER_ROUTES = [
    (GET, ''/api/v1/groups'', Edge_GroupInventory),
    (POST, ''/api/v1/groups'', Edge_CreateGroup),
    (GET, ''/api/v1/groups/{group_id}'', Edge_GroupDetail),
    (DELETE, ''/api/v1/groups/{group_id}'', Edge_DeleteGroup),
    (PUT, ''/api/v1/groups/{group_id}/members/{endpoint_id}'', Edge_AddGroupMember),
    (DELETE, ''/api/v1/groups/{group_id}/members/{endpoint_id}'', Edge_RemoveGroupMember),
    (GET, ''/api/v1/tags'', Edge_TagInventory),
    (PUT, ''/api/v1/tags'', Edge_AssignTag),
    (DELETE, ''/api/v1/endpoints/{endpoint_id}/tags/{tag_name}'', Edge_RemoveTag),
    (POST, ''/api/v1/auth/login'', Edge_Login),
    (POST, ''/api/v1/auth/logout'', Edge_Logout),
    (POST, ''/api/v1/auth/bootstrap'', Edge_BootstrapComplete),
    (POST, ''/api/v1/auth/password'', Edge_ChangePassword),
    (GET, ''/api/v1/auth/me'', Edge_Me),
    (GET, ''/api/v1/admin/sessions'', Edge_ListSessions),
    (POST, ''/api/v1/admin/sessions'', Edge_RevokeSession),
    (GET, ''/api/v1/admin/users'', Edge_ListUsers),
    (POST, ''/api/v1/admin/users'', Edge_CreateUser),
    (POST, ''/api/v1/admin/users/{principal_id}/state'', Edge_SetUserState),
    (POST, ''/api/v1/admin/users/{principal_id}/role'', Edge_AssignUserRole),
    (POST, ''/api/v1/admin/users/{principal_id}/password'', Edge_SetUserPassword)]"

definition EDGE_ROUTES :: "(http_method \<times> string \<times> edge_route_kind) list" where
  "EDGE_ROUTES = EDGE_FLEET_ROUTES @ EDGE_OTHER_ROUTES"

definition CENTER_ROUTES :: "(http_method \<times> string \<times> center_route_kind) list" where
  "CENTER_ROUTES = [
    (GET, ''/api/v1/health'', Center_Health),
    (GET, ''/api/v1/about'', Center_About),
    (GET, ''/api/v1/audit'', Center_AuditQuery),
    (GET, ''/api/v1/center/sites'', Center_CenterSites),
    (POST, ''/api/v1/center/bindings'', Center_RegisterCenterSite),
    (POST, ''/api/v1/center/bindings/revoke'', Center_RevokeCenterBinding),
    (GET, ''/api/v1/center/endpoints'', Center_CenterEndpoints),
    (GET, ''/api/v1/center/operations'', Center_CenterOperations),
    (POST, ''/api/v1/center/operations'', Center_SubmitCenterOperation),
    (POST, ''/api/v1/auth/login'', Center_Login),
    (POST, ''/api/v1/auth/logout'', Center_Logout),
    (POST, ''/api/v1/auth/bootstrap'', Center_BootstrapComplete),
    (POST, ''/api/v1/auth/password'', Center_ChangePassword),
    (GET, ''/api/v1/auth/me'', Center_Me),
    (GET, ''/api/v1/admin/sessions'', Center_ListSessions),
    (POST, ''/api/v1/admin/sessions'', Center_RevokeSession),
    (GET, ''/api/v1/admin/users'', Center_ListUsers),
    (POST, ''/api/v1/admin/users'', Center_CreateUser),
    (POST, ''/api/v1/admin/users/{principal_id}/state'', Center_SetUserState),
    (POST, ''/api/v1/admin/users/{principal_id}/role'', Center_AssignUserRole),
    (POST, ''/api/v1/admin/users/{principal_id}/password'', Center_SetUserPassword)]"

text \<open>An instance of a template: each parameter in braces replaced by the next argument.\<close>

function fill :: "string \<Rightarrow> string list \<Rightarrow> string" where
  "fill [] args = []"
| "fill (c # cs) args =
     (if c = CHR ''{''
      then (case args of [] \<Rightarrow> [] | a # _ \<Rightarrow> a) @ fill (tl (dropWhile (\<lambda>c. c \<noteq> CHR ''}'') cs)) (tl args)
      else c # fill cs args)"
  by pat_completeness auto

termination
proof (relation "measure (\<lambda>(s, args). length s)")
  show "((tl (dropWhile (\<lambda>c. c \<noteq> CHR ''}'') cs), tl args), c # cs, args) \<in> measure (\<lambda>(s, args). length s)" for c cs args
    using length_dropWhile_le [of "\<lambda>c. c \<noteq> CHR ''}''" cs] by (simp add: less_Suc_eq_le)
qed simp_all

text \<open>The access every kind of route is meant to have, \<open>expected_edge_access\<close> and \<open>expected_center_access\<close>.\<close>

primrec expected_edge_access :: "edge_route_kind \<Rightarrow> route_access" where
  "expected_edge_access Edge_Health = Public"
| "expected_edge_access Edge_About = Public"
| "expected_edge_access Edge_EndpointInventory = GuardedOnly ROLES_ANY False"
| "expected_edge_access Edge_Overview = GuardedOnly ROLES_ANY False"
| "expected_edge_access Edge_EndpointResources = GuardedOnly ROLES_ANY False"
| "expected_edge_access Edge_ResourceDiagnostics = GuardedOnly ROLES_ANY False"
| "expected_edge_access Edge_EndpointCapabilities = GuardedOnly ROLES_ANY False"
| "expected_edge_access Edge_CredentialInventory = GuardedOnly ADMINISTRATOR_ONLY False"
| "expected_edge_access Edge_CreateCredential = GuardedOnly ADMINISTRATOR_ONLY True"
| "expected_edge_access Edge_BeginEndpointTrust = GuardedOnly ADMINISTRATOR_ONLY True"
| "expected_edge_access Edge_ConfirmEndpointTrust = GuardedOnly ADMINISTRATOR_ONLY True"
| "expected_edge_access Edge_EnrollEndpoint = GuardedOnly ADMINISTRATOR_ONLY True"
| "expected_edge_access Edge_ImportEndpointsCsv = GuardedOnly ADMINISTRATOR_ONLY True"
| "expected_edge_access Edge_RefreshEndpoints = GuardedOnly ADMINISTRATOR_ONLY True"
| "expected_edge_access Edge_AuditQuery = GuardedOnly ADMINISTRATOR_OR_OPERATOR False"
| "expected_edge_access Edge_EventQuery = GuardedOnly ROLES_ANY False"
| "expected_edge_access Edge_TelemetrySeries = GuardedOnly ROLES_ANY False"
| "expected_edge_access Edge_TelemetrySamples = GuardedOnly ROLES_ANY False"
| "expected_edge_access Edge_CreateOperation = GuardedOnly ADMINISTRATOR_OR_OPERATOR True"
| "expected_edge_access Edge_ListOperations = GuardedOnly ROLES_ANY False"
| "expected_edge_access Edge_OperationDetail = GuardedOnly ROLES_ANY False"
| "expected_edge_access Edge_ListBatches = GuardedOnly ROLES_ANY False"
| "expected_edge_access Edge_BatchDetail = GuardedOnly ROLES_ANY False"
| "expected_edge_access Edge_CreateArtifact = GuardedOnly ADMINISTRATOR_OR_OPERATOR True"
| "expected_edge_access Edge_ListArtifacts = GuardedOnly ROLES_ANY False"
| "expected_edge_access Edge_AppendArtifactChunk = GuardedOnly ADMINISTRATOR_OR_OPERATOR True"
| "expected_edge_access Edge_FinalizeArtifact = GuardedOnly ADMINISTRATOR_OR_OPERATOR True"
| "expected_edge_access Edge_ArtifactDetail = GuardedOnly ROLES_ANY False"
| "expected_edge_access Edge_GroupInventory = GuardedOnly ROLES_ANY False"
| "expected_edge_access Edge_CreateGroup = GuardedOnly ADMINISTRATOR_ONLY True"
| "expected_edge_access Edge_GroupDetail = GuardedOnly ROLES_ANY False"
| "expected_edge_access Edge_DeleteGroup = GuardedOnly ADMINISTRATOR_ONLY True"
| "expected_edge_access Edge_AddGroupMember = GuardedOnly ADMINISTRATOR_ONLY True"
| "expected_edge_access Edge_RemoveGroupMember = GuardedOnly ADMINISTRATOR_ONLY True"
| "expected_edge_access Edge_TagInventory = GuardedOnly ROLES_ANY False"
| "expected_edge_access Edge_AssignTag = GuardedOnly ADMINISTRATOR_ONLY True"
| "expected_edge_access Edge_RemoveTag = GuardedOnly ADMINISTRATOR_ONLY True"
| "expected_edge_access Edge_Login = Public"
| "expected_edge_access Edge_Logout = Always ROLES_ANY True"
| "expected_edge_access Edge_BootstrapComplete = Public"
| "expected_edge_access Edge_ChangePassword = Always ROLES_ANY True"
| "expected_edge_access Edge_Me = Public"
| "expected_edge_access Edge_ListSessions = Always ADMINISTRATOR_ONLY False"
| "expected_edge_access Edge_RevokeSession = Always ADMINISTRATOR_ONLY True"
| "expected_edge_access Edge_ListUsers = Always ADMINISTRATOR_ONLY False"
| "expected_edge_access Edge_CreateUser = Always ADMINISTRATOR_ONLY True"
| "expected_edge_access Edge_SetUserState = Always ADMINISTRATOR_ONLY True"
| "expected_edge_access Edge_AssignUserRole = Always ADMINISTRATOR_ONLY True"
| "expected_edge_access Edge_SetUserPassword = Always ADMINISTRATOR_ONLY True"

primrec expected_center_access :: "center_route_kind \<Rightarrow> route_access" where
  "expected_center_access Center_Health = Public"
| "expected_center_access Center_About = Public"
| "expected_center_access Center_AuditQuery = GuardedOnly ADMINISTRATOR_OR_OPERATOR False"
| "expected_center_access Center_CenterSites = GuardedOnly ROLES_ANY False"
| "expected_center_access Center_RegisterCenterSite = GuardedOnly ADMINISTRATOR_ONLY True"
| "expected_center_access Center_RevokeCenterBinding = GuardedOnly ADMINISTRATOR_ONLY True"
| "expected_center_access Center_CenterEndpoints = GuardedOnly ROLES_ANY False"
| "expected_center_access Center_CenterOperations = GuardedOnly ROLES_ANY False"
| "expected_center_access Center_SubmitCenterOperation = GuardedOnly ADMINISTRATOR_OR_OPERATOR True"
| "expected_center_access Center_Login = Public"
| "expected_center_access Center_Logout = Always ROLES_ANY True"
| "expected_center_access Center_BootstrapComplete = Public"
| "expected_center_access Center_ChangePassword = Always ROLES_ANY True"
| "expected_center_access Center_Me = Public"
| "expected_center_access Center_ListSessions = Always ADMINISTRATOR_ONLY False"
| "expected_center_access Center_RevokeSession = Always ADMINISTRATOR_ONLY True"
| "expected_center_access Center_ListUsers = Always ADMINISTRATOR_ONLY False"
| "expected_center_access Center_CreateUser = Always ADMINISTRATOR_ONLY True"
| "expected_center_access Center_SetUserState = Always ADMINISTRATOR_ONLY True"
| "expected_center_access Center_AssignUserRole = Always ADMINISTRATOR_ONLY True"
| "expected_center_access Center_SetUserPassword = Always ADMINISTRATOR_ONLY True"

end
