(* ===== verification/Web_Middleware.thy ===== *)
theory Web_Middleware
  imports Web_Admin Route_Access
begin

text \<open>
  The session middleware of \<open>web/src/auth.rs\<close> and the requests it stands in front of. \<open>resolve_session\<close>
  validates the presented session, \<open>auth_middleware\<close> decides from the route's access whether a session is
  needed and lets the handler run, and \<open>serve\<close> is one request of the sign-in surface.
\<close>

definition is_guarded :: "auth_policy \<Rightarrow> bool \<Rightarrow> bool" where
  "is_guarded policy armed =
     (case policy of Policy_Open \<Rightarrow> False | Policy_Guarded \<Rightarrow> True | Policy_PendingBootstrap \<Rightarrow> armed)"

definition session_context :: "session \<Rightarrow> role_assignment option \<Rightarrow> auth_context" where
  "session_context s assignment =
     \<lparr>ax_actor = Actor_User, ax_principal_id = Some (se_principal_id s), ax_session_id = Some (se_id s),
      ax_role = map_option ra_role assignment, ax_site_id = Option.bind assignment ra_site_id\<rparr>"

definition resolve_session ::
  "web_lib \<Rightarrow> web_env \<Rightarrow> web_request \<Rightarrow> bool \<Rightarrow> ((auth_context \<times> session \<times> ustring) option \<Rightarrow> 'r handler) \<Rightarrow> 'r handler" where
  "resolve_session lib env rq mutation k =
     (case cookie_value rq SESSION_COOKIE_NAME of
        None \<Rightarrow> k None
      | Some cookie \<Rightarrow>
          FindSession (presented_hash lib cookie) (\<lambda>answer. (case found answer of
            None \<Rightarrow> k None
          | Some s \<Rightarrow>
          if \<not> session_is_active (we_resolve_now env) s then k None
          else if mutation \<and> \<not> csrf_matches lib rq (se_csrf_hash s) then k None
          else
          FindPrincipal (ById (se_principal_id s)) (\<lambda>answer. (case found answer of
            None \<Rightarrow> k None
          | Some user \<Rightarrow>
          if pr_state user \<noteq> Enabled then k None
          else
          FindRoleAssignment (se_principal_id s) (\<lambda>answer. (case answer of
            Inl _ \<Rightarrow> k None
          | Inr assignment \<Rightarrow>
              (let resolved = k (Some (session_context s assignment, s, cookie)) in
               if we_resolve_now env - se_last_used_at s \<ge> TOUCH_INTERVAL
               then Write (TouchSession (se_id s) (we_resolve_now env)) (\<lambda>_. resolved)
               else resolved))))))))"

text \<open>The cookie is issued again unless the handler answered one itself.\<close>

definition reissue_cookie :: "web_env \<Rightarrow> web_request \<Rightarrow> session \<Rightarrow> ustring \<Rightarrow> response \<Rightarrow> response" where
  "reissue_cookie env rq s presented r =
     (if rs_set_cookie r = None
      then r\<lparr>rs_set_cookie := Some (session_cookie presented (se_expires_at s) (we_utc_now env) (is_https rq))\<rparr>
      else r)"

definition role_refused :: response where
  "role_refused = json_error 403 ''this role cannot reach the requested surface''"

definition guarded_handler ::
  "web_lib \<Rightarrow> web_env \<Rightarrow> web_request \<Rightarrow> role_mask \<Rightarrow> bool \<Rightarrow> (auth_context \<Rightarrow> response handler) \<Rightarrow> response handler" where
  "guarded_handler lib env rq roles mutation next_handler =
     resolve_session lib env rq mutation (\<lambda>resolved. case resolved of
       None \<Rightarrow> Answer session_required
     | Some (context, s, presented) \<Rightarrow>
         if \<not> mask_allows roles (case ax_role context of None \<Rightarrow> Viewer | Some role \<Rightarrow> role) then Answer role_refused
         else map_handler (reissue_cookie env rq s presented) (next_handler context))"

definition auth_middleware ::
  "web_lib \<Rightarrow> web_config \<Rightarrow> web_env \<Rightarrow> web_request \<Rightarrow> http_method \<Rightarrow> string \<Rightarrow> (auth_context \<Rightarrow> response handler)
     \<Rightarrow> response handler" where
  "auth_middleware lib cfg env rq m path next_handler =
     (let access = route_access m path (scope_of (wc_origin cfg)) in
      Check ReadGate (\<lambda>armed.
        (let guarded = is_guarded (wc_policy cfg) armed;
             pending = (wc_policy cfg = Policy_PendingBootstrap) in
         case access of
           Public \<Rightarrow> next_handler (unauthenticated (wc_actor cfg))
         | Always roles mutation \<Rightarrow> guarded_handler lib env rq roles mutation next_handler
         | GuardedOnly roles mutation \<Rightarrow>
             if guarded \<or> pending then guarded_handler lib env rq roles mutation next_handler
             else next_handler (unauthenticated (wc_actor cfg)))))"

section \<open>Site scopes\<close>

text \<open>Which sites a role may see and dispatch to; \<open>allows_dispatch\<close> is the rule of the application.\<close>

definition view_scope_allows :: "role option \<Rightarrow> instance_id option \<Rightarrow> instance_id \<Rightarrow> bool" where
  "view_scope_allows acting assignment_site site =
     (case acting of
        Some Administrator \<Rightarrow> True
      | _ \<Rightarrow> assignment_site = None \<or> assignment_site = Some site)"

definition allows_dispatch :: "role \<Rightarrow> instance_id option \<Rightarrow> instance_id \<Rightarrow> bool" where
  "allows_dispatch acting assignment_site target_site =
     (case acting of
        Administrator \<Rightarrow> True
      | Operator \<Rightarrow> assignment_site = None \<or> assignment_site = Some target_site
      | Viewer \<Rightarrow> False)"

definition dispatch_scope_allows :: "role option \<Rightarrow> instance_id option \<Rightarrow> instance_id \<Rightarrow> bool" where
  "dispatch_scope_allows acting assignment_site site =
     (case acting of None \<Rightarrow> False | Some acting \<Rightarrow> allows_dispatch acting assignment_site site)"

text \<open>Who may dispatch to a site may see it.\<close>

lemma dispatch_scope_views:
  "dispatch_scope_allows acting assignment_site site \<Longrightarrow> view_scope_allows acting assignment_site site"
  by (auto simp: dispatch_scope_allows_def allows_dispatch_def view_scope_allows_def split: option.splits role.splits)

section \<open>Requests of the sign-in surface\<close>

datatype auth_call =
    LoginCall login_request
  | LogoutCall
  | ClaimCall claim_request
  | ChangePasswordCall change_request
  | MeCall
  | ListSessionsCall
  | RevokeSessionCall session_id
  | ListUsersCall
  | CreateUserCall ustring role
  | SetUserStateCall ustring principal_state
  | AssignUserRoleCall ustring role
  | SetUserPasswordCall ustring ustring

record auth_request =
  rx_env :: web_env
  rx_parts :: web_request
  rx_method :: http_method
  rx_path :: string
  rx_call :: auth_call

fun dispatch_call ::
  "web_lib \<Rightarrow> web_config \<Rightarrow> web_env \<Rightarrow> web_request \<Rightarrow> auth_call \<Rightarrow> auth_context \<Rightarrow> response handler" where
  "dispatch_call lib cfg env rq (LoginCall body) ctx = login lib cfg env rq body"
| "dispatch_call lib cfg env rq LogoutCall ctx = logout cfg env ctx"
| "dispatch_call lib cfg env rq (ClaimCall body) ctx = bootstrap_complete lib cfg env rq body"
| "dispatch_call lib cfg env rq (ChangePasswordCall body) ctx = change_password lib cfg env rq ctx body"
| "dispatch_call lib cfg env rq MeCall ctx = me lib env rq"
| "dispatch_call lib cfg env rq ListSessionsCall ctx = list_sessions_handler ctx"
| "dispatch_call lib cfg env rq (RevokeSessionCall i) ctx = revoke_session_handler cfg env ctx i"
| "dispatch_call lib cfg env rq ListUsersCall ctx = list_users"
| "dispatch_call lib cfg env rq (CreateUserCall name role) ctx = create_user lib cfg env ctx name role"
| "dispatch_call lib cfg env rq (SetUserStateCall i st) ctx = set_user_state lib cfg env rq ctx i st"
| "dispatch_call lib cfg env rq (AssignUserRoleCall i role) ctx = assign_user_role lib cfg env rq ctx i role"
| "dispatch_call lib cfg env rq (SetUserPasswordCall i password) ctx = set_user_password lib cfg env rq ctx i password"

definition serve :: "web_lib \<Rightarrow> web_config \<Rightarrow> auth_request \<Rightarrow> response handler" where
  "serve lib cfg r =
     auth_middleware lib cfg (rx_env r) (rx_parts r) (rx_method r) (rx_path r)
       (dispatch_call lib cfg (rx_env r) (rx_parts r) (rx_call r))"

definition answers :: "'r handler \<Rightarrow> ('r \<Rightarrow> bool) \<Rightarrow> bool" where
  "answers p Q \<longleftrightarrow> (case answer_of p of None \<Rightarrow> False | Some r \<Rightarrow> Q r)"

definition served :: "web_lib \<Rightarrow> web_config \<Rightarrow> auth_request list \<Rightarrow> turn list \<Rightarrow> auth_world \<Rightarrow> response handler list \<times> auth_world" where
  "served lib cfg requests schedule w = interleave schedule (map (serve lib cfg) requests, w)"

end
