(* ===== verification/Identity_Effects.thy ===== *)
theory Identity_Effects
  imports Identity_Repository
begin

text \<open>
  What every write of the identity repositories does to the tables: nothing, or the change named here. The
  invariants of the identity store are proved from these effects and from the tables a write leaves alone.
\<close>

section \<open>Sessions\<close>

lemma create_session_effect:
  "snd (create_session s store) = store
   \<or> snd (create_session s store) = store\<lparr>id_sessions := id_sessions store @ [session_row_of s]\<rparr>
     \<and> \<not> list_ex (\<lambda>r. sr_id r = se_id s \<or> sr_token_hash r = se_token_hash s) (id_sessions store)"
proof (cases "create_session s store" rule: prod.exhaust)
  case (Pair r t)
  from Pair [unfolded create_session_def] show ?thesis
    by (cases rule: transact_cases) (auto simp: Pair insert_session_row_def result_simps call_def)
qed

text \<open>A session is rewritten in place.\<close>

definition session_rewritten :: "session_id \<Rightarrow> (session_row \<Rightarrow> session_row) \<Rightarrow> identity_store \<Rightarrow> identity_store \<Rightarrow> bool" where
  "session_rewritten i f store t \<longleftrightarrow>
     t = store
   \<or> (\<exists>r. List.find (\<lambda>r. sr_id r = i) (id_sessions store) = Some r
        \<and> t = store\<lparr>id_sessions := map (\<lambda>r'. if sr_id r' = i then f r else r') (id_sessions store)\<rparr>)"

lemma read_session_Inr:
  assumes "read_session i store = Inr s"
  obtains r where "List.find (\<lambda>r. sr_id r = i) (id_sessions store) = Some r" "session_row_of s = r" "se_id s = i"
proof -
  from assms obtain r where r: "List.find (\<lambda>r. sr_id r = i) (id_sessions store) = Some r" "map_stored_session r = Inr s"
    by (auto simp: read_session_def result_simps)
  have row: "session_row_of s = r" by (rule map_stored_session_Inr [OF r(2)])
  have "sr_id r = i" using r(1) by (auto simp: find_Some_iff)
  with row have "se_id s = i" by (auto simp: session_row_of_def)
  with r(1) row show ?thesis by (rule that)
qed

lemma touch_session_effect:
  "session_rewritten i (\<lambda>r. r\<lparr>sr_last_used_at := at\<rparr>) store (snd (touch_session i at store))"
proof (cases "touch_session i at store" rule: prod.exhaust)
  case (Pair r t)
  from Pair [unfolded touch_session_def] show ?thesis
  proof (cases rule: transact_cases)
    case (committed a)
    then obtain s s' where s: "read_session i store = Inr s" "session_touch at s = Inr s'" "update_session s' store = Inr (a, t)"
      by (auto simp: result_simps)
    from s(1) obtain r where r: "List.find (\<lambda>r. sr_id r = i) (id_sessions store) = Some r" "session_row_of s = r" "se_id s = i"
      by (rule read_session_Inr)
    with s(2,3) show ?thesis
      by (auto simp: Pair session_rewritten_def update_session_def session_touch_def result_simps session_row_of_def
          split: if_splits)
  qed (simp add: Pair session_rewritten_def)
qed

lemma revoke_session_effect:
  "session_rewritten i (\<lambda>r. r\<lparr>sr_revoked_at := Some at\<rparr>) store (snd (revoke_session i at store))"
proof (cases "revoke_session i at store" rule: prod.exhaust)
  case (Pair r t)
  from Pair [unfolded revoke_session_def] show ?thesis
  proof (cases rule: transact_cases)
    case (committed a)
    then obtain s s' where s: "read_session i store = Inr s" "session_revoke at s = Inr s'" "update_session s' store = Inr (a, t)"
      by (auto simp: result_simps)
    from s(1) obtain r where r: "List.find (\<lambda>r. sr_id r = i) (id_sessions store) = Some r" "session_row_of s = r" "se_id s = i"
      by (rule read_session_Inr)
    with s(2,3) show ?thesis
      by (auto simp: Pair session_rewritten_def update_session_def session_revoke_def result_simps session_row_of_def
          split: if_splits)
  qed (simp add: Pair session_rewritten_def)
qed

lemma revoke_sessions_effect:
  "snd (revoke_sessions_for_principal p at store) = store
   \<or> snd (revoke_sessions_for_principal p at store) = store\<lparr>id_sessions := map (\<lambda>r.
        if sr_principal_id r = p \<and> sr_revoked_at r = None then r\<lparr>sr_revoked_at := Some at\<rparr> else r) (id_sessions store)\<rparr>"
proof (cases "revoke_sessions_for_principal p at store" rule: prod.exhaust)
  case (Pair r t)
  from Pair [unfolded revoke_sessions_for_principal_def] show ?thesis
    by (cases rule: permitted_cases) (auto simp: Pair revoke_sessions_statement_def result_simps)
qed

section \<open>Principals, roles and passwords\<close>

lemma create_principal_effect:
  "snd (create_principal p store) = store
   \<or> snd (create_principal p store) = store\<lparr>id_principals := id_principals store @ [principal_row_of p]\<rparr>
     \<and> \<not> list_ex (\<lambda>r. prr_id r = pr_id p \<or> prr_name r = pr_name p) (id_principals store)"
proof (cases "create_principal p store" rule: prod.exhaust)
  case (Pair r t)
  from Pair [unfolded create_principal_def] show ?thesis
    by (cases rule: transact_cases) (auto simp: Pair insert_principal_def result_simps split: if_splits)
qed

lemma set_principal_state_effect:
  "snd (set_principal_state i st at store) = store
   \<or> snd (set_principal_state i st at store) = store\<lparr>id_principals := map (\<lambda>r.
        if prr_id r = i then r\<lparr>prr_state := principal_state_as_str st, prr_updated_at := at\<rparr> else r) (id_principals store)\<rparr>"
proof (cases "set_principal_state i st at store" rule: prod.exhaust)
  case (Pair r t)
  from Pair [unfolded set_principal_state_def] show ?thesis
    by (cases rule: transact_cases) (auto simp: Pair result_simps)
qed

lemma assign_role_effect: "snd (assign_role a store) = store\<lparr>id_roles := id_roles (snd (assign_role a store))\<rparr>"
proof (cases "assign_role a store" rule: prod.exhaust)
  case (Pair r t)
  from Pair [unfolded assign_role_def] show ?thesis
    by (cases rule: permitted_cases) (auto simp: Pair assign_role_statement_def result_simps split: option.splits)
qed

text \<open>The row a reassignment leaves is the stored one with the columns of the conflict update.\<close>

lemma reassigned_rows:
  assumes "find_role_assignment (ra_principal_id a) store = Inr (Some old)" "fst (assign_role a store) = Inr ()"
  obtains r where "List.find (\<lambda>r. rr_principal_id r = ra_principal_id a) (id_roles store) = Some r"
    "rr_site_id r = ra_site_id old" "role_scope_check (role_as_str (ra_role a)) (ra_site_id old)"
    "snd (assign_role a store) = store\<lparr>id_roles := map (\<lambda>r.
       if rr_principal_id r = ra_principal_id a then role_conflict_update a r else r) (id_roles store)\<rparr>"
proof -
  from assms(1) obtain r where r: "List.find (\<lambda>r. rr_principal_id r = ra_principal_id a) (id_roles store) = Some r"
    and old: "map_stored_assignment r = Inr old"
    by (auto simp: find_role_assignment_def call_def result_simps split: option.splits)
  from old have site: "rr_site_id r = ra_site_id old" by (auto simp: map_stored_assignment_def result_simps)
  from assms(2) obtain t where t: "assign_role a store = (Inr (), t)" by (metis prod.collapse)
  show ?thesis
    using permitted_Inr [OF t [unfolded assign_role_def]] r site
    by (intro that [OF r site]) (auto simp: t assign_role_statement_def result_simps)
qed

lemma find_role_map:
  "(\<And>x. P (f x) = P x) \<Longrightarrow> List.find P (map f xs) = map_option f (List.find P xs)"
  by (induction xs) auto

text \<open>
  C15: A reassignment keeps the site of the assignment it replaces. When a principal already has a role, the
  conflict update writes the new role, assigner and time and leaves the stored site: what is read back afterwards
  is the new assignment with the old site, whatever site it names; so a principal scoped to a site
  cannot become an administrator. The assignments of all other principals are as they were.
\<close>

theorem reassignment_keeps_site_scope:
  assumes "find_role_assignment (ra_principal_id a) store = Inr (Some old)" and "fst (assign_role a store) = Inr ()"
  shows "find_role_assignment (ra_principal_id a) (snd (assign_role a store)) = Inr (Some (a\<lparr>ra_site_id := ra_site_id old\<rparr>))
    \<and> (ra_site_id old = None \<or> ra_role a \<noteq> Administrator)
    \<and> (\<forall>p. p = ra_principal_id a \<or> find_role_assignment p (snd (assign_role a store)) = find_role_assignment p store)"
proof -
  obtain r where r: "List.find (\<lambda>r. rr_principal_id r = ra_principal_id a) (id_roles store) = Some r"
    "rr_site_id r = ra_site_id old" "role_scope_check (role_as_str (ra_role a)) (ra_site_id old)"
    "snd (assign_role a store) = store\<lparr>id_roles := map (\<lambda>r.
       if rr_principal_id r = ra_principal_id a then role_conflict_update a r else r) (id_roles store)\<rparr>"
    using assms by (rule reassigned_rows)
  let ?f = "\<lambda>r. if rr_principal_id r = ra_principal_id a then role_conflict_update a r else r"
  have found: "List.find (\<lambda>r. rr_principal_id r = p) (map ?f (id_roles store))
      = map_option ?f (List.find (\<lambda>r. rr_principal_id r = p) (id_roles store))" for p
    by (rule find_role_map) (simp add: role_conflict_update_def)
  have answers: "\<not> id_fault store CenterQuery"
    using assms(1) by (auto simp: find_role_assignment_def call_def result_simps)
  have same: "rr_principal_id r = ra_principal_id a" using r(1) by (auto simp: find_Some_iff)
  have "find_role_assignment (ra_principal_id a) (snd (assign_role a store)) = Inr (Some (a\<lparr>ra_site_id := ra_site_id old\<rparr>))"
    using r(1,2) answers same
    by (simp add: r(4) find_role_assignment_def call_def found map_stored_assignment_def role_conflict_update_def code_roundtrip)
  moreover have "ra_site_id old = None \<or> ra_role a \<noteq> Administrator"
    using r(3) by (auto simp: role_scope_check_def)
  moreover have "find_role_assignment p (snd (assign_role a store)) = find_role_assignment p store" if "p \<noteq> ra_principal_id a" for p
  proof -
    have "map_option ?f (List.find (\<lambda>r. rr_principal_id r = p) (id_roles store)) = List.find (\<lambda>r. rr_principal_id r = p) (id_roles store)"
      using that by (cases "List.find (\<lambda>r. rr_principal_id r = p) (id_roles store)") (auto dest!: find_Some_in_set)
    then show ?thesis by (simp add: r(4) find_role_assignment_def call_def found)
  qed
  ultimately show ?thesis by blast
qed

definition demo_scoped :: identity_store where
  "demo_scoped =
     \<lparr>id_principals = [], id_roles = [\<lparr>rr_principal_id = 3, rr_role = ''operator'', rr_assigned_by = None, rr_assigned_at = 1,
        rr_site_id = Some 8\<rparr>],
      id_passwords = [], id_totps = [], id_sessions = [], id_bootstraps = [], id_instances = [8],
      id_master_key = replicate 32 1, id_cipher = demo_lib,
      id_tables = \<lparr>lower_char = (\<lambda>c. [c]), lower_str = (\<lambda>s. s)\<rparr>, id_getrandom = (\<lambda>_. None), id_fault = (\<lambda>_. False)\<rparr>"

theorem reassignment_keeps_site_scope_witness:
  "find_role_assignment 3 (snd (assign_role
       \<lparr>ra_principal_id = 3, ra_role = Viewer, ra_assigned_by = None, ra_assigned_at = 5, ra_site_id = None\<rparr> demo_scoped))
   = Inr (Some \<lparr>ra_principal_id = 3, ra_role = Viewer, ra_assigned_by = None, ra_assigned_at = 5, ra_site_id = Some 8\<rparr>)"
proof -
  let ?a = "\<lparr>ra_principal_id = 3, ra_role = Viewer, ra_assigned_by = None, ra_assigned_at = 5, ra_site_id = None\<rparr>"
  have "find_role_assignment (ra_principal_id ?a) demo_scoped
      = Inr (Some \<lparr>ra_principal_id = 3, ra_role = Operator, ra_assigned_by = None, ra_assigned_at = 1, ra_site_id = Some 8\<rparr>)"
    by (simp add: find_role_assignment_def call_def demo_scoped_def map_stored_assignment_def role_from_str_def role_codes_def)
  moreover have "fst (assign_role ?a demo_scoped) = Inr ()"
    by (simp add: assign_role_def permitted_def assign_role_statement_def call_def demo_scoped_def role_scope_check_def
        assigner_stored_def)
  ultimately show ?thesis using reassignment_keeps_site_scope [of ?a demo_scoped] by simp
qed

text \<open>A saved credential takes nobody's password away.\<close>

lemma save_password_effect:
  "snd (save_password_credential c store)
     = store\<lparr>id_passwords := id_passwords (snd (save_password_credential c store))\<rparr>"
  "pwr_principal_id ` set (id_passwords store)
     \<subseteq> pwr_principal_id ` set (id_passwords (snd (save_password_credential c store)))"
proof -
  obtain r t where Pair: "save_password_credential c store = (r, t)" by (cases "save_password_credential c store")
  from Pair [unfolded save_password_credential_def]
  have "t = store\<lparr>id_passwords := id_passwords t\<rparr>
    \<and> pwr_principal_id ` set (id_passwords store) \<subseteq> pwr_principal_id ` set (id_passwords t)"
    by (cases rule: permitted_cases) (auto simp: save_password_statement_def result_simps image_image if_distrib
        simp del: if_image_distrib split: if_splits)
  then show "snd (save_password_credential c store)
      = store\<lparr>id_passwords := id_passwords (snd (save_password_credential c store))\<rparr>"
    "pwr_principal_id ` set (id_passwords store)
      \<subseteq> pwr_principal_id ` set (id_passwords (snd (save_password_credential c store)))"
    by (simp_all add: Pair)
qed

section \<open>Codes\<close>

lemma record_totp_effect:
  "snd (record_totp_step i step store) = store
   \<or> unat step < 2 ^ 63
     \<and> snd (record_totp_step i step store) = store\<lparr>id_totps := map (\<lambda>r.
          if step_guard i (int (unat step)) r then r\<lparr>tor_last_used_step := Some (int (unat step))\<rparr> else r) (id_totps store)\<rparr>"
proof (cases "record_totp_step i step store" rule: prod.exhaust)
  case (Pair r t)
  from Pair [unfolded record_totp_step_def] show ?thesis
    by (cases rule: permitted_cases) (auto simp: Pair record_totp_statement_def result_simps step_to_db_def split: if_splits)
qed

lemma record_totp_True:
  assumes "fst (record_totp_step i step store) = Inr True"
  shows "length (filter (step_guard i (int (unat step))) (id_totps store)) = 1" "unat step < 2 ^ 63"
    "snd (record_totp_step i step store) = store\<lparr>id_totps := map (\<lambda>r.
       if step_guard i (int (unat step)) r then r\<lparr>tor_last_used_step := Some (int (unat step))\<rparr> else r) (id_totps store)\<rparr>"
proof -
  obtain t where t: "record_totp_step i step store = (Inr True, t)" using assms by (cases "record_totp_step i step store") simp
  from permitted_Inr [OF t [unfolded record_totp_step_def]]
  show "length (filter (step_guard i (int (unat step))) (id_totps store)) = 1" "unat step < 2 ^ 63"
    "snd (record_totp_step i step store) = store\<lparr>id_totps := map (\<lambda>r.
       if step_guard i (int (unat step)) r then r\<lparr>tor_last_used_step := Some (int (unat step))\<rparr> else r) (id_totps store)\<rparr>"
    by (auto simp: t record_totp_statement_def result_simps step_to_db_def split: if_splits)
qed

text \<open>A code is consumed once, for a principal without a password, with everything the claim creates.\<close>

lemma consume_bootstrap_code_cases:
  assumes "consume_bootstrap_code i p c a s at store = (r, t)"
  obtains (failed) e where "r = Inl e" "t = store"
  | (consumed) model totps where "r = Inr ()"
      "List.find (\<lambda>r. bsr_id r = i) (id_bootstraps store) = Some model" "bsr_used_at model = None"
      "pc_principal_id c \<notin> set (map pwr_principal_id (id_passwords store))"
      "\<not> list_ex (\<lambda>r. sr_id r = se_id s \<or> sr_token_hash r = se_token_hash s) (id_sessions store)"
      "(a = None \<and> totps = [])
       \<or> (\<exists>e secret. a = Some e \<and> totps = [totp_row_of secret e] \<and> ta_id e \<notin> set (map tor_id (id_totps store)))"
      "t = store\<lparr>id_bootstraps := map (\<lambda>r. if bsr_id r = i then r\<lparr>bsr_used_at := Some at, bsr_used_by := Some p\<rparr> else r)
             (id_bootstraps store),
           id_passwords := id_passwords store @ [password_row_of c], id_totps := id_totps store @ totps,
           id_sessions := id_sessions store @ [session_row_of s]\<rparr>"
  using assms unfolding consume_bootstrap_code_def
proof (cases rule: transact_cases)
  case (failed e)
  then show ?thesis by (rule that(1))
next
  case (committed x)
  then obtain model t1 t2 t3 t4 where m: "List.find (\<lambda>r. bsr_id r = i) (id_bootstraps store) = Some model"
      "bsr_used_at model = None"
    and t1: "mark_code_used i p at store = Inr t1" and t2: "insert_password_credential c t1 = Inr t2"
    and t3: "insert_claim_authenticator a t2 = Inr t3"
    and t4: "insert_session_row BootstrapDatabase BootstrapDatabase s t3 = Inr t" "x = ()"
    by (auto simp: result_simps split: if_splits)
  from t1 have e1: "t1 = store\<lparr>id_bootstraps := map (\<lambda>r. if bsr_id r = i
      then r\<lparr>bsr_used_at := Some at, bsr_used_by := Some p\<rparr> else r) (id_bootstraps store)\<rparr>"
    by (auto simp: mark_code_used_def result_simps)
  from t2 have e2: "t2 = t1\<lparr>id_passwords := id_passwords t1 @ [password_row_of c]\<rparr>"
      "pc_principal_id c \<notin> set (map pwr_principal_id (id_passwords t1))"
    by (auto simp: insert_password_credential_def result_simps list_ex_iff)
  obtain totps where e3: "t3 = t2\<lparr>id_totps := id_totps t2 @ totps\<rparr>"
      "(a = None \<and> totps = [])
       \<or> (\<exists>e secret. a = Some e \<and> totps = [totp_row_of secret e] \<and> ta_id e \<notin> set (map tor_id (id_totps t2)))"
  proof (cases a)
    case None
    then show ?thesis using t3 that [of "[]"] by (simp add: insert_claim_authenticator_def)
  next
    case (Some e)
    then obtain secret where "insert_totp_row BootstrapDatabase secret e t2 = Inr t3"
      using t3 by (auto simp: insert_claim_authenticator_def result_simps)
    then have "t3 = t2\<lparr>id_totps := id_totps t2 @ [totp_row_of secret e]\<rparr>" "ta_id e \<notin> set (map tor_id (id_totps t2))"
      by (auto simp: insert_totp_row_def result_simps list_ex_iff)
    with Some show ?thesis using that [of "[totp_row_of secret e]"] by blast
  qed
  from t4 have e4: "t = t3\<lparr>id_sessions := id_sessions t3 @ [session_row_of s]\<rparr>"
      "\<not> list_ex (\<lambda>r. sr_id r = se_id s \<or> sr_token_hash r = se_token_hash s) (id_sessions t3)"
    by (auto simp: insert_session_row_def result_simps)
  show ?thesis
    by (rule that(2) [of model totps]) (use committed(1) t4(2) m e1 e2 e3 e4 in \<open>simp_all\<close>)
qed

end
