(* ===== verification/Auth_Laws.thy ===== *)
theory Auth_Laws
  imports Web_Middleware Identity_Effects
begin

text \<open>
  The laws the properties of the sign-in surface rest on. \<open>runs\<close> is the calculus of handlers: every answer
  and every call reached satisfies a guard, whatever other requests do in between, as long as the turns
  taken satisfy a condition. The locale \<open>store_invariant\<close> is the contract of an invariant of the identity
  store: every call of the boundary keeps it; the locale \<open>once_only\<close> adds a kind of call that succeeds at
  most once.
\<close>

section \<open>The calculus of handlers\<close>

inductive runs ::
  "('r handler \<Rightarrow> derivation \<Rightarrow> auth_world \<Rightarrow> bool) \<Rightarrow> ('r handler \<Rightarrow> bool) \<Rightarrow> 'r handler \<Rightarrow> bool" for A G where
  answer: "answer_of p = Some r \<Longrightarrow> G p \<Longrightarrow> runs A G p"
| call: "answer_of p = None \<Longrightarrow> G p \<Longrightarrow> (\<And>d w. A p d w \<Longrightarrow> runs A G (fst (perform d p w))) \<Longrightarrow> runs A G p"

lemma answer_of_simps [simp]:
  "answer_of (Answer r) = Some r" "answer_of (FindSession h k1) = None" "answer_of (RevokeSession i at k2) = None"
  "answer_of (RevokeSessionsOf p at k3) = None" "answer_of (ListSessions p k4) = None" "answer_of (FindPrincipal key k5) = None"
  "answer_of (ListPrincipals k6) = None" "answer_of (FindRoleAssignment p k7) = None" "answer_of (ListRoleAssignments k8) = None"
  "answer_of (FindPassword p k9) = None" "answer_of (ListAuthenticators p k10) = None" "answer_of (RecordTotpStep i s k11) = None"
  "answer_of (FindBootstrapCode h k12) = None" "answer_of (HasUnconsumedCode k13) = None" "answer_of (Write c k14) = None"
  "answer_of (HashPassword g pw k15) = None" "answer_of (ReserveBudget n u ip t k16) = None" "answer_of (Check ch k17) = None"
  "answer_of (Local l k18) = None"
  by (simp_all add: answer_of_def)

lemma answer_of_SomeD: "answer_of p = Some r \<Longrightarrow> p = Answer r"
  by (cases p) (simp_all add: answer_of_def)

lemma runs_guard: "runs A G p \<Longrightarrow> G p"
  by (cases rule: runs.cases) auto

lemma runs_step: "runs A G p \<Longrightarrow> A p d w \<Longrightarrow> runs A G (fst (perform d p w))"
proof (induction rule: runs.cases)
  case (answer p' r)
  then have "fst (perform d p w) = p" by (auto dest!: answer_of_SomeD)
  with answer show ?case by (auto intro: runs.answer)
qed simp

text \<open>Rules per call that leave the answer of the call open.\<close>

lemma runs_Answer: "G (Answer r) \<Longrightarrow> runs A G (Answer r)"
  by (rule runs.answer) simp_all

lemma runs_any:
  assumes "answer_of p = None" "G p" "\<And>d w. runs A G (fst (perform d p w))"
  shows "runs A G p"
  by (rule runs.call) (rule assms)+

lemma runs_open:
  "G (FindSession h k1) \<Longrightarrow> (\<And>x. runs A G (k1 x)) \<Longrightarrow> runs A G (FindSession h k1)"
  "G (RevokeSession i at k2) \<Longrightarrow> (\<And>x. runs A G (k2 x)) \<Longrightarrow> runs A G (RevokeSession i at k2)"
  "G (RevokeSessionsOf p at k3) \<Longrightarrow> (\<And>x. runs A G (k3 x)) \<Longrightarrow> runs A G (RevokeSessionsOf p at k3)"
  "G (ListSessions p k4) \<Longrightarrow> (\<And>x. runs A G (k4 x)) \<Longrightarrow> runs A G (ListSessions p k4)"
  "G (FindPrincipal key k5) \<Longrightarrow> (\<And>x. runs A G (k5 x)) \<Longrightarrow> runs A G (FindPrincipal key k5)"
  "G (ListPrincipals k6) \<Longrightarrow> (\<And>x. runs A G (k6 x)) \<Longrightarrow> runs A G (ListPrincipals k6)"
  "G (FindRoleAssignment p k7) \<Longrightarrow> (\<And>x. runs A G (k7 x)) \<Longrightarrow> runs A G (FindRoleAssignment p k7)"
  "G (ListRoleAssignments k8) \<Longrightarrow> (\<And>x. runs A G (k8 x)) \<Longrightarrow> runs A G (ListRoleAssignments k8)"
  "G (FindPassword p k9) \<Longrightarrow> (\<And>x. runs A G (k9 x)) \<Longrightarrow> runs A G (FindPassword p k9)"
  "G (ListAuthenticators p k10) \<Longrightarrow> (\<And>x. runs A G (k10 x)) \<Longrightarrow> runs A G (ListAuthenticators p k10)"
  "G (RecordTotpStep i s k11) \<Longrightarrow> (\<And>x. runs A G (k11 x)) \<Longrightarrow> runs A G (RecordTotpStep i s k11)"
  "G (FindBootstrapCode h k12) \<Longrightarrow> (\<And>x. runs A G (k12 x)) \<Longrightarrow> runs A G (FindBootstrapCode h k12)"
  "G (HasUnconsumedCode k13) \<Longrightarrow> (\<And>x. runs A G (k13 x)) \<Longrightarrow> runs A G (HasUnconsumedCode k13)"
  "G (Write c k14) \<Longrightarrow> (\<And>x. runs A G (k14 x)) \<Longrightarrow> runs A G (Write c k14)"
  "G (HashPassword g pw k15) \<Longrightarrow> (\<And>x. runs A G (k15 x)) \<Longrightarrow> runs A G (HashPassword g pw k15)"
  "G (ReserveBudget n u ip t k16) \<Longrightarrow> (\<And>x. runs A G (k16 x)) \<Longrightarrow> runs A G (ReserveBudget n u ip t k16)"
  "G (Check ch k17) \<Longrightarrow> (\<And>x. runs A G (k17 x)) \<Longrightarrow> runs A G (Check ch k17)"
  "G (Local l k18) \<Longrightarrow> runs A G k18 \<Longrightarrow> runs A G (Local l k18)"
  by (rule runs_any, simp only: answer_of_simps, assumption, simp only: perform.simps fst_conv fst_apfst)+

lemma runs_record_outcome:
  assumes "runs A G k" "\<And>event p. G (Local (AppendFact event) p)"
  shows "runs A G (record_outcome cfg ids now actor who permission action succeeded failure target k)"
  using assms unfolding record_outcome_def
  by (auto intro!: runs_open runs_Answer split: prod.split sum.split option.split)

text \<open>A mapped handler makes the same calls.\<close>

lemma perform_map: "perform d (map_handler f p) w = apfst (map_handler f) (perform d p w)"
  by (cases p) (simp_all add: apfst_compose comp_def)

lemma answer_of_map [simp]: "answer_of (map_handler f p) = map_option f (answer_of p)"
  by (cases p) simp_all

section \<open>A handler alone\<close>

lemma found_simps [simp]: "found (Inr a) = a" "found (Inl e) = None" "found r = Some x \<longleftrightarrow> r = Inr (Some x)"
  by (cases r, auto simp: found_def)+

lemma run_alone_call: "answer_of p = None \<Longrightarrow> run_alone d p w = run_alone d (fst (perform d p w)) (snd (perform d p w))"
  by (subst run_alone.simps) simp

lemma run_alone_Answer [simp]: "run_alone d (Answer r) w = (r, w)"
  by (subst run_alone.simps) simp

section \<open>Schedules\<close>

lemma interleave_append: "interleave (ts @ us) s = interleave us (interleave ts s)"
  by (induction ts arbitrary: s) simp_all

lemma take_turn_simps:
  "tn_request t < length pool \<Longrightarrow> take_turn t (pool, w) =
     (let q = perform (tn_derivation t) (pool ! tn_request t) (set_fault (tn_fault t) w)
      in (pool[tn_request t := fst q], snd q))"
  "\<not> tn_request t < length pool \<Longrightarrow> take_turn t (pool, w) = (pool, w)"
  by (simp_all add: take_turn_def split_def Let_def)

lemma length_take_turn [simp]: "length (fst (take_turn t s)) = length (fst s)"
  by (simp add: take_turn_def split: prod.split)

lemma length_interleave [simp]: "length (fst (interleave ts s)) = length (fst s)"
  by (induction ts arbitrary: s) simp_all

text \<open>The turns of one request satisfy a condition.\<close>

fun followed ::
  "('r handler \<Rightarrow> derivation \<Rightarrow> auth_world \<Rightarrow> bool) \<Rightarrow> nat \<Rightarrow> turn list \<Rightarrow> 'r handler list \<times> auth_world \<Rightarrow> bool" where
  "followed A i [] s = True"
| "followed A i (t # ts) s =
     ((tn_request t = i \<longrightarrow> A (fst s ! i) (tn_derivation t) (set_fault (tn_fault t) (snd s)))
      \<and> followed A i ts (take_turn t s))"

lemma runs_take_turn:
  assumes "runs A G (fst s ! i)" "i < length (fst s)"
    and "tn_request t = i \<Longrightarrow> A (fst s ! i) (tn_derivation t) (set_fault (tn_fault t) (snd s))"
  shows "runs A G (fst (take_turn t s) ! i)"
proof (cases "tn_request t = i")
  case True
  have "runs A G (fst (perform (tn_derivation t) (fst s ! i) (set_fault (tn_fault t) (snd s))))"
    using assms(1) assms(3) [OF True] by (rule runs_step)
  with True assms(2) show ?thesis by (cases s) (simp add: take_turn_simps Let_def)
next
  case False
  with assms(1) show ?thesis
    by (cases s; cases "tn_request t < length (fst s)") (simp_all add: take_turn_simps Let_def)
qed

lemma runs_interleave:
  assumes "followed A i ts s" "runs A G (fst s ! i)" "i < length (fst s)"
  shows "runs A G (fst (interleave ts s) ! i)"
  using assms by (induction ts arbitrary: s) (simp_all add: runs_take_turn)

section \<open>Invariants of the identity store\<close>

text \<open>A handler makes only admissible writes.\<close>

definition admissible :: "(store_write \<Rightarrow> bool) \<Rightarrow> 'r handler \<Rightarrow> bool" where
  "admissible ok p \<longleftrightarrow> (case p of Write c k \<Rightarrow> ok c | _ \<Rightarrow> True)"

lemma admissible_simps [simp]:
  "admissible ok (Answer r)" "admissible ok (FindSession h k1)" "admissible ok (RevokeSession i at k2)"
  "admissible ok (RevokeSessionsOf p at k3)" "admissible ok (ListSessions p k4)" "admissible ok (FindPrincipal key k5)"
  "admissible ok (ListPrincipals k6)" "admissible ok (FindRoleAssignment p k7)" "admissible ok (ListRoleAssignments k8)"
  "admissible ok (FindPassword p k9)" "admissible ok (ListAuthenticators p k10)" "admissible ok (RecordTotpStep a s k11)"
  "admissible ok (FindBootstrapCode h k12)" "admissible ok (HasUnconsumedCode k13)" "admissible ok (Write c k14) \<longleftrightarrow> ok c"
  "admissible ok (HashPassword g pw k15)" "admissible ok (ReserveBudget n u ip t k16)" "admissible ok (Check ch k17)"
  "admissible ok (Local l k18)"
  by (simp_all add: admissible_def)

lemma admissible_map [simp]: "admissible ok (map_handler f p) = admissible ok p"
  by (cases p) simp_all

definition pool_ok :: "(store_write \<Rightarrow> bool) \<Rightarrow> 'r handler list \<times> auth_world \<Rightarrow> bool" where
  "pool_ok ok s \<longleftrightarrow> (\<forall>i < length (fst s). runs (\<lambda>_ _ _. True) (admissible ok) (fst s ! i))"

lemma pool_ok_take_turn: "pool_ok ok s \<Longrightarrow> pool_ok ok (take_turn t s)"
  by (simp add: pool_ok_def runs_take_turn)

lemma pool_ok_admissible: "pool_ok ok s \<Longrightarrow> i < length (fst s) \<Longrightarrow> admissible ok (fst s ! i)"
  unfolding pool_ok_def by (blast dest: runs_guard)

lemma aw_identity_set_fault [simp]: "aw_identity (set_fault f w) = (aw_identity w)\<lparr>id_fault := f\<rparr>"
  by (simp add: set_fault_def)

lemma on_identity_store [simp]: "aw_identity (snd (on_identity f wrap w)) = snd (f (aw_identity w))"
  by (simp add: on_identity_def split_def Let_def)

lemma fst_on_identity [simp]: "fst (on_identity f wrap w) = map_err wrap (fst (f (aw_identity w)))"
  by (simp add: on_identity_def split_def Let_def)

lemma on_limiter_store [simp]: "aw_identity (snd (on_limiter n f w)) = aw_identity w"
  by (simp add: on_limiter_def split_def Let_def)

lemma local_service_store [simp]: "aw_identity (local_service c w) = aw_identity w"
  by (cases c) simp_all

lemma check_service_store [simp]: "aw_identity (snd (check_service d c w)) = aw_identity w"
  by (cases c) simp_all

lemma revoke_session_service_store [simp]:
  "aw_identity (snd (revoke_session_service i at w)) = snd (revoke_session i at (aw_identity w))"
  by (simp add: revoke_session_service_def split_def Let_def)

locale store_invariant =
  fixes I :: "identity_store \<Rightarrow> bool" and ok :: "store_write \<Rightarrow> bool"
  assumes write_step: "ok c \<Longrightarrow> I (aw_identity w) \<Longrightarrow> I (aw_identity (snd (write_service c w)))"
    and revoke_step: "I store \<Longrightarrow> I (snd (revoke_session i at store))"
    and revoke_all_step: "I store \<Longrightarrow> I (snd (revoke_sessions_for_principal p at store))"
    and totp_step: "I store \<Longrightarrow> I (snd (record_totp_step a step store))"
    and fault_change: "I store \<Longrightarrow> I (store\<lparr>id_fault := f\<rparr>)"
begin

lemma perform_keeps:
  assumes "admissible ok p" "I (aw_identity w)"
  shows "I (aw_identity (snd (perform d p w)))"
  using assms by (cases p) (simp_all add: admissible_def write_step revoke_step revoke_all_step totp_step)

lemma take_turn_keeps:
  assumes "pool_ok ok s" "I (aw_identity (snd s))"
  shows "I (aw_identity (snd (take_turn t s)))"
proof (cases "tn_request t < length (fst s)")
  case True
  have "admissible ok (fst s ! tn_request t)" using assms(1) True by (rule pool_ok_admissible)
  with assms True show ?thesis
    by (cases s) (simp add: take_turn_simps Let_def perform_keeps fault_change)
next
  case False
  with assms show ?thesis by (cases s) (simp add: take_turn_simps)
qed

lemma followed_keeps:
  assumes "pool_ok ok s" "I (aw_identity (snd s))"
  shows "followed (\<lambda>p d w. I (aw_identity w)) i ts s"
  using assms by (induction ts arbitrary: s) (simp_all add: fault_change take_turn_keeps pool_ok_take_turn)

lemma interleave_keeps:
  assumes "pool_ok ok s" "I (aw_identity (snd s))"
  shows "I (aw_identity (snd (interleave ts s)))"
  using assms by (induction ts arbitrary: s) (simp_all add: take_turn_keeps pool_ok_take_turn)

end

lemma followed_conj:
  "followed (\<lambda>p d w. A p d w \<and> B p d w) i ts s \<longleftrightarrow> followed A i ts s \<and> followed B i ts s"
  by (induction ts arbitrary: s) auto

text \<open>A kind of call that settles something when it hits.\<close>

locale settling = store_invariant +
  fixes hits :: "'r handler \<Rightarrow> derivation \<Rightarrow> auth_world \<Rightarrow> bool" and settled :: "identity_store \<Rightarrow> bool"
  assumes hit_settles: "admissible ok p \<Longrightarrow> I (aw_identity w) \<Longrightarrow> hits p d w \<Longrightarrow> settled (aw_identity (snd (perform d p w)))"
    and stays_settled: "admissible ok (p :: 'r handler) \<Longrightarrow> I (aw_identity w) \<Longrightarrow> settled (aw_identity w) \<Longrightarrow>
      settled (aw_identity (snd (perform d p w)))"
    and settled_fault: "settled (store\<lparr>id_fault := f\<rparr>) \<longleftrightarrow> settled store"
begin

lemma take_turn_settled:
  fixes s :: "'r handler list \<times> auth_world"
  assumes "pool_ok ok s" "I (aw_identity (snd s))" "settled (aw_identity (snd s))"
  shows "settled (aw_identity (snd (take_turn t s)))"
proof (cases "tn_request t < length (fst s)")
  case True
  have "admissible ok (fst s ! tn_request t)" using assms(1) True by (rule pool_ok_admissible)
  then have "settled (aw_identity (snd (perform (tn_derivation t) (fst s ! tn_request t) (set_fault (tn_fault t) (snd s)))))"
    by (rule stays_settled) (simp_all add: assms fault_change settled_fault)
  with True show ?thesis by (cases s) (simp add: take_turn_simps Let_def)
next
  case False
  with assms show ?thesis by (cases s) (simp add: take_turn_simps)
qed

lemma interleave_settled:
  fixes s :: "'r handler list \<times> auth_world"
  assumes "pool_ok ok s" "I (aw_identity (snd s))" "settled (aw_identity (snd s))"
  shows "settled (aw_identity (snd (interleave ts s)))"
  using assms by (induction ts arbitrary: s) (simp_all add: take_turn_settled take_turn_keeps pool_ok_take_turn)

lemma hit_turn_settles:
  fixes s :: "'r handler list \<times> auth_world"
  assumes "pool_ok ok s" "I (aw_identity (snd s))" "tn_request t < length (fst s)"
    and "hits (fst s ! tn_request t) (tn_derivation t) (set_fault (tn_fault t) (snd s))"
  shows "settled (aw_identity (snd (take_turn t s)))"
proof -
  have "settled (aw_identity (snd (perform (tn_derivation t) (fst s ! tn_request t) (set_fault (tn_fault t) (snd s)))))"
    by (rule hit_settles [OF pool_ok_admissible [OF assms(1,3)] _ assms(4)]) (simp add: assms(2) fault_change)
  with assms(3) show ?thesis by (cases s) (simp add: take_turn_simps Let_def)
qed

text \<open>A request that hit leaves it settled.\<close>

lemma hit_settles_for_good:
  fixes s :: "'r handler list \<times> auth_world"
  assumes "pool_ok ok s" "I (aw_identity (snd s))" "i < length (fst s)" "\<not> followed (\<lambda>p d w. \<not> hits p d w) i ts s"
  shows "settled (aw_identity (snd (interleave ts s)))"
  using assms
proof (induction ts arbitrary: s)
  case (Cons t ts)
  note prems = pool_ok_take_turn [OF Cons.prems(1)] take_turn_keeps [OF Cons.prems(1,2)]
  show ?case
  proof (cases "tn_request t = i \<and> hits (fst s ! i) (tn_derivation t) (set_fault (tn_fault t) (snd s))")
    case True
    then have "settled (aw_identity (snd (take_turn t s)))" using hit_turn_settles [OF Cons.prems(1,2)] Cons.prems(3) by blast
    with prems show ?thesis by (simp add: interleave_settled)
  next
    case False
    with Cons.prems(4) have "\<not> followed (\<lambda>p d w. \<not> hits p d w) i ts (take_turn t s)" by auto
    with Cons.IH [OF prems] Cons.prems(3) show ?thesis by simp
  qed
qed simp

end

text \<open>One that hits only while it is unsettled, so at most once.\<close>

locale once_only = settling I ok hits settled
  for I ok and hits :: "'r handler \<Rightarrow> derivation \<Rightarrow> auth_world \<Rightarrow> bool" and settled +
  assumes hits_unsettled: "admissible ok p \<Longrightarrow> I (aw_identity w) \<Longrightarrow> hits p d w \<Longrightarrow> \<not> settled (aw_identity w)"
begin

lemma settled_never_hits:
  fixes s :: "'r handler list \<times> auth_world"
  assumes "pool_ok ok s" "I (aw_identity (snd s))" "settled (aw_identity (snd s))" "i < length (fst s)"
  shows "followed (\<lambda>p d w. \<not> hits p d w) i ts s"
  using assms
proof (induction ts arbitrary: s)
  case (Cons t ts)
  have "\<not> hits (fst s ! i) (tn_derivation t) (set_fault (tn_fault t) (snd s))"
    using hits_unsettled [OF pool_ok_admissible [OF Cons.prems(1,4)], of "set_fault (tn_fault t) (snd s)"] Cons.prems(2,3)
    by (auto simp: fault_change settled_fault)
  with Cons show ?case by (simp add: take_turn_settled take_turn_keeps pool_ok_take_turn)
qed simp

lemma at_most_one_request_hits:
  fixes s :: "'r handler list \<times> auth_world"
  assumes "pool_ok ok s" "I (aw_identity (snd s))" "i < length (fst s)" "j < length (fst s)" "i \<noteq> j"
  shows "followed (\<lambda>p d w. \<not> hits p d w) i ts s \<or> followed (\<lambda>p d w. \<not> hits p d w) j ts s"
  using assms
proof (induction ts arbitrary: s)
  case (Cons t ts)
  let ?s = "take_turn t s" and ?w = "set_fault (tn_fault t) (snd s)"
  note prems = pool_ok_take_turn [OF Cons.prems(1)] take_turn_keeps [OF Cons.prems(1,2)]
  have later: "followed (\<lambda>p d w. \<not> hits p d w) k ts ?s"
    if k: "k < length (fst s)" and r: "tn_request t < length (fst s)" "hits (fst s ! tn_request t) (tn_derivation t) ?w" for k
    using settled_never_hits [OF prems hit_turn_settles [OF Cons.prems(1,2) r]] k by simp
  show ?case using Cons.IH [OF prems] Cons.prems(3-5) later by auto
qed simp

end

section \<open>What the surface writes\<close>

text \<open>A claim stores the password and the authenticator of the principal it consumes the code for.\<close>

definition consistent_write :: "store_write \<Rightarrow> bool" where
  "consistent_write c \<longleftrightarrow>
     (case c of
        ConsumeBootstrapCode code p credential enrolled s at \<Rightarrow>
          pc_principal_id credential = p \<and> (\<forall>e. enrolled = Some e \<longrightarrow> ta_principal_id e = p)
      | _ \<Rightarrow> True)"

lemma consistent_write_simps [simp]:
  "consistent_write (CreateSession s)" "consistent_write (TouchSession i at)" "consistent_write (CreatePrincipal u)"
  "consistent_write (SetPrincipalState p st at)" "consistent_write (AssignRole a)" "consistent_write (SavePassword c)"
  "consistent_write (ConsumeBootstrapCode code p c enrolled s at)
     \<longleftrightarrow> pc_principal_id c = p \<and> (\<forall>e. enrolled = Some e \<longrightarrow> ta_principal_id e = p)"
  by (simp_all add: consistent_write_def)

abbreviation safe :: "'r handler \<Rightarrow> bool" where
  "safe \<equiv> runs (\<lambda>_ _ _. True) (admissible consistent_write)"

lemmas safe_intros = runs_open [where G = "admissible consistent_write", simplified]
  runs_Answer [where G = "admissible consistent_write", simplified]

lemma safe_record_outcome: "safe k \<Longrightarrow> safe (record_outcome cfg ids now actor who permission action succeeded failure target k)"
  by (rule runs_record_outcome) simp_all

lemma safe_records:
  "safe k \<Longrightarrow> safe (record_management_event cfg ids now actor who permission action succeeded k)"
  "safe k \<Longrightarrow> safe (record_login_failure cfg env p k)" "safe k \<Longrightarrow> safe (record_login_success cfg env q k)"
  by (simp_all add: record_management_event_def record_login_failure_def record_login_success_def safe_record_outcome)

lemma safe_dummies:
  "safe k \<Longrightarrow> safe (dummy_password_verification password k)" "safe k \<Longrightarrow> safe (dummy_admin_derivation env password k)"
  by (auto simp: dummy_password_verification_def dummy_admin_derivation_def intro!: safe_intros split: sum.split)

lemmas safe_rules = safe_intros safe_record_outcome safe_records safe_dummies

lemma safe_login: "safe (login lib cfg env rq body)"
  unfolding login_def login_failed_def second_factor_def login_verified_def Let_def
  by (auto intro!: safe_rules split: sum.split option.split)

lemma safe_bootstrap_complete: "safe (bootstrap_complete lib cfg env rq body)"
proof -
  have enrolled: "ta_principal_id e = p" if "claim_enrollment lib env body p = Inr (Some e)" for e p
    using that by (auto simp: claim_enrollment_def totp_activate_def totp_new_def result_simps split: option.splits if_splits)
  have credential: "pc_principal_id c = p" if "password_credential_try_from_parts p h at = Inr c" for c p h at
    using that by (auto simp: password_credential_try_from_parts_def split: if_splits)
  have settled: "safe (claim_settled lib cfg env rq r p enrolled tokens s)" for r p enrolled tokens s
    unfolding claim_settled_def Let_def by (auto intro!: safe_rules)
  have consumed: "safe (claim_consumed lib cfg env rq r p code enrolled h)"
    if "\<And>e. enrolled = Some e \<Longrightarrow> ta_principal_id e = p" for r p code enrolled h
    unfolding claim_consumed_def Let_def using that
    by (auto intro!: safe_rules settled dest: credential split: sum.split)
  show ?thesis
    unfolding bootstrap_complete_def claim_failed_def
    by (auto intro!: safe_rules consumed enrolled split: sum.split option.split)
qed

lemma safe_account:
  "safe (logout cfg env ctx)" "safe (change_password lib cfg env rq ctx change)" "safe (me lib env rq)"
  unfolding logout_def change_password_def change_failed_def replace_password_def me_def Let_def
  by (auto intro!: safe_rules split: sum.split option.split)

lemma safe_sessions: "safe (list_sessions_handler ctx)" "safe (revoke_session_handler cfg env ctx i)"
proof -
  have "safe (collect_sessions ctx users acc)" for users acc
    by (induction users arbitrary: acc) (auto intro!: safe_rules split: sum.split)
  then show "safe (list_sessions_handler ctx)"
    unfolding list_sessions_handler_def by (auto intro!: safe_rules split: sum.split)
  show "safe (revoke_session_handler cfg env ctx i)"
    unfolding revoke_session_handler_def by (auto intro!: safe_rules split: sum.split session_revocation.split)
qed

lemma safe_administer_user:
  assumes "\<And>p. safe (k p)" shows "safe (administer_user lib env rq ctx path_id refusal dummy k)"
  unfolding administer_user_def by (auto intro!: safe_rules assms split: option.split)

lemma safe_users:
  "safe list_users" "safe (create_user lib cfg env ctx name role)" "safe (set_user_state lib cfg env rq ctx path_id st)"
  "safe (assign_user_role lib cfg env rq ctx path_id role)" "safe (set_user_password lib cfg env rq ctx path_id password)"
  unfolding list_users_def create_user_def set_user_state_def assign_user_role_def set_user_password_def
    record_user_management_def replace_password_def Let_def
  by (auto intro!: safe_rules safe_administer_user split: sum.split option.split)

lemma safe_dispatch: "safe (dispatch_call lib cfg env rq c ctx)"
  by (cases c) (simp_all add: safe_login safe_bootstrap_complete safe_account safe_sessions safe_users)

lemma safe_map:
  assumes "safe p" shows "safe (map_handler f p)"
  using assms
proof (induction rule: runs.induct)
  case (answer p r)
  then show ?case by (auto intro!: safe_rules dest!: answer_of_SomeD)
next
  case (call p)
  show ?case by (rule runs.call) (simp_all add: call perform_map)
qed

lemma safe_serve: "safe (serve lib cfg r)"
proof -
  have resolved: "safe (resolve_session lib env rq mutation k)" if "\<And>x. safe (k x)" for env rq mutation
      and k :: "(auth_context \<times> session \<times> ustring) option \<Rightarrow> response handler"
    unfolding resolve_session_def Let_def by (auto intro!: safe_rules that split: option.split sum.split)
  have guarded: "safe (guarded_handler lib env rq roles mutation k)" if "\<And>x. safe (k x)" for env rq roles mutation k
    unfolding guarded_handler_def by (rule resolved) (auto intro!: safe_rules safe_map that split: option.split)
  show ?thesis
    unfolding serve_def auth_middleware_def Let_def
    by (auto intro!: safe_rules guarded safe_dispatch split: route_access.split)
qed

lemma pool_ok_served: "pool_ok consistent_write (map (serve lib cfg) requests, w)"
  by (simp add: pool_ok_def safe_serve)

end
