(* ===== verification/Identity_Invariants.thy ===== *)
theory Identity_Invariants
  imports Auth_Laws
begin

text \<open>
  The invariants of the identity store under the writes of the sign-in surface: a revoked or expired session
  stays so, a name keeps its principal, a password is never lost, an authenticator keeps its row. Each is an
  interpretation of \<open>store_invariant\<close>; the claim of the first startup and the recording of a time step
  are interpretations of \<open>once_only\<close>, the revocation of a principal's sessions one of
  \<open>settling\<close>.
\<close>

section \<open>Sessions\<close>

text \<open>
  Every row with a token hash satisfies a condition that touching and revoking keep; as some row has the hash,
  no new session takes it.
\<close>

definition token_rows :: "(session_row \<Rightarrow> bool) \<Rightarrow> byte list \<Rightarrow> identity_store \<Rightarrow> bool" where
  "token_rows P h store \<longleftrightarrow>
     distinct (map sr_id (id_sessions store))
   \<and> list_ex (\<lambda>r. sr_token_hash r = h) (id_sessions store)
   \<and> list_all (\<lambda>r. sr_token_hash r = h \<longrightarrow> P r) (id_sessions store)"

definition kept_by_updates :: "(session_row \<Rightarrow> bool) \<Rightarrow> bool" where
  "kept_by_updates P \<longleftrightarrow> (\<forall>r t. P r \<longrightarrow> P (r\<lparr>sr_last_used_at := t\<rparr>) \<and> P (r\<lparr>sr_revoked_at := Some t\<rparr>))"

text \<open>An update of one row among rows with distinct identities is a map over the rows.\<close>

lemma session_rewritten_map:
  assumes "session_rewritten i f store t" "distinct (map sr_id (id_sessions store))"
  shows "t = store \<or> t = store\<lparr>id_sessions := map (\<lambda>r. if sr_id r = i then f r else r) (id_sessions store)\<rparr>"
  using assms(1) unfolding session_rewritten_def
proof (elim disjE exE conjE)
  fix r
  assume r: "List.find (\<lambda>r. sr_id r = i) (id_sessions store) = Some r"
    and t: "t = store\<lparr>id_sessions := map (\<lambda>r'. if sr_id r' = i then f r else r') (id_sessions store)\<rparr>"
  have "r' = r" if "r' \<in> set (id_sessions store)" "sr_id r' = i" for r'
    using that r assms(2) by (auto simp: find_Some_iff distinct_map dest: inj_onD)
  then have "map (\<lambda>r'. if sr_id r' = i then f r else r') (id_sessions store)
      = map (\<lambda>r'. if sr_id r' = i then f r' else r') (id_sessions store)" by auto
  with t show ?thesis by simp
qed simp

lemma token_rows_map:
  assumes "token_rows P h store"
    and "\<And>r. sr_id (g r) = sr_id r \<and> sr_token_hash (g r) = sr_token_hash r \<and> (P r \<longrightarrow> P (g r))"
  shows "token_rows P h (store\<lparr>id_sessions := map g (id_sessions store)\<rparr>)"
  using assms by (auto simp: token_rows_def list_ex_iff list_all_iff comp_def)

lemma token_rows_rewritten:
  assumes "token_rows P h store" "session_rewritten i f store t"
    and "\<And>r. sr_id (f r) = sr_id r \<and> sr_token_hash (f r) = sr_token_hash r \<and> (P r \<longrightarrow> P (f r))"
  shows "token_rows P h t"
proof -
  have "distinct (map sr_id (id_sessions store))" using assms(1) by (simp add: token_rows_def)
  from session_rewritten_map [OF assms(2) this] show ?thesis
  proof
    assume "t = store\<lparr>id_sessions := map (\<lambda>r. if sr_id r = i then f r else r) (id_sessions store)\<rparr>"
    then show ?thesis by (simp only:) (rule token_rows_map [OF assms(1)], use assms(3) in auto)
  qed (simp add: assms(1))
qed

lemma token_rows_append:
  assumes "token_rows P h store"
    and "\<not> list_ex (\<lambda>r. sr_id r = se_id s \<or> sr_token_hash r = se_token_hash s) (id_sessions store)"
  shows "token_rows P h (store\<lparr>id_sessions := id_sessions store @ [session_row_of s]\<rparr>)"
  using assms by (auto simp: token_rows_def list_ex_iff session_row_of_def)

lemma token_rows_other [simp]:
  "token_rows P h (store\<lparr>id_principals := x1\<rparr>) = token_rows P h store" "token_rows P h (store\<lparr>id_roles := x2\<rparr>) = token_rows P h store"
  "token_rows P h (store\<lparr>id_passwords := x3\<rparr>) = token_rows P h store" "token_rows P h (store\<lparr>id_totps := x4\<rparr>) = token_rows P h store"
  "token_rows P h (store\<lparr>id_bootstraps := x5\<rparr>) = token_rows P h store" "token_rows P h (store\<lparr>id_fault := x6\<rparr>) = token_rows P h store"
  by (simp_all add: token_rows_def)

text \<open>The writes of the surface on the sessions: a touch, a new row with a fresh identity and hash, or nothing.\<close>

lemma write_sessions:
  obtains (untouched) "id_sessions (aw_identity (snd (write_service c w))) = id_sessions (aw_identity w)"
  | (touched) i at store where "c = TouchSession i at" "session_rewritten i (\<lambda>r. r\<lparr>sr_last_used_at := at\<rparr>) (aw_identity w) store"
      "id_sessions (aw_identity (snd (write_service c w))) = id_sessions store"
  | (opened) s where "id_sessions (aw_identity (snd (write_service c w))) = id_sessions (aw_identity w) @ [session_row_of s]"
      "\<not> list_ex (\<lambda>r. sr_id r = se_id s \<or> sr_token_hash r = se_token_hash s) (id_sessions (aw_identity w))"
      "c = CreateSession s \<or> (\<exists>i p credential a at. c = ConsumeBootstrapCode i p credential a s at)"
proof (cases c)
  case (CreateSession s)
  from create_session_effect [of s "aw_identity w"] show ?thesis
  proof
    assume "snd (create_session s (aw_identity w)) = aw_identity w"
    then show ?thesis by (intro untouched) (simp add: CreateSession)
  next
    assume "snd (create_session s (aw_identity w)) = aw_identity w\<lparr>id_sessions := id_sessions (aw_identity w) @ [session_row_of s]\<rparr>
      \<and> \<not> list_ex (\<lambda>r. sr_id r = se_id s \<or> sr_token_hash r = se_token_hash s) (id_sessions (aw_identity w))"
    then show ?thesis by (intro opened [of s]) (simp_all add: CreateSession)
  qed
next
  case (TouchSession i at)
  from touch_session_effect [of i at "aw_identity w"] show ?thesis
    by (rule touched [OF TouchSession]) (simp add: TouchSession)
next
  case (CreatePrincipal u)
  with create_principal_effect [of u "aw_identity w"] show ?thesis by (intro untouched) auto
next
  case (SetPrincipalState u st at)
  with set_principal_state_effect [of u st at "aw_identity w"] show ?thesis by (intro untouched) auto
next
  case (AssignRole a)
  then show ?thesis by (intro untouched; simp; subst assign_role_effect; simp)
next
  case (SavePassword credential)
  then show ?thesis by (intro untouched; simp; subst save_password_effect; simp)
next
  case (ConsumeBootstrapCode i p credential a s at)
  obtain r t where t: "consume_bootstrap_code i p credential a s at (aw_identity w) = (r, t)" by fastforce
  have stored: "aw_identity (snd (write_service c w)) = t" by (simp add: ConsumeBootstrapCode t)
  from t show ?thesis
  proof (cases rule: consume_bootstrap_code_cases)
    case (failed e)
    then show ?thesis by (intro untouched) (simp add: stored)
  next
    case (consumed model totps)
    then show ?thesis by (intro opened [of s], unfold stored) (simp_all add: ConsumeBootstrapCode)
  qed
qed

lemma token_rows_write:
  assumes "token_rows P h (aw_identity w)" "kept_by_updates P"
  shows "token_rows P h (aw_identity (snd (write_service c w)))"
proof (cases rule: write_sessions [of c w])
  case untouched
  with assms(1) show ?thesis by (simp add: token_rows_def)
next
  case (touched i at store)
  have "token_rows P h store"
    by (rule token_rows_rewritten [OF assms(1) touched(2)]) (use assms(2) in \<open>simp add: kept_by_updates_def\<close>)
  then show ?thesis using touched(3) by (simp add: token_rows_def)
next
  case (opened s)
  have "token_rows P h (aw_identity w\<lparr>id_sessions := id_sessions (aw_identity w) @ [session_row_of s]\<rparr>)"
    using assms(1) opened(2) by (rule token_rows_append)
  then show ?thesis using opened(1) by (simp add: token_rows_def)
qed

lemma token_rows_invariant:
  assumes "kept_by_updates P" shows "store_invariant (token_rows P h) consistent_write"
proof
  show "token_rows P h (snd (revoke_session i at store))" if "token_rows P h store" for i at store
    by (rule token_rows_rewritten [OF that revoke_session_effect]) (use assms in \<open>simp add: kept_by_updates_def\<close>)
  show "token_rows P h (snd (revoke_sessions_for_principal p at store))" if "token_rows P h store" for p at store
    using revoke_sessions_effect [of p at store]
  proof
    assume "snd (revoke_sessions_for_principal p at store) = store\<lparr>id_sessions := map (\<lambda>r.
      if sr_principal_id r = p \<and> sr_revoked_at r = None then r\<lparr>sr_revoked_at := Some at\<rparr> else r) (id_sessions store)\<rparr>"
    then show ?thesis
      by (simp only:) (rule token_rows_map [OF that], use assms in \<open>simp add: kept_by_updates_def\<close>)
  qed (simp add: that)
  show "token_rows P h (snd (record_totp_step a step store))" if "token_rows P h store" for a step store
    using record_totp_effect [of a step store] that by auto
qed (simp_all add: token_rows_write assms)

text \<open>A dead session: revoked, or expired for the instant of a request.\<close>

definition session_dead :: "byte list \<Rightarrow> instant \<Rightarrow> identity_store \<Rightarrow> bool" where
  "session_dead h now = token_rows (\<lambda>r. sr_revoked_at r \<noteq> None \<or> sr_expires_at r \<le> now) h"

interpretation dead_session: store_invariant "session_dead h now" consistent_write for h now
  unfolding session_dead_def by (rule token_rows_invariant) (simp add: kept_by_updates_def)

text \<open>The session of a principal.\<close>

definition session_owned :: "byte list \<Rightarrow> principal_id \<Rightarrow> identity_store \<Rightarrow> bool" where
  "session_owned h p = token_rows (\<lambda>r. sr_principal_id r = p) h"

interpretation owned_session: store_invariant "session_owned h p" consistent_write for h p
  unfolding session_owned_def by (rule token_rows_invariant) (simp add: kept_by_updates_def)

section \<open>Revoking every session of a principal\<close>

definition sessions_present :: "session_id list \<Rightarrow> identity_store \<Rightarrow> bool" where
  "sessions_present ids store \<longleftrightarrow>
     distinct (map sr_id (id_sessions store)) \<and> list_all (\<lambda>i. i \<in> set (map sr_id (id_sessions store))) ids"

definition sessions_revoked :: "session_id list \<Rightarrow> principal_id \<Rightarrow> identity_store \<Rightarrow> bool" where
  "sessions_revoked ids p store \<longleftrightarrow>
     list_all (\<lambda>r. sr_principal_id r = p \<and> sr_id r \<in> set ids \<longrightarrow> sr_revoked_at r \<noteq> None) (id_sessions store)"

definition revokes :: "principal_id \<Rightarrow> 'r handler \<Rightarrow> derivation \<Rightarrow> auth_world \<Rightarrow> bool" where
  "revokes p q d w \<longleftrightarrow>
     (\<exists>at k n. q = RevokeSessionsOf p at k \<and> fst (revoke_sessions_for_principal p at (aw_identity w)) = Inr n)"

lemma revokes_map: "revokes p (map_handler f q) d w \<longleftrightarrow> revokes p q d w"
  by (cases q) (auto simp: revokes_def)

text \<open>The sessions of a store after a call: the same with one column moved on, or one more with a fresh identity.\<close>

definition sessions_moved :: "identity_store \<Rightarrow> identity_store \<Rightarrow> bool" where
  "sessions_moved store t \<longleftrightarrow>
     (\<exists>g. id_sessions t = map g (id_sessions store)
        \<and> (\<forall>r. sr_id (g r) = sr_id r \<and> sr_principal_id (g r) = sr_principal_id r
              \<and> (sr_revoked_at r \<noteq> None \<longrightarrow> sr_revoked_at (g r) \<noteq> None)))
   \<or> (\<exists>s. id_sessions t = id_sessions store @ [session_row_of s] \<and> se_id s \<notin> set (map sr_id (id_sessions store)))"

lemma sessions_moved_same: "id_sessions t = id_sessions store \<Longrightarrow> sessions_moved store t"
  unfolding sessions_moved_def by (rule disjI1, rule exI [of _ id]) simp

lemma sessions_moved_map:
  assumes "id_sessions t = map g (id_sessions store)"
    and "\<And>r. sr_id (g r) = sr_id r \<and> sr_principal_id (g r) = sr_principal_id r
      \<and> (sr_revoked_at r \<noteq> None \<longrightarrow> sr_revoked_at (g r) \<noteq> None)"
  shows "sessions_moved store t"
  unfolding sessions_moved_def using assms by blast

lemma sessions_moved_rewritten:
  assumes "session_rewritten i f store t" "distinct (map sr_id (id_sessions store))"
    and "\<And>r. sr_id (f r) = sr_id r \<and> sr_principal_id (f r) = sr_principal_id r
      \<and> (sr_revoked_at r \<noteq> None \<longrightarrow> sr_revoked_at (f r) \<noteq> None)"
  shows "sessions_moved store t"
  using session_rewritten_map [OF assms(1,2)]
proof
  assume "t = store\<lparr>id_sessions := map (\<lambda>r. if sr_id r = i then f r else r) (id_sessions store)\<rparr>"
  then show ?thesis
    by (intro sessions_moved_map [of _ "\<lambda>r. if sr_id r = i then f r else r"]) (use assms(3) in auto)
qed (simp add: sessions_moved_same)

lemma sessions_moved_revoke_all: "sessions_moved store (snd (revoke_sessions_for_principal p at store))"
  using revoke_sessions_effect [of p at store]
proof
  let ?g = "\<lambda>r. if sr_principal_id r = p \<and> sr_revoked_at r = None then r\<lparr>sr_revoked_at := Some at\<rparr> else r"
  assume "snd (revoke_sessions_for_principal p at store) = store\<lparr>id_sessions := map ?g (id_sessions store)\<rparr>"
  then show ?thesis by (intro sessions_moved_map [of _ ?g]) auto
qed (simp add: sessions_moved_same)

lemma sessions_moved_write:
  assumes "distinct (map sr_id (id_sessions (aw_identity w)))"
  shows "sessions_moved (aw_identity w) (aw_identity (snd (write_service c w)))"
proof (cases rule: write_sessions [of c w])
  case untouched
  then show ?thesis by (rule sessions_moved_same)
next
  case (touched i at store)
  have "sessions_moved (aw_identity w) store" by (rule sessions_moved_rewritten [OF touched(2) assms]) simp
  then show ?thesis using touched(3) by (simp add: sessions_moved_def)
next
  case (opened s)
  from opened(2) have "se_id s \<notin> set (map sr_id (id_sessions (aw_identity w)))" by (auto simp: list_ex_iff)
  with opened(1) show ?thesis unfolding sessions_moved_def by blast
qed

lemma sessions_moved_revoke:
  "distinct (map sr_id (id_sessions store)) \<Longrightarrow> sessions_moved store (snd (revoke_session i at store))"
  by (rule sessions_moved_rewritten [OF revoke_session_effect]) simp_all

lemma sessions_moved_record: "sessions_moved store (snd (record_totp_step a step store))"
  using record_totp_effect [of a step store] by (intro sessions_moved_same) auto

lemma sessions_present_moved:
  assumes "sessions_present ids store" "sessions_moved store t" shows "sessions_present ids t"
  using assms(2) unfolding sessions_moved_def
proof (elim disjE exE conjE)
  fix g
  assume g: "id_sessions t = map g (id_sessions store)" "\<forall>r. sr_id (g r) = sr_id r \<and> sr_principal_id (g r) = sr_principal_id r
    \<and> (sr_revoked_at r \<noteq> None \<longrightarrow> sr_revoked_at (g r) \<noteq> None)"
  then have "map sr_id (id_sessions t) = map sr_id (id_sessions store)" by simp
  with assms(1) show ?thesis unfolding sessions_present_def by metis
next
  fix s assume "id_sessions t = id_sessions store @ [session_row_of s]" "se_id s \<notin> set (map sr_id (id_sessions store))"
  with assms(1) show ?thesis by (auto simp: sessions_present_def list_all_iff session_row_of_def)
qed

lemma sessions_revoked_moved:
  assumes "sessions_present ids store" "sessions_revoked ids p store" "sessions_moved store t"
  shows "sessions_revoked ids p t"
  using assms(3) unfolding sessions_moved_def
proof (elim disjE exE conjE)
  fix g
  assume "id_sessions t = map g (id_sessions store)" "\<forall>r. sr_id (g r) = sr_id r \<and> sr_principal_id (g r) = sr_principal_id r
    \<and> (sr_revoked_at r \<noteq> None \<longrightarrow> sr_revoked_at (g r) \<noteq> None)"
  with assms(2) show ?thesis by (auto simp: sessions_revoked_def list_all_iff)
next
  fix s assume "id_sessions t = id_sessions store @ [session_row_of s]" "se_id s \<notin> set (map sr_id (id_sessions store))"
  with assms(1,2) show ?thesis by (auto simp: sessions_revoked_def sessions_present_def list_all_iff session_row_of_def)
qed

lemma perform_sessions_moved:
  assumes "distinct (map sr_id (id_sessions (aw_identity w)))"
  shows "sessions_moved (aw_identity w) (aw_identity (snd (perform d q w)))"
  by (cases q) (simp_all add: assms sessions_moved_same sessions_moved_write sessions_moved_revoke sessions_moved_revoke_all
      sessions_moved_record)

interpretation revocation: settling "sessions_present ids" consistent_write "revokes p :: response handler \<Rightarrow> _"
  "sessions_revoked ids p" for ids p
proof
  have distinct: "distinct (map sr_id (id_sessions store))" if "sessions_present ids store" for store
    using that by (simp add: sessions_present_def)
  show "sessions_present ids (aw_identity (snd (write_service c w)))" if "sessions_present ids (aw_identity w)" for c w
    by (rule sessions_present_moved [OF that sessions_moved_write [OF distinct [OF that]]])
  show "sessions_present ids (snd (revoke_session i at store))" if "sessions_present ids store" for i at store
    by (rule sessions_present_moved [OF that sessions_moved_revoke [OF distinct [OF that]]])
  show "sessions_present ids (snd (revoke_sessions_for_principal u at store))" if "sessions_present ids store" for u at store
    by (rule sessions_present_moved [OF that sessions_moved_revoke_all])
  show "sessions_present ids (snd (record_totp_step a step store))" if "sessions_present ids store" for a step store
    by (rule sessions_present_moved [OF that sessions_moved_record])
  show "sessions_present ids (store\<lparr>id_fault := f\<rparr>)" if "sessions_present ids store" for f store
    using that by (simp add: sessions_present_def)
  show "sessions_revoked ids p (store\<lparr>id_fault := f\<rparr>) \<longleftrightarrow> sessions_revoked ids p store" for f store
    by (simp add: sessions_revoked_def)
  show "sessions_revoked ids p (aw_identity (snd (perform d q w)))"
    if "sessions_present ids (aw_identity w)" "sessions_revoked ids p (aw_identity w)" for q :: "response handler" and d w
    by (rule sessions_revoked_moved [OF that perform_sessions_moved [OF distinct [OF that(1)]]])
  show "sessions_revoked ids p (aw_identity (snd (perform d q w)))" if "revokes p q d w" for q :: "response handler" and d w
  proof -
    from that obtain at k n where q: "q = RevokeSessionsOf p at k"
      and n: "fst (revoke_sessions_for_principal p at (aw_identity w)) = Inr n" by (auto simp: revokes_def)
    obtain t where t: "revoke_sessions_for_principal p at (aw_identity w) = (Inr n, t)"
      using n by (cases "revoke_sessions_for_principal p at (aw_identity w)") simp
    have "sessions_revoked ids p t"
    proof -
      from permitted_Inr [OF t [unfolded revoke_sessions_for_principal_def]]
      have "id_sessions t = map (\<lambda>r. if sr_principal_id r = p \<and> sr_revoked_at r = None then r\<lparr>sr_revoked_at := Some at\<rparr> else r)
          (id_sessions (aw_identity w))"
        unfolding revoke_sessions_statement_def by (auto simp: rbind_eq_Inr)
      then show ?thesis by (simp add: sessions_revoked_def list.pred_map comp_def) (simp add: list_all_iff)
    qed
    with q t show ?thesis by simp
  qed
qed

section \<open>The principal of a name\<close>

definition named :: "principal_name \<Rightarrow> principal_id \<Rightarrow> identity_store \<Rightarrow> bool" where
  "named name p store \<longleftrightarrow>
     list_ex (\<lambda>r. prr_name r = name) (id_principals store)
   \<and> list_all (\<lambda>r. prr_name r = name \<longrightarrow> prr_id r = p) (id_principals store)"

definition has_password :: "principal_id \<Rightarrow> identity_store \<Rightarrow> bool" where
  "has_password p store \<longleftrightarrow> p \<in> set (map pwr_principal_id (id_passwords store))"

lemma named_other [simp]:
  "named name p (store\<lparr>id_roles := x2\<rparr>) = named name p store" "named name p (store\<lparr>id_passwords := x3\<rparr>) = named name p store"
  "named name p (store\<lparr>id_totps := x4\<rparr>) = named name p store" "named name p (store\<lparr>id_bootstraps := x5\<rparr>) = named name p store"
  "named name p (store\<lparr>id_fault := x6\<rparr>) = named name p store" "named name p (store\<lparr>id_sessions := x7\<rparr>) = named name p store"
  by (simp_all add: named_def)

lemma has_password_other [simp]:
  "has_password p (store\<lparr>id_roles := x2\<rparr>) = has_password p store" "has_password p (store\<lparr>id_principals := x3\<rparr>) = has_password p store"
  "has_password p (store\<lparr>id_totps := x4\<rparr>) = has_password p store" "has_password p (store\<lparr>id_bootstraps := x5\<rparr>) = has_password p store"
  "has_password p (store\<lparr>id_fault := x6\<rparr>) = has_password p store" "has_password p (store\<lparr>id_sessions := x7\<rparr>) = has_password p store"
  by (simp_all add: has_password_def)

lemma rewritten_other:
  assumes "session_rewritten i f store t" obtains rows where "t = store\<lparr>id_sessions := rows\<rparr>"
proof (cases "t = store")
  case True
  then show ?thesis by (intro that [of "id_sessions store"]) simp
next
  case False
  with assms show ?thesis by (auto simp: session_rewritten_def intro: that)
qed

text \<open>What the writes of the surface do to names and passwords.\<close>

lemma write_keeps_named:
  assumes "named name p (aw_identity w)"
  shows "named name p (aw_identity (snd (write_service c w)))"
proof (cases c)
  case (CreateSession s)
  with assms create_session_effect [of s "aw_identity w"] show ?thesis by auto
next
  case (TouchSession i at)
  from touch_session_effect [of i at "aw_identity w"] TouchSession assms show ?thesis
    by (auto elim!: rewritten_other)
next
  case (CreatePrincipal u)
  with assms create_principal_effect [of u "aw_identity w"] show ?thesis
    by (fastforce simp: named_def list_ex_iff list_all_iff principal_row_of_def)
next
  case (SetPrincipalState u st at)
  with assms set_principal_state_effect [of u st at "aw_identity w"] show ?thesis
    by (auto simp: named_def list_ex_iff list_all_iff if_distrib simp del: if_image_distrib)
next
  case (AssignRole a)
  with assms show ?thesis by (simp, subst assign_role_effect, simp)
next
  case (SavePassword credential)
  with assms show ?thesis by (simp, subst save_password_effect, simp)
next
  case (ConsumeBootstrapCode i u credential a s at)
  obtain r t where "consume_bootstrap_code i u credential a s at (aw_identity w) = (r, t)" by fastforce
  moreover from this have "named name p t"
    by (cases rule: consume_bootstrap_code_cases) (use assms in \<open>simp_all add: named_def\<close>)
  ultimately show ?thesis using ConsumeBootstrapCode by simp
qed

lemma write_keeps_password:
  assumes "has_password p (aw_identity w)"
  shows "has_password p (aw_identity (snd (write_service c w)))"
proof (cases c)
  case (CreateSession s)
  with assms create_session_effect [of s "aw_identity w"] show ?thesis by auto
next
  case (TouchSession i at)
  from touch_session_effect [of i at "aw_identity w"] TouchSession assms show ?thesis
    by (auto elim!: rewritten_other)
next
  case (CreatePrincipal u)
  with assms create_principal_effect [of u "aw_identity w"] show ?thesis by auto
next
  case (SetPrincipalState u st at)
  with assms set_principal_state_effect [of u st at "aw_identity w"] show ?thesis by auto
next
  case (AssignRole a)
  with assms show ?thesis by (simp, subst assign_role_effect, simp)
next
  case (SavePassword credential)
  with assms save_password_effect(2) [of "aw_identity w" credential] show ?thesis by (auto simp: has_password_def)
next
  case (ConsumeBootstrapCode i u credential a s at)
  obtain r t where "consume_bootstrap_code i u credential a s at (aw_identity w) = (r, t)" by fastforce
  moreover from this have "has_password p t"
    by (cases rule: consume_bootstrap_code_cases) (use assms in \<open>simp_all add: has_password_def\<close>)
  ultimately show ?thesis using ConsumeBootstrapCode by simp
qed

lemma sessions_only:
  "\<exists>rows. snd (revoke_session i at store) = store\<lparr>id_sessions := rows\<rparr>"
  "\<exists>rows. snd (revoke_sessions_for_principal p at store) = store\<lparr>id_sessions := rows\<rparr>"
  "\<exists>rows. snd (record_totp_step a step store) = store\<lparr>id_totps := rows\<rparr>"
proof -
  show "\<exists>rows. snd (revoke_session i at store) = store\<lparr>id_sessions := rows\<rparr>"
    using revoke_session_effect [of i at store] by (auto elim!: rewritten_other)
  have same: "\<exists>rows. store = store\<lparr>id_sessions := rows\<rparr>" "\<exists>rows. store = store\<lparr>id_totps := rows\<rparr>"
    by (rule exI [of _ "id_sessions store"], simp) (rule exI [of _ "id_totps store"], simp)
  show "\<exists>rows. snd (revoke_sessions_for_principal p at store) = store\<lparr>id_sessions := rows\<rparr>"
    using revoke_sessions_effect [of p at store] same(1) by auto
  show "\<exists>rows. snd (record_totp_step a step store) = store\<lparr>id_totps := rows\<rparr>"
    using record_totp_effect [of a step store] same(2) by auto
qed

lemma consume_success:
  assumes "fst (consume_bootstrap_code i p c a s at store) = Inr ()"
  shows "pc_principal_id c \<notin> set (map pwr_principal_id (id_passwords store))"
    "pc_principal_id c \<in> set (map pwr_principal_id (id_passwords (snd (consume_bootstrap_code i p c a s at store))))"
proof -
  obtain t where t: "consume_bootstrap_code i p c a s at store = (Inr (), t)"
    using assms by (cases "consume_bootstrap_code i p c a s at store") simp
  then show "pc_principal_id c \<notin> set (map pwr_principal_id (id_passwords store))"
    "pc_principal_id c \<in> set (map pwr_principal_id (id_passwords (snd (consume_bootstrap_code i p c a s at store))))"
    by (cases rule: consume_bootstrap_code_cases; simp add: password_row_of_def)+
qed

section \<open>The first-startup claim\<close>

text \<open>The call that consumes a code for the principal, and does.\<close>

definition claims :: "principal_id \<Rightarrow> 'r handler \<Rightarrow> derivation \<Rightarrow> auth_world \<Rightarrow> bool" where
  "claims p q d w \<longleftrightarrow>
     (\<exists>code c e s at k. q = Write (ConsumeBootstrapCode code p c e s at) k
        \<and> fst (consume_bootstrap_code code p c e s at (aw_identity w)) = Inr ())"

lemma claims_map: "claims p (map_handler f q) d w \<longleftrightarrow> claims p q d w"
  by (cases q) (auto simp: claims_def)

interpretation named_principal: store_invariant "named name p" consistent_write for name p
proof
  show "named name p (snd (revoke_session i at store))" if "named name p store" for i at store
    using sessions_only(1) [of i at store] that by auto
  show "named name p (snd (revoke_sessions_for_principal q at store))" if "named name p store" for q at store
    using sessions_only(2) [of q at store] that by auto
  show "named name p (snd (record_totp_step a step store))" if "named name p store" for a step store
    using sessions_only(3) [of a step store] that by auto
qed (simp_all add: write_keeps_named)

lemma perform_keeps_password:
  assumes "has_password p (aw_identity w)"
  shows "has_password p (aw_identity (snd (perform d q w)))"
proof (cases q)
  case (RevokeSession i at k)
  with assms sessions_only(1) [of i at "aw_identity w"] show ?thesis by auto
next
  case (RevokeSessionsOf u at k)
  with assms sessions_only(2) [of u at "aw_identity w"] show ?thesis by auto
next
  case (RecordTotpStep a step k)
  with assms sessions_only(3) [of a step "aw_identity w"] show ?thesis by auto
qed (use assms in \<open>simp_all add: write_keeps_password\<close>)

interpretation claim: once_only "named name p" consistent_write "claims p :: response handler \<Rightarrow> _" "has_password p" for name p
proof
  have claimed: "\<not> has_password p (aw_identity w) \<and> has_password p (aw_identity (snd (perform d q w)))"
    if "admissible consistent_write q" "claims p q d w" for q :: "response handler" and d w
    using that(2) unfolding claims_def
  proof (elim exE conjE)
    fix code c e s at k
    assume q: "q = Write (ConsumeBootstrapCode code p c e s at) k"
      and ok: "fst (consume_bootstrap_code code p c e s at (aw_identity w)) = Inr ()"
    have "pc_principal_id c = p" using that(1) q by simp
    with consume_success [OF ok] q show ?thesis by (simp add: has_password_def)
  qed
  show "has_password p (aw_identity (snd (perform d q w)))" "\<not> has_password p (aw_identity w)"
    if "admissible consistent_write q" "claims p q d w" for q :: "response handler" and d w
    using claimed [OF that] by simp_all
qed (simp_all add: perform_keeps_password)

section \<open>A time step signs in once\<close>

text \<open>
  The name belongs to the principal of the authenticator's row, who has a password and this one authenticator,
  active and with the secret; its last used step may have moved on.
\<close>

definition is_of :: "totp_row \<Rightarrow> totp_row \<Rightarrow> bool" where
  "is_of row r \<longleftrightarrow> tor_principal_id r = tor_principal_id row \<or> tor_id r = tor_id row"

definition enrolled_with :: "principal_name \<Rightarrow> totp_row \<Rightarrow> byte list \<Rightarrow> identity_store \<Rightarrow> bool" where
  "enrolled_with name row secret store \<longleftrightarrow>
     named name (tor_principal_id row) store
   \<and> has_password (tor_principal_id row) store
   \<and> map (\<lambda>r. r\<lparr>tor_last_used_step := None\<rparr>) (filter (is_of row) (id_totps store)) = [row\<lparr>tor_last_used_step := None\<rparr>]
   \<and> tor_state row = totp_state_as_str Active
   \<and> decrypt_stored_secret (id_cipher store) (id_master_key store) (tor_id row) (tor_secret row) = Inr secret"

definition step_used :: "totp_row \<Rightarrow> totp_step \<Rightarrow> identity_store \<Rightarrow> bool" where
  "step_used row step store \<longleftrightarrow>
     list_ex (\<lambda>r. tor_id r = tor_id row \<and> (case tor_last_used_step r of None \<Rightarrow> False | Some used \<Rightarrow> int (unat step) \<le> used))
       (id_totps store)"

definition records :: "totp_row \<Rightarrow> totp_step \<Rightarrow> 'r handler \<Rightarrow> derivation \<Rightarrow> auth_world \<Rightarrow> bool" where
  "records row step p d w \<longleftrightarrow>
     (\<exists>k. p = RecordTotpStep (tor_id row) step k) \<and> fst (record_totp_step (tor_id row) step (aw_identity w)) = Inr True"

lemma records_map: "records row step (map_handler f q) d w \<longleftrightarrow> records row step q d w"
  by (cases q) (auto simp: records_def)

lemma enrolled_keeps:
  assumes "enrolled_with name row secret store" "named name (tor_principal_id row) t" "has_password (tor_principal_id row) t"
    and "map (\<lambda>r. r\<lparr>tor_last_used_step := None\<rparr>) (filter (is_of row) (id_totps t))
      = map (\<lambda>r. r\<lparr>tor_last_used_step := None\<rparr>) (filter (is_of row) (id_totps store))"
    and "id_cipher t = id_cipher store" "id_master_key t = id_master_key store"
  shows "enrolled_with name row secret t"
  using assms by (simp add: enrolled_with_def)

lemma enrolled_totps:
  assumes "enrolled_with name row secret store"
  obtains used where "filter (is_of row) (id_totps store) = [row\<lparr>tor_last_used_step := used\<rparr>]"
proof -
  from assms obtain r where r: "filter (is_of row) (id_totps store) = [r]" "r\<lparr>tor_last_used_step := None\<rparr> = row\<lparr>tor_last_used_step := None\<rparr>"
    by (auto simp: enrolled_with_def)
  from r(2) have "r = row\<lparr>tor_last_used_step := tor_last_used_step r\<rparr>"
    by (metis totp_row.surjective totp_row.update_convs(10) totp_row.unfold_congs(10))
  with r(1) show ?thesis by (intro that) simp
qed

lemma marked_totps:
  "map (\<lambda>r. r\<lparr>tor_last_used_step := None\<rparr>) (filter (is_of row) (map (\<lambda>r. if Q r then r\<lparr>tor_last_used_step := u\<rparr> else r) rows))
     = map (\<lambda>r. r\<lparr>tor_last_used_step := None\<rparr>) (filter (is_of row) rows)"
  by (induction rows) (auto simp: is_of_def)

text \<open>Of the writes only a claim reaches the authenticators.\<close>

lemma write_totps:
  obtains (untouched) "id_totps (aw_identity (snd (write_service c w))) = id_totps (aw_identity w)"
      "id_cipher (aw_identity (snd (write_service c w))) = id_cipher (aw_identity w)"
      "id_master_key (aw_identity (snd (write_service c w))) = id_master_key (aw_identity w)"
  | (claimed) i p credential e s at secret where "c = ConsumeBootstrapCode i p credential (Some e) s at"
      "id_totps (aw_identity (snd (write_service c w))) = id_totps (aw_identity w) @ [totp_row_of secret e]"
      "id_cipher (aw_identity (snd (write_service c w))) = id_cipher (aw_identity w)"
      "id_master_key (aw_identity (snd (write_service c w))) = id_master_key (aw_identity w)"
      "ta_id e \<notin> set (map tor_id (id_totps (aw_identity w)))" "\<not> has_password (pc_principal_id credential) (aw_identity w)"
proof (cases c)
  case (CreateSession s)
  with create_session_effect [of s "aw_identity w"] show ?thesis by (intro untouched) auto
next
  case (TouchSession i at)
  from touch_session_effect [of i at "aw_identity w"] TouchSession show ?thesis
    by (intro untouched) (auto elim!: rewritten_other)
next
  case (CreatePrincipal u)
  with create_principal_effect [of u "aw_identity w"] show ?thesis by (intro untouched) auto
next
  case (SetPrincipalState u st at)
  with set_principal_state_effect [of u st at "aw_identity w"] show ?thesis by (intro untouched) auto
next
  case (AssignRole a)
  then show ?thesis by (intro untouched; simp; subst assign_role_effect; simp)
next
  case (SavePassword credential)
  then show ?thesis by (intro untouched; simp; subst save_password_effect; simp)
next
  case (ConsumeBootstrapCode i p credential a s at)
  obtain r t where t: "consume_bootstrap_code i p credential a s at (aw_identity w) = (r, t)" by fastforce
  have stored: "aw_identity (snd (write_service c w)) = t" by (simp add: ConsumeBootstrapCode t)
  from t show ?thesis
  proof (cases rule: consume_bootstrap_code_cases)
    case (failed e)
    then show ?thesis by (intro untouched) (simp_all add: stored)
  next
    case (consumed model totps)
    show ?thesis
    proof (cases a)
      case None
      with consumed show ?thesis by (intro untouched) (simp_all add: stored)
    next
      case (Some e)
      with consumed obtain secret where "totps = [totp_row_of secret e]" "ta_id e \<notin> set (map tor_id (id_totps (aw_identity w)))"
        by auto
      with Some consumed show ?thesis
        by (intro claimed [of i p credential e s at secret], unfold stored)
          (simp_all add: ConsumeBootstrapCode has_password_def)
    qed
  qed
qed

lemma enrolled_write:
  assumes "consistent_write c" "enrolled_with name row secret (aw_identity w)"
  shows "enrolled_with name row secret (aw_identity (snd (write_service c w)))"
proof -
  have named: "named name (tor_principal_id row) (aw_identity (snd (write_service c w)))"
    and password: "has_password (tor_principal_id row) (aw_identity (snd (write_service c w)))"
    using assms(2) by (simp_all add: enrolled_with_def write_keeps_named write_keeps_password)
  show ?thesis
  proof (cases rule: write_totps [of c w])
    case untouched
    then show ?thesis by (intro enrolled_keeps [OF assms(2) named password]) simp_all
  next
    case (claimed i p credential e s at secret')
    obtain used where "filter (is_of row) (id_totps (aw_identity w)) = [row\<lparr>tor_last_used_step := used\<rparr>]"
      using assms(2) by (rule enrolled_totps)
    then have "row\<lparr>tor_last_used_step := used\<rparr> \<in> set (id_totps (aw_identity w))"
      by (metis filter_is_subset list.set_intros(1) subsetD)
    then have "tor_id row \<noteq> ta_id e" using claimed(5) by force
    moreover have "tor_principal_id row \<noteq> ta_principal_id e"
      using claimed(1,6) assms by (auto simp: enrolled_with_def)
    ultimately have "\<not> is_of row (totp_row_of secret' e)" by (simp add: is_of_def totp_row_of_def)
    then show ?thesis using claimed(2-4) by (intro enrolled_keeps [OF assms(2) named password]) simp_all
  qed
qed

lemma enrolled_sessions [simp]:
  "enrolled_with name row secret (store\<lparr>id_sessions := x1\<rparr>) = enrolled_with name row secret store"
  "enrolled_with name row secret (store\<lparr>id_fault := x2\<rparr>) = enrolled_with name row secret store"
  by (simp_all add: enrolled_with_def)

lemma enrolled_record:
  assumes "enrolled_with name row secret store"
  shows "enrolled_with name row secret (snd (record_totp_step a step store))"
  using record_totp_effect [of a step store]
proof
  assume "unat step < 2 ^ 63 \<and> snd (record_totp_step a step store) = store\<lparr>id_totps := map (\<lambda>r.
    if step_guard a (int (unat step)) r then r\<lparr>tor_last_used_step := Some (int (unat step))\<rparr> else r) (id_totps store)\<rparr>"
  then show ?thesis
    by (intro enrolled_keeps [OF assms]) (use assms in \<open>simp_all add: marked_totps enrolled_with_def\<close>)
qed (simp add: assms)

interpretation enrolled_authenticator: store_invariant "enrolled_with name row secret" consistent_write for name row secret
proof
  show "enrolled_with name row secret (snd (revoke_session i at store))" if "enrolled_with name row secret store" for i at store
    using sessions_only(1) [of i at store] that by auto
  show "enrolled_with name row secret (snd (revoke_sessions_for_principal q at store))"
    if "enrolled_with name row secret store" for q at store
    using sessions_only(2) [of q at store] that by auto
qed (simp_all add: enrolled_write enrolled_record)

lemma list_ex_mapI: "x \<in> set xs \<Longrightarrow> Q (f x) \<Longrightarrow> list_ex Q (map f xs)"
  by (auto simp: list_ex_iff)

lemma totp_fields: "id_totps (store\<lparr>id_totps := rows\<rparr>) = rows"
  by simp

lemma records_settles:
  assumes "enrolled_with name row secret (aw_identity w)" "records row step p d w"
  shows "\<not> step_used row step (aw_identity w)" "step_used row step (aw_identity (snd (perform d p w)))"
proof -
  from assms(2) obtain k where p: "p = RecordTotpStep (tor_id row) step k"
    and ok: "fst (record_totp_step (tor_id row) step (aw_identity w)) = Inr True" by (auto simp: records_def)
  note True = record_totp_True [OF ok]
  from True(1) obtain r where r: "r \<in> set (id_totps (aw_identity w))" "step_guard (tor_id row) (int (unat step)) r"
  proof -
    from True(1) have "filter (step_guard (tor_id row) (int (unat step))) (id_totps (aw_identity w)) \<noteq> []" by auto
    with that show ?thesis by (auto simp: filter_empty_conv)
  qed
  obtain used where of_row: "filter (is_of row) (id_totps (aw_identity w)) = [row\<lparr>tor_last_used_step := used\<rparr>]"
    using assms(1) by (rule enrolled_totps)
  have only: "x = row\<lparr>tor_last_used_step := used\<rparr>" if "x \<in> set (id_totps (aw_identity w))" "tor_id x = tor_id row" for x
  proof -
    have "x \<in> set (filter (is_of row) (id_totps (aw_identity w)))" using that by (simp add: is_of_def)
    then show ?thesis unfolding of_row by simp
  qed
  have "r = row\<lparr>tor_last_used_step := used\<rparr>" using r by (intro only) (auto simp: step_guard_def)
  with r(2) have "case used of None \<Rightarrow> True | Some u \<Rightarrow> u < int (unat step)" by (simp add: step_guard_def split: option.splits)
  then show "\<not> step_used row step (aw_identity w)"
    by (auto simp: step_used_def list_ex_iff dest!: only split: option.splits)
  show "step_used row step (aw_identity (snd (perform d p w)))"
    unfolding p perform.simps snd_apsnd snd_apfst on_identity_store True(3) step_used_def totp_fields
    by (rule list_ex_mapI [OF r(1)]) (use r(2) in \<open>simp add: step_guard_def\<close>)
qed

lemma step_stays_used:
  assumes "step_used row step (aw_identity w)"
  shows "step_used row step (aw_identity (snd (perform d p w)))"
proof (cases p)
  case (RevokeSession i at k)
  with assms sessions_only(1) [of i at "aw_identity w"] show ?thesis by (auto simp: step_used_def)
next
  case (RevokeSessionsOf u at k)
  with assms sessions_only(2) [of u at "aw_identity w"] show ?thesis by (auto simp: step_used_def)
next
  case (RecordTotpStep a s k)
  from assms obtain r u where r: "r \<in> set (id_totps (aw_identity w))" "tor_id r = tor_id row"
    "tor_last_used_step r = Some u" "int (unat step) \<le> u"
    by (auto simp: step_used_def list_ex_iff split: option.splits)
  have moved: "step_used row step (aw_identity w\<lparr>id_totps := map (\<lambda>r.
      if step_guard a n r then r\<lparr>tor_last_used_step := Some n\<rparr> else r) (id_totps (aw_identity w))\<rparr>)" for n
    unfolding step_used_def totp_fields by (rule list_ex_mapI [OF r(1)]) (use r in \<open>auto simp: step_guard_def\<close>)
  with RecordTotpStep assms record_totp_effect [of a s "aw_identity w"] moved [of "int (unat s)"] show ?thesis by auto
next
  case (Write c k)
  then show ?thesis
    by (cases rule: write_totps [of c w]) (use assms in \<open>simp_all add: step_used_def\<close>)
qed (use assms in simp_all)

lemma step_used_fault [simp]: "step_used row step (store\<lparr>id_fault := f\<rparr>) = step_used row step store"
  by (simp add: step_used_def)

interpretation sign_in: once_only "enrolled_with name row secret" consistent_write "records row step :: response handler \<Rightarrow> _"
  "step_used row step" for name row secret step
  by unfold_locales (auto dest: records_settles intro: step_stays_used)

lemma enrolled_list:
  assumes "enrolled_with name row secret store" "list_totp_authenticators (tor_principal_id row) store = Inr l"
  shows "\<exists>a. l = [a] \<and> ta_id a = tor_id row \<and> ta_state a = Active \<and> ta_secret a = secret"
proof -
  obtain used where of_row: "filter (is_of row) (id_totps store) = [row\<lparr>tor_last_used_step := used\<rparr>]"
    using assms(1) by (rule enrolled_totps)
  let ?P = "\<lambda>r. tor_principal_id r = tor_principal_id row"
  have "filter ?P (id_totps store) = filter ?P (filter (is_of row) (id_totps store))"
    unfolding filter_filter by (rule filter_cong) (auto simp: is_of_def)
  then have one: "filter ?P (id_totps store) = [row\<lparr>tor_last_used_step := used\<rparr>]" unfolding of_row by simp
  with assms(2) obtain a where a: "l = [a]" "map_stored_authenticator store (row\<lparr>tor_last_used_step := used\<rparr>) = Inr a"
    by (auto simp: list_totp_authenticators_def result_simps)
  note read = map_stored_authenticator_Inr [OF a(2)]
  have "totp_state_as_str (ta_state a) = totp_state_as_str Active" using read(3) assms(1) by (simp add: enrolled_with_def)
  then have "ta_state a = Active" by (cases "ta_state a") simp_all
  with a(1) read(1,6) assms(1) show ?thesis by (simp add: enrolled_with_def)
qed

end
