(* ===== verification/Auth_Demo.thy ===== *)
theory Auth_Demo
  imports Identity_Invariants
begin

text \<open>
  A concrete world for the witnesses of the sign-in surface: a console with the bootstrap principal, his
  password, one active authenticator, a revoked and an open session, and small stand-ins for the crates (an HMAC that
  answers zeros, an Argon2id that derives them).
\<close>

definition demo_web :: web_lib where
  "demo_web =
     \<lparr>wl_tables = \<lparr>lower_char = (\<lambda>c. [c]), lower_str = (\<lambda>s. s)\<rparr>,
      wl_tokens = \<lparr>sha256 = (\<lambda>bs. take 32 (bs @ replicate 32 0)), base64url_encode = map unat,
        base64url_decode = (\<lambda>s. if length s = 32 then Some (map byte_of s) else None)\<rparr>,
      wl_hmac = (\<lambda>key message. replicate 20 0),
      wl_base32_decode = (\<lambda>s. Some (map byte_of s)), wl_uuid_text = (\<lambda>i. [unat i]),
      wl_uuid_parse = (\<lambda>s. Some (of_nat (sum_list s))), wl_v4_text = (\<lambda>a. [unat a]), wl_v6_text = (\<lambda>a. [unat a])\<rparr>"

definition demo_web_config :: web_config where
  "demo_web_config = \<lparr>wc_policy = Policy_Guarded, wc_actor = Actor_System, wc_origin = Posture_Standalone\<rparr>"

definition demo_env :: "instant \<Rightarrow> web_env" where
  "demo_env now =
     \<lparr>we_resolve_now = now, we_now = now, we_rate_now = now, we_utc_now = now, we_session_id = 21, we_principal_id = 22, we_authenticator_id = 23,
      we_session_token = Some (replicate 32 97), we_csrf_token = Some (replicate 32 98), we_salt = Some (replicate 16 5),
      we_audit_ids = (31, 32, 33), we_enrollment_audit_ids = (34, 35, 36)\<rparr>"

definition demo_parts :: web_request where
  "demo_parts =
     \<lparr>wq_scheme = None, wq_forwarded_proto = None, wq_cookie = Some (ascii ''rutilus_session=x''), wq_csrf = None,
      wq_peer = None\<rparr>"

definition demo_request :: "http_method \<Rightarrow> string \<Rightarrow> auth_call \<Rightarrow> auth_request" where
  "demo_request m path c =
     \<lparr>rx_env = demo_env 100000000000, rx_parts = demo_parts, rx_method = m, rx_path = path, rx_call = c\<rparr>"

definition demo_totp_row :: totp_row where
  "demo_totp_row =
     \<lparr>tor_id = 7, tor_principal_id = 1, tor_secret = replicate 24 0 @ replicate 20 65 @ replicate 16 32,
      tor_state = ''active'', tor_algorithm = ''sha1'', tor_digits = 6, tor_period = 30, tor_created_at = 0,
      tor_activated_at = Some 1, tor_last_used_step = Some 1\<rparr>"

definition demo_identity :: identity_store where
  "demo_identity =
     \<lparr>id_principals = [\<lparr>prr_id = 1, prr_name = BOOTSTRAP_PRINCIPAL_NAME, prr_state = ''enabled'', prr_created_at = 0,
        prr_updated_at = 0\<rparr>],
      id_roles = [],
      id_passwords = [\<lparr>pwr_principal_id = 1, pwr_hash_format = ARGON2ID_FORMAT, pwr_salt = replicate 16 0,
        pwr_hash = replicate 32 0, pwr_changed_at = 0\<rparr>],
      id_totps = [demo_totp_row],
      id_sessions = [\<lparr>sr_id = 9, sr_principal_id = 1, sr_token_hash = replicate 32 0, sr_csrf_hash = replicate 32 1,
        sr_created_at = 0, sr_last_used_at = 0, sr_expires_at = 100, sr_revoked_at = Some 5\<rparr>,
        \<lparr>sr_id = 10, sr_principal_id = 1, sr_token_hash = replicate 32 7, sr_csrf_hash = replicate 32 1,
        sr_created_at = 50, sr_last_used_at = 50, sr_expires_at = 28800000000050, sr_revoked_at = None\<rparr>],
      id_bootstraps = [], id_instances = [], id_master_key = replicate 32 1, id_cipher = demo_lib,
      id_tables = wl_tables demo_web, id_getrandom = (\<lambda>_. Some (replicate 24 0)), id_fault = (\<lambda>_. False)\<rparr>"

definition demo_world :: auth_world where
  "demo_world =
     \<lparr>aw_identity = demo_identity, aw_limiter = (\<lambda>_. limiter_new), aw_armed = True,
      aw_argon2 = (\<lambda>parameters salt password. Some (replicate 32 0)), aw_facts = []\<rparr>"

definition demo_login :: login_request where
  "demo_login =
     \<lparr>lq_username = BOOTSTRAP_PRINCIPAL_NAME, lq_password = ascii ''correct horse'', lq_totp_code = Some (ascii ''000000'')\<rparr>"

definition demo_claim :: claim_request where
  "demo_claim = \<lparr>cq_code = ascii ''ABCD'', cq_password = ascii ''correct horse'', cq_totp_secret = None, cq_totp_code = None\<rparr>"

section \<open>What it evaluates to\<close>

lemma demo_request_simps [simp]:
  "rx_env (demo_request m path c) = demo_env 100000000000" "rx_parts (demo_request m path c) = demo_parts"
  "rx_method (demo_request m path c) = m" "rx_path (demo_request m path c) = path" "rx_call (demo_request m path c) = c"
  "we_now (demo_env now) = now" "we_resolve_now (demo_env now) = now"
  by (simp_all add: demo_request_def demo_env_def)

lemma demo_secret: "decrypt_stored_secret demo_lib (replicate 32 1) 7 (tor_secret demo_totp_row) = Inr (replicate 20 65)"
proof -
  have "utf8_encode (replicate 20 65) = replicate 20 65" by code_simp
  then have "utf8_decode (replicate 20 65) = Some (replicate 20 65)"
    using utf8_decode_encode [of "replicate 20 65"] by (simp add: valid_str_def scalar_value_def list_all_iff)
  then show ?thesis
    by (simp add: decrypt_stored_secret_def demo_totp_row_def CREDENTIAL_NONCE_LENGTH_def protected_from_parts_def
        encrypted_from_parts_def AUTHENTICATION_TAG_LENGTH_def decrypt_credential_def credential_cipher_key_def demo_lib_def
        associated_data_def byte_of_def)
qed

lemma demo_name: "principal_name_parse (wl_tables demo_web) BOOTSTRAP_PRINCIPAL_NAME = Inr BOOTSTRAP_PRINCIPAL_NAME"
  by (simp add: principal_name_parse_def demo_web_def BOOTSTRAP_PRINCIPAL_NAME_def ascii_def trim_def trim_start_def
      trim_end_def is_whitespace_def is_name_character_def is_name_start_def MAX_PRINCIPAL_NAME_CHARS_def)

lemma demo_cookie: "cookie_value demo_parts SESSION_COOKIE_NAME = Some [120]"
  by (simp add: cookie_value_def demo_parts_def SESSION_COOKIE_NAME_def ascii_def trim_def trim_start_def trim_end_def
      is_whitespace_def strip_prefix_def)

lemma demo_hash: "presented_hash demo_web [120] = replicate 32 0"
  by (simp add: presented_hash_def demo_web_def token_from_base64url_def)

lemma demo_dead: "session_dead (replicate 32 0) 100000000000 demo_identity"
  by (simp add: session_dead_def token_rows_def demo_identity_def)

lemma demo_named: "named BOOTSTRAP_PRINCIPAL_NAME 1 demo_identity"
  by (simp add: named_def demo_identity_def)

lemma demo_enrolled: "enrolled_with BOOTSTRAP_PRINCIPAL_NAME demo_totp_row (replicate 20 65) demo_identity"
proof -
  have "id_cipher demo_identity = demo_lib" "id_master_key demo_identity = replicate 32 1" "tor_id demo_totp_row = 7"
    "tor_principal_id demo_totp_row = 1" "id_totps demo_identity = [demo_totp_row]" "tor_state demo_totp_row = ''active''"
    "has_password 1 demo_identity"
    by (simp_all add: demo_identity_def demo_totp_row_def has_password_def)
  with demo_secret demo_named show ?thesis by (simp add: enrolled_with_def is_of_def)
qed

lemma demo_code:
  "verify_totp_code (wl_hmac demo_web) (replicate 20 65) (ascii ''000000'') 100000000000 None = Inr 2"
  "verify_totp_code (wl_hmac demo_web) (replicate 20 65) (ascii ''000000'') 100000000000 (Some 1) = Inr 2"
proof -
  have "hotp (wl_hmac demo_web) (replicate 20 65) s = 0" for s by (simp add: hotp_def demo_web_def)
  moreover have "code_matches (ascii ''000000'') 0"
    by (simp add: code_matches_def ascii_def format_six_def utf8_encode_Cons utf8_char_def byte_of_def)
  moreover have "is_six_digit_code (ascii ''000000'')"
    by (simp add: is_six_digit_code_def ascii_def utf8_encode_Cons utf8_char_def byte_of_def str_len_def TOTP_DIGITS_def)
  ultimately show "verify_totp_code (wl_hmac demo_web) (replicate 20 65) (ascii ''000000'') 100000000000 None = Inr 2"
    "verify_totp_code (wl_hmac demo_web) (replicate 20 65) (ascii ''000000'') 100000000000 (Some 1) = Inr 2"
    by (simp_all add: verify_totp_code_def window_steps_def current_step_def TOTP_PERIOD_SECONDS_def saturating_sub_def
        TOTP_WINDOW_def word_le_nat_alt)
qed

end
