(* ===== verification/Auth_Properties.thy ===== *)
theory Auth_Properties
  imports Auth_Demo
begin

text \<open>
  The properties of the sign-in surface: whatever requests are served at once, in whatever order their calls
  interleave and whichever database calls fail, a revoked session opens nothing, the first-startup claim
  succeeds once, and a time step of an authenticator signs in once. Each rests on an invariant of
  \<open>Identity_Invariants\<close>, and on what a handler can still answer when its turns satisfy it.
\<close>

section \<open>A dead session opens nothing\<close>

lemma dead_session_not_active:
  assumes "session_dead h now store" "find_session_by_token_hash h store = Inr (Some s)"
  shows "\<not> session_is_active now s"
proof -
  from assms(2) obtain r where r: "r \<in> set (id_sessions store)" "sr_token_hash r = h" "map_stored_session r = Inr s"
    by (auto simp: find_session_by_token_hash_def result_simps find_Some_iff split: option.splits) (metis nth_mem)
  from map_stored_session_Inr(1) [OF r(3)] have "sr_revoked_at r = se_revoked_at s" "sr_expires_at r = se_expires_at s"
    by (auto simp: session_row_of_def)
  with r(1,2) assms(1) show ?thesis by (auto simp: session_dead_def token_rows_def list_all_iff session_is_active_def)
qed

text \<open>The route needs a session: always, or because the console is not open.\<close>

definition needs_session :: "web_config \<Rightarrow> auth_request \<Rightarrow> bool" where
  "needs_session cfg r \<longleftrightarrow>
     (case route_access (rx_method r) (rx_path r) (scope_of (wc_origin cfg)) of
        Public \<Rightarrow> False
      | Always roles mutation \<Rightarrow> True
      | GuardedOnly roles mutation \<Rightarrow> wc_policy cfg \<noteq> Policy_Open)"

lemma demo_needs_session: "needs_session demo_web_config (demo_request GET ''/api/v1/admin/sessions'' c)"
proof -
  have "route_access GET ''/api/v1/admin/sessions'' (scope_of Posture_Standalone) = Always ADMINISTRATOR_ONLY False"
    by code_simp
  then show ?thesis by (simp add: needs_session_def demo_request_def demo_web_config_def)
qed

text \<open>A request that has read the gate and looked up the presented session at most, and answers 401.\<close>

definition turned_away :: "byte list \<Rightarrow> response handler \<Rightarrow> bool" where
  "turned_away h p \<longleftrightarrow>
     (case p of
        Check c k \<Rightarrow> c = ReadGate
      | FindSession h' k \<Rightarrow> h' = h
      | Answer r \<Rightarrow> r = session_required
      | _ \<Rightarrow> False)"

lemma turned_away_simps [simp]:
  "turned_away h (Check c k) \<longleftrightarrow> c = ReadGate" "turned_away h (FindSession h' k') \<longleftrightarrow> h' = h"
  "turned_away h (Answer r) \<longleftrightarrow> r = session_required"
  by (simp_all add: turned_away_def)

lemma dead_session_runs:
  assumes "cookie_value (rx_parts r) SESSION_COOKIE_NAME = Some cookie" "needs_session cfg r"
  shows "runs (\<lambda>p d w. session_dead (presented_hash lib cookie) (we_resolve_now (rx_env r)) (aw_identity w))
    (turned_away (presented_hash lib cookie)) (serve lib cfg r)"
    (is "runs ?A ?G _")
proof -
  have guarded: "runs ?A ?G (guarded_handler lib (rx_env r) (rx_parts r) roles mutation k)" for roles mutation k
    unfolding guarded_handler_def resolve_session_def assms(1) option.case
    by (rule runs.call)
      (auto simp: reading_def dest: dead_session_not_active intro!: runs_Answer split: option.split)
  show ?thesis
    using assms(2) unfolding serve_def auth_middleware_def Let_def needs_session_def
    by (auto intro!: runs_open guarded split: route_access.splits auth_policy.splits simp: is_guarded_def)
qed

text \<open>
  C1: A dead session opens nothing. Whatever requests are served at once and however their calls interleave and
  fail, a request that presents a session which is revoked, or expired for its instant, on a route that needs a
  session reads the gate, looks up the session and answers 401: its handler is never reached, and nothing the
  other requests do (touching, revoking, signing in, claiming) brings the session back.
\<close>

theorem dead_session_opens_nothing:
  assumes "session_dead (presented_hash lib cookie) (we_resolve_now (rx_env (requests ! i))) (aw_identity w)"
    and "i < length requests" "cookie_value (rx_parts (requests ! i)) SESSION_COOKIE_NAME = Some cookie"
    and "needs_session cfg (requests ! i)"
  shows "turned_away (presented_hash lib cookie) (fst (served lib cfg requests schedule w) ! i)"
proof -
  have "followed (\<lambda>p d w. session_dead (presented_hash lib cookie) (we_resolve_now (rx_env (requests ! i))) (aw_identity w)) i schedule
      (map (serve lib cfg) requests, w)"
    by (rule dead_session.followed_keeps) (simp_all add: pool_ok_served assms(1))
  from runs_interleave [OF this] dead_session_runs [OF assms(3,4)] assms(2)
  show ?thesis unfolding served_def by (auto dest!: runs_guard)
qed

theorem dead_session_opens_nothing_witness:
  "\<forall>schedule w. turned_away (replicate 32 0)
     (fst (served demo_web demo_web_config
        [demo_request GET ''/api/v1/admin/sessions'' ListSessionsCall, demo_request POST ''/api/v1/auth/login'' (LoginCall demo_login)]
        schedule (w\<lparr>aw_identity := demo_identity\<rparr>)) ! 0)"
proof (intro allI)
  let ?requests = "[demo_request GET ''/api/v1/admin/sessions'' ListSessionsCall,
    demo_request POST ''/api/v1/auth/login'' (LoginCall demo_login)]"
  show "turned_away (replicate 32 0)
    (fst (served demo_web demo_web_config ?requests schedule (w\<lparr>aw_identity := demo_identity\<rparr>)) ! 0)" for schedule w
    using dead_session_opens_nothing [of demo_web "[120]" ?requests 0 "w\<lparr>aw_identity := demo_identity\<rparr>" demo_web_config schedule]
    by (simp add: demo_hash demo_dead demo_cookie demo_needs_session)
qed

section \<open>The handler behind the middleware\<close>

definition refused :: "response handler \<Rightarrow> bool" where
  "refused p \<longleftrightarrow> \<not> answers p (\<lambda>r. rs_status r = 200)"

lemma refused_Answer [simp]: "refused (Answer r) \<longleftrightarrow> rs_status r \<noteq> 200"
  by (simp add: refused_def answers_def)

lemma refused_call: "answer_of p = None \<Longrightarrow> refused p"
  by (simp add: refused_def answers_def)

lemma status_simps [simp]:
  "rs_status (json_ok b) = 200" "rs_status (json_error n m) = n" "rs_status (uncached_status n) = n"
  "rs_status password_policy_error = 400" "rs_status session_required = 401" "rs_status role_refused = 403"
  "rs_status (derivation_failure_response e) \<noteq> 200"
  by (simp_all add: json_ok_def json_error_def uncached_status_def password_policy_error_def session_required_def
      role_refused_def derivation_failure_response_def)

lemma refused_intros:
  "(\<And>x. runs A refused (k5 x)) \<Longrightarrow> runs A refused (FindPrincipal key k5)"
  "(\<And>x. runs A refused (k7 x)) \<Longrightarrow> runs A refused (FindRoleAssignment p k7)"
  "(\<And>x. runs A refused (k9 x)) \<Longrightarrow> runs A refused (FindPassword p k9)"
  "(\<And>x. runs A refused (k12 x)) \<Longrightarrow> runs A refused (FindBootstrapCode h k12)"
  "(\<And>x. runs A refused (k14 x)) \<Longrightarrow> runs A refused (Write c k14)"
  "(\<And>x. runs A refused (k15 x)) \<Longrightarrow> runs A refused (HashPassword g pw k15)"
  "(\<And>x. runs A refused (k16 x)) \<Longrightarrow> runs A refused (ReserveBudget n u ip t k16)"
  "(\<And>x. runs A refused (k17 x)) \<Longrightarrow> runs A refused (Check ch k17)"
  "runs A refused k18 \<Longrightarrow> runs A refused (Local l k18)"
  "rs_status r \<noteq> 200 \<Longrightarrow> runs A refused (Answer r)"
  by (rule runs_open runs_Answer, simp add: refused_def answers_def, assumption?)+

lemma refused_record_outcome:
  "runs A refused k \<Longrightarrow> runs A refused (record_outcome cfg ids now actor who permission action succeeded failure target k)"
  by (rule runs_record_outcome) (simp_all add: refused_call)

lemma refused_records:
  "runs A refused k \<Longrightarrow> runs A refused (record_management_event cfg ids now actor who permission action succeeded k)"
  "runs A refused k \<Longrightarrow> runs A refused (record_login_failure cfg env p k)"
  "runs A refused k \<Longrightarrow> runs A refused (dummy_password_verification password k)"
  by (auto simp: record_management_event_def record_login_failure_def dummy_password_verification_def
      intro!: refused_record_outcome refused_intros split: sum.split)

lemmas refused_rules = refused_intros refused_record_outcome refused_records

text \<open>The middleware passes the refusal of the handler on, or refuses itself.\<close>

lemma refused_map:
  assumes "runs A refused p" "\<And>p d w. A (map_handler f p) d w \<Longrightarrow> A p d w" "\<And>r. rs_status (f r) = rs_status r"
  shows "runs A refused (map_handler f p)"
  using assms(1)
proof (induction rule: runs.induct)
  case (answer p r)
  then show ?case by (auto dest!: answer_of_SomeD intro!: refused_intros simp: assms(3))
next
  case (call p)
  show ?case
    by (rule runs.call) (use call(1) in \<open>simp_all add: refused_call perform_map call(4) assms(2)\<close>)
qed

lemma serve_refused_where:
  assumes "\<And>ctx. ok ctx \<Longrightarrow> runs A refused (dispatch_call lib cfg (rx_env r) (rx_parts r) (rx_call r) ctx)"
    and "\<And>f p d w. A (map_handler f p) d w \<Longrightarrow> A p d w" "\<And>actor. ok (unauthenticated actor)"
    and "\<And>cookie p d w s assignment. cookie_value (rx_parts r) SESSION_COOKIE_NAME = Some cookie \<Longrightarrow> A p d w \<Longrightarrow>
      find_session_by_token_hash (presented_hash lib cookie) (aw_identity w) = Inr (Some s) \<Longrightarrow> ok (session_context s assignment)"
  shows "runs A refused (serve lib cfg r)"
proof -
  have status: "rs_status (reissue_cookie env rq s presented x) = rs_status x" for env rq s presented x
    by (simp add: reissue_cookie_def)
  have resolved: "runs A refused (resolve_session lib (rx_env r) (rx_parts r) mutation k)"
    if k: "runs A refused (k None)" "\<And>s assignment cookie. ok (session_context s assignment) \<Longrightarrow>
      runs A refused (k (Some (session_context s assignment, s, cookie)))"
    for mutation and k :: "(auth_context \<times> session \<times> ustring) option \<Rightarrow> response handler"
  proof (cases "cookie_value (rx_parts r) SESSION_COOKIE_NAME")
    case None
    with k(1) show ?thesis by (simp add: resolve_session_def)
  next
    case (Some cookie)
    have known: "runs A refused (FindSession (presented_hash lib cookie) K)"
      if K: "\<And>x. \<forall>s assignment. x = Inr (Some s) \<longrightarrow> ok (session_context s assignment) \<Longrightarrow> runs A refused (K x)" for K
    proof (rule runs.call)
      show "runs A refused (fst (perform d (FindSession (presented_hash lib cookie) K) w))"
        if "A (FindSession (presented_hash lib cookie) K) d w" for d w
        using assms(4) [OF Some that] by (auto simp: reading_def intro!: K)
    qed (simp_all add: refused_call)
    show ?thesis
      unfolding resolve_session_def Some option.case Let_def
      by (auto intro!: known refused_rules k split: option.split sum.split)
  qed
  have guarded: "runs A refused (guarded_handler lib (rx_env r) (rx_parts r) roles mutation k)"
    if "\<And>ctx. ok ctx \<Longrightarrow> runs A refused (k ctx)" for roles mutation k
    unfolding guarded_handler_def
    by (rule resolved) (auto intro!: refused_rules refused_map [OF _ assms(2)] status that split: option.split)
  show ?thesis
    unfolding serve_def auth_middleware_def Let_def
    by (auto intro!: refused_rules guarded assms(1,3) split: route_access.split)
qed

lemma serve_refused:
  assumes "\<And>ctx. runs A refused (dispatch_call lib cfg (rx_env r) (rx_parts r) (rx_call r) ctx)"
    and "\<And>f p d w. A (map_handler f p) d w \<Longrightarrow> A p d w"
  shows "runs A refused (serve lib cfg r)"
  by (rule serve_refused_where [where ok = "\<lambda>_. True"]) (simp_all add: assms(1), rule assms(2))

section \<open>The first-startup claim\<close>

lemma named_lookup:
  assumes "named name p store" "find_principal_by_name name store = Inr (Some u)"
  shows "pr_id u = p"
proof -
  from assms(2) obtain r where r: "r \<in> set (id_principals store)" "prr_name r = name"
    "map_stored_principal (id_tables store) r = Inr u"
    by (auto simp: find_principal_by_name_def result_simps find_Some_iff split: option.splits) (metis nth_mem)
  then have "pr_id u = prr_id r"
    by (auto simp: map_stored_principal_def principal_try_from_parts_def result_simps Let_def split: if_splits)
  with r(1,2) assms(1) show ?thesis by (auto simp: named_def list_all_iff)
qed

lemma claim_consumed_refused:
  "runs (\<lambda>q d w. \<not> claims p q d w \<and> named name p (aw_identity w)) refused
     (claim_consumed lib cfg env rq r p code enrolled h)" (is "runs ?A _ _")
proof -
  let ?k = "\<lambda>m k consumed. case consumed of Inl _ \<Rightarrow> Answer (json_error 401 m) | Inr _ \<Rightarrow> k"
  have "runs ?A refused (Write (ConsumeBootstrapCode code p c e s at) (?k m k))" for c e s at m k
  proof (rule runs.call)
    show "runs ?A refused (fst (perform d (Write (ConsumeBootstrapCode code p c e s at) (?k m k)) w))"
      if "?A (Write (ConsumeBootstrapCode code p c e s at) (?k m k)) d w" for d w
      using that by (cases "fst (consume_bootstrap_code code p c e s at (aw_identity w))")
        (auto simp: claims_def intro!: refused_intros)
  qed (simp_all add: refused_call)
  then show ?thesis unfolding claim_consumed_def Let_def by (auto intro!: refused_rules split: sum.split)
qed

lemma claim_enrollment_status: "claim_enrollment lib env body p = Inl r \<Longrightarrow> rs_status r = 400"
  by (auto simp: claim_enrollment_def result_simps split: option.splits)

lemma claim_refused:
  assumes "principal_name_parse (wl_tables lib) BOOTSTRAP_PRINCIPAL_NAME = Inr name"
  shows "runs (\<lambda>q d w. \<not> claims p q d w \<and> named name p (aw_identity w)) refused (bootstrap_complete lib cfg env rq body)"
    (is "runs ?A _ _")
proof -
  have user: "runs ?A refused (FindPrincipal (ByName name) (\<lambda>answer. case found answer of
      None \<Rightarrow> claim_failed cfg env None | Some user \<Rightarrow> k user))" if "\<And>u. pr_id u = p \<Longrightarrow> runs ?A refused (k u)" for k
    by (rule runs.call) (auto simp: reading_def refused_call claim_failed_def dest: named_lookup
      intro!: that refused_rules split: option.split)
  show ?thesis
    unfolding bootstrap_complete_def assms
    by (auto intro!: refused_rules user claim_consumed_refused simp: claim_failed_def
        dest!: claim_enrollment_status split: sum.split option.split)
qed

definition is_claim :: "auth_request \<Rightarrow> bool" where
  "is_claim r \<longleftrightarrow> (case rx_call r of ClaimCall body \<Rightarrow> True | _ \<Rightarrow> False)"

text \<open>
  C7: The first-startup claim succeeds once. Of any requests served at once, under any schedule of their calls
  and any failures of the database and of derivations, at most one claim answers 200, whatever codes the claims
  present and however many unconsumed codes are stored: the code, the password, the authenticator and the
  session are written in one transaction that a second password row refuses.
\<close>

theorem one_claim_succeeds:
  assumes "principal_name_parse (wl_tables lib) BOOTSTRAP_PRINCIPAL_NAME = Inr name" "named name p (aw_identity w)"
    and "i < length requests" "j < length requests" "i \<noteq> j" "is_claim (requests ! i)" "is_claim (requests ! j)"
  shows "refused (fst (served lib cfg requests schedule w) ! i) \<or> refused (fst (served lib cfg requests schedule w) ! j)"
proof -
  let ?s = "(map (serve lib cfg) requests, w)" and ?A = "\<lambda>q d w. \<not> claims p q d w \<and> named name p (aw_identity w)"
  have runs: "runs ?A refused (serve lib cfg r)" if "is_claim r" for r
    using that by (intro serve_refused) (auto simp: is_claim_def claims_map claim_refused [OF assms(1)] split: auth_call.splits)
  have "followed (\<lambda>q d w. \<not> claims p q d w) i schedule ?s \<or> followed (\<lambda>q d w. \<not> claims p q d w) j schedule ?s"
    using claim.at_most_one_request_hits [of ?s name p i j schedule] assms by (simp add: pool_ok_served)
  moreover have "followed (\<lambda>q d w. named name p (aw_identity w)) k schedule ?s" for k
    by (rule named_principal.followed_keeps) (simp_all add: pool_ok_served assms)
  ultimately have "followed ?A i schedule ?s \<or> followed ?A j schedule ?s" by (simp add: followed_conj)
  then show ?thesis
    unfolding served_def using runs assms by (auto dest!: runs_interleave intro: runs_guard)
qed

theorem one_claim_succeeds_witness:
  "\<forall>schedule w. let pool = fst (served demo_web demo_web_config
       [demo_request POST ''/api/v1/auth/bootstrap'' (ClaimCall demo_claim), demo_request POST ''/api/v1/auth/bootstrap'' (ClaimCall demo_claim)]
       schedule (w\<lparr>aw_identity := demo_identity\<rparr>)) in refused (pool ! 0) \<or> refused (pool ! 1)"
proof (intro allI)
  let ?requests = "[demo_request POST ''/api/v1/auth/bootstrap'' (ClaimCall demo_claim),
    demo_request POST ''/api/v1/auth/bootstrap'' (ClaimCall demo_claim)]"
  show "let pool = fst (served demo_web demo_web_config ?requests schedule (w\<lparr>aw_identity := demo_identity\<rparr>))
    in refused (pool ! 0) \<or> refused (pool ! 1)" for schedule w
    using one_claim_succeeds [OF demo_name, of 1 "w\<lparr>aw_identity := demo_identity\<rparr>" 0 ?requests 1 demo_web_config schedule]
    by (simp add: demo_named is_claim_def Let_def)
qed

section \<open>A time step signs in once\<close>

text \<open>A code of a given step, verified against any last used step, is accepted for that step or refused.\<close>

lemma verify_totp_code_step:
  assumes "verify_totp_code hmac secret code now None = Inr step" "verify_totp_code hmac secret code now last_used = Inr step'"
  shows "step' = step"
proof -
  have "match_window hmac secret code last_used steps = Inr step' \<Longrightarrow> match_window hmac secret code None steps = Inr step \<Longrightarrow> step' = step"
    for steps by (induction steps) (auto split: if_splits)
  with assms show ?thesis by (auto simp: verify_totp_code_def split: if_splits)
qed

abbreviation unrecorded :: "principal_name \<Rightarrow> totp_row \<Rightarrow> byte list \<Rightarrow> totp_step \<Rightarrow> response handler \<Rightarrow> derivation \<Rightarrow> auth_world \<Rightarrow> bool" where
  "unrecorded name row secret step \<equiv> (\<lambda>q d w. \<not> records row step q d w \<and> enrolled_with name row secret (aw_identity w))"

lemma records_hit:
  "fst (record_totp_step (tor_id row) step (aw_identity w)) = Inr True \<Longrightarrow> records row step (RecordTotpStep (tor_id row) step k) d w"
  by (simp add: records_def)

lemma enrolled_lookup:
  "enrolled_with name row secret store \<Longrightarrow> find_principal_by_name name store = Inr (Some u) \<Longrightarrow> pr_id u = tor_principal_id row"
  unfolding enrolled_with_def by (blast dest: named_lookup)

lemma refused_second_factor:
  assumes "ta_id a = tor_id row" "ta_state a = Active" "ta_secret a = secret"
    and "verify_totp_code (wl_hmac lib) secret code (we_now env) None = Inr step"
    and "runs (unrecorded name row secret step) refused failed"
  shows "runs (unrecorded name row secret step) refused (second_factor lib env (Some code) [a] failed k)"
proof (cases "verify_totp_code (wl_hmac lib) (ta_secret a) code (we_now env) (ta_last_used_step a)")
  case (Inl e)
  with assms show ?thesis by (simp add: second_factor_def)
next
  case (Inr step')
  with assms have "step' = step" by (auto dest: verify_totp_code_step)
  moreover have "runs (unrecorded name row secret step) refused
      (RecordTotpStep (tor_id row) step (\<lambda>r. if r = Inr True then k else failed))"
    by (rule runs.call) (auto simp: refused_call assms(5) dest: records_hit)
  ultimately show ?thesis using assms(1,2) Inr by (simp add: second_factor_def)
qed

lemma login_refused:
  assumes "principal_name_parse (wl_tables lib) (lq_username body) = Inr name" "lq_totp_code body = Some code"
    and "verify_totp_code (wl_hmac lib) secret code (we_now env) None = Inr step"
  shows "runs (unrecorded name row secret step) refused (login lib cfg env rq body)" (is "runs ?A _ _")
proof -
  have failed: "runs ?A refused (login_failed cfg env p)" for p
    by (simp add: login_failed_def refused_rules)
  have user: "runs ?A refused (FindPrincipal (ByName name) (\<lambda>answer. case found answer of None \<Rightarrow> x | Some user \<Rightarrow> k user))"
    if "\<And>r. \<forall>u. r = Some u \<longrightarrow> pr_id u = tor_principal_id row \<Longrightarrow> runs ?A refused (case r of None \<Rightarrow> x | Some user \<Rightarrow> k user)" for x k
    by (rule runs.call) (auto simp: reading_def refused_call dest: enrolled_lookup intro!: that)
  have second: "runs ?A refused (second_factor lib env (Some code) l (login_failed cfg env q) k)"
    if "enrolled_with name row secret store" "list_totp_authenticators (tor_principal_id row) store = Inr l" for l q k store
  proof -
    note listed = enrolled_list [OF that]
    obtain a where "l = [a]" and a: "ta_id a = tor_id row" "ta_state a = Active" "ta_secret a = secret"
      using listed by blast
    then show ?thesis by (simp only:) (rule refused_second_factor [OF a assms(3) failed])
  qed
  have codes: "runs ?A refused (ListAuthenticators p (\<lambda>answer. case answer of
      Inl e \<Rightarrow> x e | Inr l \<Rightarrow> second_factor lib env (Some code) l (login_failed cfg env q) k))"
    if "p = tor_principal_id row" "\<And>e. runs ?A refused (x e)" for p x q k
    by (rule runs.call) (auto simp: reading_def refused_call that(1) intro!: that(2) intro: second split: sum.split)
  show ?thesis
    unfolding login_def assms(1,2) by (auto intro!: refused_rules user codes failed split: sum.split option.split)
qed

definition signs_in_at ::
  "web_lib \<Rightarrow> principal_name \<Rightarrow> byte list \<Rightarrow> totp_step \<Rightarrow> auth_request \<Rightarrow> bool" where
  "signs_in_at lib name secret step r \<longleftrightarrow>
     (case rx_call r of
        LoginCall body \<Rightarrow>
          principal_name_parse (wl_tables lib) (lq_username body) = Inr name
        \<and> (case lq_totp_code body of
             None \<Rightarrow> False
           | Some code \<Rightarrow> verify_totp_code (wl_hmac lib) secret code (we_now (rx_env r)) None = Inr step)
      | _ \<Rightarrow> False)"

text \<open>
  C3: A time step of an authenticator signs in once. Of any requests served at once, under any schedule of their
  calls and any failures, two sign-ins that present the code of the same step for the same principal do not both
  answer 200: both may find the step unused when they check their codes, the guarded update of the last used
  step is what lets one of them through.
\<close>

theorem totp_step_signs_in_once:
  assumes "enrolled_with name row secret (aw_identity w)"
    and "i < length requests" "j < length requests" "i \<noteq> j"
    and "signs_in_at lib name secret step (requests ! i)" "signs_in_at lib name secret step (requests ! j)"
  shows "refused (fst (served lib cfg requests schedule w) ! i) \<or> refused (fst (served lib cfg requests schedule w) ! j)"
proof -
  let ?s = "(map (serve lib cfg) requests, w)" and ?A = "unrecorded name row secret step"
  have runs: "runs ?A refused (serve lib cfg r)" if "signs_in_at lib name secret step r" for r
    using that by (intro serve_refused)
      (auto simp: signs_in_at_def records_map login_refused split: auth_call.splits option.splits)
  have "followed (\<lambda>q d w. \<not> records row step q d w) i schedule ?s \<or> followed (\<lambda>q d w. \<not> records row step q d w) j schedule ?s"
    using sign_in.at_most_one_request_hits [of ?s name row secret i j step schedule] assms by (simp add: pool_ok_served)
  moreover have "followed (\<lambda>q d w. enrolled_with name row secret (aw_identity w)) k schedule ?s" for k
    by (rule enrolled_authenticator.followed_keeps) (simp_all add: pool_ok_served assms)
  ultimately have "followed ?A i schedule ?s \<or> followed ?A j schedule ?s" by (simp add: followed_conj)
  then show ?thesis
    unfolding served_def using runs assms by (auto dest!: runs_interleave intro: runs_guard)
qed

theorem totp_step_signs_in_once_witness:
  "\<forall>schedule w. let pool = fst (served demo_web demo_web_config
       [demo_request POST ''/api/v1/auth/login'' (LoginCall demo_login), demo_request POST ''/api/v1/auth/login'' (LoginCall demo_login)]
       schedule (w\<lparr>aw_identity := demo_identity\<rparr>)) in refused (pool ! 0) \<or> refused (pool ! 1)"
proof (intro allI)
  let ?requests = "[demo_request POST ''/api/v1/auth/login'' (LoginCall demo_login),
    demo_request POST ''/api/v1/auth/login'' (LoginCall demo_login)]"
  show "let pool = fst (served demo_web demo_web_config ?requests schedule (w\<lparr>aw_identity := demo_identity\<rparr>))
    in refused (pool ! 0) \<or> refused (pool ! 1)" for schedule w
    using totp_step_signs_in_once [of BOOTSTRAP_PRINCIPAL_NAME demo_totp_row "replicate 20 65"
        "w\<lparr>aw_identity := demo_identity\<rparr>" 0 ?requests 1 demo_web 2 demo_web_config schedule]
    by (simp add: demo_enrolled signs_in_at_def demo_login_def demo_name demo_code Let_def)
qed

section \<open>A new password ends the old sessions\<close>

abbreviation unrevoked :: "principal_id \<Rightarrow> byte list option \<Rightarrow> response handler \<Rightarrow> derivation \<Rightarrow> auth_world \<Rightarrow> bool" where
  "unrevoked p h \<equiv> (\<lambda>q d w. \<not> revokes p q d w \<and> (\<forall>k. h = Some k \<longrightarrow> session_owned k p (aw_identity w)))"

lemma revokes_hit:
  "fst (revoke_sessions_for_principal p at (aw_identity w)) = Inr n \<Longrightarrow> revokes p (RevokeSessionsOf p at k) d w"
  by (simp add: revokes_def)

lemma replace_password_refused:
  assumes "runs (unrevoked p h) refused unrev"
  shows "runs (unrevoked p h) refused (replace_password env p new_password unrev ended)"
proof -
  have "runs (unrevoked p h) refused (RevokeSessionsOf p at (case_sum (\<lambda>_. unrev) (\<lambda>_. ended)))" for at
  proof (rule runs.call)
    show "runs (unrevoked p h) refused (fst (perform d (RevokeSessionsOf p at (case_sum (\<lambda>_. unrev) (\<lambda>_. ended))) w))"
      if "unrevoked p h (RevokeSessionsOf p at (case_sum (\<lambda>_. unrev) (\<lambda>_. ended))) d w" for d w
      using that assms
      by (cases "fst (revoke_sessions_for_principal p at (aw_identity w))") (auto dest: revokes_hit)
  qed (simp_all add: refused_call)
  then show ?thesis
    unfolding replace_password_def by (auto intro!: refused_rules split: sum.split)
qed

lemma change_password_refused:
  assumes "ax_principal_id ctx = None \<or> ax_principal_id ctx = Some p"
  shows "runs (unrevoked p h) refused (change_password lib cfg env rq ctx body)"
  using assms unfolding change_password_def change_failed_def
  by (auto intro!: refused_rules replace_password_refused split: option.split)

lemma set_user_password_refused:
  assumes "wl_uuid_parse lib path_id = Some p"
  shows "runs (unrevoked p h) refused (set_user_password lib cfg env rq ctx path_id password)"
  unfolding set_user_password_def administer_user_def dummy_admin_derivation_def assms option.case
  by (auto intro!: refused_rules replace_password_refused split: option.split)

text \<open>
  The request changes the password of the principal: an administrator's for that user, or the user's own, with a
  session of his.
\<close>

definition changes_password_of ::
  "web_lib \<Rightarrow> principal_id \<Rightarrow> identity_store \<Rightarrow> auth_request \<Rightarrow> bool" where
  "changes_password_of lib p store r \<longleftrightarrow>
     (case rx_call r of
        SetUserPasswordCall path_id password \<Rightarrow> wl_uuid_parse lib path_id = Some p
      | ChangePasswordCall body \<Rightarrow>
          (case cookie_value (rx_parts r) SESSION_COOKIE_NAME of
             None \<Rightarrow> True
           | Some cookie \<Rightarrow> session_owned (presented_hash lib cookie) p store)
      | _ \<Rightarrow> False)"

lemma owned_session_principal:
  assumes "session_owned h p store" "find_session_by_token_hash h store = Inr (Some s)"
  shows "se_principal_id s = p"
proof -
  from assms(2) obtain r where r: "r \<in> set (id_sessions store)" "sr_token_hash r = h" "map_stored_session r = Inr s"
    by (auto simp: find_session_by_token_hash_def result_simps find_Some_iff split: option.splits) (metis nth_mem)
  from map_stored_session_Inr(1) [OF r(3)] have "sr_principal_id r = se_principal_id s" by (auto simp: session_row_of_def)
  with r(1,2) assms(1) show ?thesis by (auto simp: session_owned_def token_rows_def list_all_iff)
qed

lemma changes_password_runs:
  assumes "changes_password_of lib p store r"
  shows "\<exists>h. (\<forall>k. h = Some k \<longrightarrow> session_owned k p store) \<and> runs (unrevoked p h) refused (serve lib cfg r)"
proof (cases "rx_call r")
  case (SetUserPasswordCall path_id password)
  then have "runs (unrevoked p None) refused (serve lib cfg r)"
    using assms set_user_password_refused [of lib path_id p None]
    by (intro serve_refused) (simp_all add: changes_password_of_def revokes_map)
  then show ?thesis by (intro exI [of _ None]) simp
next
  case (ChangePasswordCall body)
  define h where "h = map_option (presented_hash lib) (cookie_value (rx_parts r) SESSION_COOKIE_NAME)"
  have "runs (unrevoked p h) refused (serve lib cfg r)"
  proof (rule serve_refused_where [where ok = "\<lambda>ctx. ax_principal_id ctx = None \<or> ax_principal_id ctx = Some p"])
    show "runs (unrevoked p h) refused (dispatch_call lib cfg (rx_env r) (rx_parts r) (rx_call r) ctx)"
      if "ax_principal_id ctx = None \<or> ax_principal_id ctx = Some p" for ctx
      using change_password_refused [OF that, of h] ChangePasswordCall by simp
    show "ax_principal_id (session_context s assignment) = None \<or> ax_principal_id (session_context s assignment) = Some p"
      if "cookie_value (rx_parts r) SESSION_COOKIE_NAME = Some cookie" "unrevoked p h q d w"
        "find_session_by_token_hash (presented_hash lib cookie) (aw_identity w) = Inr (Some s)" for cookie q d w s assignment
      using that owned_session_principal [OF _ that(3)] by (simp add: h_def session_context_def)
  qed (auto simp: revokes_map unauthenticated_def)
  then show ?thesis
    using assms ChangePasswordCall by (intro exI [of _ h]) (auto simp: changes_password_of_def h_def split: option.splits)
qed (use assms in \<open>simp_all add: changes_password_of_def\<close>)

text \<open>
  C22: A password change that answers 200 has ended every session of the principal that was open when it was
  requested, his own or one an administrator set, whatever other requests did in between and whatever they do
  afterwards: touching and signing out do not bring one back.
\<close>

theorem password_change_ends_sessions:
  assumes "distinct (map sr_id (id_sessions (aw_identity w)))" "i < length requests"
    and "changes_password_of lib p (aw_identity w) (requests ! i)"
  shows "refused (fst (served lib cfg requests schedule w) ! i)
    \<or> sessions_revoked (map sr_id (id_sessions (aw_identity w))) p (aw_identity (snd (served lib cfg requests schedule w)))"
proof (cases "refused (fst (served lib cfg requests schedule w) ! i)")
  case ended: False
  let ?s = "(map (serve lib cfg) requests, w)"
  obtain h where h: "\<forall>k. h = Some k \<longrightarrow> session_owned k p (aw_identity w)"
    "runs (unrevoked p h) refused (serve lib cfg (requests ! i))"
    using changes_password_runs [OF assms(3)] by blast
  have "followed (\<lambda>q d w. \<forall>k. h = Some k \<longrightarrow> session_owned k p (aw_identity w)) i schedule ?s"
  proof (cases h)
    case None
    have "followed (\<lambda>q d w. True) i schedule s" for s :: "response handler list \<times> auth_world"
      by (induction schedule arbitrary: s) simp_all
    with None show ?thesis by simp
  next
    case (Some k)
    have "followed (\<lambda>q d w. session_owned k p (aw_identity w)) i schedule ?s"
      by (rule owned_session.followed_keeps) (use h Some in \<open>simp_all add: pool_ok_served\<close>)
    with Some show ?thesis by simp
  qed
  moreover have "\<not> followed (unrevoked p h) i schedule ?s"
  proof
    assume "followed (unrevoked p h) i schedule ?s"
    then have "runs (unrevoked p h) refused (fst (interleave schedule ?s) ! i)"
      by (rule runs_interleave) (use h(2) assms(2) in simp_all)
    with ended show False by (auto simp: served_def dest: runs_guard)
  qed
  ultimately have "\<not> followed (\<lambda>q d w. \<not> revokes p q d w) i schedule ?s" by (simp add: followed_conj)
  then have "sessions_revoked (map sr_id (id_sessions (aw_identity w))) p (aw_identity (snd (served lib cfg requests schedule w)))"
    unfolding served_def by (intro revocation.hit_settles_for_good [where s = ?s and i = i])
      (use assms(1,2) in \<open>simp_all add: pool_ok_served sessions_present_def list_all_iff\<close>)
  then show ?thesis ..
qed simp

theorem password_change_ends_sessions_witness:
  "\<forall>schedule w. let (pool, w') = served demo_web demo_web_config
       [demo_request POST ''/api/v1/admin/users/1/password'' (SetUserPasswordCall [1] (ascii ''correct horse 2'')),
        demo_request POST ''/api/v1/auth/login'' (LoginCall demo_login)]
       schedule (w\<lparr>aw_identity := demo_identity\<rparr>) in refused (pool ! 0) \<or> sessions_revoked [9, 10] 1 (aw_identity w')"
proof (intro allI)
  let ?requests = "[demo_request POST ''/api/v1/admin/users/1/password'' (SetUserPasswordCall [1] (ascii ''correct horse 2'')),
    demo_request POST ''/api/v1/auth/login'' (LoginCall demo_login)]"
  show "let (pool, w') = served demo_web demo_web_config ?requests schedule (w\<lparr>aw_identity := demo_identity\<rparr>)
    in refused (pool ! 0) \<or> sessions_revoked [9, 10] 1 (aw_identity w')" for schedule w
    using password_change_ends_sessions [of "w\<lparr>aw_identity := demo_identity\<rparr>" 0 ?requests demo_web 1 demo_web_config schedule]
    by (simp add: demo_identity_def changes_password_of_def demo_web_def split_def Let_def)
qed

end
