(* ===== verification/Session_Rows.thy ===== *)
theory Session_Rows
  imports Auth_Demo
begin

text \<open>
  The session table is typed: every row reads back as a session. Every call of the boundary keeps it so, except
  one: the revocation of all sessions of a principal writes its instant without comparing it with the creation
  of the sessions, which a single revocation refuses. The handlers take the instant when the request arrives and
  revoke after a password derivation, so a sign-in in between leaves a row that no longer reads.
\<close>

definition row_readable :: "session_row \<Rightarrow> bool" where
  "row_readable r \<longleftrightarrow> (case map_stored_session r of Inl _ \<Rightarrow> False | Inr _ \<Rightarrow> True)"

definition sessions_readable :: "identity_store \<Rightarrow> bool" where
  "sessions_readable store \<longleftrightarrow> list_all row_readable (id_sessions store)"

definition session_value_ok :: "session \<Rightarrow> bool" where
  "session_value_ok s \<longleftrightarrow> session_ok s \<and> length (se_token_hash s) = 32 \<and> length (se_csrf_hash s) = 32"

text \<open>A new session is written as \<open>open_session\<close> makes it.\<close>

definition writes_valid_session :: "'r handler \<Rightarrow> bool" where
  "writes_valid_session q \<longleftrightarrow>
     (case q of
        Write c k \<Rightarrow>
          (case c of
             CreateSession s \<Rightarrow> session_value_ok s
           | ConsumeBootstrapCode i p credential a s at \<Rightarrow> session_value_ok s
           | _ \<Rightarrow> True)
      | _ \<Rightarrow> True)"

text \<open>A revocation of all sessions with an instant before the creation of one of them, and written.\<close>

definition backdates :: "'r handler \<Rightarrow> auth_world \<Rightarrow> bool" where
  "backdates q w \<longleftrightarrow>
     (case q of
        RevokeSessionsOf p at k \<Rightarrow>
          (case fst (revoke_sessions_for_principal p at (aw_identity w)) of Inl _ \<Rightarrow> False | Inr _ \<Rightarrow> True)
        \<and> list_ex (\<lambda>r. sr_principal_id r = p \<and> sr_revoked_at r = None \<and> at < sr_created_at r) (id_sessions (aw_identity w))
      | _ \<Rightarrow> False)"

section \<open>Rows\<close>

lemma row_readable_iff:
  "row_readable r \<longleftrightarrow>
     length (sr_token_hash r) = 32 \<and> length (sr_csrf_hash r) = 32 \<and> sr_created_at r < sr_expires_at r
   \<and> sr_created_at r \<le> sr_last_used_at r \<and> (\<forall>t. sr_revoked_at r = Some t \<longrightarrow> sr_created_at r \<le> t)"
  by (auto simp: row_readable_def map_stored_session_def Let_def session_try_from_parts_def map_err_def split: option.splits)

lemma row_readable_of: "session_value_ok s \<Longrightarrow> row_readable (session_row_of s)"
  by (auto simp: row_readable_iff session_value_ok_def session_ok_def session_row_of_def)

lemma read_session_value:
  assumes "read_session i store = Inr s" shows "session_value_ok s"
proof -
  from assms obtain r where "map_stored_session r = Inr s" by (auto simp: read_session_def result_simps)
  from map_stored_session_Inr [OF this] show ?thesis by (simp add: session_value_ok_def)
qed

lemma update_session_readable:
  assumes "update_session s store = Inr (a, t)" "session_value_ok s" "sessions_readable store"
  shows "sessions_readable t"
  using assms row_readable_of by (auto simp: update_session_def result_simps sessions_readable_def list_all_iff)

lemma touch_session_readable:
  assumes "sessions_readable store" shows "sessions_readable (snd (touch_session i at store))"
proof (cases "touch_session i at store" rule: prod.exhaust)
  case (Pair r t)
  from Pair [unfolded touch_session_def] show ?thesis
  proof (cases rule: transact_cases)
    case (committed a)
    then obtain s s' where s: "read_session i store = Inr s" "session_touch at s = Inr s'" "update_session s' store = Inr (a, t)"
      by (auto simp: result_simps)
    have "session_value_ok s'"
      using read_session_value [OF s(1)] s(2) session_touch_ok [OF s(2)]
      by (auto simp: session_value_ok_def session_touch_def split: if_splits)
    with s(3) assms show ?thesis by (simp add: Pair update_session_readable)
  qed (simp add: Pair assms)
qed

lemma revoke_session_readable:
  assumes "sessions_readable store" shows "sessions_readable (snd (revoke_session i at store))"
proof (cases "revoke_session i at store" rule: prod.exhaust)
  case (Pair r t)
  from Pair [unfolded revoke_session_def] show ?thesis
  proof (cases rule: transact_cases)
    case (committed a)
    then obtain s s' where s: "read_session i store = Inr s" "session_revoke at s = Inr s'" "update_session s' store = Inr (a, t)"
      by (auto simp: result_simps)
    have "session_value_ok s'"
      using read_session_value [OF s(1)] s(2) session_revoke_ok [OF s(2)]
      by (auto simp: session_value_ok_def session_revoke_def split: if_splits)
    with s(3) assms show ?thesis by (simp add: Pair update_session_readable)
  qed (simp add: Pair assms)
qed

text \<open>The revocation of all sessions, when it is written.\<close>

lemma revoke_sessions_Inr:
  assumes "revoke_sessions_for_principal p at store = (Inr n, t)"
  shows "id_sessions t = map (\<lambda>r. if sr_principal_id r = p \<and> sr_revoked_at r = None then r\<lparr>sr_revoked_at := Some at\<rparr> else r)
    (id_sessions store)"
  using permitted_Inr [OF assms [unfolded revoke_sessions_for_principal_def]]
  unfolding revoke_sessions_statement_def by (auto simp: rbind_eq_Inr)

lemma revoke_all_readable:
  assumes "sessions_readable store" "revoke_sessions_for_principal p at store = (Inr n, t)"
  shows "sessions_readable t \<longleftrightarrow>
    \<not> list_ex (\<lambda>r. sr_principal_id r = p \<and> sr_revoked_at r = None \<and> at < sr_created_at r) (id_sessions store)"
proof -
  let ?g = "\<lambda>r. if sr_principal_id r = p \<and> sr_revoked_at r = None then r\<lparr>sr_revoked_at := Some at\<rparr> else r"
  have "row_readable (?g r) \<longleftrightarrow> \<not> (sr_principal_id r = p \<and> sr_revoked_at r = None \<and> at < sr_created_at r)"
    if "r \<in> set (id_sessions store)" for r
    using assms(1) that by (auto simp: sessions_readable_def list_all_iff row_readable_iff)
  then have "list_all (\<lambda>r. row_readable (?g r)) (id_sessions store) \<longleftrightarrow>
      \<not> list_ex (\<lambda>r. sr_principal_id r = p \<and> sr_revoked_at r = None \<and> at < sr_created_at r) (id_sessions store)"
    unfolding list_all_iff list_ex_iff by blast
  then show ?thesis unfolding sessions_readable_def revoke_sessions_Inr [OF assms(2)] list.pred_map comp_def .
qed

lemma record_totp_readable: "sessions_readable store \<Longrightarrow> sessions_readable (snd (record_totp_step a step store))"
  using record_totp_effect [of a step store] by (auto simp: sessions_readable_def)

lemma write_readable:
  assumes "sessions_readable (aw_identity w)" "writes_valid_session (Write c k)"
  shows "sessions_readable (aw_identity (snd (write_service c w)))"
proof (cases rule: write_sessions [of c w])
  case untouched
  with assms(1) show ?thesis by (simp add: sessions_readable_def)
next
  case (touched i at store)
  show ?thesis using touch_session_readable [OF assms(1), of i at] touched(1) by simp
next
  case (opened s)
  then have "session_value_ok s" using assms(2) by (auto simp: writes_valid_session_def)
  with opened(1) assms(1) show ?thesis by (simp add: sessions_readable_def row_readable_of)
qed

text \<open>
  C21: Every row of the session table reads back as a session after every call of the boundary (a session it
  stores being a valid value, as the handlers make it), exactly unless the call is a written revocation of all sessions of a principal whose instant lies before the creation of one of
  them that is still open.
\<close>

theorem session_rows_stay_readable:
  assumes "sessions_readable (aw_identity w)" "writes_valid_session q"
  shows "sessions_readable (aw_identity (snd (perform d q w))) \<longleftrightarrow> \<not> backdates q w"
proof (cases q)
  case (RevokeSessionsOf p at k)
  show ?thesis
  proof (cases "revoke_sessions_for_principal p at (aw_identity w)")
    case (Pair r t)
    show ?thesis
    proof (cases r)
      case (Inl e)
      then have "t = aw_identity w" using Pair unfolding revoke_sessions_for_principal_def by (blast dest: permitted_Inl)
      then show ?thesis using RevokeSessionsOf Pair Inl assms(1) by (simp add: backdates_def)
    next
      case (Inr n)
      then show ?thesis
        using RevokeSessionsOf Pair revoke_all_readable [OF assms(1), of p at n t] by (simp add: backdates_def)
    qed
  qed
next
  case (Write c k)
  with assms write_readable [OF assms(1)] show ?thesis by (simp add: backdates_def)
qed (use assms(1) in \<open>simp_all add: backdates_def revoke_session_readable record_totp_readable\<close>)

theorem session_rows_stay_readable_witness:
  "sessions_readable (aw_identity (snd (perform Derived (RevokeSessionsOf 1 60 (\<lambda>_. Answer ())) demo_world)))
   \<and> \<not> sessions_readable (aw_identity (snd (perform Derived (RevokeSessionsOf 1 40 (\<lambda>_. Answer ())) demo_world)))"
proof -
  have readable: "sessions_readable (aw_identity demo_world)"
    by (simp add: demo_world_def demo_identity_def sessions_readable_def row_readable_iff)
  have written: "\<exists>n. fst (revoke_sessions_for_principal 1 at demo_identity) = Inr n" for at
    by (simp add: revoke_sessions_for_principal_def permitted_def revoke_sessions_statement_def call_def demo_identity_def)
  have "backdates (RevokeSessionsOf 1 40 (\<lambda>_. Answer ())) demo_world"
    "\<not> backdates (RevokeSessionsOf 1 60 (\<lambda>_. Answer ())) demo_world"
    using written [of 40] by (auto simp: backdates_def demo_world_def demo_identity_def)
  with session_rows_stay_readable [OF readable, of "RevokeSessionsOf 1 40 (\<lambda>_. Answer ())" Derived]
    session_rows_stay_readable [OF readable, of "RevokeSessionsOf 1 60 (\<lambda>_. Answer ())" Derived]
  show ?thesis by (simp add: writes_valid_session_def)
qed

text \<open>One such row, and the console cannot list the sessions any more.\<close>

theorem backdated_revocation_breaks_listing:
  assumes "fst (revoke_sessions_for_principal p at store) = Inr n" "r \<in> set (id_sessions store)" "sr_principal_id r = p"
    "sr_revoked_at r = None" "at < sr_created_at r"
  shows "\<exists>e. list_sessions p (snd (revoke_sessions_for_principal p at store)) = Inl e"
proof -
  obtain t where t: "revoke_sessions_for_principal p at store = (Inr n, t)"
    using assms(1) by (cases "revoke_sessions_for_principal p at store") simp
  let ?r = "r\<lparr>sr_revoked_at := Some at\<rparr>"
  have member: "?r \<in> set (id_sessions t)"
    unfolding revoke_sessions_Inr [OF t] using assms by (auto intro!: image_eqI [of _ _ r])
  have "\<not> row_readable ?r" using assms(5) by (auto simp: row_readable_iff)
  then obtain e where e: "map_stored_session ?r = Inl e" by (auto simp: row_readable_def split: sum.splits)
  have "\<exists>e. traverse map_stored_session rows = Inl e" if "?r \<in> set rows" for rows
    using that by (induction rows) (auto simp: e rbind_def split: sum.splits)
  then obtain e' where "traverse map_stored_session (sort_key sr_created_at (filter (\<lambda>r. sr_principal_id r = p) (id_sessions t))) = Inl e'"
    using member assms(3) by fastforce
  then show ?thesis by (auto simp: t list_sessions_def rbind_def split: sum.split)
qed

lemma list_principals_complete:
  assumes "list_principals store = Inr users" "principal_stored store p"
  shows "\<exists>user \<in> set users. pr_id user = p"
proof -
  have traversed: "traverse (map_stored_principal tables) rows = Inr us \<Longrightarrow> map pr_id us = map prr_id rows" for tables rows us
    by (induction rows arbitrary: us)
      (auto simp: result_simps map_stored_principal_def principal_try_from_parts_def Let_def split: if_splits)
  from assms(1) have "map pr_id users = map prr_id (sort_key (\<lambda>r. (prr_created_at r, prr_id r)) (id_principals store))"
    by (auto simp: list_principals_def result_simps intro: traversed)
  then have "set (map pr_id users) = set (map prr_id (sort_key (\<lambda>r. (prr_created_at r, prr_id r)) (id_principals store)))"
    by (rule arg_cong)
  then have ids: "pr_id ` set users = prr_id ` set (id_principals store)" by simp
  have "p \<in> pr_id ` set users" unfolding ids using assms(2) by (auto simp: principal_stored_def list_ex_iff)
  then show ?thesis by blast
qed

lemma collect_sessions_fails:
  assumes "\<exists>user \<in> set users. \<exists>e. list_sessions (pr_id user) (aw_identity w) = Inl e"
  shows "fst (run_alone d (collect_sessions ctx users acc) w) = uncached_status 500"
  using assms
proof (induction users arbitrary: acc)
  case (Cons user users)
  then show ?case
    by (cases "list_sessions (pr_id user) (aw_identity w)") (auto simp: run_alone_call reading_def)
qed simp

theorem backdated_revocation_breaks_console:
  assumes "fst (revoke_sessions_for_principal p at (aw_identity w)) = Inr n" "r \<in> set (id_sessions (aw_identity w))"
    "sr_principal_id r = p" "sr_revoked_at r = None" "at < sr_created_at r" "principal_stored (aw_identity w) p"
  shows "fst (run_alone d (list_sessions_handler ctx) (w\<lparr>aw_identity := snd (revoke_sessions_for_principal p at (aw_identity w))\<rparr>))
    = uncached_status 500"
proof -
  let ?t = "snd (revoke_sessions_for_principal p at (aw_identity w))"
  have listing: "\<exists>e. list_sessions p ?t = Inl e" using assms by (intro backdated_revocation_breaks_listing)
  have "principal_stored ?t p"
    using revoke_sessions_effect [of p at "aw_identity w"] assms(6) by (auto simp: principal_stored_def)
  then have some: "\<exists>user \<in> set users. \<exists>e. list_sessions (pr_id user) ?t = Inl e" if "list_principals ?t = Inr users" for users
    using list_principals_complete [OF that] listing by metis
  show ?thesis
  proof (cases "list_principals ?t")
    case (Inr users)
    with collect_sessions_fails [of users "w\<lparr>aw_identity := ?t\<rparr>"] some [OF Inr] show ?thesis
      by (simp add: list_sessions_handler_def run_alone_call reading_def)
  qed (simp add: list_sessions_handler_def run_alone_call reading_def)
qed

end
