(* ===== verification/Sign_In.thy ===== *)
theory Sign_In
  imports Auth_Demo
begin

text \<open>
  Signing in, served alone: with the right password, the right code where one is due and a store that answers,
  the sign-in answers 200 and opens a session, which the next request is resolved to when it sends back the
  cookie and the anti-forgery token of the answer.
\<close>

lemma run_alone_record_outcome:
  "\<exists>facts. run_alone d (record_outcome cfg ids now actor who permission action succeeded failure target k) w
     = run_alone d k (w\<lparr>aw_facts := facts\<rparr>)"
proof -
  have same: "\<exists>facts. run_alone d k w = run_alone d k (w\<lparr>aw_facts := facts\<rparr>)"
    by (rule exI [of _ "aw_facts w"]) simp
  have local: "run_alone d (Local (AppendFact event) p) v = run_alone d p (v\<lparr>aw_facts := aw_facts v @ [event]\<rparr>)" for event p v
    by (simp add: run_alone_call)
  show ?thesis
    unfolding record_outcome_def using same
    by (auto simp: local split: prod.split sum.split option.split)
qed

text \<open>The second factor is not due, or its code is good and its step is recorded.\<close>

definition second_factor_passes ::
  "web_lib \<Rightarrow> web_env \<Rightarrow> ustring option \<Rightarrow> totp_authenticator list \<Rightarrow> identity_store \<Rightarrow> bool" where
  "second_factor_passes lib env code authenticators store \<longleftrightarrow>
     (case List.find (\<lambda>a. ta_state a = Active) authenticators of
        None \<Rightarrow> True
      | Some a \<Rightarrow> (case code of
          None \<Rightarrow> False
        | Some code \<Rightarrow> (case verify_totp_code (wl_hmac lib) (ta_secret a) code (we_now env) (ta_last_used_step a) of
              Inl _ \<Rightarrow> False
            | Inr step \<Rightarrow> fst (record_totp_step (ta_id a) step store) = Inr True)))"

lemma run_second_factor:
  assumes "second_factor_passes lib env code authenticators (aw_identity w)"
  shows "\<exists>rows. run_alone d (second_factor lib env code authenticators failed k) w
    = run_alone d k (w\<lparr>aw_identity := (aw_identity w)\<lparr>id_totps := rows\<rparr>\<rparr>)"
proof (cases "List.find (\<lambda>a. ta_state a = Active) authenticators")
  case None
  then show ?thesis by (intro exI [of _ "id_totps (aw_identity w)"]) (simp add: second_factor_def)
next
  case (Some a)
  then obtain c step where code: "code = Some c"
    "verify_totp_code (wl_hmac lib) (ta_secret a) c (we_now env) (ta_last_used_step a) = Inr step"
    "fst (record_totp_step (ta_id a) step (aw_identity w)) = Inr True"
    using assms by (auto simp: second_factor_passes_def split: option.splits sum.splits)
  show ?thesis
    using Some code record_totp_True(3) [OF code(3)]
    by (intro exI) (simp add: second_factor_def run_alone_call on_identity_def split_def Let_def)
qed

lemma run_login_verified:
  assumes "issue_tokens lib env = Inr tokens"
    and "fst (create_session (open_session env p tokens) (aw_identity w)) = Inr ()"
  shows "\<exists>limiter facts. run_alone d (login_verified lib cfg env rq body r p) w
    = (signed_in_response env rq tokens (open_session env p tokens),
       w\<lparr>aw_limiter := limiter, aw_identity := snd (create_session (open_session env p tokens) (aw_identity w)), aw_facts := facts\<rparr>)"
proof -
  let ?s = "open_session env p tokens"
  obtain l where l: "run_alone d (login_verified lib cfg env rq body r p) w
      = run_alone d (record_login_success cfg env p (Answer (signed_in_response env rq tokens ?s)))
          (w\<lparr>aw_limiter := l, aw_identity := snd (create_session ?s (aw_identity w))\<rparr>)"
    using assms by (simp add: login_verified_def run_alone_call on_identity_def split_def Let_def)
  show ?thesis
    unfolding l record_login_success_def
    using run_alone_record_outcome [of d cfg "we_audit_ids env" "we_now env" Actor_User "Some p" Perm_Authenticate Action_Login
        True None None "Answer (signed_in_response env rq tokens ?s)"
        "w\<lparr>aw_limiter := l, aw_identity := snd (create_session ?s (aw_identity w))\<rparr>"]
    by auto
qed

text \<open>The account of a sign-in: the principal, the password and the second factor.\<close>

definition account_accepts ::
  "web_lib \<Rightarrow> web_env \<Rightarrow> login_request \<Rightarrow> principal \<Rightarrow> auth_world \<Rightarrow> bool" where
  "account_accepts lib env body user w \<longleftrightarrow>
     (case principal_name_parse (wl_tables lib) (lq_username body) of
        Inl _ \<Rightarrow> False
      | Inr name \<Rightarrow> find_principal_by_name name (aw_identity w) = Inr (Some user))
   \<and> pr_state user = Enabled
   \<and> (case find_password_credential (pr_id user) (aw_identity w) of
        Inr (Some credential) \<Rightarrow> argon2id_verify (aw_argon2 w) (lq_password body) (pc_hash credential)
      | _ \<Rightarrow> False)
   \<and> (case list_totp_authenticators (pr_id user) (aw_identity w) of
        Inl _ \<Rightarrow> False
      | Inr authenticators \<Rightarrow> second_factor_passes lib env (lq_totp_code body) authenticators (aw_identity w))"

lemma run_login:
  assumes "password_satisfies_policy (lq_password body)" "account_accepts lib env body user w"
    and "fst (reserve (id_tables (aw_identity w)) (lq_username body) (request_ip lib rq) (we_rate_now env) (aw_limiter w SignIn)) = Some r"
  shows "\<exists>l rows. run_alone Derived (login lib cfg env rq body) w
    = run_alone Derived (login_verified lib cfg env rq body r (pr_id user))
        (w\<lparr>aw_limiter := l, aw_identity := (aw_identity w)\<lparr>id_totps := rows\<rparr>\<rparr>)"
proof -
  obtain name credential authenticators where
    account: "principal_name_parse (wl_tables lib) (lq_username body) = Inr name"
      "find_principal_by_name name (aw_identity w) = Inr (Some user)" "pr_state user = Enabled"
      "find_password_credential (pr_id user) (aw_identity w) = Inr (Some credential)"
      "argon2id_verify (aw_argon2 w) (lq_password body) (pc_hash credential)"
      "list_totp_authenticators (pr_id user) (aw_identity w) = Inr authenticators"
      "second_factor_passes lib env (lq_totp_code body) authenticators (aw_identity w)"
    using assms(2) by (auto simp: account_accepts_def split: sum.splits option.splits)
  let ?l = "(aw_limiter w)(SignIn := snd (reserve (id_tables (aw_identity w)) (lq_username body) (request_ip lib rq)
    (we_rate_now env) (aw_limiter w SignIn)))"
  let ?failed = "login_failed cfg env (Some (pr_id user))" and ?k = "login_verified lib cfg env rq body r (pr_id user)"
  have step: "run_alone Derived (login lib cfg env rq body) w
      = run_alone Derived (second_factor lib env (lq_totp_code body) authenticators (login_failed cfg env (Some (pr_id user)))
          (login_verified lib cfg env rq body r (pr_id user))) (w\<lparr>aw_limiter := ?l\<rparr>)"
    using account assms(1,3)
    by (simp add: login_def run_alone_call reading_def on_limiter_def split_def Let_def verify_password_async_def)
  have "second_factor_passes lib env (lq_totp_code body) authenticators (aw_identity (w\<lparr>aw_limiter := ?l\<rparr>))"
    using account(7) by simp
  from run_second_factor [OF this, of Derived ?failed ?k] obtain rows where
    rows: "run_alone Derived (second_factor lib env (lq_totp_code body) authenticators ?failed ?k) (w\<lparr>aw_limiter := ?l\<rparr>)
      = run_alone Derived ?k (w\<lparr>aw_limiter := ?l, aw_identity := (aw_identity w)\<lparr>id_totps := rows\<rparr>\<rparr>)" by auto
  show ?thesis unfolding step rows by blast
qed

text \<open>The session is new, its principal is stored, and the database answers.\<close>

definition session_can_open :: "session \<Rightarrow> identity_store \<Rightarrow> bool" where
  "session_can_open s store \<longleftrightarrow>
     \<not> id_fault store CenterPermit \<and> \<not> id_fault store CenterBegin \<and> \<not> id_fault store CenterInsert
   \<and> \<not> id_fault store CenterCommit \<and> \<not> id_fault store CenterQuery
   \<and> \<not> list_ex (\<lambda>r. sr_id r = se_id s \<or> sr_token_hash r = se_token_hash s) (id_sessions store)
   \<and> principal_stored store (se_principal_id s)"

lemma create_session_opens:
  assumes "session_can_open s store"
  shows "create_session s store = (Inr (), store\<lparr>id_sessions := id_sessions store @ [session_row_of s]\<rparr>)"
  using assms by (auto simp: session_can_open_def create_session_def transact_def insert_session_row_def call_def)

lemma opened_session_found:
  assumes "session_can_open s store" "session_ok s" "length (se_token_hash s) = 32" "length (se_csrf_hash s) = 32"
  shows "find_session_by_token_hash (se_token_hash s) (store\<lparr>id_sessions := id_sessions store @ [session_row_of s]\<rparr>) = Inr (Some s)"
proof -
  have "List.find (\<lambda>r. sr_token_hash r = se_token_hash s) (id_sessions store) = None"
    using assms(1) by (auto simp: session_can_open_def list_ex_iff find_None_iff)
  then have "List.find (\<lambda>r. sr_token_hash r = se_token_hash s) (id_sessions store @ [session_row_of s]) = Some (session_row_of s)"
    by (simp add: find_append session_row_of_def)
  then show ?thesis
    using assms session_row_roundtrip [OF assms(2-4)]
    by (simp add: find_session_by_token_hash_def call_def session_can_open_def)
qed

section \<open>The cookie that is sent back\<close>

definition visible :: "nat \<Rightarrow> bool" where
  "visible c \<longleftrightarrow> 32 \<le> c \<and> c < 127"

definition base64url_char :: "nat \<Rightarrow> bool" where
  "base64url_char c \<longleftrightarrow> 65 \<le> c \<and> c \<le> 90 \<or> 97 \<le> c \<and> c \<le> 122 \<or> 48 \<le> c \<and> c \<le> 57 \<or> c = 45 \<or> c = 95"

lemma base64url_char_facts:
  assumes "base64url_char c" shows "visible c" "\<not> is_whitespace c" "c \<noteq> 59"
  using assms by (auto simp: base64url_char_def visible_def is_whitespace_def)

lemma header_value_visible: "list_all visible s \<Longrightarrow> header_value_ok s"
proof (induction s)
  case (Cons c s)
  then have "utf8_char c = [byte_of c]" "unat (byte_of c) = c"
    by (simp_all add: visible_def utf8_char_def unat_byte_of_small)
  with Cons show ?case by (auto simp: header_value_ok_def utf8_encode_Cons visible_def)
qed (simp add: header_value_ok_def)

lemma decimal_visible: "list_all visible (decimal n)"
proof (induction n rule: decimal.induct)
  case (1 n)
  have digit: "visible (48 + k)" if "k < 10" for k using that by (simp add: visible_def)
  show ?case by (subst decimal.simps) (use 1 digit in auto)
qed

lemma trim_unspaced:
  assumes "list_all (\<lambda>c. \<not> is_whitespace c) s" shows "trim s = s"
proof -
  have kept: "dropWhile is_whitespace s = s" if "list_all (\<lambda>c. \<not> is_whitespace c) s" for s
    using that by (cases s) simp_all
  have "list_all (\<lambda>c. \<not> is_whitespace c) (rev s)" using assms by (simp add: list_all_iff)
  with kept [OF assms] kept [of "rev s"] show ?thesis by (simp add: trim_def trim_start_def trim_end_def)
qed

lemma split_on_unsplit: "list_all (\<lambda>x. x \<noteq> c) s \<Longrightarrow> split_on c s = [s]"
  by (induction s) simp_all

text \<open>A browser sends back the name and the value, which end at the first semicolon.\<close>

definition cookie_pair :: "ustring \<Rightarrow> ustring" where
  "cookie_pair cookie = takeWhile (\<lambda>c. c \<noteq> 59) cookie"

lemma session_cookie_pair:
  assumes "list_all base64url_char tok"
  shows "cookie_pair (session_cookie tok expires_at utc_now secure) = SESSION_COOKIE_NAME @ ascii ''='' @ tok"
proof -
  have tok: "list_all visible tok" "\<forall>c \<in> set tok. c \<noteq> 59"
    using assms base64url_char_facts by (auto simp: list_all_iff)
  have fixed: "list_all visible (SESSION_COOKIE_NAME @ ascii ''='')" "\<forall>c \<in> set (SESSION_COOKIE_NAME @ ascii ''=''). c \<noteq> 59"
    "list_all visible (ascii ''; Path=/; HttpOnly; SameSite=Strict; Max-Age='')" "list_all visible (ascii ''; Secure'')"
    by (simp_all add: SESSION_COOKIE_NAME_def ascii_def visible_def)
  let ?rest = "decimal (nat (max 0 ((expires_at - utc_now) div 1000000000))) @ (if secure then ascii ''; Secure'' else [])"
  have "header_value_ok ((SESSION_COOKIE_NAME @ ascii ''='') @ tok @ ascii ''; Path=/; HttpOnly; SameSite=Strict; Max-Age='' @ ?rest)"
    using fixed tok decimal_visible by (intro header_value_visible) (simp only: list_all_append, simp)
  then have "session_cookie tok expires_at utc_now secure
      = (SESSION_COOKIE_NAME @ ascii ''='') @ tok @ ascii ''; Path=/; HttpOnly; SameSite=Strict; Max-Age='' @ ?rest"
    by (simp add: session_cookie_def Let_def)
  moreover have "takeWhile (\<lambda>c. c \<noteq> 59) (ascii ''; Path=/; HttpOnly; SameSite=Strict; Max-Age='' @ ?rest) = []"
    by (simp add: ascii_def)
  ultimately show ?thesis
    unfolding cookie_pair_def using fixed(2) tok(2) by (simp only: takeWhile_append2 append_assoc append_Nil2) auto
qed

lemma cookie_value_pair:
  assumes "wq_cookie rq = Some (SESSION_COOKIE_NAME @ ascii ''='' @ tok)" "list_all base64url_char tok"
  shows "cookie_value rq SESSION_COOKIE_NAME = Some tok"
proof -
  have tok: "list_all (\<lambda>c. \<not> is_whitespace c) tok" "list_all (\<lambda>c. c \<noteq> 59) tok"
    using assms(2) base64url_char_facts by (auto simp: list_all_iff)
  have name: "list_all (\<lambda>c. \<not> is_whitespace c) (SESSION_COOKIE_NAME @ ascii ''='')"
    "list_all (\<lambda>c. c \<noteq> 59) (SESSION_COOKIE_NAME @ ascii ''='')"
    by (simp_all add: SESSION_COOKIE_NAME_def ascii_def is_whitespace_def)
  have "split_on 59 (SESSION_COOKIE_NAME @ ascii ''='' @ tok) = [SESSION_COOKIE_NAME @ ascii ''='' @ tok]"
    using name(2) tok(2) by (intro split_on_unsplit) simp
  moreover have "trim (SESSION_COOKIE_NAME @ ascii ''='' @ tok) = SESSION_COOKIE_NAME @ ascii ''='' @ tok"
    using name(1) tok(1) by (intro trim_unspaced) simp
  ultimately show ?thesis by (simp add: cookie_value_def assms(1) trim_unspaced [OF tok(1)])
qed

lemma account_lookups:
  "find_principal i (store\<lparr>id_totps := a, id_sessions := b\<rparr>) = find_principal i store"
  "find_role_assignment i (store\<lparr>id_totps := a, id_sessions := b\<rparr>) = find_role_assignment i store"
  by (simp_all add: find_principal_def find_role_assignment_def cong: option.case_cong)

text \<open>The request that sends back what an answer set and said.\<close>

definition presents :: "response \<Rightarrow> web_request \<Rightarrow> bool" where
  "presents r rq \<longleftrightarrow>
     wq_cookie rq = map_option cookie_pair (rs_set_cookie r) \<and> (case rs_body r of Body_Csrf csrf \<Rightarrow> wq_csrf rq = Some csrf | _ \<Rightarrow> False)"

lemma run_resolve_session:
  assumes "cookie_value rq SESSION_COOKIE_NAME = Some cookie"
    and "find_session_by_token_hash (presented_hash lib cookie) (aw_identity w) = Inr (Some s)"
    and "session_is_active (we_resolve_now env) s" "csrf_matches lib rq (se_csrf_hash s)"
    and "find_principal (se_principal_id s) (aw_identity w) = Inr (Some user)" "pr_state user = Enabled"
    and "find_role_assignment (se_principal_id s) (aw_identity w) = Inr assignment"
  shows "\<exists>w'. (w' = w \<or> w' = snd (write_service (TouchSession (se_id s) (we_resolve_now env)) w))
    \<and> (\<forall>mutation k. run_alone d (resolve_session lib env rq mutation k) w
        = run_alone d (k (Some (session_context s assignment, s, cookie))) w')"
  by (rule exI [of _ "if we_resolve_now env - se_last_used_at s \<ge> TOUCH_INTERVAL
      then snd (write_service (TouchSession (se_id s) (we_resolve_now env)) w) else w"])
    (use assms in \<open>simp add: resolve_session_def run_alone_call reading_def Let_def split_def\<close>)

section \<open>Tokens\<close>

text \<open>
  What the crates promise of a token: its base64url form is of that alphabet and decodes to it, and its digest has
  32 bytes.
\<close>

definition token_ok :: "web_lib \<Rightarrow> session_token \<Rightarrow> bool" where
  "token_ok lib tok \<longleftrightarrow>
     length tok = TOKEN_LENGTH \<and> list_all base64url_char (base64url_encode (wl_tokens lib) tok)
   \<and> base64url_decode (wl_tokens lib) (base64url_encode (wl_tokens lib) tok) = Some tok
   \<and> length (sha256 (wl_tokens lib) tok) = 32"

definition tokens_ok :: "web_lib \<Rightarrow> web_env \<Rightarrow> bool" where
  "tokens_ok lib env \<longleftrightarrow>
     (case (we_session_token env, we_csrf_token env) of
        (Some st, Some ct) \<Rightarrow> token_ok lib st \<and> token_ok lib ct
      | _ \<Rightarrow> False)"

lemma issued_tokens:
  assumes "tokens_ok lib env"
  obtains tokens where "issue_tokens lib env = Inr tokens"
    "presented_hash lib (it_session_token tokens) = it_session_token_hash tokens"
    "presented_hash lib (it_csrf_token tokens) = it_csrf_token_hash tokens"
    "length (it_session_token_hash tokens) = 32" "length (it_csrf_token_hash tokens) = 32"
    "list_all base64url_char (it_session_token tokens)"
proof -
  from assms obtain st ct where st: "we_session_token env = Some st" "we_csrf_token env = Some ct" "token_ok lib st" "token_ok lib ct"
    by (auto simp: tokens_ok_def split: option.splits)
  have wire: "token_from_base64url (wl_tokens lib) (token_as_base64url (wl_tokens lib) tok) = Inr tok" if "token_ok lib tok" for tok
    using that by (intro token_roundtrip) (simp_all add: token_ok_def)
  show ?thesis
    by (rule that [of "\<lparr>it_session_token = token_as_base64url (wl_tokens lib) st, it_session_token_hash = sha256 (wl_tokens lib) st,
        it_csrf_token = token_as_base64url (wl_tokens lib) ct, it_csrf_token_hash = sha256 (wl_tokens lib) ct\<rparr>"])
      (use st wire [OF st(3)] wire [OF st(4)] in
      \<open>simp_all add: issue_tokens_def token_generate_def presented_hash_def token_digest_def token_ok_def token_as_base64url_def\<close>)
qed

lemma open_session_ok: "session_ok (open_session env p tokens)"
  by (simp add: session_ok_def open_session_def session_new_def SESSION_LIFETIME_def)

lemma open_session_fields [simp]:
  "se_token_hash (open_session env p tokens) = it_session_token_hash tokens"
  "se_csrf_hash (open_session env p tokens) = it_csrf_token_hash tokens"
  "se_principal_id (open_session env p tokens) = p"
  by (simp_all add: open_session_def session_new_def)

text \<open>The whole sign-in: the answer, and a store with the new session and the recorded step.\<close>

lemma sign_in_run:
  assumes "password_satisfies_policy (lq_password body)" "account_accepts lib env body user w" "issue_tokens lib env = Inr tokens"
    and "fst (reserve (id_tables (aw_identity w)) (lq_username body) (request_ip lib rq) (we_rate_now env) (aw_limiter w SignIn)) \<noteq> None"
    and "session_can_open (open_session env (pr_id user) tokens) (aw_identity w)"
  shows "\<exists>w' rows. run_alone Derived (login lib cfg env rq body) w
      = (signed_in_response env rq tokens (open_session env (pr_id user) tokens), w')
    \<and> aw_identity w' = (aw_identity w)\<lparr>id_totps := rows,
        id_sessions := id_sessions (aw_identity w) @ [session_row_of (open_session env (pr_id user) tokens)]\<rparr>"
proof -
  let ?s = "open_session env (pr_id user) tokens"
  obtain r where "fst (reserve (id_tables (aw_identity w)) (lq_username body) (request_ip lib rq) (we_rate_now env)
      (aw_limiter w SignIn)) = Some r" using assms(4) by blast
  from run_login [OF assms(1,2) this] obtain l rows where run: "run_alone Derived (login lib cfg env rq body) w
      = run_alone Derived (login_verified lib cfg env rq body r (pr_id user))
          (w\<lparr>aw_limiter := l, aw_identity := (aw_identity w)\<lparr>id_totps := rows\<rparr>\<rparr>)" by blast
  let ?store = "(aw_identity w)\<lparr>id_totps := rows\<rparr>"
  have "session_can_open ?s ?store" using assms(5) by (simp add: session_can_open_def principal_stored_def)
  note created = create_session_opens [OF this]
  have "fst (create_session ?s (aw_identity (w\<lparr>aw_limiter := l, aw_identity := ?store\<rparr>))) = Inr ()" by (simp add: created)
  from run_login_verified [OF assms(3) this, of Derived cfg rq body r] show ?thesis
    unfolding run by (auto simp: created)
qed

text \<open>
  C5: Signing in works, and its answer is good for the next request. Served alone, with a password the account
  accepts, its code where one is due, a free slot in the budget and a store that answers, the sign-in answers 200,
  adds one session and leaves every other as it was. A request that sends back the cookie as a browser does and
  the anti-forgery token of the body, before the session expires, is resolved to exactly that session, its principal
  and his role, for a mutating route as for a reading one; it writes nothing but the last use of the session.
\<close>

theorem sign_in_opens_the_session_of_its_cookie:
  assumes "password_satisfies_policy (lq_password body)" "account_accepts lib env body user w" "tokens_ok lib env"
    and "fst (reserve (id_tables (aw_identity w)) (lq_username body) (request_ip lib rq) (we_rate_now env) (aw_limiter w SignIn)) \<noteq> None"
    and "\<And>tokens. issue_tokens lib env = Inr tokens \<Longrightarrow> session_can_open (open_session env (pr_id user) tokens) (aw_identity w)"
    and "find_principal (pr_id user) (aw_identity w) = Inr (Some user)"
    and "find_role_assignment (pr_id user) (aw_identity w) = Inr assignment"
  shows "\<exists>r s w'. run_alone Derived (login lib cfg env rq body) w = (r, w') \<and> rs_status r = 200
    \<and> id_sessions (aw_identity w') = id_sessions (aw_identity w) @ [session_row_of s]
    \<and> se_id s = we_session_id env \<and> se_principal_id s = pr_id user \<and> se_created_at s = we_now env
    \<and> se_expires_at s = we_now env + SESSION_LIFETIME \<and> se_revoked_at s = None
    \<and> (\<forall>env' rq'. presents r rq' \<and> we_resolve_now env' < we_now env + SESSION_LIFETIME \<longrightarrow>
        (\<exists>cookie w''. (w'' = w' \<or> w'' = snd (write_service (TouchSession (se_id s) (we_resolve_now env')) w'))
          \<and> (\<forall>mutation k. run_alone Derived (resolve_session lib env' rq' mutation k) w'
              = run_alone Derived (k (Some (session_context s assignment, s, cookie))) w'')))"
proof -
  obtain tokens where tokens: "issue_tokens lib env = Inr tokens"
    "presented_hash lib (it_session_token tokens) = it_session_token_hash tokens"
    "presented_hash lib (it_csrf_token tokens) = it_csrf_token_hash tokens"
    "length (it_session_token_hash tokens) = 32" "length (it_csrf_token_hash tokens) = 32"
    "list_all base64url_char (it_session_token tokens)"
    using assms(3) by (rule issued_tokens)
  let ?s = "open_session env (pr_id user) tokens" and ?r = "signed_in_response env rq tokens (open_session env (pr_id user) tokens)"
  obtain w' rows where run: "run_alone Derived (login lib cfg env rq body) w = (?r, w')"
    and w': "aw_identity w' = (aw_identity w)\<lparr>id_totps := rows, id_sessions := id_sessions (aw_identity w) @ [session_row_of ?s]\<rparr>"
    using sign_in_run [OF assms(1,2) tokens(1) assms(4) assms(5) [OF tokens(1)]] by blast
  have found: "find_session_by_token_hash (it_session_token_hash tokens) (aw_identity w') = Inr (Some ?s)"
    using opened_session_found [of ?s "(aw_identity w)\<lparr>id_totps := rows\<rparr>", OF _ open_session_ok] assms(5) [OF tokens(1)] tokens(4,5)
    by (simp add: w' session_can_open_def principal_stored_def)
  have account: "find_principal (pr_id user) (aw_identity w') = Inr (Some user)" "pr_state user = Enabled"
    "find_role_assignment (pr_id user) (aw_identity w') = Inr assignment"
    using assms(2,6,7) by (simp_all add: w' account_lookups account_accepts_def)
  have resolved: "\<exists>w''. (w'' = w' \<or> w'' = snd (write_service (TouchSession (se_id ?s) (we_resolve_now env')) w'))
      \<and> (\<forall>mutation k. run_alone Derived (resolve_session lib env' rq' mutation k) w'
          = run_alone Derived (k (Some (session_context ?s assignment, ?s, it_session_token tokens))) w'')"
    if "presents ?r rq'" "we_resolve_now env' < we_now env + SESSION_LIFETIME" for env' rq'
  proof (rule run_resolve_session)
    have sent: "wq_cookie rq' = Some (SESSION_COOKIE_NAME @ ascii ''='' @ it_session_token tokens)"
      "wq_csrf rq' = Some (it_csrf_token tokens)"
      using that(1) session_cookie_pair [OF tokens(6)] by (simp_all add: presents_def signed_in_response_def json_ok_def)
    then show "cookie_value rq' SESSION_COOKIE_NAME = Some (it_session_token tokens)"
      using tokens(6) by (intro cookie_value_pair)
    show "csrf_matches lib rq' (se_csrf_hash ?s)"
      using tokens(3) by (simp add: csrf_matches_def sent(2) constant_time_eq_iff)
    show "session_is_active (we_resolve_now env') ?s"
      using that(2) by (simp add: session_is_active_def open_session_def session_new_def)
  qed (use found account tokens(2) in simp_all)
  have fields: "rs_status ?r = 200" "id_sessions (aw_identity w') = id_sessions (aw_identity w) @ [session_row_of ?s]"
    "se_id ?s = we_session_id env" "se_principal_id ?s = pr_id user" "se_created_at ?s = we_now env"
    "se_expires_at ?s = we_now env + SESSION_LIFETIME" "se_revoked_at ?s = None"
    by (simp_all add: w' signed_in_response_def json_ok_def open_session_def session_new_def)
  show ?thesis
    by (rule exI [of _ ?r], rule exI [of _ ?s], rule exI [of _ w'])
      (intro conjI allI impI run fields exI [of _ "it_session_token tokens"], elim conjE, rule resolved)
qed

section \<open>A concrete sign-in\<close>

lemma demo_user: "find_principal_by_name BOOTSTRAP_PRINCIPAL_NAME demo_identity =
  Inr (Some \<lparr>pr_id = 1, pr_name = BOOTSTRAP_PRINCIPAL_NAME, pr_state = Enabled, pr_created_at = 0, pr_updated_at = 0\<rparr>)"
  using demo_name
  by (simp add: find_principal_by_name_def call_def demo_identity_def map_stored_principal_def Let_def
      principal_try_from_parts_def principal_state_from_str_def principal_state_codes_def)

lemma demo_password: "find_password_credential 1 demo_identity =
  Inr (Some \<lparr>pc_principal_id = 1, pc_hash = \<lparr>ah_salt = replicate 16 0, ah_hash = replicate 32 0\<rparr>, pc_changed_at = 0\<rparr>)"
  by (simp add: find_password_credential_def call_def demo_identity_def argon2id_from_parts_def ARGON2ID_SALT_LENGTH_def
      ARGON2ID_HASH_LENGTH_def password_credential_try_from_parts_def)

lemma demo_authenticators: "list_totp_authenticators 1 demo_identity =
  Inr [\<lparr>ta_id = 7, ta_principal_id = 1, ta_secret = replicate 20 65, ta_state = Active, ta_created_at = 0,
    ta_activated_at = Some 1, ta_last_used_step = Some 1\<rparr>]"
proof -
  have secret: "decrypt_stored_secret demo_lib (replicate 32 1) 7 (tor_secret demo_totp_row) = Inr (replicate 20 65)"
    by (rule demo_secret)
  have "map_stored_authenticator demo_identity demo_totp_row =
    Inr \<lparr>ta_id = 7, ta_principal_id = 1, ta_secret = replicate 20 65, ta_state = Active, ta_created_at = 0,
      ta_activated_at = Some 1, ta_last_used_step = Some 1\<rparr>"
    using secret
    by (simp add: map_stored_authenticator_def demo_totp_row_def demo_identity_def Let_def totp_state_from_str_def
        totp_state_codes_def step_from_db_def totp_try_from_parts_def TOTP_SECRET_LENGTH_def)
  then show ?thesis
    by (simp add: list_totp_authenticators_def call_def) (simp add: demo_identity_def demo_totp_row_def)
qed

lemma demo_step: "fst (record_totp_step 7 2 demo_identity) = Inr True"
  by (simp add: record_totp_step_def permitted_def record_totp_statement_def step_to_db_def call_def demo_identity_def
      demo_totp_row_def step_guard_def)

lemma demo_account:
  "account_accepts demo_web (demo_env 100000000000) demo_login
     \<lparr>pr_id = 1, pr_name = BOOTSTRAP_PRINCIPAL_NAME, pr_state = Enabled, pr_created_at = 0, pr_updated_at = 0\<rparr> demo_world"
proof -
  have "aw_identity demo_world = demo_identity" "aw_argon2 demo_world argon2_params password salt = Some (replicate 32 0)"
    "lq_username demo_login = BOOTSTRAP_PRINCIPAL_NAME" "lq_totp_code demo_login = Some (ascii ''000000'')" for password salt
    by (simp_all add: demo_world_def demo_login_def)
  then show ?thesis
    by (simp add: account_accepts_def demo_name demo_user demo_password demo_authenticators second_factor_passes_def
        demo_code demo_step argon2id_verify_def constant_time_eq_iff)
qed

lemma demo_budget:
  "fst (reserve tables username ip now limiter_new) \<noteq> None"
  by (simp add: reserve_def limiter_new_def reserve_username_key_def reserve_ip_key_def bucket_map_new_def bucket_entry_def
      bucket_of_def prune_front_def put_bucket_def Let_def USERNAME_FAILURE_LIMIT_def IP_FAILURE_LIMIT_def)

lemma demo_principal: "find_principal 1 demo_identity =
  Inr (Some \<lparr>pr_id = 1, pr_name = BOOTSTRAP_PRINCIPAL_NAME, pr_state = Enabled, pr_created_at = 0, pr_updated_at = 0\<rparr>)"
  using demo_name
  by (simp add: find_principal_def call_def demo_identity_def map_stored_principal_def Let_def
      principal_try_from_parts_def principal_state_from_str_def principal_state_codes_def)

text \<open>The request that comes back a nanosecond later, for a mutating route.\<close>

definition demo_return :: web_request where
  "demo_return = demo_parts\<lparr>wq_cookie := Some (SESSION_COOKIE_NAME @ ascii ''='' @ replicate 32 97), wq_csrf := Some (replicate 32 98)\<rparr>"

lemma demo_tokens: "issue_tokens demo_web (demo_env now) = Inr \<lparr>it_session_token = replicate 32 97,
  it_session_token_hash = replicate 32 97, it_csrf_token = replicate 32 98, it_csrf_token_hash = replicate 32 98\<rparr>"
  by (simp add: issue_tokens_def demo_env_def demo_web_def token_generate_def token_as_base64url_def token_digest_def)

theorem sign_in_opens_the_session_of_its_cookie_witness:
  "fst (run_alone Derived (resolve_session demo_web (demo_env 100000000001) demo_return True
       (\<lambda>resolved. Answer (case resolved of None \<Rightarrow> uncached_status 401 | Some _ \<Rightarrow> uncached_status 204)))
     (snd (run_alone Derived (login demo_web demo_web_config (demo_env 100000000000) demo_parts demo_login) demo_world)))
   = uncached_status 204"
proof -
  let ?env = "demo_env 100000000000"
  have policy: "password_satisfies_policy (lq_password demo_login)"
    by (simp add: password_satisfies_policy_def demo_login_def MIN_PASSWORD_CHARS_def ascii_def)
  have crates: "tokens_ok demo_web ?env"
    by (simp add: tokens_ok_def token_ok_def demo_env_def demo_web_def TOKEN_LENGTH_def byte_of_def base64url_char_def list_all_iff)
  have budget: "fst (reserve (id_tables (aw_identity demo_world)) (lq_username demo_login) (request_ip demo_web demo_parts)
      (we_rate_now ?env) (aw_limiter demo_world SignIn)) \<noteq> None"
    using demo_budget by (simp add: demo_world_def)
  have opens: "session_can_open (open_session ?env 1 tokens) (aw_identity demo_world)"
    if "issue_tokens demo_web ?env = Inr tokens" for tokens
    using that demo_tokens [of 100000000000]
    by (auto simp: session_can_open_def demo_world_def demo_identity_def principal_stored_def open_session_def session_new_def
        demo_env_def)
  have world: "aw_identity demo_world = demo_identity" by (simp add: demo_world_def)
  have role: "find_role_assignment 1 demo_identity = Inr None"
    by (simp add: find_role_assignment_def call_def demo_identity_def)
  from sign_in_opens_the_session_of_its_cookie [OF policy demo_account crates budget, where assignment = None and cfg = demo_web_config]
    opens world demo_principal role
  obtain r s w' where run: "run_alone Derived (login demo_web demo_web_config ?env demo_parts demo_login) demo_world = (r, w')"
    and next_request: "\<forall>env' rq'. presents r rq' \<and> we_resolve_now env' < we_now ?env + SESSION_LIFETIME \<longrightarrow>
        (\<exists>cookie w''. (w'' = w' \<or> w'' = snd (write_service (TouchSession (se_id s) (we_resolve_now env')) w'))
          \<and> (\<forall>mutation (k :: (auth_context \<times> session \<times> ustring) option \<Rightarrow> response handler). run_alone Derived (resolve_session demo_web env' rq' mutation k) w'
              = run_alone Derived (k (Some (session_context s None, s, cookie))) w''))"
    by auto
  have "r = signed_in_response ?env demo_parts \<lparr>it_session_token = replicate 32 97,
      it_session_token_hash = replicate 32 97, it_csrf_token = replicate 32 98, it_csrf_token_hash = replicate 32 98\<rparr>
      (open_session ?env 1 \<lparr>it_session_token = replicate 32 97,
      it_session_token_hash = replicate 32 97, it_csrf_token = replicate 32 98, it_csrf_token_hash = replicate 32 98\<rparr>)"
    using sign_in_run [OF policy demo_account demo_tokens budget, of demo_web_config] opens [OF demo_tokens] run by auto
  then have "presents r demo_return"
    using session_cookie_pair [of "replicate 32 97"]
    by (simp add: presents_def signed_in_response_def json_ok_def demo_return_def base64url_char_def list_all_iff)
  moreover have "we_resolve_now (demo_env 100000000001) < we_now ?env + SESSION_LIFETIME"
    by (simp add: demo_env_def SESSION_LIFETIME_def)
  ultimately obtain cookie w'' where
    "\<And>mutation (k :: (auth_context \<times> session \<times> ustring) option \<Rightarrow> response handler).
      run_alone Derived (resolve_session demo_web (demo_env 100000000001) demo_return mutation k) w'
      = run_alone Derived (k (Some (session_context s None, s, cookie))) w''"
    using next_request by blast
  then show ?thesis by (simp add: run run_alone_Answer)
qed

end
