(* ===== verification/Route_Properties.thy ===== *)
theory Route_Properties
  imports Route_Access
begin

text \<open>
  Every registered route resolves to the access its kind is meant to have, whatever strings stand for its
  parameters. The table is first reduced to the rows one method sees on one console.
\<close>

definition visible :: "table_row list \<Rightarrow> http_method \<Rightarrow> console_scope \<Rightarrow> (path_pattern \<times> route_access) list" where
  "visible rows m scope =
     map snd (filter (\<lambda>(route_method, pat, access). route_method = m
       \<and> \<not> (starts_with CENTER_SURFACE_PREFIX (pattern_text pat) \<and> scope \<noteq> Scope_Center)) rows)"

fun first_cover :: "(path_pattern \<times> route_access) list \<Rightarrow> string \<Rightarrow> route_access option" where
  "first_cover [] path = None"
| "first_cover ((pat, access) # rows) path = (if pattern_covers pat path then Some access else first_cover rows path)"

lemma table_entry_visible: "table_entry rows m path scope = first_cover (visible rows m scope) path"
  by (induction rows m path scope rule: table_entry.induct) (auto simp: visible_def)

lemma pattern_covers_simps [simp]:
  "pattern_covers (Exact p) path \<longleftrightarrow> path = p"
  "pattern_covers (Prefix p) path \<longleftrightarrow> starts_with p path \<or> path = p @ ''*''"
  by (simp_all add: pattern_covers_def)

lemmas table_defs = ROUTE_TABLE_def SESSION_ACCESS_def FLEET_ACCESS_def GROUP_ACCESS_def CENTER_ACCESS_def

lemma edge_get_rows:
  "visible ROUTE_TABLE GET Scope_Edge = [
    (Exact ''/api/v1/health'', Public),
    (Exact ''/api/v1/about'', Public),
    (Exact ''/api/v1/auth/me'', Public),
    (Exact ''/api/v1/admin/sessions'', Always ADMINISTRATOR_ONLY False),
    (Exact ''/api/v1/admin/users'', Always ADMINISTRATOR_ONLY False),
    (Exact ''/api/v1/audit'', GuardedOnly ADMINISTRATOR_OR_OPERATOR False),
    (Prefix ''/api/v1/operations'', GuardedOnly ROLES_ANY False),
    (Prefix ''/api/v1/batches'', GuardedOnly ROLES_ANY False),
    (Prefix ''/api/v1/artifacts'', GuardedOnly ROLES_ANY False),
    (Exact ''/api/v1/credentials'', GuardedOnly ADMINISTRATOR_ONLY False),
    (Prefix ''/api/v1/endpoints'', GuardedOnly ROLES_ANY False),
    (Prefix ''/api/v1/groups'', GuardedOnly ROLES_ANY False),
    (Exact ''/api/v1/tags'', GuardedOnly ROLES_ANY False),
    (Exact ''/api/v1/events'', GuardedOnly ROLES_ANY False),
    (Exact ''/api/v1/overview'', GuardedOnly ROLES_ANY False),
    (Prefix ''/api/v1/telemetry'', GuardedOnly ROLES_ANY False)]"
  by (simp add: visible_def table_defs CENTER_SURFACE_PREFIX_def)

lemma edge_post_rows:
  "visible ROUTE_TABLE POST Scope_Edge = [
    (Exact ''/api/v1/auth/login'', Public),
    (Exact ''/api/v1/auth/bootstrap'', Public),
    (Exact ''/api/v1/auth/logout'', Always ROLES_ANY True),
    (Exact ''/api/v1/auth/password'', Always ROLES_ANY True),
    (Exact ''/api/v1/admin/sessions'', Always ADMINISTRATOR_ONLY True),
    (Exact ''/api/v1/admin/users'', Always ADMINISTRATOR_ONLY True),
    (Prefix ''/api/v1/admin/users'', Always ADMINISTRATOR_ONLY True),
    (Exact ''/api/v1/operations'', GuardedOnly ADMINISTRATOR_OR_OPERATOR True),
    (Prefix ''/api/v1/artifacts'', GuardedOnly ADMINISTRATOR_OR_OPERATOR True),
    (Exact ''/api/v1/credentials'', GuardedOnly ADMINISTRATOR_ONLY True),
    (Prefix ''/api/v1/endpoints/trust'', GuardedOnly ADMINISTRATOR_ONLY True),
    (Exact ''/api/v1/endpoints/import'', GuardedOnly ADMINISTRATOR_ONLY True),
    (Exact ''/api/v1/endpoints/refresh'', GuardedOnly ADMINISTRATOR_ONLY True),
    (Exact ''/api/v1/endpoints'', GuardedOnly ADMINISTRATOR_ONLY True),
    (Exact ''/api/v1/groups'', GuardedOnly ADMINISTRATOR_ONLY True)]"
  by (simp add: visible_def table_defs CENTER_SURFACE_PREFIX_def)

lemma edge_put_rows:
  "visible ROUTE_TABLE PUT Scope_Edge = [
    (Prefix ''/api/v1/groups'', GuardedOnly ADMINISTRATOR_ONLY True),
    (Exact ''/api/v1/tags'', GuardedOnly ADMINISTRATOR_ONLY True)]"
  by (simp add: visible_def table_defs CENTER_SURFACE_PREFIX_def)

lemma edge_delete_rows:
  "visible ROUTE_TABLE DELETE Scope_Edge = [
    (Prefix ''/api/v1/endpoints'', GuardedOnly ADMINISTRATOR_ONLY True),
    (Prefix ''/api/v1/groups'', GuardedOnly ADMINISTRATOR_ONLY True)]"
  by (simp add: visible_def table_defs CENTER_SURFACE_PREFIX_def)

lemma center_get_rows:
  "visible ROUTE_TABLE GET Scope_Center = [
    (Exact ''/api/v1/health'', Public),
    (Exact ''/api/v1/about'', Public),
    (Exact ''/api/v1/auth/me'', Public),
    (Exact ''/api/v1/admin/sessions'', Always ADMINISTRATOR_ONLY False),
    (Exact ''/api/v1/admin/users'', Always ADMINISTRATOR_ONLY False),
    (Exact ''/api/v1/audit'', GuardedOnly ADMINISTRATOR_OR_OPERATOR False),
    (Prefix ''/api/v1/operations'', GuardedOnly ROLES_ANY False),
    (Prefix ''/api/v1/batches'', GuardedOnly ROLES_ANY False),
    (Prefix ''/api/v1/artifacts'', GuardedOnly ROLES_ANY False),
    (Exact ''/api/v1/credentials'', GuardedOnly ADMINISTRATOR_ONLY False),
    (Prefix ''/api/v1/endpoints'', GuardedOnly ROLES_ANY False),
    (Prefix ''/api/v1/groups'', GuardedOnly ROLES_ANY False),
    (Exact ''/api/v1/tags'', GuardedOnly ROLES_ANY False),
    (Exact ''/api/v1/events'', GuardedOnly ROLES_ANY False),
    (Exact ''/api/v1/overview'', GuardedOnly ROLES_ANY False),
    (Prefix ''/api/v1/telemetry'', GuardedOnly ROLES_ANY False),
    (Prefix ''/api/v1/center'', GuardedOnly ROLES_ANY False)]"
  by (simp add: visible_def table_defs CENTER_SURFACE_PREFIX_def)

lemma center_post_rows:
  "visible ROUTE_TABLE POST Scope_Center = [
    (Exact ''/api/v1/auth/login'', Public),
    (Exact ''/api/v1/auth/bootstrap'', Public),
    (Exact ''/api/v1/auth/logout'', Always ROLES_ANY True),
    (Exact ''/api/v1/auth/password'', Always ROLES_ANY True),
    (Exact ''/api/v1/admin/sessions'', Always ADMINISTRATOR_ONLY True),
    (Exact ''/api/v1/admin/users'', Always ADMINISTRATOR_ONLY True),
    (Prefix ''/api/v1/admin/users'', Always ADMINISTRATOR_ONLY True),
    (Exact ''/api/v1/operations'', GuardedOnly ADMINISTRATOR_OR_OPERATOR True),
    (Prefix ''/api/v1/artifacts'', GuardedOnly ADMINISTRATOR_OR_OPERATOR True),
    (Exact ''/api/v1/credentials'', GuardedOnly ADMINISTRATOR_ONLY True),
    (Prefix ''/api/v1/endpoints/trust'', GuardedOnly ADMINISTRATOR_ONLY True),
    (Exact ''/api/v1/endpoints/import'', GuardedOnly ADMINISTRATOR_ONLY True),
    (Exact ''/api/v1/endpoints/refresh'', GuardedOnly ADMINISTRATOR_ONLY True),
    (Exact ''/api/v1/endpoints'', GuardedOnly ADMINISTRATOR_ONLY True),
    (Exact ''/api/v1/groups'', GuardedOnly ADMINISTRATOR_ONLY True),
    (Prefix ''/api/v1/center/bindings'', GuardedOnly ADMINISTRATOR_ONLY True),
    (Exact ''/api/v1/center/operations'', GuardedOnly ADMINISTRATOR_OR_OPERATOR True)]"
  by (simp add: visible_def table_defs CENTER_SURFACE_PREFIX_def)

lemmas visible_rows = edge_get_rows edge_post_rows edge_put_rows edge_delete_rows center_get_rows center_post_rows

lemma route_access_visible:
  "route_access m path scope =
     (case first_cover (visible ROUTE_TABLE (if m = HEAD then GET else m) scope) path of
        None \<Rightarrow> Public | Some access \<Rightarrow> access)"
  by (simp add: route_access_def table_entry_visible)

lemma edge_fleet_routes_resolve:
  "list_all (\<lambda>(m, path, kind). route_access m (fill path args) Scope_Edge = expected_edge_access kind) EDGE_FLEET_ROUTES"
  by (simp add: EDGE_FLEET_ROUTES_def route_access_visible visible_rows)

lemma edge_other_routes_resolve:
  "list_all (\<lambda>(m, path, kind). route_access m (fill path args) Scope_Edge = expected_edge_access kind) EDGE_OTHER_ROUTES"
  by (simp add: EDGE_OTHER_ROUTES_def route_access_visible visible_rows)

lemma center_routes_resolve:
  "list_all (\<lambda>(m, path, kind). route_access m (fill path args) Scope_Center = expected_center_access kind) CENTER_ROUTES"
  by (simp add: CENTER_ROUTES_def route_access_visible visible_rows)

lemma head_is_get: "route_access HEAD path scope = route_access GET path scope"
  by (simp add: route_access_def)

text \<open>A request that changes something needs the CSRF token of its session, but for the two that open one.\<close>

definition protects_mutation :: "http_method \<Rightarrow> route_access \<Rightarrow> bool \<Rightarrow> bool" where
  "protects_mutation m access opens_session \<longleftrightarrow>
     m = GET
   \<or> (case access of Public \<Rightarrow> opens_session | Always roles mutation \<Rightarrow> mutation | GuardedOnly roles mutation \<Rightarrow> mutation)"

definition edge_opens_session :: "edge_route_kind \<Rightarrow> bool" where
  "edge_opens_session kind \<longleftrightarrow> kind = Edge_Login \<or> kind = Edge_BootstrapComplete"

definition center_opens_session :: "center_route_kind \<Rightarrow> bool" where
  "center_opens_session kind \<longleftrightarrow> kind = Center_Login \<or> kind = Center_BootstrapComplete"

lemma expected_access_protects:
  "list_all (\<lambda>(m, path, kind). protects_mutation m (expected_edge_access kind) (edge_opens_session kind)) EDGE_ROUTES"
  "list_all (\<lambda>(m, path, kind). protects_mutation m (expected_center_access kind) (center_opens_session kind)) CENTER_ROUTES"
  by (simp_all add: EDGE_ROUTES_def EDGE_FLEET_ROUTES_def EDGE_OTHER_ROUTES_def CENTER_ROUTES_def protects_mutation_def
      edge_opens_session_def center_opens_session_def)

text \<open>
  C4: The prefix table gives every registered route of both consoles the access its kind is meant to have, whatever
  strings stand for the parameters of the path, and HEAD what GET has; so every route that changes something
  checks the CSRF token of a session, but for the sign-in and the first-startup claim.
\<close>

theorem every_route_resolves:
  "list_all (\<lambda>(m, path, kind). route_access m (fill path args) Scope_Edge = expected_edge_access kind
      \<and> protects_mutation m (route_access m (fill path args) Scope_Edge) (edge_opens_session kind)) EDGE_ROUTES
 \<and> list_all (\<lambda>(m, path, kind). route_access m (fill path args) Scope_Center = expected_center_access kind
      \<and> protects_mutation m (route_access m (fill path args) Scope_Center) (center_opens_session kind)) CENTER_ROUTES
 \<and> (\<forall>path scope. route_access HEAD path scope = route_access GET path scope)"
proof -
  have both: "list_all P xs \<Longrightarrow> list_all Q xs \<Longrightarrow> (\<And>x. P x \<Longrightarrow> Q x \<Longrightarrow> R x) \<Longrightarrow> list_all R xs" for P Q R and xs :: "'a list"
    by (induction xs) auto
  have edge: "list_all (\<lambda>(m, path, kind). route_access m (fill path args) Scope_Edge = expected_edge_access kind) EDGE_ROUTES"
    using edge_fleet_routes_resolve edge_other_routes_resolve by (simp add: EDGE_ROUTES_def)
  show ?thesis
    by (intro conjI both [OF edge expected_access_protects(1)] both [OF center_routes_resolve expected_access_protects(2)])
      (auto simp: head_is_get)
qed

end
