(* ===== verification/Spec2Isabelle.thy ===== *)
theory Spec2Isabelle
  imports Monitor_Properties Repository_Properties Engine_On_Sqlite Audit_Trail Center_Protocol
    Capability Batch_Operation Inbox_Properties Scheduler_Properties Firmware_Artifact Rate_Limiter_Properties
    Auth_Properties Session_Rows Sign_In Route_Properties
begin

text \<open>
  A verification development for Rutilus, a Rust console that manages fleets of servers over Redfish.
  Paths below are relative to \<open>src/\<close>.

  \<^bold>\<open>The program.\<close> An operation is one change asked of one or more managed endpoints. It is accepted
  with a Redfish command, persisted in SQLite with the command encrypted, driven through a state machine
  by a scheduler, an executor and an engine, and, when the device answers with a long-running task, followed to its end by a monitor
  that re-reads the device before it calls the operation succeeded. Everything that happens is an audit
  fact in an append-only log. Sites may be bound to a center: a binding code registers a site once, the
  center queues offers of operations in an outbox, the site stores what it receives in an inbox, and
  both speak a framed protocol after negotiating the same baseline.

  \<^bold>\<open>Foundations.\<close> \<open>Prelude\<close> has identities, instants and bytes, the result type (\<open>Inl\<close> is \<open>Err\<close>) with
  the sequencing the \<open>?\<close> operator and the loops perform, and the big-endian byte views. \<open>Rust_Text\<close>
  models strings as lists of Unicode scalar values, UTF-8 lengths and the character tests the code uses.
  \<open>Stable_Code\<close> is the contract of every persisted enum, the locale \<open>stable_code\<close>: parsing accepts
  exactly the printed codes. Every enum of the model interprets it with its own functions.

  \<^bold>\<open>Operations.\<close> \<open>Operation\<close> is \<open>domain/src/operation.rs\<close>: states, events, the transition matrix, the
  aggregate and its rehydration (C2: the lifecycle ends; further theorems give the paths to success and what the
  ambiguous endings mean).
  \<open>Batch_Operation\<close> is \<open>domain/src/batch_operation.rs\<close> and \<open>failure_kind.rs\<close> (the verdict of a batch and
  its summary). \<open>Command_Cipher\<close> is the encryption envelope of \<open>security/src/command_cipher.rs\<close>
  (C6); XChaCha20-Poly1305 and base64 are parameters with their documented laws as hypotheses.

  \<^bold>\<open>Store and engine.\<close> \<open>Operation_Store\<close> is the trait of \<open>operation-engine/src/operation_store.rs\<close> as a
  record of functions, and its contract as a locale. \<open>Operation_Repository\<close> is the SQLite implementation,
  \<open>persistence/src/operation_repository.rs\<close>: tables are lists of rows, a transaction runs on a copy and
  is discarded when any call fails, and which calls fail is part of the store. \<open>Operation_Engine\<close> is
  \<open>operation-engine/src/operation_engine.rs\<close>, proved against the contract. \<open>Operation_Repository_Laws\<close>
  and \<open>Engine_On_Sqlite\<close> interpret the contract with the SQLite functions and carry the results over
  (C8 to C12: terminal states are final, interleaved compare-and-set drivers persist only legal
  histories, a step writes its two columns and nothing else, what a compare-and-set reports is true whatever others do
  between its awaits, recovery finds what it must). \<open>Repository_Properties\<close> has the repository's round trip,
  idempotence, batches, listings and clocks (C13, C14, C16 to C18).

  \<^bold>\<open>Capabilities and protocol.\<close> \<open>Capability\<close> is \<open>domain/src/capability.rs\<close>: the ledger, its
  codes and states. \<open>Capability_Query\<close> is \<open>application/src/capability_query.rs\<close>, the merge of what was observed
  on an endpoint with the ledger. \<open>Center_Protocol\<close> is the frame codec and the negotiation of \<open>center-protocol/src\<close> (C20); prost and SHA-256 are
  parameters.

  \<^bold>\<open>Audit.\<close> \<open>Audit_Event\<close> is \<open>domain/src/audit.rs\<close> (C24: the table of the contexts that are accepted). \<open>Audit_Repository\<close> is
  \<open>persistence/src/audit_repository.rs\<close>; \<open>Audit_Trail\<close> proves that events survive their rows, that trails
  stay valid lifecycles and that appends are idempotent (C25 to C27). \<open>Endpoint_Address\<close> is the
  address validation the audit targets use, \<open>domain/src/endpoint_address.rs\<close>, on the \<open>url\<close> crate as a
  parameter.

  \<^bold>\<open>Remote tasks.\<close> \<open>Remote_Task\<close> and \<open>Remote_Task_Repository\<close> are the task record and its table.
  \<open>Task_Monitor\<close> is \<open>application/src/task_monitor.rs\<close>: one poll with everything it calls; the device reader,
  the verifier and the audit writer are parameters. \<open>Monitor_Properties\<close> shows that a poll implements
  a decision table, that success is always proven by a re-read, what the audit fact says, and that
  the terminal fact is refused by the audit repository (C28 to C31).

  \<^bold>\<open>Commands and artifacts.\<close> \<open>Redfish_Command\<close> is \<open>domain/src/redfish_command.rs\<close>: every command with its
  payload and wire names, and the parsers of identifiers and texts. \<open>Firmware_Artifact\<close> is
  \<open>domain/src/artifact.rs\<close>: digests, names and the upload aggregate with 64-bit counters.

  \<^bold>\<open>Executor.\<close> \<open>Operation_Executor\<close> is \<open>application/src/operation_executor.rs\<close>: an execution attempt (start
  fact, pre-flight of endpoint, capability and artifact, validation steps, dispatch, verification,
  terminal fact) and a recovery attempt. The boundaries are the record \<open>executor\<close>; the writes handed to
  the device are kept in the attempt's world. \<open>Executor_Laws\<close> states the decision table of an attempt
  and proves it in the locale \<open>executor_store\<close>, which extends the contract of the stores;
  \<open>Executor_On_Sqlite\<close> interprets it with the repositories and shows that on a working site no attempt
  is interrupted. \<open>Executor_Properties\<close> has the table on SQLite (C40) and that a write is sent at most
  once over every history (C39). \<open>Executor_Demo\<close> is the concrete site of the witnesses.

  \<^bold>\<open>Scheduler.\<close> \<open>Scheduler\<close> is \<open>app/src/scheduler.rs\<close>: a sweep lists the unfinished operations and runs the
  executor pass and the monitor pass concurrently. \<open>Scheduler_Progress\<close> shows that a poll on a working
  site is never interrupted, \<open>Scheduler_Properties\<close> that one sweep settles every operation under every
  interleaving of the passes (C19).

  \<^bold>\<open>The center.\<close> \<open>Managed_Endpoint\<close> is \<open>domain/src/endpoint.rs\<close>: certificate fingerprints with their text
  form, trust and the endpoint aggregate. \<open>Center_Domain\<close> is \<open>domain/src/center.rs\<close>: binding codes, the
  binding aggregate, outbox and inbox entries with their state machines, and sync streams.
  \<open>Center_Store\<close> has the four tables and the transaction every write method runs in.
  \<open>Center_Binding_Repository\<close>, \<open>Center_Outbox\<close> and \<open>Center_Inbox\<close> are the repositories of the same names
  in \<open>persistence/src\<close> (the last one with \<open>sync_cursor_repository.rs\<close>), with the keys, unique indexes and
  CHECK constraints of the migration \<open>m20260807_000009_center_tables.rs\<close>. Bindings: a code binds once and
  identities stay one to one (C32, C33). \<open>Outbox_Properties\<close>: sequences are never reused although
  acknowledgements delete history, the evidence of an offer survives, what is queued is delivered last
  and intact (C34 to C36). \<open>Inbox_Properties\<close>: an offer takes effect once and is kept as it came (C37,
  C38); the counting argument is the locale \<open>leveled\<close> of \<open>Histories\<close>, interpreted with the steps of the
  inbox here and with the attempts of the executor for C39.

  \<^bold>\<open>Identity and sign-in.\<close> \<open>Principal_Domain\<close> has the users, roles, one-time codes and passwords of
  \<open>domain/src/user.rs\<close>, \<open>domain/src/password.rs\<close> and \<open>security/src/password_hash.rs\<close>, \<open>Session_Domain\<close> the
  sessions and tokens, \<open>Totp\<close> the one-time codes of \<open>domain/src/totp.rs\<close>, \<open>Credential_Cipher\<close> the protection
  of stored secrets. \<open>Identity_Store\<close> has the six tables and their row maps, \<open>Identity_Repository\<close> every
  method of the five repositories over them. \<open>Rate_Limiter\<close> is the sign-in limiter of \<open>web/src/auth.rs\<close>;
  \<open>Rate_Limiter_Properties\<close> shows that its budget holds over every window, up to
  the disorder of the instants, which are read before the lock is taken (C23).

  \<^bold>\<open>The sign-in surface.\<close> \<open>Auth_Services\<close> is the boundary of the handlers, the trait \<open>AuthServices\<close> of
  \<open>web/src/auth.rs\<close> with its implementation in \<open>app/src/standalone_runtime.rs\<close>. A handler is a tree of calls, every
  await a constructor with the arguments of the call and the continuation of its answer; \<open>perform\<close> runs one
  call against the repositories, the limiters and the audit log, and \<open>interleave\<close> runs any number of
  handlers under a schedule that also decides which database calls and derivations fail. \<open>Web_Responses\<close> has
  cookies, tokens, responses and audit records, \<open>Web_Auth\<close> the handlers of sign-in, sign-out, the first-startup claim
  and the password change, \<open>Web_Admin\<close> those of sessions and users. \<open>Route_Access\<close> is the authorization
  table with both route registries of \<open>web/src/lib.rs\<close>, \<open>Web_Middleware\<close> the middleware in front of every handler
  and \<open>serve\<close>, a request through both. A request reads the clock once in the middleware and once in its
  handler, as the code does; identifiers, tokens and salts come from its environment.
  \<open>Route_Properties\<close>: the prefix table resolves every registered route to the access its kind is meant to
  have, whatever is substituted for its path parameters (C4). \<open>Identity_Effects\<close> says what every write leaves
  unchanged and that a reassigned role keeps its site (C15). \<open>Auth_Laws\<close> is the calculus of interleaved handlers: \<open>runs\<close> carries a fact about the answers through a
  handler, and the locales \<open>store_invariant\<close> (what every call keeps), \<open>settling\<close> (what a call establishes and
  every later call keeps) and \<open>once_only\<close> (what at most one handler can do) lift facts of single calls to
  every schedule; \<open>Identity_Invariants\<close> interprets them with the repositories. \<open>Auth_Properties\<close>: a dead session
  opens nothing (C1), a time step signs in once (C3), the claim succeeds once (C7), a password change ends the
  open sessions (C22). \<open>Session_Rows\<close>: session rows stay readable, exactly unless a bulk revocation is
  backdated (C21). \<open>Sign_In\<close>: a request that sends back the cookie and the
  anti-forgery token of a sign-in is resolved to the session it opened (C5).
  \<open>Auth_Demo\<close> is the concrete console of the witnesses.

  \<^bold>\<open>Bounds and termination.\<close> No definition uses fuel: the loops of the modelled code run over finite
  lists and are structural recursion, so every method returns. Sequences and counters keep their
  width where the code checks or converts it (the outbox sequence is bounded by the signed 64-bit
  maximum, the unchecked successor wraps, frame lengths are 32-bit, percentages are converted).

  \<^bold>\<open>Concurrency.\<close> Write methods hold the write permit and one transaction, so each is one atomic step.
  A method that makes several separate calls (a poll, an attempt, the self-healing lookup) is modelled
  as one uninterrupted run; attempts on the same endpoint are serial in the code, by the write gate of
  the scheduler. Interleavings of whole methods are the step relations and histories of
  \<open>Engine_On_Sqlite\<close>, \<open>Center_Binding_Repository\<close>, \<open>Outbox_Properties\<close>, \<open>Inbox_Properties\<close> and
  \<open>Executor_Properties\<close>, with database failures switched on and off between the steps; a sweep takes the
  interleaving of its drives and polls from an arbitrary schedule. The handlers of the sign-in surface are split at
  every await, and any number of them interleave call by call.

  \<^bold>\<open>Idealizations.\<close> Which database calls fail is a function of the kind of call, fixed within one method or
  attempt and changed between them, so an attempt whose first update succeeds and whose second fails is covered only by
  splitting it there. A failed transaction is rolled back, as SQLite does when it is dropped; that errors leave the tables
  alone is this assumption, not a result. Instants are integers: the listings order rows by instant, where SQLite compares
  the stored text. The command type of the repository is a parameter whose JSON form is assumed exact; of
  \<open>RedfishCommand\<close> this holds except for set points that are not numbers or that lose their last digits in
  the decimal form, so the round trips are about the commands without those. The failed submissions and redeliveries
  of stored identities are driver steps of \<open>Operation_Engine\<close>; the histories of the outbox leave out a method that
  only tests call. The two passes of a sweep interleave whole drives and polls.

  \<^bold>\<open>Not modelled.\<close> \<open>infra-redfish\<close> is device I/O over the nv-redfish crates, which are not part of the
  repository. The handlers of the product routes in \<open>web/src/lib.rs\<close> and the types of \<open>api\<close> translate between JSON and
  application services; of these the operation submission, the CSV import, the endpoint and group use cases, the
  center dispatch, session, projection and sync, and the event, telemetry and artifact services are not
  modelled yet, nor are their repositories. \<open>ui\<close> is the browser console; the rest of \<open>app\<close> is process wiring;
  migrations are reflected in the table models only. Display texts of errors are left out, as are the security
  headers of responses and the serialization of bodies.
\<close>

end
